(* ===== verification/Prelude.thy ===== *)
theory Prelude
  imports Main "HOL-Library.AList" "HOL-Library.Word"
begin

text \<open>
  The prelude of the development: the machine-integer types of the code, the
  \<^verbatim>\<open>ipc::Result\<close> struct every service returns, the facts on association lists that stand
  for the C++ hash maps, and the parts of the C++ standard library the services use on
  strings: \<^verbatim>\<open>std::to_string\<close>, \<^verbatim>\<open>std::stoul\<close>, \<^verbatim>\<open>std::stoull\<close>, \<^verbatim>\<open>std::stoll\<close> and
  \<^verbatim>\<open>std::getline\<close> with a delimiter.

  Hash maps. A \<^verbatim>\<open>std::unordered_map\<close> is an association list with distinct keys, read with
  \<^const>\<open>map_of\<close> and changed with \<^const>\<open>AList.update\<close> and \<^const>\<open>AList.delete\<close>. The position of an
  entry stands for its place in the iteration order, which C++ leaves open; a lemma about a
  loop over a map is therefore stated for every list with distinct keys.
\<close>

section \<open>Types\<close>

type_synonym u8 = "8 word"
type_synonym u16 = "16 word"
type_synonym u32 = "32 word"
type_synonym u64 = "64 word"

text \<open>The struct \<^verbatim>\<open>ipc::Result\<close>; \<^verbatim>\<open>SendResult\<close> and \<^verbatim>\<open>DispatchResult\<close> are aliases of it.\<close>

record result =
  ok :: bool
  message :: string

definition Success :: result where
  "Success = \<lparr>ok = True, message = []\<rparr>"

definition Failure :: "string \<Rightarrow> result" where
  "Failure error = \<lparr>ok = False, message = error\<rparr>"

datatype std_exception = invalid_argument | out_of_range

section \<open>Decimal text\<close>

definition digit_char :: "nat \<Rightarrow> char" where
  "digit_char n = char_of (48 + n)"

definition is_digit :: "char \<Rightarrow> bool" where
  "is_digit c \<longleftrightarrow> 48 \<le> (of_char c :: nat) \<and> (of_char c :: nat) \<le> 57"

definition digit_val :: "char \<Rightarrow> nat" where
  "digit_val c = of_char c - 48"

fun show_nat :: "nat \<Rightarrow> string" where
  "show_nat n = (if n < 10 then [digit_char n] else show_nat (n div 10) @ [digit_char (n mod 10)])"

declare show_nat.simps [simp del]

definition digits_val :: "string \<Rightarrow> nat" where
  "digits_val ds = foldl (\<lambda>a c. a * 10 + digit_val c) 0 ds"

text \<open>\<^verbatim>\<open>std::to_string\<close> on an unsigned integer.\<close>

definition to_string :: "'a::len word \<Rightarrow> string" where
  "to_string w = show_nat (unat w)"

text \<open>\<^verbatim>\<open>std::to_string\<close> on a signed integer.\<close>

definition show_int :: "int \<Rightarrow> string" where
  "show_int i = (if i < 0 then CHR ''-'' # show_nat (nat (- i)) else show_nat (nat i))"

definition is_space :: "char \<Rightarrow> bool" where
  "is_space c \<longleftrightarrow> c = CHR '' '' \<or> (9 \<le> (of_char c :: nat) \<and> (of_char c :: nat) \<le> 13)"

definition split_sign :: "string \<Rightarrow> bool \<times> string" where
  "split_sign s = (case s of
      [] \<Rightarrow> (False, [])
    | c # r \<Rightarrow> if c = CHR ''-'' then (True, r) else if c = CHR ''+'' then (False, r) else (False, s))"

text \<open>
  \<^verbatim>\<open>std::stoull\<close> in base 10 (and \<^verbatim>\<open>std::stoul\<close>, since \<^verbatim>\<open>unsigned long\<close> has 64 bits on the
  platform the project builds for): leading white space and a sign are skipped, the longest run of
  digits is read, what follows it is ignored; a missing digit and a value beyond 64 bits
  are exceptions, and a minus sign negates modulo \<open>2 ^ 64\<close>.
\<close>

definition stoull :: "string \<Rightarrow> std_exception + u64" where
  "stoull s =
     (let (neg, r) = split_sign (dropWhile is_space s); ds = takeWhile is_digit r
      in if ds = [] then Inl invalid_argument
         else if 2 ^ 64 \<le> digits_val ds then Inl out_of_range
         else Inr (if neg then - of_nat (digits_val ds) else of_nat (digits_val ds)))"

text \<open>\<^verbatim>\<open>std::stoll\<close>: the same text, with the range of a signed 64-bit integer.\<close>

definition stoll :: "string \<Rightarrow> std_exception + int" where
  "stoll s =
     (let (neg, r) = split_sign (dropWhile is_space s); ds = takeWhile is_digit r;
          v = (if neg then - int (digits_val ds) else int (digits_val ds))
      in if ds = [] then Inl invalid_argument
         else if v < - (2 ^ 63) \<or> 2 ^ 63 - 1 < v then Inl out_of_range
         else Inr v)"

text \<open>
  \<^verbatim>\<open>std::getline(stream, text, delimiter)\<close> on what is left of a string stream: it fails when
  nothing is left to read; otherwise it returns the text before the delimiter and what
  follows the delimiter.
\<close>

definition getline :: "char \<Rightarrow> string \<Rightarrow> (string \<times> string) option" where
  "getline d s = (if s = [] then None
     else Some (takeWhile (\<lambda>c. c \<noteq> d) s, drop 1 (dropWhile (\<lambda>c. c \<noteq> d) s)))"

section \<open>Results and association lists\<close>

named_theorems result_simps \<open>how the fields of the two result constructors read\<close>

lemma ok_Success [simp, result_simps]: "ok Success"
  by (simp add: Success_def)

lemma not_ok_Failure [simp, result_simps]: "\<not> ok (Failure e)"
  by (simp add: Failure_def)

lemma message_Failure [simp, result_simps]: "message (Failure e) = e"
  by (simp add: Failure_def)

lemma Success_neq_Failure [simp, result_simps]: "Success \<noteq> Failure e" "Failure e \<noteq> Success"
  by (simp_all add: Success_def Failure_def)

lemma Failure_inject [simp, result_simps]: "Failure a = Failure b \<longleftrightarrow> a = b"
  by (simp add: Failure_def)

declare AList.update_conv' [simp] AList.delete_conv' [simp] map_of_eq_Some_iff [simp del]

lemma distinct_update_keys [simp, intro]:
  "distinct (map fst m) \<Longrightarrow> distinct (map fst (AList.update k v m))"
  by (rule AList.distinct_update)

lemma distinct_delete_keys [simp, intro]:
  "distinct (map fst m) \<Longrightarrow> distinct (map fst (AList.delete k m))"
  by (rule AList.distinct_delete)

lemma map_of_mem_iff: "distinct (map fst m) \<Longrightarrow> map_of m k = Some v \<longleftrightarrow> (k, v) \<in> set m"
  by (simp add: map_of_eq_Some_iff)

lemma find_SomeD: "find P xs = Some x \<Longrightarrow> x \<in> set xs \<and> P x"
  by (induction xs) (auto split: if_splits)

lemma word_less_plus_1:
  fixes w :: "'a::len word"
  assumes "w + 1 \<noteq> 0"
  shows "w < w + 1"
proof -
  have "unat (w + 1) = Suc (unat w)" using assms unatSuc [of w] by (simp add: add.commute)
  then show ?thesis by (simp add: word_less_nat_alt)
qed

section \<open>Facts about decimal text\<close>

lemma of_char_digit_char: "n < 10 \<Longrightarrow> (of_char (digit_char n) :: nat) = 48 + n"
  by (simp add: digit_char_def)

lemma is_digit_digit_char [simp]: "n < 10 \<Longrightarrow> is_digit (digit_char n)"
  by (simp add: is_digit_def of_char_digit_char)

lemma digit_val_digit_char [simp]: "n < 10 \<Longrightarrow> digit_val (digit_char n) = n"
  by (simp add: digit_val_def of_char_digit_char)

lemma show_nat_nonempty [simp]: "show_nat n \<noteq> []"
  by (subst show_nat.simps) simp

lemma show_nat_digits: "c \<in> set (show_nat n) \<Longrightarrow> is_digit c"
proof (induction n rule: show_nat.induct)
  case (1 n)
  then show ?case
    by (subst (asm) show_nat.simps) (auto split: if_splits)
qed

lemma digits_val_snoc: "digits_val (xs @ [c]) = digits_val xs * 10 + digit_val c"
  by (simp add: digits_val_def)

lemma digits_val_show_nat [simp]: "digits_val (show_nat n) = n"
proof (induction n rule: show_nat.induct)
  case (1 n)
  show ?case
  proof (cases "n < 10")
    case True
    then show ?thesis by (subst show_nat.simps) (simp add: digits_val_def)
  next
    case False
    with "1.IH" show ?thesis
      by (subst show_nat.simps) (simp add: digits_val_snoc)
  qed
qed

lemma show_nat_inject [simp]: "show_nat a = show_nat b \<longleftrightarrow> a = b"
  by (metis digits_val_show_nat)

lemma to_string_inject [simp]: "to_string (a :: 'a::len word) = to_string b \<longleftrightarrow> a = b"
  by (simp add: to_string_def word_unat_eq_iff)

lemma to_string_nonempty [simp]: "to_string w \<noteq> []"
  by (simp add: to_string_def)

lemma to_string_digits: "c \<in> set (to_string w) \<Longrightarrow> is_digit c"
  by (auto simp: to_string_def dest: show_nat_digits)

lemma show_nat_no_minus: "show_nat n \<noteq> CHR ''-'' # xs"
proof
  assume "show_nat n = CHR ''-'' # xs"
  then have "is_digit (CHR ''-'')" using show_nat_digits [of "CHR ''-''" n] by simp
  then show False by (simp add: is_digit_def)
qed

lemma show_int_inject [simp]: "show_int a = show_int b \<longleftrightarrow> a = b"
  using show_nat_no_minus [of "nat a" "show_nat (nat (- b))"] show_nat_no_minus [of "nat b" "show_nat (nat (- a))"]
  by (auto simp: show_int_def split: if_splits)

lemma digit_not_space: "is_digit c \<Longrightarrow> \<not> is_space c"
  by (auto simp: is_digit_def is_space_def)

lemma digit_not_sign: "is_digit c \<Longrightarrow> c \<noteq> CHR ''-'' \<and> c \<noteq> CHR ''+'' \<and> c \<noteq> CHR '':''"
  by (auto simp: is_digit_def)

lemma colon_notin_to_string [simp]: "CHR '':'' \<notin> set (to_string w)"
  by (metis to_string_digits digit_not_sign)

lemma minus_notin_to_string [simp]: "CHR ''-'' \<notin> set (to_string w)"
  by (metis to_string_digits digit_not_sign)

lemma skip_front_to_string:
  "split_sign (dropWhile is_space (to_string w @ rest)) = (False, to_string w @ rest)"
proof -
  obtain c cs where s: "to_string w = c # cs"
    by (meson list.exhaust to_string_nonempty)
  then have "is_digit c" using to_string_digits [of c w] by simp
  with s show ?thesis
    by (simp add: split_sign_def digit_not_space digit_not_sign)
qed

lemma takeWhile_to_string:
  "rest = [] \<or> \<not> is_digit (hd rest) \<Longrightarrow> takeWhile is_digit (to_string w @ rest) = to_string w"
  by (cases rest) (auto simp: takeWhile_append2 to_string_digits takeWhile_tail
      intro!: takeWhile_eq_all_conv [THEN iffD2])

lemma stoull_to_string_append:
  fixes w :: "'a::len word"
  assumes "rest = [] \<or> \<not> is_digit (hd rest)" and "LENGTH('a) \<le> 64"
  shows "stoull (to_string w @ rest) = Inr (ucast w)"
proof -
  have "unat w < 2 ^ LENGTH('a)" by simp
  also have "(2::nat) ^ LENGTH('a) \<le> 2 ^ 64" 
    by (rule power_increasing) (use assms(2) in auto)
  finally have "unat w < 2 ^ 64" .
  moreover have "digits_val (to_string w) = unat w" by (simp add: to_string_def)
  ultimately show ?thesis
    by (simp add: stoull_def skip_front_to_string takeWhile_to_string [OF assms(1)])
qed

lemma stoull_to_string: "LENGTH('a::len) \<le> 64 \<Longrightarrow> stoull (to_string (w :: 'a word)) = Inr (ucast w)"
  using stoull_to_string_append [of "[]" w] by simp

lemma stoll_show_int: "0 \<le> n \<Longrightarrow> n < 2 ^ 63 \<Longrightarrow> stoll (show_int n) = Inr n"
proof -
  assume n: "0 \<le> n" "n < 2 ^ 63"
  obtain c cs where s: "show_nat (nat n) = c # cs" by (meson list.exhaust show_nat_nonempty)
  then have c: "is_digit c" using show_nat_digits [of c "nat n"] by simp
  have digits: "takeWhile is_digit (show_nat (nat n)) = show_nat (nat n)"
    using show_nat_digits by (simp add: takeWhile_eq_all_conv)
  have "split_sign (dropWhile is_space (show_nat (nat n))) = (False, show_nat (nat n))"
    using c by (simp add: s split_sign_def digit_not_space digit_not_sign)
  moreover have "show_int n = show_nat (nat n)" using n(1) by (simp add: show_int_def)
  ultimately show ?thesis using n by (simp add: stoll_def Let_def digits)
qed

section \<open>Facts about fields between delimiters\<close>

lemma getline_field: "d \<notin> set xs \<Longrightarrow> getline d (xs @ d # ys) = Some (xs, ys)"
  by (induction xs) (auto simp: getline_def)

lemma takeWhile_notin: "d \<notin> set xs \<Longrightarrow> takeWhile (\<lambda>c. c \<noteq> d) xs = xs"
  by (induction xs) auto

lemma dropWhile_notin: "d \<notin> set xs \<Longrightarrow> dropWhile (\<lambda>c. c \<noteq> d) xs = []"
  by (induction xs) auto

lemma getline_last: "d \<notin> set xs \<Longrightarrow> xs \<noteq> [] \<Longrightarrow> getline d xs = Some (xs, [])"
  by (simp add: getline_def takeWhile_notin dropWhile_notin)

end
