(* ===== verification/Ipc_Base.thy ===== *)
theory Ipc_Base
  imports Prelude
begin

text \<open>
  The data model of the IPC framework (src/src/framework/ipc/base): process identities,
  discovery records, receiver addresses, receiver locations, envelopes. Enumerations that
  the data codec casts from the wire (\<^verbatim>\<open>ReceiverType\<close>, \<^verbatim>\<open>FrameKind\<close>) may hold a value without an
  enumerator, so they are kept at their underlying integer type; the others are datatypes.
\<close>

type_synonym ServiceType = u32
type_synonym InstanceId = u32
type_synonym IncarnationId = u64
type_synonym ReceiverKeyPart = u64
type_synonym ConnectionId = u64
type_synonym RequestId = u64
type_synonym ByteBuffer = "u8 list"
type_synonym StringMap = "(string \<times> string) list"

section \<open>Processes\<close>

record ProcessId =
  service_type :: ServiceType
  instance_id :: InstanceId

record ProcessRef =
  process_id :: ProcessId
  incarnation_id :: IncarnationId

record Endpoint =
  host :: string
  port :: u16

record ProcessDescriptor =
  process :: ProcessRef
  service_name :: string
  listen_endpoint :: Endpoint
  protocol_version :: u32
  start_time_unix_ms :: u64
  labels :: StringMap
  relay_capabilities :: "ServiceType list"

definition mk_process_id :: "ServiceType \<Rightarrow> InstanceId \<Rightarrow> ProcessId" where
  "mk_process_id st inst = \<lparr>service_type = st, instance_id = inst\<rparr>"

definition default_ProcessRef :: ProcessRef where
  "default_ProcessRef = \<lparr>process_id = \<lparr>service_type = 0, instance_id = 0\<rparr>, incarnation_id = 0\<rparr>"

text \<open>
  The 64-bit key of a process id that both discovery classes and the node service use:
  \<^verbatim>\<open>(service_type << 32) | instance_id\<close>.
\<close>

definition MakeProcessKey :: "ProcessId \<Rightarrow> u64" where
  "MakeProcessKey i = or (push_bit 32 (ucast (service_type i))) (ucast (instance_id i))"

section \<open>Receivers\<close>

type_synonym ReceiverType = u16

abbreviation RT_process :: ReceiverType where "RT_process \<equiv> 1"
abbreviation RT_player :: ReceiverType where "RT_player \<equiv> 2"
abbreviation RT_system :: ReceiverType where "RT_system \<equiv> 3"
abbreviation RT_service :: ReceiverType where "RT_service \<equiv> 4"
abbreviation RT_group :: ReceiverType where "RT_group \<equiv> 5"

record ReceiverAddress =
  rtype :: ReceiverType
  key_hi :: ReceiverKeyPart
  key_lo :: ReceiverKeyPart

datatype ReceiverLocationKind = loc_local | loc_single_process | loc_multi_process | loc_unresolved

record ReceiverLocation =
  loc_kind :: ReceiverLocationKind
  loc_processes :: "ProcessRef list"
  loc_version :: u64

definition default_ReceiverLocation :: ReceiverLocation where
  "default_ReceiverLocation = \<lparr>loc_kind = loc_unresolved, loc_processes = [], loc_version = 0\<rparr>"

record BroadcastScope =
  scope_service_type :: "ServiceType option"
  required_labels :: StringMap
  include_local :: bool

definition default_BroadcastScope :: BroadcastScope where
  "default_BroadcastScope = \<lparr>scope_service_type = None, required_labels = [], include_local = True\<rparr>"

section \<open>Envelopes\<close>

datatype DeliverySemantic = direct_delivery | broadcast_delivery

record EnvelopeHeader =
  source_process :: ProcessRef
  semantic :: DeliverySemantic
  target_receiver :: ReceiverAddress
  resolved_target_process :: "ProcessRef option"
  request_id :: RequestId
  flags :: u32

record Envelope =
  header :: EnvelopeHeader
  broadcast_scope :: BroadcastScope
  payload_type_url :: string
  payload_bytes :: ByteBuffer

definition default_EnvelopeHeader :: EnvelopeHeader where
  "default_EnvelopeHeader = \<lparr>source_process = default_ProcessRef, semantic = direct_delivery,
     target_receiver = \<lparr>rtype = RT_process, key_hi = 0, key_lo = 0\<rparr>,
     resolved_target_process = None, request_id = 0, flags = 0\<rparr>"

definition default_Envelope :: Envelope where
  "default_Envelope = \<lparr>header = default_EnvelopeHeader, broadcast_scope = default_BroadcastScope,
     payload_type_url = [], payload_bytes = []\<rparr>"

section \<open>Keys of processes\<close>

lemma MakeProcessKey_low: "ucast (MakeProcessKey i) = instance_id i"
  by (rule bit_word_eqI) (auto simp: MakeProcessKey_def bit_simps)

lemma MakeProcessKey_high: "ucast (drop_bit 32 (MakeProcessKey i)) = service_type i"
  by (rule bit_word_eqI) (auto simp: MakeProcessKey_def bit_simps dest: bit_imp_le_length)

text \<open>Two processes never share a key: the two halves can be read back.\<close>

lemma MakeProcessKey_inject [simp]: "MakeProcessKey i = MakeProcessKey j \<longleftrightarrow> i = (j :: ProcessId)"
proof
  assume "MakeProcessKey i = MakeProcessKey j"
  then have "instance_id i = instance_id j" "service_type i = service_type j"
    using MakeProcessKey_low MakeProcessKey_high by metis+
  then show "i = j" by (simp add: ProcessId.equality)
qed simp

end
