(* ===== verification/Receiver.thy ===== *)
theory Receiver
  imports Ipc_Base
begin

text \<open>
  The receiver layer: \<^verbatim>\<open>LocalReceiverDirectory\<close> and \<^verbatim>\<open>ReceiverRegistry\<close>
  (src/src/framework/ipc/receiver), and the three receiver hosts of the game process
  (src/src/game/services/*_receiver_host). The abstract class \<^verbatim>\<open>IReceiverDirectory\<close> is the
  locale \<open>receiver_directory\<close>: an ownership map from receiver addresses to a process and a version.
  The local directory, whose table is keyed by strings, is an interpretation of it.
\<close>

section \<open>The local receiver directory\<close>

record Entry =
  owner :: ProcessRef
  entry_version :: u64

record receiver_table =
  mEntries :: "(string \<times> Entry) list"

definition default_Entry :: Entry where
  "default_Entry = \<lparr>owner = default_ProcessRef, entry_version = 0\<rparr>"

definition MakeKey :: "ReceiverAddress \<Rightarrow> string" where
  "MakeKey r = to_string (rtype r) @ CHR '':'' # to_string (key_hi r) @ CHR '':'' # to_string (key_lo r)"

definition Resolve :: "receiver_table \<Rightarrow> ReceiverAddress \<Rightarrow> ReceiverLocation" where
  "Resolve d r = (case map_of (mEntries d) (MakeKey r) of
      None \<Rightarrow> default_ReceiverLocation
    | Some e \<Rightarrow> \<lparr>loc_kind = loc_single_process, loc_processes = [owner e], loc_version = entry_version e\<rparr>)"

text \<open>\<^verbatim>\<open>mEntries[key]\<close> creates a default entry (version 0) when the key is new.\<close>

definition Bind :: "receiver_table \<Rightarrow> ReceiverAddress \<Rightarrow> ProcessRef \<Rightarrow> result \<times> receiver_table" where
  "Bind d r p =
     (let key = MakeKey r;
          entry = (case map_of (mEntries d) key of None \<Rightarrow> default_Entry | Some e \<Rightarrow> e)
      in if entry_version entry \<noteq> 0 \<and> owner entry \<noteq> p
         then (Failure ''receiver already bound to another owner'',
               d\<lparr>mEntries := AList.update key entry (mEntries d)\<rparr>)
         else (Success,
               d\<lparr>mEntries := AList.update key
                   \<lparr>owner = p, entry_version = (if entry_version entry = 0 then 1 else entry_version entry)\<rparr>
                   (mEntries d)\<rparr>))"

definition Rebind :: "receiver_table \<Rightarrow> ReceiverAddress \<Rightarrow> ProcessRef \<Rightarrow> ProcessRef \<Rightarrow> result \<times> receiver_table" where
  "Rebind d r old_owner new_owner =
     (let key = MakeKey r in
      case map_of (mEntries d) key of
        None \<Rightarrow> (Failure ''receiver is not bound'', d)
      | Some e \<Rightarrow>
          if owner e \<noteq> old_owner then (Failure ''receiver owner mismatch'', d)
          else (Success, d\<lparr>mEntries := AList.update key
                  \<lparr>owner = new_owner, entry_version = entry_version e + 1\<rparr> (mEntries d)\<rparr>))"

definition Invalidate :: "receiver_table \<Rightarrow> ReceiverAddress \<Rightarrow> ProcessRef \<Rightarrow> u64 \<Rightarrow> result \<times> receiver_table" where
  "Invalidate d r p v =
     (let key = MakeKey r in
      case map_of (mEntries d) key of
        None \<Rightarrow> (Failure ''receiver is not bound'', d)
      | Some e \<Rightarrow>
          if owner e \<noteq> p then (Failure ''receiver owner mismatch'', d)
          else if entry_version e \<noteq> v then (Failure ''receiver version mismatch'', d)
          else (Success, d\<lparr>mEntries := AList.delete key (mEntries d)\<rparr>))"

definition Clear :: "receiver_table \<Rightarrow> receiver_table" where
  "Clear d = d\<lparr>mEntries := []\<rparr>"

section \<open>The registry of receiver hosts\<close>

text \<open>
  Hosts are pointers: the registry holds one optional host per receiver type, and the
  virtual calls \<^verbatim>\<open>CanHandle\<close> and \<^verbatim>\<open>Dispatch\<close> are arguments of the operations.
\<close>

definition kMaxReceiverTypes :: nat where "kMaxReceiverTypes = 8"

definition empty_registry :: "'h option list" where
  "empty_registry = replicate kMaxReceiverTypes None"

definition registry_Register ::
  "('h \<Rightarrow> ReceiverType \<Rightarrow> bool) \<Rightarrow> 'h option list \<Rightarrow> 'h \<Rightarrow> ReceiverType \<Rightarrow> result \<times> 'h option list" where
  "registry_Register can_handle hosts h ty =
     (let index = unat ty in
      if length hosts \<le> index then (Failure ''receiver type out of range'', hosts)
      else if \<not> can_handle h ty then (Failure ''receiver host cannot handle requested type'', hosts)
      else if hosts ! index \<noteq> None \<and> hosts ! index \<noteq> Some h then (Failure ''receiver host already registered'', hosts)
      else (Success, hosts[index := Some h]))"

definition registry_Dispatch ::
  "('h \<Rightarrow> ReceiverAddress \<Rightarrow> Envelope \<Rightarrow> 's \<Rightarrow> result \<times> 's) \<Rightarrow> 'h option list
    \<Rightarrow> ReceiverAddress \<Rightarrow> Envelope \<Rightarrow> 's \<Rightarrow> result \<times> 's" where
  "registry_Dispatch dispatch hosts target env s =
     (let index = unat (rtype target) in
      if length hosts \<le> index then (Failure ''receiver type out of range'', s)
      else case hosts ! index of
          None \<Rightarrow> (Failure ''receiver host not registered'', s)
        | Some h \<Rightarrow> dispatch h target env s)"

definition registry_Clear :: "'h option list \<Rightarrow> 'h option list" where
  "registry_Clear hosts = replicate (length hosts) None"

section \<open>The hosts of a process\<close>

record player_host =
  mPlayers :: "u64 list"
  ph_mDispatchCount :: u64
  mLastPlayerId :: u64
  ph_mLastPayloadType :: string

definition empty_player_host :: player_host where
  "empty_player_host = \<lparr>mPlayers = [], ph_mDispatchCount = 0, mLastPlayerId = 0, ph_mLastPayloadType = []\<rparr>"

definition player_host_CanHandle :: "ReceiverType \<Rightarrow> bool" where
  "player_host_CanHandle ty \<longleftrightarrow> ty = RT_player"

definition player_host_Dispatch :: "ReceiverAddress \<Rightarrow> Envelope \<Rightarrow> player_host \<Rightarrow> result \<times> player_host" where
  "player_host_Dispatch target env h =
     (if rtype target \<noteq> RT_player then (Failure ''unsupported receiver type'', h)
      else if key_hi target \<notin> set (mPlayers h) then (Failure ''player receiver is not bound locally'', h)
      else (Success, h\<lparr>ph_mLastPayloadType := payload_type_url env,
              ph_mDispatchCount := ph_mDispatchCount h + 1, mLastPlayerId := key_hi target\<rparr>))"

definition player_host_Bind :: "u64 \<Rightarrow> player_host \<Rightarrow> bool \<times> player_host" where
  "player_host_Bind pid h =
     (pid \<notin> set (mPlayers h), h\<lparr>mPlayers := List.insert pid (mPlayers h)\<rparr>)"

definition player_host_Unbind :: "u64 \<Rightarrow> player_host \<Rightarrow> bool \<times> player_host" where
  "player_host_Unbind pid h =
     (pid \<in> set (mPlayers h), h\<lparr>mPlayers := removeAll pid (mPlayers h)\<rparr>)"

definition player_host_IsBound :: "player_host \<Rightarrow> u64 \<Rightarrow> bool" where
  "player_host_IsBound h pid \<longleftrightarrow> pid \<in> set (mPlayers h)"

definition BoundPlayers :: "player_host \<Rightarrow> u64 list" where
  "BoundPlayers h = mPlayers h"

record process_host =
  proc_self :: ProcessRef
  proc_mDispatchCount :: u64
  proc_mLastPayloadType :: string

text \<open>The dispatch handler set by the owner of the host is an argument; \<open>None\<close> when it is not set.\<close>

definition process_host_Dispatch ::
  "(ReceiverAddress \<Rightarrow> Envelope \<Rightarrow> 's \<Rightarrow> result \<times> 's) option
    \<Rightarrow> ReceiverAddress \<Rightarrow> Envelope \<Rightarrow> process_host \<times> 's \<Rightarrow> result \<times> process_host \<times> 's" where
  "process_host_Dispatch handler target env hs = (let (h, s) = hs in
     if rtype target \<noteq> RT_process then (Failure ''unsupported receiver type'', h, s)
     else if key_hi target \<noteq> ucast (service_type (process_id (proc_self h))) \<or>
             key_lo target \<noteq> ucast (instance_id (process_id (proc_self h)))
       then (Failure ''process receiver target mismatch'', h, s)
     else let h' = h\<lparr>proc_mDispatchCount := proc_mDispatchCount h + 1,
                     proc_mLastPayloadType := payload_type_url env\<rparr>
          in case handler of
               None \<Rightarrow> (Success, h', s)
             | Some f \<Rightarrow> (let (r, s') = f target env s in (r, h', s')))"

record service_host =
  svc_type :: ServiceType
  svc_mDispatchCount :: u64
  svc_mLastPayloadType :: string

definition service_host_Dispatch :: "ReceiverAddress \<Rightarrow> Envelope \<Rightarrow> service_host \<Rightarrow> result \<times> service_host" where
  "service_host_Dispatch target env h =
     (if rtype target \<noteq> RT_service then (Failure ''unsupported receiver type'', h)
      else if key_hi target \<noteq> ucast (svc_type h) then (Failure ''service receiver target mismatch'', h)
      else (Success, h\<lparr>svc_mDispatchCount := svc_mDispatchCount h + 1,
              svc_mLastPayloadType := payload_type_url env\<rparr>))"

section \<open>The contract of a receiver directory\<close>

text \<open>
  What the clients of \<^verbatim>\<open>IReceiverDirectory\<close> rely on, over the ownership map \<open>owner_of\<close> that the
  implementation represents.
\<close>

locale receiver_directory =
  fixes resolve :: "'d \<Rightarrow> ReceiverAddress \<Rightarrow> ReceiverLocation"
    and bind :: "'d \<Rightarrow> ReceiverAddress \<Rightarrow> ProcessRef \<Rightarrow> result \<times> 'd"
    and rebind :: "'d \<Rightarrow> ReceiverAddress \<Rightarrow> ProcessRef \<Rightarrow> ProcessRef \<Rightarrow> result \<times> 'd"
    and invalidate :: "'d \<Rightarrow> ReceiverAddress \<Rightarrow> ProcessRef \<Rightarrow> u64 \<Rightarrow> result \<times> 'd"
    and owner_of :: "'d \<Rightarrow> ReceiverAddress \<Rightarrow> (ProcessRef \<times> u64) option"
    and valid :: "'d \<Rightarrow> bool"
  assumes resolve_owner: "resolve d r = (case owner_of d r of
        None \<Rightarrow> default_ReceiverLocation
      | Some (p, v) \<Rightarrow> \<lparr>loc_kind = loc_single_process, loc_processes = [p], loc_version = v\<rparr>)"
    and version_nonzero: "valid d \<Longrightarrow> owner_of d r = Some (p, v) \<Longrightarrow> v \<noteq> 0"
    and bind_free: "valid d \<Longrightarrow> owner_of d r = None \<Longrightarrow> bind d r p = (res, d') \<Longrightarrow>
        res = Success \<and> valid d' \<and> owner_of d' = (owner_of d)(r \<mapsto> (p, 1))"
    and bind_same: "valid d \<Longrightarrow> owner_of d r = Some (p, v) \<Longrightarrow> bind d r p = (res, d') \<Longrightarrow>
        res = Success \<and> valid d' \<and> owner_of d' = owner_of d"
    and bind_other: "valid d \<Longrightarrow> owner_of d r = Some (q, v) \<Longrightarrow> q \<noteq> p \<Longrightarrow> bind d r p = (res, d') \<Longrightarrow>
        \<not> ok res \<and> valid d' \<and> owner_of d' = owner_of d"
    and rebind_owner: "valid d \<Longrightarrow> owner_of d r = Some (p, v) \<Longrightarrow> v + 1 \<noteq> 0 \<Longrightarrow> rebind d r p q = (res, d') \<Longrightarrow>
        res = Success \<and> valid d' \<and> owner_of d' = (owner_of d)(r \<mapsto> (q, v + 1))"
    and rebind_other: "valid d \<Longrightarrow> (\<And>v. owner_of d r \<noteq> Some (p, v)) \<Longrightarrow> rebind d r p q = (res, d') \<Longrightarrow>
        \<not> ok res \<and> d' = d"
    and invalidate_match: "valid d \<Longrightarrow> owner_of d r = Some (p, v) \<Longrightarrow> invalidate d r p v = (res, d') \<Longrightarrow>
        res = Success \<and> valid d' \<and> owner_of d' = (owner_of d)(r := None)"
    and invalidate_mismatch: "valid d \<Longrightarrow> owner_of d r \<noteq> Some (p, v) \<Longrightarrow> invalidate d r p v = (res, d') \<Longrightarrow>
        \<not> ok res \<and> d' = d"
begin

text \<open>After a successful bind the receiver resolves to the new owner alone.\<close>

lemma bind_resolve:
  assumes "valid d" and "bind d r p = (res, d')" and "ok res"
  shows "loc_kind (resolve d' r) = loc_single_process \<and> loc_processes (resolve d' r) = [p]"
proof (cases "owner_of d r")
  case None
  then show ?thesis using bind_free [OF assms(1) _ assms(2)] by (simp add: resolve_owner)
next
  case (Some qv)
  then obtain q v where qv: "owner_of d r = Some (q, v)" by (cases qv) simp
  show ?thesis
  proof (cases "q = p")
    case True
    then show ?thesis using bind_same [OF assms(1) _ assms(2)] qv by (simp add: resolve_owner)
  next
    case False
    then show ?thesis using bind_other [OF assms(1) qv False assms(2)] assms(3) by simp
  qed
qed

text \<open>Binding never changes what another receiver resolves to.\<close>

lemma bind_frame:
  assumes "valid d" and "bind d r p = (res, d')" and "r' \<noteq> r"
  shows "owner_of d' r' = owner_of d r'"
proof (cases "owner_of d r")
  case None
  then show ?thesis using bind_free [OF assms(1) _ assms(2)] assms(3) by simp
next
  case (Some qv)
  then show ?thesis
    using bind_same [OF assms(1) _ assms(2)] bind_other [OF assms(1) _ _ assms(2)]
    by (cases qv) (metis)
qed

lemma bind_valid:
  assumes "valid d" and "bind d r p = (res, d')"
  shows "valid d'"
proof (cases "owner_of d r")
  case None
  then show ?thesis using bind_free [OF assms(1) _ assms(2)] by simp
next
  case (Some qv)
  then show ?thesis
    using bind_same [OF assms(1) _ assms(2)] bind_other [OF assms(1) _ _ assms(2)]
    by (cases qv) (metis)
qed

text \<open>Invalidating with the version that \<open>resolve\<close> reported releases the receiver.\<close>

lemma invalidate_resolved:
  assumes "valid d" and "loc_kind (resolve d r) = loc_single_process" and "loc_processes (resolve d r) = [p]"
    and "invalidate d r p (loc_version (resolve d r)) = (res, d')"
  shows "res = Success \<and> valid d' \<and> owner_of d' = (owner_of d)(r := None)"
proof -
  obtain v where "owner_of d r = Some (p, v)"
    using assms(2,3) by (auto simp: resolve_owner default_ReceiverLocation_def split: option.splits prod.splits)
  moreover from this have "loc_version (resolve d r) = v" by (simp add: resolve_owner)
  ultimately show ?thesis using invalidate_match [OF assms(1)] assms(4) by simp
qed

text \<open>A stale version never releases a binding: after a rebind the old owner's invalidate is refused.\<close>

lemma stale_invalidate_refused:
  assumes "valid d" and "owner_of d r = Some (p, v)" and "v + 1 \<noteq> 0" and "rebind d r p q = (res, d')"
    and "invalidate d' r p v = (res2, d'')"
  shows "\<not> ok res2 \<and> d'' = d'"
proof -
  have o: "valid d'" "owner_of d' r = Some (q, v + 1)"
    using rebind_owner [OF assms(1-4)] by auto
  have "v + 1 \<noteq> v" by simp
  with o(2) have "owner_of d' r \<noteq> Some (p, v)" by auto
  then show ?thesis using invalidate_mismatch [OF o(1) _ assms(5)] by blast
qed

end

section \<open>The local directory implements the contract\<close>

text \<open>The string key determines the address: no two receivers share an entry.\<close>

lemma append_colon_inject:
  assumes "CHR '':'' \<notin> set a" and "CHR '':'' \<notin> set b"
  shows "a @ CHR '':'' # x = b @ CHR '':'' # y \<longleftrightarrow> a = b \<and> x = y"
proof
  assume eq: "a @ CHR '':'' # x = b @ CHR '':'' # y"
  then have "getline CHR '':'' (a @ CHR '':'' # x) = getline CHR '':'' (b @ CHR '':'' # y)" by simp
  then show "a = b \<and> x = y" using assms by (simp add: getline_field)
qed simp

lemma MakeKey_inject [simp]: "MakeKey r = MakeKey r' \<longleftrightarrow> r = (r' :: ReceiverAddress)"
  by (auto simp: MakeKey_def append_colon_inject ReceiverAddress.equality)

definition owner_of :: "receiver_table \<Rightarrow> ReceiverAddress \<Rightarrow> (ProcessRef \<times> u64) option" where
  "owner_of d r = map_option (\<lambda>e. (owner e, entry_version e)) (map_of (mEntries d) (MakeKey r))"

definition directory_valid :: "receiver_table \<Rightarrow> bool" where
  "directory_valid d \<longleftrightarrow> (\<forall>k e. map_of (mEntries d) k = Some e \<longrightarrow> entry_version e \<noteq> 0)"

lemma owner_of_Some:
  "owner_of d r = Some (p, v) \<longleftrightarrow> map_of (mEntries d) (MakeKey r) = Some \<lparr>owner = p, entry_version = v\<rparr>"
proof -
  have "e = \<lparr>owner = p, entry_version = v\<rparr> \<longleftrightarrow> owner e = p \<and> entry_version e = v" for e :: Entry
    by (cases e) auto
  then show ?thesis by (auto simp: owner_of_def)
qed

lemma owner_of_None: "owner_of d r = None \<longleftrightarrow> map_of (mEntries d) (MakeKey r) = None"
  by (simp add: owner_of_def)

lemma owner_of_update:
  "owner_of (d\<lparr>mEntries := AList.update (MakeKey r) e (mEntries d)\<rparr>) = (owner_of d)(r \<mapsto> (owner e, entry_version e))"
  by (rule ext) (simp add: owner_of_def)

lemma owner_of_delete:
  "owner_of (d\<lparr>mEntries := AList.delete (MakeKey r) (mEntries d)\<rparr>) = (owner_of d)(r := None)"
  by (rule ext) (simp add: owner_of_def)

lemmas directory_defs = Bind_def Rebind_def Invalidate_def Resolve_def directory_valid_def Let_def

interpretation local_dir: receiver_directory Resolve Bind Rebind Invalidate owner_of directory_valid
proof (unfold_locales, goal_cases)
  case (1 d r)
  show ?case by (auto simp: Resolve_def owner_of_def split: option.splits)
next
  case (2 d r p v)
  then show ?case by (fastforce simp: directory_valid_def owner_of_Some)
next
  case (3 d r p res d')
  then show ?case
    by (auto simp: directory_defs owner_of_None owner_of_update default_Entry_def split: if_splits)
next
  case (4 d r p v res d')
  have e: "map_of (mEntries d) (MakeKey r) = Some \<lparr>owner = p, entry_version = v\<rparr>" and v: "v \<noteq> 0"
    using 4(1,2) by (fastforce simp: directory_valid_def owner_of_Some)+
  have "owner_of d r = Some (p, v)" by (rule 4(2))
  with 4(1,3) e v show ?case
    by (auto simp: directory_defs owner_of_update split: if_splits)
next
  case (5 d r q v p res d')
  have e: "map_of (mEntries d) (MakeKey r) = Some \<lparr>owner = q, entry_version = v\<rparr>" and v: "v \<noteq> 0"
    using 5(1,2) by (fastforce simp: directory_valid_def owner_of_Some)+
  have "owner_of d r = Some (q, v)" by (rule 5(2))
  with 5(1,3,4) e v show ?case
    by (auto simp: directory_defs owner_of_update split: if_splits)
next
  case (6 d r p v q res d')
  then show ?case
    by (auto simp: directory_defs owner_of_update owner_of_Some split: if_splits)
next
  case (7 d r p q res d')
  then show ?case
    by (auto simp: directory_defs owner_of_def split: option.splits if_splits)
next
  case (8 d r p v res d')
  then show ?case
    by (auto simp: directory_defs owner_of_delete owner_of_Some split: if_splits)
next
  case (9 d r p v res d')
  then show ?case
    by (auto simp: directory_defs owner_of_def split: option.splits if_splits)
qed

section \<open>Registry and hosts\<close>

text \<open>A registered host receives exactly the envelopes for its type, and nobody replaces it silently.\<close>

lemma registry_register_dispatch:
  assumes "registry_Register can_handle hosts h ty = (res, hosts')" and "ok res"
  shows "registry_Dispatch dispatch hosts' target env s =
     (if rtype target = ty then dispatch h target env s else registry_Dispatch dispatch hosts target env s)"
  using assms
  by (auto simp: registry_Register_def registry_Dispatch_def Let_def nth_list_update
      word_unat_eq_iff split: if_splits)

lemma registry_second_host_refused:
  assumes "registry_Register can_handle hosts h ty = (res, hosts')" and "ok res" and "h' \<noteq> h"
  shows "\<not> ok (fst (registry_Register can_handle hosts' h' ty)) \<and>
     snd (registry_Register can_handle hosts' h' ty) = hosts'"
  using assms by (auto simp: registry_Register_def Let_def split: if_splits)

lemma player_host_bind_unbind:
  assumes "player_host_Bind pid h = (b, h')"
  shows "player_host_IsBound h' pid \<and>
     (pid' \<noteq> pid \<longrightarrow> player_host_IsBound h' pid' = player_host_IsBound h pid') \<and>
     \<not> player_host_IsBound (snd (player_host_Unbind pid h')) pid"
  using assms by (auto simp: player_host_Bind_def player_host_Unbind_def player_host_IsBound_def)

end
