(* ===== verification/Membership.thy ===== *)
theory Membership
  imports Ipc_Base
begin

text \<open>
  The membership view of the cluster (src/src/framework/ipc/discovery): the in-memory class
  \<^verbatim>\<open>Discovery\<close> and \<^verbatim>\<open>QueueDiffEvents\<close>, which turns two snapshots into membership events. The
  abstract class \<^verbatim>\<open>IMembershipView\<close> is the locale \<open>membership_view\<close>, a finite partial map from process
  ids to descriptors; the table both discovery classes keep is an interpretation of it.
\<close>

section \<open>Tables of process descriptors\<close>

type_synonym process_table = "(u64 \<times> ProcessDescriptor) list"

text \<open>The three queries, which \<^verbatim>\<open>Discovery\<close> and \<^verbatim>\<open>EtcdDiscovery\<close> implement with the same code.\<close>

definition Find :: "process_table \<Rightarrow> ProcessId \<Rightarrow> ProcessDescriptor option" where
  "Find t i = map_of t (MakeProcessKey i)"

definition FindByService :: "process_table \<Rightarrow> ServiceType \<Rightarrow> ProcessDescriptor list" where
  "FindByService t ty = filter (\<lambda>p. service_type (process_id (process p)) = ty) (map snd t)"

definition All :: "process_table \<Rightarrow> ProcessDescriptor list" where
  "All t = map snd t"

definition key_of :: "ProcessDescriptor \<Rightarrow> u64" where
  "key_of p = MakeProcessKey (process_id (process p))"

section \<open>Events\<close>

datatype MembershipEventType = me_added | me_updated | me_removed

record MembershipEvent =
  me_type :: MembershipEventType
  me_process :: ProcessDescriptor

definition member_event :: "MembershipEventType \<Rightarrow> ProcessDescriptor \<Rightarrow> MembershipEvent" where
  "member_event ty p = \<lparr>me_type = ty, me_process = p\<rparr>"

text \<open>The field-by-field comparison of \<^verbatim>\<open>QueueDiffEvents\<close>.\<close>

definition descriptor_changed :: "ProcessDescriptor \<Rightarrow> ProcessDescriptor \<Rightarrow> bool" where
  "descriptor_changed old p \<longleftrightarrow>
     \<not> process old = process p \<or> \<not> listen_endpoint old = listen_endpoint p \<or>
     protocol_version old \<noteq> protocol_version p \<or> start_time_unix_ms old \<noteq> start_time_unix_ms p \<or>
     service_name old \<noteq> service_name p \<or> labels old \<noteq> labels p \<or>
     relay_capabilities old \<noteq> relay_capabilities p"

definition diff_current :: "process_table \<Rightarrow> u64 \<times> ProcessDescriptor \<Rightarrow> MembershipEvent list" where
  "diff_current previous kp = (case map_of previous (fst kp) of
      None \<Rightarrow> [member_event me_added (snd kp)]
    | Some old \<Rightarrow> if descriptor_changed old (snd kp) then [member_event me_updated (snd kp)] else [])"

definition diff_previous :: "process_table \<Rightarrow> u64 \<times> ProcessDescriptor \<Rightarrow> MembershipEvent list" where
  "diff_previous current kp =
     (if map_of current (fst kp) = None then [member_event me_removed (snd kp)] else [])"

definition QueueDiffEvents :: "process_table \<Rightarrow> process_table \<Rightarrow> MembershipEvent list \<Rightarrow> MembershipEvent list" where
  "QueueDiffEvents previous current events =
     events @ concat (map (diff_current previous) current) @ concat (map (diff_previous current) previous)"

section \<open>The in-memory discovery\<close>

record Discovery =
  mProcesses :: process_table
  mEvents :: "MembershipEvent list"

definition Upsert :: "ProcessDescriptor \<Rightarrow> Discovery \<Rightarrow> result \<times> Discovery" where
  "Upsert p d =
     (let key = key_of p;
          ty = (case map_of (mProcesses d) key of None \<Rightarrow> me_added | Some _ \<Rightarrow> me_updated)
      in (Success, d\<lparr>mProcesses := AList.update key p (mProcesses d),
                     mEvents := mEvents d @ [member_event ty p]\<rparr>))"

definition RegisterSelf :: "ProcessDescriptor \<Rightarrow> Discovery \<Rightarrow> result \<times> Discovery" where
  "RegisterSelf self d = Upsert self d"

definition Remove :: "ProcessId \<Rightarrow> Discovery \<Rightarrow> result \<times> Discovery" where
  "Remove i d =
     (let key = MakeProcessKey i in
      case map_of (mProcesses d) key of
        None \<Rightarrow> (Failure ''process not found'', d)
      | Some p \<Rightarrow> (Success, d\<lparr>mEvents := mEvents d @ [member_event me_removed p],
                             mProcesses := AList.delete key (mProcesses d)\<rparr>))"

definition DrainEvents :: "Discovery \<Rightarrow> MembershipEvent list \<times> Discovery" where
  "DrainEvents d = (mEvents d, d\<lparr>mEvents := []\<rparr>)"

section \<open>Validity and replay\<close>

text \<open>Every entry is filed under the key of its own process id.\<close>

definition table_valid :: "process_table \<Rightarrow> bool" where
  "table_valid t \<longleftrightarrow> distinct (map fst t) \<and> (\<forall>(k, p) \<in> set t. k = key_of p)"

text \<open>What a consumer of the events reconstructs: a map from process keys to descriptors.\<close>

fun replay_event :: "(u64 \<rightharpoonup> ProcessDescriptor) \<Rightarrow> MembershipEvent \<Rightarrow> (u64 \<rightharpoonup> ProcessDescriptor)" where
  "replay_event m e = (case me_type e of
      me_removed \<Rightarrow> m(key_of (me_process e) := None)
    | _ \<Rightarrow> m(key_of (me_process e) \<mapsto> me_process e))"

definition replay :: "(u64 \<rightharpoonup> ProcessDescriptor) \<Rightarrow> MembershipEvent list \<Rightarrow> (u64 \<rightharpoonup> ProcessDescriptor)" where
  "replay m es = foldl replay_event m es"

lemma replay_append: "replay m (xs @ ys) = replay (replay m xs) ys"
  by (simp add: replay_def)

lemma replay_Nil [simp]: "replay m [] = m"
  by (simp add: replay_def)

lemma replay_single [simp]:
  "replay m [member_event me_added p] = m(key_of p \<mapsto> p)"
  "replay m [member_event me_updated p] = m(key_of p \<mapsto> p)"
  "replay m [member_event me_removed p] = m(key_of p := None)"
  by (simp_all add: replay_def member_event_def)

lemma table_valid_Cons:
  "table_valid (kp # t) \<longleftrightarrow> fst kp = key_of (snd kp) \<and> fst kp \<notin> fst ` set t \<and> table_valid t"
  by (cases kp) (auto simp: table_valid_def)

lemma table_valid_Nil [simp]: "table_valid []"
  by (simp add: table_valid_def)

lemma table_valid_update:
  assumes "table_valid t"
  shows "table_valid (AList.update (key_of p) p t)"
proof -
  have "distinct (map fst t)" and all: "\<forall>(k, q) \<in> set t. k = key_of q"
    using assms by (auto simp: table_valid_def)
  moreover have "set (AList.update (key_of p) p t) \<subseteq> insert (key_of p, p) (set t)"
    by (induction t) (auto split: if_splits)
  ultimately show ?thesis by (auto simp: table_valid_def)
qed

lemma table_valid_delete: "table_valid t \<Longrightarrow> table_valid (AList.delete k t)"
  by (auto simp: table_valid_def AList.delete_eq distinct_map_filter)

lemma table_valid_lookup: "table_valid t \<Longrightarrow> map_of t k = Some p \<Longrightarrow> k = key_of p"
  by (auto simp: table_valid_def dest!: map_of_SomeD)

lemma key_of_eq_iff [simp]: "key_of p = MakeProcessKey i \<longleftrightarrow> process_id (process p) = i"
  "MakeProcessKey i = key_of p \<longleftrightarrow> process_id (process p) = i"
  by (auto simp: key_of_def)

lemma table_valid_mem_iff:
  "table_valid t \<Longrightarrow> p \<in> snd ` set t \<longleftrightarrow> map_of t (key_of p) = Some p"
  by (force simp: table_valid_def map_of_mem_iff)

lemma table_valid_distinct_snd: "table_valid t \<Longrightarrow> distinct (map snd t)"
  by (induction t) (auto simp: table_valid_Cons rev_image_eqI table_valid_mem_iff dest!: map_of_SomeD)

section \<open>The contract of a membership view\<close>

locale membership_view =
  fixes find :: "'m \<Rightarrow> ProcessId \<Rightarrow> ProcessDescriptor option"
    and find_by_service :: "'m \<Rightarrow> ServiceType \<Rightarrow> ProcessDescriptor list"
    and all_members :: "'m \<Rightarrow> ProcessDescriptor list"
    and valid_view :: "'m \<Rightarrow> bool"
  assumes find_id: "valid_view m \<Longrightarrow> find m i = Some p \<Longrightarrow> process_id (process p) = i"
    and all_iff: "valid_view m \<Longrightarrow> p \<in> set (all_members m) \<longleftrightarrow> find m (process_id (process p)) = Some p"
    and all_distinct: "valid_view m \<Longrightarrow> distinct (all_members m)"
    and by_service: "find_by_service m ty = filter (\<lambda>p. service_type (process_id (process p)) = ty) (all_members m)"
begin

text \<open>A service query returns exactly the visible members of the type, each once.\<close>

lemma by_service_iff:
  "valid_view m \<Longrightarrow> p \<in> set (find_by_service m ty) \<longleftrightarrow>
     find m (process_id (process p)) = Some p \<and> service_type (process_id (process p)) = ty"
  by (auto simp: by_service all_iff)

lemma by_service_distinct: "valid_view m \<Longrightarrow> distinct (find_by_service m ty)"
  by (simp add: by_service all_distinct)

text \<open>One process id is visible at most once, so one incarnation of it is.\<close>

lemma unique_incarnation:
  "valid_view m \<Longrightarrow> p \<in> set (all_members m) \<Longrightarrow> q \<in> set (all_members m) \<Longrightarrow>
     process_id (process p) = process_id (process q) \<Longrightarrow> p = q"
  by (simp add: all_iff)

end

interpretation table_view: membership_view Find FindByService All table_valid
proof (unfold_locales, goal_cases)
  case (1 m i p)
  then show ?case by (auto simp: Find_def dest: table_valid_lookup)
next
  case (2 m p)
  then show ?case by (simp add: Find_def All_def table_valid_mem_iff key_of_def)
next
  case (3 m)
  then show ?case by (simp add: All_def table_valid_distinct_snd)
next
  case (4 m ty)
  show ?case by (simp add: FindByService_def All_def)
qed

section \<open>Correctness of the diff\<close>

lemma descriptor_changed_iff: "descriptor_changed p q \<longleftrightarrow> p \<noteq> q"
  by (cases p; cases q) (auto simp: descriptor_changed_def)

lemma replay_diff_current:
  assumes "table_valid cur" and "\<forall>k \<in> fst ` set cur. m k = map_of prev k"
  shows "replay m (concat (map (diff_current prev) cur)) = m ++ map_of cur"
  using assms
proof (induction cur arbitrary: m)
  case (Cons kp cur)
  obtain k p where kp: "kp = (k, p)" by (cases kp)
  have k: "k = key_of p" "k \<notin> fst ` set cur" "table_valid cur"
    using Cons.prems(1) kp by (auto simp: table_valid_Cons)
  have step: "replay m (diff_current prev kp) = m(k \<mapsto> p)"
    using Cons.prems(2) k(1)
    by (auto simp: diff_current_def kp descriptor_changed_iff split: option.splits)
  have "replay (m(k \<mapsto> p)) (concat (map (diff_current prev) cur)) = m(k \<mapsto> p) ++ map_of cur"
    using Cons.prems(2) k(2) kp by (intro Cons.IH k(3)) auto
  moreover have "map_of cur k = None" using k(2) by (simp add: map_of_eq_None_iff)
  moreover from this have "m(k \<mapsto> p) ++ map_of cur = m ++ map_of (kp # cur)"
    by (auto simp: kp map_add_def fun_eq_iff split: option.splits)
  ultimately show ?case using step by (simp only: list.map concat.simps replay_append)
qed simp

lemma replay_diff_previous:
  assumes "table_valid prev"
  shows "replay m (concat (map (diff_previous cur) prev)) =
     (\<lambda>k. if k \<in> fst ` set prev \<and> map_of cur k = None then None else m k)"
  using assms
proof (induction prev arbitrary: m)
  case (Cons kp prev)
  obtain k p where kp: "kp = (k, p)" by (cases kp)
  have k: "k = key_of p" "table_valid prev"
    using Cons.prems(1) kp by (auto simp: table_valid_Cons)
  have step: "replay m (diff_previous cur kp) = (if map_of cur k = None then m(k := None) else m)"
    using k(1) by (auto simp: diff_previous_def kp)
  have "replay m (concat (map (diff_previous cur) (kp # prev))) =
      replay (if map_of cur k = None then m(k := None) else m) (concat (map (diff_previous cur) prev))"
    using step by (simp only: list.map concat.simps replay_append)
  then show ?case by (auto simp: Cons.IH [OF k(2)] kp fun_eq_iff)
qed simp

text \<open>Replaying the events on the previous snapshot gives the current one.\<close>

lemma replay_diff:
  assumes "table_valid previous" and "table_valid current"
  shows "replay (map_of previous) (QueueDiffEvents previous current []) = map_of current"
proof -
  have "replay (map_of previous) (concat (map (diff_current previous) current)) = map_of previous ++ map_of current"
    using assms(2) by (rule replay_diff_current) simp
  then have "replay (map_of previous) (QueueDiffEvents previous current []) =
      (\<lambda>k. if k \<in> fst ` set previous \<and> map_of current k = None then None
           else (map_of previous ++ map_of current) k)"
    by (simp add: QueueDiffEvents_def replay_append replay_diff_previous assms(1))
  also have "\<dots> = map_of current"
  proof
    fix k
    show "(if k \<in> fst ` set previous \<and> map_of current k = None then None
           else (map_of previous ++ map_of current) k) = map_of current k"
      using map_of_eq_None_iff [of previous k] by (auto simp: map_add_def split: option.splits)
  qed
  finally show ?thesis .
qed

text \<open>An unchanged snapshot produces no event.\<close>

lemma diff_unchanged:
  assumes "table_valid t"
  shows "QueueDiffEvents t t events = events"
proof -
  have "map_of t (fst kp) = Some (snd kp)" if "kp \<in> set t" for kp
    using assms that by (simp add: table_valid_def map_of_mem_iff)
  then have "\<forall>kp \<in> set t. diff_current t kp = [] \<and> diff_previous t kp = []"
    by (simp add: diff_current_def diff_previous_def descriptor_changed_iff)
  then show ?thesis by (simp add: QueueDiffEvents_def)
qed

section \<open>The in-memory class keeps its table and its event log in step\<close>

definition discovery_consistent :: "(u64 \<rightharpoonup> ProcessDescriptor) \<Rightarrow> Discovery \<Rightarrow> bool" where
  "discovery_consistent seen d \<longleftrightarrow>
     table_valid (mProcesses d) \<and> replay seen (mEvents d) = map_of (mProcesses d)"

lemma Upsert_consistent:
  assumes "discovery_consistent seen d"
  shows "discovery_consistent seen (snd (Upsert p d))"
  using assms
  by (auto simp: discovery_consistent_def Upsert_def Let_def replay_append table_valid_update
      split: option.splits)

lemma Remove_consistent:
  assumes "discovery_consistent seen d"
  shows "discovery_consistent seen (snd (Remove i d))"
proof (cases "map_of (mProcesses d) (MakeProcessKey i)")
  case None
  then show ?thesis using assms by (simp add: Remove_def)
next
  case (Some p)
  then have "key_of p = MakeProcessKey i"
    using assms table_valid_lookup by (metis discovery_consistent_def)
  with Some assms show ?thesis
    by (simp add: discovery_consistent_def Remove_def replay_append table_valid_delete key_of_def)
qed

lemma DrainEvents_consistent:
  assumes "discovery_consistent seen d" and "DrainEvents d = (es, d')"
  shows "discovery_consistent (replay seen es) d'"
  using assms by (auto simp: discovery_consistent_def DrainEvents_def)

end
