(* ===== verification/Tcp_Transport.thy ===== *)
theory Tcp_Transport
  imports Ipc_Base
begin

text \<open>
  The transport layer (src/src/framework/ipc/transport): the 12-byte frame header of
  \<^verbatim>\<open>frame.h\<close>, and \<^verbatim>\<open>TcpTransport\<close> with its connection table. The socket calls of the operating
  system are the record \<open>sockets\<close>, an argument of every operation; \<open>'w\<close> is the state of the
  outside world they act on. Reader and accept threads are modelled one loop iteration at
  a time; the callbacks an operation invokes are returned as the list of connection events.
\<close>

section \<open>Frames\<close>

type_synonym FrameKind = u16

abbreviation FK_control :: FrameKind where "FK_control \<equiv> 1"
abbreviation FK_data :: FrameKind where "FK_data \<equiv> 2"

definition kFrameMagic :: u32 where "kFrameMagic = 0x53495043"
definition kFrameVersion :: u16 where "kFrameVersion = 1"
definition kFrameHeaderSize :: nat where "kFrameHeaderSize = 12"

record FrameHeader =
  magic :: u32
  version :: u16
  kind :: FrameKind
  frame_length :: u32

record RawFrame =
  connection_id :: ConnectionId
  frame_header :: FrameHeader
  payload :: ByteBuffer

definition default_FrameHeader :: FrameHeader where
  "default_FrameHeader = \<lparr>magic = kFrameMagic, version = kFrameVersion, kind = FK_control, frame_length = 0\<rparr>"

text \<open>\<^verbatim>\<open>memcpy\<close> of an integer into a byte buffer and back, on a little-endian machine.\<close>

definition le16 :: "u16 \<Rightarrow> u8 list" where
  "le16 w = [ucast w, ucast (drop_bit 8 w)]"

definition le32 :: "u32 \<Rightarrow> u8 list" where
  "le32 w = [ucast w, ucast (drop_bit 8 w), ucast (drop_bit 16 w), ucast (drop_bit 24 w)]"

definition from_le16 :: "u8 list \<Rightarrow> u16" where
  "from_le16 b = or (ucast (b ! 0)) (push_bit 8 (ucast (b ! 1)))"

definition from_le32 :: "u8 list \<Rightarrow> u32" where
  "from_le32 b = or (ucast (b ! 0)) (or (push_bit 8 (ucast (b ! 1)))
     (or (push_bit 16 (ucast (b ! 2))) (push_bit 24 (ucast (b ! 3)))))"

definition SerializeFrameHeader :: "FrameHeader \<Rightarrow> u8 list" where
  "SerializeFrameHeader h = le32 (magic h) @ le16 (version h) @ le16 (kind h) @ le32 (frame_length h)"

text \<open>The out-parameter is passed in and returned; a null \<^verbatim>\<open>data\<close> pointer is \<open>None\<close>.\<close>

definition DeserializeFrameHeader :: "u8 list option \<Rightarrow> FrameHeader \<Rightarrow> bool \<times> FrameHeader" where
  "DeserializeFrameHeader data h = (case data of
      None \<Rightarrow> (False, h)
    | Some b \<Rightarrow>
        if length b < kFrameHeaderSize then (False, h)
        else let h' = \<lparr>magic = from_le32 b, version = from_le16 (drop 4 b),
                       kind = from_le16 (drop 6 b), frame_length = from_le32 (drop 8 b)\<rparr>
             in (magic h' = kFrameMagic, h'))"

section \<open>Sockets and the transport state\<close>

record 'w sockets =
  sk_socket :: "'w \<Rightarrow> int \<times> 'w"
  sk_reuseaddr :: "int \<Rightarrow> 'w \<Rightarrow> int \<times> 'w"
  sk_inet_pton :: "string \<Rightarrow> bool"
  sk_bind :: "int \<Rightarrow> Endpoint \<Rightarrow> 'w \<Rightarrow> int \<times> 'w"
  sk_listen :: "int \<Rightarrow> 'w \<Rightarrow> int \<times> 'w"
  sk_connect :: "int \<Rightarrow> Endpoint \<Rightarrow> 'w \<Rightarrow> int \<times> 'w"
  sk_accept :: "int \<Rightarrow> 'w \<Rightarrow> int \<times> 'w"
  sk_recv :: "int \<Rightarrow> nat \<Rightarrow> 'w \<Rightarrow> u8 list \<times> 'w" \<comment> \<open>the empty list for a result \<open>\<le> 0\<close>\<close>
  sk_send :: "int \<Rightarrow> u8 list \<Rightarrow> 'w \<Rightarrow> int \<times> 'w"
  sk_shutdown :: "int \<Rightarrow> 'w \<Rightarrow> 'w"
  sk_close :: "int \<Rightarrow> 'w \<Rightarrow> 'w"
  sk_strerror :: "'w \<Rightarrow> string"

datatype ConnectionEventType = ev_connected | ev_disconnected

record ConnectionEvent =
  event_type :: ConnectionEventType
  event_connection_id :: ConnectionId

record Connection =
  socket_fd :: int
  closed :: bool

record transport =
  mListeningEndpoint :: Endpoint
  mListening :: bool
  mListenSocket :: int
  mConnections :: "(ConnectionId \<times> Connection) list"
  mNextConnectionId :: ConnectionId

definition SocketFailure :: "'w sockets \<Rightarrow> string \<Rightarrow> 'w \<Rightarrow> result" where
  "SocketFailure K operation w = Failure (operation @ '': '' @ sk_strerror K w)"

lemma not_ok_SocketFailure [simp]: "\<not> ok (SocketFailure K operation w)"
  by (simp add: SocketFailure_def)

section \<open>Operations\<close>

definition Listen :: "'w sockets \<Rightarrow> Endpoint \<Rightarrow> transport \<times> 'w \<Rightarrow> result \<times> transport \<times> 'w" where
  "Listen K e s = (let (t, w) = s in
     if host e = [] \<or> port e = 0 then (Failure ''invalid endpoint'', t, w)
     else if mListening t then (Failure ''transport is already listening'', t, w)
     else let (fd, w1) = sk_socket K w in
     if fd < 0 then (SocketFailure K ''socket'' w1, t, w1)
     else let (rc, w2) = sk_reuseaddr K fd w1 in
     if rc \<noteq> 0 then (let w' = sk_close K fd w2 in (SocketFailure K ''setsockopt'' w', t, w'))
     else if \<not> sk_inet_pton K (host e) then (Failure ''invalid listen host'', t, sk_close K fd w2)
     else let (rb, w3) = sk_bind K fd e w2 in
     if rb \<noteq> 0 then (let w' = sk_close K fd w3 in (SocketFailure K ''bind'' w', t, w'))
     else let (rl, w4) = sk_listen K fd w3 in
     if rl \<noteq> 0 then (let w' = sk_close K fd w4 in (SocketFailure K ''listen'' w', t, w'))
     else (Success, t\<lparr>mListeningEndpoint := e, mListenSocket := fd, mListening := True\<rparr>, w4))"

text \<open>
  The part of \<^verbatim>\<open>AddConnection\<close> that is not thread creation: the next id is taken (the counter
  wraps at 64 bits) and \<^verbatim>\<open>emplace\<close> keeps an entry that already exists.
\<close>

definition AddConnection :: "int \<Rightarrow> transport \<Rightarrow> ConnectionId \<times> transport" where
  "AddConnection fd t =
     (let i = mNextConnectionId t; m = mConnections t
      in (i, t\<lparr>mNextConnectionId := i + 1,
               mConnections := (case map_of m i of
                   None \<Rightarrow> AList.update i \<lparr>socket_fd = fd, closed = False\<rparr> m
                 | Some _ \<Rightarrow> m)\<rparr>))"

definition Connect :: "'w sockets \<Rightarrow> Endpoint \<Rightarrow> transport \<times> 'w
    \<Rightarrow> result \<times> ConnectionEvent list \<times> transport \<times> 'w" where
  "Connect K e s = (let (t, w) = s in
     if host e = [] \<or> port e = 0 then (Failure ''invalid endpoint'', [], t, w)
     else let (fd, w1) = sk_socket K w in
     if fd < 0 then (SocketFailure K ''socket'' w1, [], t, w1)
     else if \<not> sk_inet_pton K (host e) then (Failure ''invalid remote host'', [], t, sk_close K fd w1)
     else let (rc, w2) = sk_connect K fd e w1 in
     if rc \<noteq> 0 then (let w' = sk_close K fd w2 in (SocketFailure K ''connect'' w', [], t, w'))
     else let (i, t') = AddConnection fd t in
     (Success, [\<lparr>event_type = ev_connected, event_connection_id = i\<rparr>], t', w2))"

definition HandleDisconnect :: "'w sockets \<Rightarrow> ConnectionId \<Rightarrow> bool \<Rightarrow> transport \<times> 'w
    \<Rightarrow> ConnectionEvent list \<times> transport \<times> 'w" where
  "HandleDisconnect K i notify s = (let (t, w) = s in
     case map_of (mConnections t) i of
       None \<Rightarrow> ([], t, w)
     | Some c \<Rightarrow>
         if closed c then ([], t, w)
         else let w' = (if 0 \<le> socket_fd c then sk_close K (socket_fd c) (sk_shutdown K (socket_fd c) w) else w)
              in (if notify then [\<lparr>event_type = ev_disconnected, event_connection_id = i\<rparr>] else [],
                  t\<lparr>mConnections := AList.delete i (mConnections t)\<rparr>, w'))"

text \<open>
  \<^verbatim>\<open>ReadExact\<close> loops until the buffer is full or \<^verbatim>\<open>recv\<close> returns no byte; the model keeps what
  was read. \<^verbatim>\<open>WriteExact\<close> loops until everything is written or \<^verbatim>\<open>send\<close> returns \<open>\<le> 0\<close>.
\<close>

function ReadExact_from :: "'w sockets \<Rightarrow> int \<Rightarrow> nat \<Rightarrow> u8 list \<Rightarrow> 'w \<Rightarrow> u8 list option \<times> 'w" where
  "ReadExact_from K fd n buf w =
     (if length buf < n then
        (let (bs, w') = sk_recv K fd (n - length buf) w
         in if bs = [] then (None, w') else ReadExact_from K fd n (buf @ bs) w')
      else (Some buf, w))"
  by pat_completeness auto
termination
  by (relation "measure (\<lambda>(K, fd, n, buf, w). n - length buf)") (auto intro!: diff_less_mono2)

definition ReadExact :: "'w sockets \<Rightarrow> int \<Rightarrow> nat \<Rightarrow> 'w \<Rightarrow> u8 list option \<times> 'w" where
  "ReadExact K fd n w = ReadExact_from K fd n [] w"

function WriteExact_from :: "'w sockets \<Rightarrow> int \<Rightarrow> u8 list \<Rightarrow> nat \<Rightarrow> 'w \<Rightarrow> bool \<times> 'w" where
  "WriteExact_from K fd buffer written w =
     (if written < length buffer then
        (let (rc, w') = sk_send K fd (drop written buffer) w
         in if rc \<le> 0 then (False, w') else WriteExact_from K fd buffer (written + nat rc) w')
      else (True, w))"
  by pat_completeness auto
termination
  by (relation "measure (\<lambda>(K, fd, buffer, written, w). length buffer - written)") auto

definition WriteExact :: "'w sockets \<Rightarrow> int \<Rightarrow> u8 list \<Rightarrow> 'w \<Rightarrow> bool \<times> 'w" where
  "WriteExact K fd buffer w = WriteExact_from K fd buffer 0 w"

definition Send :: "'w sockets \<Rightarrow> RawFrame \<Rightarrow> transport \<times> 'w
    \<Rightarrow> result \<times> ConnectionEvent list \<times> transport \<times> 'w" where
  "Send K f s = (let (t, w) = s in
     case map_of (mConnections t) (connection_id f) of
       None \<Rightarrow> (Failure ''connection not found'', [], t, w)
     | Some c \<Rightarrow>
         if closed c then (Failure ''connection not found'', [], t, w)
         else let (h_ok, w1) = WriteExact K (socket_fd c) (SerializeFrameHeader (frame_header f)) w in
         if \<not> h_ok then
           (let (ev, t', w') = HandleDisconnect K (connection_id f) True (t, w1)
            in (SocketFailure K ''send header'' w', ev, t', w'))
         else if payload f = [] then (Success, [], t, w1)
         else let (p_ok, w2) = WriteExact K (socket_fd c) (payload f) w1 in
         if \<not> p_ok then
           (let (ev, t', w') = HandleDisconnect K (connection_id f) True (t, w2)
            in (SocketFailure K ''send payload'' w', ev, t', w'))
         else (Success, [], t, w2))"

definition Close :: "'w sockets \<Rightarrow> ConnectionId \<Rightarrow> transport \<times> 'w
    \<Rightarrow> result \<times> ConnectionEvent list \<times> transport \<times> 'w" where
  "Close K i s = (let (ev, t', w') = HandleDisconnect K i True s in (Success, ev, t', w'))"

text \<open>
  \<^verbatim>\<open>Shutdown\<close>: the listening socket and every connection are closed and the table emptied;
  no event is raised.
\<close>

definition close_connection :: "'w sockets \<Rightarrow> Connection \<Rightarrow> 'w \<Rightarrow> 'w" where
  "close_connection K c w =
     (if 0 \<le> socket_fd c then sk_close K (socket_fd c) (sk_shutdown K (socket_fd c) w) else w)"

definition Shutdown :: "'w sockets \<Rightarrow> transport \<times> 'w \<Rightarrow> transport \<times> 'w" where
  "Shutdown K s = (let (t, w) = s;
       (t1, w1) = (if 0 \<le> mListenSocket t
                   then (t\<lparr>mListenSocket := -1\<rparr>, sk_close K (mListenSocket t) (sk_shutdown K (mListenSocket t) w))
                   else (t, w))
     in (t1\<lparr>mListening := False, mConnections := []\<rparr>,
         fold (\<lambda>(i, c). close_connection K c) (mConnections t1) w1))"

text \<open>
  One iteration of \<^verbatim>\<open>ReaderLoop\<close>: it ends the thread (the connection is gone), or breaks out of
  the loop and disconnects, or hands one frame to the frame handler and goes on.
\<close>

datatype reader_outcome = reader_return | reader_break | reader_frame RawFrame

definition ReaderIteration :: "'w sockets \<Rightarrow> ConnectionId \<Rightarrow> transport \<times> 'w
    \<Rightarrow> reader_outcome \<times> ConnectionEvent list \<times> transport \<times> 'w" where
  "ReaderIteration K i s = (let (t, w) = s;
       leave = (\<lambda>w'. let (ev, t', w'') = HandleDisconnect K i True (t, w') in (reader_break, ev, t', w''))
     in case map_of (mConnections t) i of
       None \<Rightarrow> (reader_return, [], t, w)
     | Some c \<Rightarrow>
         if closed c then (reader_return, [], t, w)
         else (case ReadExact K (socket_fd c) kFrameHeaderSize w of
           (None, w1) \<Rightarrow> leave w1
         | (Some hb, w1) \<Rightarrow>
             (let (valid, h) = DeserializeFrameHeader (Some hb) default_FrameHeader in
              if \<not> valid then leave w1
              else if frame_length h = 0
                then (reader_frame \<lparr>connection_id = i, frame_header = h, payload = []\<rparr>, [], t, w1)
              else (case ReadExact K (socket_fd c) (unat (frame_length h)) w1 of
                  (None, w2) \<Rightarrow> leave w2
                | (Some p, w2) \<Rightarrow>
                    (reader_frame \<lparr>connection_id = i, frame_header = h, payload = p\<rparr>, [], t, w2)))))"

text \<open>One iteration of \<^verbatim>\<open>AcceptLoop\<close>; \<open>False\<close> means the thread returns.\<close>

definition AcceptIteration :: "'w sockets \<Rightarrow> transport \<times> 'w
    \<Rightarrow> bool \<times> ConnectionEvent list \<times> transport \<times> 'w" where
  "AcceptIteration K s = (let (t, w) = s in
     if \<not> mListening t \<or> mListenSocket t < 0 then (False, [], t, w)
     else let (fd, w1) = sk_accept K (mListenSocket t) w in
     if fd < 0 then (True, [], t, w1)
     else let (i, t') = AddConnection fd t in
     (True, [\<lparr>event_type = ev_connected, event_connection_id = i\<rparr>], t', w1))"

declare ReadExact_from.simps [simp del] WriteExact_from.simps [simp del]

section \<open>The header round trip\<close>

lemma from_le16_le16 [simp]: "from_le16 (le16 w @ r) = w"
  by (rule bit_word_eqI) (auto simp: from_le16_def le16_def bit_simps)

lemma from_le32_le32 [simp]: "from_le32 (le32 w @ r) = w"
proof (rule bit_word_eqI)
  fix n assume "n < LENGTH(32)"
  then show "bit (from_le32 (le32 w @ r)) n \<longleftrightarrow> bit w n"
    by (cases "24 \<le> n"; cases "16 \<le> n") (auto simp: from_le32_def le32_def bit_simps not_less)
qed

lemma from_le32_le32_end [simp]: "from_le32 (le32 w) = w"
  using from_le32_le32 [of w "[]"] by simp

lemma length_le [simp]: "length (le16 a) = 2" "length (le32 b) = 4"
  by (simp_all add: le16_def le32_def)

lemma length_SerializeFrameHeader [simp]: "length (SerializeFrameHeader h) = kFrameHeaderSize"
  by (simp add: SerializeFrameHeader_def kFrameHeaderSize_def)

lemma deserialize_serialize:
  "DeserializeFrameHeader (Some (SerializeFrameHeader h @ rest)) h0 = (magic h = kFrameMagic, h)"
  by (simp add: DeserializeFrameHeader_def SerializeFrameHeader_def kFrameHeaderSize_def
      drop_Cons' Let_def)

section \<open>The byte stream\<close>

text \<open>
  What the code relies on of a connected stream socket. \<open>pending w fd\<close> are the bytes the peer has
  sent on \<open>fd\<close> that are not read yet and \<open>sent w fd\<close> those written so far: \<^verbatim>\<open>recv\<close> removes a prefix, not
  longer than asked for and not empty while bytes are pending; \<^verbatim>\<open>send\<close> appends as many
  bytes as it returns, at most those given.
\<close>

definition recv_documented :: "'w sockets \<Rightarrow> ('w \<Rightarrow> int \<Rightarrow> u8 list) \<Rightarrow> bool" where
  "recv_documented K pending \<longleftrightarrow> (\<forall>fd n w bs w'. sk_recv K fd n w = (bs, w') \<longrightarrow> 0 < n \<longrightarrow>
     length bs \<le> n \<and> pending w fd = bs @ pending w' fd \<and> (pending w fd \<noteq> [] \<longrightarrow> bs \<noteq> []))"

definition send_documented :: "'w sockets \<Rightarrow> ('w \<Rightarrow> int \<Rightarrow> u8 list) \<Rightarrow> bool" where
  "send_documented K sent \<longleftrightarrow> (\<forall>fd bytes w rc w'. sk_send K fd bytes w = (rc, w') \<longrightarrow>
     rc \<le> int (length bytes) \<and> sent w' fd = sent w fd @ take (nat rc) bytes)"

lemma ReadExact_from_stream:
  assumes "recv_documented K pending"
    and "length buf \<le> n" and "n \<le> length buf + length (pending w fd)"
  shows "\<exists>w'. ReadExact_from K fd n buf w = (Some (buf @ take (n - length buf) (pending w fd)), w')
     \<and> pending w' fd = drop (n - length buf) (pending w fd)"
  using assms
proof (induction K fd n buf w rule: ReadExact_from.induct)
  case (1 K fd n buf w)
  show ?case
  proof (cases "length buf < n")
    case False
    with "1.prems" show ?thesis by (subst ReadExact_from.simps) simp
  next
    case True
    obtain bs w1 where r: "sk_recv K fd (n - length buf) w = (bs, w1)" by fastforce
    with "1.prems" True have bs: "length bs \<le> n - length buf" "pending w fd = bs @ pending w1 fd" "bs \<noteq> []"
      by (fastforce simp: recv_documented_def)+
    from bs(1) True have "length (buf @ bs) \<le> n" by simp
    with "1.IH" [OF True r [symmetric] refl bs(3) "1.prems"(1)] "1.prems"(3) bs(2)
    obtain w' where "ReadExact_from K fd n (buf @ bs) w1 =
          (Some ((buf @ bs) @ take (n - length (buf @ bs)) (pending w1 fd)), w')"
        "pending w' fd = drop (n - length (buf @ bs)) (pending w1 fd)"
      by auto
    with True r bs show ?thesis
      by (subst ReadExact_from.simps) (auto simp: diff_diff_left)
  qed
qed

lemma ReadExact_stream:
  assumes "recv_documented K pending" and "pending w fd = xs @ ys"
  shows "\<exists>w'. ReadExact K fd (length xs) w = (Some xs, w') \<and> pending w' fd = ys"
  using ReadExact_from_stream [of K pending "[]" "length xs" w fd] assms
  by (simp add: ReadExact_def)

lemma WriteExact_from_stream:
  assumes "send_documented K sent" and "WriteExact_from K fd buffer written w = (True, w')"
    and "written \<le> length buffer"
  shows "sent w' fd = sent w fd @ drop written buffer"
  using assms
proof (induction K fd buffer written w rule: WriteExact_from.induct)
  case (1 K fd buffer written w)
  show ?case
  proof (cases "written < length buffer")
    case False
    with "1.prems" show ?thesis by (simp add: WriteExact_from.simps [of K fd buffer written w])
  next
    case True
    obtain rc w1 where r: "sk_send K fd (drop written buffer) w = (rc, w1)" by fastforce
    with "1.prems" True have pos: "\<not> rc \<le> 0"
      and step: "WriteExact_from K fd buffer (written + nat rc) w1 = (True, w')"
      by (auto simp: WriteExact_from.simps [of K fd buffer written w] split: if_splits)
    from "1.prems"(1) r have d: "rc \<le> int (length (drop written buffer))"
      "sent w1 fd = sent w fd @ take (nat rc) (drop written buffer)"
      unfolding send_documented_def by blast+
    from "1.IH" [OF True r [symmetric] refl pos "1.prems"(1) step] d(1) True
    have "sent w' fd = sent w1 fd @ drop (written + nat rc) buffer" by simp
    moreover have "drop (written + nat rc) buffer = drop (nat rc) (drop written buffer)"
      by (simp add: add.commute)
    ultimately show ?thesis using d(2) by (metis append.assoc append_take_drop_id)
  qed
qed

lemma WriteExact_stream:
  "send_documented K sent \<Longrightarrow> WriteExact K fd buffer w = (True, w') \<Longrightarrow> sent w' fd = sent w fd @ buffer"
  using WriteExact_from_stream [of K sent fd buffer 0 w w'] by (simp add: WriteExact_def)

section \<open>What goes over the wire\<close>

text \<open>A successful \<open>Send\<close> has put the header and the payload of the frame on the stream.\<close>

lemma Send_writes_frame:
  assumes "send_documented K sent" and "Send K f (t, w) = (r, ev, t', w')" and "ok r"
  shows "\<exists>c. map_of (mConnections t) (connection_id f) = Some c \<and> \<not> closed c \<and> t' = t \<and> ev = [] \<and>
     sent w' (socket_fd c) = sent w (socket_fd c) @ SerializeFrameHeader (frame_header f) @ payload f"
proof -
  obtain c where c: "map_of (mConnections t) (connection_id f) = Some c" "\<not> closed c"
    using assms(2,3) by (auto simp: Send_def Let_def split: option.splits if_splits)
  obtain h w1 where h: "WriteExact K (socket_fd c) (SerializeFrameHeader (frame_header f)) w = (h, w1)"
    by fastforce
  obtain p w2 where p: "WriteExact K (socket_fd c) (payload f) w1 = (p, w2)" by fastforce
  have "h" using assms(2,3) c h by (auto simp: Send_def Let_def split: prod.splits if_splits)
  then have s1: "sent w1 (socket_fd c) = sent w (socket_fd c) @ SerializeFrameHeader (frame_header f)"
    using WriteExact_stream [OF assms(1)] h by simp
  show ?thesis
  proof (cases "payload f = []")
    case True
    with assms(2,3) c h \<open>h\<close> s1 show ?thesis by (auto simp: Send_def Let_def)
  next
    case False
    have p_ok: "p" using assms(2,3) c h \<open>h\<close> p False by (auto simp: Send_def Let_def split: prod.splits if_splits)
    then have "sent w2 (socket_fd c) = sent w1 (socket_fd c) @ payload f"
      using WriteExact_stream [OF assms(1)] p by simp
    with assms(2,3) c h \<open>h\<close> s1 p p_ok False show ?thesis by (auto simp: Send_def Let_def)
  qed
qed

text \<open>
  Whatever the chunks \<^verbatim>\<open>recv\<close> delivers, the reader hands on exactly the frame whose bytes are
  pending, and leaves what follows it on the stream.
\<close>

lemma ReaderIteration_reads_frame:
  assumes doc: "recv_documented K pending"
    and c: "map_of (mConnections t) i = Some c" "\<not> closed c"
    and m: "magic h = kFrameMagic" and len: "unat (frame_length h) = length p"
    and pend: "pending w (socket_fd c) = SerializeFrameHeader h @ p @ rest"
  shows "\<exists>w'. ReaderIteration K i (t, w) =
      (reader_frame \<lparr>connection_id = i, frame_header = h, payload = p\<rparr>, [], t, w')
    \<and> pending w' (socket_fd c) = rest"
proof -
  obtain w1 where r1: "ReadExact K (socket_fd c) kFrameHeaderSize w = (Some (SerializeFrameHeader h), w1)"
    and p1: "pending w1 (socket_fd c) = p @ rest"
    using ReadExact_stream [OF doc pend] by auto
  obtain w2 where r2: "ReadExact K (socket_fd c) (unat (frame_length h)) w1 = (Some p, w2)"
    and p2: "pending w2 (socket_fd c) = rest"
    using ReadExact_stream [OF doc p1] len by auto
  have d: "DeserializeFrameHeader (Some (SerializeFrameHeader h)) default_FrameHeader = (True, h)"
    using deserialize_serialize [of h "[]"] m by simp
  show ?thesis
  proof (cases "frame_length h = 0")
    case True
    with len have "p = []" by simp
    with True c r1 p1 d show ?thesis by (simp add: ReaderIteration_def Let_def)
  next
    case False
    with c r1 r2 p2 d show ?thesis by (simp add: ReaderIteration_def Let_def)
  qed
qed

section \<open>The connection table\<close>

text \<open>
  Ids in the table are below the counter, so a new connection never takes over the entry of
  a live one (while the 64-bit counter does not wrap).
\<close>

definition transport_inv :: "transport \<Rightarrow> bool" where
  "transport_inv t \<longleftrightarrow> distinct (map fst (mConnections t)) \<and> 0 < mNextConnectionId t \<and>
     (\<forall>i c. map_of (mConnections t) i = Some c \<longrightarrow> 0 < i \<and> i < mNextConnectionId t)"

lemma AddConnection_inv:
  assumes "transport_inv t" and "mNextConnectionId t + 1 \<noteq> 0"
    and "AddConnection fd t = (i, t')"
  shows "transport_inv t' \<and> map_of (mConnections t) i = None \<and>
     map_of (mConnections t') = (map_of (mConnections t))(i \<mapsto> \<lparr>socket_fd = fd, closed = False\<rparr>)"
proof -
  have fresh: "map_of (mConnections t) (mNextConnectionId t) = None"
    using assms(1) unfolding transport_inv_def by (metis less_irrefl not_None_eq)
  have up: "mNextConnectionId t < mNextConnectionId t + 1"
    using assms(2) by (rule word_less_plus_1)
  have "0 < mNextConnectionId t + 1"
    using assms(2) by (simp add: word_greater_zero_iff)
  moreover have "\<And>j. j < mNextConnectionId t \<Longrightarrow> j < mNextConnectionId t + 1"
    using up by (blast intro: less_trans)
  ultimately show ?thesis using assms(1,3) fresh up
    by (auto simp: AddConnection_def Let_def transport_inv_def split: if_splits)
qed

text \<open>Disconnecting twice raises the event once: the entry is gone after the first time.\<close>

lemma HandleDisconnect_once:
  assumes "HandleDisconnect K i n (t, w) = (ev, t', w')" and "distinct (map fst (mConnections t))"
    and "ev \<noteq> []"
  shows "ev = [\<lparr>event_type = ev_disconnected, event_connection_id = i\<rparr>] \<and>
     HandleDisconnect K i n' (t', w'') = ([], t', w'')"
  using assms by (auto simp: HandleDisconnect_def Let_def split: option.splits if_splits)

end
