(* ===== verification/Link_Manager.thy ===== *)
theory Link_Manager
  imports Tcp_Transport
begin

text \<open>
  The link layer (src/src/framework/ipc/link): the control codec and \<^verbatim>\<open>LinkManager\<close>, which runs the
  Hello/HelloAck handshake on every connection. Messages carry the fields of control.proto that the code
  reads or sets; their wire format is generated code, the record \<open>control_wire\<close>. The abstract
  class \<^verbatim>\<open>ILinkView\<close> is the locale \<open>link_view\<close>.
\<close>

section \<open>Control messages\<close>

type_synonym HelloAckResult = int

abbreviation RESULT_UNSPECIFIED :: HelloAckResult where "RESULT_UNSPECIFIED \<equiv> 0"
abbreviation RESULT_OK :: HelloAckResult where "RESULT_OK \<equiv> 1"
abbreviation RESULT_INCOMPATIBLE_VERSION :: HelloAckResult where "RESULT_INCOMPATIBLE_VERSION \<equiv> 2"

text \<open>The process identity of a message may be absent; proto3 enumerations are open.\<close>

datatype ControlMessage =
    Hello "ProcessRef option" u32 u32
  | HelloAck HelloAckResult "ProcessRef option" u32
  | Ping
  | Pong
  | Close_message
  | BODY_NOT_SET

datatype ControlMessageType = ct_hello | ct_hello_ack | ct_ping | ct_pong | ct_close

record control_wire =
  ctl_serialize :: "ControlMessage \<Rightarrow> ByteBuffer"
  ctl_parse :: "ByteBuffer \<Rightarrow> ControlMessage option"

record HelloInfo =
  process_ref :: ProcessRef
  hello_protocol_version :: u32
  min_supported_protocol_version :: u32

definition EncodeHello :: "control_wire \<Rightarrow> ProcessRef \<Rightarrow> u32 \<Rightarrow> ByteBuffer" where
  "EncodeHello W self v = ctl_serialize W (Hello (Some self) v v)"

definition EncodeHelloAck :: "control_wire \<Rightarrow> ProcessRef \<Rightarrow> u32 \<Rightarrow> HelloAckResult \<Rightarrow> ByteBuffer" where
  "EncodeHelloAck W self v r = ctl_serialize W (HelloAck r (Some self) v)"

definition EncodePong :: "control_wire \<Rightarrow> ByteBuffer" where
  "EncodePong W = ctl_serialize W Pong"

definition DecodeControlMessage :: "control_wire \<Rightarrow> ByteBuffer \<Rightarrow> ControlMessage option" where
  "DecodeControlMessage W bytes = ctl_parse W bytes"

fun GetControlMessageType :: "ControlMessage \<Rightarrow> ControlMessageType" where
  "GetControlMessageType (Hello _ _ _) = ct_hello"
| "GetControlMessageType (HelloAck _ _ _) = ct_hello_ack"
| "GetControlMessageType Ping = ct_ping"
| "GetControlMessageType Pong = ct_pong"
| "GetControlMessageType Close_message = ct_close"
| "GetControlMessageType BODY_NOT_SET = ct_close"

fun ExtractHelloInfo :: "ControlMessage \<Rightarrow> result + HelloInfo" where
  "ExtractHelloInfo (Hello (Some p) v m) =
     Inr \<lparr>process_ref = p, hello_protocol_version = v, min_supported_protocol_version = m\<rparr>"
| "ExtractHelloInfo _ = Inl (Failure ''hello message missing process identity'')"

fun ExtractHelloAckResult :: "ControlMessage \<Rightarrow> result + HelloAckResult" where
  "ExtractHelloAckResult (HelloAck r _ _) = Inr r"
| "ExtractHelloAckResult _ = Inl (Failure ''hello_ack message missing result'')"

section \<open>Links\<close>

datatype LinkState = link_idle | link_handshaking | link_active | link_closed

record Link =
  link_connection_id :: ConnectionId
  remote_process :: ProcessRef
  link_state :: LinkState

record LinkManager =
  lm_mSelf :: ProcessRef
  lm_mProtocolVersion :: u32
  mLinks :: "(ConnectionId \<times> Link) list"
  mOutboundFrames :: "RawFrame list"

definition default_Link :: Link where
  "default_Link = \<lparr>link_connection_id = 0, remote_process = default_ProcessRef, link_state = link_idle\<rparr>"

definition LinkManager_new :: "ProcessRef \<Rightarrow> u32 \<Rightarrow> LinkManager" where
  "LinkManager_new self v = \<lparr>lm_mSelf = self, lm_mProtocolVersion = v, mLinks = [], mOutboundFrames = []\<rparr>"

text \<open>\<^verbatim>\<open>mLinks[connection_id]\<close>, which creates a default link for a new key.\<close>

definition link_at :: "LinkManager \<Rightarrow> ConnectionId \<Rightarrow> Link" where
  "link_at m c = (case map_of (mLinks m) c of None \<Rightarrow> default_Link | Some l \<Rightarrow> l)"

definition set_link :: "ConnectionId \<Rightarrow> Link \<Rightarrow> LinkManager \<Rightarrow> LinkManager" where
  "set_link c l m = m\<lparr>mLinks := AList.update c l (mLinks m)\<rparr>"

definition QueueFrame :: "ConnectionId \<Rightarrow> FrameKind \<Rightarrow> ByteBuffer \<Rightarrow> LinkManager \<Rightarrow> LinkManager" where
  "QueueFrame c k bytes m = m\<lparr>mOutboundFrames := mOutboundFrames m @
     [\<lparr>connection_id = c,
       frame_header = default_FrameHeader\<lparr>kind := k, frame_length := of_nat (length bytes)\<rparr>,
       payload = bytes\<rparr>]\<rparr>"

definition OnConnectionEvent :: "control_wire \<Rightarrow> ConnectionEvent \<Rightarrow> LinkManager \<Rightarrow> LinkManager" where
  "OnConnectionEvent W e m = (let c = event_connection_id e in
     case event_type e of
       ev_connected \<Rightarrow>
         QueueFrame c FK_control (EncodeHello W (lm_mSelf m) (lm_mProtocolVersion m))
           (set_link c ((link_at m c)\<lparr>link_connection_id := c, link_state := link_handshaking\<rparr>) m)
     | ev_disconnected \<Rightarrow> m\<lparr>mLinks := AList.delete c (mLinks m)\<rparr>)"

definition IsProtocolCompatible :: "LinkManager \<Rightarrow> HelloInfo \<Rightarrow> bool" where
  "IsProtocolCompatible m hello \<longleftrightarrow>
     hello_protocol_version hello \<noteq> 0 \<and>
     \<not> hello_protocol_version hello < lm_mProtocolVersion m \<and>
     \<not> min_supported_protocol_version hello > lm_mProtocolVersion m"

definition HandleHello :: "control_wire \<Rightarrow> ConnectionId \<Rightarrow> ByteBuffer \<Rightarrow> LinkManager \<Rightarrow> result \<times> LinkManager" where
  "HandleHello W c bytes m = (case DecodeControlMessage W bytes of
      None \<Rightarrow> (Failure ''invalid hello control message'', m)
    | Some msg \<Rightarrow> (case ExtractHelloInfo msg of
        Inl e \<Rightarrow> (e, m)
      | Inr hello \<Rightarrow>
          let link = (link_at m c)\<lparr>link_connection_id := c, remote_process := process_ref hello\<rparr> in
          if \<not> IsProtocolCompatible m hello
          then (Failure ''incompatible protocol version'',
                QueueFrame c FK_control (EncodeHelloAck W (lm_mSelf m) (lm_mProtocolVersion m) RESULT_INCOMPATIBLE_VERSION)
                  (set_link c (link\<lparr>link_state := link_closed\<rparr>) m))
          else (Success,
                QueueFrame c FK_control (EncodeHelloAck W (lm_mSelf m) (lm_mProtocolVersion m) RESULT_OK)
                  (set_link c (link\<lparr>link_state := link_active\<rparr>) m))))"

definition OnFrame :: "control_wire \<Rightarrow> RawFrame \<Rightarrow> LinkManager \<Rightarrow> result \<times> LinkManager" where
  "OnFrame W frame m = (let c = connection_id frame in
     if kind (frame_header frame) \<noteq> FK_control then (Failure ''unsupported frame kind'', m)
     else case DecodeControlMessage W (payload frame) of
       None \<Rightarrow> (Failure ''invalid control message'', m)
     | Some msg \<Rightarrow> (case GetControlMessageType msg of
         ct_hello \<Rightarrow> HandleHello W c (payload frame) m
       | ct_hello_ack \<Rightarrow> (case map_of (mLinks m) c of
             None \<Rightarrow> (Failure ''link not found'', m)
           | Some link \<Rightarrow> (case ExtractHelloAckResult msg of
               Inl e \<Rightarrow> (e, m)
             | Inr r \<Rightarrow>
                 if r \<noteq> RESULT_OK
                 then (Failure ''hello_ack rejected'', set_link c (link\<lparr>link_state := link_closed\<rparr>) m)
                 else (Success, set_link c (link\<lparr>link_state := link_active\<rparr>) m)))
       | ct_ping \<Rightarrow> (Success, QueueFrame c FK_control (EncodePong W) m)
       | ct_pong \<Rightarrow> (Success, m)
       | ct_close \<Rightarrow> (Success, m)))"

definition is_healthy :: "ProcessRef \<Rightarrow> Link \<Rightarrow> bool" where
  "is_healthy target l \<longleftrightarrow> link_state l = link_active \<and> remote_process l = target"

definition HasHealthyDirectLink :: "LinkManager \<Rightarrow> ProcessRef \<Rightarrow> bool" where
  "HasHealthyDirectLink m target \<longleftrightarrow> (\<exists>(c, l) \<in> set (mLinks m). is_healthy target l)"

definition GetHealthyLinks :: "LinkManager \<Rightarrow> ProcessRef list" where
  "GetHealthyLinks m = map remote_process (filter (\<lambda>l. link_state l = link_active) (map snd (mLinks m)))"

definition FindConnection :: "LinkManager \<Rightarrow> ProcessRef \<Rightarrow> ConnectionId option" where
  "FindConnection m target = map_option fst (find (\<lambda>(c, l). is_healthy target l) (mLinks m))"

definition DrainOutboundFrames :: "LinkManager \<Rightarrow> RawFrame list \<times> LinkManager" where
  "DrainOutboundFrames m = (mOutboundFrames m, m\<lparr>mOutboundFrames := []\<rparr>)"

section \<open>The contract of a link view\<close>

locale link_view =
  fixes has_link :: "'l \<Rightarrow> ProcessRef \<Rightarrow> bool"
    and healthy_links :: "'l \<Rightarrow> ProcessRef list"
    and connection_to :: "'l \<Rightarrow> ProcessRef \<Rightarrow> ConnectionId option"
  assumes healthy_iff: "has_link v p \<longleftrightarrow> p \<in> set (healthy_links v)"
    and connection_iff: "connection_to v p \<noteq> None \<longleftrightarrow> has_link v p"
begin

text \<open>A process the view calls healthy can be sent to: the sender finds a connection for it.\<close>

lemma healthy_sendable: "p \<in> set (healthy_links v) \<Longrightarrow> \<exists>c. connection_to v p = Some c"
  using connection_iff healthy_iff by fastforce

end

interpretation lm_view: link_view HasHealthyDirectLink GetHealthyLinks FindConnection
proof
  fix m p
  show "HasHealthyDirectLink m p \<longleftrightarrow> p \<in> set (GetHealthyLinks m)"
    by (force simp: HasHealthyDirectLink_def GetHealthyLinks_def is_healthy_def)
  show "FindConnection m p \<noteq> None \<longleftrightarrow> HasHealthyDirectLink m p"
    by (auto simp: FindConnection_def HasHealthyDirectLink_def find_None_iff split: prod.splits)
qed

section \<open>The link table\<close>

text \<open>Every link is filed under its own connection.\<close>

definition links_inv :: "LinkManager \<Rightarrow> bool" where
  "links_inv m \<longleftrightarrow> distinct (map fst (mLinks m)) \<and>
     (\<forall>c l. map_of (mLinks m) c = Some l \<longrightarrow> link_connection_id l = c)"

lemmas link_defs = link_at_def set_link_def QueueFrame_def

lemma OnConnectionEvent_inv: "links_inv m \<Longrightarrow> links_inv (OnConnectionEvent W e m)"
  by (auto simp: links_inv_def OnConnectionEvent_def link_defs Let_def split: ConnectionEventType.splits)

lemma HandleHello_inv: "links_inv m \<Longrightarrow> links_inv (snd (HandleHello W c bytes m))"
  by (auto simp: links_inv_def HandleHello_def link_defs Let_def split: option.splits sum.splits)

lemma OnFrame_inv: "links_inv m \<Longrightarrow> links_inv (snd (OnFrame W frame m))"
  using HandleHello_inv [of m W "connection_id frame" "payload frame"]
  by (auto simp: links_inv_def OnFrame_def link_defs Let_def
      split: option.splits sum.splits ControlMessageType.splits)

text \<open>A frame never touches the link of another connection.\<close>

lemma OnFrame_frame:
  assumes "c \<noteq> connection_id frame"
  shows "map_of (mLinks (snd (OnFrame W frame m))) c = map_of (mLinks m) c"
  using assms
  by (auto simp: OnFrame_def HandleHello_def link_defs Let_def
      split: option.splits sum.splits ControlMessageType.splits)

lemma healthy_link_iff:
  "links_inv m \<Longrightarrow> HasHealthyDirectLink m p \<longleftrightarrow> (\<exists>c l. map_of (mLinks m) c = Some l \<and> is_healthy p l)"
  by (force simp: HasHealthyDirectLink_def links_inv_def map_of_mem_iff)

text \<open>The connection the sender picks leads to the process it asked for.\<close>

lemma FindConnection_sound:
  assumes "links_inv m" and "FindConnection m p = Some c"
  shows "\<exists>l. map_of (mLinks m) c = Some l \<and> is_healthy p l \<and> link_connection_id l = c"
proof -
  obtain l where "(c, l) \<in> set (mLinks m)" "is_healthy p l"
    using assms(2) by (auto simp: FindConnection_def find_Some_iff in_set_conv_nth) metis
  then show ?thesis using assms(1) by (auto simp: links_inv_def map_of_mem_iff)
qed

section \<open>The handshake\<close>

text \<open>What the code relies on in the generated parser, for one message.\<close>

definition wire_roundtrip :: "control_wire \<Rightarrow> ControlMessage \<Rightarrow> bool" where
  "wire_roundtrip W msg \<longleftrightarrow> ctl_parse W (ctl_serialize W msg) = Some msg"

definition hello_of :: "LinkManager \<Rightarrow> ControlMessage" where
  "hello_of m = Hello (Some (lm_mSelf m)) (lm_mProtocolVersion m) (lm_mProtocolVersion m)"

definition ack_of :: "LinkManager \<Rightarrow> HelloAckResult \<Rightarrow> ControlMessage" where
  "ack_of m r = HelloAck r (Some (lm_mSelf m)) (lm_mProtocolVersion m)"

definition control_frame :: "control_wire \<Rightarrow> ConnectionId \<Rightarrow> ControlMessage \<Rightarrow> RawFrame" where
  "control_frame W c msg = \<lparr>connection_id = c,
     frame_header = default_FrameHeader\<lparr>kind := FK_control, frame_length := of_nat (length (ctl_serialize W msg))\<rparr>,
     payload = ctl_serialize W msg\<rparr>"

text \<open>Since a Hello carries the same value as current and as oldest version, compatible means equal.\<close>

lemma compatible_iff:
  "IsProtocolCompatible m \<lparr>process_ref = p, hello_protocol_version = v, min_supported_protocol_version = v\<rparr>
     \<longleftrightarrow> v \<noteq> 0 \<and> v = lm_mProtocolVersion m"
  by (auto simp: IsProtocolCompatible_def)

lemma OnFrame_hello:
  assumes "wire_roundtrip W (Hello (Some p) v v)"
  shows "OnFrame W (control_frame W c (Hello (Some p) v v)) m =
    (let link = (link_at m c)\<lparr>link_connection_id := c, remote_process := p\<rparr> in
     if v \<noteq> 0 \<and> v = lm_mProtocolVersion m
     then (Success, QueueFrame c FK_control (ctl_serialize W (ack_of m RESULT_OK))
             (set_link c (link\<lparr>link_state := link_active\<rparr>) m))
     else (Failure ''incompatible protocol version'',
           QueueFrame c FK_control (ctl_serialize W (ack_of m RESULT_INCOMPATIBLE_VERSION))
             (set_link c (link\<lparr>link_state := link_closed\<rparr>) m)))"
  using assms
  by (auto simp: OnFrame_def control_frame_def DecodeControlMessage_def wire_roundtrip_def HandleHello_def
      compatible_iff EncodeHelloAck_def ack_of_def Let_def)

lemma OnFrame_ack:
  assumes "wire_roundtrip W (HelloAck r q v)" and "map_of (mLinks m) c = Some link"
  shows "OnFrame W (control_frame W c (HelloAck r q v)) m =
    (if r = RESULT_OK then (Success, set_link c (link\<lparr>link_state := link_active\<rparr>) m)
     else (Failure ''hello_ack rejected'', set_link c (link\<lparr>link_state := link_closed\<rparr>) m))"
  using assms by (auto simp: OnFrame_def control_frame_def DecodeControlMessage_def wire_roundtrip_def Let_def)

text \<open>
  Two managers that see the same connection come up, each under a number of its own. \<open>arrive\<close>: the frames that arrive on a
  connection, in order; the reader of the transport gives them the number of its own side. \<open>exchange\<close>: both sides drain what
  they have queued for the connection and hand it to the other.
\<close>

definition arrive :: "control_wire \<Rightarrow> ConnectionId \<Rightarrow> RawFrame list \<Rightarrow> LinkManager \<Rightarrow> LinkManager" where
  "arrive W c frames m = fold (\<lambda>f m. snd (OnFrame W (f\<lparr>connection_id := c\<rparr>) m)) frames m"

definition exchange :: "control_wire \<Rightarrow> ConnectionId \<Rightarrow> ConnectionId \<Rightarrow> LinkManager \<times> LinkManager \<Rightarrow> LinkManager \<times> LinkManager" where
  "exchange W c d s = (let (a, b) = s; (from_a, a') = DrainOutboundFrames a; (from_b, b') = DrainOutboundFrames b in
     (arrive W c (filter (\<lambda>f. connection_id f = d) from_b) a', arrive W d (filter (\<lambda>f. connection_id f = c) from_a) b'))"

text \<open>The whole handshake: the connect event on both sides, an exchange of what it queued, and an exchange of the answers.\<close>

definition handshake :: "control_wire \<Rightarrow> ConnectionId \<Rightarrow> ConnectionId \<Rightarrow> LinkManager \<times> LinkManager \<Rightarrow> LinkManager \<times> LinkManager" where
  "handshake W c d s = (let (a, b) = s in
     exchange W c d (exchange W c d
       (OnConnectionEvent W \<lparr>event_type = ev_connected, event_connection_id = c\<rparr> a,
        OnConnectionEvent W \<lparr>event_type = ev_connected, event_connection_id = d\<rparr> b)))"

lemma connect_queues_hello:
  assumes "mOutboundFrames m = []"
  shows "DrainOutboundFrames (OnConnectionEvent W \<lparr>event_type = ev_connected, event_connection_id = c\<rparr> m) =
    ([control_frame W c (hello_of m)], set_link c ((link_at m c)\<lparr>link_connection_id := c, link_state := link_handshaking\<rparr>) m)"
  using assms
  by (simp add: DrainOutboundFrames_def OnConnectionEvent_def QueueFrame_def set_link_def control_frame_def EncodeHello_def hello_of_def Let_def)

definition answer_of :: "LinkManager \<Rightarrow> LinkManager \<Rightarrow> ControlMessage" where
  "answer_of m peer = ack_of m (if lm_mProtocolVersion peer \<noteq> 0 \<and> lm_mProtocolVersion peer = lm_mProtocolVersion m
     then RESULT_OK else RESULT_INCOMPATIBLE_VERSION)"

text \<open>A side that gets the peer's Hello queues its answer and files the link.\<close>

definition agreed :: "LinkManager \<Rightarrow> LinkManager \<Rightarrow> LinkState" where
  "agreed a b = (if lm_mProtocolVersion a \<noteq> 0 \<and> lm_mProtocolVersion a = lm_mProtocolVersion b then link_active else link_closed)"

lemma hello_is_answered:
  assumes "mOutboundFrames m = []" and "wire_roundtrip W (hello_of b)"
  shows "DrainOutboundFrames (arrive W c [control_frame W d (hello_of b)] m) =
    ([control_frame W c (answer_of m b)],
     set_link c ((link_at m c)\<lparr>link_connection_id := c, remote_process := lm_mSelf b, link_state := agreed m b\<rparr>) m)"
proof -
  have f: "(control_frame W d msg)\<lparr>connection_id := c\<rparr> = control_frame W c msg" for msg by (simp add: control_frame_def)
  show ?thesis
    using OnFrame_hello [of W "lm_mSelf b" "lm_mProtocolVersion b" c m] assms
    by (auto simp: arrive_def f hello_of_def DrainOutboundFrames_def QueueFrame_def set_link_def answer_of_def ack_of_def control_frame_def
        agreed_def Let_def)
qed

lemma answer_is_taken:
  assumes "map_of (mLinks m) c = Some l" and "wire_roundtrip W (answer_of b a)"
  shows "map_of (mLinks (arrive W c [control_frame W d (answer_of b a)] m)) c = Some (l\<lparr>link_state := agreed a b\<rparr>)"
proof -
  have f: "(control_frame W d msg)\<lparr>connection_id := c\<rparr> = control_frame W c msg" for msg by (simp add: control_frame_def)
  show ?thesis
    using OnFrame_ack [OF assms(2) [unfolded answer_of_def ack_of_def] assms(1)]
    by (auto simp: arrive_def f answer_of_def ack_of_def set_link_def agreed_def)
qed

lemma set_link_sel [simp]: "mOutboundFrames (set_link c l m) = mOutboundFrames m" "lm_mSelf (set_link c l m) = lm_mSelf m"
  "lm_mProtocolVersion (set_link c l m) = lm_mProtocolVersion m" "map_of (mLinks (set_link c l m)) c = Some l"
  by (simp_all add: set_link_def)

lemma answer_of_set_link [simp]: "answer_of (set_link c l m) b = answer_of m b" "answer_of m (set_link c l b) = answer_of m b"
  "agreed (set_link c l m) b = agreed m b" "agreed m (set_link c l b) = agreed m b"
  by (simp_all add: answer_of_def ack_of_def agreed_def)

lemma control_frame_sel [simp]: "connection_id (control_frame W c msg) = c" by (simp add: control_frame_def)

lemma handshake_links:
  assumes "mOutboundFrames a = []" and "mOutboundFrames b = []" and "wire_roundtrip W (hello_of a)" and "wire_roundtrip W (hello_of b)"
    and "wire_roundtrip W (answer_of b a)" and "wire_roundtrip W (answer_of a b)" and "handshake W c d (a, b) = (a', b')"
  shows "map_of (mLinks a') c = Some \<lparr>link_connection_id = c, remote_process = lm_mSelf b, link_state = agreed a b\<rparr>"
    and "map_of (mLinks b') d = Some \<lparr>link_connection_id = d, remote_process = lm_mSelf a, link_state = agreed a b\<rparr>"
proof -
  have sym: "agreed b a = agreed a b" by (auto simp: agreed_def)
  have "(a', b') = (arrive W c [control_frame W d (answer_of b a)]
        (set_link c ((link_at (set_link c ((link_at a c)\<lparr>link_connection_id := c, link_state := link_handshaking\<rparr>) a) c)
           \<lparr>link_connection_id := c, remote_process := lm_mSelf b, link_state := agreed a b\<rparr>)
          (set_link c ((link_at a c)\<lparr>link_connection_id := c, link_state := link_handshaking\<rparr>) a)),
      arrive W d [control_frame W c (answer_of a b)]
        (set_link d ((link_at (set_link d ((link_at b d)\<lparr>link_connection_id := d, link_state := link_handshaking\<rparr>) b) d)
           \<lparr>link_connection_id := d, remote_process := lm_mSelf a, link_state := agreed b a\<rparr>)
          (set_link d ((link_at b d)\<lparr>link_connection_id := d, link_state := link_handshaking\<rparr>) b)))"
    using assms(7) by (simp add: handshake_def exchange_def connect_queues_hello assms(1,2) hello_is_answered assms(3,4))
  then show "map_of (mLinks a') c = Some \<lparr>link_connection_id = c, remote_process = lm_mSelf b, link_state = agreed a b\<rparr>"
    "map_of (mLinks b') d = Some \<lparr>link_connection_id = d, remote_process = lm_mSelf a, link_state = agreed a b\<rparr>"
    using answer_is_taken [OF _ assms(5), of _ c _ d] answer_is_taken [OF _ assms(6), of _ d _ c] sym by auto
qed

text \<open>
  The acknowledgement alone is enough to activate a link: a peer that never sent its Hello leaves an
  active link to the default process.
\<close>

lemma ack_without_hello:
  assumes "wire_roundtrip W (HelloAck RESULT_OK q v)" and "map_of (mLinks m) c = None"
  shows "HasHealthyDirectLink (snd (OnFrame W (control_frame W c (HelloAck RESULT_OK q v))
     (OnConnectionEvent W \<lparr>event_type = ev_connected, event_connection_id = c\<rparr> m))) default_ProcessRef"
proof -
  let ?m1 = "OnConnectionEvent W \<lparr>event_type = ev_connected, event_connection_id = c\<rparr> m"
  have "map_of (mLinks ?m1) c =
      Some \<lparr>link_connection_id = c, remote_process = default_ProcessRef, link_state = link_handshaking\<rparr>"
    using assms(2) by (simp add: OnConnectionEvent_def link_defs default_Link_def)
  note OnFrame_ack [OF assms(1) this]
  then have "map_of (mLinks (snd (OnFrame W (control_frame W c (HelloAck RESULT_OK q v)) ?m1))) c =
      Some \<lparr>link_connection_id = c, remote_process = default_ProcessRef, link_state = link_active\<rparr>"
    by (simp add: link_defs)
  then show ?thesis
    by (auto simp: HasHealthyDirectLink_def is_healthy_def dest!: map_of_SomeD intro!: bexI)
qed

end
