(* ===== verification/Routing.thy ===== *)
theory Routing
  imports Membership Link_Manager
begin

text \<open>
  Route resolution (src/src/framework/ipc/routing) and the auto-connect rules of the first deployment phase
  (src/src/common/ipc/first_phase_topology_policy.h). The policy is a pure function of a routing context:
  the membership and link views it may consult are options, as the pointers of the code may be null.
\<close>

section \<open>Contexts and plans\<close>

record RoutingContext =
  ctx_self :: ProcessRef
  ctx_envelope :: Envelope
  ctx_receiver_location :: "ReceiverLocation option"
  ctx_membership :: "process_table option"
  ctx_links :: "LinkManager option"

datatype RoutePlanKind = local_delivery | single_next_hop | multi_next_hop | unreachable | drop_plan

record RouteHop =
  next_hop :: ProcessRef
  direct :: bool

record RoutePlan =
  plan_kind :: RoutePlanKind
  hops :: "RouteHop list"

definition plan :: "RoutePlanKind \<Rightarrow> RouteHop list \<Rightarrow> RoutePlan" where
  "plan k hs = \<lparr>plan_kind = k, hops = hs\<rparr>"

definition hop :: "ProcessRef \<Rightarrow> bool \<Rightarrow> RouteHop" where
  "hop p d = \<lparr>next_hop = p, direct = d\<rparr>"

lemma plan_sel [simp]: "plan_kind (plan k hs) = k" "hops (plan k hs) = hs"
  by (simp_all add: plan_def)

lemma hop_sel [simp]: "next_hop (hop p d) = p" "direct (hop p d) = d"
  by (simp_all add: hop_def)

section \<open>The relay-first policy\<close>

definition MatchesLabels :: "ProcessDescriptor \<Rightarrow> StringMap \<Rightarrow> bool" where
  "MatchesLabels p required \<longleftrightarrow> list_all (\<lambda>r. list_ex (\<lambda>l. l = r) (labels p)) required"

definition first_relay :: "ServiceType \<Rightarrow> RoutingContext \<Rightarrow> ProcessDescriptor option" where
  "first_relay relay ctx = (case ctx_membership ctx of
      None \<Rightarrow> None
    | Some t \<Rightarrow> find (\<lambda>r. process r \<noteq> ctx_self ctx) (FindByService t relay))"

definition ResolveSingleTarget :: "ServiceType \<Rightarrow> RoutingContext \<Rightarrow> ProcessRef \<Rightarrow> RoutePlan" where
  "ResolveSingleTarget relay ctx target =
     (if target = ctx_self ctx then plan local_delivery []
      else if (case ctx_links ctx of None \<Rightarrow> False | Some l \<Rightarrow> HasHealthyDirectLink l target)
      then plan single_next_hop [hop target True]
      else case first_relay relay ctx of
          Some r \<Rightarrow> plan single_next_hop [hop (process r) False]
        | None \<Rightarrow> plan unreachable [])"

text \<open>The members a broadcast reaches: those of the service that pass the scope.\<close>

definition in_scope :: "RoutingContext \<Rightarrow> ProcessDescriptor \<Rightarrow> bool" where
  "in_scope ctx p \<longleftrightarrow>
     \<not> (\<not> include_local (broadcast_scope (ctx_envelope ctx)) \<and> process p = ctx_self ctx) \<and>
     MatchesLabels p (required_labels (broadcast_scope (ctx_envelope ctx)))"

definition broadcast_service :: "Envelope \<Rightarrow> ServiceType" where
  "broadcast_service env = (case scope_service_type (broadcast_scope env) of
      Some ty \<Rightarrow> ty
    | None \<Rightarrow> ucast (key_hi (target_receiver (header env))))"

definition ResolveBroadcast :: "RoutingContext \<Rightarrow> RoutePlan" where
  "ResolveBroadcast ctx = (case ctx_membership ctx of
      None \<Rightarrow> plan drop_plan []
    | Some t \<Rightarrow>
        if rtype (target_receiver (header (ctx_envelope ctx))) \<noteq> RT_service then plan drop_plan []
        else let hs = map (\<lambda>p. hop (process p) (process p = ctx_self ctx))
                 (filter (in_scope ctx) (FindByService t (broadcast_service (ctx_envelope ctx))))
             in if hs = [] then plan drop_plan [] else plan multi_next_hop hs)"

text \<open>The rule for a process receiver, used when the location did not decide.\<close>

definition ResolveProcessReceiver :: "ServiceType \<Rightarrow> RoutingContext \<Rightarrow> RoutePlan" where
  "ResolveProcessReceiver relay ctx = (let target = target_receiver (header (ctx_envelope ctx)) in
     if rtype target = RT_process
     then let i = mk_process_id (ucast (key_hi target)) (ucast (key_lo target));
              ref = (case ctx_membership ctx of
                  None \<Rightarrow> \<lparr>process_id = i, incarnation_id = 0\<rparr>
                | Some t \<Rightarrow> (case Find t i of
                    None \<Rightarrow> \<lparr>process_id = i, incarnation_id = 0\<rparr>
                  | Some d \<Rightarrow> process d))
          in ResolveSingleTarget relay ctx ref
     else plan drop_plan [])"

definition policy_Resolve :: "ServiceType \<Rightarrow> RoutingContext \<Rightarrow> RoutePlan" where
  "policy_Resolve relay ctx =
     (if semantic (header (ctx_envelope ctx)) = broadcast_delivery then ResolveBroadcast ctx
      else case ctx_receiver_location ctx of
        None \<Rightarrow> ResolveProcessReceiver relay ctx
      | Some loc \<Rightarrow> (case loc_kind loc of
          loc_local \<Rightarrow> plan local_delivery []
        | loc_single_process \<Rightarrow> (case loc_processes loc of
              p # _ \<Rightarrow> ResolveSingleTarget relay ctx p
            | [] \<Rightarrow> ResolveProcessReceiver relay ctx)
        | loc_multi_process \<Rightarrow>
            let hs = map (\<lambda>p. hop p (p = ctx_self ctx)) (loc_processes loc)
            in if hs \<noteq> [] then plan multi_next_hop hs else ResolveProcessReceiver relay ctx
        | loc_unresolved \<Rightarrow> plan drop_plan []))"

section \<open>Auto-connect rules\<close>

definition HasMemberOfServiceType :: "ProcessDescriptor list \<Rightarrow> ServiceType \<Rightarrow> bool" where
  "HasMemberOfServiceType members ty \<longleftrightarrow> list_ex (\<lambda>p. service_type (process_id (process p)) = ty) members"

definition HasHealthyLinkOfServiceType :: "ProcessRef list \<Rightarrow> ServiceType \<Rightarrow> bool" where
  "HasHealthyLinkOfServiceType links ty \<longleftrightarrow> list_ex (\<lambda>p. service_type (process_id p) = ty) links"

definition ShouldGameReconcile :: "bool \<Rightarrow> bool \<Rightarrow> bool" where
  "ShouldGameReconcile relay_member_visible healthy_relay_link \<longleftrightarrow> \<not> healthy_relay_link \<or> \<not> relay_member_visible"

definition ShouldGameAutoConnectTarget :: "ProcessRef \<Rightarrow> ProcessDescriptor \<Rightarrow> ServiceType \<Rightarrow> bool \<Rightarrow> bool" where
  "ShouldGameAutoConnectTarget self member relay healthy_relay_link =
     (if process member = self then False
      else if service_type (process_id (process member)) \<noteq> relay then False
      else if healthy_relay_link then False
      else True)"

definition ShouldRelayAutoConnectTarget :: "ProcessRef \<Rightarrow> ProcessDescriptor \<Rightarrow> ServiceType \<Rightarrow> bool \<Rightarrow> bool" where
  "ShouldRelayAutoConnectTarget self member game already_has_healthy_link =
     (if process member = self then False
      else if service_type (process_id (process member)) \<noteq> game then False
      else if already_has_healthy_link then False
      else True)"

section \<open>Facts\<close>

lemma MatchesLabels_iff: "MatchesLabels p required \<longleftrightarrow> set required \<subseteq> set (labels p)"
  by (auto simp: MatchesLabels_def list_all_iff list_ex_iff)

lemma first_relay_sound:
  assumes "first_relay relay ctx = Some r"
  shows "process r \<noteq> ctx_self ctx \<and> service_type (process_id (process r)) = relay \<and>
     (\<exists>t. ctx_membership ctx = Some t \<and> r \<in> set (FindByService t relay))"
  using assms
  by (auto simp: first_relay_def FindByService_def dest!: find_SomeD split: option.splits)

text \<open>
  A single target is delivered locally exactly when it is the process itself, never sent to the process itself
  otherwise, and goes over one hop: the healthy direct link, or a relay.
\<close>

lemma ResolveSingleTarget_cases:
  fixes relay ctx target
  defines "r \<equiv> ResolveSingleTarget relay ctx target"
  obtains (local) "target = ctx_self ctx" "r = plan local_delivery []"
  | (direct) l where "target \<noteq> ctx_self ctx" "ctx_links ctx = Some l" "HasHealthyDirectLink l target"
      "r = plan single_next_hop [hop target True]"
  | (relay) d where "target \<noteq> ctx_self ctx" "first_relay relay ctx = Some d"
      "r = plan single_next_hop [hop (process d) False]"
  | (none) "target \<noteq> ctx_self ctx" "first_relay relay ctx = None" "r = plan unreachable []"
  unfolding r_def ResolveSingleTarget_def
  by (cases "target = ctx_self ctx"; cases "ctx_links ctx"; cases "first_relay relay ctx";
      cases "case ctx_links ctx of None \<Rightarrow> False | Some l \<Rightarrow> HasHealthyDirectLink l target") auto

lemma ResolveSingleTarget_no_self:
  "h \<in> set (hops (ResolveSingleTarget relay ctx target)) \<Longrightarrow> next_hop h \<noteq> ctx_self ctx"
  by (cases rule: ResolveSingleTarget_cases [of target ctx relay]) (auto dest: first_relay_sound)

lemma ResolveSingleTarget_not_multi: "plan_kind (ResolveSingleTarget relay ctx target) \<noteq> multi_next_hop"
  by (cases rule: ResolveSingleTarget_cases [of target ctx relay]) auto

lemma single_hop_singleton:
  "plan_kind (ResolveSingleTarget relay ctx target) = single_next_hop \<Longrightarrow>
     \<exists>h. hops (ResolveSingleTarget relay ctx target) = [h]"
  by (cases rule: ResolveSingleTarget_cases [of target ctx relay]) auto

lemma ResolveProcessReceiver_not_multi: "plan_kind (ResolveProcessReceiver relay ctx) \<noteq> multi_next_hop"
  by (simp add: ResolveProcessReceiver_def Let_def ResolveSingleTarget_not_multi)

text \<open>Only a broadcast and a receiver on several processes fan out.\<close>

lemma policy_multi_only:
  assumes "plan_kind (policy_Resolve relay ctx) = multi_next_hop"
  shows "semantic (header (ctx_envelope ctx)) = broadcast_delivery \<or>
     (\<exists>loc. ctx_receiver_location ctx = Some loc \<and> loc_kind loc = loc_multi_process)"
proof (rule ccontr)
  assume n: "\<not> ?thesis"
  show False
  proof (cases "ctx_receiver_location ctx")
    case None
    then show False using n assms by (simp add: policy_Resolve_def ResolveProcessReceiver_not_multi)
  next
    case (Some loc)
    then show False using n assms
      by (cases "loc_kind loc"; cases "loc_processes loc")
        (simp_all add: policy_Resolve_def ResolveProcessReceiver_not_multi ResolveSingleTarget_not_multi)
  qed
qed

text \<open>A broadcast reaches exactly the visible members of the service that pass the scope, each once.\<close>

lemma broadcast_hops:
  assumes "semantic (header (ctx_envelope ctx)) = broadcast_delivery" and "ctx_membership ctx = Some t"
    and "table_valid t" and "rtype (target_receiver (header (ctx_envelope ctx))) = RT_service"
  shows "next_hop ` set (hops (policy_Resolve relay ctx)) =
     {process p | p. Find t (process_id (process p)) = Some p \<and>
        service_type (process_id (process p)) = broadcast_service (ctx_envelope ctx) \<and> in_scope ctx p}"
    and "distinct (map next_hop (hops (policy_Resolve relay ctx)))"
proof -
  let ?ms = "filter (in_scope ctx) (FindByService t (broadcast_service (ctx_envelope ctx)))"
  have h: "map next_hop (hops (policy_Resolve relay ctx)) = map process ?ms"
    using assms by (auto simp: policy_Resolve_def ResolveBroadcast_def Let_def)
  then have "next_hop ` set (hops (policy_Resolve relay ctx)) = process ` set ?ms"
    by (metis list.set_map)
  moreover have "set ?ms = {p. Find t (process_id (process p)) = Some p \<and>
      service_type (process_id (process p)) = broadcast_service (ctx_envelope ctx) \<and> in_scope ctx p}"
    unfolding set_filter table_view.by_service_iff [OF assms(3)] by blast
  ultimately show "next_hop ` set (hops (policy_Resolve relay ctx)) =
     {process p | p. Find t (process_id (process p)) = Some p \<and>
        service_type (process_id (process p)) = broadcast_service (ctx_envelope ctx) \<and> in_scope ctx p}"
    by (simp only: setcompr_eq_image)
  have "inj_on process (set ?ms)"
  proof (rule inj_onI)
    fix p q
    assume "p \<in> set ?ms" "q \<in> set ?ms" "process p = process q"
    then have "Find t (process_id (process p)) = Some p" "Find t (process_id (process q)) = Some q"
      unfolding set_filter mem_Collect_eq table_view.by_service_iff [OF assms(3)] by blast+
    with \<open>process p = process q\<close> show "p = q" by (metis option.inject)
  qed
  then show "distinct (map next_hop (hops (policy_Resolve relay ctx)))"
    using table_view.by_service_distinct [OF assms(3)] by (simp add: h distinct_map)
qed

text \<open>
  Two relays that see each other but not the target hand the message to one another: no hop counter ends
  the exchange.
\<close>

lemma relay_ping_pong:
  assumes "first_relay relay ctxa = Some b" and "first_relay relay ctxb = Some a"
    and "process a = ctx_self ctxa" and "process b = ctx_self ctxb"
    and "target \<noteq> ctx_self ctxa" and "target \<noteq> ctx_self ctxb"
    and "ctx_links ctxa = Some la" and "\<not> HasHealthyDirectLink la target"
    and "ctx_links ctxb = Some lb" and "\<not> HasHealthyDirectLink lb target"
  shows "hops (ResolveSingleTarget relay ctxa target) = [hop (ctx_self ctxb) False] \<and>
     hops (ResolveSingleTarget relay ctxb target) = [hop (ctx_self ctxa) False]"
  using assms by (simp add: ResolveSingleTarget_def)

text \<open>A game without a healthy relay link connects to every other visible relay, and to nothing else.\<close>

lemma ShouldGameAutoConnectTarget_iff:
  "ShouldGameAutoConnectTarget self m relay healthy \<longleftrightarrow>
     process m \<noteq> self \<and> service_type (process_id (process m)) = relay \<and> \<not> healthy"
  by (simp add: ShouldGameAutoConnectTarget_def)

lemma ShouldRelayAutoConnectTarget_iff:
  "ShouldRelayAutoConnectTarget self m game linked \<longleftrightarrow>
     process m \<noteq> self \<and> service_type (process_id (process m)) = game \<and> \<not> linked"
  by (simp add: ShouldRelayAutoConnectTarget_def)

end
