(* ===== verification/Messenger.thy ===== *)
theory Messenger
  imports Receiver Routing
begin

text \<open>
  The messaging layer (src/src/framework/ipc/messaging): the data codec, the payload registry,
  \<^verbatim>\<open>Messenger\<close> and \<^verbatim>\<open>TransportMessageSender\<close>. The wire format of envelope.proto is generated code, the
  record \<open>env_wire\<close>. A business message is its type name and its serialised bytes. What a receiver
  host and the remote sender change is the state \<open>'s\<close>.
\<close>

section \<open>The data codec\<close>

record ProtoReceiverAddress =
  pr_type :: u32
  pr_key_hi :: u64
  pr_key_lo :: u64

record ProtoBroadcastScope =
  ps_service_type :: "u32 option"
  ps_required_labels :: StringMap
  ps_include_local :: bool

record DataEnvelope =
  de_source_process :: ProcessRef
  de_semantic :: int
  de_target_receiver :: ProtoReceiverAddress
  de_resolved_target_process :: "ProcessRef option"
  de_broadcast_scope :: "ProtoBroadcastScope option"
  de_payload_type_url :: string
  de_payload_bytes :: ByteBuffer
  de_request_id :: u64
  de_flags :: u32

abbreviation DELIVERY_SEMANTIC_DIRECT :: int where "DELIVERY_SEMANTIC_DIRECT \<equiv> 1"
abbreviation DELIVERY_SEMANTIC_BROADCAST :: int where "DELIVERY_SEMANTIC_BROADCAST \<equiv> 2"

record env_wire =
  env_serialize :: "DataEnvelope \<Rightarrow> ByteBuffer"
  env_parse :: "ByteBuffer \<Rightarrow> DataEnvelope option"

definition receiver_ToProto :: "ReceiverAddress \<Rightarrow> ProtoReceiverAddress" where
  "receiver_ToProto r = \<lparr>pr_type = ucast (rtype r), pr_key_hi = key_hi r, pr_key_lo = key_lo r\<rparr>"

definition receiver_FromProto :: "ProtoReceiverAddress \<Rightarrow> ReceiverAddress" where
  "receiver_FromProto p = \<lparr>rtype = ucast (pr_type p), key_hi = pr_key_hi p, key_lo = pr_key_lo p\<rparr>"

text \<open>The labels become a protobuf map: a repeated key keeps its last value.\<close>

definition scope_ToProto :: "BroadcastScope \<Rightarrow> ProtoBroadcastScope" where
  "scope_ToProto s = \<lparr>ps_service_type = scope_service_type s,
     ps_required_labels = foldl (\<lambda>m (k, v). AList.update k v m) [] (required_labels s),
     ps_include_local = include_local s\<rparr>"

definition scope_FromProto :: "ProtoBroadcastScope \<Rightarrow> BroadcastScope" where
  "scope_FromProto p = \<lparr>scope_service_type = ps_service_type p, required_labels = ps_required_labels p,
     include_local = ps_include_local p\<rparr>"

definition envelope_ToProto :: "Envelope \<Rightarrow> DataEnvelope" where
  "envelope_ToProto e = (let h = header e in
     \<lparr>de_source_process = source_process h,
      de_semantic = (if semantic h = broadcast_delivery then DELIVERY_SEMANTIC_BROADCAST else DELIVERY_SEMANTIC_DIRECT),
      de_target_receiver = receiver_ToProto (target_receiver h),
      de_resolved_target_process = resolved_target_process h,
      de_broadcast_scope = (if semantic h = broadcast_delivery then Some (scope_ToProto (broadcast_scope e)) else None),
      de_payload_type_url = payload_type_url e, de_payload_bytes = payload_bytes e,
      de_request_id = request_id h, de_flags = flags h\<rparr>)"

definition EncodeDataEnvelope :: "env_wire \<Rightarrow> Envelope \<Rightarrow> ByteBuffer" where
  "EncodeDataEnvelope W e = env_serialize W (envelope_ToProto e)"

definition envelope_FromProto :: "DataEnvelope \<Rightarrow> Envelope" where
  "envelope_FromProto p =
     \<lparr>header = \<lparr>source_process = de_source_process p,
        semantic = (if de_semantic p = DELIVERY_SEMANTIC_BROADCAST then broadcast_delivery else direct_delivery),
        target_receiver = receiver_FromProto (de_target_receiver p),
        resolved_target_process = de_resolved_target_process p,
        request_id = de_request_id p, flags = de_flags p\<rparr>,
      broadcast_scope = (case de_broadcast_scope p of
          Some s \<Rightarrow> scope_FromProto s
        | None \<Rightarrow> default_BroadcastScope),
      payload_type_url = de_payload_type_url p, payload_bytes = de_payload_bytes p\<rparr>"

definition DecodeDataEnvelope :: "env_wire \<Rightarrow> ByteBuffer \<Rightarrow> result + Envelope" where
  "DecodeDataEnvelope W bytes = (case env_parse W bytes of
      None \<Rightarrow> Inl (Failure ''invalid data envelope'')
    | Some p \<Rightarrow> Inr (envelope_FromProto p))"

section \<open>Payloads\<close>

record proto_message =
  full_name :: string
  serialized :: ByteBuffer

definition TypeUrlFor :: "proto_message \<Rightarrow> string" where
  "TypeUrlFor m = ''type.googleapis.com/'' @ full_name m"

definition payload_Register :: "proto_message \<Rightarrow> string list \<Rightarrow> result \<times> string list" where
  "payload_Register m urls = (Success, List.insert (TypeUrlFor m) urls)"

definition payload_IsRegistered :: "string list \<Rightarrow> string \<Rightarrow> bool" where
  "payload_IsRegistered urls url \<longleftrightarrow> url \<in> set urls"

definition payload_Clear :: "string list \<Rightarrow> string list" where
  "payload_Clear urls = []"

section \<open>The messenger\<close>

record ('h, 's) messenger =
  mSelf :: ProcessRef
  mRelayServiceType :: ServiceType
  mReceiverDirectory :: receiver_table
  mHosts :: "'h option list"
  host_Dispatch :: "'h \<Rightarrow> ReceiverAddress \<Rightarrow> Envelope \<Rightarrow> 's \<Rightarrow> result \<times> 's"
  mTypeUrls :: "string list"
  mMembership :: "process_table option"
  messenger_links :: "LinkManager option"
  mRemoteSender :: "(ProcessRef \<Rightarrow> Envelope \<Rightarrow> 's \<Rightarrow> result \<times> 's) option"

definition DispatchLocal :: "('h, 's) messenger \<Rightarrow> Envelope \<Rightarrow> 's \<Rightarrow> result \<times> 's" where
  "DispatchLocal M e s =
     (if \<not> payload_IsRegistered (mTypeUrls M) (payload_type_url e)
      then (Failure ''payload type is not registered'', s)
      else registry_Dispatch (host_Dispatch M) (mHosts M) (target_receiver (header e)) e s)"

definition set_resolved :: "ProcessRef \<Rightarrow> Envelope \<Rightarrow> Envelope" where
  "set_resolved p e = e\<lparr>header := (header e)\<lparr>resolved_target_process := Some p\<rparr>\<rparr>"

text \<open>The first lines of \<^verbatim>\<open>SendEnvelope\<close>: a known owner is written into the header.\<close>

definition annotate_owner :: "ReceiverLocation option \<Rightarrow> Envelope \<Rightarrow> Envelope" where
  "annotate_owner loc e = (case loc of
      Some l \<Rightarrow> if loc_kind l = loc_single_process \<and> loc_processes l \<noteq> [] \<and>
                  rtype (target_receiver (header e)) \<noteq> RT_process
               then set_resolved (hd (loc_processes l)) e else e
    | None \<Rightarrow> e)"

definition routing_context :: "('h, 's) messenger \<Rightarrow> Envelope \<Rightarrow> ReceiverLocation option \<Rightarrow> RoutingContext" where
  "routing_context M e loc = \<lparr>ctx_self = mSelf M, ctx_envelope = e, ctx_receiver_location = loc,
     ctx_membership = mMembership M, ctx_links = messenger_links M\<rparr>"

lemma routing_context_sel [simp]:
  "ctx_self (routing_context M e loc) = mSelf M" "ctx_envelope (routing_context M e loc) = e"
  "ctx_receiver_location (routing_context M e loc) = loc" "ctx_membership (routing_context M e loc) = mMembership M"
  "ctx_links (routing_context M e loc) = messenger_links M"
  by (simp_all add: routing_context_def)

definition route :: "('h, 's) messenger \<Rightarrow> Envelope \<Rightarrow> ReceiverLocation option \<Rightarrow> RoutePlan" where
  "route M e loc = policy_Resolve (mRelayServiceType M) (routing_context M (annotate_owner loc e) loc)"

text \<open>The copy of the envelope that one hop of a fan-out receives, and its location.\<close>

definition hop_envelope :: "Envelope \<Rightarrow> ProcessRef \<Rightarrow> Envelope" where
  "hop_envelope e p = (let e1 = e\<lparr>header := (header e)\<lparr>semantic := direct_delivery\<rparr>,
       broadcast_scope := default_BroadcastScope\<rparr>
     in if rtype (target_receiver (header e1)) \<noteq> RT_process then set_resolved p e1 else e1)"

definition single_location :: "ProcessRef \<Rightarrow> ReceiverLocation" where
  "single_location p = \<lparr>loc_kind = loc_single_process, loc_processes = [p], loc_version = 1\<rparr>"

definition send_remote :: "('h, 's) messenger \<Rightarrow> ProcessRef \<Rightarrow> Envelope \<Rightarrow> 's \<Rightarrow> result \<times> 's" where
  "send_remote M p e s = (case mRemoteSender M of
      None \<Rightarrow> (Failure ''remote message sender is not configured'', s)
    | Some send \<Rightarrow> send p e s)"

text \<open>Whether a send may fan out; the recursion of \<^verbatim>\<open>SendEnvelope\<close> is at most one level deep because of it.\<close>

definition fans_out :: "Envelope \<Rightarrow> ReceiverLocation option \<Rightarrow> bool" where
  "fans_out e loc \<longleftrightarrow> semantic (header e) = broadcast_delivery \<or>
     (case loc of Some l \<Rightarrow> loc_kind l = loc_multi_process | None \<Rightarrow> False)"

lemma header_annotate [simp]:
  "semantic (header (annotate_owner loc e)) = semantic (header e)"
  "target_receiver (header (annotate_owner loc e)) = target_receiver (header e)"
  "broadcast_scope (annotate_owner loc e) = broadcast_scope e"
  "payload_type_url (annotate_owner loc e) = payload_type_url e"
  "payload_bytes (annotate_owner loc e) = payload_bytes e"
  by (auto simp: annotate_owner_def set_resolved_def split: option.splits)

lemma route_multi_fans_out: "plan_kind (route M e loc) = multi_next_hop \<Longrightarrow> fans_out e loc"
  using policy_multi_only [of "mRelayServiceType M" "routing_context M (annotate_owner loc e) loc"]
  by (auto simp: route_def fans_out_def routing_context_def split: option.splits)

lemma hop_not_fans_out: "\<not> fans_out (hop_envelope e p) (Some (single_location p))"
  by (simp add: fans_out_def hop_envelope_def single_location_def set_resolved_def Let_def)

function SendEnvelope :: "('h, 's) messenger \<Rightarrow> Envelope \<Rightarrow> ReceiverLocation option \<Rightarrow> 's \<Rightarrow> result \<times> 's"
  and SendHops :: "('h, 's) messenger \<Rightarrow> Envelope \<Rightarrow> RouteHop list \<Rightarrow> 's \<Rightarrow> result \<times> 's" where
  "SendEnvelope M e0 loc s = (let e = annotate_owner loc e0; p = route M e0 loc in
     case plan_kind p of
       local_delivery \<Rightarrow> DispatchLocal M e s
     | drop_plan \<Rightarrow> (Failure ''message dropped during route resolution'', s)
     | single_next_hop \<Rightarrow> send_remote M (next_hop (hd (hops p))) e s
     | multi_next_hop \<Rightarrow> SendHops M e (hops p) s
     | unreachable \<Rightarrow> (Failure ''route plan kind is not implemented yet'', s))"
| "SendHops M e [] s = (Success, s)"
| "SendHops M e (h # hs) s =
     (let (r, s') = SendEnvelope M (hop_envelope e (next_hop h)) (Some (single_location (next_hop h))) s
      in if \<not> ok r then (r, s') else SendHops M e hs s')"
  by pat_completeness auto
termination
proof (relation "measures [\<lambda>x. case x of Inl (_, e, loc, _) \<Rightarrow> if fans_out e loc then 2 else 0 | Inr _ \<Rightarrow> 1,
    \<lambda>x. case x of Inl _ \<Rightarrow> 0 | Inr (_, _, hs, _) \<Rightarrow> length hs]", goal_cases)
  case (2 M e0 loc s x xa)
  then show ?case using route_multi_fans_out [of M e0 loc] by simp
next
  case (3 M e h hs s)
  then show ?case using hop_not_fans_out [of e "next_hop h"] by simp
qed auto

declare SendEnvelope.simps [simp del]

section \<open>Sending\<close>

definition ProcessReceiver :: "ProcessId \<Rightarrow> ReceiverAddress" where
  "ProcessReceiver i = \<lparr>rtype = RT_process, key_hi = ucast (service_type i), key_lo = ucast (instance_id i)\<rparr>"

definition outgoing :: "('h, 's) messenger \<Rightarrow> ReceiverAddress \<Rightarrow> proto_message \<Rightarrow> Envelope" where
  "outgoing M target m = default_Envelope
     \<lparr>header := default_EnvelopeHeader\<lparr>source_process := mSelf M, target_receiver := target\<rparr>,
      payload_type_url := TypeUrlFor m, payload_bytes := serialized m\<rparr>"

definition SendToProcess :: "('h, 's) messenger \<Rightarrow> ProcessId \<Rightarrow> proto_message \<Rightarrow> 's \<Rightarrow> result \<times> 's" where
  "SendToProcess M target m s =
     SendEnvelope M (outgoing M (ProcessReceiver target) m)
       (if target = process_id (mSelf M)
        then Some \<lparr>loc_kind = loc_local, loc_processes = [mSelf M], loc_version = 1\<rparr> else None) s"

definition SendToReceiver :: "('h, 's) messenger \<Rightarrow> ReceiverAddress \<Rightarrow> proto_message \<Rightarrow> 's \<Rightarrow> result \<times> 's" where
  "SendToReceiver M target m s =
     SendEnvelope M (outgoing M target m) (Some (Resolve (mReceiverDirectory M) target)) s"

definition BroadcastToReceiver ::
  "('h, 's) messenger \<Rightarrow> ReceiverAddress \<Rightarrow> BroadcastScope \<Rightarrow> proto_message \<Rightarrow> 's \<Rightarrow> result \<times> 's" where
  "BroadcastToReceiver M target scope m s =
     (if rtype target \<noteq> RT_service
      then (Failure ''broadcast is not supported for this receiver type'', s)
      else if (case scope_service_type scope of Some ty \<Rightarrow> ty \<noteq> ucast (key_hi target) | None \<Rightarrow> False)
      then (Failure ''broadcast scope service_type does not match target receiver'', s)
      else let e = outgoing M target m in
      SendEnvelope M (e\<lparr>header := (header e)\<lparr>semantic := broadcast_delivery\<rparr>,
          broadcast_scope := scope\<lparr>scope_service_type := Some (ucast (key_hi target))\<rparr>\<rparr>) None s)"

definition BroadcastToService ::
  "('h, 's) messenger \<Rightarrow> ServiceType \<Rightarrow> BroadcastScope \<Rightarrow> proto_message \<Rightarrow> 's \<Rightarrow> result \<times> 's" where
  "BroadcastToService M ty scope m s =
     BroadcastToReceiver M \<lparr>rtype = RT_service, key_hi = ucast ty, key_lo = 1\<rparr> scope m s"

definition HandleIncomingFrame :: "env_wire \<Rightarrow> ('h, 's) messenger \<Rightarrow> RawFrame \<Rightarrow> 's \<Rightarrow> result \<times> 's" where
  "HandleIncomingFrame W M frame s =
     (if kind (frame_header frame) \<noteq> FK_data then (Failure ''unsupported frame kind'', s)
      else case DecodeDataEnvelope W (payload frame) of
        Inl e \<Rightarrow> (e, s)
      | Inr e \<Rightarrow>
          SendEnvelope M e
            (if rtype (target_receiver (header e)) \<noteq> RT_process
             then Some (case resolved_target_process (header e) of
                 Some p \<Rightarrow> single_location p
               | None \<Rightarrow> Resolve (mReceiverDirectory M) (target_receiver (header e)))
             else None) s)"

text \<open>\<^verbatim>\<open>TransportMessageSender::Send\<close>; the transport's disconnect events are part of the result.\<close>

definition data_frame :: "env_wire \<Rightarrow> ConnectionId \<Rightarrow> Envelope \<Rightarrow> RawFrame" where
  "data_frame W c e = (let bytes = EncodeDataEnvelope W e in
     \<lparr>connection_id = c,
      frame_header = default_FrameHeader\<lparr>kind := FK_data, frame_length := of_nat (length bytes)\<rparr>,
      payload = bytes\<rparr>)"

definition TransportMessageSender_Send :: "'w sockets \<Rightarrow> env_wire \<Rightarrow> LinkManager \<Rightarrow> ProcessRef \<Rightarrow> Envelope
    \<Rightarrow> transport \<times> 'w \<Rightarrow> result \<times> ConnectionEvent list \<times> transport \<times> 'w" where
  "TransportMessageSender_Send K W links p e s = (case FindConnection links p of
      None \<Rightarrow> (Failure ''no healthy link to next hop'', [], s)
    | Some c \<Rightarrow> Send K (data_frame W c e) s)"

section \<open>The codec round trip\<close>

text \<open>Two protobuf messages are the same when they differ at most in the order of the label map.\<close>

definition same_scope :: "ProtoBroadcastScope \<Rightarrow> ProtoBroadcastScope \<Rightarrow> bool" where
  "same_scope s s' \<longleftrightarrow> ps_service_type s' = ps_service_type s \<and> ps_include_local s' = ps_include_local s \<and>
     set (ps_required_labels s') = set (ps_required_labels s)"

definition same_message :: "DataEnvelope \<Rightarrow> DataEnvelope \<Rightarrow> bool" where
  "same_message p p' \<longleftrightarrow> p'\<lparr>de_broadcast_scope := None\<rparr> = p\<lparr>de_broadcast_scope := None\<rparr> \<and>
     rel_option same_scope (de_broadcast_scope p) (de_broadcast_scope p')"

definition envelope_wire_documented :: "env_wire \<Rightarrow> DataEnvelope \<Rightarrow> bool" where
  "envelope_wire_documented W p \<longleftrightarrow> (case env_parse W (env_serialize W p) of
      None \<Rightarrow> False
    | Some p' \<Rightarrow> same_message p p')"

lemma ucast_receiver_type [simp]: "ucast (ucast (r :: u16) :: u32) = r"
  by (rule bit_word_eqI) (auto simp: bit_simps)

lemma receiver_FromProto_ToProto [simp]: "receiver_FromProto (receiver_ToProto r) = r"
  by (simp add: receiver_FromProto_def receiver_ToProto_def)

lemma update_new_key: "k \<notin> fst ` set m \<Longrightarrow> AList.update k v m = m @ [(k, v)]"
  by (induction m) auto

lemma foldl_update_distinct:
  "distinct (map fst xs) \<Longrightarrow> fst ` set xs \<inter> fst ` set m = {} \<Longrightarrow>
     foldl (\<lambda>m (k, v). AList.update k v m) m xs = m @ xs"
proof (induction xs arbitrary: m)
  case (Cons kv xs)
  obtain k v where kv: "kv = (k, v)" by (cases kv)
  have "foldl (\<lambda>m (k, v). AList.update k v m) (m @ [(k, v)]) xs = (m @ [(k, v)]) @ xs"
    using Cons.prems kv by (intro Cons.IH) auto
  then show ?case using Cons.prems kv by (simp add: update_new_key)
qed simp

text \<open>
  Decoding an encoded envelope gives it back: a direct one with the default scope, a broadcast one with
  the same scope, its labels possibly in another order.
\<close>

lemma decode_encode_direct:
  assumes "envelope_wire_documented W (envelope_ToProto e)" and "semantic (header e) = direct_delivery"
  shows "DecodeDataEnvelope W (EncodeDataEnvelope W e) = Inr (e\<lparr>broadcast_scope := default_BroadcastScope\<rparr>)"
proof -
  obtain p' where p': "env_parse W (env_serialize W (envelope_ToProto e)) = Some p'"
    and sm: "same_message (envelope_ToProto e) p'"
    using assms(1) by (auto simp: envelope_wire_documented_def split: option.splits)
  have "de_broadcast_scope (envelope_ToProto e) = None"
    using assms(2) by (simp add: envelope_ToProto_def Let_def)
  with sm have "p' = envelope_ToProto e" by (cases p') (auto simp: same_message_def)
  then show ?thesis
    using p' assms(2)
    by (simp add: DecodeDataEnvelope_def EncodeDataEnvelope_def envelope_FromProto_def envelope_ToProto_def Let_def)
qed

text \<open>
  A broadcast envelope with distinct labels survives the codec, up to the order of its labels.
\<close>

lemma decode_encode_broadcast:
  assumes "envelope_wire_documented W (envelope_ToProto e)" and "semantic (header e) = broadcast_delivery"
    and "distinct (map fst (required_labels (broadcast_scope e)))"
  shows "\<exists>ls. set ls = set (required_labels (broadcast_scope e)) \<and>
     DecodeDataEnvelope W (EncodeDataEnvelope W e) =
       Inr (e\<lparr>broadcast_scope := (broadcast_scope e)\<lparr>required_labels := ls\<rparr>\<rparr>)"
proof -
  obtain p' where p': "env_parse W (env_serialize W (envelope_ToProto e)) = Some p'"
    and sm: "same_message (envelope_ToProto e) p'"
    using assms(1) by (auto simp: envelope_wire_documented_def split: option.splits)
  have "de_broadcast_scope (envelope_ToProto e) = Some (scope_ToProto (broadcast_scope e))"
    using assms(2) by (simp add: envelope_ToProto_def Let_def)
  with sm obtain s' where s': "de_broadcast_scope p' = Some s'" "same_scope (scope_ToProto (broadcast_scope e)) s'"
    by (auto simp: same_message_def option_rel_Some1)
  have "p' = (envelope_ToProto e)\<lparr>de_broadcast_scope := Some s'\<rparr>"
    using sm s'(1) by (cases p') (auto simp: same_message_def envelope_ToProto_def Let_def)
  moreover have "scope_FromProto s' = (broadcast_scope e)\<lparr>required_labels := ps_required_labels s'\<rparr>"
    and "set (ps_required_labels s') = set (required_labels (broadcast_scope e))"
    using s'(2) foldl_update_distinct [OF assms(3), of "[]"]
    by (auto simp: same_scope_def scope_ToProto_def scope_FromProto_def)
  ultimately show ?thesis
    using p' assms(2)
    by (intro exI [of _ "ps_required_labels s'"])
      (simp add: DecodeDataEnvelope_def EncodeDataEnvelope_def envelope_FromProto_def envelope_ToProto_def Let_def)
qed

section \<open>What a send does\<close>

text \<open>The recursion-free account of one delivery to a known process.\<close>

definition deliver :: "('h, 's) messenger \<Rightarrow> Envelope \<Rightarrow> ProcessRef \<Rightarrow> 's \<Rightarrow> result \<times> 's" where
  "deliver M e p s =
     (if p = mSelf M then DispatchLocal M e s
      else if (case messenger_links M of None \<Rightarrow> False | Some l \<Rightarrow> HasHealthyDirectLink l p) then send_remote M p e s
      else case first_relay (mRelayServiceType M) (routing_context M e None) of
          Some r \<Rightarrow> send_remote M (process r) e s
        | None \<Rightarrow> (Failure ''route plan kind is not implemented yet'', s))"

lemma send_single:
  assumes "semantic (header e) = direct_delivery"
  shows "SendEnvelope M e (Some (single_location p)) s = deliver M (annotate_owner (Some (single_location p)) e) p s"
proof -
  let ?a = "annotate_owner (Some (single_location p)) e"
  let ?ctx = "routing_context M ?a (Some (single_location p))"
  have r: "route M e (Some (single_location p)) = ResolveSingleTarget (mRelayServiceType M) ?ctx p"
    using assms by (simp add: route_def policy_Resolve_def routing_context_def single_location_def)
  have f: "first_relay (mRelayServiceType M) ?ctx = first_relay (mRelayServiceType M) (routing_context M ?a None)"
    by (cases "mMembership M") (simp_all add: first_relay_def routing_context_def)
  show ?thesis
    unfolding SendEnvelope.simps [of M e] r deliver_def ResolveSingleTarget_def f
    by (cases "first_relay (mRelayServiceType M) (routing_context M ?a None)") (simp_all add: Let_def)
qed

fun run_until_failure :: "('s \<Rightarrow> result \<times> 's) list \<Rightarrow> 's \<Rightarrow> result \<times> 's" where
  "run_until_failure [] s = (Success, s)"
| "run_until_failure (f # fs) s = (let (r, s') = f s in if \<not> ok r then (r, s') else run_until_failure fs s')"

definition hop_copy :: "Envelope \<Rightarrow> ProcessRef \<Rightarrow> Envelope" where
  "hop_copy e p = annotate_owner (Some (single_location p)) (hop_envelope e p)"

lemma SendHops_run:
  "SendHops M e hs s = run_until_failure (map (\<lambda>h. deliver M (hop_copy e (next_hop h)) (next_hop h)) hs) s"
proof (induction hs arbitrary: s)
  case (Cons h hs)
  have "semantic (header (hop_envelope e (next_hop h))) = direct_delivery"
    by (simp add: hop_envelope_def set_resolved_def Let_def)
  then show ?case using Cons by (simp add: send_single hop_copy_def split: prod.splits)
qed simp

text \<open>
  C30. A broadcast is one delivery per visible member of the service that passes the scope, in the order of
  the view, until the first one fails; with no such member it is refused.
\<close>

lemma SendEnvelope_broadcast:
  assumes "semantic (header e) = broadcast_delivery" and "mMembership M = Some t"
    and "rtype (target_receiver (header e)) = RT_service"
  defines "ms \<equiv> filter (in_scope (routing_context M e None)) (FindByService t (broadcast_service e))"
  shows "SendEnvelope M e None s =
     (if ms = [] then (Failure ''message dropped during route resolution'', s)
      else run_until_failure (map (\<lambda>p. deliver M (hop_copy e (process p)) (process p)) ms) s)"
proof -
  have ann: "annotate_owner None e = e" by (simp add: annotate_owner_def)
  have r: "route M e None = (if ms = [] then plan drop_plan []
      else plan multi_next_hop (map (\<lambda>p. hop (process p) (process p = mSelf M)) ms))"
    using assms by (simp add: route_def policy_Resolve_def ResolveBroadcast_def routing_context_def ann Let_def)
  show ?thesis
    unfolding SendEnvelope.simps [of M e] r ann
    by (simp add: SendHops_run comp_def Let_def)
qed

text \<open>
  The receiving end: a direct envelope whose owner was resolved by the sender reaches the owner's receiver
  host, with target and payload unchanged.
\<close>

lemma incoming_for_self:
  assumes "envelope_wire_documented W (envelope_ToProto e)" and "semantic (header e) = direct_delivery"
    and "rtype (target_receiver (header e)) \<noteq> RT_process"
    and "resolved_target_process (header e) = Some (mSelf M)"
  shows "HandleIncomingFrame W M (data_frame W c e) s =
     DispatchLocal M (e\<lparr>broadcast_scope := default_BroadcastScope\<rparr>) s"
proof -
  let ?e = "e\<lparr>broadcast_scope := default_BroadcastScope\<rparr>"
  have dec: "DecodeDataEnvelope W (payload (data_frame W c e)) = Inr ?e"
    using decode_encode_direct [OF assms(1,2)] by (simp add: data_frame_def Let_def)
  have "annotate_owner (Some (single_location (mSelf M))) ?e = ?e"
    using assms(4) by (simp add: annotate_owner_def single_location_def set_resolved_def)
  then have "SendEnvelope M ?e (Some (single_location (mSelf M))) s = DispatchLocal M ?e s"
    using assms(2) by (simp add: send_single deliver_def)
  then show ?thesis
    using dec assms(3,4) by (simp add: HandleIncomingFrame_def data_frame_def Let_def)
qed

text \<open>A relay passes such an envelope on unchanged, over its own link to the owner.\<close>

lemma relay_forwards:
  assumes "envelope_wire_documented W (envelope_ToProto e)" and "semantic (header e) = direct_delivery"
    and "rtype (target_receiver (header e)) \<noteq> RT_process"
    and "resolved_target_process (header e) = Some p" and "p \<noteq> mSelf M"
    and "messenger_links M = Some l" and "HasHealthyDirectLink l p"
  shows "HandleIncomingFrame W M (data_frame W c e) s =
     send_remote M p (e\<lparr>broadcast_scope := default_BroadcastScope\<rparr>) s"
proof -
  let ?e = "e\<lparr>broadcast_scope := default_BroadcastScope\<rparr>"
  have dec: "DecodeDataEnvelope W (payload (data_frame W c e)) = Inr ?e"
    using decode_encode_direct [OF assms(1,2)] by (simp add: data_frame_def Let_def)
  have "annotate_owner (Some (single_location p)) ?e = ?e"
    using assms(4) by (simp add: annotate_owner_def single_location_def set_resolved_def)
  then have "SendEnvelope M ?e (Some (single_location p)) s = send_remote M p ?e s"
    using assms(2,5-7) by (simp add: send_single deliver_def)
  then show ?thesis
    using dec assms(3,4) by (simp add: HandleIncomingFrame_def data_frame_def Let_def)
qed

section \<open>What a send keeps\<close>

text \<open>What every delivery of an envelope of one type keeps, a send keeps, however it is routed.\<close>

lemma SendEnvelope_keeps:
  "\<forall>e s. payload_type_url e = url \<longrightarrow> P s \<longrightarrow> P (snd (DispatchLocal M e s)) \<Longrightarrow>
   \<forall>p e s. payload_type_url e = url \<longrightarrow> P s \<longrightarrow> P (snd (send_remote M p e s)) \<Longrightarrow>
   payload_type_url e = url \<Longrightarrow> P s \<Longrightarrow> P (snd (SendEnvelope M e loc s))"
  "\<forall>e s. payload_type_url e = url \<longrightarrow> P s \<longrightarrow> P (snd (DispatchLocal M e s)) \<Longrightarrow>
   \<forall>p e s. payload_type_url e = url \<longrightarrow> P s \<longrightarrow> P (snd (send_remote M p e s)) \<Longrightarrow>
   payload_type_url e = url \<Longrightarrow> P s \<Longrightarrow> P (snd (SendHops M e hs s))"
proof (induction M e loc s and M e hs s rule: SendEnvelope_SendHops.induct)
  case (1 M e0 loc s)
  then show ?case by (cases "plan_kind (route M e0 loc)") (simp_all add: SendEnvelope.simps [of M e0] Let_def)
next
  case (2 M e s)
  then show ?case by (simp add: SendHops.simps)
next
  case (3 M e h hs s)
  then show ?case by (auto simp: SendHops.simps Let_def hop_envelope_def set_resolved_def split: prod.splits)
qed

end
