(* ===== verification/Base64.thy ===== *)
theory Base64
  imports Ipc_Base
begin

text \<open>
  The two halves of the text encoding through which a membership snapshot travels: \<^verbatim>\<open>Base64Encode\<close>,
  \<^verbatim>\<open>JsonEscape\<close> and \<^verbatim>\<open>PrefixRangeEnd\<close> of the etcd backend (etcd_sdk_discovery_backend.cpp) and
  \<^verbatim>\<open>Base64Decode\<close> of the snapshot parser (etcd_discovery.cpp), with the round trip between them.
\<close>

section \<open>Characters as bytes\<close>

definition byte_of :: "char \<Rightarrow> u8" where
  "byte_of c = of_nat (of_char c)"

definition char_of_byte :: "u8 \<Rightarrow> char" where
  "char_of_byte b = char_of (unat b)"

lemma char_of_byte_of [simp]: "char_of_byte (byte_of c) = c"
  by (simp add: char_of_byte_def byte_of_def unat_of_nat)

section \<open>Encoding\<close>

definition kAlphabet :: string where
  "kAlphabet = ''ABCDEFGHIJKLMNOPQRSTUVWXYZabcdefghijklmnopqrstuvwxyz0123456789+/''"

definition sextet :: "u8 \<Rightarrow> char" where
  "sextet i = kAlphabet ! unat i"

fun Base64Encode :: "string \<Rightarrow> string" where
  "Base64Encode (x # y # z # rest) =
     (let a = byte_of x; b = byte_of y; c = byte_of z
      in [sextet (and (drop_bit 2 a) 0x3F),
          sextet (or (push_bit 4 (and a 0x03)) (and (drop_bit 4 b) 0x0F)),
          sextet (or (push_bit 2 (and b 0x0F)) (and (drop_bit 6 c) 0x03)),
          sextet (and c 0x3F)] @ Base64Encode rest)"
| "Base64Encode [x] =
     (let a = byte_of x
      in [sextet (and (drop_bit 2 a) 0x3F), sextet (push_bit 4 (and a 0x03)), CHR ''='', CHR ''=''])"
| "Base64Encode [x, y] =
     (let a = byte_of x; b = byte_of y
      in [sextet (and (drop_bit 2 a) 0x3F),
          sextet (or (push_bit 4 (and a 0x03)) (and (drop_bit 4 b) 0x0F)),
          sextet (push_bit 2 (and b 0x0F)), CHR ''=''])"
| "Base64Encode [] = []"

definition hex_upper :: "nat \<Rightarrow> char" where
  "hex_upper n = ''0123456789ABCDEF'' ! n"

definition JsonEscape_char :: "char \<Rightarrow> string" where
  "JsonEscape_char c = (let ch = of_char c :: nat in
     if ch = 92 then [c, c]
     else if ch = 34 then [char_of (92 :: nat), c]
     else if ch = 8 then [char_of (92 :: nat), CHR ''b'']
     else if ch = 12 then [char_of (92 :: nat), CHR ''f'']
     else if ch = 10 then [char_of (92 :: nat), CHR ''n'']
     else if ch = 13 then [char_of (92 :: nat), CHR ''r'']
     else if ch = 9 then [char_of (92 :: nat), CHR ''t'']
     else if ch < 0x20 then [char_of (92 :: nat), CHR ''u'', CHR ''0'', CHR ''0'', hex_upper (ch div 16), hex_upper (ch mod 16)]
     else [c])"

definition JsonEscape :: "string \<Rightarrow> string" where
  "JsonEscape s = concat (map JsonEscape_char s)"

text \<open>\<^verbatim>\<open>PrefixRangeEnd\<close> walks the prefix from its end; the recursion is on the reversed prefix.\<close>

fun range_end_rev :: "string \<Rightarrow> string option" where
  "range_end_rev [] = None"
| "range_end_rev (c # cs) =
     (if byte_of c \<noteq> 0xFF then Some (rev (char_of_byte (byte_of c + 1) # cs)) else range_end_rev cs)"

definition PrefixRangeEnd :: "string \<Rightarrow> string" where
  "PrefixRangeEnd prefix = (case range_end_rev (rev prefix) of
      Some p \<Rightarrow> p
    | None \<Rightarrow> [char_of (0 :: nat)])"

section \<open>Decoding\<close>

definition kDecodeTable :: "nat \<Rightarrow> int" where
  "kDecodeTable i =
     (if i = 43 then 62 else if i = 47 then 63
      else if 48 \<le> i \<and> i \<le> 57 then int i - 48 + 52
      else if 97 \<le> i \<and> i \<le> 122 then int i - 97 + 26
      else if 65 \<le> i \<and> i \<le> 90 then int i - 65
      else -1)"

text \<open>
  The loop variable \<^verbatim>\<open>val\<close> is a 32-bit \<^verbatim>\<open>int\<close>: the left shift drops the high bits (C++20) and the
  right shift is arithmetic.
\<close>

fun Base64Decode_loop :: "string \<Rightarrow> u32 \<Rightarrow> int \<Rightarrow> string \<Rightarrow> string" where
  "Base64Decode_loop [] val valb decoded = decoded"
| "Base64Decode_loop (ch # rest) val valb decoded =
     (if ch = CHR ''='' then decoded
      else let d = kDecodeTable (of_char ch) in
      if d = -1 then Base64Decode_loop rest val valb decoded
      else let val = push_bit 6 val + word_of_int d; valb = valb + 6 in
      if 0 \<le> valb
      then Base64Decode_loop rest val (valb - 8)
             (decoded @ [char_of_byte (ucast (and (signed_drop_bit (nat valb) val) 0xFF))])
      else Base64Decode_loop rest val valb decoded)"

definition Base64Decode :: "string \<Rightarrow> string" where
  "Base64Decode encoded = Base64Decode_loop encoded 0 (-8) []"

section \<open>The round trip\<close>

lemma kAlphabet_codes:
  "map of_char kAlphabet = [65..<91] @ [97..<123] @ [48..<58] @ [43, 47 :: nat]"
  by (simp add: kAlphabet_def upt_rec)

lemma kAlphabet_table:
  assumes "i < 64"
  shows "kDecodeTable (of_char (kAlphabet ! i)) = int i \<and> kAlphabet ! i \<noteq> CHR ''=''"
proof -
  have "of_char (kAlphabet ! i) = ([65..<91] @ [97..<123] @ [48..<58] @ [43, 47 :: nat]) ! i"
  proof -
    have "length kAlphabet = 64" by (simp add: kAlphabet_def)
    with assms show ?thesis by (simp only: kAlphabet_codes [symmetric] nth_map)
  qed
  also have "\<dots> = (if i < 26 then 65 + i else if i < 52 then 71 + i else if i < 62 then i - 4
      else if i = 62 then 43 else 47)"
    using assms by (auto simp: nth_append nth_Cons')
  finally have c: "of_char (kAlphabet ! i) = (if i < 26 then 65 + i else if i < 52 then 71 + i
      else if i < 62 then i - 4 else if i = 62 then 43 else 47)" .
  have "(of_char (kAlphabet ! i) :: nat) \<noteq> of_char (CHR ''='')"
    using assms by (auto simp: c split: if_splits)
  then have "kAlphabet ! i \<noteq> CHR ''=''" by metis
  then show ?thesis using assms by (auto simp: c kDecodeTable_def)
qed

text \<open>One step of the decoder on an encoded six-bit group.\<close>

lemma bits_below_64:
  fixes i :: u8
  shows "i < 64 \<longleftrightarrow> take_bit 6 i = i"
proof
  assume "i < 64"
  then have "take_bit 6 (unat i) = unat i" by (simp add: take_bit_nat_eq_self word_less_nat_alt)
  then show "take_bit 6 i = i" by (simp add: word_unat_eq_iff unsigned_take_bit_eq)
next
  assume "take_bit 6 i = i"
  then have "unat i < 2 ^ 6" by (metis take_bit_nat_less_exp unsigned_take_bit_eq)
  then show "i < 64" by (simp add: word_less_nat_alt)
qed

lemma decode_sextet:
  assumes "i < 64"
  shows "Base64Decode_loop (sextet i # rest) val valb decoded =
     (let val' = or (push_bit 6 val) (ucast i) in
      if 0 \<le> valb + 6
      then Base64Decode_loop rest val' (valb - 2)
             (decoded @ [char_of_byte (ucast (and (signed_drop_bit (nat (valb + 6)) val') 0xFF))])
      else Base64Decode_loop rest val' (valb + 6) decoded)"
proof -
  have i: "unat i < 64" using assms by (simp add: word_less_nat_alt)
  have "and (push_bit 6 val) (ucast i :: u32) = 0"
  proof (rule bit_word_eqI)
    fix n
    have "bit i n \<Longrightarrow> n < 6" using assms by (metis bits_below_64 bit_take_bit_iff)
    then show "bit (and (push_bit 6 val) (ucast i)) n \<longleftrightarrow> bit (0 :: u32) n"
      by (auto simp: bit_simps)
  qed
  then have "push_bit 6 val + ucast i = or (push_bit 6 val) (ucast i :: u32)"
    by (rule disjunctive_add_eq_or)
  moreover have "word_of_int (int (unat i)) = (ucast i :: u32)" by simp
  moreover have "uint i \<noteq> -1" using uint_ge_0 [of i] by linarith
  ultimately show ?thesis
    using kAlphabet_table [OF i] by (simp add: sextet_def Let_def)
qed

lemma less_8_cases: "n < 8 \<Longrightarrow> n = 0 \<or> n = 1 \<or> n = 2 \<or> n = 3 \<or> n = 4 \<or> n = 5 \<or> n = 6 \<or> n = (7::nat)"
  by auto

lemma sextet_bounds:
  fixes a b :: u8
  shows "and (drop_bit 2 a) 0x3F < 64" "and a 0x3F < 64" "push_bit 4 (and a 0x03) < 64" "push_bit 2 (and a 0x0F) < 64"
    "or (push_bit 4 (and a 0x03)) (and (drop_bit 4 b) 0x0F) < 64"
    "or (push_bit 2 (and a 0x0F)) (and (drop_bit 6 b) 0x03) < 64"
  unfolding bits_below_64
  by (rule bit_word_eqI, simp, drule less_8_cases, auto simp: bit_simps bit_numeral_rec)+

text \<open>The three bytes that leave the accumulator, whatever older bits it still holds.\<close>

lemma first_byte:
  fixes a x :: u8 and v :: u32
  assumes "\<And>n. bit x n \<Longrightarrow> n < 4"
  shows "ucast (and (signed_drop_bit 4 (or (push_bit 6 (or (push_bit 6 v) (ucast (and (drop_bit 2 a) 0x3F))))
     (ucast (or (push_bit 4 (and a 0x03)) x)))) 0xFF) = a"
  by (rule bit_word_eqI, simp, drule less_8_cases, insert assms)
    (fastforce simp: bit_simps bit_numeral_rec)

lemma second_byte:
  fixes b p x :: u8 and v :: u32
  assumes "\<And>n. bit x n \<Longrightarrow> n < 2"
  shows "ucast (and (signed_drop_bit 2 (or (push_bit 6 (or (push_bit 6 v)
     (ucast (or (push_bit 4 p) (and (drop_bit 4 b) 0x0F)))))
     (ucast (or (push_bit 2 (and b 0x0F)) x)))) 0xFF) = b"
  by (rule bit_word_eqI, simp, drule less_8_cases, insert assms)
    (fastforce simp: bit_simps bit_numeral_rec)

lemma third_byte:
  fixes c p :: u8 and v :: u32
  shows "ucast (and (signed_drop_bit 0 (or (push_bit 6 (or (push_bit 6 v)
     (ucast (or (push_bit 2 p) (and (drop_bit 6 c) 0x03)))))
     (ucast (and c 0x3F)))) 0xFF) = c"
  by (rule bit_word_eqI, simp, drule less_8_cases) (fastforce simp: bit_simps bit_numeral_rec)

lemma mask_bits:
  fixes b :: u8
  shows "bit (and b 0x0F) n \<Longrightarrow> n < 4" "bit (and b 0x03) n \<Longrightarrow> n < 2"
proof -
  show "bit (and b 0x0F) n \<Longrightarrow> n < 4"
    by (frule bit_imp_le_length, simp, drule less_8_cases, auto simp: bit_simps bit_numeral_rec)
  show "bit (and b 0x03) n \<Longrightarrow> n < 2"
    by (frule bit_imp_le_length, simp, drule less_8_cases, auto simp: bit_simps bit_numeral_rec)
qed

lemmas group_bytes = first_byte [OF mask_bits(1)] second_byte [OF mask_bits(2)] third_byte

lemma tail_bytes:
  fixes a b p :: u8 and v :: u32
  shows "ucast (and (signed_drop_bit 4 (or (push_bit 6 (or (push_bit 6 v) (ucast (and (drop_bit 2 a) 0x3F))))
      (ucast (push_bit 4 (and a 0x03))))) 0xFF) = a"
    "ucast (and (signed_drop_bit 2 (or (push_bit 6 (or (push_bit 6 v)
      (ucast (or (push_bit 4 p) (and (drop_bit 4 b) 0x0F)))))
      (ucast (push_bit 2 (and b 0x0F))))) 0xFF) = b"
  using first_byte [of 0 v a] second_byte [of 0 v p b]
  by (simp_all only: or.right_neutral bit_0_eq bot_apply bot_bool_def simp_thms)

text \<open>The decoder on two, three and four characters of the alphabet, from a state with no bit pending.\<close>

lemma decode_two:
  assumes "s1 < 64" "s2 < 64"
  shows "Base64Decode_loop (sextet s1 # sextet s2 # rest) v (-8) decoded =
    (let v2 = or (push_bit 6 (or (push_bit 6 v) (ucast s1))) (ucast s2)
     in Base64Decode_loop rest v2 (-4) (decoded @ [char_of_byte (ucast (and (signed_drop_bit 4 v2) 0xFF))]))"
  using assms by (simp add: decode_sextet Let_def del: Base64Decode_loop.simps)

lemma decode_third:
  assumes "s3 < 64"
  shows "Base64Decode_loop (sextet s3 # rest) v (-4) decoded =
    (let v3 = or (push_bit 6 v) (ucast s3)
     in Base64Decode_loop rest v3 (-6) (decoded @ [char_of_byte (ucast (and (signed_drop_bit 2 v3) 0xFF))]))"
  using assms by (simp add: decode_sextet Let_def del: Base64Decode_loop.simps)

lemma decode_fourth:
  assumes "s4 < 64"
  shows "Base64Decode_loop (sextet s4 # rest) v (-6) decoded =
    (let v4 = or (push_bit 6 v) (ucast s4)
     in Base64Decode_loop rest v4 (-8) (decoded @ [char_of_byte (ucast (and (signed_drop_bit 0 v4) 0xFF))]))"
  using assms by (simp add: decode_sextet Let_def del: Base64Decode_loop.simps signed_drop_bit_0)

lemmas decode_chunks = decode_two [OF sextet_bounds(1) sextet_bounds(5)] decode_two [OF sextet_bounds(1) sextet_bounds(3)]
  decode_third [OF sextet_bounds(6)] decode_third [OF sextet_bounds(4)] decode_fourth [OF sextet_bounds(2)]

lemma decode_pad: "Base64Decode_loop (CHR ''='' # rest) v valb decoded = decoded"
  by simp

lemma decode_encode:
  "Base64Decode_loop (Base64Encode s) v (-8) decoded = decoded @ s"
proof (induction s arbitrary: v decoded rule: Base64Encode.induct)
  case (1 x y z rest)
  have IH: "\<And>v decoded. Base64Decode_loop (Base64Encode rest) v (-8) decoded = decoded @ rest"
    using 1 by blast
  show ?case
    by (simp only: Base64Encode.simps Let_def append.simps decode_chunks group_bytes IH
        append_assoc char_of_byte_of)
next
  case (2 x)
  show ?case
    by (simp only: Base64Encode.simps Let_def append.simps decode_chunks tail_bytes decode_pad
        char_of_byte_of)
next
  case (3 x y)
  show ?case
    by (simp only: Base64Encode.simps Let_def append.simps decode_chunks group_bytes tail_bytes decode_pad
        append_assoc char_of_byte_of)
qed simp

lemma Base64Decode_Encode: "Base64Decode (Base64Encode s) = s"
  by (simp add: Base64Decode_def decode_encode)

section \<open>The range of a prefix\<close>

text \<open>etcd orders keys as byte strings; a range request covers \<open>key \<le> k < range_end\<close>.\<close>

fun bytes_less :: "string \<Rightarrow> string \<Rightarrow> bool" where
  "bytes_less _ [] = False"
| "bytes_less [] (y # ys) = True"
| "bytes_less (x # xs) (y # ys) =
     ((of_char x :: nat) < of_char y \<or> x = y \<and> bytes_less xs ys)"

definition max_char :: char where
  "max_char = char_of (255 :: nat)"

lemma of_char_max [simp]: "of_char max_char = (255 :: nat)"
  by (simp add: max_char_def)

lemma of_char_255_iff: "of_char c = (255 :: nat) \<longleftrightarrow> c = max_char"
  by (metis of_char_eq_iff of_char_max)

lemma byte_of_max_iff: "byte_of c = 0xFF \<longleftrightarrow> c = max_char"
  by (simp add: byte_of_def word_unat_eq_iff unat_of_nat of_char_255_iff)

lemma of_char_succ:
  assumes "c \<noteq> max_char"
  shows "of_char (char_of_byte (byte_of c + 1)) = Suc (of_char c :: nat)"
proof -
  have "(of_char c :: nat) < 255"
    using assms nat_of_char_less_256 [of c] of_char_255_iff [of c] by linarith
  then have "unat (byte_of c + 1) = Suc (of_char c)"
    by (simp add: byte_of_def unat_word_ariths unat_of_nat)
  then show ?thesis using \<open>of_char c < 255\<close> by (simp add: char_of_byte_def)
qed

lemma range_end_shape:
  assumes "range_end_rev r = Some e"
  shows "\<exists>q c n. rev r = q @ c # replicate n max_char \<and> c \<noteq> max_char \<and>
     e = q @ [char_of_byte (byte_of c + 1)]"
  using assms
proof (induction r)
  case (Cons c r)
  show ?case
  proof (cases "c = max_char")
    case True
    then obtain q d n where "rev r = q @ d # replicate n max_char" "d \<noteq> max_char"
      "e = q @ [char_of_byte (byte_of d + 1)]"
      using Cons by (auto simp: byte_of_max_iff)
    then show ?thesis using True
      by (intro exI [of _ q] exI [of _ d] exI [of _ "Suc n"]) (simp add: replicate_append_same)
  next
    case False
    then show ?thesis using Cons.prems
      by (intro exI [of _ "rev r"] exI [of _ c] exI [of _ 0]) (simp add: byte_of_max_iff)
  qed
qed simp

lemma not_less_max_run:
  "\<not> bytes_less s (replicate n max_char) \<longleftrightarrow> (\<exists>t. s = replicate n max_char @ t)"
proof (induction n arbitrary: s)
  case (Suc n)
  show ?case
  proof (cases s)
    case (Cons x xs)
    have "(of_char x :: nat) < 255 \<longleftrightarrow> x \<noteq> max_char"
      using nat_of_char_less_256 [of x] of_char_255_iff [of x] by linarith
    then show ?thesis using Cons Suc by auto
  qed simp
qed simp

lemma range_of_shape:
  assumes "c \<noteq> max_char"
  shows "\<not> bytes_less k (q @ c # replicate n max_char) \<and> bytes_less k (q @ [char_of_byte (byte_of c + 1)]) \<longleftrightarrow>
     (\<exists>t. k = (q @ c # replicate n max_char) @ t)"
proof (induction q arbitrary: k)
  case Nil
  show ?case
  proof (cases k)
    case (Cons x xs)
    have "x \<noteq> c \<Longrightarrow> (of_char x :: nat) \<noteq> of_char c" by simp
    then show ?thesis
      using Cons not_less_max_run [of xs n] of_char_succ [OF assms]
      by (cases "x = c"; cases "(of_char x :: nat) < of_char c") (auto simp: less_Suc_eq)
  qed simp
next
  case (Cons y q)
  show ?case
    using Cons.IH by (cases k) auto
qed

text \<open>A range request built by \<^verbatim>\<open>GetPrefix\<close> covers exactly the keys under the prefix.\<close>

lemma PrefixRangeEnd_exact:
  assumes "\<exists>c \<in> set p. c \<noteq> max_char"
  shows "\<not> bytes_less k p \<and> bytes_less k (PrefixRangeEnd p) \<longleftrightarrow> (\<exists>t. k = p @ t)"
proof -
  have "\<exists>c \<in> set r. c \<noteq> max_char \<Longrightarrow> range_end_rev r \<noteq> None" for r
    by (induction r) (auto simp: byte_of_max_iff)
  then obtain e where e: "range_end_rev (rev p) = Some e" using assms by (metis not_None_eq set_rev)
  then obtain q c n where "p = q @ c # replicate n max_char" "c \<noteq> max_char"
    "e = q @ [char_of_byte (byte_of c + 1)]"
    using range_end_shape [OF e] by auto
  then show ?thesis using range_of_shape e by (simp add: PrefixRangeEnd_def)
qed

end
