(* ===== verification/Etcd_Backend.thy ===== *)
theory Etcd_Backend
  imports Base64
begin

text \<open>
  The production etcd backend (src/src/framework/ipc/discovery/etcd_sdk_discovery_backend.cpp).
  The gRPC stubs of the etcd services are the record \<open>etcd_grpc\<close>, an argument of every operation:
  one field per stub call, over the state \<open>'w\<close> of the outside world. Deadlines only bound the time
  of a call, so \<^verbatim>\<open>ApplyDeadline\<close> has no counterpart. The watch thread and its queue are a step
  relation in which every section under \<^verbatim>\<open>mWatchMutex\<close> is one step.
\<close>

section \<open>The stubs and the backend interface\<close>

record grpc_status =
  error_code :: nat
  error_message :: string

definition status_ok :: "grpc_status \<Rightarrow> bool" where
  "status_ok s \<longleftrightarrow> error_code s = 0"

definition kCANCELLED :: nat where "kCANCELLED = 1"

definition GrpcStatusMessage :: "string \<Rightarrow> grpc_status \<Rightarrow> string" where
  "GrpcStatusMessage operation s =
     operation @ '' failed: code='' @ show_nat (error_code s) @ '' message='' @ error_message s"

record 'w etcd_grpc =
  gp_LeaseGrant :: "u32 \<Rightarrow> 'w \<Rightarrow> grpc_status \<times> u64 \<times> 'w"
  gp_Put :: "string \<Rightarrow> string \<Rightarrow> u64 option \<Rightarrow> 'w \<Rightarrow> grpc_status \<times> 'w"
  gp_ka_open :: "'w \<Rightarrow> bool \<times> 'w"
  gp_ka_write :: "u64 \<Rightarrow> 'w \<Rightarrow> bool \<times> 'w"
  gp_ka_writes_done :: "'w \<Rightarrow> 'w"
  gp_ka_read :: "'w \<Rightarrow> u64 option \<times> 'w"
  gp_ka_finish :: "'w \<Rightarrow> grpc_status \<times> 'w"
  gp_DeleteRange :: "string \<Rightarrow> 'w \<Rightarrow> grpc_status \<times> 'w"
  gp_Range :: "string \<Rightarrow> string \<Rightarrow> 'w \<Rightarrow> grpc_status \<times> (string \<times> string) list \<times> 'w"

record EtcdDiscoveryOptions =
  endpoints :: "string list"
  prefix :: string
  lease_ttl_seconds :: u32
  command_timeout_seconds :: u32

definition EndpointsTarget :: "string list \<Rightarrow> string" where
  "EndpointsTarget es = (case es of [] \<Rightarrow> ''127.0.0.1:2379'' | e # _ \<Rightarrow> e)"

section \<open>Unary operations\<close>

text \<open>The out-parameter \<^verbatim>\<open>lease_id\<close> is passed in and keeps its value when the call fails.\<close>

definition sdk_GrantLease :: "'w etcd_grpc \<Rightarrow> u32 \<Rightarrow> u64 \<Rightarrow> 'w \<Rightarrow> result \<times> u64 \<times> 'w" where
  "sdk_GrantLease G ttl lease_id w =
     (let (status, i, w') = gp_LeaseGrant G ttl w in
      if \<not> status_ok status then (Failure (GrpcStatusMessage ''LeaseGrant'' status), lease_id, w')
      else if i = 0 then (Failure ''LeaseGrant returned empty lease id'', lease_id, w')
      else (Success, i, w'))"

definition sdk_Put :: "'w etcd_grpc \<Rightarrow> string \<Rightarrow> string \<Rightarrow> u64 \<Rightarrow> 'w \<Rightarrow> result \<times> 'w" where
  "sdk_Put G key value lease_id w =
     (let (status, w') = gp_Put G key value (if lease_id \<noteq> 0 then Some lease_id else None) w in
      if \<not> status_ok status then (Failure (GrpcStatusMessage ''Put'' status), w')
      else (Success, w'))"

definition sdk_KeepAliveOnce :: "'w etcd_grpc \<Rightarrow> u64 \<Rightarrow> 'w \<Rightarrow> result \<times> 'w" where
  "sdk_KeepAliveOnce G lease_id w =
     (let (opened, w1) = gp_ka_open G w in
      if \<not> opened then (Failure ''LeaseKeepAlive failed to create stream'', w1)
      else let (written, w2) = gp_ka_write G lease_id w1 in
      if \<not> written
      then (let (status, w3) = gp_ka_finish G w2 in (Failure (GrpcStatusMessage ''LeaseKeepAlive.Write'' status), w3))
      else let (response, w4) = gp_ka_read G (gp_ka_writes_done G w2) in
      case response of
        None \<Rightarrow> (let (status, w5) = gp_ka_finish G w4 in (Failure (GrpcStatusMessage ''LeaseKeepAlive.Read'' status), w5))
      | Some i \<Rightarrow>
          let (status, w5) = gp_ka_finish G w4 in
          if \<not> status_ok status then (Failure (GrpcStatusMessage ''LeaseKeepAlive'' status), w5)
          else if i = 0 then (Failure ''LeaseKeepAlive returned empty lease id'', w5)
          else (Success, w5))"

definition sdk_Delete :: "'w etcd_grpc \<Rightarrow> string \<Rightarrow> 'w \<Rightarrow> result \<times> 'w" where
  "sdk_Delete G key w =
     (let (status, w') = gp_DeleteRange G key w in
      if \<not> status_ok status then (Failure (GrpcStatusMessage ''DeleteRange'' status), w')
      else (Success, w'))"

definition quote :: char where
  "quote = char_of (34 :: nat)"

definition render_kv :: "string \<times> string \<Rightarrow> string" where
  "render_kv kv =
     ''{'' @ [quote] @ ''key'' @ [quote] @ '':'' @ [quote] @ JsonEscape (Base64Encode (fst kv)) @
     [quote] @ '','' @ [quote] @ ''value'' @ [quote] @ '':'' @ [quote] @ JsonEscape (Base64Encode (snd kv)) @
     [quote] @ ''}''"

fun render_kvs :: "(string \<times> string) list \<Rightarrow> string" where
  "render_kvs [] = []"
| "render_kvs [kv] = render_kv kv"
| "render_kvs (kv # kvs) = render_kv kv @ '','' @ render_kvs kvs"

definition render_response :: "(string \<times> string) list \<Rightarrow> string" where
  "render_response kvs = ''{'' @ [quote] @ ''kvs'' @ [quote] @ '':['' @ render_kvs kvs @ '']}''"

definition sdk_GetPrefix :: "'w etcd_grpc \<Rightarrow> string \<Rightarrow> string \<Rightarrow> 'w \<Rightarrow> result \<times> string \<times> 'w" where
  "sdk_GetPrefix G key_prefix output w =
     (let (status, kvs, w') = gp_Range G key_prefix (PrefixRangeEnd key_prefix) w in
      if \<not> status_ok status then (Failure (GrpcStatusMessage ''Range'' status), output, w')
      else (Success, render_response kvs, w'))"

section \<open>The watch thread\<close>

datatype WatchPollKind = poll_event | poll_stream_closed | poll_stopped | poll_error

text \<open>
  Where the thread of \<^verbatim>\<open>WatchLoop\<close> stands: before the stream exists, before the create request,
  in the read loop, before the stop flag is read, before \<^verbatim>\<open>mWatchRunning\<close> is cleared, before the
  final result is pushed (\<open>None\<close> when nothing is left to push), at its end.
\<close>

datatype watch_pc = wp_start | wp_write | wp_read | wp_finish | wp_clear bool | wp_push "WatchPollKind option" | wp_done

record watch_state =
  mWatchQueue :: "WatchPollKind list"
  mWatchRunning :: bool
  mWatchStopRequested :: bool
  mWatchThread :: bool \<comment> \<open>\<^verbatim>\<open>joinable()\<close>\<close>
  emitted_terminal :: bool
  watch_pc :: watch_pc

definition watch_init :: watch_state where
  "watch_init = \<lparr>mWatchQueue = [], mWatchRunning = False, mWatchStopRequested = False,
     mWatchThread = False, emitted_terminal = False, watch_pc = wp_done\<rparr>"

definition StartWatchPrefix :: "watch_state \<Rightarrow> result \<times> watch_state" where
  "StartWatchPrefix s =
     (if mWatchRunning s then (Success, s)
      else (Success, s\<lparr>mWatchStopRequested := False, mWatchQueue := [], mWatchThread := True,
              emitted_terminal := False, watch_pc := wp_start, mWatchRunning := True\<rparr>))"

text \<open>\<open>None\<close>: the caller stays blocked on the condition variable.\<close>

definition WaitForWatchEvent :: "watch_state \<Rightarrow> (WatchPollKind \<times> watch_state) option" where
  "WaitForWatchEvent s = (case mWatchQueue s of
      k # q \<Rightarrow> Some (k, s\<lparr>mWatchQueue := q\<rparr>)
    | [] \<Rightarrow> if mWatchRunning s then None else Some (poll_stopped, s))"

text \<open>The locked part of \<^verbatim>\<open>StopWatch\<close>; afterwards the caller joins the thread it has moved out.\<close>

definition sdk_StopWatch :: "watch_state \<Rightarrow> watch_state" where
  "sdk_StopWatch s = s\<lparr>mWatchStopRequested := True, mWatchThread := False, mWatchRunning := False,
     mWatchQueue := mWatchQueue s @ [poll_stopped]\<rparr>"

definition PushWatchResult :: "WatchPollKind \<Rightarrow> watch_state \<Rightarrow> watch_state" where
  "PushWatchResult k s = s\<lparr>mWatchQueue := mWatchQueue s @ [k]\<rparr>"

definition watch_created :: "bool \<Rightarrow> watch_state \<Rightarrow> watch_state" where
  "watch_created stream s =
     (if stream then s\<lparr>watch_pc := wp_write\<rparr>
      else s\<lparr>mWatchRunning := False, watch_pc := wp_push (Some poll_error)\<rparr>)"

definition watch_written :: "bool \<Rightarrow> watch_state \<Rightarrow> watch_state" where
  "watch_written written s =
     (if written then s\<lparr>watch_pc := wp_read\<rparr>
      else s\<lparr>mWatchRunning := False, watch_pc := wp_push (Some poll_error)\<rparr>)"

definition watch_response :: "bool \<Rightarrow> nat \<Rightarrow> watch_state \<Rightarrow> watch_state" where
  "watch_response canceled events s =
     (if canceled then (PushWatchResult poll_stream_closed s)\<lparr>emitted_terminal := True, watch_pc := wp_finish\<rparr>
      else if events > 0 then PushWatchResult poll_event s else s)"

definition watch_result :: "bool \<Rightarrow> grpc_status \<Rightarrow> bool \<Rightarrow> WatchPollKind option" where
  "watch_result stop_requested status emitted =
     (if stop_requested then Some poll_stopped
      else if emitted then None
      else if status_ok status \<or> error_code status = kCANCELLED then Some poll_stream_closed
      else Some poll_error)"

text \<open>
  One step of the watch thread or of the thread that polls and controls it. A watch is started only when
  no thread is joinable and the last one has been joined: assigning to a joinable
  \<^verbatim>\<open>std::thread\<close> would terminate the process, and the polling loop stops a closed watch before it restarts it.
\<close>

inductive watch_step :: "watch_state \<Rightarrow> watch_state \<Rightarrow> bool" where
  start: "\<not> mWatchThread s \<Longrightarrow> watch_pc s = wp_done \<Longrightarrow> watch_step s (snd (StartWatchPrefix s))"
| poll: "WaitForWatchEvent s = Some (k, s') \<Longrightarrow> watch_step s s'"
| stop: "watch_step s (sdk_StopWatch s)"
| create: "watch_pc s = wp_start \<Longrightarrow> watch_step s (watch_created b s)"
| create_sent: "watch_pc s = wp_write \<Longrightarrow> watch_step s (watch_written b s)"
| response: "watch_pc s = wp_read \<Longrightarrow> watch_step s (watch_response c n s)"
| read_end: "watch_pc s = wp_read \<Longrightarrow> watch_step s (s\<lparr>watch_pc := wp_finish\<rparr>)"
| read_flag: "watch_pc s = wp_finish \<Longrightarrow> watch_step s (s\<lparr>watch_pc := wp_clear (mWatchStopRequested s)\<rparr>)"
| clear: "watch_pc s = wp_clear b \<Longrightarrow>
    watch_step s (s\<lparr>mWatchRunning := False, watch_pc := wp_push (watch_result b status (emitted_terminal s))\<rparr>)"
| push: "watch_pc s = wp_push k \<Longrightarrow>
    watch_step s ((case k of None \<Rightarrow> s | Some r \<Rightarrow> PushWatchResult r s)\<lparr>watch_pc := wp_done\<rparr>)"

inductive watch_reachable :: "watch_state \<Rightarrow> bool" where
  init: "watch_reachable watch_init"
| step: "watch_reachable s \<Longrightarrow> watch_step s s' \<Longrightarrow> watch_reachable s'"

section \<open>Facts\<close>

text \<open>A granted lease id is never zero, which is the caller's mark for no lease.\<close>

lemma sdk_GrantLease_id:
  "sdk_GrantLease G ttl old w = (r, i, w') \<Longrightarrow> (ok r \<longrightarrow> i \<noteq> 0) \<and> (\<not> ok r \<longrightarrow> i = old)"
  by (auto simp: sdk_GrantLease_def split: prod.splits if_splits)

lemma sdk_KeepAliveOnce_finishes:
  assumes "ok (fst (sdk_KeepAliveOnce G i w))"
  shows "\<exists>w1 w2 w4 w5 j st. gp_ka_open G w = (True, w1) \<and> gp_ka_write G i w1 = (True, w2) \<and>
     gp_ka_read G (gp_ka_writes_done G w2) = (Some j, w4) \<and> j \<noteq> 0 \<and>
     gp_ka_finish G w4 = (st, w5) \<and> status_ok st \<and> sdk_KeepAliveOnce G i w = (Success, w5)"
  using assms
  by (auto simp: sdk_KeepAliveOnce_def Let_def split: prod.splits if_splits option.splits)

text \<open>A running watch belongs to a live thread, so the read side never waits for nobody.\<close>

definition watch_inv :: "watch_state \<Rightarrow> bool" where
  "watch_inv s \<longleftrightarrow> (mWatchRunning s \<longrightarrow> mWatchThread s \<and> \<not> mWatchStopRequested s \<and>
     watch_pc s \<notin> {wp_done} \<union> range wp_push)"

lemma watch_inv_step: "watch_step s s' \<Longrightarrow> watch_inv s \<Longrightarrow> watch_inv s'"
  by (induction rule: watch_step.induct)
    (auto simp: watch_inv_def StartWatchPrefix_def WaitForWatchEvent_def sdk_StopWatch_def PushWatchResult_def
      watch_created_def watch_written_def watch_response_def split: list.splits if_splits option.splits)

lemma watch_reachable_inv: "watch_reachable s \<Longrightarrow> watch_inv s"
proof (induction rule: watch_reachable.induct)
  case init
  show ?case by (simp add: watch_init_def watch_inv_def)
qed (rule watch_inv_step)

text \<open>
  The thread clears \<^verbatim>\<open>mWatchRunning\<close> and pushes its last result in two separate critical sections. A
  poll that falls between them finds an empty queue and a cleared flag and reports
  \<^verbatim>\<open>stopped\<close> although nobody asked to stop.
\<close>

lemma watch_spurious_stop:
  "\<exists>s. watch_reachable s \<and> \<not> mWatchStopRequested s \<and> watch_pc s = wp_push (Some poll_stream_closed) \<and>
     WaitForWatchEvent s = Some (poll_stopped, s)"
proof -
  let ?s0 = "snd (StartWatchPrefix watch_init)"
  let ?s1 = "watch_created True ?s0"
  let ?s2 = "watch_written True ?s1"
  let ?s3 = "?s2\<lparr>watch_pc := wp_finish\<rparr>"
  let ?s4 = "?s3\<lparr>watch_pc := wp_clear (mWatchStopRequested ?s3)\<rparr>"
  let ?st = "\<lparr>error_code = 0, error_message = []\<rparr>"
  let ?s5 = "?s4\<lparr>mWatchRunning := False, watch_pc := wp_push (watch_result False ?st (emitted_terminal ?s4))\<rparr>"
  note defs = watch_init_def StartWatchPrefix_def watch_created_def watch_written_def
  have "watch_reachable ?s0"
    by (rule watch_reachable.step [OF watch_reachable.init], rule watch_step.start) (simp_all add: watch_init_def)
  then have "watch_reachable ?s1"
    by (rule watch_reachable.step, intro watch_step.create) (simp add: defs)
  then have "watch_reachable ?s2"
    by (rule watch_reachable.step, intro watch_step.create_sent) (simp add: defs)
  then have "watch_reachable ?s3"
    by (rule watch_reachable.step, intro watch_step.read_end) (simp add: defs)
  then have "watch_reachable ?s4"
    by (rule watch_reachable.step, intro watch_step.read_flag) simp
  then have "watch_reachable ?s5"
    by (rule watch_reachable.step, intro watch_step.clear) (simp add: defs)
  moreover have "\<not> mWatchStopRequested ?s5 \<and> watch_pc ?s5 = wp_push (Some poll_stream_closed) \<and>
      WaitForWatchEvent ?s5 = Some (poll_stopped, ?s5)"
    by (simp add: defs WaitForWatchEvent_def watch_result_def status_ok_def)
  ultimately show ?thesis by blast
qed

end
