(* ===== verification/Etcd_Discovery.thy ===== *)
theory Etcd_Discovery
  imports Membership Etcd_Backend
begin

text \<open>
  The discovery coordinator \<^verbatim>\<open>EtcdDiscovery\<close> (src/src/framework/ipc/discovery/etcd_discovery.cpp). The class
  \<^verbatim>\<open>IEtcdDiscoveryBackend\<close> is the record \<open>etcd_backend\<close> of its operations; the production backend is
  \<open>sdk_backend\<close>. The JSON library (glaze) is the record \<open>json\<close>. The background loop is
  modelled one iteration at a time, with its position in \<open>loop_pc\<close>; sleeping has no counterpart.
\<close>

section \<open>Backend and JSON\<close>

record 'w etcd_backend =
  be_GrantLease :: "u32 \<Rightarrow> u64 \<Rightarrow> 'w \<Rightarrow> result \<times> u64 \<times> 'w"
  be_Put :: "string \<Rightarrow> string \<Rightarrow> u64 \<Rightarrow> 'w \<Rightarrow> result \<times> 'w"
  be_KeepAliveOnce :: "u64 \<Rightarrow> 'w \<Rightarrow> result \<times> 'w"
  be_Delete :: "string \<Rightarrow> 'w \<Rightarrow> result \<times> 'w"
  be_GetPrefix :: "string \<Rightarrow> string \<Rightarrow> 'w \<Rightarrow> result \<times> string \<times> 'w"
  be_StartWatchPrefix :: "string \<Rightarrow> 'w \<Rightarrow> result \<times> 'w"
  be_WaitForWatchEvent :: "'w \<Rightarrow> WatchPollKind \<times> 'w"
  be_StopWatch :: "'w \<Rightarrow> 'w"

record SerializableProcessDescriptor =
  s_service_type :: ServiceType
  s_instance_id :: InstanceId
  s_incarnation_id :: IncarnationId
  s_service_name :: string
  s_host :: string
  s_port :: u16
  s_protocol_version :: u32
  s_start_time_unix_ms :: u64
  s_relay_capabilities :: "ServiceType list"
  s_labels :: StringMap

text \<open>Reading returns the text of the error, or the value; writing may fail.\<close>

record json =
  js_write :: "SerializableProcessDescriptor \<Rightarrow> string option"
  js_read_descriptor :: "string \<Rightarrow> string + SerializableProcessDescriptor"
  js_read_kvs :: "string \<Rightarrow> string + (string \<times> string) list"

definition to_serializable :: "ProcessDescriptor \<Rightarrow> SerializableProcessDescriptor" where
  "to_serializable p =
     \<lparr>s_service_type = service_type (process_id (process p)), s_instance_id = instance_id (process_id (process p)),
      s_incarnation_id = incarnation_id (process p), s_service_name = service_name p,
      s_host = host (listen_endpoint p), s_port = port (listen_endpoint p),
      s_protocol_version = protocol_version p, s_start_time_unix_ms = start_time_unix_ms p,
      s_relay_capabilities = relay_capabilities p, s_labels = labels p\<rparr>"

definition from_serializable :: "SerializableProcessDescriptor \<Rightarrow> ProcessDescriptor" where
  "from_serializable s =
     \<lparr>process = \<lparr>process_id = mk_process_id (s_service_type s) (s_instance_id s), incarnation_id = s_incarnation_id s\<rparr>,
      service_name = s_service_name s, listen_endpoint = \<lparr>host = s_host s, port = s_port s\<rparr>,
      protocol_version = s_protocol_version s, start_time_unix_ms = s_start_time_unix_ms s,
      labels = s_labels s, relay_capabilities = s_relay_capabilities s\<rparr>"

definition SerializeDescriptor :: "json \<Rightarrow> ProcessDescriptor \<Rightarrow> string" where
  "SerializeDescriptor J p = (case js_write J (to_serializable p) of Some text \<Rightarrow> text | None \<Rightarrow> [])"

definition DeserializeDescriptor :: "json \<Rightarrow> string \<Rightarrow> result + ProcessDescriptor" where
  "DeserializeDescriptor J text = (case js_read_descriptor J text of
      Inl e \<Rightarrow> Inl (Failure e)
    | Inr s \<Rightarrow> Inr (from_serializable s))"

section \<open>State\<close>

record EtcdDiscovery =
  mOptions :: EtcdDiscoveryOptions
  ed_mProcesses :: process_table
  ed_mEvents :: "MembershipEvent list"
  ed_mSelf :: "ProcessDescriptor option"
  mLeaseId :: u64
  mStopWatch :: bool
  ed_mWatchRunning :: bool
  watch_restart_count :: u64
  watch_start_failure_count :: u64
  watch_stream_closed_count :: u64
  snapshot_refresh_failure_count :: u64

definition EtcdDiscovery_new :: "EtcdDiscoveryOptions \<Rightarrow> EtcdDiscovery" where
  "EtcdDiscovery_new options =
     \<lparr>mOptions = options, ed_mProcesses = [], ed_mEvents = [], ed_mSelf = None, mLeaseId = 0,
      mStopWatch = False, ed_mWatchRunning = False, watch_restart_count = 0, watch_start_failure_count = 0,
      watch_stream_closed_count = 0, snapshot_refresh_failure_count = 0\<rparr>"

definition members_prefix :: "EtcdDiscovery \<Rightarrow> string" where
  "members_prefix d = prefix (mOptions d) @ ''/members/''"

definition MemberKey :: "EtcdDiscovery \<Rightarrow> ProcessId \<Rightarrow> string" where
  "MemberKey d i = members_prefix d @ to_string (service_type i) @ ''/'' @ to_string (instance_id i)"

section \<open>Operations\<close>

definition GrantLease :: "'w etcd_backend \<Rightarrow> EtcdDiscovery \<times> 'w \<Rightarrow> result \<times> EtcdDiscovery \<times> 'w" where
  "GrantLease B s = (let (d, w) = s;
     (r, i, w') = be_GrantLease B (lease_ttl_seconds (mOptions d)) (mLeaseId d) w
     in (r, d\<lparr>mLeaseId := i\<rparr>, w'))"

text \<open>The end of \<^verbatim>\<open>RegisterSelf\<close>: store the local record once the backend has accepted it.\<close>

definition register_done :: "result \<Rightarrow> ProcessDescriptor \<Rightarrow> EtcdDiscovery \<times> 'w \<Rightarrow> result \<times> EtcdDiscovery \<times> 'w" where
  "register_done put self s = (let (d, w) = s in
     if \<not> ok put then (put, d, w)
     else (Success, d\<lparr>ed_mSelf := Some self,
             ed_mProcesses := AList.update (key_of self) self (ed_mProcesses d)\<rparr>, w))"

definition put_self :: "'w etcd_backend \<Rightarrow> json \<Rightarrow> ProcessDescriptor \<Rightarrow> EtcdDiscovery \<times> 'w \<Rightarrow> result \<times> EtcdDiscovery \<times> 'w" where
  "put_self B J self s = (let (d, w) = s;
     (r, w') = be_Put B (MemberKey d (process_id (process self))) (SerializeDescriptor J self) (mLeaseId d) w
     in (r, d, w'))"

definition ed_RegisterSelf :: "'w etcd_backend \<Rightarrow> json \<Rightarrow> ProcessDescriptor \<Rightarrow> EtcdDiscovery \<times> 'w
    \<Rightarrow> result \<times> EtcdDiscovery \<times> 'w" where
  "ed_RegisterSelf B J self s =
     (let (lease, s1) = (if 0 < lease_ttl_seconds (mOptions (fst s)) \<and> mLeaseId (fst s) = 0
                         then GrantLease B s else (Success, s)) in
      if \<not> ok lease then (lease, s1)
      else let (put, d2, w2) = put_self B J self s1 in
      if \<not> ok put \<and> 0 < lease_ttl_seconds (mOptions d2)
      then (let (lease2, s3) = GrantLease B (d2\<lparr>mLeaseId := 0\<rparr>, w2) in
            if \<not> ok lease2 then (lease2, s3)
            else let (put2, s4) = put_self B J self s3 in register_done put2 self s4)
      else register_done put self (d2, w2))"

definition ed_KeepAliveOnce :: "'w etcd_backend \<Rightarrow> EtcdDiscovery \<times> 'w \<Rightarrow> result \<times> EtcdDiscovery \<times> 'w" where
  "ed_KeepAliveOnce B s = (let (d, w) = s in
     if mLeaseId d = 0 then (Failure ''lease not initialized'', d, w)
     else let (r, w') = be_KeepAliveOnce B (mLeaseId d) w in
     (r, if ok r then d else d\<lparr>mLeaseId := 0\<rparr>, w'))"

fun parse_kvs :: "json \<Rightarrow> (string \<times> string) list \<Rightarrow> process_table \<Rightarrow> result \<times> process_table" where
  "parse_kvs J [] refreshed = (Success, refreshed)"
| "parse_kvs J (kv # kvs) refreshed = (case DeserializeDescriptor J (Base64Decode (snd kv)) of
      Inl e \<Rightarrow> (e, refreshed)
    | Inr p \<Rightarrow> parse_kvs J kvs (AList.update (key_of p) p refreshed))"

definition ParseSnapshot :: "json \<Rightarrow> string \<Rightarrow> process_table \<Rightarrow> result \<times> process_table" where
  "ParseSnapshot J output refreshed = (case js_read_kvs J output of
      Inl e \<Rightarrow> (Failure e, refreshed)
    | Inr kvs \<Rightarrow> parse_kvs J kvs [])"

definition ApplySnapshot :: "process_table \<Rightarrow> EtcdDiscovery \<Rightarrow> EtcdDiscovery" where
  "ApplySnapshot refreshed d =
     d\<lparr>ed_mEvents := QueueDiffEvents (ed_mProcesses d) refreshed (ed_mEvents d), ed_mProcesses := refreshed\<rparr>"

definition refresh_failed :: "EtcdDiscovery \<Rightarrow> EtcdDiscovery" where
  "refresh_failed d = d\<lparr>snapshot_refresh_failure_count := snapshot_refresh_failure_count d + 1\<rparr>"

definition RefreshSnapshot :: "'w etcd_backend \<Rightarrow> json \<Rightarrow> EtcdDiscovery \<times> 'w \<Rightarrow> result \<times> EtcdDiscovery \<times> 'w" where
  "RefreshSnapshot B J s = (let (d, w) = s; (get, output, w') = be_GetPrefix B (members_prefix d) [] w in
     if \<not> ok get then (get, refresh_failed d, w')
     else let (parsed, refreshed) = ParseSnapshot J output [] in
     if \<not> ok parsed then (parsed, refresh_failed d, w')
     else (Success, ApplySnapshot refreshed d, w'))"

text \<open>\<^verbatim>\<open>running\<close>: whether the watch thread is joinable; the returned flag says whether it is afterwards.\<close>

definition StartWatch :: "'w etcd_backend \<Rightarrow> json \<Rightarrow> bool \<Rightarrow> EtcdDiscovery \<times> 'w \<Rightarrow> result \<times> bool \<times> EtcdDiscovery \<times> 'w" where
  "StartWatch B J running s = (let (d, w) = s in
     if running then (Success, running, d, w)
     else let (refresh, s1) = RefreshSnapshot B J (d\<lparr>mStopWatch := False\<rparr>, w) in
     if \<not> ok refresh then (refresh, False, s1)
     else let (refresh2, s2) = RefreshSnapshot B J s1 in (refresh2, True, s2))"

definition ed_StopWatch :: "'w etcd_backend \<Rightarrow> EtcdDiscovery \<times> 'w \<Rightarrow> EtcdDiscovery \<times> 'w" where
  "ed_StopWatch B s = (let (d, w) = s in (d\<lparr>mStopWatch := True\<rparr>, be_StopWatch B w))"

definition ed_Remove :: "'w etcd_backend \<Rightarrow> ProcessId \<Rightarrow> EtcdDiscovery \<times> 'w \<Rightarrow> result \<times> EtcdDiscovery \<times> 'w" where
  "ed_Remove B i s = (let (d, w) = s; (del, w') = be_Delete B (MemberKey d i) w in
     if \<not> ok del then (del, d, w')
     else let d1 = d\<lparr>ed_mProcesses := AList.delete (MakeProcessKey i) (ed_mProcesses d)\<rparr> in
     (Success, (case ed_mSelf d1 of
          Some self \<Rightarrow> if process_id (process self) = i then d1\<lparr>ed_mSelf := None, mLeaseId := 0\<rparr> else d1
        | None \<Rightarrow> d1), w'))"

definition ed_DrainEvents :: "EtcdDiscovery \<Rightarrow> MembershipEvent list \<times> EtcdDiscovery" where
  "ed_DrainEvents d = (ed_mEvents d, d\<lparr>ed_mEvents := []\<rparr>)"

text \<open>The destructor.\<close>

definition ed_destroy :: "'w etcd_backend \<Rightarrow> EtcdDiscovery \<times> 'w \<Rightarrow> EtcdDiscovery \<times> 'w" where
  "ed_destroy B s = (let s1 = ed_StopWatch B s in
     case ed_mSelf (fst s1) of
       None \<Rightarrow> s1
     | Some self \<Rightarrow> snd (ed_Remove B (process_id (process self)) s1))"

section \<open>The watch loop\<close>

datatype loop_pc = lp_start | lp_poll | lp_wait | lp_exit

definition loop_exit :: "'w etcd_backend \<Rightarrow> EtcdDiscovery \<times> 'w \<Rightarrow> loop_pc \<times> EtcdDiscovery \<times> 'w" where
  "loop_exit B s = (let (d, w) = s in (lp_exit, d\<lparr>ed_mWatchRunning := False\<rparr>, be_StopWatch B w))"

fun WatchLoop_step :: "'w etcd_backend \<Rightarrow> json \<Rightarrow> loop_pc \<Rightarrow> EtcdDiscovery \<times> 'w \<Rightarrow> loop_pc \<times> EtcdDiscovery \<times> 'w" where
  "WatchLoop_step B J lp_start (d, w) =
     (if mStopWatch d then loop_exit B (d, w)
      else let (r, w') = be_StartWatchPrefix B (members_prefix d) w in
      if \<not> ok r
      then (lp_start, d\<lparr>watch_start_failure_count := watch_start_failure_count d + 1, ed_mWatchRunning := False\<rparr>, w')
      else (lp_poll, d\<lparr>ed_mWatchRunning := True\<rparr>, w'))"
| "WatchLoop_step B J lp_poll (d, w) =
     (let (k, w1) = be_WaitForWatchEvent B w in
      case k of
        poll_event \<Rightarrow> (lp_poll, snd (RefreshSnapshot B J (d, w1)))
      | poll_stopped \<Rightarrow> (lp_exit, d\<lparr>ed_mWatchRunning := False\<rparr>, w1)
      | _ \<Rightarrow>
          if mStopWatch d then loop_exit B (d, w1)
          else let (r, d2, w2) = RefreshSnapshot B J
                 (d\<lparr>watch_stream_closed_count := watch_stream_closed_count d + 1,
                    watch_restart_count := watch_restart_count d + 1\<rparr>, w1)
               in (lp_wait, d2, be_StopWatch B w2))"
| "WatchLoop_step B J lp_wait (d, w) = (if mStopWatch d then loop_exit B (d, w) else (lp_start, d, w))"
| "WatchLoop_step B J lp_exit (d, w) = (lp_exit, d, w)"

section \<open>The production backend\<close>

text \<open>The unary operations act on the cluster, the watch operations on the queue of the watch thread; a
  poll that would block is answered by \<open>blocked\<close>, the result the thread eventually pushes.\<close>

definition sdk_backend :: "'w etcd_grpc \<Rightarrow> WatchPollKind \<Rightarrow> (watch_state \<times> 'w) etcd_backend" where
  "sdk_backend G blocked =
     \<lparr>be_GrantLease = (\<lambda>ttl i (q, w). let (r, j, w') = sdk_GrantLease G ttl i w in (r, j, q, w')),
      be_Put = (\<lambda>k v i (q, w). let (r, w') = sdk_Put G k v i w in (r, q, w')),
      be_KeepAliveOnce = (\<lambda>i (q, w). let (r, w') = sdk_KeepAliveOnce G i w in (r, q, w')),
      be_Delete = (\<lambda>k (q, w). let (r, w') = sdk_Delete G k w in (r, q, w')),
      be_GetPrefix = (\<lambda>p out (q, w). let (r, out', w') = sdk_GetPrefix G p out w in (r, out', q, w')),
      be_StartWatchPrefix = (\<lambda>p (q, w). let (r, q') = StartWatchPrefix q in (r, q', w)),
      be_WaitForWatchEvent = (\<lambda>(q, w). case WaitForWatchEvent q of
          None \<Rightarrow> (blocked, q, w) | Some (k, q') \<Rightarrow> (k, q', w)),
      be_StopWatch = (\<lambda>(q, w). (sdk_StopWatch q, w))\<rparr>"

section \<open>Records and keys\<close>

lemma from_to_serializable [simp]: "from_serializable (to_serializable p) = p"
  by (simp add: from_serializable_def to_serializable_def mk_process_id_def)

lemma slash_notin_to_string: "CHR ''/'' \<notin> set (to_string w)"
proof
  assume "CHR ''/'' \<in> set (to_string w)"
  then have "is_digit CHR ''/''" by (rule to_string_digits)
  then show False by (simp add: is_digit_def)
qed

lemma MemberKey_inject [simp]: "MemberKey d i = MemberKey d j \<longleftrightarrow> i = (j :: ProcessId)"
proof
  assume "MemberKey d i = MemberKey d j"
  then have "getline CHR ''/'' (to_string (service_type i) @ CHR ''/'' # to_string (instance_id i)) =
      getline CHR ''/'' (to_string (service_type j) @ CHR ''/'' # to_string (instance_id j))"
    by (simp add: MemberKey_def)
  then show "i = j" by (simp add: getline_field slash_notin_to_string ProcessId.equality)
qed simp

section \<open>Registration\<close>

text \<open>The operations keep the options, and a lease call changes nothing but the lease id.\<close>

lemma GrantLease_frame:
  "GrantLease B (d, w) = (r, d', w') \<Longrightarrow> d' = d\<lparr>mLeaseId := mLeaseId d'\<rparr>"
  by (auto simp: GrantLease_def split: prod.splits)

lemma put_self_frame: "put_self B J self (d, w) = (r, d', w') \<Longrightarrow> d' = d"
  by (auto simp: put_self_def split: prod.splits)

lemma register_done_ok:
  "register_done put self (d, w) = (r, d', w') \<Longrightarrow>
     (ok r \<longleftrightarrow> ok put) \<and> (ok put \<longrightarrow> d' = d\<lparr>ed_mSelf := Some self,
        ed_mProcesses := AList.update (key_of self) self (ed_mProcesses d)\<rparr>) \<and> (\<not> ok put \<longrightarrow> d' = d)"
  by (auto simp: register_done_def split: if_splits)

text \<open>Registration succeeds only with the local record stored; on failure the view is untouched.\<close>

lemma ed_RegisterSelf_outcome:
  assumes "ed_RegisterSelf B J self (d, w) = (r, d', w')"
  shows "(ok r \<longrightarrow> ed_mSelf d' = Some self \<and> ed_mProcesses d' = AList.update (key_of self) self (ed_mProcesses d)) \<and>
     (\<not> ok r \<longrightarrow> ed_mSelf d' = ed_mSelf d \<and> ed_mProcesses d' = ed_mProcesses d) \<and>
     ed_mEvents d' = ed_mEvents d \<and> mOptions d' = mOptions d"
  using assms
  by (auto simp: ed_RegisterSelf_def GrantLease_def put_self_def register_done_def Let_def
      split: if_splits prod.splits)

text \<open>After a failed keepalive the next registration asks for a new lease before it writes.\<close>

lemma keepalive_failure_regrants:
  assumes "ed_KeepAliveOnce B (d, w) = (r, d', w')" and "\<not> ok r" and "0 < lease_ttl_seconds (mOptions d)"
    and "be_GrantLease B (lease_ttl_seconds (mOptions d)) 0 w' = (g, i, w2)" and "\<not> ok g"
  shows "ed_RegisterSelf B J self (d', w') = (g, d'\<lparr>mLeaseId := i\<rparr>, w2)"
proof -
  have "mLeaseId d' = 0" "mOptions d' = mOptions d"
    using assms(1,2) by (auto simp: ed_KeepAliveOnce_def split: if_splits prod.splits)
  then show ?thesis using assms(3-5) by (simp add: ed_RegisterSelf_def GrantLease_def)
qed

section \<open>Snapshots\<close>

lemma parse_kvs_valid: "table_valid t \<Longrightarrow> parse_kvs J kvs t = (r, t') \<Longrightarrow> table_valid t'"
  by (induction J kvs t rule: parse_kvs.induct) (auto simp: table_valid_update split: sum.splits)

lemma ParseSnapshot_valid: "table_valid t \<Longrightarrow> ParseSnapshot J out t = (r, t') \<Longrightarrow> table_valid t'"
  by (auto simp: ParseSnapshot_def dest: parse_kvs_valid [OF table_valid_Nil] split: sum.splits)

text \<open>
  C15. A refresh that succeeds reports the change it makes: the queued events lead from the old view to
  the new one. A refresh that fails counts the failure and changes no member and no event.
\<close>

lemma RefreshSnapshot_events:
  assumes "table_valid (ed_mProcesses d)" and "RefreshSnapshot B J (d, w) = (r, d', w')"
  shows "table_valid (ed_mProcesses d') \<and>
     (ok r \<longrightarrow> (\<exists>es. ed_mEvents d' = ed_mEvents d @ es \<and>
        replay (map_of (ed_mProcesses d)) es = map_of (ed_mProcesses d'))) \<and>
     (\<not> ok r \<longrightarrow> d' = refresh_failed d)"
proof -
  obtain get out w1 where g: "be_GetPrefix B (members_prefix d) [] w = (get, out, w1)"
    by (cases "be_GetPrefix B (members_prefix d) [] w") auto
  obtain parsed t where p: "ParseSnapshot J out [] = (parsed, t)" by (cases "ParseSnapshot J out []")
  have t: "table_valid t" by (rule ParseSnapshot_valid [OF table_valid_Nil p])
  have q: "QueueDiffEvents a b es = es @ QueueDiffEvents a b []" for a b es
    by (simp add: QueueDiffEvents_def)
  show ?thesis
  proof (cases "ok get \<and> ok parsed")
    case True
    then have "d' = ApplySnapshot t d" "ok r"
      using assms(2) g p by (auto simp: RefreshSnapshot_def)
    then show ?thesis
      using q [of "ed_mProcesses d" t "ed_mEvents d"] replay_diff [OF assms(1) t] t
      by (auto simp: ApplySnapshot_def)
  next
    case False
    then have "d' = refresh_failed d \<and> \<not> ok r"
      using assms(2) g p by (auto simp: RefreshSnapshot_def split: if_splits)
    then show ?thesis using assms(1) by (simp add: refresh_failed_def)
  qed
qed

text \<open>The view stays keyed by process id under every operation of the class.\<close>

lemma ed_RegisterSelf_valid:
  assumes "table_valid (ed_mProcesses d)" and "ed_RegisterSelf B J self (d, w) = (r, d', w')"
  shows "table_valid (ed_mProcesses d')"
  using ed_RegisterSelf_outcome [OF assms(2)] assms(1) by (cases "ok r") (auto simp: table_valid_update)

lemma ed_Remove_valid:
  assumes "table_valid (ed_mProcesses d)" and "ed_Remove B i (d, w) = (r, d', w')"
  shows "table_valid (ed_mProcesses d') \<and> (ok r \<longrightarrow> Find (ed_mProcesses d') i = None)"
  using assms
  by (auto simp: ed_Remove_def table_valid_delete Find_def Let_def split: if_splits prod.splits option.splits)

section \<open>From one process to another through etcd\<close>

lemma range_kAlphabet: "i < 64 \<Longrightarrow> kAlphabet ! i \<in> set kAlphabet"
  by (rule nth_mem) (simp add: kAlphabet_def)

lemma sextet_alphabet: "i < 64 \<Longrightarrow> sextet i \<in> set kAlphabet"
  by (simp add: sextet_def range_kAlphabet word_less_nat_alt)

lemmas sextets_alphabet = sextet_bounds [THEN sextet_alphabet, THEN insertI2]

lemma Base64Encode_alphabet: "set (Base64Encode s) \<subseteq> insert (CHR ''='') (set kAlphabet)"
proof (induction s rule: Base64Encode.induct)
  case (1 x y z rest)
  then show ?case
    by (simp only: Base64Encode.simps Let_def append.simps list.set insert_subset sextets_alphabet simp_thms)
qed (simp_all only: Base64Encode.simps Let_def list.set insert_subset sextets_alphabet insertI1 empty_subsetI simp_thms)

lemma JsonEscape_alphabet: "set s \<subseteq> insert (CHR ''='') (set kAlphabet) \<Longrightarrow> JsonEscape s = s"
proof (induction s)
  case (Cons c s)
  have "JsonEscape_char c = [c]" if "c \<in> insert (CHR ''='') (set kAlphabet)" for c
    using that by (auto simp: JsonEscape_char_def kAlphabet_def)
  then show ?case using Cons by (simp add: JsonEscape_def)
qed (simp add: JsonEscape_def)

text \<open>Escaping changes nothing in an encoded field.\<close>

lemma JsonEscape_Base64Encode [simp]: "JsonEscape (Base64Encode s) = Base64Encode s"
  by (rule JsonEscape_alphabet) (rule Base64Encode_alphabet)

definition encode_kv :: "string \<times> string \<Rightarrow> string \<times> string" where
  "encode_kv kv = (Base64Encode (fst kv), Base64Encode (snd kv))"

text \<open>What the code relies on in the JSON library, for a list of descriptors.\<close>

definition json_documented :: "json \<Rightarrow> (string \<times> string) list \<Rightarrow> ProcessDescriptor list \<Rightarrow> bool" where
  "json_documented J kvs ps \<longleftrightarrow>
     js_read_kvs J (render_response kvs) = Inr (map encode_kv kvs) \<and>
     (\<forall>p \<in> set ps. case js_write J (to_serializable p) of
        None \<Rightarrow> False
      | Some text \<Rightarrow> js_read_descriptor J text = Inr (to_serializable p))"

lemma DeserializeDescriptor_Serialize:
  "json_documented J kvs ps \<Longrightarrow> p \<in> set ps \<Longrightarrow> DeserializeDescriptor J (SerializeDescriptor J p) = Inr p"
  by (auto simp: json_documented_def DeserializeDescriptor_def SerializeDescriptor_def split: option.splits)

lemma parse_kvs_serialized:
  assumes "\<forall>p \<in> set ps. DeserializeDescriptor J (SerializeDescriptor J p) = Inr p"
  shows "parse_kvs J (map (\<lambda>p. encode_kv (K p, SerializeDescriptor J p)) ps) t =
     (Success, foldl (\<lambda>t p. AList.update (key_of p) p t) t ps)"
  using assms by (induction ps arbitrary: t) (simp_all add: encode_kv_def Base64Decode_Encode)

lemma foldl_update_members:
  assumes "distinct (map key_of ps)"
  shows "map_of (foldl (\<lambda>t p. AList.update (key_of p) p t) t ps) k =
     (case find (\<lambda>p. key_of p = k) ps of Some p \<Rightarrow> Some p | None \<Rightarrow> map_of t k)"
  using assms
proof (induction ps arbitrary: t)
  case (Cons p ps)
  then have "find (\<lambda>q. key_of q = key_of p) ps = None"
    by (auto simp: find_None_iff image_iff)
  then show ?case using Cons by (auto split: option.splits)
qed simp

lemma foldl_update_valid: "table_valid t \<Longrightarrow> table_valid (foldl (\<lambda>t p. AList.update (key_of p) p t) t ps)"
  by (induction ps arbitrary: t) (simp_all add: table_valid_update)

lemma members_of_update:
  assumes "distinct (map key_of ps)"
  shows "set (All (foldl (\<lambda>t p. AList.update (key_of p) p t) [] ps)) = set ps"
proof (intro set_eqI)
  fix p
  have "find (\<lambda>q. key_of q = key_of p) ps = Some p \<longleftrightarrow> p \<in> set ps"
    using assms
  proof (induction ps)
    case (Cons q ps)
    then show ?case by (cases "key_of q = key_of p") (auto simp: image_iff)
  qed simp
  moreover have "table_valid (foldl (\<lambda>t p. AList.update (key_of p) p t) [] ps)"
    by (rule foldl_update_valid) simp
  ultimately show "p \<in> set (All (foldl (\<lambda>t p. AList.update (key_of p) p t) [] ps)) \<longleftrightarrow> p \<in> set ps"
    by (auto simp: All_def table_valid_mem_iff foldl_update_members [OF assms] split: option.splits)
qed

text \<open>
  C14. The snapshot path from the records in etcd to the local view: when the range request returns the
  registered descriptors, the refreshed view consists of exactly these descriptors.
\<close>

lemma RefreshSnapshot_members:
  assumes "kvs = map (\<lambda>p. (MemberKey d (process_id (process p)), SerializeDescriptor J p)) ps"
    and "gp_Range G (members_prefix d) (PrefixRangeEnd (members_prefix d)) w = (st, kvs, w')" and "status_ok st"
    and "json_documented J kvs ps" and "distinct (map key_of ps)"
    and "RefreshSnapshot (sdk_backend G blocked) J (d, q, w) = (r, d', q', w2)"
  shows "ok r \<and> set (All (ed_mProcesses d')) = set ps \<and> table_valid (ed_mProcesses d')"
proof -
  have get: "be_GetPrefix (sdk_backend G blocked) (members_prefix d) [] (q, w) =
      (Success, render_response kvs, q, w')"
    using assms(2,3) by (simp add: sdk_backend_def sdk_GetPrefix_def)
  let ?t = "foldl (\<lambda>t p. AList.update (key_of p) p t) [] ps"
  have "map encode_kv kvs = map (\<lambda>p. encode_kv (MemberKey d (process_id (process p)), SerializeDescriptor J p)) ps"
    by (simp add: assms(1))
  moreover have "\<forall>p \<in> set ps. DeserializeDescriptor J (SerializeDescriptor J p) = Inr p"
    using DeserializeDescriptor_Serialize [OF assms(4)] by blast
  ultimately have "ParseSnapshot J (render_response kvs) [] = (Success, ?t)"
    using assms(4) by (simp add: ParseSnapshot_def json_documented_def parse_kvs_serialized)
  then have "d' = ApplySnapshot ?t d" "ok r"
    using assms(6) get by (simp_all add: RefreshSnapshot_def)
  then show ?thesis
    using members_of_update [OF assms(5)] foldl_update_valid [of "[]" ps] by (simp add: ApplySnapshot_def)
qed

section \<open>The watch loop\<close>

text \<open>The loop ends only on a stop request or on a poll that reports \<^verbatim>\<open>stopped\<close>.\<close>

lemma WatchLoop_exit_reason:
  assumes "WatchLoop_step B J pc (d, w) = (lp_exit, d', w')" and "pc \<noteq> lp_exit"
  shows "mStopWatch d \<or> pc = lp_poll \<and> fst (be_WaitForWatchEvent B w) = poll_stopped"
  using assms
  by (cases pc; cases "fst (be_WaitForWatchEvent B w)")
    (auto simp: Let_def split: if_splits prod.splits)

text \<open>A closed stream is followed by a refresh and a restart, never by the end of the loop.\<close>

lemma WatchLoop_stream_closed:
  assumes "be_WaitForWatchEvent B w = (poll_stream_closed, w1)" and "\<not> mStopWatch d"
    and "WatchLoop_step B J lp_poll (d, w) = (pc, d', w')"
  shows "pc = lp_wait \<and> watch_restart_count d' = watch_restart_count d + 1"
  using assms
  by (auto simp: Let_def RefreshSnapshot_def ApplySnapshot_def refresh_failed_def split: prod.splits if_splits)

text \<open>
  With the production backend a closed stream can end the loop for good: the poll between the two
  critical sections of the watch thread is taken for a stop.
\<close>

lemma WatchLoop_lost:
  "\<exists>q. watch_reachable q \<and> \<not> mWatchStopRequested q \<and> watch_pc q = wp_push (Some poll_stream_closed) \<and>
     (\<forall>d w. fst (WatchLoop_step (sdk_backend G blocked) J lp_poll (d, q, w)) = lp_exit)"
proof -
  obtain q where q: "watch_reachable q" "\<not> mWatchStopRequested q" "watch_pc q = wp_push (Some poll_stream_closed)"
    "WaitForWatchEvent q = Some (poll_stopped, q)"
    using watch_spurious_stop by blast
  then have "\<forall>d w. fst (WatchLoop_step (sdk_backend G blocked) J lp_poll (d, q, w)) = lp_exit"
    by (simp add: sdk_backend_def)
  with q show ?thesis by blast
qed

end
