(* ===== verification/Ipc_Node.thy ===== *)
theory Ipc_Node
  imports Messenger Etcd_Discovery
begin

text \<open>
  The IPC runtime every server process shares (src/src/common/ipc/ipc_node_service_base.cpp) and the parts of the
  relay and game services that plug into it: auto-connect, the relay's frame forwarding. The object owns
  transport, links, discovery, receiver directory and registries; a null \<^verbatim>\<open>unique_ptr\<close> is \<open>None\<close>. The two
  background loops are modelled one iteration at a time. Log lines have no counterpart.
\<close>

section \<open>State\<close>

record 'h node =
  nd_self :: "ProcessDescriptor option"
  nd_transport :: "transport option"
  nd_links :: "LinkManager option"
  nd_discovery :: EtcdDiscovery
  nd_watch_thread :: bool
  nd_directory :: receiver_table
  nd_hosts :: "'h option list"
  nd_urls :: "string list"
  nd_messenger :: bool
  nd_registered :: bool
  nd_transport_ready :: bool
  nd_ipc_ready :: bool
  nd_last_error :: string
  nd_keepalive_thread :: bool
  nd_stop_keepalive :: bool
  keepalive_interval_seconds :: u32
  keepalive_failure_count :: u64
  discovery_recovery_success_count :: u64
  discovery_recovery_failure_count :: u64
  nd_auto_connect_thread :: bool
  nd_stop_auto_connect :: bool
  auto_connect_attempts :: "u64 list"
  auto_connect_success_count :: u64
  auto_connect_failure_count :: u64
  last_auto_connect_target :: "ProcessRef option"
  last_auto_connect_failure_target :: "ProcessRef option"
  last_auto_connect_failure_reason :: string

text \<open>Everything outside the object that the runtime calls.\<close>

record 'w node_env =
  ne_sockets :: "'w sockets"
  ne_backend :: "'w etcd_backend"
  ne_json :: json
  ne_control :: control_wire

definition KeepAliveIntervalSeconds :: "EtcdDiscoveryOptions \<Rightarrow> u32" where
  "KeepAliveIntervalSeconds options =
     (if lease_ttl_seconds options = 0 then 0 else max 1 (lease_ttl_seconds options div 2))"

definition empty_transport :: transport where
  "empty_transport = \<lparr>mListeningEndpoint = \<lparr>host = [], port = 0\<rparr>, mListening = False, mListenSocket = -1,
     mConnections = [], mNextConnectionId = 1\<rparr>"

text \<open>A node as its constructor leaves it.\<close>

definition new_node :: "EtcdDiscoveryOptions \<Rightarrow> 'h node" where
  "new_node options =
     \<lparr>nd_self = None, nd_transport = None, nd_links = None, nd_discovery = EtcdDiscovery_new options, nd_watch_thread = False,
      nd_directory = \<lparr>mEntries = []\<rparr>, nd_hosts = replicate kMaxReceiverTypes None, nd_urls = [], nd_messenger = False,
      nd_registered = False, nd_transport_ready = False, nd_ipc_ready = False, nd_last_error = [], nd_keepalive_thread = False,
      nd_stop_keepalive = False, keepalive_interval_seconds = KeepAliveIntervalSeconds options, keepalive_failure_count = 0,
      discovery_recovery_success_count = 0, discovery_recovery_failure_count = 0, nd_auto_connect_thread = False,
      nd_stop_auto_connect = False, auto_connect_attempts = [], auto_connect_success_count = 0, auto_connect_failure_count = 0,
      last_auto_connect_target = None, last_auto_connect_failure_target = None, last_auto_connect_failure_reason = []\<rparr>"

definition IsIpcActiveLocked :: "'h node \<Rightarrow> bool" where
  "IsIpcActiveLocked N \<longleftrightarrow> nd_registered N \<and> nd_ipc_ready N"

definition Members :: "'h node \<Rightarrow> ProcessDescriptor list" where
  "Members N = All (ed_mProcesses (nd_discovery N))"

definition HealthyLinks :: "'h node \<Rightarrow> ProcessRef list" where
  "HealthyLinks N = (case nd_links N of None \<Rightarrow> [] | Some l \<Rightarrow> GetHealthyLinks l)"

section \<open>Frames and events\<close>

text \<open>
  The connection handler. A disconnect queues no frame, so the flush nested in the handler of an
  event that a send raises has nothing to send and is left out.
\<close>

definition on_events :: "control_wire \<Rightarrow> ConnectionEvent list \<Rightarrow> LinkManager \<Rightarrow> LinkManager" where
  "on_events W evs l = foldl (\<lambda>l e. OnConnectionEvent W e l) l evs"

fun send_frames :: "'w node_env \<Rightarrow> RawFrame list \<Rightarrow> LinkManager \<times> transport \<times> 'w \<Rightarrow> LinkManager \<times> transport \<times> 'w" where
  "send_frames E [] s = s"
| "send_frames E (f # fs) (l, t, w) =
     (let (_, evs, t', w') = Send (ne_sockets E) f (t, w)
      in send_frames E fs (on_events (ne_control E) evs l, t', w'))"

definition FlushLinkFrames :: "'w node_env \<Rightarrow> LinkManager \<times> transport \<times> 'w \<Rightarrow> LinkManager \<times> transport \<times> 'w" where
  "FlushLinkFrames E s = (let (l, t, w) = s; (frames, l') = DrainOutboundFrames l in send_frames E frames (l', t, w))"

definition on_connection_events :: "'w node_env \<Rightarrow> ConnectionEvent list \<Rightarrow> LinkManager \<times> transport \<times> 'w \<Rightarrow> LinkManager \<times> transport \<times> 'w" where
  "on_connection_events E evs s = (let (l, t, w) = s in FlushLinkFrames E (on_events (ne_control E) evs l, t, w))"

text \<open>The frame handler; data frames go to the role.\<close>

definition on_frame :: "'w node_env \<Rightarrow> (RawFrame \<Rightarrow> 'h node \<times> 'w \<Rightarrow> 'h node \<times> 'w) \<Rightarrow> RawFrame \<Rightarrow> 'h node \<times> 'w \<Rightarrow> 'h node \<times> 'w" where
  "on_frame E handle_data f s = (let (N, w) = s in
     case nd_links N of
       None \<Rightarrow> (N, w)
     | Some l \<Rightarrow>
         if kind (frame_header f) = FK_control
         then (let l1 = snd (OnFrame (ne_control E) f l) in
               case nd_transport N of
                 None \<Rightarrow> (N\<lparr>nd_links := Some l1\<rparr>, w)
               | Some t \<Rightarrow> (let (l2, t2, w2) = FlushLinkFrames E (l1, t, w)
                   in (N\<lparr>nd_links := Some l2, nd_transport := Some t2\<rparr>, w2)))
         else if kind (frame_header f) = FK_data then handle_data f (N, w)
         else (N\<lparr>nd_links := Some (snd (OnFrame (ne_control E) f l))\<rparr>, w))"

section \<open>Discovery\<close>

definition with_discovery :: "(EtcdDiscovery \<times> 'w \<Rightarrow> result \<times> EtcdDiscovery \<times> 'w) \<Rightarrow> 'h node \<times> 'w \<Rightarrow> result \<times> 'h node \<times> 'w" where
  "with_discovery f s = (let (N, w) = s; (r, d, w') = f (nd_discovery N, w) in (r, N\<lparr>nd_discovery := d\<rparr>, w'))"

definition note_result :: "result \<times> 'h node \<times> 'w \<Rightarrow> result \<times> 'h node \<times> 'w" where
  "note_result rs = (let (r, N, w) = rs in
     if \<not> ok r then (r, N\<lparr>nd_last_error := message r\<rparr>, w) else (Success, N\<lparr>nd_last_error := []\<rparr>, w))"

definition RefreshDiscovery :: "'w node_env \<Rightarrow> 'h node \<times> 'w \<Rightarrow> result \<times> 'h node \<times> 'w" where
  "RefreshDiscovery E s = note_result (with_discovery (RefreshSnapshot (ne_backend E) (ne_json E)) s)"

definition node_KeepAliveOnce :: "'w node_env \<Rightarrow> 'h node \<times> 'w \<Rightarrow> result \<times> 'h node \<times> 'w" where
  "node_KeepAliveOnce E s = note_result (with_discovery (ed_KeepAliveOnce (ne_backend E)) s)"

definition node_StartWatch :: "'w node_env \<Rightarrow> 'h node \<times> 'w \<Rightarrow> result \<times> 'h node \<times> 'w" where
  "node_StartWatch E s = (let (N, w) = s;
     (r, th, d, w') = StartWatch (ne_backend E) (ne_json E) (nd_watch_thread N) (nd_discovery N, w)
     in (r, N\<lparr>nd_watch_thread := th, nd_discovery := d\<rparr>, w'))"

definition node_StopWatch :: "'w node_env \<Rightarrow> 'h node \<times> 'w \<Rightarrow> 'h node \<times> 'w" where
  "node_StopWatch E s = (let (N, w) = s; (d, w') = ed_StopWatch (ne_backend E) (nd_discovery N, w)
     in (N\<lparr>nd_watch_thread := False, nd_discovery := d\<rparr>, w'))"

definition DrainMembershipEvents :: "'h node \<Rightarrow> MembershipEvent list \<times> 'h node" where
  "DrainMembershipEvents N = (let (es, d) = ed_DrainEvents (nd_discovery N) in (es, N\<lparr>nd_discovery := d\<rparr>))"

definition HandleDiscoveryFailureLocked :: "('h node \<Rightarrow> 'h node) \<Rightarrow> string \<Rightarrow> 'h node \<Rightarrow> 'h node" where
  "HandleDiscoveryFailureLocked extra msg N =
     extra (N\<lparr>nd_registered := False, nd_ipc_ready := False, nd_last_error := msg\<rparr>)"

text \<open>The game and the relay both forget their connection attempts when discovery fails.\<close>

definition clear_attempts :: "'h node \<Rightarrow> 'h node" where
  "clear_attempts N = N\<lparr>auto_connect_attempts := []\<rparr>"

section \<open>Auto-connect\<close>

definition FindDiscoveredMemberLocked :: "'h node \<Rightarrow> ServiceType \<Rightarrow> InstanceId \<Rightarrow> bool \<Rightarrow> ProcessDescriptor option" where
  "FindDiscoveredMemberLocked N ty inst exclude_self = find (\<lambda>m.
     \<not> (service_type (process_id (process m)) \<noteq> ty \<or> instance_id (process_id (process m)) \<noteq> inst) \<and>
     \<not> (exclude_self \<and> (case nd_self N of None \<Rightarrow> False | Some s \<Rightarrow> process m = process s))) (Members N)"

definition ConnectDiscoveredMemberLocked :: "'w node_env \<Rightarrow> ProcessDescriptor \<Rightarrow> 'h node \<times> 'w \<Rightarrow> result \<times> 'h node \<times> 'w" where
  "ConnectDiscoveredMemberLocked E m s = (let (N, w) = s in
     case nd_transport N of
       None \<Rightarrow> (Failure ''transport is not initialized'', N, w)
     | Some t \<Rightarrow>
         let (r, evs, t1, w1) = Connect (ne_sockets E) (listen_endpoint m) (t, w) in
         case nd_links N of
           None \<Rightarrow> (r, N\<lparr>nd_transport := Some t1\<rparr>, w1)
         | Some l \<Rightarrow>
             if evs = [] then (r, N\<lparr>nd_transport := Some t1\<rparr>, w1)
             else let (l2, t2, w2) = on_connection_events E evs (l, t1, w1)
                  in (r, N\<lparr>nd_transport := Some t2, nd_links := Some l2\<rparr>, w2))"

definition RecordAutoConnectFailureLocked :: "ProcessDescriptor \<Rightarrow> result \<Rightarrow> 'h node \<Rightarrow> 'h node" where
  "RecordAutoConnectFailureLocked m r N = N\<lparr>auto_connect_failure_count := auto_connect_failure_count N + 1,
     last_auto_connect_failure_target := Some (process m), last_auto_connect_failure_reason := message r,
     nd_last_error := message r\<rparr>"

definition RecordAutoConnectSuccessLocked :: "ProcessDescriptor \<Rightarrow> 'h node \<Rightarrow> 'h node" where
  "RecordAutoConnectSuccessLocked m N = N\<lparr>auto_connect_attempts := List.insert (key_of m) (auto_connect_attempts N),
     auto_connect_success_count := auto_connect_success_count N + 1, last_auto_connect_target := Some (process m),
     last_auto_connect_failure_target := None, last_auto_connect_failure_reason := []\<rparr>"

text \<open>
  \<^verbatim>\<open>TryAutoConnectMember\<close> of the roles, which differ only in the rule for the target.
\<close>

definition TryAutoConnectMember :: "'w node_env \<Rightarrow> ('h node \<Rightarrow> ProcessRef \<Rightarrow> LinkManager \<Rightarrow> ProcessDescriptor \<Rightarrow> bool)
    \<Rightarrow> ProcessDescriptor \<Rightarrow> 'h node \<times> 'w \<Rightarrow> 'h node \<times> 'w" where
  "TryAutoConnectMember E should m s = (let (N, w) = s in
     case (nd_self N, nd_transport N, nd_links N) of
       (Some self, Some t, Some l) \<Rightarrow>
         if \<not> IsIpcActiveLocked N then (N, w)
         else if \<not> should N (process self) l m then (N, w)
         else if key_of m \<in> set (auto_connect_attempts N) then (N, w)
         else let (r, N1, w1) = ConnectDiscoveredMemberLocked E m (N, w) in
         if \<not> ok r then (RecordAutoConnectFailureLocked m r N1, w1)
         else (RecordAutoConnectSuccessLocked m N1, w1)
     | _ \<Rightarrow> (N, w))"

definition kRelayServiceType :: ServiceType where "kRelayServiceType = 99"
definition kGameServiceType :: ServiceType where "kGameServiceType = 10"

definition game_should_connect :: "'h node \<Rightarrow> ProcessRef \<Rightarrow> LinkManager \<Rightarrow> ProcessDescriptor \<Rightarrow> bool" where
  "game_should_connect N self l m =
     ShouldGameAutoConnectTarget self m kRelayServiceType (HasHealthyLinkOfServiceType (GetHealthyLinks l) kRelayServiceType)"

definition relay_should_connect :: "'h node \<Rightarrow> ProcessRef \<Rightarrow> LinkManager \<Rightarrow> ProcessDescriptor \<Rightarrow> bool" where
  "relay_should_connect N self l m =
     ShouldRelayAutoConnectTarget self m kGameServiceType (HasHealthyDirectLink l (process m))"

fun try_members :: "'w node_env \<Rightarrow> ('h node \<Rightarrow> ProcessRef \<Rightarrow> LinkManager \<Rightarrow> ProcessDescriptor \<Rightarrow> bool)
    \<Rightarrow> ProcessDescriptor list \<Rightarrow> 'h node \<times> 'w \<Rightarrow> 'h node \<times> 'w" where
  "try_members E should [] s = s"
| "try_members E should (m # ms) s = try_members E should ms (TryAutoConnectMember E should m s)"

definition ReconcileAutoConnectMembers :: "'w node_env \<Rightarrow> ('h node \<Rightarrow> ProcessRef \<Rightarrow> LinkManager \<Rightarrow> ProcessDescriptor \<Rightarrow> bool)
    \<Rightarrow> 'h node \<times> 'w \<Rightarrow> 'h node \<times> 'w" where
  "ReconcileAutoConnectMembers E should s = try_members E should (Members (fst s)) s"

definition HandleMembershipEvent :: "'w node_env \<Rightarrow> ('h node \<Rightarrow> ProcessRef \<Rightarrow> LinkManager \<Rightarrow> ProcessDescriptor \<Rightarrow> bool)
    \<Rightarrow> MembershipEvent \<Rightarrow> 'h node \<times> 'w \<Rightarrow> 'h node \<times> 'w" where
  "HandleMembershipEvent E should e s =
     (if me_type e = me_removed
      then (let (N, w) = s in (N\<lparr>auto_connect_attempts := removeAll (key_of (me_process e)) (auto_connect_attempts N)\<rparr>, w))
      else TryAutoConnectMember E should (me_process e) s)"

definition game_ShouldRefresh :: "'h node \<Rightarrow> bool" where
  "game_ShouldRefresh N = ShouldGameReconcile (HasMemberOfServiceType (Members N) kRelayServiceType)
     (HasHealthyLinkOfServiceType (HealthyLinks N) kRelayServiceType)"

text \<open>One round of the auto-connect loop after its wait.\<close>

definition AutoConnect_round :: "'w node_env \<Rightarrow> ('h node \<Rightarrow> ProcessRef \<Rightarrow> LinkManager \<Rightarrow> ProcessDescriptor \<Rightarrow> bool)
    \<Rightarrow> ('h node \<Rightarrow> bool) \<Rightarrow> 'h node \<times> 'w \<Rightarrow> 'h node \<times> 'w" where
  "AutoConnect_round E should should_refresh s = (let (N, w) = s in
     if nd_stop_auto_connect N then (N, w)
     else let needs_reconcile = should_refresh N;
              (es, N1) = DrainMembershipEvents N;
              s2 = foldl (\<lambda>s e. HandleMembershipEvent E should e s) (N1, w) es in
     if \<not> needs_reconcile then s2
     else let (r, s3) = RefreshDiscovery E s2 in
     if \<not> ok r then s3 else ReconcileAutoConnectMembers E should s3)"

section \<open>Recovery\<close>

definition TryRecoverDiscovery :: "'w node_env \<Rightarrow> ('h node \<times> 'w \<Rightarrow> 'h node \<times> 'w) \<Rightarrow> 'h node \<times> 'w \<Rightarrow> result \<times> 'h node \<times> 'w" where
  "TryRecoverDiscovery E recovered s = (let (N, w) = s in
     case nd_self N of
       None \<Rightarrow> (Failure ''transport/self are not ready for discovery recovery'', N, w)
     | Some self \<Rightarrow>
         if \<not> nd_transport_ready N then (Failure ''transport/self are not ready for discovery recovery'', N, w)
         else let (r1, s1) = with_discovery (ed_RegisterSelf (ne_backend E) (ne_json E) self) s in
         if \<not> ok r1 then (r1, s1)
         else let (r2, s2) = with_discovery (RefreshSnapshot (ne_backend E) (ne_json E)) s1 in
         if \<not> ok r2 then (r2, s2)
         else let (r3, N3, w3) = node_StartWatch E s2 in
         if \<not> ok r3 then (r3, N3, w3)
         else (Success, recovered (N3\<lparr>nd_registered := True, nd_ipc_ready := True, nd_last_error := []\<rparr>, w3)))"

text \<open>One round of the keepalive loop after its wait.\<close>

definition KeepAlive_round :: "'w node_env \<Rightarrow> ('h node \<times> 'w \<Rightarrow> 'h node \<times> 'w) \<Rightarrow> ('h node \<Rightarrow> 'h node) \<Rightarrow> 'h node \<times> 'w \<Rightarrow> 'h node \<times> 'w" where
  "KeepAlive_round E recovered extra s = (let (N, w) = s in
     if nd_stop_keepalive N then (N, w)
     else if \<not> nd_registered N
     then (let (r, N1, w1) = TryRecoverDiscovery E recovered s in
           if ok r then (N1\<lparr>discovery_recovery_success_count := discovery_recovery_success_count N1 + 1\<rparr>, w1)
           else (N1\<lparr>discovery_recovery_failure_count := discovery_recovery_failure_count N1 + 1,
                    nd_last_error := message r\<rparr>, w1))
     else let (r, N1, w1) = with_discovery (ed_KeepAliveOnce (ne_backend E)) s in
     if ok r then (N1, w1)
     else (HandleDiscoveryFailureLocked extra (message r)
             (N1\<lparr>keepalive_failure_count := keepalive_failure_count N1 + 1\<rparr>), w1))"

section \<open>Lifecycle\<close>

text \<open>\<^verbatim>\<open>BuildSelfDescriptor\<close> and \<^verbatim>\<open>SetupRoleComponentsLocked\<close> of the role are arguments.\<close>

definition LoadIpcRuntime :: "ProcessDescriptor \<Rightarrow> ('h node \<Rightarrow> result \<times> 'h node) \<Rightarrow> 'h node \<Rightarrow> 'h node" where
  "LoadIpcRuntime self setup N =
     (let N1 = N\<lparr>nd_self := Some self, nd_transport := Some empty_transport,
                 nd_links := Some (LinkManager_new (process self) 1)\<rparr>;
          (r, N2) = setup N1 in
      if \<not> ok r then N2\<lparr>nd_last_error := message r\<rparr>
      else N2\<lparr>nd_messenger := True, nd_registered := False, nd_transport_ready := False, nd_ipc_ready := False,
              nd_last_error := []\<rparr>)"

definition StartKeepAliveLoop :: "'h node \<Rightarrow> 'h node" where
  "StartKeepAliveLoop N =
     (if nd_keepalive_thread N then N
      else if keepalive_interval_seconds N = 0 then N
      else N\<lparr>nd_stop_keepalive := False, nd_keepalive_thread := True\<rparr>)"

definition StopKeepAliveLoop :: "'h node \<Rightarrow> 'h node" where
  "StopKeepAliveLoop N = N\<lparr>nd_stop_keepalive := True, nd_keepalive_thread := False\<rparr>"

definition StartAutoConnectLoop :: "'h node \<Rightarrow> 'h node" where
  "StartAutoConnectLoop N =
     (if nd_auto_connect_thread N then N else N\<lparr>nd_stop_auto_connect := False, nd_auto_connect_thread := True\<rparr>)"

definition StopAutoConnectLoop :: "'h node \<Rightarrow> 'h node" where
  "StopAutoConnectLoop N = N\<lparr>nd_stop_auto_connect := True, nd_auto_connect_thread := False\<rparr>"

definition StartIpcRuntime :: "'w node_env \<Rightarrow> 'h node \<times> 'w \<Rightarrow> 'h node \<times> 'w" where
  "StartIpcRuntime E s = (let (N, w) = s in
     case nd_self N of
       None \<Rightarrow> (N\<lparr>nd_last_error := ''self descriptor is not initialized''\<rparr>, w)
     | Some self \<Rightarrow> (case (nd_transport N, nd_links N) of
         (Some t, Some _) \<Rightarrow>
           let (listened, t1, w1) = Listen (ne_sockets E) (listen_endpoint self) (t, w);
               N1 = N\<lparr>nd_transport := Some t1\<rparr> in
           if \<not> ok listened then (N1\<lparr>nd_last_error := message listened\<rparr>, w1)
           else let (reg, N2, w2) = with_discovery (ed_RegisterSelf (ne_backend E) (ne_json E) self)
                      (N1\<lparr>nd_transport_ready := True\<rparr>, w1) in
           if \<not> ok reg
           then (N2\<lparr>nd_registered := False, nd_ipc_ready := False, nd_last_error := message reg\<rparr>, w2)
           else let (ref, N3, w3) = with_discovery (RefreshSnapshot (ne_backend E) (ne_json E))
                      (N2\<lparr>nd_registered := True, nd_ipc_ready := True, nd_last_error := []\<rparr>, w2);
                    N4 = (if ok ref then N3 else N3\<lparr>nd_last_error := message ref\<rparr>);
                    (wat, N5, w5) = node_StartWatch E (N4, w3);
                    N6 = (if ok wat then N5 else N5\<lparr>nd_last_error := message wat\<rparr>)
                in (StartKeepAliveLoop N6, w5)
       | _ \<Rightarrow> (N\<lparr>nd_last_error := ''transport/link are not initialized''\<rparr>, w)))"

definition StopIpcRuntime :: "'w node_env \<Rightarrow> 'h node \<times> 'w \<Rightarrow> 'h node \<times> 'w" where
  "StopIpcRuntime E s = (let (N, w) = s; (N1, w1) = node_StopWatch E (StopAutoConnectLoop N, w);
     N2 = StopKeepAliveLoop N1;
     (N3, w3) = (case nd_self N2 of
         Some self \<Rightarrow>
           if nd_registered N2
           then (let (r, N', w') = with_discovery (ed_Remove (ne_backend E) (process_id (process self))) (N2, w1)
                 in (if ok r then N' else N'\<lparr>nd_last_error := message r\<rparr>, w'))
           else (N2, w1)
       | None \<Rightarrow> (N2, w1))
     in (N3\<lparr>nd_registered := False, nd_ipc_ready := False\<rparr>, w3))"

definition UnloadIpcRuntime :: "'w node_env \<Rightarrow> ('h node \<Rightarrow> 'h node) \<Rightarrow> 'h node \<times> 'w \<Rightarrow> 'h node \<times> 'w" where
  "UnloadIpcRuntime E teardown s = (let (N, w) = s;
     (N1, w1) = node_StopWatch E (StopKeepAliveLoop (StopAutoConnectLoop N), w);
     N2 = teardown N1
     in (N2\<lparr>nd_messenger := False, nd_hosts := registry_Clear (nd_hosts N2), nd_directory := Clear (nd_directory N2),
          nd_urls := [], nd_links := None, nd_transport := None, nd_self := None, nd_transport_ready := False,
          nd_ipc_ready := False, nd_registered := False, auto_connect_attempts := [], auto_connect_success_count := 0,
          auto_connect_failure_count := 0, last_auto_connect_target := None, last_auto_connect_failure_target := None,
          last_auto_connect_failure_reason := []\<rparr>,
         case nd_transport N2 of None \<Rightarrow> w1 | Some t \<Rightarrow> snd (Shutdown (ne_sockets E) (t, w1))))"

section \<open>The relay\<close>

record relay_counters =
  mForwardedDataFrameCount :: u64
  mForwardFailureCount :: u64
  mLastForwardFailureReason :: string

definition RecordForwardFailureLocked :: "string \<Rightarrow> relay_counters \<times> 'h node \<Rightarrow> relay_counters \<times> 'h node" where
  "RecordForwardFailureLocked reason s = (let (c, N) = s in
     (c\<lparr>mForwardFailureCount := mForwardFailureCount c + 1, mLastForwardFailureReason := reason\<rparr>,
      N\<lparr>nd_last_error := reason\<rparr>))"

definition relay_BuildSelfDescriptor :: "ServiceType \<Rightarrow> InstanceId \<Rightarrow> Endpoint \<Rightarrow> ProcessDescriptor" where
  "relay_BuildSelfDescriptor ty inst listen =
     \<lparr>process = \<lparr>process_id = mk_process_id ty inst, incarnation_id = 1\<rparr>, service_name = ''relay'', listen_endpoint = listen,
      protocol_version = 1, start_time_unix_ms = 0, labels = [(''role'', ''relay'')], relay_capabilities = [ty]\<rparr>"

definition relay_SetupRoleComponents :: "proto_message \<Rightarrow> 'h node \<Rightarrow> result \<times> 'h node" where
  "relay_SetupRoleComponents sample N = (let (r, urls) = payload_Register sample (nd_urls N) in (r, N\<lparr>nd_urls := urls\<rparr>))"

definition relay_ConnectToMember :: "'w node_env \<Rightarrow> ServiceType \<Rightarrow> InstanceId \<Rightarrow> 'h node \<times> 'w \<Rightarrow> result \<times> 'h node \<times> 'w" where
  "relay_ConnectToMember E ty inst s = (case FindDiscoveredMemberLocked (fst s) ty inst True of
      None \<Rightarrow> (Failure ''target member not found in discovery snapshot'', s)
    | Some m \<Rightarrow> ConnectDiscoveredMemberLocked E m s)"

section \<open>The runtime flags\<close>

text \<open>
  The two activity flags agree, an active node has a transport that is ready, and a transport that is ready
  really listens, at the endpoint that the node's own descriptor tells its peers.
\<close>

definition listening :: "transport \<Rightarrow> Endpoint option" where
  "listening t = (if mListening t then Some (mListeningEndpoint t) else None)"

definition listening_at :: "'h node \<Rightarrow> Endpoint option" where
  "listening_at N = (case nd_transport N of None \<Rightarrow> None | Some t \<Rightarrow> listening t)"

definition node_inv :: "'h node \<Rightarrow> bool" where
  "node_inv N \<longleftrightarrow> (nd_registered N \<longleftrightarrow> nd_ipc_ready N) \<and> (nd_registered N \<longrightarrow> nd_transport_ready N) \<and>
     (nd_transport_ready N \<longrightarrow> (\<exists>self. nd_self N = Some self \<and> listening_at N = Some (listen_endpoint self)))"

text \<open>The fields of a node that the invariant is about, and its receiver hosts.\<close>

definition node_flag_bits :: "'h node \<Rightarrow> bool \<times> bool \<times> bool \<times> ProcessDescriptor option \<times> Endpoint option \<times> 'h option list" where
  "node_flag_bits N = (nd_registered N, nd_ipc_ready N, nd_transport_ready N, nd_self N, listening_at N, nd_hosts N)"

lemma node_inv_flags: "node_flag_bits N' = node_flag_bits N \<Longrightarrow> node_inv N \<Longrightarrow> node_inv N'"
  by (simp add: node_flag_bits_def node_inv_def)

lemma Send_listening: "Send K f (t, w) = (r, evs, t', w') \<Longrightarrow> listening t' = listening t"
  by (auto simp: Send_def HandleDisconnect_def listening_def Let_def split: option.splits prod.splits if_splits)

lemma Connect_listening: "Connect K e (t, w) = (r, evs, t', w') \<Longrightarrow> listening t' = listening t"
  by (auto simp: Connect_def AddConnection_def listening_def Let_def split: option.splits prod.splits if_splits)

lemma Listen_listening:
  "Listen K e (t, w) = (r, t', w') \<Longrightarrow> (ok r \<longrightarrow> listening t' = Some e) \<and> (\<not> ok r \<longrightarrow> t' = t)"
  by (auto simp: Listen_def listening_def Let_def split: prod.splits if_splits)

lemma send_frames_listening: "send_frames E fs (l, t, w) = (l', t', w') \<Longrightarrow> listening t' = listening t"
proof (induction fs arbitrary: l t w)
  case (Cons f fs)
  obtain r evs t1 w1 where s: "Send (ne_sockets E) f (t, w) = (r, evs, t1, w1)" by (rule prod_cases4)
  then show ?case using Cons Send_listening [OF s] by simp
qed simp

lemma FlushLinkFrames_listening: "FlushLinkFrames E (l, t, w) = (l', t', w') \<Longrightarrow> listening t' = listening t"
  by (auto simp: FlushLinkFrames_def dest: send_frames_listening split: prod.splits)

lemma on_connection_events_listening: "on_connection_events E evs (l, t, w) = (l', t', w') \<Longrightarrow> listening t' = listening t"
  by (auto simp: on_connection_events_def dest: FlushLinkFrames_listening)

named_theorems node_flags \<open>operations that keep the flags\<close>

lemma with_discovery_flags [node_flags]: "with_discovery f (N, w) = (r, N', w') \<Longrightarrow> node_flag_bits N' = node_flag_bits N"
  by (auto simp: with_discovery_def node_flag_bits_def listening_at_def split: prod.splits)

lemma node_StartWatch_flags [node_flags]: "node_StartWatch E (N, w) = (r, N', w') \<Longrightarrow> node_flag_bits N' = node_flag_bits N"
  by (auto simp: node_StartWatch_def node_flag_bits_def listening_at_def split: prod.splits)

lemma Connect_flags [node_flags]: "ConnectDiscoveredMemberLocked E m (N, w) = (r, N', w') \<Longrightarrow> node_flag_bits N' = node_flag_bits N"
  by (auto simp: ConnectDiscoveredMemberLocked_def node_flag_bits_def listening_at_def Let_def
      split: prod.splits option.splits if_splits dest!: Connect_listening on_connection_events_listening)

lemma TryAutoConnectMember_flags [node_flags]: "TryAutoConnectMember E should m (N, w) = (N', w') \<Longrightarrow> node_flag_bits N' = node_flag_bits N"
  by (auto simp: TryAutoConnectMember_def RecordAutoConnectFailureLocked_def RecordAutoConnectSuccessLocked_def Let_def
      split: prod.splits option.splits if_splits)
    (auto simp: node_flag_bits_def listening_at_def dest!: Connect_flags)

lemma try_members_flags: "try_members E should ms (N, w) = (N', w') \<Longrightarrow> node_flag_bits N' = node_flag_bits N"
proof (induction ms arbitrary: N w)
  case (Cons m ms)
  obtain N1 w1 where t: "TryAutoConnectMember E should m (N, w) = (N1, w1)"
    by (cases "TryAutoConnectMember E should m (N, w)")
  then show ?case using Cons TryAutoConnectMember_flags [OF t] by auto
qed auto

lemma Reconcile_flags: "ReconcileAutoConnectMembers E should (N, w) = (N', w') \<Longrightarrow> node_flag_bits N' = node_flag_bits N"
  by (simp add: ReconcileAutoConnectMembers_def try_members_flags)

definition game_recovered :: "'w node_env \<Rightarrow> 'h node \<times> 'w \<Rightarrow> 'h node \<times> 'w" where
  "game_recovered E = ReconcileAutoConnectMembers E game_should_connect"

definition relay_recovered :: "'w node_env \<Rightarrow> 'h node \<times> 'w \<Rightarrow> 'h node \<times> 'w" where
  "relay_recovered E = ReconcileAutoConnectMembers E relay_should_connect"

lemma LoadIpcRuntime_inv:
  assumes "ok (fst (setup N1))"
    and "N1 = N\<lparr>nd_self := Some self, nd_transport := Some empty_transport, nd_links := Some (LinkManager_new (process self) 1)\<rparr>"
  shows "node_inv (LoadIpcRuntime self setup N)"
proof -
  obtain r N2 where st: "setup N1 = (r, N2)" by (cases "setup N1")
  with assms(1) have "ok r" by simp
  then show ?thesis using st unfolding assms(2) by (simp add: LoadIpcRuntime_def node_inv_def)
qed

lemma StartKeepAliveLoop_flags [simp]: "node_flag_bits (StartKeepAliveLoop N) = node_flag_bits N"
  by (simp add: StartKeepAliveLoop_def node_flag_bits_def listening_at_def)

lemma node_flag_bits_error [simp]: "node_flag_bits (N\<lparr>nd_last_error := e\<rparr>) = node_flag_bits N"
  by (simp add: node_flag_bits_def listening_at_def)

lemma node_inv_bits: "node_flag_bits N = (b, b, t, s, l, hs) \<Longrightarrow> (b \<longrightarrow> t) \<Longrightarrow> (t \<longrightarrow> (\<exists>self. s = Some self \<and> l = Some (listen_endpoint self))) \<Longrightarrow> node_inv N"
  by (simp add: node_flag_bits_def node_inv_def)

lemma StartIpcRuntime_inv:
  assumes "node_inv N" and "StartIpcRuntime E (N, w) = (N', w')"
  shows "node_inv N' \<and> nd_self N' = nd_self N \<and> nd_hosts N' = nd_hosts N"
proof (cases "\<exists>self t l. nd_self N = Some self \<and> nd_transport N = Some t \<and> nd_links N = Some l")
  case False
  then have "node_flag_bits N' = node_flag_bits N"
    using assms(2) by (auto simp: StartIpcRuntime_def split: option.splits)
  then show ?thesis using assms(1) node_inv_flags by (auto simp: node_flag_bits_def)
next
  case True
  then obtain self t l where here: "nd_self N = Some self" "nd_transport N = Some t" "nd_links N = Some l" by blast
  obtain li t1 w1 where li: "Listen (ne_sockets E) (listen_endpoint self) (t, w) = (li, t1, w1)" by (rule prod_cases3)
  let ?N1 = "N\<lparr>nd_transport := Some t1\<rparr>"
  show ?thesis
  proof (cases "ok li")
    case False
    then have "t1 = t" and N': "N' = ?N1\<lparr>nd_last_error := message li\<rparr>"
      using Listen_listening [OF li] assms(2) here li by (auto simp: StartIpcRuntime_def)
    then have "node_flag_bits N' = node_flag_bits N" using here by (simp add: node_flag_bits_def listening_at_def)
    then show ?thesis using assms(1) node_inv_flags by (auto simp: node_flag_bits_def)
  next
    case True
    have at: "listening_at ?N1 = Some (listen_endpoint self)" using Listen_listening [OF li] True by (simp add: listening_at_def)
    obtain reg N2 w2 where reg: "with_discovery (ed_RegisterSelf (ne_backend E) (ne_json E) self) (?N1\<lparr>nd_transport_ready := True\<rparr>, w1) = (reg, N2, w2)"
      by (rule prod_cases3)
    have bits2: "node_flag_bits N2 = (nd_registered N, nd_ipc_ready N, True, Some self, Some (listen_endpoint self), nd_hosts N)"
      using with_discovery_flags [OF reg] at here by (simp add: node_flag_bits_def listening_at_def)
    note run = assms(2) [unfolded StartIpcRuntime_def Let_def prod.case here option.case li reg]
    show ?thesis
    proof (cases "ok reg")
      case False
      then have "N' = N2\<lparr>nd_registered := False, nd_ipc_ready := False, nd_last_error := message reg\<rparr>" using run True by simp
      then have "node_flag_bits N' = (False, False, True, Some self, Some (listen_endpoint self), nd_hosts N)"
        using bits2 by (simp add: node_flag_bits_def listening_at_def)
      then show ?thesis using here by (intro conjI node_inv_bits) (auto simp: node_flag_bits_def)
    next
      case ok: True
      let ?M = "N2\<lparr>nd_registered := True, nd_ipc_ready := True, nd_last_error := []\<rparr>"
      have bitsM: "node_flag_bits ?M = (True, True, True, Some self, Some (listen_endpoint self), nd_hosts N)"
        using bits2 by (simp add: node_flag_bits_def listening_at_def)
      obtain ref N3 w3 where ref: "with_discovery (RefreshSnapshot (ne_backend E) (ne_json E)) (?M, w2) = (ref, N3, w3)" by (rule prod_cases3)
      let ?N4 = "if ok ref then N3 else N3\<lparr>nd_last_error := message ref\<rparr>"
      obtain wat N5 w5 where wat: "node_StartWatch E (?N4, w3) = (wat, N5, w5)" by (rule prod_cases3)
      have "N' = StartKeepAliveLoop (if ok wat then N5 else N5\<lparr>nd_last_error := message wat\<rparr>)"
        using run [unfolded ref prod.case wat] True ok by simp
      then have "node_flag_bits N' = (True, True, True, Some self, Some (listen_endpoint self), nd_hosts N)"
        using with_discovery_flags [OF ref] node_StartWatch_flags [OF wat] bitsM by simp
      then show ?thesis using here by (intro conjI node_inv_bits) (auto simp: node_flag_bits_def)
    qed
  qed
qed

text \<open>The steps of a stop that are about the background loops and discovery keep the flags.\<close>

lemma StopLoops_flags [simp]:
  "node_flag_bits (StopAutoConnectLoop N) = node_flag_bits N" "node_flag_bits (StopKeepAliveLoop N) = node_flag_bits N"
  by (simp_all add: StopAutoConnectLoop_def StopKeepAliveLoop_def node_flag_bits_def listening_at_def)

lemma node_StopWatch_flags: "node_StopWatch E (N, w) = (N', w') \<Longrightarrow> node_flag_bits N' = node_flag_bits N"
  by (auto simp: node_StopWatch_def node_flag_bits_def listening_at_def split: prod.splits)

lemma StopIpcRuntime_inv:
  assumes "StopIpcRuntime E (N, w) = (N', w')"
  shows "(node_inv N \<longrightarrow> node_inv N') \<and> \<not> IsIpcActiveLocked N' \<and> nd_self N' = nd_self N \<and> nd_hosts N' = nd_hosts N"
proof -
  obtain N1 w1 where s: "node_StopWatch E (StopAutoConnectLoop N, w) = (N1, w1)" by (cases "node_StopWatch E (StopAutoConnectLoop N, w)")
  let ?N2 = "StopKeepAliveLoop N1"
  obtain N3 w3 where N3: "(case nd_self ?N2 of
         Some self \<Rightarrow>
           if nd_registered ?N2
           then (case with_discovery (ed_Remove (ne_backend E) (process_id (process self))) (?N2, w1) of
                 (r, N', w') \<Rightarrow> (if ok r then N' else N'\<lparr>nd_last_error := message r\<rparr>, w'))
           else (?N2, w1)
       | None \<Rightarrow> (?N2, w1)) = (N3, w3)" by (rule prod.exhaust)
  have "node_flag_bits N3 = node_flag_bits ?N2"
    using N3 by (auto split: option.splits if_splits prod.splits dest!: with_discovery_flags)
  then have bits: "node_flag_bits N3 = node_flag_bits N" using node_StopWatch_flags [OF s] by simp
  have N': "N' = N3\<lparr>nd_registered := False, nd_ipc_ready := False\<rparr>"
    using assms unfolding StopIpcRuntime_def Let_def prod.case s N3 by simp
  show ?thesis using bits by (auto simp: N' node_inv_def node_flag_bits_def listening_at_def IsIpcActiveLocked_def)
qed

lemma UnloadIpcRuntime_inv:
  assumes "UnloadIpcRuntime E teardown (N, w) = (N', w')"
  shows "node_inv N' \<and> \<not> IsIpcActiveLocked N' \<and> nd_self N' = None \<and> set (nd_hosts N') \<subseteq> {None}"
  using assms by (auto simp: UnloadIpcRuntime_def node_inv_def IsIpcActiveLocked_def registry_Clear_def Let_def split: prod.splits)

lemma TryRecoverDiscovery_ok:
  assumes "TryRecoverDiscovery E recovered (N, w) = (r, N', w')"
    and "\<And>N w N' w'. recovered (N, w) = (N', w') \<Longrightarrow> node_flag_bits N' = node_flag_bits N"
  shows "(ok r \<longrightarrow> nd_transport_ready N \<and> node_flag_bits N' = (True, True, True, nd_self N, listening_at N, nd_hosts N)) \<and>
     (\<not> ok r \<longrightarrow> node_flag_bits N' = node_flag_bits N)"
proof (cases "nd_self N \<noteq> None \<and> nd_transport_ready N")
  case False
  then show ?thesis using assms(1) by (auto simp: TryRecoverDiscovery_def split: if_splits option.splits)
next
  case True
  then obtain self where self: "nd_self N = Some self" and ready: "nd_transport_ready N" by blast
  obtain r1 N1 w1 where 1: "with_discovery (ed_RegisterSelf (ne_backend E) (ne_json E) self) (N, w) = (r1, N1, w1)" by (rule prod_cases3)
  obtain r2 N2 w2 where 2: "with_discovery (RefreshSnapshot (ne_backend E) (ne_json E)) (N1, w1) = (r2, N2, w2)" by (rule prod_cases3)
  obtain r3 N3 w3 where 3: "node_StartWatch E (N2, w2) = (r3, N3, w3)" by (rule prod_cases3)
  let ?M = "N3\<lparr>nd_registered := True, nd_ipc_ready := True, nd_last_error := []\<rparr>"
  obtain N4 w4 where 4: "recovered (?M, w3) = (N4, w4)" by (cases "recovered (?M, w3)")
  have run: "(if \<not> ok r1 then (r1, N1, w1) else if \<not> ok r2 then (r2, N2, w2) else if \<not> ok r3 then (r3, N3, w3)
      else (Success, N4, w4)) = (r, N', w')"
    using assms(1) self ready 1 2 3 4 by (simp add: TryRecoverDiscovery_def split: if_splits)
  have bits: "node_flag_bits N1 = node_flag_bits N" "node_flag_bits N2 = node_flag_bits N" "node_flag_bits N3 = node_flag_bits N"
    using with_discovery_flags [OF 1] with_discovery_flags [OF 2] node_StartWatch_flags [OF 3] by simp_all
  have "node_flag_bits N4 = (True, True, True, nd_self N, listening_at N, nd_hosts N)"
    using assms(2) [OF 4] bits(3) ready by (simp add: node_flag_bits_def listening_at_def)
  then show ?thesis using run bits ready by (auto split: if_splits)
qed

lemma HandleDiscoveryFailure_inv:
  "node_inv N \<Longrightarrow> node_inv (HandleDiscoveryFailureLocked clear_attempts why N)"
  by (simp add: HandleDiscoveryFailureLocked_def clear_attempts_def node_inv_def listening_at_def)

text \<open>A keepalive round keeps the invariant, whatever the backend answers.\<close>

lemma KeepAlive_round_inv:
  assumes "node_inv N" and "KeepAlive_round E recovered clear_attempts (N, w) = (N', w')"
    and "\<And>N w N' w'. recovered (N, w) = (N', w') \<Longrightarrow> node_flag_bits N' = node_flag_bits N"
  shows "node_inv N'"
proof -
  consider (stop) "nd_stop_keepalive N" | (recover) "\<not> nd_stop_keepalive N" "\<not> nd_registered N"
    | (keep) "\<not> nd_stop_keepalive N" "nd_registered N" by blast
  then show ?thesis
  proof cases
    case stop
    then show ?thesis using assms(1,2) by (simp add: KeepAlive_round_def)
  next
    case recover
    obtain r N1 w1 where t: "TryRecoverDiscovery E recovered (N, w) = (r, N1, w1)" by (rule prod_cases3)
    have ok: "(ok r \<longrightarrow> nd_transport_ready N \<and> node_flag_bits N1 = (True, True, True, nd_self N, listening_at N, nd_hosts N)) \<and>
       (\<not> ok r \<longrightarrow> node_flag_bits N1 = node_flag_bits N)"
      by (rule TryRecoverDiscovery_ok [OF t]) (rule assms(3))
    have "node_flag_bits N' = node_flag_bits N1"
      using assms(2) recover t by (auto simp: KeepAlive_round_def node_flag_bits_def listening_at_def split: if_splits)
    moreover have "node_inv N1"
    proof (cases "ok r")
      case True
      then have "node_flag_bits N1 = (True, True, True, nd_self N, listening_at N, nd_hosts N)" and "nd_transport_ready N"
        using ok by blast+
      then show ?thesis using assms(1) by (intro node_inv_bits) (auto simp: node_inv_def)
    next
      case False
      then show ?thesis using ok assms(1) node_inv_flags by blast
    qed
    ultimately show ?thesis by (rule node_inv_flags)
  next
    case keep
    obtain r N1 w1 where k: "with_discovery (ed_KeepAliveOnce (ne_backend E)) (N, w) = (r, N1, w1)" by (rule prod_cases3)
    have "node_inv N1" using with_discovery_flags [OF k] assms(1) node_inv_flags by blast
    moreover have "node_inv (N1\<lparr>keepalive_failure_count := c\<rparr>) = node_inv N1" for c by (simp add: node_inv_def listening_at_def)
    ultimately show ?thesis
      using assms(2) keep k HandleDiscoveryFailure_inv by (auto simp: KeepAlive_round_def split: if_splits)
  qed
qed

lemma KeepAlive_round_same:
  assumes "KeepAlive_round E recovered clear_attempts (N, w) = (N', w')"
    and "\<And>N w N' w'. recovered (N, w) = (N', w') \<Longrightarrow> node_flag_bits N' = node_flag_bits N"
  shows "nd_self N' = nd_self N \<and> nd_hosts N' = nd_hosts N"
proof (cases "nd_stop_keepalive N \<or> nd_registered N")
  case True
  then show ?thesis
    using assms(1)
    by (auto simp: KeepAlive_round_def with_discovery_def HandleDiscoveryFailureLocked_def clear_attempts_def split: prod.splits if_splits)
next
  case False
  obtain r N1 w1 where t: "TryRecoverDiscovery E recovered (N, w) = (r, N1, w1)" by (rule prod_cases3)
  have "(ok r \<longrightarrow> nd_transport_ready N \<and> node_flag_bits N1 = (True, True, True, nd_self N, listening_at N, nd_hosts N)) \<and>
      (\<not> ok r \<longrightarrow> node_flag_bits N1 = node_flag_bits N)"
    by (rule TryRecoverDiscovery_ok [OF t]) (rule assms(2))
  then show ?thesis using assms(1) False t by (auto simp: KeepAlive_round_def node_flag_bits_def split: if_splits)
qed

section \<open>Outage and recovery\<close>

text \<open>
  An etcd that answers: a grant gives a lease under which a put succeeds, and a range request is answered with
  a document that the parser accepts. And one that is gone: it grants nothing, stores nothing and keeps no lease
  alive, and stays so for the rest of the round.
\<close>

definition etcd_answers :: "'w etcd_backend \<Rightarrow> json \<Rightarrow> ('w \<Rightarrow> bool) \<Rightarrow> ('w \<Rightarrow> u64 \<Rightarrow> bool) \<Rightarrow> bool" where
  "etcd_answers B J up granted \<longleftrightarrow> (\<forall>w. up w \<longrightarrow>
     (\<forall>ttl old r i w'. be_GrantLease B ttl old w = (r, i, w') \<longrightarrow> ok r \<and> up w' \<and> granted w' i) \<and>
     (\<forall>k v i r w'. be_Put B k v i w = (r, w') \<longrightarrow> up w' \<and> (granted w i \<longrightarrow> ok r)) \<and>
     (\<forall>p out r out' w'. be_GetPrefix B p out w = (r, out', w') \<longrightarrow> ok r \<and> up w' \<and> ok (fst (ParseSnapshot J out' []))))"

definition etcd_gone :: "'w etcd_backend \<Rightarrow> ('w \<Rightarrow> bool) \<Rightarrow> bool" where
  "etcd_gone B down \<longleftrightarrow> (\<forall>w. down w \<longrightarrow>
     (\<forall>ttl old r i w'. be_GrantLease B ttl old w = (r, i, w') \<longrightarrow> \<not> ok r) \<and>
     (\<forall>k v i r w'. be_Put B k v i w = (r, w') \<longrightarrow> \<not> ok r \<and> down w') \<and>
     (\<forall>i r w'. be_KeepAliveOnce B i w = (r, w') \<longrightarrow> \<not> ok r))"

lemma answers_grant: "etcd_answers B J up granted \<Longrightarrow> up w \<Longrightarrow> be_GrantLease B ttl old w = (r, i, w') \<Longrightarrow> ok r \<and> up w' \<and> granted w' i"
  and answers_put: "etcd_answers B J up granted \<Longrightarrow> up w \<Longrightarrow> be_Put B k v i w = (r, w') \<Longrightarrow> up w' \<and> (granted w i \<longrightarrow> ok r)"
  and answers_range: "etcd_answers B J up granted \<Longrightarrow> up w \<Longrightarrow> be_GetPrefix B p out w = (r, out', w') \<Longrightarrow>
      ok r \<and> up w' \<and> ok (fst (ParseSnapshot J out' []))"
  unfolding etcd_answers_def by blast+

lemma gone_grant: "etcd_gone B down \<Longrightarrow> down w \<Longrightarrow> be_GrantLease B ttl old w = (r, i, w') \<Longrightarrow> \<not> ok r"
  and gone_put: "etcd_gone B down \<Longrightarrow> down w \<Longrightarrow> be_Put B k v i w = (r, w') \<Longrightarrow> \<not> ok r \<and> down w'"
  and gone_keepalive: "etcd_gone B down \<Longrightarrow> down w \<Longrightarrow> be_KeepAliveOnce B i w = (r, w') \<Longrightarrow> \<not> ok r"
  unfolding etcd_gone_def by blast+

lemma register_when_up:
  assumes "etcd_answers B J up granted" and "up w" and "0 < lease_ttl_seconds (mOptions d)"
    and "ed_RegisterSelf B J self (d, w) = (r, d', w')"
  shows "ok r \<and> up w'"
proof -
  have grant: "ok r' \<and> up v' \<and> granted v' (mLeaseId e') \<and> mOptions e' = mOptions e"
    if "GrantLease B (e, v) = (r', e', v')" "up v" for e v r' e' v'
    using that by (auto simp: GrantLease_def split: prod.splits dest: answers_grant [OF assms(1)])
  have put: "up v' \<and> e' = e \<and> (granted v (mLeaseId e) \<longrightarrow> ok r')"
    if "put_self B J self (e, v) = (r', e', v')" "up v" for e v r' e' v'
    using that by (auto simp: put_self_def split: prod.splits dest: answers_put [OF assms(1)])
  have fin: "ok r' \<and> v' = v" if "register_done q self (e, v) = (r', e', v')" "ok q" for q e v r' e' v'
    using that by (auto simp: register_done_def)
  obtain lease d1 w1 where l: "(if 0 < lease_ttl_seconds (mOptions (fst (d, w))) \<and> mLeaseId (fst (d, w)) = 0
      then GrantLease B (d, w) else (Success, d, w)) = (lease, d1, w1)" by (rule prod_cases3)
  have l': "ok lease \<and> up w1 \<and> mOptions d1 = mOptions d" using l grant [of d w] assms(2) by (auto split: if_splits)
  obtain q d2 w2 where p: "put_self B J self (d1, w1) = (q, d2, w2)" by (rule prod_cases3)
  have p': "up w2 \<and> d2 = d1" using put [OF p] l' by blast
  note run = assms(4) [unfolded ed_RegisterSelf_def l Let_def prod.case p]
  show ?thesis
  proof (cases "ok q")
    case True
    then show ?thesis using run l' p' fin [of q d2 w2 r d' w'] by auto
  next
    case False
    obtain lease2 d3 w3 where g: "GrantLease B (d2\<lparr>mLeaseId := 0\<rparr>, w2) = (lease2, d3, w3)" by (rule prod_cases3)
    have g': "ok lease2 \<and> up w3 \<and> granted w3 (mLeaseId d3)" using grant [OF g] p' by blast
    obtain q2 d4 w4 where p2: "put_self B J self (d3, w3) = (q2, d4, w4)" by (rule prod_cases3)
    have "ok q2 \<and> up w4" using put [OF p2] g' by blast
    then show ?thesis using run [unfolded g prod.case p2] False l' p' g' assms(3) fin [of q2 d4 w4 r d' w'] by auto
  qed
qed

lemma refresh_when_up:
  assumes "etcd_answers B J up granted" and "up w" and "RefreshSnapshot B J (d, w) = (r, d', w')"
  shows "ok r \<and> up w'"
proof -
  obtain get out v where g: "be_GetPrefix B (members_prefix d) [] w = (get, out, v)" by (rule prod_cases3)
  obtain q t where p: "ParseSnapshot J out [] = (q, t)" by (cases "ParseSnapshot J out []")
  show ?thesis using answers_range [OF assms(1,2) g] assms(3) g p by (auto simp: RefreshSnapshot_def)
qed

lemma register_when_gone:
  assumes "etcd_gone B down" and "down w" and "0 < lease_ttl_seconds (mOptions d)"
    and "ed_RegisterSelf B J self (d, w) = (r, d', w')"
  shows "\<not> ok r \<and> mOptions d' = mOptions d"
proof -
  have grant: "\<not> ok r' \<and> mOptions e' = mOptions e" if "GrantLease B (e, v) = (r', e', v')" "down v" for e v r' e' v'
    using that by (auto simp: GrantLease_def split: prod.splits dest: gone_grant [OF assms(1)])
  have put: "\<not> ok r' \<and> down v' \<and> e' = e" if "put_self B J self (e, v) = (r', e', v')" "down v" for e v r' e' v'
    using that by (auto simp: put_self_def split: prod.splits dest: gone_put [OF assms(1)])
  show ?thesis
  proof (cases "mLeaseId d = 0")
    case True
    obtain q e v where g: "GrantLease B (d, w) = (q, e, v)" by (rule prod_cases3)
    then have "\<not> ok q \<and> mOptions e = mOptions d" using grant assms(2) by blast
    then show ?thesis using assms(3,4) g True by (simp add: ed_RegisterSelf_def)
  next
    case False
    obtain q e v where p: "put_self B J self (d, w) = (q, e, v)" by (rule prod_cases3)
    have p': "\<not> ok q \<and> down v \<and> e = d" using put [OF p] assms(2) by blast
    obtain q2 e2 v2 where g: "GrantLease B (e\<lparr>mLeaseId := 0\<rparr>, v) = (q2, e2, v2)" by (rule prod_cases3)
    have "\<not> ok q2 \<and> mOptions e2 = mOptions d" using grant [OF g] p' by simp
    then show ?thesis using assms(3,4) p p' g False by (simp add: ed_RegisterSelf_def)
  qed
qed

text \<open>Rounds of the keepalive loop, each in the world it finds.\<close>

definition keepalive_rounds :: "'w node_env \<Rightarrow> ('h node \<times> 'w \<Rightarrow> 'h node \<times> 'w) \<Rightarrow> 'w list \<Rightarrow> 'h node \<Rightarrow> 'h node" where
  "keepalive_rounds E recovered ws N = fold (\<lambda>w N. fst (KeepAlive_round E recovered clear_attempts (N, w))) ws N"

text \<open>What a node out of service keeps until it is back.\<close>

definition recoverable :: "'h node \<Rightarrow> bool" where
  "recoverable N \<longleftrightarrow> nd_self N \<noteq> None \<and> nd_transport_ready N \<and> \<not> nd_stop_keepalive N \<and>
     0 < lease_ttl_seconds (mOptions (nd_discovery N))"

lemma round_gone_active:
  assumes "etcd_gone (ne_backend E) down" and "down w" and "recoverable N" and "nd_registered N"
    and "KeepAlive_round E recovered clear_attempts (N, w) = (N', w')"
  shows "recoverable N' \<and> \<not> nd_registered N'"
proof -
  obtain r d v where k: "ed_KeepAliveOnce (ne_backend E) (nd_discovery N, w) = (r, d, v)" by (rule prod_cases3)
  have "\<not> ok r \<and> mOptions d = mOptions (nd_discovery N)"
    using k assms(2) by (auto simp: ed_KeepAliveOnce_def split: if_splits prod.splits dest: gone_keepalive [OF assms(1)])
  then show ?thesis
    using assms(3-5) k
    by (auto simp: KeepAlive_round_def with_discovery_def HandleDiscoveryFailureLocked_def clear_attempts_def recoverable_def)
qed

lemma round_gone_inactive:
  assumes "etcd_gone (ne_backend E) down" and "down w" and "recoverable N" and "\<not> nd_registered N"
    and "KeepAlive_round E recovered clear_attempts (N, w) = (N', w')"
  shows "recoverable N' \<and> \<not> nd_registered N'"
proof -
  obtain self where self: "nd_self N = Some self" using assms(3) by (auto simp: recoverable_def)
  obtain r d v where g: "ed_RegisterSelf (ne_backend E) (ne_json E) self (nd_discovery N, w) = (r, d, v)" by (rule prod_cases3)
  have "\<not> ok r \<and> mOptions d = mOptions (nd_discovery N)"
    using register_when_gone [OF assms(1,2) _ g] assms(3) by (simp add: recoverable_def)
  then show ?thesis
    using assms(3-5) self g
    by (auto simp: KeepAlive_round_def TryRecoverDiscovery_def with_discovery_def recoverable_def)
qed

lemma rounds_gone:
  assumes "etcd_gone (ne_backend E) down" and "recoverable N" and "\<not> nd_registered N" and "\<forall>w \<in> set ws. down w"
  shows "recoverable (keepalive_rounds E recovered ws N) \<and> \<not> nd_registered (keepalive_rounds E recovered ws N)"
  using assms(2-4)
proof (induction ws arbitrary: N)
  case (Cons w ws)
  obtain N1 w1 where r: "KeepAlive_round E recovered clear_attempts (N, w) = (N1, w1)" by (rule prod.exhaust)
  have "recoverable N1 \<and> \<not> nd_registered N1" using round_gone_inactive [OF assms(1) _ Cons.prems(1,2) r] Cons.prems(3) by simp
  then show ?case using Cons.IH Cons.prems(3) r by (simp add: keepalive_rounds_def)
qed (simp add: keepalive_rounds_def)

lemma round_up:
  assumes "etcd_answers (ne_backend E) (ne_json E) up granted" and "up w" and "recoverable N" and "\<not> nd_registered N"
    and "recovered = game_recovered E \<or> recovered = relay_recovered E"
    and "KeepAlive_round E recovered clear_attempts (N, w) = (N', w')"
  shows "IsIpcActiveLocked N'"
proof -
  obtain self where self: "nd_self N = Some self" using assms(3) by (auto simp: recoverable_def)
  obtain r1 d1 w1 where g: "ed_RegisterSelf (ne_backend E) (ne_json E) self (nd_discovery N, w) = (r1, d1, w1)" by (rule prod_cases3)
  have g': "ok r1 \<and> up w1" using register_when_up [OF assms(1,2) _ g] assms(3) by (simp add: recoverable_def)
  obtain r2 d2 w2 where f: "RefreshSnapshot (ne_backend E) (ne_json E) (d1, w1) = (r2, d2, w2)" by (rule prod_cases3)
  have f': "ok r2 \<and> up w2" using refresh_when_up [OF assms(1) _ f] g' by blast
  obtain r3 th d3 w3 where s: "StartWatch (ne_backend E) (ne_json E) (nd_watch_thread N) (d2, w2) = (r3, th, d3, w3)" by (rule prod_cases4)
  have s': "ok r3"
  proof (cases "nd_watch_thread N")
    case False
    obtain q e v where q: "RefreshSnapshot (ne_backend E) (ne_json E) (d2\<lparr>mStopWatch := False\<rparr>, w2) = (q, e, v)" by (rule prod_cases3)
    have q': "ok q \<and> up v" using refresh_when_up [OF assms(1) _ q] f' by blast
    obtain q2 e2 v2 where q2: "RefreshSnapshot (ne_backend E) (ne_json E) (e, v) = (q2, e2, v2)" by (rule prod_cases3)
    have "ok q2" using refresh_when_up [OF assms(1) _ q2] q' by blast
    then show ?thesis using s q q' q2 False by (simp add: StartWatch_def)
  qed (use s in \<open>auto simp: StartWatch_def\<close>)
  let ?M = "N\<lparr>nd_discovery := d2, nd_watch_thread := th, nd_discovery := d3, nd_registered := True, nd_ipc_ready := True, nd_last_error := []\<rparr>"
  obtain N4 w4 where 4: "recovered (?M, w3) = (N4, w4)" by (rule prod.exhaust)
  have "node_flag_bits N4 = node_flag_bits ?M"
    using 4 assms(5) by (auto simp: game_recovered_def relay_recovered_def dest: Reconcile_flags)
  moreover have "N' = N4\<lparr>discovery_recovery_success_count := discovery_recovery_success_count N4 + 1\<rparr>"
    using assms(3,4,6) self g g' f f' s s' 4
    by (auto simp: KeepAlive_round_def TryRecoverDiscovery_def with_discovery_def node_StartWatch_def recoverable_def)
  ultimately show ?thesis by (simp add: node_flag_bits_def IsIpcActiveLocked_def)
qed

text \<open>
  C31. When etcd goes away, the first keepalive round takes the active node out of service, it stays out of service for
  as many rounds as the outage lasts, and the first round in which etcd answers again brings it back.
\<close>

theorem keepalive_failure_then_recovery:
  assumes "etcd_gone (ne_backend E) down" and "etcd_answers (ne_backend E) (ne_json E) up granted"
    and "recovered = game_recovered E \<or> recovered = relay_recovered E"
    and "node_inv N" and "IsIpcActiveLocked N" and "\<not> nd_stop_keepalive N" and "0 < lease_ttl_seconds (mOptions (nd_discovery N))"
    and "\<forall>w \<in> set outage. down w" and "outage \<noteq> []" and "up w"
  shows "(\<forall>n. 0 < n \<longrightarrow> n \<le> length outage \<longrightarrow> \<not> IsIpcActiveLocked (keepalive_rounds E recovered (take n outage) N)) \<and>
     IsIpcActiveLocked (keepalive_rounds E recovered (outage @ [w]) N)"
proof -
  have rec: "recoverable N" and reg: "nd_registered N"
    using assms(4-7) by (auto simp: recoverable_def node_inv_def IsIpcActiveLocked_def)
  have out: "recoverable (keepalive_rounds E recovered (take n outage) N) \<and> \<not> nd_registered (keepalive_rounds E recovered (take n outage) N)"
    if pos: "0 < n" for n
  proof -
    obtain v vs where vs: "outage = v # vs" using assms(9) by (cases outage) auto
    obtain N1 w1 where r: "KeepAlive_round E recovered clear_attempts (N, v) = (N1, w1)" by (rule prod.exhaust)
    have "recoverable N1 \<and> \<not> nd_registered N1" using round_gone_active [OF assms(1) _ rec reg r] assms(8) vs by simp
    moreover obtain m where "n = Suc m" using pos by (cases n) auto
    ultimately show ?thesis
      using rounds_gone [OF assms(1), of N1 "take m vs" recovered] assms(8) vs r
      by (auto simp: keepalive_rounds_def dest: in_set_takeD)
  qed
  have all: "recoverable (keepalive_rounds E recovered outage N) \<and> \<not> nd_registered (keepalive_rounds E recovered outage N)"
    using out [of "length outage"] assms(9) by simp
  obtain N' w' where r: "KeepAlive_round E recovered clear_attempts (keepalive_rounds E recovered outage N, w) = (N', w')" by (rule prod.exhaust)
  have "IsIpcActiveLocked N'" using round_up [OF assms(2,10) _ _ assms(3) r] all by blast
  moreover have "keepalive_rounds E recovered (outage @ [w]) N = N'" using r by (simp add: keepalive_rounds_def)
  ultimately show ?thesis using out by (auto simp: IsIpcActiveLocked_def)
qed

text \<open>
  A process whose first registration fails never starts the loop that would register it again.
\<close>

lemma first_registration_not_retried:
  assumes "StartIpcRuntime E (N, w) = (N', w')" and "\<not> nd_registered N'" and "\<not> nd_keepalive_thread N"
  shows "\<not> nd_keepalive_thread N'"
  using assms
  by (auto simp: StartIpcRuntime_def with_discovery_def node_StartWatch_def StartKeepAliveLoop_def Let_def
      split: option.splits prod.splits if_splits)

section \<open>Auto-connect\<close>

text \<open>The game connects to relays only, and only while it has no healthy relay link.\<close>

lemma game_connect_target:
  assumes "TryAutoConnectMember E game_should_connect m (N, w) = (N', w')"
    and "auto_connect_success_count N' \<noteq> auto_connect_success_count N"
  shows "service_type (process_id (process m)) = kRelayServiceType \<and> IsIpcActiveLocked N \<and>
     (\<exists>l. nd_links N = Some l \<and> \<not> HasHealthyLinkOfServiceType (GetHealthyLinks l) kRelayServiceType)"
proof -
  have c: "auto_connect_success_count N1 = auto_connect_success_count N"
    if "ConnectDiscoveredMemberLocked E m (N, w) = (r, N1, w1)" for r N1 w1
    using that by (auto simp: ConnectDiscoveredMemberLocked_def Let_def split: prod.splits option.splits if_splits)
  show ?thesis
    using assms
    by (auto simp: TryAutoConnectMember_def RecordAutoConnectFailureLocked_def game_should_connect_def
        ShouldGameAutoConnectTarget_iff Let_def split: prod.splits option.splits if_splits dest: c)
qed

text \<open>
  A member that was connected once is not connected again while it stays in the view, even when its link
  is gone: a reconcile pass over such members changes nothing.
\<close>

lemma reconcile_skips_attempted:
  assumes "\<forall>m \<in> set (Members N). key_of m \<in> set (auto_connect_attempts N) \<or>
      (\<forall>l self. \<not> should N self l m)"
  shows "ReconcileAutoConnectMembers E should (N, w) = (N, w)"
proof -
  have "try_members E should ms (N, w) = (N, w)" if "set ms \<subseteq> set (Members N)" for ms
    using that
  proof (induction ms)
    case (Cons m ms)
    have "TryAutoConnectMember E should m (N, w) = (N, w)"
      using assms Cons.prems by (auto simp: TryAutoConnectMember_def split: option.splits)
    then show ?case using Cons by simp
  qed simp
  then show ?thesis by (simp add: ReconcileAutoConnectMembers_def)
qed

end
