(* ===== verification/Relay_Process.thy ===== *)
theory Relay_Process
  imports Ipc_Node
begin

text \<open>
  The relay process (src/src/relay/services/ipc_service.cpp) as a state machine: the calls its lifecycle, its two
  background loops, its transport threads and its console make on the IPC runtime of \<^verbatim>\<open>Ipc_Node\<close>, in any order.
  A relay registers no receiver host, so the hosts of its node are of type \<^verbatim>\<open>unit\<close>.
\<close>

section \<open>Operations\<close>

text \<open>The base class default of \<^verbatim>\<open>ShouldRefreshAutoConnectLocked\<close>.\<close>

definition relay_ShouldRefresh :: "unit node \<Rightarrow> bool" where
  "relay_ShouldRefresh N = False"

definition relay_Load :: "ServiceType \<Rightarrow> InstanceId \<Rightarrow> Endpoint \<Rightarrow> proto_message \<Rightarrow> unit node \<Rightarrow> unit node" where
  "relay_Load ty inst listen sample = LoadIpcRuntime (relay_BuildSelfDescriptor ty inst listen) (relay_SetupRoleComponents sample)"

definition relay_Start :: "'w node_env \<Rightarrow> unit node \<times> 'w \<Rightarrow> unit node \<times> 'w" where
  "relay_Start E s = (let (N, w) = ReconcileAutoConnectMembers E relay_should_connect (StartIpcRuntime E s)
     in (StartAutoConnectLoop N, w))"

definition relay_Unload :: "'w node_env \<Rightarrow> unit node \<times> 'w \<Rightarrow> unit node \<times> 'w" where
  "relay_Unload E = UnloadIpcRuntime E (\<lambda>N. N)"

section \<open>Data frames\<close>

text \<open>While the messenger lives, transport and links exist, so the last case is never reached.\<close>

definition relay_remote_send :: "'w node_env \<Rightarrow> env_wire \<Rightarrow> ProcessRef \<Rightarrow> Envelope \<Rightarrow> unit node \<times> 'w \<Rightarrow> result \<times> unit node \<times> 'w" where
  "relay_remote_send E W p e s = (let (N, w) = s in
     case (nd_transport N, nd_links N) of
       (Some t, Some l) \<Rightarrow>
         let (r, evs, t1, w1) = TransportMessageSender_Send (ne_sockets E) W l p e (t, w);
             (l2, t2, w2) = (if evs = [] then (l, t1, w1) else on_connection_events E evs (l, t1, w1))
         in (r, N\<lparr>nd_transport := Some t2, nd_links := Some l2\<rparr>, w2)
     | _ \<Rightarrow> (Failure ''no healthy link to next hop'', N, w))"

text \<open>The registry is empty (\<^verbatim>\<open>relay_active_in_every_history\<close>), so no host is ever asked to dispatch.\<close>

definition relay_messenger :: "'w node_env \<Rightarrow> env_wire \<Rightarrow> ProcessDescriptor \<Rightarrow> unit node \<Rightarrow> (unit, unit node \<times> 'w) messenger" where
  "relay_messenger E W self N =
     \<lparr>mSelf = process self, mRelayServiceType = kRelayServiceType, mReceiverDirectory = nd_directory N,
      mHosts = nd_hosts N, host_Dispatch = (\<lambda>_ _ _ s. (Failure ''receiver host not registered'', s)), mTypeUrls = nd_urls N,
      mMembership = Some (ed_mProcesses (nd_discovery N)), messenger_links = nd_links N,
      mRemoteSender = Some (relay_remote_send E W)\<rparr>"

text \<open>The messenger exists only after a load, which sets the self descriptor.\<close>

definition relay_HandleIncomingDataFrame :: "'w node_env \<Rightarrow> env_wire \<Rightarrow> RawFrame
    \<Rightarrow> relay_counters \<times> unit node \<times> 'w \<Rightarrow> relay_counters \<times> unit node \<times> 'w" where
  "relay_HandleIncomingDataFrame E W f s = (let (c, N, w) = s in
     if \<not> nd_messenger N then (c, N, w)
     else if \<not> IsIpcActiveLocked N
     then (let (c1, N1) = RecordForwardFailureLocked ''ipc is not active'' (c, N) in (c1, N1, w))
     else case nd_self N of
       None \<Rightarrow> (c, N, w)
     | Some self \<Rightarrow>
         let (r, N1, w1) = HandleIncomingFrame W (relay_messenger E W self N) f (N, w) in
         if ok r then (c\<lparr>mForwardedDataFrameCount := mForwardedDataFrameCount c + 1\<rparr>, N1, w1)
         else let (c2, N2) = RecordForwardFailureLocked (message r) (c, N1) in (c2, N2, w1))"

text \<open>The transport's threads: one turn of the accept loop, and a connection that ends.\<close>

definition relay_accept :: "'w node_env \<Rightarrow> unit node \<times> 'w \<Rightarrow> unit node \<times> 'w" where
  "relay_accept E s = (let (N, w) = s in
     case (nd_transport N, nd_links N) of
       (Some t, Some l) \<Rightarrow>
         let (go_on, evs, t1, w1) = AcceptIteration (ne_sockets E) (t, w);
             (l2, t2, w2) = (if evs = [] then (l, t1, w1) else on_connection_events E evs (l, t1, w1))
         in (N\<lparr>nd_transport := Some t2, nd_links := Some l2\<rparr>, w2)
     | _ \<Rightarrow> (N, w))"

definition relay_disconnect :: "'w node_env \<Rightarrow> ConnectionId \<Rightarrow> unit node \<times> 'w \<Rightarrow> unit node \<times> 'w" where
  "relay_disconnect E i s = (let (N, w) = s in
     case (nd_transport N, nd_links N) of
       (Some t, Some l) \<Rightarrow>
         let (evs, t1, w1) = HandleDisconnect (ne_sockets E) i True (t, w);
             (l2, t2, w2) = (if evs = [] then (l, t1, w1) else on_connection_events E evs (l, t1, w1))
         in (N\<lparr>nd_transport := Some t2, nd_links := Some l2\<rparr>, w2)
     | _ \<Rightarrow> (N, w))"

section \<open>The state machine\<close>

inductive relay_step for E :: "'w node_env" and W :: env_wire
    and ty :: ServiceType and inst :: InstanceId and listen :: Endpoint and sample :: proto_message where
  load: "relay_step E W ty inst listen sample (c, N, w) (c, relay_Load ty inst listen sample N, w)"
| start: "relay_Start E (N, w) = (N', w') \<Longrightarrow> relay_step E W ty inst listen sample (c, N, w) (c, N', w')"
| stop: "StopIpcRuntime E (N, w) = (N', w') \<Longrightarrow> relay_step E W ty inst listen sample (c, N, w) (c, N', w')"
| unload: "relay_Unload E (N, w) = (N', w') \<Longrightarrow> relay_step E W ty inst listen sample (c, N, w) (c, N', w')"
| keepalive: "KeepAlive_round E (relay_recovered E) clear_attempts (N, w) = (N', w') \<Longrightarrow>
    relay_step E W ty inst listen sample (c, N, w) (c, N', w')"
| auto_connect: "AutoConnect_round E relay_should_connect relay_ShouldRefresh (N, w) = (N', w') \<Longrightarrow>
    relay_step E W ty inst listen sample (c, N, w) (c, N', w')"
| refresh: "RefreshDiscovery E (N, w) = (r, N', w') \<Longrightarrow> relay_step E W ty inst listen sample (c, N, w) (c, N', w')"
| keepalive_once: "node_KeepAliveOnce E (N, w) = (r, N', w') \<Longrightarrow> relay_step E W ty inst listen sample (c, N, w) (c, N', w')"
| drain: "DrainMembershipEvents N = (es, N') \<Longrightarrow> relay_step E W ty inst listen sample (c, N, w) (c, N', w)"
| connect: "relay_ConnectToMember E ty' inst' (N, w) = (r, N', w') \<Longrightarrow> relay_step E W ty inst listen sample (c, N, w) (c, N', w')"
| control_frame: "kind (frame_header f) \<noteq> FK_data \<Longrightarrow> on_frame E (\<lambda>f s. s) f (N, w) = (N', w') \<Longrightarrow>
    relay_step E W ty inst listen sample (c, N, w) (c, N', w')"
| data_frame: "kind (frame_header f) = FK_data \<Longrightarrow> nd_links N \<noteq> None \<Longrightarrow>
    relay_HandleIncomingDataFrame E W f (c, N, w) = (c', N', w') \<Longrightarrow>
    relay_step E W ty inst listen sample (c, N, w) (c', N', w')"
| accept: "relay_accept E (N, w) = (N', w') \<Longrightarrow> relay_step E W ty inst listen sample (c, N, w) (c, N', w')"
| disconnect: "relay_disconnect E i (N, w) = (N', w') \<Longrightarrow> relay_step E W ty inst listen sample (c, N, w) (c, N', w')"
| outside: "relay_step E W ty inst listen sample (c, N, w) (c, N, w')"

text \<open>A process that has just been constructed, and everything it can become.\<close>

definition no_forwards :: relay_counters where
  "no_forwards = \<lparr>mForwardedDataFrameCount = 0, mForwardFailureCount = 0, mLastForwardFailureReason = []\<rparr>"

inductive relay_reachable for E :: "'w node_env" and W :: env_wire
    and ty :: ServiceType and inst :: InstanceId and listen :: Endpoint and sample :: proto_message where
  fresh: "relay_reachable E W ty inst listen sample (no_forwards, new_node options, w)"
| step: "relay_reachable E W ty inst listen sample s \<Longrightarrow> relay_step E W ty inst listen sample s s' \<Longrightarrow>
    relay_reachable E W ty inst listen sample s'"

section \<open>The flags under every operation\<close>

lemma DrainMembershipEvents_flags [node_flags]: "DrainMembershipEvents N = (es, N') \<Longrightarrow> node_flag_bits N' = node_flag_bits N"
  by (auto simp: DrainMembershipEvents_def node_flag_bits_def listening_at_def split: prod.splits)

lemma HandleMembershipEvent_flags [node_flags]:
  "HandleMembershipEvent E should e (N, w) = (N', w') \<Longrightarrow> node_flag_bits N' = node_flag_bits N"
  by (auto simp: HandleMembershipEvent_def node_flag_bits_def listening_at_def split: if_splits)
    (auto simp: node_flag_bits_def listening_at_def dest!: TryAutoConnectMember_flags)

lemma events_flags: "foldl (\<lambda>s e. HandleMembershipEvent E should e s) (N, w) es = (N', w') \<Longrightarrow> node_flag_bits N' = node_flag_bits N"
proof (induction es arbitrary: N w)
  case (Cons e es)
  obtain N1 w1 where e: "HandleMembershipEvent E should e (N, w) = (N1, w1)" by (cases "HandleMembershipEvent E should e (N, w)")
  then show ?case using Cons HandleMembershipEvent_flags [OF e] by simp
qed simp

lemma note_result_flags: "note_result (r, N, w) = (r', N', w') \<Longrightarrow> node_flag_bits N' = node_flag_bits N"
  by (auto simp: note_result_def node_flag_bits_def listening_at_def split: if_splits)

lemma RefreshDiscovery_flags [node_flags]: "RefreshDiscovery E (N, w) = (r, N', w') \<Longrightarrow> node_flag_bits N' = node_flag_bits N"
  by (cases "with_discovery (RefreshSnapshot (ne_backend E) (ne_json E)) (N, w)")
    (auto simp: RefreshDiscovery_def dest!: with_discovery_flags note_result_flags)

lemma node_KeepAliveOnce_flags [node_flags]: "node_KeepAliveOnce E (N, w) = (r, N', w') \<Longrightarrow> node_flag_bits N' = node_flag_bits N"
  by (cases "with_discovery (ed_KeepAliveOnce (ne_backend E)) (N, w)")
    (auto simp: node_KeepAliveOnce_def dest!: with_discovery_flags note_result_flags)

lemma AutoConnect_flags:
  assumes "AutoConnect_round E should refresh (N, w) = (N', w')"
  shows "node_flag_bits N' = node_flag_bits N"
proof (cases "nd_stop_auto_connect N")
  case False
  obtain es N1 where d: "DrainMembershipEvents N = (es, N1)" by (cases "DrainMembershipEvents N")
  obtain N2 w2 where f: "foldl (\<lambda>s e. HandleMembershipEvent E should e s) (N1, w) es = (N2, w2)"
    by (cases "foldl (\<lambda>s e. HandleMembershipEvent E should e s) (N1, w) es")
  obtain r N3 w3 where r: "RefreshDiscovery E (N2, w2) = (r, N3, w3)" by (metis prod_cases3)
  have "node_flag_bits N' = node_flag_bits N2"
    using assms False d f r RefreshDiscovery_flags [OF r]
    by (auto simp: AutoConnect_round_def Let_def split: if_splits dest: Reconcile_flags)
  then show ?thesis using events_flags [OF f] DrainMembershipEvents_flags [OF d] by simp
qed (use assms in \<open>simp add: AutoConnect_round_def\<close>)

lemma on_control_flags: "on_frame E (\<lambda>f s. s) f (N, w) = (N', w') \<Longrightarrow> node_flag_bits N' = node_flag_bits N"
  by (auto simp: on_frame_def node_flag_bits_def listening_at_def Let_def split: option.splits if_splits prod.splits
      dest!: FlushLinkFrames_listening)

lemma relay_connect_flags: "relay_ConnectToMember E ty inst (N, w) = (r, N', w') \<Longrightarrow> node_flag_bits N' = node_flag_bits N"
  by (auto simp: relay_ConnectToMember_def split: option.splits dest: Connect_flags)

lemma connection_flags:
  "nd_transport N = Some t \<Longrightarrow> listening t2 = listening t \<Longrightarrow> node_flag_bits (N\<lparr>nd_transport := Some t2, nd_links := l\<rparr>) = node_flag_bits N"
  by (simp add: node_flag_bits_def listening_at_def)

lemma events_listening:
  "(if evs = [] then (l, t1, w1) else on_connection_events E evs (l, t1, w1)) = (l2, t2, w2) \<Longrightarrow> listening t2 = listening t1"
  by (auto split: if_splits dest: on_connection_events_listening)

lemma relay_accept_flags:
  assumes "relay_accept E (N, w) = (N', w')"
  shows "node_flag_bits N' = node_flag_bits N"
proof (cases "\<exists>t l. nd_transport N = Some t \<and> nd_links N = Some l")
  case True
  then obtain t l where here: "nd_transport N = Some t" "nd_links N = Some l" by blast
  obtain g evs t1 w1 where a: "AcceptIteration (ne_sockets E) (t, w) = (g, evs, t1, w1)" by (rule prod_cases4)
  obtain l2 t2 w2 where e: "(if evs = [] then (l, t1, w1) else on_connection_events E evs (l, t1, w1)) = (l2, t2, w2)" by (rule prod_cases3)
  have "listening t1 = listening t"
    using a by (auto simp: AcceptIteration_def AddConnection_def listening_def Let_def split: prod.splits if_splits option.splits)
  then show ?thesis
    using assms [unfolded relay_accept_def Let_def prod.case here option.case a e] events_listening [OF e] connection_flags [OF here(1)] by auto
qed (use assms in \<open>auto simp: relay_accept_def split: option.splits\<close>)

lemma relay_disconnect_flags:
  assumes "relay_disconnect E i (N, w) = (N', w')"
  shows "node_flag_bits N' = node_flag_bits N"
proof (cases "\<exists>t l. nd_transport N = Some t \<and> nd_links N = Some l")
  case True
  then obtain t l where here: "nd_transport N = Some t" "nd_links N = Some l" by blast
  obtain evs t1 w1 where a: "HandleDisconnect (ne_sockets E) i True (t, w) = (evs, t1, w1)" by (rule prod_cases3)
  obtain l2 t2 w2 where e: "(if evs = [] then (l, t1, w1) else on_connection_events E evs (l, t1, w1)) = (l2, t2, w2)" by (rule prod_cases3)
  have "listening t1 = listening t"
    using a by (auto simp: HandleDisconnect_def listening_def Let_def split: option.splits if_splits)
  then show ?thesis
    using assms [unfolded relay_disconnect_def Let_def prod.case here option.case a e] events_listening [OF e] connection_flags [OF here(1)] by auto
qed (use assms in \<open>auto simp: relay_disconnect_def split: option.splits\<close>)

lemma relay_remote_flags:
  assumes "relay_remote_send E W p e (N, w) = (r, N', w')"
  shows "node_flag_bits N' = node_flag_bits N"
proof (cases "\<exists>t l. nd_transport N = Some t \<and> nd_links N = Some l")
  case True
  then obtain t l where here: "nd_transport N = Some t" "nd_links N = Some l" by blast
  obtain q evs t1 w1 where a: "TransportMessageSender_Send (ne_sockets E) W l p e (t, w) = (q, evs, t1, w1)" by (rule prod_cases4)
  obtain l2 t2 w2 where e: "(if evs = [] then (l, t1, w1) else on_connection_events E evs (l, t1, w1)) = (l2, t2, w2)" by (rule prod_cases3)
  have "listening t1 = listening t"
    using a by (auto simp: TransportMessageSender_Send_def split: option.splits dest: Send_listening)
  then show ?thesis
    using assms [unfolded relay_remote_send_def Let_def prod.case here option.case a e] events_listening [OF e] connection_flags [OF here(1)] by auto
qed (use assms in \<open>auto simp: relay_remote_send_def split: option.splits\<close>)

lemma relay_messenger_flags:
  fixes E :: "'a node_env"
  assumes "HandleIncomingFrame W (relay_messenger E W self N0) f (N, w) = (r, N', w')"
  shows "node_flag_bits N' = node_flag_bits N"
proof -
  let ?M = "relay_messenger E W self N0" and ?P = "\<lambda>s :: unit node \<times> 'a. node_flag_bits (fst s) = node_flag_bits N"
  have dispatch: "\<forall>e s. payload_type_url e = url \<longrightarrow> ?P s \<longrightarrow> ?P (snd (DispatchLocal ?M e s))" for url
    by (auto simp: DispatchLocal_def registry_Dispatch_def relay_messenger_def Let_def split: option.splits)
  have remote: "\<forall>p e s. payload_type_url e = url \<longrightarrow> ?P s \<longrightarrow> ?P (snd (send_remote ?M p e s))" for url
  proof (intro allI impI)
    fix p e and s :: "unit node \<times> 'a" assume "?P s"
    moreover obtain r N2 w2 where "relay_remote_send E W p e (fst s, snd s) = (r, N2, w2)" by (rule prod_cases3)
    ultimately show "?P (snd (send_remote ?M p e s))"
      using relay_remote_flags [of E W p e "fst s" "snd s" r N2 w2] by (simp add: send_remote_def relay_messenger_def)
  qed
  have "?P (snd (SendEnvelope ?M e loc (N, w)))" for e loc
    by (rule SendEnvelope_keeps(1) [where P = ?P, OF dispatch remote refl]) simp
  then show ?thesis using assms by (auto simp: HandleIncomingFrame_def split: if_splits sum.splits) (metis fst_conv snd_conv)+
qed

lemma RecordForwardFailure_flags:
  "RecordForwardFailureLocked why (c, N) = (c', N') \<Longrightarrow> node_flag_bits N' = node_flag_bits N"
  by (auto simp: RecordForwardFailureLocked_def)

lemma relay_data_flags:
  assumes "relay_HandleIncomingDataFrame E W f (c, N, w) = (c', N', w')"
  shows "node_flag_bits N' = node_flag_bits N"
proof (cases "nd_self N")
  case None
  then show ?thesis
    using assms by (auto simp: relay_HandleIncomingDataFrame_def dest: RecordForwardFailure_flags split: if_splits prod.splits)
next
  case (Some self)
  obtain r N1 w1 where h: "HandleIncomingFrame W (relay_messenger E W self N) f (N, w) = (r, N1, w1)" by (rule prod_cases3)
  show ?thesis
    using assms Some h relay_messenger_flags [OF h]
    by (auto simp: relay_HandleIncomingDataFrame_def dest: RecordForwardFailure_flags split: if_splits prod.splits)
qed

section \<open>The invariant\<close>

text \<open>
  The relay knows itself as it was configured, the runtime invariant holds, and no receiver host is registered.
\<close>

definition relay_inv :: "ServiceType \<Rightarrow> InstanceId \<Rightarrow> Endpoint \<Rightarrow> unit node \<Rightarrow> bool" where
  "relay_inv ty inst listen N \<longleftrightarrow> node_inv N \<and> set (nd_hosts N) \<subseteq> {None} \<and>
     (nd_self N = None \<or> nd_self N = Some (relay_BuildSelfDescriptor ty inst listen))"

lemma relay_inv_flags: "node_flag_bits N' = node_flag_bits N \<Longrightarrow> relay_inv ty inst listen N \<Longrightarrow> relay_inv ty inst listen N'"
  using node_inv_flags [of N' N] by (auto simp: relay_inv_def node_flag_bits_def listening_at_def)

lemma relay_Load_inv: "relay_inv ty inst listen N \<Longrightarrow> relay_inv ty inst listen (relay_Load ty inst listen sample N)"
  by (auto simp: relay_inv_def relay_Load_def LoadIpcRuntime_def relay_SetupRoleComponents_def payload_Register_def node_inv_def Let_def)

lemma relay_Start_inv:
  assumes "relay_inv ty inst listen N" and "relay_Start E (N, w) = (N', w')"
  shows "relay_inv ty inst listen N'"
proof -
  obtain N1 w1 where s: "StartIpcRuntime E (N, w) = (N1, w1)" by (rule prod.exhaust)
  obtain N2 w2 where r: "ReconcileAutoConnectMembers E relay_should_connect (N1, w1) = (N2, w2)" by (rule prod.exhaust)
  have "relay_inv ty inst listen N1" using assms(1) StartIpcRuntime_inv [OF _ s] by (simp add: relay_inv_def)
  then have "relay_inv ty inst listen N2" by (rule relay_inv_flags [OF Reconcile_flags [OF r]])
  moreover have "node_flag_bits N' = node_flag_bits N2"
    using assms(2) s r by (auto simp: relay_Start_def StartAutoConnectLoop_def node_flag_bits_def listening_at_def split: if_splits)
  ultimately show ?thesis by (rule relay_inv_flags [rotated])
qed

lemma relay_keepalive_inv:
  assumes "relay_inv ty inst listen N" and "KeepAlive_round E (relay_recovered E) clear_attempts (N, w) = (N', w')"
  shows "relay_inv ty inst listen N'"
proof -
  have rec: "node_flag_bits N'' = node_flag_bits M" if "relay_recovered E (M, v) = (N'', v')" for M N'' :: "unit node" and v v'
    using that by (simp add: relay_recovered_def Reconcile_flags)
  have "node_inv N'" by (rule KeepAlive_round_inv [OF _ assms(2)]) (use assms(1) rec in \<open>auto simp: relay_inv_def\<close>)
  moreover have "nd_self N' = nd_self N \<and> nd_hosts N' = nd_hosts N"
    by (rule KeepAlive_round_same [OF assms(2)]) (rule rec)
  ultimately show ?thesis using assms(1) by (simp add: relay_inv_def)
qed

lemma relay_step_inv:
  assumes "relay_step E W ty inst listen sample s s'" and "relay_inv ty inst listen (fst (snd s))"
  shows "relay_inv ty inst listen (fst (snd s'))"
  using assms
proof (induction rule: relay_step.induct)
  case (keepalive N w N' w' c)
  then show ?case using relay_keepalive_inv by fastforce
next
  case (load c N w)
  then show ?case by (simp add: relay_Load_inv)
next
  case (start N w N' w' c)
  then show ?case using relay_Start_inv by fastforce
next
  case (stop N w N' w' c)
  then show ?case using StopIpcRuntime_inv [OF stop(1)] by (simp add: relay_inv_def)
next
  case (unload N w N' w' c)
  then show ?case using UnloadIpcRuntime_inv [of E "\<lambda>N. N" N w N' w'] by (auto simp: relay_Unload_def relay_inv_def)
qed (auto elim!: relay_inv_flags [rotated] dest!: AutoConnect_flags RefreshDiscovery_flags node_KeepAliveOnce_flags
    DrainMembershipEvents_flags relay_connect_flags on_control_flags relay_data_flags relay_accept_flags relay_disconnect_flags)

lemma relay_reachable_inv: "relay_reachable E W ty inst listen sample s \<Longrightarrow> relay_inv ty inst listen (fst (snd s))"
proof (induction rule: relay_reachable.induct)
  case (fresh options w)
  show ?case by (simp add: relay_inv_def node_inv_def new_node_def set_replicate_conv_if)
qed (rule relay_step_inv)


end
