(* ===== verification/Environment.thy ===== *)
theory Environment
  imports Ipc_Base
begin

text \<open>
  The code outside the repository that the storage and game services call: hiredis, the MariaDB client
  and the system clock, as the record \<open>env\<close> over the state \<open>'w\<close> of the outside world. A connection is a
  handle; a null pointer is \<open>None\<close>. A Redis command with its arguments is the list of words that
  hiredis sends. The predicates at the end state the documented behaviour that some properties rely on.
\<close>

section \<open>Calls\<close>

datatype redis_reply = REDIS_STATUS string | REDIS_ERROR string | REDIS_INTEGER int | REDIS_NIL | REDIS_STRING string

text \<open>\<^verbatim>\<open>reply->str\<close>, null for integers and nil.\<close>

fun reply_str :: "redis_reply \<Rightarrow> string option" where
  "reply_str (REDIS_STATUS s) = Some s"
| "reply_str (REDIS_ERROR s) = Some s"
| "reply_str (REDIS_STRING s) = Some s"
| "reply_str _ = None"

record RedisConfiguration =
  redis_endpoints :: "string list"
  redis_password :: string
  redis_database :: u32
  key_prefix :: string

record MariaConfiguration =
  maria_host :: string
  maria_port :: u16
  maria_database :: string
  maria_username :: string
  maria_password :: string
  pool_size :: u32

type_synonym redis_handle = nat
type_synonym maria_handle = nat

record 'w env =
  env_now_ms :: "'w \<Rightarrow> u64 \<times> 'w"
  redisConnect :: "string \<Rightarrow> u16 \<Rightarrow> 'w \<Rightarrow> redis_handle option \<times> 'w"
  redisFormat :: "redis_handle \<Rightarrow> string \<Rightarrow> 'w \<Rightarrow> redis_reply option \<times> 'w" \<comment> \<open>a command text without arguments\<close>
  redisCommand :: "redis_handle \<Rightarrow> string list \<Rightarrow> 'w \<Rightarrow> redis_reply option \<times> 'w"
  redis_err :: "redis_handle \<Rightarrow> 'w \<Rightarrow> int \<times> string" \<comment> \<open>\<^verbatim>\<open>context->err\<close> and \<^verbatim>\<open>context->errstr\<close>\<close>
  redisFree :: "redis_handle \<Rightarrow> 'w \<Rightarrow> 'w"
  mysql_init :: "'w \<Rightarrow> maria_handle option \<times> 'w"
  mysql_real_connect :: "maria_handle \<Rightarrow> MariaConfiguration \<Rightarrow> 'w \<Rightarrow> bool \<times> 'w"
  mysql_error :: "maria_handle \<Rightarrow> 'w \<Rightarrow> string"
  mysql_close :: "maria_handle \<Rightarrow> 'w \<Rightarrow> 'w"
  mysql_ping :: "maria_handle \<Rightarrow> 'w \<Rightarrow> int \<times> 'w"
  mysql_query :: "maria_handle \<Rightarrow> string \<Rightarrow> 'w \<Rightarrow> int \<times> 'w"
  mysql_escape :: "maria_handle \<Rightarrow> string \<Rightarrow> 'w \<Rightarrow> string"
  mysql_rows :: "maria_handle \<Rightarrow> 'w \<Rightarrow> string option list list option \<times> 'w" \<comment> \<open>\<^verbatim>\<open>mysql_store_result\<close> and its rows\<close>
  mysql_field_count :: "maria_handle \<Rightarrow> 'w \<Rightarrow> nat"
  mysql_affected_rows :: "maria_handle \<Rightarrow> 'w \<Rightarrow> nat"

definition NowMs :: "'w env \<Rightarrow> 'w \<Rightarrow> u64 \<times> 'w" where
  "NowMs E w = env_now_ms E w"

text \<open>\<^verbatim>\<open>err != 0 && errstr[0] != 0 ? errstr : fallback\<close>, the message of a failed command.\<close>

definition redis_error :: "'w env \<Rightarrow> redis_handle \<Rightarrow> string \<Rightarrow> 'w \<Rightarrow> string" where
  "redis_error E h fallback w =
     (let (err, text) = redis_err E h w in if err \<noteq> 0 \<and> text \<noteq> [] then text else fallback)"

section \<open>Documented behaviour of a Redis server\<close>

text \<open>
  \<open>kv w\<close>: the string keys of the server behind the handle. \<^verbatim>\<open>SET key value NX PX ttl\<close> stores the value and answers
  OK when the key is free, and answers nil otherwise. Every command is atomic. No answer is a
  connection error, after which nothing is known.
\<close>

definition set_nx_documented :: "'w env \<Rightarrow> redis_handle \<Rightarrow> ('w \<Rightarrow> string \<Rightarrow> string option) \<Rightarrow> bool" where
  "set_nx_documented E h kv \<longleftrightarrow> (\<forall>k v t w r w'. redisCommand E h [''SET'', k, v, ''NX'', ''PX'', t] w = (Some r, w') \<longrightarrow>
     (r = REDIS_STATUS ''OK'' \<and> kv w k = None \<and> kv w' = (kv w)(k \<mapsto> v)) \<or>
     (r \<noteq> REDIS_STATUS ''OK'' \<and> kv w' = kv w))"

text \<open>
  \<^verbatim>\<open>EVAL\<close> of a script that compares a key with a value and then gives it a new time to live, which keeps the key
  as long as the time is positive, or deletes it.
\<close>

definition refresh_documented :: "'w env \<Rightarrow> redis_handle \<Rightarrow> string \<Rightarrow> ('w \<Rightarrow> string \<Rightarrow> string option) \<Rightarrow> bool" where
  "refresh_documented E h script kv \<longleftrightarrow>
     (\<forall>k v (ms :: u64) w r w'. redisCommand E h [''EVAL'', script, ''1'', k, v, to_string ms] w = (r, w') \<longrightarrow> 0 < ms \<longrightarrow>
        kv w' = kv w \<and> (r = Some (REDIS_INTEGER 1) \<longrightarrow> kv w k = Some v))"

definition release_documented :: "'w env \<Rightarrow> redis_handle \<Rightarrow> string \<Rightarrow> ('w \<Rightarrow> string \<Rightarrow> string option) \<Rightarrow> bool" where
  "release_documented E h script kv \<longleftrightarrow>
     (\<forall>k v w r w'. redisCommand E h [''EVAL'', script, ''1'', k, v] w = (r, w') \<longrightarrow>
        kv w' = kv w \<or> kv w k = Some v \<and> kv w' = (kv w)(k := None))"

definition get_documented :: "'w env \<Rightarrow> redis_handle \<Rightarrow> ('w \<Rightarrow> string \<Rightarrow> string option) \<Rightarrow> bool" where
  "get_documented E h kv \<longleftrightarrow> (\<forall>k w r w'. redisCommand E h [''GET'', k] w = (r, w') \<longrightarrow>
     kv w' = kv w \<and> (\<forall>a. r = Some a \<longrightarrow> a = (case kv w k of None \<Rightarrow> REDIS_NIL | Some v \<Rightarrow> REDIS_STRING v)))"

text \<open>A command whose answer is lost may have been carried out.\<close>

definition set_documented :: "'w env \<Rightarrow> redis_handle \<Rightarrow> ('w \<Rightarrow> string \<Rightarrow> string option) \<Rightarrow> bool" where
  "set_documented E h kv \<longleftrightarrow> (\<forall>k v w r w'. redisCommand E h [''SET'', k, v] w = (r, w') \<longrightarrow>
     (r = Some (REDIS_STATUS ''OK'') \<and> kv w' = (kv w)(k \<mapsto> v)) \<or>
     (r \<noteq> Some (REDIS_STATUS ''OK'') \<and> kv w' = kv w) \<or> (r = None \<and> kv w' = (kv w)(k \<mapsto> v)))"

definition set_absent_documented :: "'w env \<Rightarrow> redis_handle \<Rightarrow> ('w \<Rightarrow> string \<Rightarrow> string option) \<Rightarrow> bool" where
  "set_absent_documented E h kv \<longleftrightarrow> (\<forall>k v w r w'. redisCommand E h [''SET'', k, v, ''NX''] w = (r, w') \<longrightarrow>
     (r = Some (REDIS_STATUS ''OK'') \<and> kv w k = None \<and> kv w' = (kv w)(k \<mapsto> v)) \<or>
     (r = Some REDIS_NIL \<and> kv w k \<noteq> None \<and> kv w' = kv w) \<or>
     (r \<noteq> Some (REDIS_STATUS ''OK'') \<and> r \<noteq> Some REDIS_NIL \<and> kv w' = kv w) \<or>
     (r = None \<and> kv w k = None \<and> kv w' = (kv w)(k \<mapsto> v)))"

text \<open>
  \<^verbatim>\<open>INCRBY\<close> counts an absent key from zero, stores the sum as decimal text and answers it; sums beyond
  64 bits and texts that are no number are errors.
\<close>

definition counter_of :: "string option \<Rightarrow> int option" where
  "counter_of v = (case v of None \<Rightarrow> Some 0
     | Some s \<Rightarrow> (case stoll s of Inl _ \<Rightarrow> None | Inr n \<Rightarrow> if show_int n = s then Some n else None))"

definition incr_documented :: "'w env \<Rightarrow> redis_handle \<Rightarrow> ('w \<Rightarrow> string \<Rightarrow> string option) \<Rightarrow> bool" where
  "incr_documented E h kv \<longleftrightarrow> (\<forall>k d w r w'. redisCommand E h [''INCRBY'', k, show_int d] w = (r, w') \<longrightarrow>
     (\<exists>m. counter_of (kv w k) = Some m \<and> - (2 ^ 63) \<le> m + d \<and> m + d < 2 ^ 63 \<and>
        kv w' = (kv w)(k \<mapsto> show_int (m + d)) \<and> (r = Some (REDIS_INTEGER (m + d)) \<or> r = None)) \<or>
     ((\<forall>n. r \<noteq> Some (REDIS_INTEGER n)) \<and> kv w' = kv w))"

text \<open>The clock touches no key.\<close>

definition clock_documented :: "'w env \<Rightarrow> ('w \<Rightarrow> 'a) \<Rightarrow> bool" where
  "clock_documented E view \<longleftrightarrow> (\<forall>w. view (snd (env_now_ms E w)) = view w)"

section \<open>A concrete environment\<close>

text \<open>
  An in-memory server that satisfies the predicates: a clock that ticks, one table of keys, a list of
  MariaDB rows keyed by statement. Witnesses of the properties run on it.
\<close>

record memory_world =
  mem_clock :: u64
  mem_keys :: "(string \<times> string) list"
  mem_table :: "(string \<times> string) list"
  mem_down :: bool

definition mem_command :: "string \<Rightarrow> string \<Rightarrow> redis_handle \<Rightarrow> string list \<Rightarrow> memory_world \<Rightarrow> redis_reply option \<times> memory_world" where
  "mem_command refresh release h argv w =
     (if mem_down w then (None, w)
      else case argv of
        [c, k] \<Rightarrow>
          if c = ''GET'' then (Some (case map_of (mem_keys w) k of None \<Rightarrow> REDIS_NIL | Some v \<Rightarrow> REDIS_STRING v), w)
          else if c = ''DEL'' then (Some (REDIS_INTEGER (if map_of (mem_keys w) k = None then 0 else 1)),
                 w\<lparr>mem_keys := AList.delete k (mem_keys w)\<rparr>)
          else (Some (REDIS_ERROR ''ERR''), w)
      | [c, k, v] \<Rightarrow>
          if c = ''SET'' then (Some (REDIS_STATUS ''OK''), w\<lparr>mem_keys := AList.update k v (mem_keys w)\<rparr>)
          else if c = ''INCRBY'' then (case (counter_of (map_of (mem_keys w) k), stoll v) of
              (Some m, Inr d) \<Rightarrow>
                if - (2 ^ 63) \<le> m + d \<and> m + d < 2 ^ 63 \<and> show_int d = v
                then (Some (REDIS_INTEGER (m + d)), w\<lparr>mem_keys := AList.update k (show_int (m + d)) (mem_keys w)\<rparr>)
                else (Some (REDIS_ERROR ''ERR''), w)
            | _ \<Rightarrow> (Some (REDIS_ERROR ''ERR''), w))
          else (Some (REDIS_ERROR ''ERR''), w)
      | [c, k, v, nx] \<Rightarrow>
          if c = ''SET'' then
            (if map_of (mem_keys w) k = None
             then (Some (REDIS_STATUS ''OK''), w\<lparr>mem_keys := AList.update k v (mem_keys w)\<rparr>)
             else (Some REDIS_NIL, w))
          else (Some (REDIS_ERROR ''ERR''), w)
      | [c, k, v, nx, px, t] \<Rightarrow>
          if c = ''SET'' then
            (if map_of (mem_keys w) k = None
             then (Some (REDIS_STATUS ''OK''), w\<lparr>mem_keys := AList.update k v (mem_keys w)\<rparr>)
             else (Some REDIS_NIL, w))
          else if c = ''EVAL'' \<and> k = refresh
            then (Some (REDIS_INTEGER (if map_of (mem_keys w) nx = Some px then 1 else 0)), w)
          else (Some (REDIS_ERROR ''ERR''), w)
      | [c, s, n, k, v] \<Rightarrow>
          if c = ''EVAL'' \<and> s = release
            then (if map_of (mem_keys w) k = Some v
                  then (Some (REDIS_INTEGER 1), w\<lparr>mem_keys := AList.delete k (mem_keys w)\<rparr>)
                  else (Some (REDIS_INTEGER 0), w))
          else (Some (REDIS_ERROR ''ERR''), w)
      | _ \<Rightarrow> (Some (REDIS_ERROR ''ERR''), w))"

definition memory_env :: "string \<Rightarrow> string \<Rightarrow> memory_world env" where
  "memory_env refresh release =
     \<lparr>env_now_ms = (\<lambda>w. (mem_clock w, w\<lparr>mem_clock := mem_clock w + 1\<rparr>)),
      redisConnect = (\<lambda>h p w. (Some 1, w)), redisFormat = (\<lambda>h c w. (Some (REDIS_STATUS ''OK''), w)),
      redisCommand = mem_command refresh release, redis_err = (\<lambda>h w. (if mem_down w then 1 else 0, [])),
      redisFree = (\<lambda>h w. w), mysql_init = (\<lambda>w. (Some 1, w)), mysql_real_connect = (\<lambda>h c w. (True, w)),
      mysql_error = (\<lambda>h w. []), mysql_close = (\<lambda>h w. w), mysql_ping = (\<lambda>h w. (0, w)),
      mysql_query = (\<lambda>h sql w. (0, w\<lparr>mem_table := (sql, sql) # mem_table w\<rparr>)),
      mysql_escape = (\<lambda>h s w. s), mysql_rows = (\<lambda>h w. (Some [], w)),
      mysql_field_count = (\<lambda>h w. 0), mysql_affected_rows = (\<lambda>h w. 1)\<rparr>"

definition mem_kv :: "memory_world \<Rightarrow> string \<Rightarrow> string option" where
  "mem_kv w = map_of (mem_keys w)"

definition memory_world0 :: memory_world where
  "memory_world0 = \<lparr>mem_clock = 1000, mem_keys = [], mem_table = [], mem_down = False\<rparr>"

lemma memory_set_nx: "set_nx_documented (memory_env rf rl) h mem_kv"
  by (auto simp: set_nx_documented_def memory_env_def mem_command_def mem_kv_def split: if_splits)

lemma memory_refresh: "refresh_documented (memory_env rf rl) h rf mem_kv"
  by (auto simp: refresh_documented_def memory_env_def mem_command_def mem_kv_def split: if_splits)

lemma memory_release: "release_documented (memory_env rf rl) h rl mem_kv"
  by (auto simp: release_documented_def memory_env_def mem_command_def mem_kv_def split: if_splits)

lemma memory_get: "get_documented (memory_env rf rl) h mem_kv"
  by (auto simp: get_documented_def memory_env_def mem_command_def mem_kv_def split: if_splits)

lemma memory_set: "set_documented (memory_env rf rl) h mem_kv"
  by (auto simp: set_documented_def memory_env_def mem_command_def mem_kv_def split: if_splits)

lemma memory_set_absent: "set_absent_documented (memory_env rf rl) h mem_kv"
  by (auto simp: set_absent_documented_def memory_env_def mem_command_def mem_kv_def split: if_splits)

lemma memory_incr: "incr_documented (memory_env rf rl) h mem_kv"
  by (auto simp: incr_documented_def memory_env_def mem_command_def mem_kv_def
      split: if_splits option.splits sum.splits redis_reply.splits)

lemma memory_clock: "clock_documented (memory_env rf rl) mem_kv"
  by (simp add: clock_documented_def memory_env_def mem_kv_def)

end
