(* ===== verification/Connectivity.thy ===== *)
theory Connectivity
  imports Environment
begin

text \<open>
  Connecting to and probing Redis and MariaDB (src/src/framework/storage/connectivity_probe.cpp). The
  connect timeouts only bound the time of a call and have no counterpart.
\<close>

section \<open>Endpoints\<close>

definition ParsePort :: "string \<Rightarrow> u16 option" where
  "ParsePort text = (case stoull text of
      Inl _ \<Rightarrow> None
    | Inr value \<Rightarrow> if value > 65535 then None else Some (ucast value))"

text \<open>\<^verbatim>\<open>std::string::rfind\<close> of one character.\<close>

definition rfind :: "char \<Rightarrow> string \<Rightarrow> nat option" where
  "rfind c s = (if c \<in> set s then Some (length s - 1 - length (takeWhile (\<lambda>x. x \<noteq> c) (rev s))) else None)"

definition ParseRedisEndpoint :: "RedisConfiguration \<Rightarrow> string + string \<times> u16" where
  "ParseRedisEndpoint c = (case redis_endpoints c of
      [] \<Rightarrow> Inl ''redis endpoints must not be empty''
    | v # _ \<Rightarrow> (case rfind CHR '':'' v of
        None \<Rightarrow> Inl ''redis endpoint must be in host:port format''
      | Some pos \<Rightarrow>
          if pos = 0 \<or> pos + 1 \<ge> length v then Inl ''redis endpoint must be in host:port format''
          else (case ParsePort (drop (pos + 1) v) of
              None \<Rightarrow> Inl ''redis endpoint port is invalid''
            | Some p \<Rightarrow> Inr (take pos v, p))))"

section \<open>Connections\<close>

record 'h connect_result =
  conn_handle :: "'h option"
  conn_target :: string
  conn_error :: string

definition connect_failed :: "string \<Rightarrow> string \<Rightarrow> 'h connect_result" where
  "connect_failed target e = \<lparr>conn_handle = None, conn_target = target, conn_error = e\<rparr>"

text \<open>One of the two optional commands after the connect; \<open>None\<close> when it succeeded, otherwise the error text.\<close>

definition setup_command :: "'w env \<Rightarrow> redis_handle \<Rightarrow> string \<Rightarrow> string \<Rightarrow> 'w \<Rightarrow> string option \<times> 'w" where
  "setup_command E h command failed w = (let (r, w') = redisFormat E h command w in
     case r of
       None \<Rightarrow> (Some (redis_error E h failed w'), redisFree E h w')
     | Some (REDIS_ERROR e) \<Rightarrow> (Some e, redisFree E h w')
     | Some _ \<Rightarrow> (None, w'))"

definition ConnectRedis :: "'w env \<Rightarrow> RedisConfiguration \<Rightarrow> 'w \<Rightarrow> redis_handle connect_result \<times> 'w" where
  "ConnectRedis E c w = (case ParseRedisEndpoint c of
      Inl e \<Rightarrow> (connect_failed [] e, w)
    | Inr (hst, prt) \<Rightarrow>
        let target = hst @ '':'' @ to_string prt; (ctx, w1) = redisConnect E hst prt w in
        case ctx of
          None \<Rightarrow> (connect_failed target ''redisConnectWithTimeout returned null'', w1)
        | Some h \<Rightarrow>
            if fst (redis_err E h w1) \<noteq> 0
            then (connect_failed target (redis_error E h ''redis connect failed'' w1), redisFree E h w1)
            else let (e1, w2) = (if redis_password c \<noteq> []
                                 then setup_command E h (''AUTH '' @ redis_password c) ''redis AUTH failed'' w1
                                 else (None, w1)) in
            case e1 of
              Some e \<Rightarrow> (connect_failed target e, w2)
            | None \<Rightarrow>
                let (e2, w3) = (if redis_database c \<noteq> 0
                                then setup_command E h (''SELECT '' @ to_string (redis_database c)) ''redis SELECT failed'' w2
                                else (None, w2)) in
                (case e2 of
                  Some e \<Rightarrow> (connect_failed target e, w3)
                | None \<Rightarrow> (\<lparr>conn_handle = Some h, conn_target = target, conn_error = []\<rparr>, w3)))"

text \<open>\<open>None\<close>: the ping succeeded; otherwise the error text.\<close>

definition PingRedis :: "'w env \<Rightarrow> redis_handle \<Rightarrow> 'w \<Rightarrow> string option \<times> 'w" where
  "PingRedis E h w = (let (r, w') = redisFormat E h ''PING'' w in
     case r of
       None \<Rightarrow> (Some (redis_error E h ''redis PING failed'' w'), w')
     | Some (REDIS_ERROR e) \<Rightarrow> (Some e, w')
     | Some _ \<Rightarrow> (None, w'))"

definition CloseRedis :: "'w env \<Rightarrow> redis_handle option \<Rightarrow> 'w \<Rightarrow> 'w" where
  "CloseRedis E h w = (case h of None \<Rightarrow> w | Some c \<Rightarrow> redisFree E c w)"

definition ConnectMaria :: "'w env \<Rightarrow> MariaConfiguration \<Rightarrow> 'w \<Rightarrow> maria_handle connect_result \<times> 'w" where
  "ConnectMaria E c w = (let target = maria_host c @ '':'' @ to_string (maria_port c) in
     if maria_host c = [] then (connect_failed target ''maria host must not be empty'', w)
     else if maria_port c = 0 then (connect_failed target ''maria port must be greater than 0'', w)
     else let (m, w1) = mysql_init E w in
     case m of
       None \<Rightarrow> (connect_failed target ''mysql_init failed'', w1)
     | Some h \<Rightarrow>
         let (connected, w2) = mysql_real_connect E h c w1 in
         if \<not> connected then (connect_failed target (mysql_error E h w2), mysql_close E h w2)
         else (\<lparr>conn_handle = Some h, conn_target = target, conn_error = []\<rparr>, w2))"

definition PingMaria :: "'w env \<Rightarrow> maria_handle \<Rightarrow> 'w \<Rightarrow> string option \<times> 'w" where
  "PingMaria E h w = (let (rc, w') = mysql_ping E h w in
     if rc \<noteq> 0 then (Some (mysql_error E h w'), w') else (None, w'))"

definition CloseMaria :: "'w env \<Rightarrow> maria_handle option \<Rightarrow> 'w \<Rightarrow> 'w" where
  "CloseMaria E h w = (case h of None \<Rightarrow> w | Some m \<Rightarrow> mysql_close E m w)"

record ConnectionProbeStatus =
  status_name :: string
  status_target :: string
  reachable :: bool
  status_error :: string

definition ProbeMariaConnection :: "'w env \<Rightarrow> string \<Rightarrow> MariaConfiguration \<Rightarrow> 'w \<Rightarrow> ConnectionProbeStatus \<times> 'w" where
  "ProbeMariaConnection E name c w =
     (let (r, w1) = ConnectMaria E c w;
          status = \<lparr>status_name = name, status_target = conn_target r, reachable = False, status_error = conn_error r\<rparr> in
      case conn_handle r of
        None \<Rightarrow> (status, w1)
      | Some h \<Rightarrow>
          let (e, w2) = PingMaria E h w1 in
          (case e of
            Some text \<Rightarrow> (status\<lparr>status_error := text\<rparr>, CloseMaria E (Some h) w2)
          | None \<Rightarrow> (status\<lparr>reachable := True\<rparr>, CloseMaria E (Some h) w2)))"

definition ProbeRedisConnection :: "'w env \<Rightarrow> string \<Rightarrow> RedisConfiguration \<Rightarrow> 'w \<Rightarrow> ConnectionProbeStatus \<times> 'w" where
  "ProbeRedisConnection E name c w =
     (let (r, w1) = ConnectRedis E c w;
          status = \<lparr>status_name = name, status_target = conn_target r, reachable = False, status_error = conn_error r\<rparr> in
      case conn_handle r of
        None \<Rightarrow> (status, w1)
      | Some h \<Rightarrow>
          let (e, w2) = PingRedis E h w1 in
          (case e of
            Some text \<Rightarrow> (status\<lparr>status_error := text\<rparr>, CloseRedis E (Some h) w2)
          | None \<Rightarrow> (status\<lparr>reachable := True\<rparr>, CloseRedis E (Some h) w2)))"

section \<open>Facts\<close>

lemma rfind_last:
  assumes "c \<notin> set b"
  shows "rfind c (a @ c # b) = Some (length a)"
proof -
  have "takeWhile (\<lambda>x. x \<noteq> c) (rev (a @ c # b)) = rev b"
    using takeWhile_append2 [of "rev b" "\<lambda>x. x \<noteq> c" "c # rev a"] assms by auto
  then show ?thesis by (simp add: rfind_def)
qed

lemma ParsePort_to_string: "ParsePort (to_string (p :: u16)) = Some p"
proof -
  have "stoull (to_string p) = Inr (ucast p)" by (rule stoull_to_string) simp
  moreover have "\<not> (ucast p :: u64) > 65535"
  proof -
    have "unat p < 65536" using unsigned_less [of p] by simp
    then show ?thesis by (simp add: word_less_nat_alt unsigned_ucast_eq take_bit_nat_eq_self)
  qed
  moreover have "ucast (ucast p :: u64) = p"
    by (rule bit_word_eqI) (auto simp: bit_simps)
  ultimately show ?thesis by (simp add: ParsePort_def)
qed

text \<open>An endpoint written as \<open>host:port\<close> is read back, also when the host contains colons.\<close>

lemma ParseRedisEndpoint_roundtrip:
  assumes "hst \<noteq> []" and "redis_endpoints c = (hst @ CHR '':'' # to_string prt) # rest"
  shows "ParseRedisEndpoint c = Inr (hst, prt)"
  using assms by (simp add: ParseRedisEndpoint_def rfind_last ParsePort_to_string)

text \<open>A result with a handle carries no error, and one without a handle explains why.\<close>

lemma ConnectMaria_error:
  assumes "ConnectMaria E c w = (r, w')" and "conn_handle r \<noteq> None"
  shows "conn_error r = [] \<and> maria_host c \<noteq> [] \<and> maria_port c \<noteq> 0"
  using assms
  by (auto simp: ConnectMaria_def connect_failed_def Let_def split: if_splits option.splits prod.splits)

lemma ConnectRedis_ok:
  assumes "ConnectRedis E c w = (r, w')" and "conn_handle r \<noteq> None"
  shows "conn_error r = [] \<and> (\<exists>hp. ParseRedisEndpoint c = Inr hp)"
  using assms
  by (auto simp: ConnectRedis_def connect_failed_def Let_def split: if_splits option.splits prod.splits sum.splits)

end
