(* ===== verification/Storage.thy ===== *)
theory Storage
  imports Connectivity
begin

text \<open>
  The storage layer (src/src/framework/storage): the resolution of the dataset configuration and
  \<^verbatim>\<open>StorageService\<close>, which keeps a dataset in MariaDB with Redis in front of it. The result of a storage command
  has the fields of \<^verbatim>\<open>ipc::Result\<close>. An out-parameter is part of the result.
\<close>

section \<open>Configuration\<close>

record DatasetTimingConfiguration =
  alive_time_seconds :: u32
  landing_time_seconds :: u32
  landing_min_time_seconds :: u32

record DatasetConfiguration =
  ds_redis :: string
  ds_maria :: string
  ds_redis_prefix :: string
  ds_table_prefix :: string
  ds_timing :: DatasetTimingConfiguration

record StorageConfiguration =
  defaults :: DatasetTimingConfiguration
  datasets :: "(string \<times> DatasetConfiguration) list"

record ResolvedDatasetConfiguration =
  rd_name :: string
  redis_name :: string
  maria_name :: string
  rd_redis :: RedisConfiguration
  rd_maria :: MariaConfiguration
  redis_prefix :: string
  table_prefix :: string
  full_redis_prefix :: string
  timing :: DatasetTimingConfiguration

type_synonym ResolvedStorageConfiguration = "(string \<times> ResolvedDatasetConfiguration) list"

definition isalnum :: "char \<Rightarrow> bool" where
  "isalnum c \<longleftrightarrow> (let n = of_char c :: nat in 48 \<le> n \<and> n \<le> 57 \<or> 65 \<le> n \<and> n \<le> 90 \<or> 97 \<le> n \<and> n \<le> 122)"

definition IsSafeTablePrefix :: "string \<Rightarrow> bool" where
  "IsSafeTablePrefix text \<longleftrightarrow> list_all (\<lambda>c. isalnum c \<or> c = CHR ''_'') text \<and> text \<noteq> []"

definition IsSafeSqlIdentifier :: "string \<Rightarrow> bool" where
  "IsSafeSqlIdentifier text \<longleftrightarrow> text \<noteq> [] \<and> list_all (\<lambda>c. isalnum c \<or> c = CHR ''_'') text"

definition ResolveTimingValue :: "u32 \<Rightarrow> u32 \<Rightarrow> u32" where
  "ResolveTimingValue dataset_value default_value = (if dataset_value \<noteq> 0 then dataset_value else default_value)"

definition resolve_timing :: "DatasetTimingConfiguration \<Rightarrow> DatasetTimingConfiguration \<Rightarrow> DatasetTimingConfiguration" where
  "resolve_timing t d =
     \<lparr>alive_time_seconds = ResolveTimingValue (alive_time_seconds t) (alive_time_seconds d),
      landing_time_seconds = ResolveTimingValue (landing_time_seconds t) (landing_time_seconds d),
      landing_min_time_seconds = ResolveTimingValue (landing_min_time_seconds t) (landing_min_time_seconds d)\<rparr>"

text \<open>The body of the loop for one dataset: its error text, or the resolved item.\<close>

definition resolve_dataset :: "(string \<times> RedisConfiguration) list \<Rightarrow> (string \<times> MariaConfiguration) list
    \<Rightarrow> DatasetTimingConfiguration \<Rightarrow> string \<Rightarrow> DatasetConfiguration \<Rightarrow> string + ResolvedDatasetConfiguration" where
  "resolve_dataset redis maria defs name d = (let at = ''storage.datasets.'' @ name in
     if ds_redis d = [] then Inl (at @ ''.redis must not be empty'')
     else if ds_maria d = [] then Inl (at @ ''.maria must not be empty'')
     else if ds_redis_prefix d = [] then Inl (at @ ''.redis_prefix must not be empty'')
     else if ds_table_prefix d = [] then Inl (at @ ''.table_prefix must not be empty'')
     else if \<not> IsSafeTablePrefix (ds_table_prefix d)
       then Inl (at @ ''.table_prefix must contain only [A-Za-z0-9_]'')
     else case map_of redis (ds_redis d) of
       None \<Rightarrow> Inl (at @ ''.redis references unknown profile '' @ [CHR 0x27] @ ds_redis d @ [CHR 0x27])
     | Some r \<Rightarrow> (case map_of maria (ds_maria d) of
         None \<Rightarrow> Inl (at @ ''.maria references unknown profile '' @ [CHR 0x27] @ ds_maria d @ [CHR 0x27])
       | Some m \<Rightarrow>
           let t = resolve_timing (ds_timing d) defs;
               item = \<lparr>rd_name = name, redis_name = ds_redis d, maria_name = ds_maria d, rd_redis = r, rd_maria = m,
                       redis_prefix = ds_redis_prefix d, table_prefix = ds_table_prefix d,
                       full_redis_prefix = key_prefix r @ ds_redis_prefix d, timing = t\<rparr> in
           if alive_time_seconds t = 0 then Inl (at @ '' resolved alive_time_seconds must be greater than 0'')
           else if landing_time_seconds t = 0 then Inl (at @ '' resolved landing_time_seconds must be greater than 0'')
           else if landing_min_time_seconds t = 0
             then Inl (at @ '' resolved landing_min_time_seconds must be greater than 0'')
           else Inr item))"

text \<open>\<^verbatim>\<open>AddDataset\<close> is \<^verbatim>\<open>emplace\<close>: a name that is already present keeps its first item.\<close>

definition AddDataset :: "ResolvedDatasetConfiguration \<Rightarrow> ResolvedStorageConfiguration \<Rightarrow> ResolvedStorageConfiguration" where
  "AddDataset item r = (case map_of r (rd_name item) of None \<Rightarrow> AList.update (rd_name item) item r | Some _ \<Rightarrow> r)"

fun resolve_all :: "(string \<times> RedisConfiguration) list \<Rightarrow> (string \<times> MariaConfiguration) list
    \<Rightarrow> DatasetTimingConfiguration \<Rightarrow> (string \<times> DatasetConfiguration) list
    \<Rightarrow> ResolvedStorageConfiguration \<Rightarrow> string + ResolvedStorageConfiguration" where
  "resolve_all redis maria defs [] resolved = Inr resolved"
| "resolve_all redis maria defs ((name, d) # ds) resolved = (case resolve_dataset redis maria defs name d of
      Inl e \<Rightarrow> Inl e
    | Inr item \<Rightarrow> resolve_all redis maria defs ds (AddDataset item resolved))"

text \<open>The flag, the resolved configuration and the error text; on failure the configuration is cleared.\<close>

definition ResolveStorageConfiguration :: "(string \<times> RedisConfiguration) list \<Rightarrow> (string \<times> MariaConfiguration) list
    \<Rightarrow> StorageConfiguration \<Rightarrow> string \<Rightarrow> bool \<times> ResolvedStorageConfiguration \<times> string" where
  "ResolveStorageConfiguration redis maria storage err =
     (case resolve_all redis maria (defaults storage) (datasets storage) [] of
       Inl e \<Rightarrow> (False, [], e)
     | Inr r \<Rightarrow> (True, r, err))"

definition FindDataset :: "ResolvedStorageConfiguration \<Rightarrow> string \<Rightarrow> ResolvedDatasetConfiguration option" where
  "FindDataset r name = map_of r name"

section \<open>The service\<close>

record redis_conn =
  rc_configuration :: "RedisConfiguration option"
  rc_context :: "redis_handle option"
  rc_status :: ConnectionProbeStatus

record maria_conn =
  mc_configuration :: "MariaConfiguration option"
  mc_handle :: "maria_handle option"
  mc_status :: ConnectionProbeStatus

record StorageService =
  mConfiguration :: ResolvedStorageConfiguration
  mRedisConnections :: "(string \<times> redis_conn) list"
  mMariaConnections :: "(string \<times> maria_conn) list"
  mDisabledMariaTargets :: "string list"

definition default_status :: ConnectionProbeStatus where
  "default_status = \<lparr>status_name = [], status_target = [], reachable = False, status_error = []\<rparr>"

definition StorageService_new :: "ResolvedStorageConfiguration \<Rightarrow> StorageService" where
  "StorageService_new c =
     \<lparr>mConfiguration = c,
      mRedisConnections = foldl (\<lambda>m (_, d). AList.update (redis_name d)
        \<lparr>rc_configuration = Some (rd_redis d), rc_context = None, rc_status = default_status\<lparr>status_name := redis_name d\<rparr>\<rparr> m) [] c,
      mMariaConnections = foldl (\<lambda>m (_, d). AList.update (maria_name d)
        \<lparr>mc_configuration = Some (rd_maria d), mc_handle = None, mc_status = default_status\<lparr>status_name := maria_name d\<rparr>\<rparr> m) [] c,
      mDisabledMariaTargets = []\<rparr>"

definition storage_ok :: "string \<Rightarrow> result" where
  "storage_ok m = \<lparr>ok = True, message = m\<rparr>"

lemma storage_ok_sel [simp]: "ok (storage_ok m)" "message (storage_ok m) = m" "storage_ok m \<noteq> Failure e"
  by (simp_all add: storage_ok_def Failure_def)

definition GetRedis :: "StorageService \<Rightarrow> string \<Rightarrow> redis_handle option" where
  "GetRedis S name = (case map_of (mRedisConnections S) name of None \<Rightarrow> None | Some c \<Rightarrow> rc_context c)"

definition GetMaria :: "StorageService \<Rightarrow> string \<Rightarrow> maria_handle option" where
  "GetMaria S name = (case map_of (mMariaConnections S) name of
      None \<Rightarrow> None
    | Some c \<Rightarrow> if name \<in> set (mDisabledMariaTargets S) then None else mc_handle c)"

definition GetDataset :: "StorageService \<Rightarrow> string \<Rightarrow> ResolvedDatasetConfiguration option" where
  "GetDataset S name = FindDataset (mConfiguration S) name"

definition GetRedisForDataset :: "StorageService \<Rightarrow> string \<Rightarrow> redis_handle option" where
  "GetRedisForDataset S name = (case GetDataset S name of None \<Rightarrow> None | Some d \<Rightarrow> GetRedis S (redis_name d))"

definition GetMariaForDataset :: "StorageService \<Rightarrow> string \<Rightarrow> maria_handle option" where
  "GetMariaForDataset S name = (case GetDataset S name of None \<Rightarrow> None | Some d \<Rightarrow> GetMaria S (maria_name d))"

definition BuildRedisKey :: "StorageService \<Rightarrow> string \<Rightarrow> string \<Rightarrow> string" where
  "BuildRedisKey S name suffix = (case GetDataset S name of None \<Rightarrow> [] | Some d \<Rightarrow> full_redis_prefix d @ suffix)"

definition BuildMariaEntriesTableName :: "StorageService \<Rightarrow> string \<Rightarrow> string" where
  "BuildMariaEntriesTableName S name = (case GetDataset S name of
      None \<Rightarrow> []
    | Some d \<Rightarrow> if \<not> IsSafeSqlIdentifier (table_prefix d) then [] else table_prefix d @ ''entries'')"

section \<open>Redis commands\<close>

text \<open>The guards all Redis commands of the service share.\<close>

definition with_redis :: "StorageService \<Rightarrow> string \<Rightarrow> string \<Rightarrow> (redis_handle \<Rightarrow> string \<Rightarrow> 'w \<Rightarrow> result \<times> 'a \<times> 'w)
    \<Rightarrow> 'a \<Rightarrow> 'w \<Rightarrow> result \<times> 'a \<times> 'w" where
  "with_redis S name suffix f v w = (case GetRedisForDataset S name of
      None \<Rightarrow> (Failure ''redis connection is unavailable'', v, w)
    | Some h \<Rightarrow>
        if BuildRedisKey S name suffix = [] then (Failure ''dataset is unknown'', v, w)
        else f h (BuildRedisKey S name suffix) w)"

definition str_or :: "redis_reply \<Rightarrow> string \<Rightarrow> string" where
  "str_or r fallback = (case reply_str r of Some s \<Rightarrow> s | None \<Rightarrow> fallback)"

definition status_result :: "redis_reply \<Rightarrow> string \<Rightarrow> result" where
  "status_result r failed = (if r = REDIS_STATUS ''OK'' then storage_ok ''OK'' else Failure (str_or r failed))"

definition RedisSet :: "'w env \<Rightarrow> StorageService \<Rightarrow> string \<Rightarrow> string \<Rightarrow> string \<Rightarrow> 'w \<Rightarrow> result \<times> unit \<times> 'w" where
  "RedisSet E S name suffix value = with_redis S name suffix (\<lambda>h key w.
     let (reply, w') = redisCommand E h [''SET'', key, value] w in
     case reply of
       None \<Rightarrow> (Failure (redis_error E h ''redis SET failed'' w'), (), w')
     | Some r \<Rightarrow> (status_result r ''redis SET failed'', (), w')) ()"

definition RedisSetIfAbsent :: "'w env \<Rightarrow> StorageService \<Rightarrow> string \<Rightarrow> string \<Rightarrow> string \<Rightarrow> 'w \<Rightarrow> result \<times> unit \<times> 'w" where
  "RedisSetIfAbsent E S name suffix value = with_redis S name suffix (\<lambda>h key w.
     let (reply, w') = redisCommand E h [''SET'', key, value, ''NX''] w in
     case reply of
       None \<Rightarrow> (Failure (redis_error E h ''redis SET NX failed'' w'), (), w')
     | Some r \<Rightarrow> (if r = REDIS_NIL then Failure ''exists'' else status_result r ''redis SET NX failed'', (), w')) ()"

definition RedisGet :: "'w env \<Rightarrow> StorageService \<Rightarrow> string \<Rightarrow> string \<Rightarrow> string \<Rightarrow> 'w \<Rightarrow> result \<times> string \<times> 'w" where
  "RedisGet E S name suffix value = with_redis S name suffix (\<lambda>h key w.
     let (reply, w') = redisCommand E h [''GET'', key] w in
     case reply of
       None \<Rightarrow> (Failure (redis_error E h ''redis GET failed'' w'), value, w')
     | Some r \<Rightarrow> (case r of
         REDIS_NIL \<Rightarrow> (Failure ''nil'', value, w')
       | REDIS_STRING s \<Rightarrow> (storage_ok ''OK'', s, w')
       | _ \<Rightarrow> (Failure (str_or r ''redis GET returned unexpected reply''), value, w'))) value"

definition RedisDelete :: "'w env \<Rightarrow> StorageService \<Rightarrow> string \<Rightarrow> string \<Rightarrow> 'w \<Rightarrow> result \<times> unit \<times> 'w" where
  "RedisDelete E S name suffix = with_redis S name suffix (\<lambda>h key w.
     let (reply, w') = redisCommand E h [''DEL'', key] w in
     case reply of
       None \<Rightarrow> (Failure (redis_error E h ''redis DEL failed'' w'), (), w')
     | Some r \<Rightarrow> (case r of
         REDIS_INTEGER n \<Rightarrow> (storage_ok (''deleted='' @ show_int n), (), w')
       | _ \<Rightarrow> (Failure (str_or r ''redis DEL returned unexpected reply''), (), w'))) ()"

definition RedisIncrement :: "'w env \<Rightarrow> StorageService \<Rightarrow> string \<Rightarrow> string \<Rightarrow> int \<Rightarrow> int \<Rightarrow> 'w \<Rightarrow> result \<times> int \<times> 'w" where
  "RedisIncrement E S name suffix delta value = with_redis S name suffix (\<lambda>h key w.
     let (reply, w') = redisCommand E h [''INCRBY'', key, show_int delta] w in
     case reply of
       None \<Rightarrow> (Failure (redis_error E h ''redis INCRBY failed'' w'), value, w')
     | Some r \<Rightarrow> (case r of
         REDIS_INTEGER n \<Rightarrow> (storage_ok ''OK'', n, w')
       | _ \<Rightarrow> (Failure (str_or r ''redis INCRBY returned unexpected reply''), value, w'))) value"

section \<open>Datasets\<close>

definition create_sql :: "string \<Rightarrow> string" where
  "create_sql table = ''CREATE TABLE IF NOT EXISTS `'' @ table @ ''` ('' @ ''`entry_key` VARCHAR(255) NOT NULL,'' @
     ''`entry_value` LONGBLOB NOT NULL,'' @
     ''`updated_at` TIMESTAMP NOT NULL DEFAULT CURRENT_TIMESTAMP ON UPDATE CURRENT_TIMESTAMP,'' @
     ''PRIMARY KEY (`entry_key`)'' @ '')''"

definition alter_sql :: "string \<Rightarrow> string" where
  "alter_sql table = ''ALTER TABLE `'' @ table @ ''` MODIFY COLUMN `entry_value` LONGBLOB NOT NULL''"

definition sq :: string where "sq = [CHR 0x27]"

definition insert_sql :: "string \<Rightarrow> string \<Rightarrow> string \<Rightarrow> string" where
  "insert_sql table k v = ''INSERT INTO `'' @ table @ ''` (`entry_key`, `entry_value`) VALUES ('' @ sq @ k @ sq @ '', '' @
     sq @ v @ sq @ '') ON DUPLICATE KEY UPDATE `entry_value`=VALUES(`entry_value`)''"

definition select_sql :: "string \<Rightarrow> string \<Rightarrow> string" where
  "select_sql table k = ''SELECT `entry_value` FROM `'' @ table @ ''` WHERE `entry_key`='' @ sq @ k @ sq @ '' LIMIT 1''"

definition delete_sql :: "string \<Rightarrow> string \<Rightarrow> string" where
  "delete_sql table k = ''DELETE FROM `'' @ table @ ''` WHERE `entry_key`='' @ sq @ k @ sq"

definition EscapeMariaLiteral :: "'w env \<Rightarrow> maria_handle \<Rightarrow> string \<Rightarrow> 'w \<Rightarrow> string" where
  "EscapeMariaLiteral E h text w = mysql_escape E h text w"

definition EnsureMariaEntriesTable :: "'w env \<Rightarrow> StorageService \<Rightarrow> string \<Rightarrow> 'w \<Rightarrow> result \<times> 'w" where
  "EnsureMariaEntriesTable E S name w = (case GetMariaForDataset S name of
      None \<Rightarrow> (Failure ''maria connection is unavailable'', w)
    | Some h \<Rightarrow>
        let table = BuildMariaEntriesTableName S name in
        if table = [] then (Failure ''dataset table_prefix is invalid'', w)
        else let (rc, w') = mysql_query E h (create_sql table) w in
        if rc \<noteq> 0 then (Failure (mysql_error E h w'), w') else (storage_ok ''OK'', w'))"

definition MigrateMariaEntriesTableToBinary :: "'w env \<Rightarrow> StorageService \<Rightarrow> string \<Rightarrow> 'w \<Rightarrow> result \<times> 'w" where
  "MigrateMariaEntriesTableToBinary E S name w = (case GetMariaForDataset S name of
      None \<Rightarrow> (Failure ''maria connection is unavailable'', w)
    | Some h \<Rightarrow>
        let (ensure, w1) = EnsureMariaEntriesTable E S name w in
        if \<not> ok ensure then (ensure, w1)
        else let table = BuildMariaEntriesTableName S name in
        if table = [] then (Failure ''dataset table_prefix is invalid'', w1)
        else let (rc, w2) = mysql_query E h (alter_sql table) w1 in
        if rc \<noteq> 0 then (Failure (mysql_error E h w2), w2) else (storage_ok ''OK'', w2))"

definition entries_suffix :: "string \<Rightarrow> string" where
  "entries_suffix k = ''entries:'' @ k"

definition DatasetPut :: "'w env \<Rightarrow> StorageService \<Rightarrow> string \<Rightarrow> string \<Rightarrow> string \<Rightarrow> 'w \<Rightarrow> result \<times> 'w" where
  "DatasetPut E S name k v w = (case GetMariaForDataset S name of
      None \<Rightarrow> (Failure ''maria connection is unavailable'', w)
    | Some h \<Rightarrow>
        if k = [] then (Failure ''entry_key must not be empty'', w)
        else let (ensure, w1) = EnsureMariaEntriesTable E S name w in
        if \<not> ok ensure then (ensure, w1)
        else let (rc, w2) = mysql_query E h (insert_sql (BuildMariaEntriesTableName S name)
                   (EscapeMariaLiteral E h k w1) (EscapeMariaLiteral E h v w1)) w1 in
        if rc \<noteq> 0 then (Failure (mysql_error E h w2), w2)
        else let (redis, _, w3) = RedisSet E S name (entries_suffix k) v w2 in
        (storage_ok (if ok redis then ''OK'' else ''maria=OK redis='' @ message redis), w3))"

definition DatasetGet :: "'w env \<Rightarrow> StorageService \<Rightarrow> string \<Rightarrow> string \<Rightarrow> string \<Rightarrow> 'w \<Rightarrow> result \<times> string \<times> 'w" where
  "DatasetGet E S name k value w =
     (if k = [] then (Failure ''entry_key must not be empty'', value, w)
      else let (redis, value, w1) = RedisGet E S name (entries_suffix k) value w in
      if ok redis then (storage_ok ''redis'', value, w1)
      else if message redis \<noteq> ''nil'' then (redis, value, w1)
      else case GetMariaForDataset S name of
        None \<Rightarrow> (Failure ''maria connection is unavailable'', value, w1)
      | Some h \<Rightarrow>
          let (ensure, w2) = EnsureMariaEntriesTable E S name w1 in
          if \<not> ok ensure then (ensure, value, w2)
          else let (rc, w3) = mysql_query E h (select_sql (BuildMariaEntriesTableName S name)
                     (EscapeMariaLiteral E h k w2)) w2 in
          if rc \<noteq> 0 then (Failure (mysql_error E h w3), value, w3)
          else let (rows, w4) = mysql_rows E h w3 in
          case rows of
            None \<Rightarrow> (Failure (mysql_error E h w4), value, w4)
          | Some ((Some v # _) # _) \<Rightarrow>
              (let (_, _, w5) = RedisSet E S name (entries_suffix k) v w4 in (storage_ok ''maria'', v, w5))
          | Some _ \<Rightarrow> (Failure ''not found'', value, w4))"

definition DatasetDelete :: "'w env \<Rightarrow> StorageService \<Rightarrow> string \<Rightarrow> string \<Rightarrow> 'w \<Rightarrow> result \<times> 'w" where
  "DatasetDelete E S name k w = (case GetMariaForDataset S name of
      None \<Rightarrow> (Failure ''maria connection is unavailable'', w)
    | Some h \<Rightarrow>
        if k = [] then (Failure ''entry_key must not be empty'', w)
        else let (ensure, w1) = EnsureMariaEntriesTable E S name w in
        if \<not> ok ensure then (ensure, w1)
        else let (rc, w2) = mysql_query E h (delete_sql (BuildMariaEntriesTableName S name)
                   (EscapeMariaLiteral E h k w1)) w1 in
        if rc \<noteq> 0 then (Failure (mysql_error E h w2), w2)
        else let (redis, _, w3) = RedisDelete E S name (entries_suffix k) w2 in
        (storage_ok (if ok redis then ''OK'' else ''maria=OK redis='' @ message redis), w3))"

definition show_field :: "string option \<Rightarrow> string" where
  "show_field f = (case f of None \<Rightarrow> ''NULL'' | Some s \<Rightarrow> s)"

fun join_with :: "string \<Rightarrow> string list \<Rightarrow> string" where
  "join_with sep [] = []"
| "join_with sep [x] = x"
| "join_with sep (x # xs) = x @ sep @ join_with sep xs"

definition show_rows :: "string option list list \<Rightarrow> string" where
  "show_rows rows = join_with '' | '' (map (\<lambda>(i, row). ''row'' @ show_nat i @ ''='' @ join_with '','' (map show_field row))
     (enumerate 0 rows))"

definition MariaExecute :: "'w env \<Rightarrow> StorageService \<Rightarrow> string \<Rightarrow> string \<Rightarrow> string \<Rightarrow> 'w \<Rightarrow> result \<times> string \<times> 'w" where
  "MariaExecute E S name sql summary w = (case GetMariaForDataset S name of
      None \<Rightarrow> (Failure ''maria connection is unavailable'', summary, w)
    | Some h \<Rightarrow>
        if sql = [] then (Failure ''sql must not be empty'', summary, w)
        else let (rc, w1) = mysql_query E h sql w in
        if rc \<noteq> 0 then (Failure (mysql_error E h w1), summary, w1)
        else let (rows, w2) = mysql_rows E h w1 in
        case rows of
          None \<Rightarrow>
            if mysql_field_count E h w2 = 0
            then (storage_ok ''OK'', ''affected_rows='' @ show_nat (mysql_affected_rows E h w2), w2)
            else (Failure (mysql_error E h w2), summary, w2)
        | Some rs \<Rightarrow>
            let shown = take 10 rs; text = show_rows shown in
            (storage_ok ''OK'', ''rows='' @ show_nat (length shown) @ (if text = [] then [] else CHR '' '' # text), w2))"

section \<open>Connections\<close>

definition DisableMariaTarget :: "'w env \<Rightarrow> string \<Rightarrow> StorageService \<times> 'w \<Rightarrow> bool \<times> StorageService \<times> 'w" where
  "DisableMariaTarget E name s = (let (S, w) = s in
     case map_of (mMariaConnections S) name of
       None \<Rightarrow> (False, S, w)
     | Some c \<Rightarrow> (True, S\<lparr>mDisabledMariaTargets := List.insert name (mDisabledMariaTargets S),
         mMariaConnections := AList.update name (c\<lparr>mc_handle := None,
           mc_status := (mc_status c)\<lparr>reachable := False, status_error := ''disabled by runtime command''\<rparr>\<rparr>)
           (mMariaConnections S)\<rparr>, CloseMaria E (mc_handle c) w))"

definition EnableMariaTarget :: "string \<Rightarrow> StorageService \<Rightarrow> bool \<times> StorageService" where
  "EnableMariaTarget name S = (case map_of (mMariaConnections S) name of
      None \<Rightarrow> (False, S)
    | Some c \<Rightarrow> (name \<in> set (mDisabledMariaTargets S),
        S\<lparr>mDisabledMariaTargets := removeAll name (mDisabledMariaTargets S)\<rparr>))"

definition IsMariaTargetDisabled :: "StorageService \<Rightarrow> string \<Rightarrow> bool" where
  "IsMariaTargetDisabled S name \<longleftrightarrow> name \<in> set (mDisabledMariaTargets S)"

definition reconnect_redis :: "'w env \<Rightarrow> RedisConfiguration \<Rightarrow> redis_conn \<Rightarrow> 'w \<Rightarrow> redis_conn \<times> 'w" where
  "reconnect_redis E c st w =
     (let (r, w1) = ConnectRedis E c w;
          status = (rc_status st)\<lparr>status_target := conn_target r, status_error := conn_error r\<rparr> in
      case conn_handle r of
        None \<Rightarrow> (st\<lparr>rc_context := None, rc_status := status\<lparr>reachable := False\<rparr>\<rparr>, w1)
      | Some h \<Rightarrow>
          let (e, w2) = PingRedis E h w1 in
          (case e of
            Some text \<Rightarrow> (st\<lparr>rc_context := None, rc_status := status\<lparr>reachable := False, status_error := text\<rparr>\<rparr>, CloseRedis E (Some h) w2)
          | None \<Rightarrow> (st\<lparr>rc_context := Some h, rc_status := status\<lparr>reachable := True, status_error := []\<rparr>\<rparr>, w2)))"

definition RefreshRedisConnection :: "'w env \<Rightarrow> string \<Rightarrow> redis_conn \<Rightarrow> 'w \<Rightarrow> redis_conn \<times> 'w" where
  "RefreshRedisConnection E name st0 w =
     (let st = st0\<lparr>rc_status := (rc_status st0)\<lparr>status_name := name\<rparr>\<rparr> in
      case rc_configuration st of
        None \<Rightarrow> (st\<lparr>rc_status := (rc_status st)\<lparr>reachable := False, status_error := ''redis configuration is missing''\<rparr>\<rparr>, w)
      | Some c \<Rightarrow> (case rc_context st of
          None \<Rightarrow> reconnect_redis E c st w
        | Some h \<Rightarrow>
            let (e, w1) = PingRedis E h w in
            (case e of
              None \<Rightarrow> (st\<lparr>rc_status := (rc_status st)\<lparr>reachable := True, status_error := []\<rparr>\<rparr>, w1)
            | Some text \<Rightarrow> reconnect_redis E c
                (st\<lparr>rc_context := None, rc_status := (rc_status st)\<lparr>status_error := text\<rparr>\<rparr>) (CloseRedis E (Some h) w1))))"

definition reconnect_maria :: "'w env \<Rightarrow> MariaConfiguration \<Rightarrow> maria_conn \<Rightarrow> 'w \<Rightarrow> maria_conn \<times> 'w" where
  "reconnect_maria E c st w =
     (let (r, w1) = ConnectMaria E c w;
          status = (mc_status st)\<lparr>status_target := conn_target r, status_error := conn_error r\<rparr> in
      case conn_handle r of
        None \<Rightarrow> (st\<lparr>mc_handle := None, mc_status := status\<lparr>reachable := False\<rparr>\<rparr>, w1)
      | Some h \<Rightarrow>
          let (e, w2) = PingMaria E h w1 in
          (case e of
            Some text \<Rightarrow> (st\<lparr>mc_handle := None, mc_status := status\<lparr>reachable := False, status_error := text\<rparr>\<rparr>, CloseMaria E (Some h) w2)
          | None \<Rightarrow> (st\<lparr>mc_handle := Some h, mc_status := status\<lparr>reachable := True, status_error := []\<rparr>\<rparr>, w2)))"

definition RefreshMariaConnection :: "'w env \<Rightarrow> string list \<Rightarrow> string \<Rightarrow> maria_conn \<Rightarrow> 'w \<Rightarrow> maria_conn \<times> 'w" where
  "RefreshMariaConnection E disabled name st0 w =
     (let st = st0\<lparr>mc_status := (mc_status st0)\<lparr>status_name := name\<rparr>\<rparr> in
      if name \<in> set disabled
      then (st\<lparr>mc_handle := None, mc_status := (mc_status st)\<lparr>reachable := False,
              status_error := ''disabled by runtime command''\<rparr>\<rparr>, CloseMaria E (mc_handle st) w)
      else case mc_configuration st of
        None \<Rightarrow> (st\<lparr>mc_status := (mc_status st)\<lparr>reachable := False, status_error := ''maria configuration is missing''\<rparr>\<rparr>, w)
      | Some c \<Rightarrow> (case mc_handle st of
          None \<Rightarrow> reconnect_maria E c st w
        | Some h \<Rightarrow>
            let (e, w1) = PingMaria E h w in
            (case e of
              None \<Rightarrow> (st\<lparr>mc_status := (mc_status st)\<lparr>reachable := True, status_error := []\<rparr>\<rparr>, w1)
            | Some text \<Rightarrow> reconnect_maria E c
                (st\<lparr>mc_handle := None, mc_status := (mc_status st)\<lparr>status_error := text\<rparr>\<rparr>) (CloseMaria E (Some h) w1))))"

fun map_world :: "('k \<Rightarrow> 'v \<Rightarrow> 'w \<Rightarrow> 'v \<times> 'w) \<Rightarrow> ('k \<times> 'v) list \<Rightarrow> 'w \<Rightarrow> ('k \<times> 'v) list \<times> 'w" where
  "map_world f [] w = ([], w)"
| "map_world f ((k, v) # m) w = (let (v', w1) = f k v w; (m', w2) = map_world f m w1 in ((k, v') # m', w2))"

definition RefreshConnections :: "'w env \<Rightarrow> StorageService \<times> 'w \<Rightarrow> StorageService \<times> 'w" where
  "RefreshConnections E s = (let (S, w) = s;
     (rs, w1) = map_world (RefreshRedisConnection E) (mRedisConnections S) w;
     (ms, w2) = map_world (RefreshMariaConnection E (mDisabledMariaTargets S)) (mMariaConnections S) w1
     in (S\<lparr>mRedisConnections := rs, mMariaConnections := ms\<rparr>, w2))"

definition CloseConnections :: "'w env \<Rightarrow> StorageService \<times> 'w \<Rightarrow> StorageService \<times> 'w" where
  "CloseConnections E s = (let (S, w) = s;
     (rs, w1) = map_world (\<lambda>_ c w. (c\<lparr>rc_context := None, rc_status := (rc_status c)\<lparr>reachable := False\<rparr>\<rparr>, CloseRedis E (rc_context c) w))
       (mRedisConnections S) w;
     (ms, w2) = map_world (\<lambda>_ c w. (c\<lparr>mc_handle := None, mc_status := (mc_status c)\<lparr>reachable := False\<rparr>\<rparr>, CloseMaria E (mc_handle c) w))
       (mMariaConnections S) w1
     in (S\<lparr>mRedisConnections := rs, mMariaConnections := ms\<rparr>, w2))"

section \<open>Resolution is complete and sound\<close>

definition resolved_ok :: "(string \<times> RedisConfiguration) list \<Rightarrow> (string \<times> MariaConfiguration) list \<Rightarrow> ResolvedDatasetConfiguration \<Rightarrow> bool" where
  "resolved_ok redis maria d \<longleftrightarrow>
     map_of redis (redis_name d) = Some (rd_redis d) \<and> map_of maria (maria_name d) = Some (rd_maria d) \<and>
     redis_prefix d \<noteq> [] \<and> IsSafeTablePrefix (table_prefix d) \<and>
     full_redis_prefix d = key_prefix (rd_redis d) @ redis_prefix d \<and>
     0 < alive_time_seconds (timing d) \<and> 0 < landing_time_seconds (timing d) \<and> 0 < landing_min_time_seconds (timing d)"

lemma resolve_dataset_ok:
  assumes "resolve_dataset redis maria defs name d = Inr item"
  shows "rd_name item = name \<and> resolved_ok redis maria item"
  using assms
  by (auto simp: resolve_dataset_def resolved_ok_def Let_def word_neq_0_conv split: if_splits option.splits)

lemma resolve_all_ok:
  assumes "resolve_all redis maria defs ds acc = Inr r"
    and "\<And>n item. map_of acc n = Some item \<Longrightarrow> rd_name item = n \<and> resolved_ok redis maria item"
  shows "(\<forall>n item. map_of r n = Some item \<longrightarrow> rd_name item = n \<and> resolved_ok redis maria item) \<and>
     (\<forall>n. map_of r n \<noteq> None \<longleftrightarrow> n \<in> fst ` set ds \<or> map_of acc n \<noteq> None)"
  using assms
proof (induction redis maria defs ds acc rule: resolve_all.induct)
  case (2 redis maria defs name d ds acc)
  obtain item where item: "resolve_dataset redis maria defs name d = Inr item"
    using "2.prems"(1) by (auto split: sum.splits)
  note i = resolve_dataset_ok [OF item]
  have res: "resolve_all redis maria defs ds (AddDataset item acc) = Inr r" using "2.prems"(1) item by simp
  have acc: "rd_name it = n \<and> resolved_ok redis maria it" if "map_of (AddDataset item acc) n = Some it" for n it
    using that "2.prems"(2) i by (auto simp: AddDataset_def split: option.splits if_splits)
  have dom: "map_of (AddDataset item acc) n \<noteq> None \<longleftrightarrow> n = name \<or> map_of acc n \<noteq> None" for n
    using i by (auto simp: AddDataset_def split: option.splits)
  from "2.IH" [OF item res acc] show ?case unfolding dom by auto
qed simp

text \<open>
  C34. A configuration that resolves has an entry for exactly its datasets, each with known profiles, a safe
  table name and positive times; one that does not resolve leaves nothing behind.
\<close>

lemma ResolveStorageConfiguration_spec:
  assumes "ResolveStorageConfiguration redis maria storage err = (good, r, e)"
  shows "(good \<longrightarrow> (\<forall>n. FindDataset r n \<noteq> None \<longleftrightarrow> n \<in> fst ` set (datasets storage)) \<and>
       (\<forall>n d. FindDataset r n = Some d \<longrightarrow> rd_name d = n \<and> resolved_ok redis maria d)) \<and>
     (\<not> good \<longrightarrow> r = [])"
proof (cases "resolve_all redis maria (defaults storage) (datasets storage) []")
  case (Inl e)
  then show ?thesis using assms by (auto simp: ResolveStorageConfiguration_def)
next
  case (Inr r')
  then have "r = r'" "good" using assms by (simp_all add: ResolveStorageConfiguration_def)
  then show ?thesis using resolve_all_ok [OF Inr] by (simp add: FindDataset_def)
qed

section \<open>Names in statements\<close>

text \<open>A table name that reaches MariaDB consists of letters, digits and underscores.\<close>

lemma BuildMariaEntriesTableName_safe:
  "BuildMariaEntriesTableName S name = [] \<or> IsSafeSqlIdentifier (BuildMariaEntriesTableName S name)"
proof -
  have "list_all (\<lambda>c. isalnum c \<or> c = CHR ''_'') ''entries''" by (simp add: isalnum_def)
  then show ?thesis
    by (auto simp: BuildMariaEntriesTableName_def IsSafeSqlIdentifier_def split: option.splits)
qed

lemma EnsureMariaEntriesTable_ok:
  assumes "EnsureMariaEntriesTable E S name w = (r, w')" and "ok r"
  shows "\<exists>h. GetMariaForDataset S name = Some h \<and> BuildMariaEntriesTableName S name \<noteq> [] \<and>
     mysql_query E h (create_sql (BuildMariaEntriesTableName S name)) w = (0, w')"
  using assms
  by (auto simp: EnsureMariaEntriesTable_def Let_def split: option.splits if_splits prod.splits)

section \<open>The cache\<close>

text \<open>The key under which a dataset entry is cached.\<close>

definition cache_key :: "StorageService \<Rightarrow> string \<Rightarrow> string \<Rightarrow> string" where
  "cache_key S name k = BuildRedisKey S name (entries_suffix k)"

lemma cache_key_nonempty: "GetRedisForDataset S name = Some h \<Longrightarrow> cache_key S name k \<noteq> []"
  by (auto simp: cache_key_def BuildRedisKey_def GetRedisForDataset_def entries_suffix_def split: option.splits)

lemma RedisSet_spec:
  assumes "set_documented E h kv" and "GetRedisForDataset S name = Some h"
    and "RedisSet E S name (entries_suffix k) v w = (r, u, w')" and "ok r"
  shows "kv w' = (kv w)(cache_key S name k \<mapsto> v)"
proof -
  obtain reply w2 where c: "redisCommand E h [''SET'', cache_key S name k, v] w = (reply, w2)"
    by (cases "redisCommand E h [''SET'', cache_key S name k, v] w")
  have "reply = Some (REDIS_STATUS ''OK'')" "w' = w2"
    using assms(2-4) c cache_key_nonempty [OF assms(2), of k]
    by (auto simp: RedisSet_def with_redis_def cache_key_def status_result_def split: option.splits if_splits)
  then show ?thesis using assms(1) c unfolding set_documented_def by metis
qed

lemma RedisGet_hit:
  assumes "get_documented E h kv" and "GetRedisForDataset S name = Some h" and "kv w (cache_key S name k) = Some v"
    and "redisCommand E h [''GET'', cache_key S name k] w = (Some r, w')"
  shows "RedisGet E S name (entries_suffix k) x w = (storage_ok ''OK'', v, w') \<and> kv w' = kv w"
proof -
  have "kv w' = kv w \<and> r = REDIS_STRING v"
    using assms(1,3,4) unfolding get_documented_def by fastforce
  then show ?thesis
    using assms(2,4) cache_key_nonempty [OF assms(2), of k]
    by (simp add: RedisGet_def with_redis_def cache_key_def)
qed

text \<open>What was put is read back from the cache, without a query.\<close>

lemma DatasetPut_stages:
  assumes "DatasetPut E S name k v w = (p, w1)" and "ok p"
  shows "k \<noteq> [] \<and> (\<exists>w2 redis. RedisSet E S name (entries_suffix k) v w2 = (redis, (), w1) \<and>
     p = storage_ok (if ok redis then ''OK'' else ''maria=OK redis='' @ message redis))"
  using assms
  by (auto simp: DatasetPut_def Let_def split: option.splits if_splits prod.splits)

text \<open>
  C20. A put that reaches both stores is visible to the next get: the cache answers with the value that was put.
\<close>

lemma DatasetPut_Get:
  assumes "set_documented E h kv" and "get_documented E h kv" and "GetRedisForDataset S name = Some h"
    and "DatasetPut E S name k v w = (storage_ok ''OK'', w1)"
    and "redisCommand E h [''GET'', cache_key S name k] w1 = (Some r, w2)"
  shows "DatasetGet E S name k x w1 = (storage_ok ''redis'', v, w2)"
proof -
  obtain w3 redis where s: "k \<noteq> []" "RedisSet E S name (entries_suffix k) v w3 = (redis, (), w1)" "ok redis"
    using DatasetPut_stages [OF assms(4)] by (auto simp: storage_ok_def split: if_splits)
  have "kv w1 (cache_key S name k) = Some v"
    using RedisSet_spec [OF assms(1,3) s(2,3)] by simp
  from RedisGet_hit [OF assms(2,3) this assms(5)] s(1) show ?thesis by (simp add: DatasetGet_def)
qed

text \<open>
  A MariaDB that takes every statement and leaves the cache alone, and a Redis server that answers reads but refuses to write a
  key, as a read-only replica does.
\<close>

definition maria_takes :: "'w env \<Rightarrow> maria_handle \<Rightarrow> ('w \<Rightarrow> string \<Rightarrow> string option) \<Rightarrow> bool" where
  "maria_takes E m kv \<longleftrightarrow> (\<forall>sql w. fst (mysql_query E m sql w) = 0 \<and> kv (snd (mysql_query E m sql w)) = kv w)"

definition refuses_write :: "'w env \<Rightarrow> redis_handle \<Rightarrow> ('w \<Rightarrow> string \<Rightarrow> string option) \<Rightarrow> string \<Rightarrow> bool" where
  "refuses_write E h kv key \<longleftrightarrow> (\<forall>v w. fst (redisCommand E h [''SET'', key, v] w) \<noteq> Some (REDIS_STATUS ''OK'') \<and>
     kv (snd (redisCommand E h [''SET'', key, v] w)) = kv w)"

text \<open>
  C37. A put that reaches MariaDB while Redis refuses the write reports success, leaves the cache as it was, and the next get
  returns the old cached value, not the value that was put.
\<close>

theorem DatasetPut_stale:
  assumes "get_documented E h kv" and "maria_takes E m kv" and "refuses_write E h kv (cache_key S name k)"
    and "\<forall>w. fst (redisCommand E h [''GET'', cache_key S name k] w) \<noteq> None"
    and "GetRedisForDataset S name = Some h" and "GetMariaForDataset S name = Some m" and "BuildMariaEntriesTableName S name \<noteq> []"
    and "k \<noteq> []" and "kv w (cache_key S name k) = Some old"
  shows "\<exists>p w1 w2. DatasetPut E S name k v w = (p, w1) \<and> ok p \<and> message p \<noteq> ''OK'' \<and> kv w1 = kv w \<and>
     DatasetGet E S name k x w1 = (storage_ok ''redis'', old, w2)"
proof -
  obtain ensure w1 where e: "EnsureMariaEntriesTable E S name w = (ensure, w1)" by fastforce
  have e': "ensure = storage_ok ''OK''" "kv w1 = kv w"
    using e assms(2,6,7) unfolding maria_takes_def by (auto simp: EnsureMariaEntriesTable_def Let_def split: prod.splits) (metis fst_conv snd_conv)+
  obtain rc w2 where i: "mysql_query E m (insert_sql (BuildMariaEntriesTableName S name)
      (EscapeMariaLiteral E m k w1) (EscapeMariaLiteral E m v w1)) w1 = (rc, w2)" by fastforce
  have i': "rc = 0" "kv w2 = kv w" using i assms(2) e'(2) unfolding maria_takes_def by (metis fst_conv snd_conv)+
  obtain reply w3 where s: "redisCommand E h [''SET'', cache_key S name k, v] w2 = (reply, w3)" by fastforce
  have s': "reply \<noteq> Some (REDIS_STATUS ''OK'')" "kv w3 = kv w"
    using s assms(3) i'(2) unfolding refuses_write_def by (metis fst_conv snd_conv)+
  obtain redis where r: "RedisSet E S name (entries_suffix k) v w2 = (redis, (), w3)" "\<not> ok redis"
    using s s'(1) assms(5) cache_key_nonempty [OF assms(5), of k]
    by (cases reply) (auto simp: RedisSet_def with_redis_def cache_key_def status_result_def Failure_def)
  have p: "DatasetPut E S name k v w = (storage_ok (''maria=OK redis='' @ message redis), w3)"
    using assms(6,8) e e'(1) i i'(1) r by (simp add: DatasetPut_def)
  obtain got w4 where g: "redisCommand E h [''GET'', cache_key S name k] w3 = (Some got, w4)"
    using assms(4) [THEN spec, of w3] by (cases "redisCommand E h [''GET'', cache_key S name k] w3") auto
  have "kv w3 (cache_key S name k) = Some old" using s'(2) assms(9) by simp
  then have "DatasetGet E S name k x w3 = (storage_ok ''redis'', old, w4)"
    using RedisGet_hit [OF assms(1,5) _ g] assms(8) by (simp add: DatasetGet_def)
  then show ?thesis using p s'(2) by fastforce
qed

text \<open>With an empty cache a get asks MariaDB and fills the cache with what it found.\<close>

lemma DatasetGet_miss:
  assumes "RedisGet E S name (entries_suffix k) x w = (Failure ''nil'', x, w1)" and "k \<noteq> []"
    and "EnsureMariaEntriesTable E S name w1 = (storage_ok ''OK'', w2)" and "GetMariaForDataset S name = Some m"
    and "mysql_query E m (select_sql (BuildMariaEntriesTableName S name) (EscapeMariaLiteral E m k w2)) w2 = (0, w3)"
    and "mysql_rows E m w3 = (Some ((Some v # cols) # rows), w4)"
    and "RedisSet E S name (entries_suffix k) v w4 = (q, u, w5)"
  shows "DatasetGet E S name k x w = (storage_ok ''maria'', v, w5)"
  using assms by (simp add: DatasetGet_def Let_def)

section \<open>Connection states\<close>

text \<open>After a refresh a Redis connection is reachable exactly when it has a context.\<close>

lemma reconnect_redis_reachable:
  "reconnect_redis E c st w = (st', w') \<Longrightarrow> reachable (rc_status st') \<longleftrightarrow> rc_context st' \<noteq> None"
  by (auto simp: reconnect_redis_def Let_def split: option.splits prod.splits)

lemma RefreshRedisConnection_reachable:
  assumes "RefreshRedisConnection E name st w = (st', w')" and "rc_configuration st \<noteq> None"
  shows "reachable (rc_status st') \<longleftrightarrow> rc_context st' \<noteq> None"
  using assms
  by (auto simp: RefreshRedisConnection_def Let_def reconnect_redis_reachable
      split: option.splits prod.splits dest: reconnect_redis_reachable)

lemma map_world_lookup:
  assumes "map_world f m w = (m', w')" and "map_of m' k = Some v'"
  shows "\<exists>v w1 w2. map_of m k = Some v \<and> f k v w1 = (v', w2)"
  using assms
proof (induction f m w arbitrary: m' w' rule: map_world.induct)
  case (2 f j v m w)
  obtain u w1 m2 w2 where s: "f j v w = (u, w1)" "map_world f m w1 = (m2, w2)"
    by (metis surj_pair)
  with "2.prems"(1) have m': "m' = (j, u) # m2" by simp
  show ?case
  proof (cases "j = k")
    case True
    then show ?thesis using s(1) m' "2.prems"(2) by auto
  next
    case False
    then show ?thesis using "2.IH" [OF s(1) [symmetric] refl s(2)] m' "2.prems"(2) by simp
  qed
qed simp

lemma RefreshConnections_reachable:
  assumes "\<And>n c. map_of (mRedisConnections S) n = Some c \<Longrightarrow> rc_configuration c \<noteq> None"
    and "RefreshConnections E (S, w) = (S', w')" and "map_of (mRedisConnections S') n = Some c'"
  shows "reachable (rc_status c') \<longleftrightarrow> rc_context c' \<noteq> None"
proof -
  obtain rs w1 where "map_world (RefreshRedisConnection E) (mRedisConnections S) w = (rs, w1)"
    and "mRedisConnections S' = rs"
    using assms(2) by (auto simp: RefreshConnections_def split: prod.splits)
  then obtain c w2 w3 where "map_of (mRedisConnections S) n = Some c" "RefreshRedisConnection E n c w2 = (c', w3)"
    using map_world_lookup assms(3) by metis
  then show ?thesis using RefreshRedisConnection_reachable [of E n c w2 c' w3] assms(1) by simp
qed

text \<open>A disabled target has no usable handle, before and after a refresh, until it is enabled.\<close>

lemma DisableMariaTarget_unusable:
  assumes "DisableMariaTarget E name (S, w) = (True, S', w')"
  shows "GetMaria S' name = None \<and> GetMaria (fst (RefreshConnections E (S', w2))) name = None"
  using assms
  by (auto simp: DisableMariaTarget_def GetMaria_def RefreshConnections_def split: option.splits prod.splits)

section \<open>A connected dataset\<close>

text \<open>One dataset with both connections up, on which the witnesses run.\<close>

definition sample_dataset :: ResolvedDatasetConfiguration where
  "sample_dataset =
     \<lparr>rd_name = ''player'', redis_name = ''r'', maria_name = ''m'',
      rd_redis = \<lparr>redis_endpoints = [''h:1''], redis_password = [], redis_database = 0, key_prefix = ''k:''\<rparr>,
      rd_maria = \<lparr>maria_host = ''h'', maria_port = 2, maria_database = ''d'', maria_username = [], maria_password = [], pool_size = 1\<rparr>,
      redis_prefix = ''p:'', table_prefix = ''t_'', full_redis_prefix = ''k:p:'',
      timing = \<lparr>alive_time_seconds = 60, landing_time_seconds = 30, landing_min_time_seconds = 5\<rparr>\<rparr>"

definition sample_storage :: StorageService where
  "sample_storage =
     \<lparr>mConfiguration = [(''player'', sample_dataset)],
      mRedisConnections = [(''r'', \<lparr>rc_configuration = Some (rd_redis sample_dataset), rc_context = Some 1, rc_status = default_status\<rparr>)],
      mMariaConnections = [(''m'', \<lparr>mc_configuration = Some (rd_maria sample_dataset), mc_handle = Some 1, mc_status = default_status\<rparr>)],
      mDisabledMariaTargets = []\<rparr>"

lemma sample_storage_handles [simp]:
  "GetRedisForDataset sample_storage ''player'' = Some 1" "GetMariaForDataset sample_storage ''player'' = Some 1"
  by (simp_all add: GetRedisForDataset_def GetMariaForDataset_def GetDataset_def GetRedis_def GetMaria_def FindDataset_def
      sample_storage_def sample_dataset_def)

end
