(* ===== verification/Player_Directory.thy ===== *)
theory Player_Directory
  imports Storage
begin

text \<open>
  \<^verbatim>\<open>PlayerDirectoryService\<close> (src/src/game/services/player_directory_service.cpp): the map from accounts to
  player ids, kept in Redis and cached in the process. Ids come from a counter in Redis; without storage,
  and after storage errors, from a counter of the process.
\<close>

section \<open>State and keys\<close>

record PlayerDirectoryService =
  mStorageService :: "StorageService option"
  dir_mDatasetName :: string
  dir_mEntries :: "(string \<times> u64) list"
  mNextPlayerId :: u64

definition new_directory :: "StorageService option \<Rightarrow> string \<Rightarrow> PlayerDirectoryService" where
  "new_directory storage name = \<lparr>mStorageService = storage, dir_mDatasetName = name, dir_mEntries = [], mNextPlayerId = 100000\<rparr>"

record PlayerDirectoryResolveResult =
  resolved_player_id :: u64
  created :: bool

definition account_MakeKey :: "string \<Rightarrow> string \<Rightarrow> u32 \<Rightarrow> string" where
  "account_MakeKey platform account_id area_id = platform @ '':'' @ account_id @ '':'' @ to_string area_id"

definition BuildDirectoryEntrySuffix :: "string \<Rightarrow> string" where
  "BuildDirectoryEntrySuffix key = ''directory:entry:'' @ key"

definition BuildNextPlayerIdSuffix :: string where
  "BuildNextPlayerIdSuffix = ''directory:next_player_id''"

text \<open>\<^verbatim>\<open>unordered_map::emplace\<close>.\<close>

definition emplace :: "'k \<Rightarrow> 'v \<Rightarrow> ('k \<times> 'v) list \<Rightarrow> ('k \<times> 'v) list" where
  "emplace k v m = (case map_of m k of None \<Rightarrow> AList.update k v m | Some _ \<Rightarrow> m)"

section \<open>Allocation\<close>

text \<open>The counter is put back to 99999 when it is missing, no number or too small.\<close>

definition repair_counter :: "'w env \<Rightarrow> StorageService \<Rightarrow> string \<Rightarrow> 'w \<Rightarrow> 'w" where
  "repair_counter E S name w = (let (get, current, w1) = RedisGet E S name BuildNextPlayerIdSuffix [] w in
     if \<not> ok get then snd (snd (RedisSetIfAbsent E S name BuildNextPlayerIdSuffix ''99999'' w1))
     else case stoll current of
       Inr n \<Rightarrow> if n < 99999 then snd (snd (RedisSet E S name BuildNextPlayerIdSuffix ''99999'' w1)) else w1
     | Inl _ \<Rightarrow> snd (snd (RedisSet E S name BuildNextPlayerIdSuffix ''99999'' w1)))"

datatype allocation = allocated u64 bool | storage_failed | try_again | thrown std_exception

text \<open>One round of the \<^verbatim>\<open>while (true)\<close> loop.\<close>

definition allocate_round :: "'w env \<Rightarrow> StorageService \<Rightarrow> string \<Rightarrow> string \<Rightarrow> 'w \<Rightarrow> allocation \<times> 'w" where
  "allocate_round E S name key w = (let w1 = repair_counter E S name w;
     (increment, next_player_id, w2) = RedisIncrement E S name BuildNextPlayerIdSuffix 1 0 w1 in
     if \<not> ok increment then (storage_failed, w2)
     else let pid = of_int next_player_id :: u64;
              (create, _, w3) = RedisSetIfAbsent E S name (BuildDirectoryEntrySuffix key) (to_string pid) w2 in
     if ok create then (allocated pid True, w3)
     else if message create \<noteq> ''exists'' then (storage_failed, w3)
     else let (retry, value, w4) = RedisGet E S name (BuildDirectoryEntrySuffix key) [] w3 in
     if \<not> ok retry then (try_again, w4)
     else case stoull value of Inr pid' \<Rightarrow> (allocated pid' False, w4) | Inl e \<Rightarrow> (thrown e, w4))"

text \<open>The loop need not end, so its result is an option; a round that asks for another is the recursion.\<close>

partial_function (option) allocate_loop :: "'w env \<Rightarrow> StorageService \<Rightarrow> string \<Rightarrow> string \<Rightarrow> 'w \<Rightarrow> (allocation \<times> 'w) option" where
  "allocate_loop E S name key w = (let r = allocate_round E S name key w in
     if fst r = try_again then allocate_loop E S name key (snd r) else Some r)"

section \<open>Operations\<close>

definition cache_entry :: "string \<Rightarrow> u64 \<Rightarrow> PlayerDirectoryService \<Rightarrow> PlayerDirectoryService" where
  "cache_entry key pid D = D\<lparr>dir_mEntries := emplace key pid (dir_mEntries D)\<rparr>"

text \<open>The id of last resort.\<close>

definition local_id :: "string \<Rightarrow> PlayerDirectoryService \<Rightarrow> PlayerDirectoryResolveResult \<times> PlayerDirectoryService" where
  "local_id key D = (\<lparr>resolved_player_id = mNextPlayerId D, created = True\<rparr>,
     cache_entry key (mNextPlayerId D) (D\<lparr>mNextPlayerId := mNextPlayerId D + 1\<rparr>))"

text \<open>\<open>None\<close>: the call does not return. \<open>Inl\<close>: an exception of \<^verbatim>\<open>std::stoull\<close> leaves it.\<close>

definition ResolveOrCreate :: "'w env \<Rightarrow> string \<Rightarrow> string \<Rightarrow> u32 \<Rightarrow> PlayerDirectoryService \<times> 'w
    \<Rightarrow> ((std_exception + PlayerDirectoryResolveResult) \<times> PlayerDirectoryService \<times> 'w) option" where
  "ResolveOrCreate E platform account_id area_id s = (let (D, w) = s; key = account_MakeKey platform account_id area_id in
     case map_of (dir_mEntries D) key of
       Some pid \<Rightarrow> Some (Inr \<lparr>resolved_player_id = pid, created = False\<rparr>, D, w)
     | None \<Rightarrow> (case mStorageService D of
         None \<Rightarrow> (let (r, D') = local_id key D in Some (Inr r, D', w))
       | Some S \<Rightarrow> (let name = dir_mDatasetName D; (get, value, w1) = RedisGet E S name (BuildDirectoryEntrySuffix key) [] w in
           if ok get
           then (case stoull value of
               Inr pid \<Rightarrow> Some (Inr \<lparr>resolved_player_id = pid, created = False\<rparr>, cache_entry key pid D, w1)
             | Inl e \<Rightarrow> Some (Inl e, D, w1))
           else (case allocate_loop E S name key w1 of
               None \<Rightarrow> None
             | Some (allocated pid new, w2) \<Rightarrow> Some (Inr \<lparr>resolved_player_id = pid, created = new\<rparr>, cache_entry key pid D, w2)
             | Some (thrown e, w2) \<Rightarrow> Some (Inl e, D, w2)
             | Some (_, w2) \<Rightarrow> (let (r, D') = local_id key D in Some (Inr r, D', w2))))))"

definition dir_Lookup :: "'w env \<Rightarrow> string \<Rightarrow> string \<Rightarrow> u32 \<Rightarrow> PlayerDirectoryService \<times> 'w
    \<Rightarrow> (std_exception + u64 option) \<times> PlayerDirectoryService \<times> 'w" where
  "dir_Lookup E platform account_id area_id s = (let (D, w) = s; key = account_MakeKey platform account_id area_id in
     case map_of (dir_mEntries D) key of
       Some pid \<Rightarrow> (Inr (Some pid), D, w)
     | None \<Rightarrow> (case mStorageService D of
         None \<Rightarrow> (Inr None, D, w)
       | Some S \<Rightarrow> (let (get, value, w1) = RedisGet E S (dir_mDatasetName D) (BuildDirectoryEntrySuffix key) [] w in
           if \<not> ok get then (Inr None, D, w1)
           else (case stoull value of
               Inl e \<Rightarrow> (Inl e, D, w1)
             | Inr pid \<Rightarrow> (Inr (Some pid), cache_entry key pid D, w1)))))"

definition NextPlayerIdCounter :: "'w env \<Rightarrow> PlayerDirectoryService \<Rightarrow> 'w \<Rightarrow> u64 option \<times> 'w" where
  "NextPlayerIdCounter E D w = (case mStorageService D of
      None \<Rightarrow> (None, w)
    | Some S \<Rightarrow> (let (get, value, w1) = RedisGet E S (dir_mDatasetName D) BuildNextPlayerIdSuffix [] w in
        if \<not> ok get then (None, w1)
        else (case stoull value of Inl _ \<Rightarrow> None | Inr n \<Rightarrow> Some n, w1)))"

section \<open>The server's side\<close>

text \<open>The keys of the dataset on the server.\<close>

definition entry_key :: "StorageService \<Rightarrow> string \<Rightarrow> string \<Rightarrow> string" where
  "entry_key S name key = BuildRedisKey S name (BuildDirectoryEntrySuffix key)"

definition counter_key :: "StorageService \<Rightarrow> string \<Rightarrow> string" where
  "counter_key S name = BuildRedisKey S name BuildNextPlayerIdSuffix"

lemma dataset_key: "GetRedisForDataset S name = Some h \<Longrightarrow> BuildRedisKey S name (x # xs) \<noteq> []"
  by (auto simp: GetRedisForDataset_def BuildRedisKey_def split: option.splits)

lemma entry_key_inject:
  assumes "GetRedisForDataset S name = Some h"
  shows "entry_key S name a = entry_key S name b \<longleftrightarrow> a = b" "entry_key S name a \<noteq> counter_key S name"
  using assms by (auto simp: entry_key_def counter_key_def BuildRedisKey_def GetRedisForDataset_def
      BuildDirectoryEntrySuffix_def BuildNextPlayerIdSuffix_def split: option.splits)

lemmas redis_calls = RedisGet_def RedisSet_def RedisSetIfAbsent_def RedisIncrement_def with_redis_def

text \<open>What the four commands do to the keys of a documented server.\<close>

definition directory_server :: "'w env \<Rightarrow> redis_handle \<Rightarrow> ('w \<Rightarrow> string \<Rightarrow> string option) \<Rightarrow> bool" where
  "directory_server E h kv \<longleftrightarrow> get_documented E h kv \<and> set_documented E h kv \<and> set_absent_documented E h kv \<and> incr_documented E h kv"

lemma RedisGet_kv:
  assumes "directory_server E h kv" and "GetRedisForDataset S name = Some h" and "RedisGet E S name suffix old w = (r, v, w')"
    and "BuildRedisKey S name suffix \<noteq> []"
  shows "kv w' = kv w \<and> (ok r \<longrightarrow> kv w (BuildRedisKey S name suffix) = Some v)"
proof -
  let ?k = "BuildRedisKey S name suffix"
  obtain reply w1 where c: "redisCommand E h [''GET'', ?k] w = (reply, w1)" by (cases "redisCommand E h [''GET'', ?k] w")
  then have d: "kv w1 = kv w \<and> (\<forall>a. reply = Some a \<longrightarrow> a = (case kv w ?k of None \<Rightarrow> REDIS_NIL | Some v \<Rightarrow> REDIS_STRING v))"
    using assms(1) unfolding directory_server_def get_documented_def by blast
  show ?thesis
    using assms(2-4) c d
    by (cases reply; cases "kv w ?k") (auto simp: redis_calls storage_ok_def)
qed

lemma RedisSet_kv:
  assumes "directory_server E h kv" and "GetRedisForDataset S name = Some h" and "RedisSet E S name suffix v w = (r, u, w')"
    and "BuildRedisKey S name suffix \<noteq> []"
  shows "kv w' = kv w \<or> kv w' = (kv w)(BuildRedisKey S name suffix \<mapsto> v)"
proof -
  let ?k = "BuildRedisKey S name suffix"
  obtain reply w1 where c: "redisCommand E h [''SET'', ?k, v] w = (reply, w1)" by (cases "redisCommand E h [''SET'', ?k, v] w")
  then have "kv w1 = kv w \<or> kv w1 = (kv w)(?k \<mapsto> v)"
    using assms(1) unfolding directory_server_def set_documented_def by blast
  then show ?thesis using assms(2-4) c by (auto simp: redis_calls split: option.splits)
qed

lemma RedisSetIfAbsent_kv:
  assumes "directory_server E h kv" and "GetRedisForDataset S name = Some h" and "RedisSetIfAbsent E S name suffix v w = (r, u, w')"
    and "BuildRedisKey S name suffix \<noteq> []"
  shows "(ok r \<longrightarrow> kv w' (BuildRedisKey S name suffix) = Some v \<and> kv w (BuildRedisKey S name suffix) = None) \<and>
     (kv w' = kv w \<or> kv w (BuildRedisKey S name suffix) = None \<and> kv w' = (kv w)(BuildRedisKey S name suffix \<mapsto> v))"
proof -
  let ?k = "BuildRedisKey S name suffix"
  obtain reply w1 where c: "redisCommand E h [''SET'', ?k, v, ''NX''] w = (reply, w1)"
    by (cases "redisCommand E h [''SET'', ?k, v, ''NX''] w")
  then have d: "(reply = Some (REDIS_STATUS ''OK'') \<and> kv w ?k = None \<and> kv w1 = (kv w)(?k \<mapsto> v)) \<or>
     (reply \<noteq> Some (REDIS_STATUS ''OK'') \<and> (kv w1 = kv w \<or> kv w ?k = None \<and> kv w1 = (kv w)(?k \<mapsto> v)))"
    using assms(1) unfolding directory_server_def set_absent_documented_def by blast
  have w: "w' = w1" using assms(2-4) c by (auto simp: redis_calls split: option.splits)
  have "ok r \<Longrightarrow> reply = Some (REDIS_STATUS ''OK'')"
    using assms(2-4) c by (auto simp: redis_calls status_result_def split: option.splits if_splits)
  then show ?thesis using d w by auto
qed

lemma RedisIncrement_kv:
  assumes "directory_server E h kv" and "GetRedisForDataset S name = Some h"
    and "RedisIncrement E S name suffix d old w = (r, n, w')" and "BuildRedisKey S name suffix \<noteq> []"
  shows "(\<exists>m. counter_of (kv w (BuildRedisKey S name suffix)) = Some m \<and> m + d < 2 ^ 63 \<and>
       kv w' = (kv w)(BuildRedisKey S name suffix \<mapsto> show_int (m + d)) \<and> (ok r \<longrightarrow> n = m + d)) \<or>
     (\<not> ok r \<and> kv w' = kv w)"
proof -
  let ?k = "BuildRedisKey S name suffix"
  obtain reply w1 where c: "redisCommand E h [''INCRBY'', ?k, show_int d] w = (reply, w1)"
    by (cases "redisCommand E h [''INCRBY'', ?k, show_int d] w")
  then have i: "(\<exists>m. counter_of (kv w ?k) = Some m \<and> - (2 ^ 63) \<le> m + d \<and> m + d < 2 ^ 63 \<and>
        kv w1 = (kv w)(?k \<mapsto> show_int (m + d)) \<and> (reply = Some (REDIS_INTEGER (m + d)) \<or> reply = None)) \<or>
     ((\<forall>n. reply \<noteq> Some (REDIS_INTEGER n)) \<and> kv w1 = kv w)"
    using assms(1) unfolding directory_server_def incr_documented_def by blast
  have w: "w' = w1" using assms(2-4) c by (auto simp: redis_calls split: option.splits redis_reply.splits)
  have "ok r \<Longrightarrow> reply = Some (REDIS_INTEGER n)"
    using assms(2-4) c by (auto simp: redis_calls split: option.splits redis_reply.splits)
  then show ?thesis using i w by fastforce
qed

section \<open>Distinct ids\<close>

text \<open>
  \<open>accounts kv\<close>: the account entries of the dataset. The invariant of the server: every entry is the text
  of an id the counter has already reached, and no two accounts have the same id.
\<close>

definition dir_inv :: "StorageService \<Rightarrow> string \<Rightarrow> (string \<Rightarrow> string option) \<Rightarrow> bool" where
  "dir_inv S name m \<longleftrightarrow>
     (\<exists>n. 0 \<le> n \<and> n < 2 ^ 63 \<and> (m (counter_key S name) = Some (show_int n) \<or> m (counter_key S name) = None \<and> n = 0) \<and>
        (\<forall>key v. m (entry_key S name key) = Some v \<longrightarrow> (\<exists>pid :: u64. v = to_string pid \<and> int (unat pid) \<le> n))) \<and>
     (\<forall>a b v. m (entry_key S name a) = Some v \<longrightarrow> m (entry_key S name b) = Some v \<longrightarrow> a = b)"

lemma counter_of_show: "0 \<le> n \<Longrightarrow> n < 2 ^ 63 \<Longrightarrow> counter_of (Some (show_int n)) = Some n"
  by (simp add: counter_of_def stoll_show_int)

lemma start_value: "show_int 99999 = ''99999''"
  by (simp add: show_int_def show_nat.simps digit_char_def char_of_def bit_0)

text \<open>Raising the counter keeps the invariant.\<close>

lemma dir_inv_counter:
  assumes "GetRedisForDataset S name = Some h" and "dir_inv S name m" and "n' < 2 ^ 63"
    and "counter_of (m (counter_key S name)) = Some n" and "n \<le> n'"
  shows "dir_inv S name (m(counter_key S name \<mapsto> show_int n'))"
proof -
  obtain n0 where n0: "0 \<le> n0" "n0 < 2 ^ 63" "m (counter_key S name) = Some (show_int n0) \<or> m (counter_key S name) = None \<and> n0 = 0"
    "\<And>key v. m (entry_key S name key) = Some v \<Longrightarrow> \<exists>pid :: u64. v = to_string pid \<and> int (unat pid) \<le> n0"
    using assms(2) unfolding dir_inv_def by blast
  have "n = n0" using n0(1-3) assms(4) by (auto simp: counter_of_show) (simp add: counter_of_def)
  then have "\<exists>pid :: u64. v = to_string pid \<and> int (unat pid) \<le> n'" if "m (entry_key S name key) = Some v" for key v
    using n0(4) [OF that] assms(5) by fastforce
  then show ?thesis
    using assms(2,3,5) n0(1) \<open>n = n0\<close> entry_key_inject [OF assms(1)]
    unfolding dir_inv_def by (auto intro!: exI [of _ n'])
qed

text \<open>A new entry under the id the counter has just reached.\<close>

lemma dir_inv_entry:
  assumes "GetRedisForDataset S name = Some h" and "dir_inv S name m" and "m (counter_key S name) = Some (show_int n)"
    and "0 \<le> n" and "n < 2 ^ 63"
    and "\<And>k (pid :: u64). m (entry_key S name k) = Some (to_string pid) \<Longrightarrow> int (unat pid) < n"
  shows "dir_inv S name (m(entry_key S name key \<mapsto> to_string (of_int n :: u64)))"
proof -
  have u: "int (unat (of_int n :: u64)) = n"
    using assms(4,5) by (simp add: unsigned_of_int take_bit_int_eq_self)
  have fresh: "m (entry_key S name k) \<noteq> Some (to_string (of_int n :: u64))" for k
    using assms(6) [of k "of_int n"] u by auto
  obtain n0 where n0: "m (counter_key S name) = Some (show_int n0) \<or> m (counter_key S name) = None"
    "\<And>key v. m (entry_key S name key) = Some v \<Longrightarrow> \<exists>pid :: u64. v = to_string pid \<and> int (unat pid) \<le> n0"
    using assms(2) unfolding dir_inv_def by blast
  then have "n0 = n" using assms(3) by auto
  let ?m' = "m(entry_key S name key \<mapsto> to_string (of_int n :: u64))"
  note keys = entry_key_inject [OF assms(1)]
  have e: "?m' (entry_key S name k) = (if k = key then Some (to_string (of_int n :: u64)) else m (entry_key S name k))" for k
    by (simp add: keys(1))
  have "?m' (counter_key S name) = Some (show_int n)" using assms(3) keys(2) [of key] by (metis fun_upd_other)
  moreover have "\<exists>pid :: u64. v = to_string pid \<and> int (unat pid) \<le> n" if "?m' (entry_key S name k) = Some v" for k v
    using that n0(2) [of k v] u unfolding e \<open>n0 = n\<close> by (metis option.inject order_refl)
  moreover have "a = b" if "?m' (entry_key S name a) = Some v" "?m' (entry_key S name b) = Some v" for a b v
    using that fresh assms(2) unfolding e dir_inv_def by (metis option.inject)
  ultimately show ?thesis using assms(4,5) unfolding dir_inv_def by blast
qed

lemma directory_keys: "GetRedisForDataset S name = Some h \<Longrightarrow> BuildRedisKey S name BuildNextPlayerIdSuffix \<noteq> []"
  "GetRedisForDataset S name = Some h \<Longrightarrow> BuildRedisKey S name (BuildDirectoryEntrySuffix key) \<noteq> []"
  by (auto simp: BuildNextPlayerIdSuffix_def BuildDirectoryEntrySuffix_def dest: dataset_key)

lemma dir_inv_ctr:
  assumes "dir_inv S name m"
  obtains n where "0 \<le> n" and "n < 2 ^ 63" and "counter_of (m (counter_key S name)) = Some n"
    and "m (counter_key S name) = Some (show_int n) \<or> m (counter_key S name) = None"
    and "\<And>k (pid :: u64). m (entry_key S name k) = Some (to_string pid) \<Longrightarrow> int (unat pid) \<le> n"
proof -
  obtain n where n: "0 \<le> n" "n < 2 ^ 63" "m (counter_key S name) = Some (show_int n) \<or> m (counter_key S name) = None \<and> n = 0"
    "\<And>key v. m (entry_key S name key) = Some v \<Longrightarrow> \<exists>pid :: u64. v = to_string pid \<and> int (unat pid) \<le> n"
    using assms unfolding dir_inv_def by blast
  moreover have "counter_of (m (counter_key S name)) = Some n"
    using n(1-3) by (auto simp: counter_of_show) (simp add: counter_of_def)
  moreover have "int (unat pid) \<le> n" if "m (entry_key S name k) = Some (to_string pid)" for k and pid :: u64
    using n(4) [OF that] by auto
  ultimately show ?thesis using that by blast
qed

lemma repair_counter_spec:
  assumes server: "directory_server E h kv" "GetRedisForDataset S name = Some h"
    and inv: "dir_inv S name (kv w)"
  shows "dir_inv S name (kv (repair_counter E S name w)) \<and>
     (\<forall>k. kv (repair_counter E S name w) (entry_key S name k) = kv w (entry_key S name k))"
proof -
  let ?c = "counter_key S name"
  obtain get v w1 where g: "RedisGet E S name BuildNextPlayerIdSuffix [] w = (get, v, w1)"
    by (metis prod_cases3)
  note gk = RedisGet_kv [OF server g directory_keys(1) [OF server(2)], folded counter_key_def]
  obtain n where n: "0 \<le> n" "n < 2 ^ 63" "counter_of (kv w ?c) = Some n" "kv w ?c = Some (show_int n) \<or> kv w ?c = None"
    using dir_inv_ctr [OF inv] by metis
  have raise: "dir_inv S name (kv w2) \<and> (\<forall>k. kv w2 (entry_key S name k) = kv w (entry_key S name k))"
    if "kv w2 = kv w \<or> (n \<le> 99999 \<and> kv w2 = (kv w)(?c \<mapsto> ''99999''))" for w2
    using that inv dir_inv_counter [OF server(2) inv _ n(3), of 99999] entry_key_inject(2) [OF server(2)]
    by (auto simp: start_value)
  show ?thesis
  proof (cases "ok get")
    case False
    obtain r u w2 where s: "RedisSetIfAbsent E S name BuildNextPlayerIdSuffix ''99999'' w1 = (r, u, w2)"
      by (metis prod_cases3)
    have "n = 0" if "kv w ?c = None" using that n(3) by (simp add: counter_of_def)
    then show ?thesis
      using RedisSetIfAbsent_kv [OF server s directory_keys(1) [OF server(2)], folded counter_key_def] gk False g s raise [of w2]
      by (auto simp: repair_counter_def)
  next
    case True
    then have v: "v = show_int n" using gk n(4) by auto
    obtain r u w2 where s: "RedisSet E S name BuildNextPlayerIdSuffix ''99999'' w1 = (r, u, w2)" by (metis prod_cases3)
    show ?thesis
      using RedisSet_kv [OF server s directory_keys(1) [OF server(2)], folded counter_key_def] gk True g s v
        raise [of w1] raise [of w2] n(1,2)
      by (auto simp: repair_counter_def stoll_show_int)
  qed
qed

lemma dir_inv_to_string:
  assumes "dir_inv S name m" and "m (entry_key S name key) = Some v"
  shows "\<exists>pid :: u64. v = to_string pid \<and> stoull v = Inr pid"
proof -
  obtain pid :: u64 where "v = to_string pid" using assms unfolding dir_inv_def by blast
  then show ?thesis by (auto simp: stoull_to_string)
qed

lemma allocate_loop_stops: "allocate_round E S name key w = (a, w') \<Longrightarrow> a \<noteq> try_again \<Longrightarrow> allocate_loop E S name key w = Some (a, w')"
  by (subst allocate_loop.simps) simp

text \<open>
  What a round promises: entries are only added, the account's entry is the answered id, and an id that is
  new belongs to no other account.
\<close>

definition allocation_ok :: "StorageService \<Rightarrow> string \<Rightarrow> string \<Rightarrow> (string \<Rightarrow> string option) \<Rightarrow> (string \<Rightarrow> string option) \<Rightarrow> allocation \<Rightarrow> bool" where
  "allocation_ok S name key m m' a \<longleftrightarrow> dir_inv S name m' \<and>
     (\<forall>k v. m (entry_key S name k) = Some v \<longrightarrow> m' (entry_key S name k) = Some v) \<and>
     (case a of allocated pid new \<Rightarrow> m' (entry_key S name key) = Some (to_string pid) \<and>
          (new \<longrightarrow> m (entry_key S name key) = None \<and> (\<forall>k. m (entry_key S name k) \<noteq> Some (to_string pid)))
      | thrown _ \<Rightarrow> False | _ \<Rightarrow> True)"

lemma allocate_round_spec:
  assumes server: "directory_server E h kv" "GetRedisForDataset S name = Some h"
    and inv: "dir_inv S name (kv w)" and run: "allocate_round E S name key w = (a, w')"
  shows "allocation_ok S name key (kv w) (kv w') a"
proof -
  let ?c = "counter_key S name" and ?e = "entry_key S name"
  note keys = entry_key_inject [OF server(2)]
  define w1 where "w1 = repair_counter E S name w"
  have w1: "dir_inv S name (kv w1)" "\<And>k. kv w1 (?e k) = kv w (?e k)"
    using repair_counter_spec [OF server inv] by (simp_all add: w1_def)
  obtain inc n w2 where i: "RedisIncrement E S name BuildNextPlayerIdSuffix 1 0 w1 = (inc, n, w2)" by (metis prod_cases3)
  note ik = RedisIncrement_kv [OF server i directory_keys(1) [OF server(2)], folded counter_key_def]
  have w2: "dir_inv S name (kv w2)" "\<And>k. kv w2 (?e k) = kv w (?e k)"
    using ik w1 dir_inv_counter [OF server(2) w1(1)] keys(2) by auto
  show ?thesis
  proof (cases "ok inc")
    case False
    then show ?thesis using run i w2 by (simp add: allocate_round_def w1_def allocation_ok_def)
  next
    case True
    then obtain m where m: "counter_of (kv w1 ?c) = Some m" "n = m + 1" "n < 2 ^ 63" "kv w2 = (kv w1)(?c \<mapsto> show_int n)"
      using ik by auto
    obtain m' where "0 \<le> m'" "counter_of (kv w1 ?c) = Some m'"
      "\<And>k (pid :: u64). kv w1 (?e k) = Some (to_string pid) \<Longrightarrow> int (unat pid) \<le> m'"
      using dir_inv_ctr [OF w1(1)] by metis
    then have low: "0 \<le> n" "\<And>k (pid :: u64). kv w2 (?e k) = Some (to_string pid) \<Longrightarrow> int (unat pid) < n"
      using m w1(2) w2(2) by auto
    let ?pid = "of_int n :: u64"
    have fresh: "kv w2 (?e k) \<noteq> Some (to_string ?pid)" for k
      using low(2) [of k ?pid] low(1) m(3) by (auto simp: unsigned_of_int take_bit_int_eq_self)
    obtain create u w3 where c: "RedisSetIfAbsent E S name (BuildDirectoryEntrySuffix key) (to_string ?pid) w2 = (create, u, w3)"
      by (metis prod_cases3)
    note ck = RedisSetIfAbsent_kv [OF server c directory_keys(2) [OF server(2)], folded entry_key_def]
    have w3: "dir_inv S name (kv w3)"
    proof -
      have "kv w2 ?c = Some (show_int n)" by (simp add: m(4))
      then have "dir_inv S name ((kv w2)(?e key \<mapsto> to_string ?pid))"
        using dir_inv_entry [OF server(2) w2(1) _ low(1) m(3)] low(2) by blast
      then show ?thesis using ck w2(1) by metis
    qed
    have mono: "kv w3 (?e k) = Some v" if "kv w (?e k) = Some v" for k v
      using that ck w2(2) keys(1) by auto
    obtain retry text1 w4 where g: "RedisGet E S name (BuildDirectoryEntrySuffix key) [] w3 = (retry, text1, w4)"
      by (metis prod_cases3)
    note gk = RedisGet_kv [OF server g directory_keys(2) [OF server(2)], folded entry_key_def]
    have w': "kv w' = kv w3"
      using run True i c g gk by (auto simp: allocate_round_def w1_def Let_def split: if_splits sum.splits)
    have answer: "case a of allocated pid new \<Rightarrow> kv w3 (?e key) = Some (to_string pid) \<and>
        (new \<longrightarrow> pid = ?pid \<and> kv w (?e key) = None) | thrown _ \<Rightarrow> False | _ \<Rightarrow> True"
    proof (cases "ok create")
      case True
      then show ?thesis using run \<open>ok inc\<close> i c ck w2(2) by (auto simp: allocate_round_def w1_def Let_def)
    next
      case False
      then show ?thesis
        using run True i c g gk dir_inv_to_string [OF w3, of key text1]
        by (auto simp: allocate_round_def w1_def Let_def split: if_splits sum.splits)
    qed
    show ?thesis
      using answer w3 mono w' fresh w2(2) by (auto simp: allocation_ok_def split: allocation.splits)
  qed
qed

lemma allocation_ok_trans:
  assumes "allocation_ok S name key m m1 b" and "allocation_ok S name key m1 m' a"
  shows "allocation_ok S name key m m' a"
proof -
  have mono: "m1 (entry_key S name k) = Some v" if "m (entry_key S name k) = Some v" for k v
    using assms(1) that by (simp add: allocation_ok_def)
  then have none: "m (entry_key S name k) = None" if "m1 (entry_key S name k) = None" for k
    using that by (cases "m (entry_key S name k)") auto
  have other: "m (entry_key S name k) \<noteq> Some v" if "m1 (entry_key S name k) \<noteq> Some v" for k v
    using mono that by blast
  show ?thesis
  proof (cases a)
    case (allocated pid new)
    then show ?thesis
      using assms(2) mono none [of key] other [of _ "to_string pid"] unfolding allocation_ok_def by simp
  qed (use assms(2) mono in \<open>simp_all add: allocation_ok_def\<close>)
qed

text \<open>The loop, by the induction rule for partial functions: its result is that of a round of a later state.\<close>

lemma allocate_loop_spec:
  assumes server: "directory_server E h kv" "GetRedisForDataset S name = Some h"
    and "allocate_loop E S name key w = Some (a, w')" and "dir_inv S name (kv w)"
  shows "allocation_ok S name key (kv w) (kv w') a"
proof -
  have "directory_server E h kv \<longrightarrow> GetRedisForDataset S name = Some h \<longrightarrow> dir_inv S name (kv w) \<longrightarrow>
      allocation_ok S name key (kv w) (kv (snd r)) (fst r)" if "allocate_loop E S name key w = Some r" for r
    using that
  proof (induction rule: allocate_loop.raw_induct [rotated 1, consumes 1])
    case (1 loop E S name key w r)
    show ?case
    proof (intro impI)
      assume s: "directory_server E h kv" "GetRedisForDataset S name = Some h" and inv: "dir_inv S name (kv w)"
      obtain a1 w1 where r1: "allocate_round E S name key w = (a1, w1)" by (cases "allocate_round E S name key w")
      note ok1 = allocate_round_spec [OF s inv r1]
      show "allocation_ok S name key (kv w) (kv (snd r)) (fst r)"
      proof (cases "a1 = try_again")
        case True
        then have "loop E S name key w1 = Some r" using "1"(2) r1 by simp
        then have "allocation_ok S name key (kv w1) (kv (snd r)) (fst r)"
          using "1"(1) s ok1 by (simp add: allocation_ok_def)
        then show ?thesis using ok1 allocation_ok_trans by blast
      next
        case False
        then show ?thesis using "1"(2) r1 ok1 by auto
      qed
    qed
  qed
  then show ?thesis using assms by fastforce
qed

text \<open>
  The whole call on a process whose cache agrees with the server. The ids it got from the server are the
  server's ids for the accounts.
\<close>

definition cache_agrees :: "PlayerDirectoryService \<Rightarrow> StorageService \<Rightarrow> (string \<Rightarrow> string option) \<Rightarrow> bool" where
  "cache_agrees D S m \<longleftrightarrow> (\<forall>key pid. map_of (dir_mEntries D) key = Some pid \<longrightarrow>
     m (entry_key S (dir_mDatasetName D) key) = Some (to_string pid))"

lemma emplace_lookup [simp]: "map_of m k = None \<Longrightarrow> map_of (emplace k v m) = (map_of m)(k \<mapsto> v)"
  by (simp add: emplace_def)

lemma cache_entry_sel [simp]:
  "mStorageService (cache_entry key pid D) = mStorageService D" "dir_mDatasetName (cache_entry key pid D) = dir_mDatasetName D"
  "mNextPlayerId (cache_entry key pid D) = mNextPlayerId D"
  "dir_mEntries (cache_entry key pid D) = emplace key pid (dir_mEntries D)"
  by (simp_all add: cache_entry_def)

lemma ResolveOrCreate_spec:
  assumes server: "directory_server E h kv" "GetRedisForDataset S (dir_mDatasetName D) = Some h"
    and D: "mStorageService D = Some S" "cache_agrees D S (kv w)" and inv: "dir_inv S (dir_mDatasetName D) (kv w)"
    and run: "ResolveOrCreate E platform account_id area_id (D, w) = Some (res, D', w')"
    and shared: "mNextPlayerId D' = mNextPlayerId D"
  shows "\<exists>r. res = Inr r \<and> dir_inv S (dir_mDatasetName D) (kv w') \<and> cache_agrees D' S (kv w') \<and>
     (\<forall>key v. kv w (entry_key S (dir_mDatasetName D) key) = Some v \<longrightarrow> kv w' (entry_key S (dir_mDatasetName D) key) = Some v) \<and>
     kv w' (entry_key S (dir_mDatasetName D) (account_MakeKey platform account_id area_id)) = Some (to_string (resolved_player_id r)) \<and>
     (created r \<longrightarrow> (\<forall>key. kv w (entry_key S (dir_mDatasetName D) key) \<noteq> Some (to_string (resolved_player_id r))))"
proof -
  let ?key = "account_MakeKey platform account_id area_id" and ?name = "dir_mDatasetName D"
  show ?thesis
  proof (cases "map_of (dir_mEntries D) ?key")
    case (Some pid)
    then show ?thesis using run D(2) inv by (auto simp: ResolveOrCreate_def cache_agrees_def)
  next
    case None
    obtain get v w1 where g: "RedisGet E S ?name (BuildDirectoryEntrySuffix ?key) [] w = (get, v, w1)" by (metis prod_cases3)
    note gk = RedisGet_kv [OF server g directory_keys(2) [OF server(2)], folded entry_key_def]
    have cached: "cache_agrees (cache_entry ?key pid D) S m" if "m (entry_key S ?name ?key) = Some (to_string pid)"
      "\<And>k v. kv w (entry_key S ?name k) = Some v \<Longrightarrow> m (entry_key S ?name k) = Some v" for pid m
      using that D(2) None by (auto simp: cache_agrees_def)
    show ?thesis
    proof (cases "ok get")
      case True
      then obtain pid where pid: "v = to_string pid" "stoull v = Inr pid" using gk dir_inv_to_string [OF inv] by blast
      then show ?thesis
        using run None D(1) g gk True inv cached [of "kv w1" pid] by (auto simp: ResolveOrCreate_def)
    next
      case False
      obtain a w2 where l: "allocate_loop E S ?name ?key w1 = Some (a, w2)"
        using run None D(1) g False
        by (cases "allocate_loop E S ?name ?key w1") (auto simp: ResolveOrCreate_def Let_def)
      have "dir_inv S ?name (kv w1)" using inv gk by simp
      note spec = allocate_loop_spec [OF server l this]
      have fell: "mNextPlayerId (snd (local_id ?key D)) \<noteq> mNextPlayerId D" by (simp add: local_id_def)
      from spec obtain pid new where a: "a = allocated pid new"
        using run None D(1) g False l shared fell
        by (cases a) (auto simp: ResolveOrCreate_def allocation_ok_def local_id_def)
      then show ?thesis
        using run None D(1) g gk False l spec cached [of "kv w2" pid] by (auto simp: ResolveOrCreate_def allocation_ok_def)
    qed
  qed
qed

section \<open>Accounts\<close>

text \<open>The text of an account is unique as long as no platform name has a colon.\<close>

lemma account_MakeKey_inject:
  assumes "CHR '':'' \<notin> set p" and "CHR '':'' \<notin> set q"
  shows "account_MakeKey p a i = account_MakeKey q b j \<longleftrightarrow> p = q \<and> a = b \<and> i = j"
proof
  assume eq: "account_MakeKey p a i = account_MakeKey q b j"
  let ?pa = "a @ '':'' @ to_string i" and ?qb = "b @ '':'' @ to_string j"
  have k: "getline CHR '':'' (p @ CHR '':'' # ?pa) = getline CHR '':'' (q @ CHR '':'' # ?qb)" using eq by (simp add: account_MakeKey_def)
  then have pq: "p = q" "?pa = ?qb"
    unfolding getline_field [OF assms(1)] getline_field [OF assms(2)] by simp_all
  have r: "CHR '':'' \<notin> set (rev (to_string i))" "CHR '':'' \<notin> set (rev (to_string j))" by simp_all
  have "rev ?pa = rev ?qb" using pq(2) by metis
  then have "getline CHR '':'' (rev (to_string i) @ CHR '':'' # rev a) = getline CHR '':'' (rev (to_string j) @ CHR '':'' # rev b)"
    by simp
  then have "rev (to_string i) = rev (to_string j)" "rev a = rev b"
    unfolding getline_field [OF r(1)] getline_field [OF r(2)] by simp_all
  then show "p = q \<and> a = b \<and> i = j" using pq by simp
qed simp

text \<open>With a colon in the platform two different accounts are one.\<close>

lemma account_MakeKey_collision: "account_MakeKey ''a:b'' ''c'' 1 = account_MakeKey ''a'' ''b:c'' 1"
  by (simp add: account_MakeKey_def)

section \<open>The loop ends\<close>

text \<open>A server that answers the two commands with one of their regular replies.\<close>

definition answering :: "'w env \<Rightarrow> redis_handle \<Rightarrow> bool" where
  "answering E h \<longleftrightarrow> (\<forall>k v w. fst (redisCommand E h [''SET'', k, v, ''NX''] w) \<in> {Some (REDIS_STATUS ''OK''), Some REDIS_NIL}) \<and>
     (\<forall>k w. fst (redisCommand E h [''GET'', k] w) \<noteq> None)"

lemma answering_round:
  assumes server: "directory_server E h kv" "GetRedisForDataset S name = Some h" and "answering E h"
  shows "fst (allocate_round E S name key w) \<noteq> try_again"
proof -
  let ?e = "BuildRedisKey S name (BuildDirectoryEntrySuffix key)"
  define w1 where "w1 = repair_counter E S name w"
  obtain inc n w2 where i: "RedisIncrement E S name BuildNextPlayerIdSuffix 1 0 w1 = (inc, n, w2)" by (metis prod_cases3)
  let ?pid = "to_string (of_int n :: u64)"
  obtain reply w3 where c: "redisCommand E h [''SET'', ?e, ?pid, ''NX''] w2 = (reply, w3)"
    by (cases "redisCommand E h [''SET'', ?e, ?pid, ''NX''] w2")
  obtain got w4 where g: "redisCommand E h [''GET'', ?e] w3 = (got, w4)" by (cases "redisCommand E h [''GET'', ?e] w3")
  have "reply \<in> {Some (REDIS_STATUS ''OK''), Some REDIS_NIL}" "got \<noteq> None"
    using assms(3) c g unfolding answering_def by (metis fst_conv)+
  moreover have "reply = Some REDIS_NIL \<Longrightarrow> kv w3 ?e \<noteq> None"
    using server(1) c unfolding directory_server_def set_absent_documented_def by fastforce
  moreover have "\<forall>a. got = Some a \<longrightarrow> a = (case kv w3 ?e of None \<Rightarrow> REDIS_NIL | Some v \<Rightarrow> REDIS_STRING v)"
    using server(1) g unfolding directory_server_def get_documented_def by blast
  ultimately have "reply = Some (REDIS_STATUS ''OK'') \<or> reply = Some REDIS_NIL \<and> (\<exists>v. got = Some (REDIS_STRING v))" by fastforce
  then show ?thesis
    using i c g server(2) directory_keys(2) [OF server(2), of key]
    by (auto simp: allocate_round_def w1_def [symmetric] RedisSetIfAbsent_def RedisGet_def with_redis_def status_result_def Let_def
        split: sum.splits)
qed

text \<open>
  C26. As long as the server answers, resolving an account returns: one round of the allocation loop is enough.
\<close>

theorem ResolveOrCreate_returns:
  assumes "directory_server E h kv" and "answering E h"
    and "mStorageService D = Some S" and "GetRedisForDataset S (dir_mDatasetName D) = Some h"
  shows "\<exists>res D' w'. ResolveOrCreate E platform account_id area_id (D, w) = Some (res, D', w')"
proof -
  let ?key = "account_MakeKey platform account_id area_id"
  obtain get v w1 where g: "RedisGet E S (dir_mDatasetName D) (BuildDirectoryEntrySuffix ?key) [] w = (get, v, w1)" by (metis prod_cases3)
  obtain a w2 where r: "allocate_round E S (dir_mDatasetName D) ?key w1 = (a, w2)"
    by (cases "allocate_round E S (dir_mDatasetName D) ?key w1")
  have "a \<noteq> try_again" using answering_round [OF assms(1,4,2), of ?key w1] r by simp
  then have "allocate_loop E S (dir_mDatasetName D) ?key w1 = Some (a, w2)" by (rule allocate_loop_stops [OF r])
  then show ?thesis
    using assms(3) g
    by (cases "map_of (dir_mEntries D) ?key"; cases a; cases "stoull v") (auto simp: ResolveOrCreate_def local_id_def Let_def)
qed

section \<open>Ids that come from the server\<close>

text \<open>A server that counts as long as the sum fits in 64 bits.\<close>

definition counting :: "'w env \<Rightarrow> redis_handle \<Rightarrow> ('w \<Rightarrow> string \<Rightarrow> string option) \<Rightarrow> bool" where
  "counting E h kv \<longleftrightarrow> (\<forall>k d w n. counter_of (kv w k) = Some n \<longrightarrow> 0 \<le> d \<longrightarrow> d < 2 ^ 63 \<longrightarrow> - (2 ^ 63) \<le> n + d \<longrightarrow> n + d < 2 ^ 63 \<longrightarrow>
     fst (redisCommand E h [''INCRBY'', k, show_int d] w) = Some (REDIS_INTEGER (n + d)))"

text \<open>The counter of the dataset is below a bound.\<close>

definition room :: "StorageService \<Rightarrow> string \<Rightarrow> (string \<Rightarrow> string option) \<Rightarrow> int \<Rightarrow> bool" where
  "room S name m b \<longleftrightarrow> (\<exists>n. counter_of (m (counter_key S name)) = Some n \<and> n < b)"

lemma repair_counter_room:
  assumes server: "directory_server E h kv" "GetRedisForDataset S name = Some h" and r: "room S name (kv w) b" "100000 \<le> b"
  shows "room S name (kv (repair_counter E S name w)) b"
proof -
  obtain get v w1 where g: "RedisGet E S name BuildNextPlayerIdSuffix [] w = (get, v, w1)" by (metis prod_cases3)
  obtain p u w2 where s: "RedisSetIfAbsent E S name BuildNextPlayerIdSuffix ''99999'' w1 = (p, u, w2)" by (metis prod_cases3)
  obtain q u' w3 where t: "RedisSet E S name BuildNextPlayerIdSuffix ''99999'' w1 = (q, u', w3)" by (metis prod_cases3)
  note kv = RedisGet_kv [OF server g directory_keys(1) [OF server(2)], folded counter_key_def]
    RedisSetIfAbsent_kv [OF server s directory_keys(1) [OF server(2)], folded counter_key_def]
    RedisSet_kv [OF server t directory_keys(1) [OF server(2)], folded counter_key_def]
  have "kv w' = kv w \<or> kv w' = (kv w)(counter_key S name \<mapsto> ''99999'')" if "w' \<in> {w1, w2, w3}" for w'
    using that kv by auto
  moreover have "repair_counter E S name w \<in> {w1, w2, w3}"
    using g s t by (simp add: repair_counter_def split: sum.split)
  ultimately have "kv (repair_counter E S name w) = kv w \<or> kv (repair_counter E S name w) = (kv w)(counter_key S name \<mapsto> ''99999'')"
    by blast
  moreover have "counter_of (Some ''99999'') = Some 99999" using counter_of_show [of 99999] by (simp add: start_value)
  ultimately show ?thesis using r by (auto simp: room_def)
qed

lemma allocate_round_from_server:
  assumes server: "directory_server E h kv" "GetRedisForDataset S name = Some h" "answering E h" "counting E h kv"
    and inv: "dir_inv S name (kv w)" and r: "room S name (kv w) b" "100000 \<le> b" "b < 2 ^ 63"
    and run: "allocate_round E S name key w = (a, w')"
  shows "a \<noteq> storage_failed \<and> room S name (kv w') (b + 1)"
proof -
  let ?c = "counter_key S name" and ?e = "entry_key S name key"
  define w1 where "w1 = repair_counter E S name w"
  have w1: "dir_inv S name (kv w1)" "room S name (kv w1) b"
    using repair_counter_spec [OF server(1,2) inv] repair_counter_room [OF server(1,2) r(1,2)] by (simp_all add: w1_def)
  obtain n where n: "counter_of (kv w1 ?c) = Some n" "n < b" using w1(2) by (auto simp: room_def)
  have "0 \<le> n" using dir_inv_ctr [OF w1(1)] n(1) by (metis option.inject)
  then have fits: "- (2 ^ 63) \<le> n + 1" "n + 1 < 2 ^ 63" using n(2) r(3) by auto
  obtain inc m w2 where i: "RedisIncrement E S name BuildNextPlayerIdSuffix 1 0 w1 = (inc, m, w2)" by (metis prod_cases3)
  have "fst (redisCommand E h [''INCRBY'', ?c, show_int 1] w1) = Some (REDIS_INTEGER (n + 1))"
    using server(4) n(1) fits unfolding counting_def by force
  then have inc: "ok inc"
    using i server(2) directory_keys(1) [OF server(2)]
    by (auto simp: RedisIncrement_def with_redis_def counter_key_def storage_ok_def split: prod.splits)
  have w2: "kv w2 = (kv w1)(?c \<mapsto> show_int (n + 1))"
    using RedisIncrement_kv [OF server(1,2) i directory_keys(1) [OF server(2)], folded counter_key_def] inc n(1) by auto
  let ?pid = "to_string (of_int m :: u64)"
  obtain create u w3 where c: "RedisSetIfAbsent E S name (BuildDirectoryEntrySuffix key) ?pid w2 = (create, u, w3)" by (metis prod_cases3)
  obtain retry text1 w4 where g: "RedisGet E S name (BuildDirectoryEntrySuffix key) [] w3 = (retry, text1, w4)" by (metis prod_cases3)
  have "fst (redisCommand E h [''SET'', BuildRedisKey S name (BuildDirectoryEntrySuffix key), ?pid, ''NX''] w2)
      \<in> {Some (REDIS_STATUS ''OK''), Some REDIS_NIL}"
    using server(3) unfolding answering_def by blast
  then have create: "ok create \<or> message create = ''exists''"
    using c server(2) directory_keys(2) [OF server(2), of key]
    by (auto simp: RedisSetIfAbsent_def with_redis_def status_result_def storage_ok_def split: prod.splits)
  have "kv w3 ?c = kv w2 ?c"
    using RedisSetIfAbsent_kv [OF server(1,2) c directory_keys(2) [OF server(2)], folded entry_key_def] entry_key_inject(2) [OF server(2), of key]
    by (metis fun_upd_other)
  moreover have "kv w4 = kv w3" using RedisGet_kv [OF server(1,2) g directory_keys(2) [OF server(2)]] by simp
  moreover have "w' \<in> {w3, w4}" and a: "a \<noteq> storage_failed"
    using run inc i c g create by (auto simp: allocate_round_def w1_def [symmetric] Let_def split: if_splits sum.splits)
  moreover have "counter_of (kv w2 ?c) = Some (n + 1)" using counter_of_show [of "n + 1"] \<open>0 \<le> n\<close> fits(2) by (simp add: w2)
  ultimately show ?thesis using n(2) by (auto simp: room_def)
qed

lemma ResolveOrCreate_from_server:
  assumes server: "directory_server E h kv" "GetRedisForDataset S (dir_mDatasetName D) = Some h" "answering E h" "counting E h kv"
    and D: "mStorageService D = Some S" and inv: "dir_inv S (dir_mDatasetName D) (kv w)"
    and r: "room S (dir_mDatasetName D) (kv w) b" "100000 \<le> b" "b < 2 ^ 63"
  shows "\<exists>res D' w'. ResolveOrCreate E p a i (D, w) = Some (res, D', w') \<and> mNextPlayerId D' = mNextPlayerId D \<and>
    room S (dir_mDatasetName D) (kv w') (b + 1)"
proof -
  let ?key = "account_MakeKey p a i" and ?name = "dir_mDatasetName D"
  obtain res D' w' where run: "ResolveOrCreate E p a i (D, w) = Some (res, D', w')"
    using ResolveOrCreate_returns [OF server(1,3) D server(2)] by blast
  obtain get v w1 where g: "RedisGet E S ?name (BuildDirectoryEntrySuffix ?key) [] w = (get, v, w1)" by (metis prod_cases3)
  have kv: "kv w1 = kv w" using RedisGet_kv [OF server(1,2) g directory_keys(2) [OF server(2)]] by simp
  obtain c w2 where c: "allocate_round E S ?name ?key w1 = (c, w2)" by (cases "allocate_round E S ?name ?key w1")
  have round: "c \<noteq> storage_failed" "room S ?name (kv w2) (b + 1)"
    using allocate_round_from_server [OF server _ _ r(2,3) c] inv r(1) by (simp_all add: kv)
  have again: "c \<noteq> try_again" using answering_round [OF server(1-3), of ?key w1] c by simp
  note loop = allocate_loop_stops [OF c again]
  have more: "room S ?name (kv w) (b + 1)" "room S ?name (kv w1) (b + 1)" using r(1) by (auto simp: room_def kv)
  have "mNextPlayerId D' = mNextPlayerId D \<and> room S ?name (kv w') (b + 1)"
    using run g loop round again D more
    by (cases c) (auto simp: ResolveOrCreate_def Let_def split: option.splits if_splits sum.splits)
  then show ?thesis using run by blast
qed

text \<open>
  C5. Two game processes that share a dataset both get an answer, with the same id for the same account and different ids
  for different accounts, whichever of them is asked first, as long as the server answers and its counter of 64 bits is not
  used up, so that neither falls back to an id of its own.
\<close>

theorem accounts_have_their_ids:
  assumes server: "directory_server E h kv" "answering E h" "counting E h kv" "GetRedisForDataset S name = Some h"
    and inv: "dir_inv S name (kv w)" and "counter_of (kv w (counter_key S name)) = Some n" and "n < 2 ^ 63 - 2"
    and D1: "mStorageService D1 = Some S" "dir_mDatasetName D1 = name" "cache_agrees D1 S (kv w)"
    and D2: "mStorageService D2 = Some S" "dir_mDatasetName D2 = name" "cache_agrees D2 S (kv w)"
  shows "\<exists>r1 D1' w1 r2 D2' w2. ResolveOrCreate E p1 a1 i1 (D1, w) = Some (Inr r1, D1', w1) \<and>
     ResolveOrCreate E p2 a2 i2 (D2, w1) = Some (Inr r2, D2', w2) \<and>
     (resolved_player_id r1 = resolved_player_id r2 \<longleftrightarrow> account_MakeKey p1 a1 i1 = account_MakeKey p2 a2 i2)"
proof -
  let ?e = "entry_key S name"
  have room: "room S name (kv w) (2 ^ 63 - 2)" using assms(6,7) by (auto simp: room_def)
  obtain res1 D1' w1 where run1: "ResolveOrCreate E p1 a1 i1 (D1, w) = Some (res1, D1', w1)" "mNextPlayerId D1' = mNextPlayerId D1"
    and room1: "room S name (kv w1) (2 ^ 63 - 1)"
    using ResolveOrCreate_from_server [OF server(1) _ server(2,3) D1(1), of w "2 ^ 63 - 2" p1 a1 i1] server(4) inv room
    unfolding D1(2) by auto
  obtain r1 where r1: "res1 = Inr r1" "dir_inv S name (kv w1)"
    "\<And>key v. kv w (?e key) = Some v \<Longrightarrow> kv w1 (?e key) = Some v"
    "kv w1 (?e (account_MakeKey p1 a1 i1)) = Some (to_string (resolved_player_id r1))"
    using ResolveOrCreate_spec [OF server(1) _ D1(1,3) _ run1] server(4) inv unfolding D1(2) by blast
  obtain res2 D2' w2 where run2: "ResolveOrCreate E p2 a2 i2 (D2, w1) = Some (res2, D2', w2)" "mNextPlayerId D2' = mNextPlayerId D2"
    using ResolveOrCreate_from_server [OF server(1) _ server(2,3) D2(1), of w1 "2 ^ 63 - 1" p2 a2 i2] server(4) r1(2) room1
    unfolding D2(2) by auto
  have "cache_agrees D2 S (kv w1)" using D2(2,3) r1(3) by (simp add: cache_agrees_def)
  then obtain r2 where r2: "res2 = Inr r2" "dir_inv S name (kv w2)"
    "\<And>key v. kv w1 (?e key) = Some v \<Longrightarrow> kv w2 (?e key) = Some v"
    "kv w2 (?e (account_MakeKey p2 a2 i2)) = Some (to_string (resolved_player_id r2))"
    using ResolveOrCreate_spec [OF server(1) _ D2(1) _ _ run2] server(4) r1(2) unfolding D2(2) by blast
  have "kv w2 (?e (account_MakeKey p1 a1 i1)) = Some (to_string (resolved_player_id r1))" using r1(4) r2(3) by blast
  then have "resolved_player_id r1 = resolved_player_id r2 \<longleftrightarrow> account_MakeKey p1 a1 i1 = account_MakeKey p2 a2 i2"
    using r2(2,4) unfolding dir_inv_def by (metis option.inject to_string_inject)
  then show ?thesis using run1(1) run2(1) r1(1) r2(1) by blast
qed

section \<open>Runs on the in-memory server\<close>

lemma sample_key [simp]: "BuildRedisKey sample_storage ''player'' s = ''k:p:'' @ s"
  by (simp add: BuildRedisKey_def GetDataset_def FindDataset_def sample_storage_def sample_dataset_def)
lemmas memory_simps = memory_env_def mem_command_def redis_calls BuildDirectoryEntrySuffix_def BuildNextPlayerIdSuffix_def
   counter_of_def storage_ok_def status_result_def str_or_def redis_error_def
lemma start_stoll: "stoll ''99999'' = Inr 99999" "stoll ''1'' = Inr 1" "show_int 1 = ''1''"
proof -
  show one: "show_int 1 = ''1''" by (simp add: show_int_def show_nat.simps digit_char_def char_of_def bit_0)
  show "stoll ''99999'' = Inr 99999" using stoll_show_int [of 99999] by (simp add: start_value)
  show "stoll ''1'' = Inr 1" using stoll_show_int [of 1] by (simp add: one)
qed

definition first_world :: "string \<Rightarrow> memory_world" where
  "first_world key = memory_world0\<lparr>mem_keys := [(''k:p:directory:next_player_id'', show_int 100000), (''k:p:directory:entry:'' @ key, to_string (100000::u64))]\<rparr>"

lemma first_round: "allocate_round (memory_env rf rl) sample_storage ''player'' key memory_world0 =
  (allocated 100000 True, first_world key)"
  by (simp add: allocate_round_def repair_counter_def memory_simps memory_world0_def start_stoll start_value first_world_def)
lemma first_get: "RedisGet (memory_env rf rl) sample_storage ''player'' suffix old memory_world0 = (Failure ''nil'', old, memory_world0)"
  by (simp add: memory_simps memory_world0_def)

lemma down_round: "mem_down w \<Longrightarrow> allocate_round (memory_env rf rl) sample_storage ''player'' key w = (storage_failed, w)"
  by (simp add: allocate_round_def repair_counter_def memory_simps)
lemma down_get: "mem_down w \<Longrightarrow> RedisGet (memory_env rf rl) sample_storage ''player'' suffix old w = (Failure ''redis GET failed'', old, w)"
  by (simp add: memory_simps)

lemma first_world_get: "RedisGet (memory_env rf rl) sample_storage ''player'' (BuildDirectoryEntrySuffix key) old (first_world key) =
    (storage_ok ''OK'', to_string (100000 :: u64), first_world key)"
  by (simp add: memory_simps memory_world0_def first_world_def)

lemma first_resolve:
  "ResolveOrCreate (memory_env rf rl) ''p'' ''a'' 1 (new_directory (Some sample_storage) ''player'', memory_world0) =
     Some (Inr \<lparr>resolved_player_id = 100000, created = True\<rparr>,
       cache_entry (account_MakeKey ''p'' ''a'' 1) 100000 (new_directory (Some sample_storage) ''player''),
       first_world (account_MakeKey ''p'' ''a'' 1))"
  by (simp add: ResolveOrCreate_def new_directory_def first_get allocate_loop_stops [OF first_round] Let_def)

text \<open>The same server when it is never down.\<close>

definition up_env :: "string \<Rightarrow> string \<Rightarrow> memory_world env" where
  "up_env refresh release = (memory_env refresh release)
     \<lparr>redisCommand := (\<lambda>h argv w. mem_command refresh release h argv (w\<lparr>mem_down := False\<rparr>))\<rparr>"

lemma up_answering: "answering (up_env rf rl) h"
  by (simp add: answering_def up_env_def mem_command_def)

lemma up_server: "directory_server (up_env rf rl) h mem_kv"
proof -
  have "get_documented (up_env rf rl) h mem_kv" "set_documented (up_env rf rl) h mem_kv"
    "set_absent_documented (up_env rf rl) h mem_kv"
    by (auto simp: get_documented_def set_documented_def set_absent_documented_def up_env_def mem_command_def mem_kv_def
        split: if_splits)
  moreover have "incr_documented (up_env rf rl) h mem_kv"
    by (auto simp: incr_documented_def up_env_def mem_command_def mem_kv_def
        split: if_splits option.splits sum.splits redis_reply.splits)
  ultimately show ?thesis by (simp add: directory_server_def)
qed

lemma up_counting: "counting (up_env rf rl) h mem_kv"
  by (auto simp: counting_def up_env_def mem_command_def mem_kv_def stoll_show_int split: option.splits sum.splits)

theorem accounts_have_their_ids_witness:
  "\<exists>r1 r2 D1' D2' w1 w2.
     ResolveOrCreate (up_env [] []) ''p'' ''a'' 1 (new_directory (Some sample_storage) ''player'', memory_world0) = Some (Inr r1, D1', w1) \<and>
     ResolveOrCreate (up_env [] []) ''p'' ''b'' 1 (new_directory (Some sample_storage) ''player'', w1) = Some (Inr r2, D2', w2) \<and>
     resolved_player_id r1 \<noteq> resolved_player_id r2"
proof -
  let ?D = "new_directory (Some sample_storage) ''player''"
  have inv: "dir_inv sample_storage ''player'' (mem_kv memory_world0)"
    by (simp add: dir_inv_def mem_kv_def memory_world0_def)
  have start: "counter_of (mem_kv memory_world0 (counter_key sample_storage ''player'')) = Some 0"
    by (simp add: counter_of_def mem_kv_def memory_world0_def)
  have "account_MakeKey ''p'' ''a'' 1 \<noteq> account_MakeKey ''p'' ''b'' 1" by (simp add: account_MakeKey_def)
  moreover have D: "mStorageService ?D = Some sample_storage" "dir_mDatasetName ?D = ''player''" "cache_agrees ?D sample_storage m" for m
    by (simp_all add: new_directory_def cache_agrees_def)
  moreover have "GetRedisForDataset sample_storage ''player'' = Some 1" by simp
  ultimately show ?thesis
    using accounts_have_their_ids [where E = "up_env [] []" and h = 1 and kv = mem_kv and S = sample_storage and name = "''player''"
        and w = memory_world0 and n = 0 and ?D1.0 = ?D and ?D2.0 = ?D and ?p1.0 = "''p''" and ?a1.0 = "''a''" and ?i1.0 = 1
        and ?p2.0 = "''p''" and ?a2.0 = "''b''" and ?i2.0 = 1, OF up_server up_answering up_counting _ inv start _ D(1,2) D(3) D(1,2) D(3)]
    by simp blast
qed

theorem ResolveOrCreate_returns_witness:
  "\<exists>res D' w'. ResolveOrCreate (up_env [] []) ''p'' ''a'' 1 (new_directory (Some sample_storage) ''player'', memory_world0) = Some (res, D', w')"
  by (rule ResolveOrCreate_returns [where S = sample_storage, OF up_server [where h = 1] up_answering]) (simp_all add: new_directory_def)
text \<open>
  An id of last resort is not unique: a player created while the server is down gets the id that the
  server gives to the first account after it is back.
\<close>

theorem fallback_id_is_reused:
  "\<exists>r D' r' D''.
    ResolveOrCreate (memory_env rf rl) ''p'' ''a'' 1 (new_directory (Some sample_storage) ''player'', memory_world0\<lparr>mem_down := True\<rparr>)
      = Some (Inr r, D', memory_world0\<lparr>mem_down := True\<rparr>) \<and>
    ResolveOrCreate (memory_env rf rl) ''p'' ''b'' 1 (D', memory_world0) = Some (Inr r', D'', first_world (account_MakeKey ''p'' ''b'' 1)) \<and>
    created r \<and> created r' \<and> resolved_player_id r = resolved_player_id r'"
  by (simp add: ResolveOrCreate_def new_directory_def down_get allocate_loop_stops [OF down_round] local_id_def first_get
      allocate_loop_stops [OF first_round] emplace_def account_MakeKey_def Let_def)

end
