(* ===== verification/Game_Ipc.thy ===== *)
theory Game_Ipc
  imports Ipc_Node
begin

text \<open>
  \<^verbatim>\<open>GameIpcClientService\<close> (src/src/game/services/ipc_client_service.cpp): the IPC node of a game process
  with its three receiver hosts, the player bindings, and the guarded sends. The handlers registered
  with the process dispatcher are an argument of the definitions; \<open>'w\<close> is everything the operating
  system and those handlers keep.
\<close>

section \<open>State\<close>

text \<open>The receiver registry holds pointers; the service owns three hosts.\<close>

datatype game_host = host_process | host_player | host_service

record game_ipc =
  gi_node :: "game_host node"
  gi_service_type :: ServiceType
  mProcessReceiverHost :: "process_host option"
  mPlayerReceiverHost :: player_host
  mServiceReceiverHost :: service_host
  mSendRejectCount :: u64
  mLastSendRejectReason :: string

type_synonym 'w process_handler = "ReceiverAddress \<Rightarrow> Envelope \<Rightarrow> game_ipc \<times> 'w \<Rightarrow> result \<times> game_ipc \<times> 'w"

text \<open>
  \<^verbatim>\<open>ProtobufEnvelopeDispatcher\<close> (src/src/common/protocol/protobuf_envelope_dispatcher.h): the handlers by type URL,
  each with its message already parsed out of the envelope. An envelope nobody registered for is accepted.
\<close>

definition dispatcher_Dispatch :: "(string \<times> 'w process_handler) list \<Rightarrow> 'w process_handler" where
  "dispatcher_Dispatch handlers target e s = (case map_of handlers (payload_type_url e) of
      None \<Rightarrow> (Success, s)
    | Some h \<Rightarrow> h target e s)"

text \<open>A registered handler parses its message first.\<close>

definition parsed_handler :: "(ByteBuffer \<Rightarrow> 'm option) \<Rightarrow> string \<Rightarrow> (ReceiverAddress \<Rightarrow> Envelope \<Rightarrow> 'm \<Rightarrow> game_ipc \<times> 'w \<Rightarrow> result \<times> game_ipc \<times> 'w)
    \<Rightarrow> 'w process_handler" where
  "parsed_handler parse url h target e s = (case parse (payload_bytes e) of
      None \<Rightarrow> (Failure (''failed to parse protobuf envelope payload: '' @ url), s)
    | Some m \<Rightarrow> h target e m s)"

definition LocalServiceReceiverAddress :: "ServiceType \<Rightarrow> ReceiverAddress" where
  "LocalServiceReceiverAddress ty = \<lparr>rtype = RT_service, key_hi = ucast ty, key_lo = 1\<rparr>"

definition PlayerReceiverAddress :: "u64 \<Rightarrow> ReceiverAddress" where
  "PlayerReceiverAddress pid = \<lparr>rtype = RT_player, key_hi = pid, key_lo = 0\<rparr>"

definition set_directory :: "receiver_table \<Rightarrow> game_ipc \<Rightarrow> game_ipc" where
  "set_directory d g = g\<lparr>gi_node := (gi_node g)\<lparr>nd_directory := d\<rparr>\<rparr>"

definition directory :: "game_ipc \<Rightarrow> receiver_table" where
  "directory g = nd_directory (gi_node g)"

section \<open>Players\<close>

definition BindLocalPlayer :: "u64 \<Rightarrow> game_ipc \<Rightarrow> result \<times> game_ipc" where
  "BindLocalPlayer pid g = (case nd_self (gi_node g) of
      None \<Rightarrow> (Failure ''self descriptor is not initialized'', g)
    | Some self \<Rightarrow>
        let (bound, h) = player_host_Bind pid (mPlayerReceiverHost g) in
        if \<not> bound then (Failure ''player is already bound locally'', g)
        else let (r, d) = Bind (directory g) (PlayerReceiverAddress pid) (process self);
                 h' = (if ok r then h else snd (player_host_Unbind pid h)) in
        (r, set_directory d g\<lparr>mPlayerReceiverHost := h'\<rparr>))"

definition UnbindLocalPlayer :: "u64 \<Rightarrow> game_ipc \<Rightarrow> result \<times> game_ipc" where
  "UnbindLocalPlayer pid g = (case nd_self (gi_node g) of
      None \<Rightarrow> (Failure ''self descriptor is not initialized'', g)
    | Some self \<Rightarrow>
        if \<not> player_host_IsBound (mPlayerReceiverHost g) pid then (Failure ''player is not bound locally'', g)
        else let location = Resolve (directory g) (PlayerReceiverAddress pid) in
        if loc_kind location \<noteq> loc_single_process \<or> length (loc_processes location) \<noteq> 1
        then (Failure ''player receiver location is not locally resolvable'', g)
        else if loc_processes location ! 0 \<noteq> process self then (Failure ''player receiver owner mismatch'', g)
        else let (r, d) = Invalidate (directory g) (PlayerReceiverAddress pid) (process self) (loc_version location) in
        if \<not> ok r then (r, set_directory d g)
        else (Success, set_directory d g\<lparr>mPlayerReceiverHost := snd (player_host_Unbind pid (mPlayerReceiverHost g))\<rparr>))"

definition BindRemotePlayer :: "u64 \<Rightarrow> InstanceId \<Rightarrow> game_ipc \<Rightarrow> result \<times> game_ipc" where
  "BindRemotePlayer pid inst g = (case nd_self (gi_node g) of
      None \<Rightarrow> (Failure ''self descriptor is not initialized'', g)
    | Some self \<Rightarrow>
        (case find (\<lambda>m. service_type (process_id (process m)) = gi_service_type g \<and>
              instance_id (process_id (process m)) = inst) (Members (gi_node g)) of
           None \<Rightarrow> (Failure ''target player owner not found in discovery snapshot'', g)
         | Some m \<Rightarrow> (let (r, d) = Bind (directory g) (PlayerReceiverAddress pid) (process m) in (r, set_directory d g))))"

definition ConnectToProcess :: "'w node_env \<Rightarrow> InstanceId \<Rightarrow> game_ipc \<times> 'w \<Rightarrow> result \<times> game_ipc \<times> 'w" where
  "ConnectToProcess E inst s = (let (g, w) = s in
     case FindDiscoveredMemberLocked (gi_node g) (gi_service_type g) inst True of
       None \<Rightarrow> (Failure ''target process not found in discovery snapshot'', g, w)
     | Some m \<Rightarrow> (let (r, N, w') = ConnectDiscoveredMemberLocked E m (gi_node g, w) in (r, g\<lparr>gi_node := N\<rparr>, w')))"

section \<open>Sending\<close>

text \<open>
  The messenger built by \<^verbatim>\<open>LoadIpcRuntime\<close> holds references: directory, registries, view and links are
  those of the node at the time of the call. While the messenger lives, transport and links exist, so
  the last case of \<open>game_remote_send\<close> is never reached.
\<close>

definition game_remote_send :: "'w node_env \<Rightarrow> env_wire \<Rightarrow> ProcessRef \<Rightarrow> Envelope \<Rightarrow> game_ipc \<times> 'w \<Rightarrow> result \<times> game_ipc \<times> 'w" where
  "game_remote_send E W p e s = (let (g, w) = s in
     case (nd_transport (gi_node g), nd_links (gi_node g)) of
       (Some t, Some l) \<Rightarrow>
         let (r, evs, t1, w1) = TransportMessageSender_Send (ne_sockets E) W l p e (t, w);
             (l2, t2, w2) = (if evs = [] then (l, t1, w1) else on_connection_events E evs (l, t1, w1))
         in (r, g\<lparr>gi_node := (gi_node g)\<lparr>nd_transport := Some t2, nd_links := Some l2\<rparr>\<rparr>, w2)
     | _ \<Rightarrow> (Failure ''no healthy link to next hop'', g, w))"

fun game_host_CanHandle :: "game_host \<Rightarrow> ReceiverType \<Rightarrow> bool" where
  "game_host_CanHandle host_process ty = (ty = RT_process)"
| "game_host_CanHandle host_player ty = player_host_CanHandle ty"
| "game_host_CanHandle host_service ty = (ty = RT_service)"

fun game_host_Dispatch :: "'w process_handler \<Rightarrow> game_host \<Rightarrow> ReceiverAddress \<Rightarrow> Envelope \<Rightarrow> game_ipc \<times> 'w \<Rightarrow> result \<times> game_ipc \<times> 'w" where
  "game_host_Dispatch H host_player target e (g, w) =
     (let (r, h) = player_host_Dispatch target e (mPlayerReceiverHost g) in (r, g\<lparr>mPlayerReceiverHost := h\<rparr>, w))"
| "game_host_Dispatch H host_service target e (g, w) =
     (let (r, h) = service_host_Dispatch target e (mServiceReceiverHost g) in (r, g\<lparr>mServiceReceiverHost := h\<rparr>, w))"
| "game_host_Dispatch H host_process target e (g, w) = (case mProcessReceiverHost g of
      None \<Rightarrow> (Failure ''receiver host not registered'', g, w)
    | Some h \<Rightarrow>
        let (r, h', _) = process_host_Dispatch None target e (h, ());
            g' = g\<lparr>mProcessReceiverHost := Some h'\<rparr> in
        if \<not> ok r then (r, g', w) else H target e (g', w))"

definition game_messenger :: "'w node_env \<Rightarrow> env_wire \<Rightarrow> 'w process_handler \<Rightarrow> ProcessDescriptor \<Rightarrow> game_ipc
    \<Rightarrow> (game_host, game_ipc \<times> 'w) messenger" where
  "game_messenger E W H self g =
     \<lparr>mSelf = process self, mRelayServiceType = kRelayServiceType, mReceiverDirectory = directory g,
      mHosts = nd_hosts (gi_node g), host_Dispatch = game_host_Dispatch H, mTypeUrls = nd_urls (gi_node g),
      mMembership = Some (ed_mProcesses (nd_discovery (gi_node g))), messenger_links = nd_links (gi_node g),
      mRemoteSender = Some (game_remote_send E W)\<rparr>"

definition RecordSendRejectLocked :: "string \<Rightarrow> game_ipc \<Rightarrow> game_ipc" where
  "RecordSendRejectLocked reason g = g\<lparr>mSendRejectCount := mSendRejectCount g + 1, mLastSendRejectReason := reason,
     gi_node := (gi_node g)\<lparr>nd_last_error := reason\<rparr>\<rparr>"

text \<open>
  The frame the five send operations share: no messenger, inactive IPC and a failed send are counted as
  rejects. The messenger exists only after a load, which sets the self descriptor.
\<close>

definition guarded_send :: "'w node_env \<Rightarrow> env_wire \<Rightarrow> 'w process_handler
    \<Rightarrow> ((game_host, game_ipc \<times> 'w) messenger \<Rightarrow> game_ipc \<times> 'w \<Rightarrow> result \<times> game_ipc \<times> 'w)
    \<Rightarrow> game_ipc \<times> 'w \<Rightarrow> result \<times> game_ipc \<times> 'w" where
  "guarded_send E W H send s = (let (g, w) = s in
     case (nd_messenger (gi_node g), nd_self (gi_node g)) of
       (True, Some self) \<Rightarrow>
         if \<not> IsIpcActiveLocked (gi_node g)
         then (Failure ''ipc is not active'', RecordSendRejectLocked ''ipc is not active'' g, w)
         else let (r, g', w') = send (game_messenger E W H self g) (g, w)
              in (r, if ok r then g' else RecordSendRejectLocked (message r) g', w')
     | _ \<Rightarrow> (Failure ''messenger is not initialized'', RecordSendRejectLocked ''messenger is not initialized'' g, w))"

definition SendProcessPayload :: "'w node_env \<Rightarrow> env_wire \<Rightarrow> 'w process_handler \<Rightarrow> ProcessId \<Rightarrow> proto_message
    \<Rightarrow> game_ipc \<times> 'w \<Rightarrow> result \<times> game_ipc \<times> 'w" where
  "SendProcessPayload E W H target m = guarded_send E W H (\<lambda>M. SendToProcess M target m)"

text \<open>\<^verbatim>\<open>StringValue\<close> is protobuf's wrapper message; its encoding is an argument.\<close>

definition StringValue :: "(string \<Rightarrow> ByteBuffer) \<Rightarrow> string \<Rightarrow> proto_message" where
  "StringValue enc v = \<lparr>full_name = ''google.protobuf.StringValue'', serialized = enc v\<rparr>"

definition SendLocalServiceMessage :: "'w node_env \<Rightarrow> env_wire \<Rightarrow> 'w process_handler \<Rightarrow> (string \<Rightarrow> ByteBuffer) \<Rightarrow> string
    \<Rightarrow> game_ipc \<times> 'w \<Rightarrow> result \<times> game_ipc \<times> 'w" where
  "SendLocalServiceMessage E W H enc v s =
     guarded_send E W H (\<lambda>M. SendToReceiver M (LocalServiceReceiverAddress (gi_service_type (fst s))) (StringValue enc v)) s"

definition SendProcessMessage :: "'w node_env \<Rightarrow> env_wire \<Rightarrow> 'w process_handler \<Rightarrow> (string \<Rightarrow> ByteBuffer) \<Rightarrow> InstanceId \<Rightarrow> string
    \<Rightarrow> game_ipc \<times> 'w \<Rightarrow> result \<times> game_ipc \<times> 'w" where
  "SendProcessMessage E W H enc inst v s =
     guarded_send E W H (\<lambda>M. SendToProcess M (mk_process_id (gi_service_type (fst s)) inst) (StringValue enc v)) s"

definition SendPlayerMessage :: "'w node_env \<Rightarrow> env_wire \<Rightarrow> 'w process_handler \<Rightarrow> (string \<Rightarrow> ByteBuffer) \<Rightarrow> u64 \<Rightarrow> string
    \<Rightarrow> game_ipc \<times> 'w \<Rightarrow> result \<times> game_ipc \<times> 'w" where
  "SendPlayerMessage E W H enc pid v =
     guarded_send E W H (\<lambda>M. SendToReceiver M (PlayerReceiverAddress pid) (StringValue enc v))"

definition BroadcastServiceMessage :: "'w node_env \<Rightarrow> env_wire \<Rightarrow> 'w process_handler \<Rightarrow> (string \<Rightarrow> ByteBuffer) \<Rightarrow> string \<Rightarrow> bool
    \<Rightarrow> game_ipc \<times> 'w \<Rightarrow> result \<times> game_ipc \<times> 'w" where
  "BroadcastServiceMessage E W H enc v incl s = (let ty = gi_service_type (fst s) in
     guarded_send E W H (\<lambda>M. BroadcastToService M ty
       (default_BroadcastScope\<lparr>scope_service_type := Some ty, include_local := incl\<rparr>) (StringValue enc v)) s)"

definition game_HandleIncomingDataFrame :: "'w node_env \<Rightarrow> env_wire \<Rightarrow> 'w process_handler \<Rightarrow> RawFrame
    \<Rightarrow> game_ipc \<times> 'w \<Rightarrow> game_ipc \<times> 'w" where
  "game_HandleIncomingDataFrame E W H f s = (let (g, w) = s in
     case (nd_messenger (gi_node g), nd_self (gi_node g)) of
       (True, Some self) \<Rightarrow>
         if \<not> IsIpcActiveLocked (gi_node g) then (g, w)
         else snd (HandleIncomingFrame W (game_messenger E W H self g) f (g, w))
     | _ \<Rightarrow> (g, w))"

section \<open>Lifecycle\<close>

definition game_BuildSelfDescriptor :: "ServiceType \<Rightarrow> InstanceId \<Rightarrow> Endpoint \<Rightarrow> ProcessDescriptor" where
  "game_BuildSelfDescriptor ty inst listen =
     \<lparr>process = \<lparr>process_id = mk_process_id ty inst, incarnation_id = 1\<rparr>, service_name = ''game'', listen_endpoint = listen,
      protocol_version = 1, start_time_unix_ms = 0, labels = [(''role'', ''game'')], relay_capabilities = []\<rparr>"

text \<open>The payload types the game registers, by their protobuf names.\<close>

definition game_payloads :: "string list" where
  "game_payloads = ''google.protobuf.StringValue'' # map (\<lambda>n. ''pb.ipc.'' @ n)
     [''LoginPlayerRequest'', ''LoginPlayerResponse'', ''ReconnectPlayerRequest'', ''ReconnectPlayerResponse'',
      ''KickAccountSession'', ''KickAccountSessionAck'', ''PlayerDisconnected'', ''BindPlayerSession'', ''UnbindPlayerSession'',
      ''ForwardPlayerMessageRequest'', ''ForwardPlayerMessageResponse'', ''PushPlayerMessage'']"

fun register_payloads :: "string list \<Rightarrow> string list \<Rightarrow> result \<times> string list" where
  "register_payloads [] urls = (Success, urls)"
| "register_payloads (n # names) urls = (let (r, urls') = payload_Register \<lparr>full_name = n, serialized = []\<rparr> urls
     in if \<not> ok r then (r, urls') else register_payloads names urls')"

definition register_host :: "game_host \<Rightarrow> ReceiverType \<Rightarrow> game_ipc \<Rightarrow> result \<times> game_ipc" where
  "register_host h ty g = (let (r, hosts) = registry_Register game_host_CanHandle (nd_hosts (gi_node g)) h ty;
     g' = g\<lparr>gi_node := (gi_node g)\<lparr>nd_hosts := hosts\<rparr>\<rparr>
     in (r, if ok r then g' else g'\<lparr>gi_node := (gi_node g')\<lparr>nd_last_error := message r\<rparr>\<rparr>))"

definition game_SetupRoleComponents :: "game_ipc \<Rightarrow> result \<times> game_ipc" where
  "game_SetupRoleComponents g0 = (case nd_self (gi_node g0) of
      None \<Rightarrow> (Failure [], g0)
    | Some self \<Rightarrow>
        let g = g0\<lparr>mProcessReceiverHost := Some \<lparr>proc_self = process self, proc_mDispatchCount = 0, proc_mLastPayloadType = []\<rparr>\<rparr>;
            (r1, g1) = register_host host_process RT_process g in
        if \<not> ok r1 then (r1, g1)
        else let (r2, g2) = register_host host_player RT_player g1 in
        if \<not> ok r2 then (r2, g2)
        else let (r3, d) = Bind (directory g2) (LocalServiceReceiverAddress (gi_service_type g2)) (process self);
                 g3 = set_directory d g2 in
        if \<not> ok r3 then (r3, g3\<lparr>gi_node := (gi_node g3)\<lparr>nd_last_error := message r3\<rparr>\<rparr>)
        else let (r4, g4) = register_host host_service RT_service g3 in
        if \<not> ok r4 then (r4, g4)
        else let (r5, urls) = register_payloads game_payloads (nd_urls (gi_node g4));
                 g5 = g4\<lparr>gi_node := (gi_node g4)\<lparr>nd_urls := urls\<rparr>\<rparr> in
        (r5, if ok r5 then g5 else g5\<lparr>gi_node := (gi_node g5)\<lparr>nd_last_error := message r5\<rparr>\<rparr>))"

definition game_TeardownRoleComponents :: "game_ipc \<Rightarrow> game_ipc" where
  "game_TeardownRoleComponents g = g\<lparr>mProcessReceiverHost := None\<rparr>"

definition game_Start :: "'w node_env \<Rightarrow> game_ipc \<times> 'w \<Rightarrow> game_ipc \<times> 'w" where
  "game_Start E s = (let (g, w) = s; (N, w') = game_recovered E (StartIpcRuntime E (gi_node g, w))
     in (g\<lparr>gi_node := StartAutoConnectLoop N\<rparr>, w'))"

definition game_Load :: "InstanceId \<Rightarrow> Endpoint \<Rightarrow> game_ipc \<Rightarrow> game_ipc" where
  "game_Load inst listen g = (let self = game_BuildSelfDescriptor (gi_service_type g) inst listen;
     N = LoadIpcRuntime self (\<lambda>N. let (r, g') = game_SetupRoleComponents (g\<lparr>gi_node := N\<rparr>) in (r, gi_node g')) (gi_node g)
     in g\<lparr>gi_node := N, mProcessReceiverHost :=
          Some \<lparr>proc_self = process self, proc_mDispatchCount = 0, proc_mLastPayloadType = []\<rparr>\<rparr>)"

definition game_Unload :: "'w node_env \<Rightarrow> game_ipc \<times> 'w \<Rightarrow> game_ipc \<times> 'w" where
  "game_Unload E s = (let (g, w) = s; (N, w') = UnloadIpcRuntime E (\<lambda>N. N) (gi_node g, w)
     in (game_TeardownRoleComponents (g\<lparr>gi_node := N\<rparr>), w'))"

section \<open>Bindings\<close>

text \<open>Every locally bound player is owned by this process in the directory.\<close>

definition players_inv :: "game_ipc \<Rightarrow> bool" where
  "players_inv g \<longleftrightarrow> directory_valid (directory g) \<and>
     (\<forall>self pid. nd_self (gi_node g) = Some self \<longrightarrow> player_host_IsBound (mPlayerReceiverHost g) pid \<longrightarrow>
        (\<exists>v. Receiver.owner_of (directory g) (PlayerReceiverAddress pid) = Some (process self, v)))"

lemma PlayerReceiverAddress_inject [simp]: "PlayerReceiverAddress a = PlayerReceiverAddress b \<longleftrightarrow> a = b"
  by (simp add: PlayerReceiverAddress_def)

lemma set_directory_sel [simp]:
  "directory (set_directory d g) = d" "nd_self (gi_node (set_directory d g)) = nd_self (gi_node g)"
  "mPlayerReceiverHost (set_directory d g) = mPlayerReceiverHost g"
  "directory (g\<lparr>mPlayerReceiverHost := h\<rparr>) = directory g"
  by (simp_all add: directory_def set_directory_def)

text \<open>A bind either succeeds, and then both the host and the directory know the player, or changes no binding.\<close>

lemma BindLocalPlayer_cases:
  assumes "players_inv g" and "nd_self (gi_node g) = Some self" and "BindLocalPlayer pid g = (r, g')"
  shows "players_inv g' \<and> nd_self (gi_node g') = Some self \<and>
     (ok r \<longrightarrow> \<not> player_host_IsBound (mPlayerReceiverHost g) pid) \<and>
     (\<forall>p. player_host_IsBound (mPlayerReceiverHost g') p \<longleftrightarrow>
        player_host_IsBound (mPlayerReceiverHost g) p \<or> ok r \<and> p = pid)"
proof (cases "player_host_IsBound (mPlayerReceiverHost g) pid")
  case True
  then show ?thesis
    using assms by (auto simp: BindLocalPlayer_def player_host_Bind_def player_host_IsBound_def)
next
  case False
  obtain b d where b: "Bind (directory g) (PlayerReceiverAddress pid) (process self) = (b, d)"
    by (cases "Bind (directory g) (PlayerReceiverAddress pid) (process self)")
  have valid: "directory_valid (directory g)" using assms(1) by (simp add: players_inv_def)
  have frame: "Receiver.owner_of d (PlayerReceiverAddress p) = Receiver.owner_of (directory g) (PlayerReceiverAddress p)"
    if "p \<noteq> pid" for p
    using local_dir.bind_frame [OF valid b] that by simp
  have own: "\<exists>v. Receiver.owner_of d (PlayerReceiverAddress pid) = Some (process self, v)" if "ok b"
    using local_dir.bind_resolve [OF valid b that]
    by (auto simp: local_dir.resolve_owner default_ReceiverLocation_def split: option.splits prod.splits)
  have g': "r = b" "g' = set_directory d g\<lparr>mPlayerReceiverHost :=
      (if ok b then snd (player_host_Bind pid (mPlayerReceiverHost g))
       else snd (player_host_Unbind pid (snd (player_host_Bind pid (mPlayerReceiverHost g)))))\<rparr>"
    using assms(2,3) False b by (auto simp: BindLocalPlayer_def player_host_Bind_def player_host_IsBound_def)
  have host: "player_host_IsBound (mPlayerReceiverHost g') p \<longleftrightarrow>
      player_host_IsBound (mPlayerReceiverHost g) p \<or> ok b \<and> p = pid" for p
    using False by (auto simp: g' player_host_Bind_def player_host_Unbind_def player_host_IsBound_def)
  have self': "nd_self (gi_node g') = Some self" using assms(2) by (simp add: g')
  have "players_inv g'"
    unfolding players_inv_def
  proof (intro conjI allI impI)
    show "directory_valid (directory g')" using local_dir.bind_valid [OF valid b] by (simp add: g')
    fix self' p assume s': "nd_self (gi_node g') = Some self'" and "player_host_IsBound (mPlayerReceiverHost g') p"
    then have c: "player_host_IsBound (mPlayerReceiverHost g) p \<or> ok b \<and> p = pid" by (simp add: host)
    have "self' = self" using s' self' by simp
    moreover have "directory g' = d" by (simp add: g')
    ultimately show "\<exists>v. Receiver.owner_of (directory g') (PlayerReceiverAddress p) = Some (process self', v)"
      using c own frame [of p] False assms(1,2) unfolding players_inv_def by metis
  qed
  then show ?thesis using host self' False by (simp add: g'(1))
qed

text \<open>A bound player can always be unbound, and then neither host nor directory knows it.\<close>

lemma UnbindLocalPlayer_bound:
  assumes "players_inv g" and "nd_self (gi_node g) = Some self" and "player_host_IsBound (mPlayerReceiverHost g) pid"
    and "UnbindLocalPlayer pid g = (r, g')"
  shows "ok r \<and> players_inv g' \<and> nd_self (gi_node g') = Some self \<and>
     Receiver.owner_of (directory g') (PlayerReceiverAddress pid) = None \<and>
     (\<forall>p. player_host_IsBound (mPlayerReceiverHost g') p \<longleftrightarrow> player_host_IsBound (mPlayerReceiverHost g) p \<and> p \<noteq> pid)"
proof -
  have valid: "directory_valid (directory g)" using assms(1) by (simp add: players_inv_def)
  obtain v where o1: "Receiver.owner_of (directory g) (PlayerReceiverAddress pid) = Some (process self, v)"
    using assms(1-3) unfolding players_inv_def by blast
  then have res: "Resolve (directory g) (PlayerReceiverAddress pid) =
      \<lparr>loc_kind = loc_single_process, loc_processes = [process self], loc_version = v\<rparr>"
    by (simp add: local_dir.resolve_owner)
  obtain b d where i: "Invalidate (directory g) (PlayerReceiverAddress pid) (process self) v = (b, d)"
    by (cases "Invalidate (directory g) (PlayerReceiverAddress pid) (process self) v")
  have d: "b = Success" "directory_valid d"
    "Receiver.owner_of d = (Receiver.owner_of (directory g))(PlayerReceiverAddress pid := None)"
    using local_dir.invalidate_match [OF valid o1 i] by auto
  have g': "r = Success" "g' = set_directory d g\<lparr>mPlayerReceiverHost := snd (player_host_Unbind pid (mPlayerReceiverHost g))\<rparr>"
    using assms(2-4) i d(1) by (auto simp: UnbindLocalPlayer_def res)
  have host: "player_host_IsBound (mPlayerReceiverHost g') p \<longleftrightarrow> player_host_IsBound (mPlayerReceiverHost g) p \<and> p \<noteq> pid" for p
    by (auto simp: g' player_host_Unbind_def player_host_IsBound_def)
  moreover have "players_inv g'"
    using assms(1,2) d(2) host unfolding players_inv_def by (simp add: g' d(3))
  ultimately show ?thesis using assms(2) by (simp add: g' d(3))
qed

lemma UnbindLocalPlayer_unbound:
  assumes "\<not> player_host_IsBound (mPlayerReceiverHost g) pid"
  shows "\<not> ok (fst (UnbindLocalPlayer pid g)) \<and> snd (UnbindLocalPlayer pid g) = g"
  using assms by (simp add: UnbindLocalPlayer_def split: option.splits)

lemma UnbindLocalPlayer_inv:
  assumes "players_inv g" and "UnbindLocalPlayer pid g = (r, g')"
  shows "players_inv g'"
proof (cases "nd_self (gi_node g)")
  case None
  then show ?thesis using assms by (auto simp: UnbindLocalPlayer_def)
next
  case (Some self)
  then show ?thesis
    using assms UnbindLocalPlayer_bound [of g self pid r g'] UnbindLocalPlayer_unbound [of g pid]
    by (cases "player_host_IsBound (mPlayerReceiverHost g) pid") auto
qed

lemma BindRemotePlayer_inv:
  assumes "players_inv g" and "BindRemotePlayer pid inst g = (r, g')"
  shows "players_inv g'"
proof (cases "g' = g")
  case False
  have valid: "directory_valid (directory g)" using assms(1) by (simp add: players_inv_def)
  obtain m :: ProcessDescriptor and d where b: "Bind (directory g) (PlayerReceiverAddress pid) (process m) = (r, d)" and g': "g' = set_directory d g"
    using assms(2) False by (auto simp: BindRemotePlayer_def split: option.splits prod.splits)
  have keep: "Receiver.owner_of d q = Receiver.owner_of (directory g) q"
    if "Receiver.owner_of (directory g) q = Some pv" for q pv
    using that local_dir.bind_frame [OF valid b, of q] local_dir.bind_same [OF valid _ b]
      local_dir.bind_other [OF valid _ _ b]
    by (cases "q = PlayerReceiverAddress pid"; cases pv) metis+
  then show ?thesis
    using assms(1) local_dir.bind_valid [OF valid b] unfolding players_inv_def g' set_directory_sel by metis
qed (use assms in simp)

section \<open>Delivery\<close>

text \<open>
  A message for a player bound here reaches the player host of this process.
\<close>

lemma local_player_delivery:
  assumes "players_inv g" and "nd_self (gi_node g) = Some self" and "nd_messenger (gi_node g)"
    and "IsIpcActiveLocked (gi_node g)" and "player_host_IsBound (mPlayerReceiverHost g) pid"
    and "length (nd_hosts (gi_node g)) = kMaxReceiverTypes" and "nd_hosts (gi_node g) ! unat RT_player = Some host_player"
    and "payload_IsRegistered (nd_urls (gi_node g)) (TypeUrlFor (StringValue enc v))"
  shows "SendPlayerMessage E W H enc pid v (g, w) =
     (Success, g\<lparr>mPlayerReceiverHost := (mPlayerReceiverHost g)\<lparr>ph_mLastPayloadType := TypeUrlFor (StringValue enc v),
        ph_mDispatchCount := ph_mDispatchCount (mPlayerReceiverHost g) + 1, mLastPlayerId := pid\<rparr>\<rparr>, w)"
proof -
  let ?M = "game_messenger E W H self g" and ?a = "PlayerReceiverAddress pid"
  obtain ver where "Receiver.owner_of (directory g) ?a = Some (process self, ver)"
    using assms(1,2,5) unfolding players_inv_def by blast
  then have res: "Resolve (mReceiverDirectory ?M) ?a =
      \<lparr>loc_kind = loc_single_process, loc_processes = [mSelf ?M], loc_version = ver\<rparr>"
    by (simp add: game_messenger_def local_dir.resolve_owner)
  define e where "e = annotate_owner (Some (Resolve (mReceiverDirectory ?M) ?a)) (outgoing ?M ?a (StringValue enc v))"
  have e: "payload_type_url e = TypeUrlFor (StringValue enc v)" "target_receiver (header e) = ?a"
    by (simp_all add: e_def outgoing_def)
  have "route ?M (outgoing ?M ?a (StringValue enc v)) (Some (Resolve (mReceiverDirectory ?M) ?a)) = plan local_delivery []"
    by (simp add: res route_def policy_Resolve_def outgoing_def default_EnvelopeHeader_def ResolveSingleTarget_def
        routing_context_def)
  then have "SendToReceiver ?M ?a (StringValue enc v) (g, w) = DispatchLocal ?M e (g, w)"
    by (simp add: SendToReceiver_def SendEnvelope.simps e_def plan_def)
  also have "\<dots> = game_host_Dispatch H host_player ?a e (g, w)"
    using assms(6-8)
    by (simp add: DispatchLocal_def registry_Dispatch_def e game_messenger_def PlayerReceiverAddress_def kMaxReceiverTypes_def)
  also have "\<dots> = (Success, g\<lparr>mPlayerReceiverHost := (mPlayerReceiverHost g)\<lparr>ph_mLastPayloadType := TypeUrlFor (StringValue enc v),
        ph_mDispatchCount := ph_mDispatchCount (mPlayerReceiverHost g) + 1, mLastPlayerId := pid\<rparr>\<rparr>, w)"
    using assms(5) by (simp add: player_host_Dispatch_def e(1) player_host_IsBound_def PlayerReceiverAddress_def)
  finally show ?thesis using assms(2-4) by (simp add: SendPlayerMessage_def guarded_send_def)
qed

text \<open>No send leaves the process while the node is out of service; each attempt is counted.\<close>

lemma guarded_send_inactive:
  assumes "\<not> IsIpcActiveLocked (gi_node g)"
  shows "\<exists>why. guarded_send E W H send (g, w) = (Failure why, RecordSendRejectLocked why g, w)"
  using assms by (auto simp: guarded_send_def split: option.splits bool.splits)

section \<open>What a send to a process leaves alone\<close>

definition same_bindings :: "game_ipc \<Rightarrow> game_ipc \<Rightarrow> bool" where
  "same_bindings g g' \<longleftrightarrow> directory g' = directory g \<and> mPlayerReceiverHost g' = mPlayerReceiverHost g \<and>
     nd_self (gi_node g') = nd_self (gi_node g)"

lemma same_bindings_refl [simp]: "same_bindings g g" by (simp add: same_bindings_def)

lemma same_bindings_inv: "same_bindings g g' \<Longrightarrow> players_inv g' = players_inv g"
  by (simp add: same_bindings_def players_inv_def)

lemma RecordSendReject_bindings [simp]: "same_bindings g0 (RecordSendRejectLocked why g) = same_bindings g0 g"
  by (simp add: same_bindings_def RecordSendRejectLocked_def directory_def)

lemma game_remote_send_bindings: "game_remote_send E W p e (g, w) = (r, g', w') \<Longrightarrow> same_bindings g g'"
  by (auto simp: game_remote_send_def same_bindings_def directory_def Let_def split: option.splits prod.splits if_splits)

text \<open>\<open>quiet_for H url\<close>: the dispatcher changes no binding when it handles an envelope of that type.\<close>

definition quiet_for :: "'w process_handler \<Rightarrow> string \<Rightarrow> bool" where
  "quiet_for H url \<longleftrightarrow> (\<forall>target e g w r g' w'. payload_type_url e = url \<longrightarrow> H target e (g, w) = (r, g', w') \<longrightarrow> same_bindings g g')"

lemma dispatcher_quiet: "map_of handlers url = None \<Longrightarrow> quiet_for (dispatcher_Dispatch handlers) url"
  by (auto simp: quiet_for_def dispatcher_Dispatch_def)

lemma process_dispatch_bindings:
  assumes "quiet_for H (payload_type_url e)" and "rtype target = RT_process"
    and "game_host_Dispatch H h target e (g, w) = (r, g', w')"
  shows "same_bindings g g'"
proof (cases h)
  case host_process
  have frame: "same_bindings g g'" if "H target e (g\<lparr>mProcessReceiverHost := x\<rparr>, w) = (r, g', w')" for x
  proof -
    have "same_bindings (g\<lparr>mProcessReceiverHost := x\<rparr>) g'" using assms(1) that unfolding quiet_for_def by blast
    then show ?thesis by (simp add: same_bindings_def directory_def)
  qed
  then show ?thesis
    using assms(3) host_process
    by (auto simp: same_bindings_def directory_def Let_def split: option.splits prod.splits if_splits)
qed (use assms in \<open>auto simp: player_host_Dispatch_def service_host_Dispatch_def same_bindings_def directory_def\<close>)

lemma SendToProcess_bindings:
  assumes "quiet_for H (TypeUrlFor m)" and "SendToProcess (game_messenger E W H self g0) target m (g, w) = (r, g', w')"
  shows "same_bindings g g'"
proof -
  let ?M = "game_messenger E W H self g0"
  obtain loc where s: "SendEnvelope ?M (outgoing ?M (ProcessReceiver target) m) loc (g, w) = (r, g', w')"
    and loc: "\<not> fans_out (outgoing ?M (ProcessReceiver target) m) loc"
    using assms(2)
    by (cases "target = process_id (mSelf ?M)")
      (auto simp: SendToProcess_def fans_out_def outgoing_def default_EnvelopeHeader_def)
  let ?e = "annotate_owner loc (outgoing ?M (ProcessReceiver target) m)"
  have e: "payload_type_url ?e = TypeUrlFor m" "rtype (target_receiver (header ?e)) = RT_process"
    by (simp_all add: outgoing_def ProcessReceiver_def)
  have local: "same_bindings g g'" if "DispatchLocal ?M ?e (g, w) = (r, g', w')"
    using that assms(1) e process_dispatch_bindings [of H ?e "target_receiver (header ?e)"]
    by (auto simp: DispatchLocal_def registry_Dispatch_def game_messenger_def Let_def split: if_splits option.splits)
  have remote: "same_bindings g g'" if "send_remote ?M p ?e (g, w) = (r, g', w')" for p
    using that game_remote_send_bindings by (auto simp: send_remote_def game_messenger_def)
  from s loc route_multi_fans_out [of ?M "outgoing ?M (ProcessReceiver target) m" loc] local remote show ?thesis
    unfolding SendEnvelope.simps
    by (cases "plan_kind (route ?M (outgoing ?M (ProcessReceiver target) m) loc)") (auto simp: Let_def)
qed

lemma SendProcessPayload_bindings:
  assumes "quiet_for H (TypeUrlFor m)" and "SendProcessPayload E W H target m (g, w) = (r, g', w')"
  shows "same_bindings g g'"
  using assms(2) SendToProcess_bindings [OF assms(1)]
  by (auto simp: SendProcessPayload_def guarded_send_def split: option.splits bool.splits if_splits prod.splits)

end
