(* ===== verification/Player_Repository.thy ===== *)
theory Player_Repository
  imports Storage
begin

text \<open>
  The player repository (src/src/game/services/player_repository.cpp) and the player runtime
  (src/src/game/services/player_runtime_service.cpp). The player record has the fields of player_data.proto; its wire
  format is generated code, the record \<open>player_codec\<close>. Parsing returns the flag and the message as the
  call leaves it, since a failed parse may have filled some fields.
\<close>

section \<open>Player data\<close>

record PlayerData =
  data_player_id :: u64
  display_name :: string
  created_at_ms :: u64
  last_login_at_ms :: u64
  level :: u32
  experience :: u64
  login_count :: u64
  opaque_blob :: string

definition empty_PlayerData :: PlayerData where
  "empty_PlayerData = \<lparr>data_player_id = 0, display_name = [], created_at_ms = 0, last_login_at_ms = 0,
     level = 0, experience = 0, login_count = 0, opaque_blob = []\<rparr>"

record player_codec =
  pd_serialize :: "PlayerData \<Rightarrow> string option"
  pd_parse :: "string \<Rightarrow> bool \<times> PlayerData"

record PlayerRepositoryRecord =
  loaded :: bool
  dirty :: bool
  pending_initial_persist :: bool
  created_without_maria :: bool
  load_count :: u64
  flush_count :: u64
  last_load_ms :: u64
  last_dirty_ms :: u64
  last_flush_ms :: u64
  data :: PlayerData

definition default_PlayerRepositoryRecord :: PlayerRepositoryRecord where
  "default_PlayerRepositoryRecord = \<lparr>loaded = False, dirty = False, pending_initial_persist = False,
     created_without_maria = False, load_count = 0, flush_count = 0, last_load_ms = 0, last_dirty_ms = 0,
     last_flush_ms = 0, data = empty_PlayerData\<rparr>"

text \<open>The storage pointer may be null.\<close>

record PlayerRepository =
  repo_storage :: "StorageService option"
  mDatasetName :: string
  repo_mPlayers :: "(u64 \<times> PlayerRepositoryRecord) list"

definition set_record :: "u64 \<Rightarrow> PlayerRepositoryRecord \<Rightarrow> PlayerRepository \<Rightarrow> PlayerRepository" where
  "set_record pid r R = R\<lparr>repo_mPlayers := AList.update pid r (repo_mPlayers R)\<rparr>"

definition InitializeDefaultPlayerData :: "u64 \<Rightarrow> u64 \<Rightarrow> PlayerRepositoryRecord" where
  "InitializeDefaultPlayerData pid now = default_PlayerRepositoryRecord
     \<lparr>data := empty_PlayerData\<lparr>data_player_id := pid, display_name := ''player_'' @ to_string pid,
        created_at_ms := now, level := 1, experience := 0, login_count := 0\<rparr>\<rparr>"

section \<open>Repository operations\<close>

text \<open>A fresh player: default data, dirty, waiting for its first write.\<close>

definition init_player :: "'w env \<Rightarrow> u64 \<Rightarrow> bool \<Rightarrow> 'w \<Rightarrow> PlayerRepositoryRecord \<times> 'w" where
  "init_player E pid without_maria w =
     (let (now1, w1) = NowMs E w; (now2, w2) = NowMs E w1
      in ((InitializeDefaultPlayerData pid now1)\<lparr>dirty := True, pending_initial_persist := True,
            created_without_maria := without_maria, last_dirty_ms := now2\<rparr>, w2))"

definition finish_load :: "'w env \<Rightarrow> u64 \<Rightarrow> PlayerRepositoryRecord \<Rightarrow> PlayerRepository \<times> 'w \<Rightarrow> result \<times> PlayerRepository \<times> 'w" where
  "finish_load E pid r s = (let (R, w) = s; (now, w') = NowMs E w
     in (Success, set_record pid (r\<lparr>loaded := True, last_load_ms := now, load_count := load_count r + 1\<rparr>) R, w'))"

definition LoadPlayer :: "'w env \<Rightarrow> player_codec \<Rightarrow> u64 \<Rightarrow> bool \<Rightarrow> PlayerRepository \<times> 'w \<Rightarrow> result \<times> PlayerRepository \<times> 'w" where
  "LoadPlayer E C pid allow_create_without_maria s = (let (R, w) = s in
     case repo_storage R of
       None \<Rightarrow> (Failure ''storage service is not registered'', R, w)
     | Some S \<Rightarrow>
         if GetDataset S (mDatasetName R) = None then (Failure ''player dataset is not configured'', R, w)
         else let record0 = (case map_of (repo_mPlayers R) pid of None \<Rightarrow> default_PlayerRepositoryRecord | Some r \<Rightarrow> r);
                  R1 = set_record pid record0 R;
                  (result, value, w1) = DatasetGet E S (mDatasetName R) (to_string pid) [] w in
         if ok result
         then (let (parsed, d) = pd_parse C value; r = record0\<lparr>data := d\<rparr> in
               if \<not> parsed then (Failure ''stored player data is corrupted'', set_record pid r R1, w1)
               else finish_load E pid r (R1, w1))
         else if message result = ''not found''
         then (let (r, w2) = init_player E pid False w1 in finish_load E pid r (R1, w2))
         else if allow_create_without_maria \<and> message result = ''maria connection is unavailable''
         then (let (r, w2) = init_player E pid True w1 in finish_load E pid r (R1, w2))
         else (Failure (message result), R1, w1))"

text \<open>The guard the operations on a loaded player share.\<close>

definition with_loaded :: "u64 \<Rightarrow> (PlayerRepositoryRecord \<Rightarrow> PlayerRepository \<times> 'w \<Rightarrow> result \<times> PlayerRepository \<times> 'w)
    \<Rightarrow> PlayerRepository \<times> 'w \<Rightarrow> result \<times> PlayerRepository \<times> 'w" where
  "with_loaded pid f s = (let (R, w) = s in
     case map_of (repo_mPlayers R) pid of
       None \<Rightarrow> (Failure ''player is not loaded in repository'', R, w)
     | Some r \<Rightarrow> if \<not> loaded r then (Failure ''player is not loaded in repository'', R, w) else f r (R, w))"

text \<open>
  \<^verbatim>\<open>FlushPlayer\<close> uses the storage pointer unchecked; a record can only be loaded when it is set, so the
  null case is never reached.
\<close>

definition FlushPlayer :: "'w env \<Rightarrow> player_codec \<Rightarrow> u64 \<Rightarrow> PlayerRepository \<times> 'w \<Rightarrow> result \<times> PlayerRepository \<times> 'w" where
  "FlushPlayer E C pid = with_loaded pid (\<lambda>r (R, w).
     case pd_serialize C (data r) of
       None \<Rightarrow> (Failure ''failed to serialize player data'', R, w)
     | Some bytes \<Rightarrow> (case repo_storage R of
         None \<Rightarrow> (Failure ''storage service is not registered'', R, w)
       | Some S \<Rightarrow>
           let (store, w1) = DatasetPut E S (mDatasetName R) (to_string pid) bytes w in
           if \<not> ok store then (Failure (message store), R, w1)
           else let (now, w2) = NowMs E w1 in
           (Success, set_record pid (r\<lparr>dirty := False, pending_initial_persist := False, created_without_maria := False,
              last_dirty_ms := 0, last_flush_ms := now, flush_count := flush_count r + 1\<rparr>) R, w2)))"

definition repo_ReleasePlayer :: "u64 \<Rightarrow> PlayerRepository \<Rightarrow> result \<times> PlayerRepository" where
  "repo_ReleasePlayer pid R = (case map_of (repo_mPlayers R) pid of
      None \<Rightarrow> (Failure ''player is not tracked by repository'', R)
    | Some _ \<Rightarrow> (Success, R\<lparr>repo_mPlayers := AList.delete pid (repo_mPlayers R)\<rparr>))"

definition TouchLogin :: "'w env \<Rightarrow> u64 \<Rightarrow> PlayerRepository \<times> 'w \<Rightarrow> result \<times> PlayerRepository \<times> 'w" where
  "TouchLogin E pid = with_loaded pid (\<lambda>r (R, w).
     let (now1, w1) = NowMs E w; (now2, w2) = NowMs E w1 in
     (Success, set_record pid (r\<lparr>data := (data r)\<lparr>last_login_at_ms := now1, login_count := login_count (data r) + 1\<rparr>,
        dirty := True, last_dirty_ms := now2\<rparr>) R, w2))"

definition SetDisplayName :: "'w env \<Rightarrow> u64 \<Rightarrow> string \<Rightarrow> PlayerRepository \<times> 'w \<Rightarrow> result \<times> PlayerRepository \<times> 'w" where
  "SetDisplayName E pid name = with_loaded pid (\<lambda>r (R, w).
     let (now, w1) = NowMs E w in
     (Success, set_record pid (r\<lparr>data := (data r)\<lparr>display_name := name\<rparr>, dirty := True, last_dirty_ms := now\<rparr>) R, w1))"

definition repo_Snapshot :: "PlayerRepository \<Rightarrow> u64 \<Rightarrow> PlayerRepositoryRecord option" where
  "repo_Snapshot R pid = map_of (repo_mPlayers R) pid"

definition LoadedPlayerIds :: "PlayerRepository \<Rightarrow> u64 list" where
  "LoadedPlayerIds R = map fst (filter (\<lambda>(_, r). loaded r) (repo_mPlayers R))"

definition repo_loaded :: "PlayerRepository \<Rightarrow> u64 \<Rightarrow> bool" where
  "repo_loaded R pid \<longleftrightarrow> (case repo_Snapshot R pid of None \<Rightarrow> False | Some r \<Rightarrow> loaded r)"

section \<open>The runtime\<close>

record PlayerInstance =
  mPlayerId :: u64
  mCommandCount :: u64

record PlayerRuntimeService =
  rt_has_repository :: bool
  rt_mPlayers :: "(u64 \<times> PlayerInstance) list"

record PlayerEchoResponse =
  echo_player_id :: u64
  echo_text :: string
  echo_display_name :: string
  echo_login_count :: u64

record PlayerProfilePush =
  push_player_id :: u64
  push_display_name :: string
  push_level :: u32
  push_login_count :: u64

definition EnsurePlayer :: "PlayerRepository \<Rightarrow> u64 \<Rightarrow> PlayerRuntimeService \<Rightarrow> result \<times> PlayerRuntimeService" where
  "EnsurePlayer R pid T =
     (if \<not> rt_has_repository T then (Failure ''player repository is not registered'', T)
      else if \<not> repo_loaded R pid then (Failure ''player repository is not loaded'', T)
      else case map_of (rt_mPlayers T) pid of
          None \<Rightarrow> (Success, T\<lparr>rt_mPlayers := AList.update pid \<lparr>mPlayerId = pid, mCommandCount = 0\<rparr> (rt_mPlayers T)\<rparr>)
        | Some _ \<Rightarrow> (Success, T))"

definition RemovePlayer :: "u64 \<Rightarrow> PlayerRuntimeService \<Rightarrow> result \<times> PlayerRuntimeService" where
  "RemovePlayer pid T = (case map_of (rt_mPlayers T) pid of
      None \<Rightarrow> (Failure ''player runtime is not tracked'', T)
    | Some _ \<Rightarrow> (Success, T\<lparr>rt_mPlayers := AList.delete pid (rt_mPlayers T)\<rparr>))"

definition count_command :: "u64 \<Rightarrow> PlayerInstance \<Rightarrow> PlayerRuntimeService \<Rightarrow> PlayerRuntimeService" where
  "count_command pid i T = T\<lparr>rt_mPlayers := AList.update pid (i\<lparr>mCommandCount := mCommandCount i + 1\<rparr>) (rt_mPlayers T)\<rparr>"

text \<open>A command on a player without a runtime instance is refused; the response is filled on success only.\<close>

definition rt_HandleEcho :: "PlayerRepository \<Rightarrow> u64 \<Rightarrow> string \<Rightarrow> PlayerRuntimeService
    \<Rightarrow> (result + PlayerEchoResponse) \<times> PlayerRuntimeService" where
  "rt_HandleEcho R pid text T = (case map_of (rt_mPlayers T) pid of
      None \<Rightarrow> (Inl (Failure ''player runtime is not tracked''), T)
    | Some i \<Rightarrow>
        if \<not> rt_has_repository T then (Inl (Failure ''player repository is not registered''), T)
        else (case repo_Snapshot R (mPlayerId i) of
            None \<Rightarrow> (Inl (Failure ''player repository is not loaded''), T)
          | Some r \<Rightarrow>
              if \<not> loaded r then (Inl (Failure ''player repository is not loaded''), T)
              else (Inr \<lparr>echo_player_id = mPlayerId i, echo_text = text, echo_display_name = display_name (data r),
                         echo_login_count = login_count (data r)\<rparr>, count_command pid i T)))"

definition rt_HandleRename :: "'w env \<Rightarrow> u64 \<Rightarrow> string \<Rightarrow> PlayerRuntimeService \<times> PlayerRepository \<times> 'w
    \<Rightarrow> (result + u64 \<times> string) \<times> PlayerRuntimeService \<times> PlayerRepository \<times> 'w" where
  "rt_HandleRename E pid name s = (let (T, R, w) = s in
     case map_of (rt_mPlayers T) pid of
       None \<Rightarrow> (Inl (Failure ''player runtime is not tracked''), T, R, w)
     | Some i \<Rightarrow>
         if \<not> rt_has_repository T then (Inl (Failure ''player repository is not registered''), T, R, w)
         else if name = [] then (Inl (Failure ''display_name must not be empty''), T, R, w)
         else let (set_name, R', w') = SetDisplayName E (mPlayerId i) name (R, w) in
         if \<not> ok set_name then (Inl set_name, T, R', w')
         else (Inr (mPlayerId i, name), count_command pid i T, R', w'))"

text \<open>The profile push before it is serialised.\<close>

definition BuildProfilePush :: "PlayerRepository \<Rightarrow> u64 \<Rightarrow> PlayerRuntimeService \<Rightarrow> PlayerProfilePush option" where
  "BuildProfilePush R pid T = (case map_of (rt_mPlayers T) pid of
      None \<Rightarrow> None
    | Some i \<Rightarrow>
        if \<not> rt_has_repository T then None
        else (case repo_Snapshot R (mPlayerId i) of
            None \<Rightarrow> None
          | Some r \<Rightarrow> if \<not> loaded r then None
              else Some \<lparr>push_player_id = mPlayerId i, push_display_name = display_name (data r),
                         push_level = level (data r), push_login_count = login_count (data r)\<rparr>))"

definition rt_tracked :: "PlayerRuntimeService \<Rightarrow> u64 \<Rightarrow> bool" where
  "rt_tracked T pid \<longleftrightarrow> map_of (rt_mPlayers T) pid \<noteq> None"

section \<open>Loading and flushing\<close>

lemma set_record_lookup [simp]:
  "map_of (repo_mPlayers (set_record pid r R)) = (map_of (repo_mPlayers R))(pid \<mapsto> r)"
  "repo_storage (set_record pid r R) = repo_storage R" "mDatasetName (set_record pid r R) = mDatasetName R"
  by (simp_all add: set_record_def)

lemma repo_Snapshot_set [simp]: "repo_Snapshot (set_record pid r R) q = (if q = pid then Some r else repo_Snapshot R q)"
  by (simp add: repo_Snapshot_def)

text \<open>A load that succeeds leaves the player loaded and touches nobody else.\<close>

lemma LoadPlayer_ok:
  assumes "LoadPlayer E C pid allow (R, w) = (r, R', w')" and "ok r"
  shows "repo_loaded R' pid \<and> (\<forall>q. q \<noteq> pid \<longrightarrow> repo_Snapshot R' q = repo_Snapshot R q) \<and>
     repo_storage R' = repo_storage R \<and> mDatasetName R' = mDatasetName R"
  using assms
  by (auto simp: LoadPlayer_def finish_load_def repo_loaded_def Let_def split: option.splits if_splits prod.splits)

text \<open>
  A load that fails after the configuration checks leaves a record behind that is not loaded when there was none.
\<close>

lemma LoadPlayer_failure_ghost:
  assumes "LoadPlayer E C pid allow (R, w) = (r, R', w')" and "\<not> ok r" and "repo_Snapshot R pid = None"
    and "repo_storage R = Some S" and "GetDataset S (mDatasetName R) \<noteq> None"
  shows "\<exists>g. repo_Snapshot R' pid = Some g \<and> \<not> loaded g"
  using assms
  by (auto simp: LoadPlayer_def finish_load_def repo_Snapshot_def default_PlayerRepositoryRecord_def Let_def
      split: option.splits if_splits prod.splits)

text \<open>Players are created only when the store says there is none, or when creation without MariaDB is allowed.\<close>

lemma LoadPlayer_creates:
  assumes "LoadPlayer E C pid allow (R, w) = (r, R', w')" and "ok r"
    and "repo_Snapshot R' pid = Some p" and "pending_initial_persist p" and "repo_Snapshot R pid = None"
  shows "\<exists>S q v w1. repo_storage R = Some S \<and> DatasetGet E S (mDatasetName R) (to_string pid) [] w = (q, v, w1) \<and>
     (message q = ''not found'' \<or> allow \<and> message q = ''maria connection is unavailable'') \<and> \<not> ok q"
  using assms
  by (auto simp: LoadPlayer_def finish_load_def repo_Snapshot_def default_PlayerRepositoryRecord_def Let_def
      split: option.splits if_splits prod.splits)

text \<open>A flush writes the serialised record and clears the dirty mark; a failed one changes no record.\<close>

lemma FlushPlayer_ok:
  assumes "FlushPlayer E C pid (R, w) = (r, R', w')" and "ok r"
  shows "\<exists>p S bytes w1 q. repo_Snapshot R pid = Some p \<and> loaded p \<and> repo_storage R = Some S \<and>
     pd_serialize C (data p) = Some bytes \<and> DatasetPut E S (mDatasetName R) (to_string pid) bytes w = (q, w1) \<and> ok q \<and>
     w' = snd (NowMs E w1) \<and>
     repo_Snapshot R' pid = Some (p\<lparr>dirty := False, pending_initial_persist := False, created_without_maria := False,
        last_dirty_ms := 0, last_flush_ms := fst (NowMs E w1), flush_count := flush_count p + 1\<rparr>) \<and>
     (\<forall>q. q \<noteq> pid \<longrightarrow> repo_Snapshot R' q = repo_Snapshot R q)"
  using assms
  by (auto simp: FlushPlayer_def with_loaded_def repo_Snapshot_def Let_def
      split: option.splits if_splits prod.splits)

lemma FlushPlayer_failed:
  assumes "FlushPlayer E C pid (R, w) = (r, R', w')" and "\<not> ok r"
  shows "R' = R"
  using assms
  by (auto simp: FlushPlayer_def with_loaded_def Let_def split: option.splits if_splits prod.splits)

text \<open>
  C4. What a flush wrote, a later load reads: after a flush that reached both stores the player can be dropped
  from memory and loaded again with the same data, not dirty.
\<close>

lemma flush_release_load:
  assumes kv: "set_documented E h kv" "get_documented E h kv" "clock_documented E kv"
    and redis: "repo_storage R = Some S" "GetRedisForDataset S (mDatasetName R) = Some h"
    and p: "repo_Snapshot R pid = Some p"
    and codec: "pd_serialize C (data p) = Some bytes" "pd_parse C bytes = (True, data p)"
    and flush: "FlushPlayer E C pid (R, w) = (r, R1, w1)" "ok r"
    and both: "DatasetPut E S (mDatasetName R) (to_string pid) bytes w = (storage_ok ''OK'', wp)"
    and up: "redisCommand E h [''GET'', cache_key S (mDatasetName R) (to_string pid)] w1 = (Some g, w2)"
  shows "\<exists>R3 w3 p3. LoadPlayer E C pid False (snd (repo_ReleasePlayer pid R1), w1) = (Success, R3, w3) \<and>
     repo_Snapshot R3 pid = Some p3 \<and> data p3 = data p \<and> \<not> dirty p3"
proof -
  obtain q where q: "repo_Snapshot R1 pid = Some q" "w1 = snd (NowMs E wp)"
    using FlushPlayer_ok [OF flush] p codec(1) redis(1) both by auto
  have R1: "repo_storage R1 = Some S" "mDatasetName R1 = mDatasetName R"
    using flush redis(1)
    by (auto simp: FlushPlayer_def with_loaded_def Let_def split: option.splits if_splits prod.splits)
  let ?R2 = "snd (repo_ReleasePlayer pid R1)"
  have R2: "repo_storage ?R2 = Some S" "mDatasetName ?R2 = mDatasetName R" "map_of (repo_mPlayers ?R2) pid = None"
    using q(1) R1 by (auto simp: repo_ReleasePlayer_def repo_Snapshot_def)
  have ds: "GetDataset S (mDatasetName R) \<noteq> None"
    using redis(2) by (auto simp: GetRedisForDataset_def split: option.splits)
  obtain w3 redis' where s: "RedisSet E S (mDatasetName R) (entries_suffix (to_string pid)) bytes w3 = (redis', (), wp)" "ok redis'"
    using DatasetPut_stages [OF both] by (auto simp: storage_ok_def split: if_splits)
  have "kv wp (cache_key S (mDatasetName R) (to_string pid)) = Some bytes"
    using RedisSet_spec [OF kv(1) redis(2) s] by simp
  then have "kv w1 (cache_key S (mDatasetName R) (to_string pid)) = Some bytes"
    using kv(3) q(2) by (simp add: NowMs_def clock_documented_def)
  from RedisGet_hit [OF kv(2) redis(2) this up]
  have "DatasetGet E S (mDatasetName R) (to_string pid) [] w1 = (storage_ok ''redis'', bytes, w2)"
    by (simp add: DatasetGet_def)
  then show ?thesis
    using R2 ds codec(2)
    by (simp add: LoadPlayer_def finish_load_def default_PlayerRepositoryRecord_def split: prod.splits)
qed

section \<open>Changes mark the record dirty\<close>

lemma SetDisplayName_ok:
  assumes "SetDisplayName E pid name (R, w) = (r, R', w')" and "ok r"
  shows "\<exists>p p'. repo_Snapshot R pid = Some p \<and> repo_Snapshot R' pid = Some p' \<and> loaded p' \<and> dirty p' \<and>
     data p' = (data p)\<lparr>display_name := name\<rparr>"
  using assms
  by (auto simp: SetDisplayName_def with_loaded_def repo_Snapshot_def split: option.splits if_splits prod.splits)

lemma TouchLogin_ok:
  assumes "TouchLogin E pid (R, w) = (r, R', w')" and "ok r"
  shows "\<exists>p p'. repo_Snapshot R pid = Some p \<and> repo_Snapshot R' pid = Some p' \<and> loaded p' \<and> dirty p' \<and>
     login_count (data p') = login_count (data p) + 1"
  using assms
  by (auto simp: TouchLogin_def with_loaded_def repo_Snapshot_def split: option.splits if_splits prod.splits)

text \<open>Only loaded records are dirty: every operation keeps this.\<close>

definition repo_inv :: "PlayerRepository \<Rightarrow> bool" where
  "repo_inv R \<longleftrightarrow> distinct (map fst (repo_mPlayers R)) \<and> (\<forall>pid p. repo_Snapshot R pid = Some p \<longrightarrow> dirty p \<longrightarrow> loaded p)"

lemma repo_inv_set: "repo_inv R \<Longrightarrow> (dirty r \<longrightarrow> loaded r) \<Longrightarrow> repo_inv (set_record pid r R)"
  by (auto simp: repo_inv_def set_record_def repo_Snapshot_def)

lemma LoadPlayer_inv:
  assumes "repo_inv R" and "LoadPlayer E C pid allow (R, w) = (r, R', w')"
  shows "repo_inv R'"
proof -
  have d: "dirty p \<longrightarrow> loaded p" if "map_of (repo_mPlayers R) pid = Some p" for p
    using assms(1) that by (auto simp: repo_inv_def repo_Snapshot_def)
  have n: "\<not> dirty default_PlayerRepositoryRecord" by (simp add: default_PlayerRepositoryRecord_def)
  show ?thesis
    using assms d n
    by (auto simp: LoadPlayer_def finish_load_def Let_def split: option.splits if_splits prod.splits intro!: repo_inv_set)
qed

lemma FlushPlayer_inv:
  assumes "repo_inv R" and "FlushPlayer E C pid (R, w) = (r, R', w')"
  shows "repo_inv R'"
  using assms
  by (auto simp: FlushPlayer_def with_loaded_def Let_def split: option.splits if_splits prod.splits intro!: repo_inv_set)

lemma repo_ReleasePlayer_inv: "repo_inv R \<Longrightarrow> repo_inv (snd (repo_ReleasePlayer pid R))"
  by (auto simp: repo_inv_def repo_ReleasePlayer_def repo_Snapshot_def split: option.splits if_splits)

lemma LoadedPlayerIds_iff:
  assumes "repo_inv R"
  shows "pid \<in> set (LoadedPlayerIds R) \<longleftrightarrow> repo_loaded R pid"
proof -
  have "pid \<in> set (LoadedPlayerIds R) \<longleftrightarrow> (\<exists>r. (pid, r) \<in> set (repo_mPlayers R) \<and> loaded r)"
    by (force simp: LoadedPlayerIds_def)
  also have "\<dots> \<longleftrightarrow> (\<exists>r. map_of (repo_mPlayers R) pid = Some r \<and> loaded r)"
    using assms by (simp add: repo_inv_def map_of_mem_iff)
  also have "\<dots> \<longleftrightarrow> repo_loaded R pid"
    by (simp add: repo_loaded_def repo_Snapshot_def split: option.splits)
  finally show ?thesis .
qed

end
