(* ===== verification/Player_Lease.thy ===== *)
theory Player_Lease
  imports Connectivity
begin

text \<open>
  The player lease (src/src/game/services/player_lease_service.cpp): a game process owns a player while the key
  of the player in Redis holds the value of the process. The renew thread is modelled one pass at a time.
\<close>

section \<open>Owners\<close>

record PlayerLeaseOwner =
  game_service_type :: u32
  game_instance_id :: u32
  token :: string

definition BuildValue :: "PlayerLeaseOwner \<Rightarrow> string" where
  "BuildValue ow = to_string (game_service_type ow) @ '':'' @ to_string (game_instance_id ow) @ '':'' @ token ow"

definition ParseValue :: "string \<Rightarrow> PlayerLeaseOwner option" where
  "ParseValue value = (case getline CHR '':'' value of
      None \<Rightarrow> None
    | Some (service_type_text, s1) \<Rightarrow> (case getline CHR '':'' s1 of
        None \<Rightarrow> None
      | Some (instance_id_text, s2) \<Rightarrow> (case getline CHR '':'' s2 of
          None \<Rightarrow> None
        | Some (tok, s3) \<Rightarrow> (case (stoull service_type_text, stoull instance_id_text) of
            (Inr a, Inr b) \<Rightarrow> Some \<lparr>game_service_type = ucast a, game_instance_id = ucast b, token = tok\<rparr>
          | _ \<Rightarrow> None))))"

section \<open>State\<close>

record PlayerLeaseSnapshot =
  lease_running :: bool
  tracked_player_count :: u64
  renew_success_count :: u64
  renew_failure_count :: u64
  local_loss_count :: u64
  release_success_count :: u64
  release_failure_count :: u64
  last_renew_ms :: u64
  lease_last_error :: string

record PlayerLeaseService =
  mRedisName :: string
  mGameServiceType :: u32
  mGameInstanceId :: u32
  mLeaseTtlSeconds :: u32
  mRedisKeyPrefix :: string
  lease_mRedis :: "redis_handle option"
  mLeases :: "(u64 \<times> PlayerLeaseOwner) list"
  lease_mSnapshot :: PlayerLeaseSnapshot

definition count_of :: "'a list \<Rightarrow> u64" where
  "count_of xs = of_nat (length xs)"

definition set_tracked :: "PlayerLeaseService \<Rightarrow> PlayerLeaseService" where
  "set_tracked L = L\<lparr>lease_mSnapshot := (lease_mSnapshot L)\<lparr>tracked_player_count := count_of (mLeases L)\<rparr>\<rparr>"

definition kRefreshScript :: string where
  "kRefreshScript = ''if redis.call('' @ [CHR 0x27] @ ''GET'' @ [CHR 0x27] @ '', KEYS[1]) == ARGV[1] then return redis.call('' @
     [CHR 0x27] @ ''PEXPIRE'' @ [CHR 0x27] @ '', KEYS[1], ARGV[2]) else return 0 end''"

definition kReleaseScript :: string where
  "kReleaseScript = ''if redis.call('' @ [CHR 0x27] @ ''GET'' @ [CHR 0x27] @ '', KEYS[1]) == ARGV[1] then return redis.call('' @
     [CHR 0x27] @ ''DEL'' @ [CHR 0x27] @ '', KEYS[1]) else return 0 end''"

definition BuildKey :: "PlayerLeaseService \<Rightarrow> u64 \<Rightarrow> string" where
  "BuildKey L pid = mRedisKeyPrefix L @ to_string pid"

definition GenerateToken :: "u64 \<Rightarrow> u32 \<Rightarrow> u64 \<Rightarrow> string" where
  "GenerateToken pid inst now = to_string pid @ ''-'' @ to_string inst @ ''-'' @ to_string now"

definition ttl_ms :: "PlayerLeaseService \<Rightarrow> u64" where
  "ttl_ms L = ucast (mLeaseTtlSeconds L) * 1000"

section \<open>Operations\<close>

definition lease_Load :: "'w env \<Rightarrow> (string \<times> RedisConfiguration) list \<Rightarrow> PlayerLeaseService \<times> 'w \<Rightarrow> PlayerLeaseService \<times> 'w" where
  "lease_Load E redis s = (let (L, w) = s in
     case map_of redis (mRedisName L) of
       None \<Rightarrow> (L, w)
     | Some c \<Rightarrow> (let (r, w') = ConnectRedis E c w in
         (L\<lparr>lease_mRedis := conn_handle r, mRedisKeyPrefix := key_prefix c @ ''game:player:lease:''\<rparr>, w')))"

definition lease_Acquire :: "'w env \<Rightarrow> u64 \<Rightarrow> PlayerLeaseService \<times> 'w \<Rightarrow> result \<times> PlayerLeaseService \<times> 'w" where
  "lease_Acquire E pid s = (let (L, w) = s in
     case lease_mRedis L of
       None \<Rightarrow> (Failure ''redis player lease is unavailable'', L, w)
     | Some h \<Rightarrow>
         if map_of (mLeases L) pid \<noteq> None then (Success, L, w)
         else let (now, w1) = NowMs E w;
                  owner = \<lparr>game_service_type = mGameServiceType L, game_instance_id = mGameInstanceId L,
                           token = GenerateToken pid (mGameInstanceId L) now\<rparr>;
                  (reply, w2) = redisCommand E h
                    [''SET'', BuildKey L pid, BuildValue owner, ''NX'', ''PX'', to_string (ttl_ms L)] w1 in
         case reply of
           None \<Rightarrow> (Failure (redis_error E h ''redis SET failed'' w2), L, w2)
         | Some r \<Rightarrow>
             if r = REDIS_STATUS ''OK''
             then (Success, set_tracked (L\<lparr>mLeases := AList.update pid owner (mLeases L)\<rparr>), w2)
             else (Failure ''player lease is already held by another game'', L, w2))"

text \<open>The two script calls; \<open>None\<close> is success, otherwise the error text.\<close>

definition RefreshLeaseLocked :: "'w env \<Rightarrow> PlayerLeaseService \<Rightarrow> u64 \<Rightarrow> PlayerLeaseOwner \<Rightarrow> 'w \<Rightarrow> string option \<times> 'w" where
  "RefreshLeaseLocked E L pid owner w = (case lease_mRedis L of
      None \<Rightarrow> (Some ''redis player lease is unavailable'', w)
    | Some h \<Rightarrow>
        let (reply, w') = redisCommand E h
              [''EVAL'', kRefreshScript, ''1'', BuildKey L pid, BuildValue owner, to_string (ttl_ms L)] w in
        case reply of
          None \<Rightarrow> (Some (redis_error E h ''redis EVAL failed'' w'), w')
        | Some r \<Rightarrow> (if r = REDIS_INTEGER 1 then None else Some ''player lease refresh rejected'', w'))"

definition ReleaseLeaseLocked :: "'w env \<Rightarrow> PlayerLeaseService \<Rightarrow> u64 \<Rightarrow> PlayerLeaseOwner \<Rightarrow> 'w \<Rightarrow> string option \<times> 'w" where
  "ReleaseLeaseLocked E L pid owner w = (case lease_mRedis L of
      None \<Rightarrow> (Some ''redis player lease is unavailable'', w)
    | Some h \<Rightarrow>
        let (reply, w') = redisCommand E h [''EVAL'', kReleaseScript, ''1'', BuildKey L pid, BuildValue owner] w in
        case reply of
          None \<Rightarrow> (Some (redis_error E h ''redis EVAL failed'' w'), w')
        | Some (REDIS_INTEGER _) \<Rightarrow> (None, w')
        | Some _ \<Rightarrow> (Some ''player lease release rejected'', w'))"

definition count_release :: "string option \<Rightarrow> PlayerLeaseService \<Rightarrow> PlayerLeaseService" where
  "count_release e L = (let n = lease_mSnapshot L in L\<lparr>lease_mSnapshot := (case e of
      Some text \<Rightarrow> n\<lparr>lease_last_error := text, release_failure_count := release_failure_count n + 1\<rparr>
    | None \<Rightarrow> n\<lparr>release_success_count := release_success_count n + 1\<rparr>)\<rparr>)"

definition lease_Release :: "'w env \<Rightarrow> u64 \<Rightarrow> PlayerLeaseService \<times> 'w \<Rightarrow> result \<times> PlayerLeaseService \<times> 'w" where
  "lease_Release E pid s = (let (L, w) = s in
     case map_of (mLeases L) pid of
       None \<Rightarrow> (Failure ''player lease is not tracked locally'', L, w)
     | Some owner \<Rightarrow>
         let (e, w') = ReleaseLeaseLocked E L pid owner w; L1 = count_release e L in
         (Success, set_tracked (L1\<lparr>mLeases := AList.delete pid (mLeases L1)\<rparr>), w'))"

definition lease_Lookup :: "'w env \<Rightarrow> u64 \<Rightarrow> PlayerLeaseService \<times> 'w \<Rightarrow> PlayerLeaseOwner option \<times> 'w" where
  "lease_Lookup E pid s = (let (L, w) = s in
     case lease_mRedis L of
       None \<Rightarrow> (None, w)
     | Some h \<Rightarrow>
         let (reply, w') = redisCommand E h [''GET'', BuildKey L pid] w in
         (case reply of
           Some (REDIS_STRING v) \<Rightarrow> ParseValue v
         | _ \<Rightarrow> None, w'))"

definition IsHeldLocally :: "PlayerLeaseService \<Rightarrow> u64 \<Rightarrow> bool" where
  "IsHeldLocally L pid \<longleftrightarrow> map_of (mLeases L) pid \<noteq> None"

definition TrackedPlayerIds :: "PlayerLeaseService \<Rightarrow> u64 list" where
  "TrackedPlayerIds L = map fst (mLeases L)"

fun release_each :: "'w env \<Rightarrow> (u64 \<times> PlayerLeaseOwner) list \<Rightarrow> PlayerLeaseService \<times> 'w \<Rightarrow> PlayerLeaseService \<times> 'w" where
  "release_each E [] s = s"
| "release_each E ((pid, owner) # ls) (L, w) =
     (let (e, w') = ReleaseLeaseLocked E L pid owner w in release_each E ls (count_release e L, w'))"

definition ReleaseAllTrackedLocked :: "'w env \<Rightarrow> PlayerLeaseService \<times> 'w \<Rightarrow> PlayerLeaseService \<times> 'w" where
  "ReleaseAllTrackedLocked E s = (let (L, w) = release_each E (mLeases (fst s)) s
     in (set_tracked (L\<lparr>mLeases := []\<rparr>), w))"

definition lease_Stop :: "'w env \<Rightarrow> PlayerLeaseService \<times> 'w \<Rightarrow> PlayerLeaseService \<times> 'w" where
  "lease_Stop E s = (let (L, w) = ReleaseAllTrackedLocked E s
     in (L\<lparr>lease_mSnapshot := (lease_mSnapshot L)\<lparr>lease_running := False\<rparr>\<rparr>, w))"

definition lease_Start :: "PlayerLeaseService \<Rightarrow> PlayerLeaseService" where
  "lease_Start L = L\<lparr>lease_mSnapshot := (lease_mSnapshot L)\<lparr>lease_running := True, lease_last_error := []\<rparr>\<rparr>"

definition lease_Unload :: "'w env \<Rightarrow> PlayerLeaseService \<times> 'w \<Rightarrow> PlayerLeaseService \<times> 'w" where
  "lease_Unload E s = (let (L, w) = s in
     (L\<lparr>lease_mRedis := None, mRedisKeyPrefix := [], mLeases := []\<rparr>, CloseRedis E (lease_mRedis L) w))"

text \<open>
  One pass of the renew loop: every tracked lease is refreshed; the ones that were refused are dropped.
\<close>

definition count_renew :: "string option \<Rightarrow> PlayerLeaseService \<Rightarrow> PlayerLeaseService" where
  "count_renew e L = (let n = lease_mSnapshot L in L\<lparr>lease_mSnapshot := (case e of
      None \<Rightarrow> n\<lparr>renew_success_count := renew_success_count n + 1\<rparr>
    | Some text \<Rightarrow> n\<lparr>renew_failure_count := renew_failure_count n + 1, lease_last_error := text\<rparr>)\<rparr>)"

fun renew_each :: "'w env \<Rightarrow> (u64 \<times> PlayerLeaseOwner) list \<Rightarrow> PlayerLeaseService \<times> 'w
    \<Rightarrow> u64 list \<times> PlayerLeaseService \<times> 'w" where
  "renew_each E [] s = ([], s)"
| "renew_each E ((pid, owner) # ls) (L, w) =
     (let (e, w') = RefreshLeaseLocked E L pid owner w;
          (lost, s') = renew_each E ls (count_renew e L, w')
      in (if e = None then lost else pid # lost, s'))"

definition drop_lost :: "u64 list \<Rightarrow> PlayerLeaseService \<Rightarrow> PlayerLeaseService" where
  "drop_lost lost L = foldl (\<lambda>L pid. L\<lparr>mLeases := AList.delete pid (mLeases L),
     lease_mSnapshot := (lease_mSnapshot L)\<lparr>local_loss_count := local_loss_count (lease_mSnapshot L) + 1\<rparr>\<rparr>) L lost"

definition RenewPass :: "'w env \<Rightarrow> PlayerLeaseService \<times> 'w \<Rightarrow> PlayerLeaseService \<times> 'w" where
  "RenewPass E s = (let (L, w) = s; (now, w1) = NowMs E w;
     L1 = L\<lparr>lease_mSnapshot := (lease_mSnapshot L)\<lparr>last_renew_ms := now\<rparr>\<rparr>;
     (lost, L2, w2) = renew_each E (mLeases L1) (L1, w1)
     in (set_tracked (drop_lost lost L2), w2))"

section \<open>Values\<close>

lemma colon_notin_GenerateToken: "CHR '':'' \<notin> set (GenerateToken pid i now)"
  by (simp add: GenerateToken_def)

lemma GenerateToken_nonempty: "GenerateToken pid i now \<noteq> []"
  by (simp add: GenerateToken_def)

text \<open>The value in Redis names its owner: it can be parsed back, for every token the service generates.\<close>

lemma ParseValue_BuildValue:
  assumes "CHR '':'' \<notin> set (token ow)" and "token ow \<noteq> []"
  shows "ParseValue (BuildValue ow) = Some ow"
proof -
  have "stoull (to_string (game_service_type ow)) = Inr (ucast (game_service_type ow))"
    "stoull (to_string (game_instance_id ow)) = Inr (ucast (game_instance_id ow))"
    by (rule stoull_to_string, simp)+
  moreover have "ucast (ucast x :: u64) = x" for x :: u32
    by (rule bit_word_eqI) (auto simp: bit_simps)
  ultimately show ?thesis
    using assms by (simp add: ParseValue_def BuildValue_def getline_field getline_last)
qed

text \<open>Two game instances never write the same value.\<close>

lemma BuildValue_instance:
  assumes "BuildValue ow = BuildValue ow'"
  shows "game_service_type ow = game_service_type ow' \<and> game_instance_id ow = game_instance_id ow' \<and> token ow = token ow'"
proof -
  have "getline CHR '':'' (BuildValue ow) = getline CHR '':'' (BuildValue ow')" using assms by simp
  then have 1: "game_service_type ow = game_service_type ow'"
    and 2: "to_string (game_instance_id ow) @ CHR '':'' # token ow = to_string (game_instance_id ow') @ CHR '':'' # token ow'"
    by (simp_all add: BuildValue_def getline_field)
  from 2 have "getline CHR '':'' (to_string (game_instance_id ow) @ CHR '':'' # token ow) =
      getline CHR '':'' (to_string (game_instance_id ow') @ CHR '':'' # token ow')" by simp
  then show ?thesis using 1 by (simp add: getline_field)
qed

lemma BuildKey_inject [simp]: "BuildKey L pid = BuildKey L pid' \<longleftrightarrow> pid = pid'"
  by (simp add: BuildKey_def)

section \<open>Acquire and release\<close>

definition holds :: "('w \<Rightarrow> string \<Rightarrow> string option) \<Rightarrow> PlayerLeaseService \<Rightarrow> u64 \<Rightarrow> 'w \<Rightarrow> bool" where
  "holds kv L pid w \<longleftrightarrow> (\<exists>owner. map_of (mLeases L) pid = Some owner \<and> kv w (BuildKey L pid) = Some (BuildValue owner))"

text \<open>A new lease was free before the call and is held afterwards; no other key changes.\<close>

lemma Acquire_new:
  assumes "set_nx_documented E h kv" and "clock_documented E kv" and "lease_mRedis L = Some h"
    and "\<not> IsHeldLocally L pid" and "lease_Acquire E pid (L, w) = (r, L', w')" and "ok r"
  shows "kv w (BuildKey L pid) = None \<and> holds kv L' pid w' \<and>
     (\<forall>k. k \<noteq> BuildKey L pid \<longrightarrow> kv w' k = kv w k) \<and> (\<forall>q. q \<noteq> pid \<longrightarrow> IsHeldLocally L' q = IsHeldLocally L q)"
proof -
  obtain now w1 where n: "env_now_ms E w = (now, w1)" by (cases "env_now_ms E w")
  then have c: "kv w1 = kv w" using assms(2) by (metis clock_documented_def snd_conv)
  let ?o = "\<lparr>game_service_type = mGameServiceType L, game_instance_id = mGameInstanceId L,
     token = GenerateToken pid (mGameInstanceId L) now\<rparr>"
  obtain reply w2 where s: "redisCommand E h
      [''SET'', BuildKey L pid, BuildValue ?o, ''NX'', ''PX'', to_string (ttl_ms L)] w1 = (reply, w2)"
    by (cases "redisCommand E h [''SET'', BuildKey L pid, BuildValue ?o, ''NX'', ''PX'', to_string (ttl_ms L)] w1")
  have r: "reply = Some (REDIS_STATUS ''OK'')"
    and e: "L' = set_tracked (L\<lparr>mLeases := AList.update pid ?o (mLeases L)\<rparr>)" "w' = w2"
    using assms(3-6) n s by (auto simp: lease_Acquire_def NowMs_def IsHeldLocally_def split: option.splits if_splits)
  have "kv w1 (BuildKey L pid) = None \<and> kv w2 = (kv w1)(BuildKey L pid \<mapsto> BuildValue ?o)"
    using assms(1) s r unfolding set_nx_documented_def by metis
  then show ?thesis
    using c e by (auto simp: holds_def set_tracked_def BuildKey_def IsHeldLocally_def)
qed

text \<open>A refused acquire leaves the local leases as they are.\<close>

lemma Acquire_refused:
  assumes "lease_Acquire E pid (L, w) = (r, L', w')" and "\<not> ok r"
  shows "L' = L"
  using assms by (auto simp: lease_Acquire_def Let_def split: option.splits prod.splits if_splits)

text \<open>Releasing removes the local lease, and in Redis at most the key that still holds the own value.\<close>

lemma Release_own_only:
  assumes "release_documented E h kReleaseScript kv" and "lease_mRedis L = Some h"
    and "lease_Release E pid (L, w) = (r, L', w')"
  shows "\<not> IsHeldLocally L' pid \<and>
     (\<forall>k. kv w' k \<noteq> kv w k \<longrightarrow> k = BuildKey L pid \<and> kv w' k = None \<and>
        (\<exists>owner. map_of (mLeases L) pid = Some owner \<and> kv w k = Some (BuildValue owner))) \<or>
     r = Failure ''player lease is not tracked locally'' \<and> L' = L \<and> w' = w"
proof (cases "map_of (mLeases L) pid")
  case None
  then show ?thesis using assms(3) by (auto simp: lease_Release_def)
next
  case (Some owner)
  obtain reply w2 where s: "redisCommand E h [''EVAL'', kReleaseScript, ''1'', BuildKey L pid, BuildValue owner] w = (reply, w2)"
    by (cases "redisCommand E h [''EVAL'', kReleaseScript, ''1'', BuildKey L pid, BuildValue owner] w")
  have w': "w' = w2"
    using assms(2,3) Some s
    by (auto simp: lease_Release_def ReleaseLeaseLocked_def Let_def split: option.splits prod.splits redis_reply.splits)
  have L': "\<not> IsHeldLocally L' pid"
    using assms(3) Some
    by (auto simp: lease_Release_def IsHeldLocally_def set_tracked_def count_release_def Let_def split: prod.splits)
  have "kv w2 = kv w \<or> kv w (BuildKey L pid) = Some (BuildValue owner) \<and> kv w2 = (kv w)(BuildKey L pid := None)"
    using assms(1) s unfolding release_documented_def by metis
  then show ?thesis using Some w' L' by (auto split: if_splits)
qed

section \<open>Renewal\<close>

lemma count_renew_same [simp]:
  "mLeases (count_renew e L) = mLeases L" "lease_mRedis (count_renew e L) = lease_mRedis L"
  "BuildKey (count_renew e L) = BuildKey L"
  by (auto simp: count_renew_def Let_def BuildKey_def fun_eq_iff)

lemma ttl_ms_positive: "mLeaseTtlSeconds L \<noteq> 0 \<Longrightarrow> 0 < ttl_ms L"
proof -
  assume "mLeaseTtlSeconds L \<noteq> 0"
  then have "0 < unat (mLeaseTtlSeconds L)" by (simp add: unat_gt_0)
  moreover have "unat (ttl_ms L) = unat (mLeaseTtlSeconds L) * 1000"
    using unsigned_less [where 'a = nat, of "mLeaseTtlSeconds L"] by (simp add: ttl_ms_def unat_word_ariths unsigned_ucast_eq take_bit_nat_eq_self)
  ultimately show ?thesis by (simp add: word_less_nat_alt)
qed

lemma renew_each_spec:
  assumes "refresh_documented E h kRefreshScript kv" and "lease_mRedis L = Some h" and "mLeaseTtlSeconds L \<noteq> 0"
    and "renew_each E ls (L, w) = (lost, L', w')"
  shows "kv w' = kv w \<and> mLeases L' = mLeases L \<and> BuildKey L' = BuildKey L \<and>
     (\<forall>(pid, owner) \<in> set ls. pid \<notin> set lost \<longrightarrow> kv w (BuildKey L pid) = Some (BuildValue owner)) \<and>
     set lost \<subseteq> fst ` set ls"
  using assms(2-4)
proof (induction ls arbitrary: L w lost L' w')
  case (Cons po ls)
  obtain pid owner where po: "po = (pid, owner)" by (cases po)
  obtain e w1 where e: "RefreshLeaseLocked E L pid owner w = (e, w1)" by (cases "RefreshLeaseLocked E L pid owner w")
  obtain lost1 L2 w2 where t: "renew_each E ls (count_renew e L, w1) = (lost1, L2, w2)"
    by (cases "renew_each E ls (count_renew e L, w1)") auto
  have eq: "lost = (if e = None then lost1 else pid # lost1)" "L' = L2" "w' = w2"
    using Cons.prems(3) e t by (auto simp: po)
  have k: "kv w1 = kv w \<and> (e = None \<longrightarrow> kv w (BuildKey L pid) = Some (BuildValue owner))"
    using assms(1) e Cons.prems(1) ttl_ms_positive [OF Cons.prems(2)] unfolding refresh_documented_def
    by (auto simp: RefreshLeaseLocked_def split: prod.splits option.splits if_splits)
  have ttl: "mLeaseTtlSeconds (count_renew e L) \<noteq> 0" using Cons.prems(2) by (simp add: count_renew_def Let_def)
  have IH: "kv w2 = kv w1 \<and> mLeases L2 = mLeases L \<and> BuildKey L2 = BuildKey L \<and>
      (\<forall>(pid, owner) \<in> set ls. pid \<notin> set lost1 \<longrightarrow> kv w1 (BuildKey L pid) = Some (BuildValue owner)) \<and>
      set lost1 \<subseteq> fst ` set ls"
    using Cons.IH [of "count_renew e L" w1 lost1 L2 w2] Cons.prems(1) t ttl by simp
  show ?case using k IH eq by (auto simp: po split: if_splits)
qed simp

lemma drop_lost_leases:
  "map_of (mLeases (drop_lost lost L)) pid = (if pid \<in> set lost then None else map_of (mLeases L) pid)"
  "BuildKey (drop_lost lost L) = BuildKey L" "lease_mRedis (drop_lost lost L) = lease_mRedis L"
  unfolding drop_lost_def
  by (induction lost arbitrary: L) (auto simp: BuildKey_def fun_eq_iff)

text \<open>After a renew pass every lease the service tracks is its own in Redis, and it tracks no new one.\<close>

lemma RenewPass_holds:
  assumes "refresh_documented E h kRefreshScript kv" and "clock_documented E kv" and "lease_mRedis L = Some h"
    and "mLeaseTtlSeconds L \<noteq> 0" and "RenewPass E (L, w) = (L', w')"
  shows "kv w' = kv w \<and> (\<forall>pid. IsHeldLocally L' pid \<longrightarrow> IsHeldLocally L pid \<and> holds kv L' pid w')"
proof -
  obtain now w1 where n: "env_now_ms E w = (now, w1)" by (cases "env_now_ms E w")
  then have c: "kv w1 = kv w" using assms(2) by (metis clock_documented_def snd_conv)
  let ?L1 = "L\<lparr>lease_mSnapshot := (lease_mSnapshot L)\<lparr>last_renew_ms := now\<rparr>\<rparr>"
  obtain lost L2 w2 where t: "renew_each E (mLeases ?L1) (?L1, w1) = (lost, L2, w2)"
    by (cases "renew_each E (mLeases ?L1) (?L1, w1)") auto
  have e: "L' = set_tracked (drop_lost lost L2)" "w' = w2"
    using assms(5) n t by (auto simp: RenewPass_def NowMs_def)
  have s: "kv w2 = kv w1" "mLeases L2 = mLeases L" "BuildKey L2 = BuildKey L"
    and own: "\<forall>(pid, owner) \<in> set (mLeases L). pid \<notin> set lost \<longrightarrow> kv w1 (BuildKey L pid) = Some (BuildValue owner)"
    using renew_each_spec [OF assms(1) _ _ t] assms(3,4) by (auto simp: BuildKey_def fun_eq_iff)
  have L': "map_of (mLeases L') pid = (if pid \<in> set lost then None else map_of (mLeases L) pid)"
    "BuildKey L' = BuildKey L" for pid
    using e s drop_lost_leases [of lost L2] by (auto simp: set_tracked_def BuildKey_def fun_eq_iff)
  show ?thesis
  proof (intro conjI allI impI)
    show "kv w' = kv w" using e s c by simp
    fix pid
    assume "IsHeldLocally L' pid"
    then obtain owner where ow: "map_of (mLeases L) pid = Some owner" "pid \<notin> set lost"
      by (auto simp: IsHeldLocally_def L' split: if_splits)
    then show "IsHeldLocally L pid" by (simp add: IsHeldLocally_def)
    have "kv w1 (BuildKey L pid) = Some (BuildValue owner)"
      using own map_of_SomeD [OF ow(1)] ow(2) by auto
    then show "holds kv L' pid w'" using ow L' e s by (auto simp: holds_def)
  qed
qed

text \<open>The instance that wrote a tracked value: every owner record carries the identity of its service.\<close>

definition leases_own :: "PlayerLeaseService \<Rightarrow> bool" where
  "leases_own L \<longleftrightarrow> (\<forall>pid owner. map_of (mLeases L) pid = Some owner \<longrightarrow>
     game_service_type owner = mGameServiceType L \<and> game_instance_id owner = mGameInstanceId L)"

lemma Acquire_leases_own:
  "leases_own L \<Longrightarrow> lease_Acquire E pid (L, w) = (r, L', w') \<Longrightarrow> leases_own L'"
  by (auto simp: leases_own_def lease_Acquire_def set_tracked_def Let_def split: option.splits prod.splits if_splits)

lemma Release_leases_own:
  "leases_own L \<Longrightarrow> lease_Release E pid (L, w) = (r, L', w') \<Longrightarrow> leases_own L'"
  by (auto simp: leases_own_def lease_Release_def set_tracked_def count_release_def Let_def
      split: option.splits prod.splits if_splits)

text \<open>Two instances cannot hold the same player at the same time.\<close>

lemma holds_exclusive:
  assumes "holds kv A pid w" and "holds kv B pid w" and "leases_own A" and "leases_own B"
    and "mRedisKeyPrefix A = mRedisKeyPrefix B"
  shows "mGameServiceType A = mGameServiceType B \<and> mGameInstanceId A = mGameInstanceId B"
proof -
  obtain oa ob where ow: "map_of (mLeases A) pid = Some oa" "map_of (mLeases B) pid = Some ob"
    "kv w (BuildKey A pid) = Some (BuildValue oa)" "kv w (BuildKey B pid) = Some (BuildValue ob)"
    using assms(1,2) by (auto simp: holds_def)
  then have "BuildValue oa = BuildValue ob" using assms(5) by (simp add: BuildKey_def)
  from BuildValue_instance [OF this] ow assms(3,4) show ?thesis by (metis leases_own_def)
qed

text \<open>Stopping gives up every local lease.\<close>

lemma Stop_no_leases: "lease_Stop E s = (L', w') \<Longrightarrow> \<not> IsHeldLocally L' pid"
  by (auto simp: lease_Stop_def ReleaseAllTrackedLocked_def IsHeldLocally_def set_tracked_def split: prod.splits)

text \<open>A renew pass may drop leases and otherwise keeps the identity of the process and every owner record.\<close>

lemma renew_each_same:
  "renew_each E ls (L, w) = (lost, L', w') \<Longrightarrow> mRedisKeyPrefix L' = mRedisKeyPrefix L \<and>
     mGameServiceType L' = mGameServiceType L \<and> mGameInstanceId L' = mGameInstanceId L \<and> mLeases L' = mLeases L"
proof (induction ls arbitrary: L w lost)
  case (Cons l ls)
  then show ?case by (cases l) (fastforce simp: count_renew_def Let_def split: prod.splits)
qed simp

lemma drop_lost_same:
  "mRedisKeyPrefix (drop_lost lost L) = mRedisKeyPrefix L \<and> mGameServiceType (drop_lost lost L) = mGameServiceType L \<and>
     mGameInstanceId (drop_lost lost L) = mGameInstanceId L"
  unfolding drop_lost_def by (induction lost arbitrary: L) (simp_all add: Let_def)

lemma RenewPass_same:
  assumes "RenewPass E (L, w) = (L', w')"
  shows "mRedisKeyPrefix L' = mRedisKeyPrefix L \<and> mGameServiceType L' = mGameServiceType L \<and>
     mGameInstanceId L' = mGameInstanceId L \<and>
     (\<forall>pid owner. map_of (mLeases L') pid = Some owner \<longrightarrow> map_of (mLeases L) pid = Some owner)"
proof -
  obtain now w1 where n: "NowMs E w = (now, w1)" by (cases "NowMs E w")
  let ?L1 = "L\<lparr>lease_mSnapshot := (lease_mSnapshot L)\<lparr>last_renew_ms := now\<rparr>\<rparr>"
  obtain lost L2 w2 where r: "renew_each E (mLeases ?L1) (?L1, w1) = (lost, L2, w2)" by (metis prod_cases3)
  have "L' = set_tracked (drop_lost lost L2)" using assms n r by (simp add: RenewPass_def)
  then show ?thesis
    using renew_each_same [OF r] drop_lost_same [of lost L2] by (auto simp: set_tracked_def drop_lost_leases split: if_splits)
qed

end
