(* ===== verification/Player_Session.thy ===== *)
theory Player_Session
  imports Game_Ipc Player_Repository Player_Lease
begin

text \<open>
  \<^verbatim>\<open>PlayerSessionService\<close> (src/src/game/services/player_session_service.cpp): the life of a player in a game
  process. The service owns the table of sessions and drives the lease, the repository, the runtime and
  the IPC bindings, all of which are part of the state here. Each method is given as one function, the way it
  runs undisturbed; the points at which it leaves its lock are in \<^verbatim>\<open>Session_Threads\<close>.
\<close>

section \<open>State\<close>

datatype PlayerSessionState = st_loading | st_online | st_detached | st_unloading

fun PlayerSessionState_ToString :: "PlayerSessionState \<Rightarrow> string" where
  "PlayerSessionState_ToString st_loading = ''loading''"
| "PlayerSessionState_ToString st_online = ''online''"
| "PlayerSessionState_ToString st_detached = ''detached''"
| "PlayerSessionState_ToString st_unloading = ''unloading''"

record GateRef =
  gate_service_type :: u32
  gate_instance_id :: u32
  gate_session_id :: u64

definition no_gate :: GateRef where
  "no_gate = \<lparr>gate_service_type = 0, gate_instance_id = 0, gate_session_id = 0\<rparr>"

record PlayerSessionRecord =
  ss_state :: PlayerSessionState
  ss_gate :: GateRef
  activate_count :: u64
  last_state_change_ms :: u64
  detach_deadline_ms :: u64

definition default_session :: PlayerSessionRecord where
  "default_session = \<lparr>ss_state = st_loading, ss_gate = no_gate, activate_count = 0, last_state_change_ms = 0, detach_deadline_ms = 0\<rparr>"

text \<open>The game process: the services and the four pointers the session service was given.\<close>

record game =
  g_repository :: PlayerRepository
  g_lease :: PlayerLeaseService
  g_runtime :: PlayerRuntimeService
  g_ipc :: game_ipc
  has_repository :: bool
  has_lease :: bool
  has_runtime :: bool
  has_ipc :: bool
  mDetachedTtlSeconds :: u32
  sessions :: "(u64 \<times> PlayerSessionRecord) list"

record 'w game_env =
  ge_env :: "'w env"
  ge_node :: "'w node_env"
  ge_wire :: env_wire
  ge_codec :: player_codec
  ge_handler :: "'w process_handler"
  ge_unbind :: "u64 \<Rightarrow> GateRef \<Rightarrow> ByteBuffer" \<comment> \<open>\<^verbatim>\<open>pb::ipc::UnbindPlayerSession\<close> with reason kicked\<close>

definition session_of :: "game \<Rightarrow> u64 \<Rightarrow> PlayerSessionRecord option" where
  "session_of G pid = map_of (sessions G) pid"

definition set_session :: "u64 \<Rightarrow> PlayerSessionRecord \<Rightarrow> game \<Rightarrow> game" where
  "set_session pid s G = G\<lparr>sessions := AList.update pid s (sessions G)\<rparr>"

section \<open>Calls into the other services\<close>

definition call_lease :: "(PlayerLeaseService \<times> 'w \<Rightarrow> result \<times> PlayerLeaseService \<times> 'w) \<Rightarrow> game \<times> 'w \<Rightarrow> result \<times> game \<times> 'w" where
  "call_lease f s = (let (G, w) = s; (r, L, w') = f (g_lease G, w) in (r, G\<lparr>g_lease := L\<rparr>, w'))"

definition call_repository :: "(PlayerRepository \<times> 'w \<Rightarrow> result \<times> PlayerRepository \<times> 'w) \<Rightarrow> game \<times> 'w \<Rightarrow> result \<times> game \<times> 'w" where
  "call_repository f s = (let (G, w) = s; (r, R, w') = f (g_repository G, w) in (r, G\<lparr>g_repository := R\<rparr>, w'))"

definition call_ipc :: "(game_ipc \<Rightarrow> result \<times> game_ipc) \<Rightarrow> game \<Rightarrow> result \<times> game" where
  "call_ipc f G = (let (r, i) = f (g_ipc G) in (r, G\<lparr>g_ipc := i\<rparr>))"

definition release_lease :: "'w game_env \<Rightarrow> u64 \<Rightarrow> game \<times> 'w \<Rightarrow> game \<times> 'w" where
  "release_lease E pid s = snd (call_lease (lease_Release (ge_env E) pid) s)"

definition unbind_player :: "u64 \<Rightarrow> game \<Rightarrow> game" where
  "unbind_player pid G = snd (call_ipc (UnbindLocalPlayer pid) G)"

definition release_record :: "u64 \<Rightarrow> game \<Rightarrow> game" where
  "release_record pid G = G\<lparr>g_repository := snd (repo_ReleasePlayer pid (g_repository G))\<rparr>"

definition ensure_runtime :: "u64 \<Rightarrow> game \<Rightarrow> result \<times> game" where
  "ensure_runtime pid G = (let (r, T) = EnsurePlayer (g_repository G) pid (g_runtime G) in (r, G\<lparr>g_runtime := T\<rparr>))"

definition dependencies :: "game \<Rightarrow> bool" where
  "dependencies G \<longleftrightarrow> has_repository G \<and> has_lease G \<and> has_runtime G \<and> has_ipc G"

lemma dependencies_update [simp]:
  "dependencies (G\<lparr>g_repository := R\<rparr>) = dependencies G" "dependencies (G\<lparr>g_lease := L\<rparr>) = dependencies G"
  "dependencies (G\<lparr>g_runtime := T\<rparr>) = dependencies G" "dependencies (G\<lparr>g_ipc := i\<rparr>) = dependencies G"
  "dependencies (G\<lparr>sessions := ss\<rparr>) = dependencies G"
  by (simp_all add: dependencies_def)

section \<open>Activation\<close>

definition bind_gate :: "GateRef \<Rightarrow> u64 \<Rightarrow> PlayerSessionRecord \<Rightarrow> PlayerSessionRecord" where
  "bind_gate gate now s = s\<lparr>ss_gate := gate, last_state_change_ms := now, activate_count := activate_count s + 1\<rparr>"

definition go_online :: "GateRef \<Rightarrow> u64 \<Rightarrow> PlayerSessionRecord \<Rightarrow> PlayerSessionRecord" where
  "go_online gate now s = (bind_gate gate now s)\<lparr>ss_state := st_online, detach_deadline_ms := 0\<rparr>"

definition transitioning :: result where
  "transitioning = Failure ''player is transitioning and cannot be activated''"

text \<open>A bind that fails because the player is bound here already counts as bound.\<close>

definition bind_failed :: "result \<Rightarrow> bool" where
  "bind_failed r \<longleftrightarrow> \<not> ok r \<and> message r \<noteq> ''player is already bound locally''"

text \<open>The branch that takes a lost lease back.\<close>

definition recover_session :: "'w game_env \<Rightarrow> u64 \<Rightarrow> GateRef \<Rightarrow> bool \<Rightarrow> game \<times> 'w \<Rightarrow> result \<times> game \<times> 'w" where
  "recover_session E pid gate allow s = (let
     (load, G1, w1) = (if repo_Snapshot (g_repository (fst s)) pid = None
         then call_repository (LoadPlayer (ge_env E) (ge_codec E) pid allow) s else (Success, s)) in
     if \<not> ok load then (load, release_lease E pid (G1, w1))
     else let (bound, G2) = call_ipc (BindLocalPlayer pid) G1 in
     if bind_failed bound then (bound, release_lease E pid (G2, w1))
     else let (ensured, G3) = ensure_runtime pid G2 in
     if \<not> ok ensured
     then (let (G4, w4) = release_lease E pid (G3, w1) in (ensured, unbind_player pid G4, w4))
     else (case session_of G3 pid of
         None \<Rightarrow> (Failure ''player session disappeared during lease recovery'', release_lease E pid (G3, w1))
       | Some rec \<Rightarrow>
           if ss_state rec = st_loading \<or> ss_state rec = st_unloading then (transitioning, release_lease E pid (G3, w1))
           else let (now, w2) = NowMs (ge_env E) w1 in (Success, set_session pid (go_online gate now rec) G3, w2)))"

text \<open>The branch for a player without a session.\<close>

definition start_session :: "'w game_env \<Rightarrow> u64 \<Rightarrow> GateRef \<Rightarrow> bool \<Rightarrow> game \<times> 'w \<Rightarrow> result \<times> game \<times> 'w" where
  "start_session E pid gate allow s = (let
     (load, G1, w1) = call_repository (LoadPlayer (ge_env E) (ge_codec E) pid allow) s in
     if \<not> ok load then (load, release_lease E pid (G1, w1))
     else let (bound, G2) = call_ipc (BindLocalPlayer pid) G1 in
     if bind_failed bound
     then (let (G4, w4) = release_lease E pid (G2, w1) in (bound, release_record pid G4, w4))
     else let (ensured, G3) = ensure_runtime pid G2 in
     if \<not> ok ensured
     then (let (G4, w4) = release_lease E pid (G3, w1) in (ensured, release_record pid (unbind_player pid G4), w4))
     else let (now, w2) = NowMs (ge_env E) w1;
              rec = (case session_of G3 pid of None \<Rightarrow> default_session | Some r \<Rightarrow> r) in
     (Success, set_session pid (go_online gate now rec) G3, w2))"

definition acquire_then :: "'w game_env \<Rightarrow> u64 \<Rightarrow> (game \<times> 'w \<Rightarrow> result \<times> game \<times> 'w) \<Rightarrow> game \<times> 'w \<Rightarrow> result \<times> game \<times> 'w" where
  "acquire_then E pid continue s = (let (r, s1) = call_lease (lease_Acquire (ge_env E) pid) s in
     if \<not> ok r then (r, s1) else continue s1)"

definition ActivatePlayer :: "'w game_env \<Rightarrow> u64 \<Rightarrow> GateRef \<Rightarrow> bool \<Rightarrow> game \<times> 'w \<Rightarrow> result \<times> game \<times> 'w" where
  "ActivatePlayer E pid gate allow s = (let (G, w) = s in
     if \<not> dependencies G then (Failure ''player session dependencies are not registered'', G, w)
     else case session_of G pid of
       None \<Rightarrow> acquire_then E pid (start_session E pid gate allow) (G, w)
     | Some rec \<Rightarrow>
         if (ss_state rec = st_online \<or> ss_state rec = st_detached) \<and> \<not> IsHeldLocally (g_lease G) pid
         then acquire_then E pid (recover_session E pid gate allow) (G, w)
         else if ss_state rec = st_online
         then (let (now, w1) = NowMs (ge_env E) w in (Success, set_session pid (bind_gate gate now rec) G, w1))
         else if ss_state rec = st_detached
         then (let (now, w1) = NowMs (ge_env E) w in (Success, set_session pid (go_online gate now rec) G, w1))
         else (transitioning, G, w))"

section \<open>Detaching\<close>

definition go_detached :: "u32 \<Rightarrow> u64 \<Rightarrow> PlayerSessionRecord \<Rightarrow> PlayerSessionRecord" where
  "go_detached ttl now s = s\<lparr>ss_state := st_detached, last_state_change_ms := now,
     detach_deadline_ms := now + ucast ttl * 1000, ss_gate := no_gate\<rparr>"

text \<open>Both overloads; the second one names the gate session it is about.\<close>

definition DetachPlayer :: "'w game_env \<Rightarrow> u64 \<Rightarrow> GateRef option \<Rightarrow> game \<times> 'w \<Rightarrow> result \<times> game \<times> 'w" where
  "DetachPlayer E pid gate s = (let (G, w) = s in
     case session_of G pid of
       None \<Rightarrow> (Failure ''player session is not tracked'', G, w)
     | Some rec \<Rightarrow>
         if ss_state rec \<noteq> st_online then (Failure ''player is not online'', G, w)
         else if (case gate of None \<Rightarrow> False | Some g \<Rightarrow> ss_gate rec \<noteq> g)
         then (Failure ''player gate session does not match'', G, w)
         else let (now, w') = NowMs (ge_env E) w in
         (Success, set_session pid (go_detached (mDetachedTtlSeconds G) now rec) G, w'))"

section \<open>Release\<close>

definition unload_player :: "'w game_env \<Rightarrow> u64 \<Rightarrow> game \<times> 'w \<Rightarrow> result \<times> game \<times> 'w" where
  "unload_player E pid s = (let (G, w) = s; (unbound, G1) = call_ipc (UnbindLocalPlayer pid) G in
     if \<not> ok unbound then (unbound, G1, w)
     else let G2 = G1\<lparr>g_runtime := snd (RemovePlayer pid (g_runtime G1))\<rparr>;
              (released, R) = repo_ReleasePlayer pid (g_repository G2); G3 = G2\<lparr>g_repository := R\<rparr> in
     if \<not> ok released then (released, G3, w)
     else let (G4, w4) = release_lease E pid (G3, w) in
     (Success, G4\<lparr>sessions := AList.delete pid (sessions G4)\<rparr>, w4))"

definition is_dirty :: "game \<Rightarrow> u64 \<Rightarrow> bool" where
  "is_dirty G pid \<longleftrightarrow> (case repo_Snapshot (g_repository G) pid of None \<Rightarrow> False | Some r \<Rightarrow> dirty r)"

definition ReleasePlayer :: "'w game_env \<Rightarrow> u64 \<Rightarrow> game \<times> 'w \<Rightarrow> result \<times> game \<times> 'w" where
  "ReleasePlayer E pid s = (let (G, w) = s in
     if \<not> dependencies G then (Failure ''player session dependencies are not registered'', G, w)
     else case session_of G pid of
       None \<Rightarrow> (Failure ''player session is not tracked'', G, w)
     | Some previous \<Rightarrow>
         let (now, w1) = NowMs (ge_env E) w;
             G1 = set_session pid (previous\<lparr>ss_state := st_unloading, last_state_change_ms := now\<rparr>) G in
         if is_dirty G1 pid
         then (let (flush, G2, w2) = call_repository (FlushPlayer (ge_env E) (ge_codec E) pid) (G1, w1) in
               if \<not> ok flush
               then (Failure (''player flush before release failed: '' @ message flush), set_session pid previous G2, w2)
               else unload_player E pid (G2, w2))
         else unload_player E pid (G1, w1))"

fun release_all :: "'w game_env \<Rightarrow> u64 list \<Rightarrow> nat \<Rightarrow> game \<times> 'w \<Rightarrow> nat \<times> game \<times> 'w" where
  "release_all E [] n s = (n, s)"
| "release_all E (pid # pids) n s =
     (let (r, s') = ReleasePlayer E pid s in release_all E pids (if ok r then n + 1 else n) s')"

definition expired :: "u64 \<Rightarrow> PlayerSessionRecord \<Rightarrow> bool" where
  "expired now s \<longleftrightarrow> ss_state s = st_detached \<and> detach_deadline_ms s \<noteq> 0 \<and> detach_deadline_ms s \<le> now"

definition ExpireDetachedPlayers :: "'w game_env \<Rightarrow> game \<times> 'w \<Rightarrow> nat \<times> game \<times> 'w" where
  "ExpireDetachedPlayers E s = (let (G, w) = s; (now, w1) = NowMs (ge_env E) w in
     release_all E (map fst (filter (\<lambda>(_, rec). expired now rec) (sessions G))) 0 (G, w1))"

section \<open>Lost leases\<close>

definition unbind_request :: "'w game_env \<Rightarrow> u64 \<Rightarrow> GateRef \<Rightarrow> proto_message" where
  "unbind_request E pid gate = \<lparr>full_name = ''pb.ipc.UnbindPlayerSession'', serialized = ge_unbind E pid gate\<rparr>"

definition lost_player :: "game \<Rightarrow> u64 \<times> PlayerSessionRecord \<Rightarrow> bool" where
  "lost_player G ps \<longleftrightarrow> (ss_state (snd ps) = st_online \<or> ss_state (snd ps) = st_detached) \<and> \<not> IsHeldLocally (g_lease G) (fst ps)"

definition notify_gate :: "'w game_env \<Rightarrow> u64 \<Rightarrow> PlayerSessionRecord \<Rightarrow> game \<times> 'w \<Rightarrow> game \<times> 'w" where
  "notify_gate E pid action s = (let (G, w) = s; gate = ss_gate action in
     if ss_state action = st_online \<and> gate_service_type gate \<noteq> 0 \<and> gate_instance_id gate \<noteq> 0 \<and> gate_session_id gate \<noteq> 0
     then (let (_, i, w') = SendProcessPayload (ge_node E) (ge_wire E) (ge_handler E)
             (mk_process_id (gate_service_type gate) (gate_instance_id gate)) (unbind_request E pid gate) (g_ipc G, w)
           in (G\<lparr>g_ipc := i\<rparr>, w'))
     else (G, w))"

text \<open>The first locked section, and the second one, which looks at the player again after the unbind.\<close>

definition lost_players :: "game \<Rightarrow> (u64 \<times> PlayerSessionRecord) list" where
  "lost_players G = filter (lost_player G) (sessions G)"

definition recheck_player :: "u64 \<Rightarrow> u64 \<Rightarrow> nat \<times> game \<Rightarrow> nat \<times> game" where
  "recheck_player now pid nG = (let (n, G) = nG in
     case session_of G pid of
       None \<Rightarrow> (n, G)
     | Some rec \<Rightarrow>
         if IsHeldLocally (g_lease G) pid then (n, G)
         else if ss_state rec = st_online
         then (n + 1, set_session pid (go_detached (mDetachedTtlSeconds G) now rec) G)
         else if ss_state rec = st_detached then (n + 1, G)
         else (n, G))"

definition reconcile_player :: "'w game_env \<Rightarrow> u64 \<Rightarrow> u64 \<times> PlayerSessionRecord \<Rightarrow> nat \<times> game \<times> 'w \<Rightarrow> nat \<times> game \<times> 'w" where
  "reconcile_player E now action ns = (let (n, s) = ns; (pid, record) = action;
     (G1, w1) = notify_gate E pid record s; (m, G2) = recheck_player now pid (n, unbind_player pid G1) in (m, G2, w1))"

definition ReconcileLeaseLosses :: "'w game_env \<Rightarrow> game \<times> 'w \<Rightarrow> nat \<times> game \<times> 'w" where
  "ReconcileLeaseLosses E s = (let (G, w) = s in
     if \<not> has_lease G \<or> \<not> has_ipc G then (0, G, w)
     else let lost = lost_players G; (now, w1) = NowMs (ge_env E) w in
     fold (reconcile_player E now) lost (0, G, w1))"

section \<open>The state of one player\<close>

text \<open>What the services say of a player: its session, and whether it is leased, loaded, running and bound.\<close>

definition bound_here :: "game \<Rightarrow> u64 \<Rightarrow> bool" where
  "bound_here G pid \<longleftrightarrow> player_host_IsBound (mPlayerReceiverHost (g_ipc G)) pid"

definition view :: "game \<Rightarrow> u64 \<Rightarrow> PlayerSessionRecord option \<times> bool \<times> bool \<times> bool \<times> bool" where
  "view G pid = (session_of G pid, IsHeldLocally (g_lease G) pid, repo_loaded (g_repository G) pid,
     rt_tracked (g_runtime G) pid, bound_here G pid)"

definition ready_view :: "PlayerSessionRecord option \<times> bool \<times> bool \<times> bool \<times> bool \<Rightarrow> bool" where
  "ready_view v \<longleftrightarrow> (case v of (s, held, ld, running, bound) \<Rightarrow>
     (case s of None \<Rightarrow> True
      | Some rec \<Rightarrow> (ss_state rec = st_online \<or> ss_state rec = st_detached) \<and> held \<longrightarrow> ld \<and> running \<and> bound))"

text \<open>The services are wired up and the IPC node knows itself and its bindings.\<close>

definition ipc_ok :: "game \<Rightarrow> bool" where
  "ipc_ok G \<longleftrightarrow> dependencies G \<and> players_inv (g_ipc G) \<and> nd_self (gi_node (g_ipc G)) \<noteq> None"

text \<open>An online or detached player whose lease is held is loaded, running and bound.\<close>

definition session_inv :: "game \<Rightarrow> bool" where
  "session_inv G \<longleftrightarrow> ipc_ok G \<and> distinct (map fst (sessions G)) \<and> (\<forall>pid. ready_view (view G pid))"

text \<open>An operation on one player leaves every other player alone.\<close>

definition frame :: "u64 \<Rightarrow> game \<Rightarrow> game \<Rightarrow> bool" where
  "frame pid G G' \<longleftrightarrow> (ipc_ok G \<longrightarrow> ipc_ok G') \<and> (distinct (map fst (sessions G)) \<longrightarrow> distinct (map fst (sessions G'))) \<and>
     (\<forall>q. q \<noteq> pid \<longrightarrow> view G' q = view G q)"

lemma frame_refl [simp]: "frame pid G G" by (simp add: frame_def)

lemma frame_trans: "frame pid G G1 \<Longrightarrow> frame pid G1 G2 \<Longrightarrow> frame pid G G2" by (simp add: frame_def)

lemma session_inv_frame:
  assumes "session_inv G" and "frame pid G G'" and "ready_view (view G' pid)"
  shows "session_inv G'"
  using assms unfolding session_inv_def frame_def by metis

named_theorems player_frame \<open>what an operation changes of a player\<close>

subsection \<open>The calls\<close>

lemma lease_Release_held:
  "lease_Release E pid (L, w) = (r, L', w') \<Longrightarrow> IsHeldLocally L' q \<longleftrightarrow> IsHeldLocally L q \<and> q \<noteq> pid"
  by (auto simp: lease_Release_def IsHeldLocally_def set_tracked_def count_release_def Let_def
      split: option.splits prod.splits if_splits)

lemma lease_Acquire_held:
  "lease_Acquire E pid (L, w) = (r, L', w') \<Longrightarrow> IsHeldLocally L' q \<longleftrightarrow> IsHeldLocally L q \<or> ok r \<and> q = pid"
  by (auto simp: lease_Acquire_def IsHeldLocally_def set_tracked_def Let_def
      split: option.splits prod.splits if_splits)

lemma release_lease_view [player_frame]:
  assumes "release_lease E pid (G, w) = (G', w')"
  shows "view G' q = (let (s, held, rest) = view G q in (s, held \<and> q \<noteq> pid, rest)) \<and>
     g_ipc G' = g_ipc G \<and> sessions G' = sessions G \<and> g_repository G' = g_repository G \<and> dependencies G' = dependencies G"
  using assms lease_Release_held [of "ge_env E" pid "g_lease G" w]
  by (auto simp: release_lease_def call_lease_def view_def session_of_def bound_here_def split: prod.splits)

lemma release_lease_frame: "release_lease E pid (G, w) = (G', w') \<Longrightarrow> frame pid G G'"
  using release_lease_view [of E pid G w G' w'] by (auto simp: frame_def ipc_ok_def split: prod.splits)

lemma LoadPlayer_others:
  assumes "LoadPlayer E C pid allow (R, w) = (r, R', w')" and "q \<noteq> pid"
  shows "repo_Snapshot R' q = repo_Snapshot R q"
  using assms
  by (auto simp: LoadPlayer_def finish_load_def Let_def split: option.splits if_splits prod.splits)

lemma call_load_view [player_frame]:
  assumes "call_repository (LoadPlayer E C pid allow) (G, w) = (r, G', w')"
  shows "frame pid G G' \<and> session_of G' pid = session_of G pid \<and> g_lease G' = g_lease G \<and> g_ipc G' = g_ipc G \<and>
     (ok r \<longrightarrow> repo_loaded (g_repository G') pid)"
  using assms LoadPlayer_others [of E C pid allow "g_repository G" w] LoadPlayer_ok [of E C pid allow "g_repository G" w]
  by (auto simp: call_repository_def frame_def ipc_ok_def view_def session_of_def bound_here_def repo_loaded_def
      split: prod.splits)

lemma call_bind_view [player_frame]:
  assumes "ipc_ok G" and "call_ipc (BindLocalPlayer pid) G = (r, G')"
  shows "frame pid G G' \<and> session_of G' pid = session_of G pid \<and> g_lease G' = g_lease G \<and>
     g_repository G' = g_repository G \<and> (\<not> bind_failed r \<longrightarrow> bound_here G' pid)"
proof -
  obtain self i where self: "nd_self (gi_node (g_ipc G)) = Some self" and i: "BindLocalPlayer pid (g_ipc G) = (r, i)"
    and G': "G' = G\<lparr>g_ipc := i\<rparr>"
    using assms by (auto simp: ipc_ok_def call_ipc_def split: prod.splits)
  have inv: "players_inv (g_ipc G)" using assms(1) by (simp add: ipc_ok_def)
  note c = BindLocalPlayer_cases [OF inv self i]
  have "bound_here G' pid" if "\<not> bind_failed r"
  proof (cases "ok r")
    case True
    then show ?thesis using c by (simp add: bound_here_def G')
  next
    case False
    have "player_host_IsBound (mPlayerReceiverHost (g_ipc G)) pid"
    proof (rule ccontr)
      assume "\<not> ?thesis"
      then have "message r = ''receiver already bound to another owner''"
        using i self False
        by (auto simp: BindLocalPlayer_def player_host_Bind_def player_host_IsBound_def Bind_def Let_def split: if_splits)
      then show False using that False by (simp add: bind_failed_def)
    qed
    then show ?thesis using c by (simp add: bound_here_def G')
  qed
  then show ?thesis
    using c by (auto simp: frame_def ipc_ok_def view_def session_of_def bound_here_def G')
qed

lemma unbind_player_view [player_frame]:
  assumes "ipc_ok G"
  shows "frame pid G (unbind_player pid G) \<and> session_of (unbind_player pid G) pid = session_of G pid \<and>
     g_lease (unbind_player pid G) = g_lease G \<and> g_repository (unbind_player pid G) = g_repository G \<and>
     \<not> bound_here (unbind_player pid G) pid"
proof -
  obtain self where self: "nd_self (gi_node (g_ipc G)) = Some self" using assms by (auto simp: ipc_ok_def)
  have inv: "players_inv (g_ipc G)" using assms by (simp add: ipc_ok_def)
  obtain r i where i: "UnbindLocalPlayer pid (g_ipc G) = (r, i)" by (cases "UnbindLocalPlayer pid (g_ipc G)")
  have G': "unbind_player pid G = G\<lparr>g_ipc := i\<rparr>" by (simp add: unbind_player_def call_ipc_def i)
  show ?thesis
  proof (cases "player_host_IsBound (mPlayerReceiverHost (g_ipc G)) pid")
    case True
    then show ?thesis
      using UnbindLocalPlayer_bound [OF inv self True i]
      by (auto simp: frame_def ipc_ok_def view_def session_of_def bound_here_def G')
  next
    case False
    then show ?thesis
      using UnbindLocalPlayer_unbound [of "g_ipc G" pid] i inv
      by (auto simp: frame_def ipc_ok_def view_def session_of_def bound_here_def G')
  qed
qed

lemma ensure_runtime_view [player_frame]:
  assumes "ensure_runtime pid G = (r, G')"
  shows "frame pid G G' \<and> session_of G' pid = session_of G pid \<and> g_lease G' = g_lease G \<and>
     g_repository G' = g_repository G \<and> g_ipc G' = g_ipc G \<and>
     (ok r \<longrightarrow> rt_tracked (g_runtime G') pid \<and> repo_loaded (g_repository G') pid)"
  using assms
  by (auto simp: ensure_runtime_def EnsurePlayer_def frame_def ipc_ok_def view_def session_of_def bound_here_def rt_tracked_def
      split: prod.splits if_splits option.splits)

lemma release_record_view [player_frame]:
  "frame pid G (release_record pid G) \<and> session_of (release_record pid G) pid = session_of G pid \<and>
     g_lease (release_record pid G) = g_lease G \<and> g_ipc (release_record pid G) = g_ipc G"
  by (auto simp: release_record_def repo_ReleasePlayer_def frame_def ipc_ok_def view_def session_of_def bound_here_def
      repo_loaded_def repo_Snapshot_def split: option.splits)

lemma set_session_view [player_frame]:
  "frame pid G (set_session pid s G) \<and> session_of (set_session pid s G) pid = Some s \<and>
     g_lease (set_session pid s G) = g_lease G \<and> g_repository (set_session pid s G) = g_repository G \<and>
     g_runtime (set_session pid s G) = g_runtime G \<and> g_ipc (set_session pid s G) = g_ipc G"
  by (auto simp: set_session_def frame_def ipc_ok_def view_def session_of_def bound_here_def distinct_update)

lemma ipc_ok_frame: "frame pid G G' \<Longrightarrow> ipc_ok G \<Longrightarrow> ipc_ok G'"
  by (simp add: frame_def)

section \<open>Activation\<close>

definition online_with :: "game \<Rightarrow> u64 \<Rightarrow> GateRef \<Rightarrow> bool" where
  "online_with G pid gate \<longleftrightarrow> (case view G pid of
      (Some rec, held, ld, running, bound) \<Rightarrow> ss_state rec = st_online \<and> ss_gate rec = gate \<and> held \<and> ld \<and> running \<and> bound
    | _ \<Rightarrow> False)"

lemma online_ready: "online_with G pid gate \<Longrightarrow> ready_view (view G pid)"
  by (auto simp: online_with_def ready_view_def split: prod.splits option.splits)

text \<open>What a continuation of \<^verbatim>\<open>ActivatePlayer\<close> that runs with the lease held must achieve.\<close>

definition activation_spec :: "u64 \<Rightarrow> GateRef \<Rightarrow> game \<Rightarrow> result \<Rightarrow> game \<Rightarrow> bool" where
  "activation_spec pid gate G r G' \<longleftrightarrow> frame pid G G' \<and> (ok r \<longrightarrow> online_with G' pid gate) \<and>
     (\<not> ok r \<longrightarrow> \<not> IsHeldLocally (g_lease G') pid \<and> session_of G' pid = session_of G pid)"

lemma go_online_sel [simp]: "ss_state (go_online gate now s) = st_online" "ss_gate (go_online gate now s) = gate"
  by (simp_all add: go_online_def bind_gate_def)

lemma release_lease_end:
  assumes "release_lease E pid (G1, w) = (G', w')" and "frame pid G G1" and "session_of G1 pid = session_of G pid"
  shows "frame pid G G' \<and> \<not> IsHeldLocally (g_lease G') pid \<and> session_of G' pid = session_of G pid \<and>
     g_ipc G' = g_ipc G1 \<and> g_repository G' = g_repository G1"
  using release_lease_view [OF assms(1), of pid] release_lease_frame [OF assms(1)] assms(2,3) frame_trans
  by (auto simp: view_def split: prod.splits)

lemma start_session_spec:
  assumes "ipc_ok G" and "IsHeldLocally (g_lease G) pid" and "start_session E pid gate allow (G, w) = (r, G', w')"
  shows "activation_spec pid gate G r G'"
proof -
  obtain load G1 w1 where l: "call_repository (LoadPlayer (ge_env E) (ge_codec E) pid allow) (G, w) = (load, G1, w1)"
    by (cases "call_repository (LoadPlayer (ge_env E) (ge_codec E) pid allow) (G, w)")
  note l' = call_load_view [OF l]
  obtain bound G2 where b: "call_ipc (BindLocalPlayer pid) G1 = (bound, G2)" by (cases "call_ipc (BindLocalPlayer pid) G1")
  have ok1: "ipc_ok G1" using l' assms(1) ipc_ok_frame by blast
  note b' = call_bind_view [OF ok1 b]
  obtain ens G3 where e: "ensure_runtime pid G2 = (ens, G3)" by (cases "ensure_runtime pid G2")
  note e' = ensure_runtime_view [OF e]
  have f2: "frame pid G G2" and f3: "frame pid G G3" using l' b' e' frame_trans by blast+
  have s: "session_of G1 pid = session_of G pid" "session_of G2 pid = session_of G pid" "session_of G3 pid = session_of G pid"
    using l' b' e' by auto
  have held: "IsHeldLocally (g_lease G3) pid" using l' b' e' assms(2) by simp
  consider (load) "\<not> ok load" | (bind) "ok load" "bind_failed bound" | (ens) "ok load" "\<not> bind_failed bound" "\<not> ok ens"
    | (ok) "ok load" "\<not> bind_failed bound" "ok ens" by blast
  then show ?thesis
  proof cases
    case load
    then have r: "r = load" "release_lease E pid (G1, w1) = (G', w')" using assms(3) l by (auto simp: start_session_def)
    show ?thesis using release_lease_end [OF r(2) _ s(1)] l' load r(1) by (simp add: activation_spec_def)
  next
    case bind
    obtain G4 w4 where k: "release_lease E pid (G2, w1) = (G4, w4)" by (cases "release_lease E pid (G2, w1)")
    have r: "r = bound" "G' = release_record pid G4" using assms(3) l b k bind by (auto simp: start_session_def)
    show ?thesis
      using release_lease_end [OF k f2 s(2)] release_record_view [of pid G4] bind frame_trans
      by (auto simp: activation_spec_def r bind_failed_def)
  next
    case ens
    obtain G4 w4 where k: "release_lease E pid (G3, w1) = (G4, w4)" by (cases "release_lease E pid (G3, w1)")
    have r: "r = ens" "G' = release_record pid (unbind_player pid G4)"
      using assms(3) l b e k ens by (auto simp: start_session_def)
    note k' = release_lease_end [OF k f3 s(3)]
    have "ipc_ok G4" using k' assms(1) ipc_ok_frame by blast
    from k' unbind_player_view [OF this, of pid] release_record_view [of pid "unbind_player pid G4"] ens frame_trans
    show ?thesis unfolding activation_spec_def r by metis
  next
    case ok
    obtain now w2 where n: "NowMs (ge_env E) w1 = (now, w2)" by (cases "NowMs (ge_env E) w1")
    have r: "r = Success" "G' = set_session pid (go_online gate now
        (case session_of G3 pid of None \<Rightarrow> default_session | Some r \<Rightarrow> r)) G3"
      using assms(3) l b e n ok by (auto simp: start_session_def)
    show ?thesis
      using set_session_view [of pid G3] f3 frame_trans ok e' b' held
      by (auto simp: activation_spec_def online_with_def view_def bound_here_def r)
  qed
qed

lemma recover_session_spec:
  assumes "ipc_ok G" and "IsHeldLocally (g_lease G) pid" and "recover_session E pid gate allow (G, w) = (r, G', w')"
  shows "activation_spec pid gate G r G'"
proof -
  obtain load G1 w1 where l: "(if repo_Snapshot (g_repository G) pid = None
      then call_repository (LoadPlayer (ge_env E) (ge_codec E) pid allow) (G, w) else (Success, G, w)) = (load, G1, w1)"
    by (metis prod_cases3)
  have l': "frame pid G G1 \<and> session_of G1 pid = session_of G pid \<and> g_lease G1 = g_lease G \<and> g_ipc G1 = g_ipc G"
    using l call_load_view [of "ge_env E" "ge_codec E" pid allow G w load G1 w1] by (auto split: if_splits)
  obtain bound G2 where b: "call_ipc (BindLocalPlayer pid) G1 = (bound, G2)" by (cases "call_ipc (BindLocalPlayer pid) G1")
  have ok1: "ipc_ok G1" using l' assms(1) ipc_ok_frame by blast
  note b' = call_bind_view [OF ok1 b]
  obtain ens G3 where e: "ensure_runtime pid G2 = (ens, G3)" by (cases "ensure_runtime pid G2")
  note e' = ensure_runtime_view [OF e]
  have f2: "frame pid G G2" and f3: "frame pid G G3" using l' b' e' frame_trans by blast+
  have s: "session_of G1 pid = session_of G pid" "session_of G2 pid = session_of G pid" "session_of G3 pid = session_of G pid"
    using l' b' e' by auto
  have held: "IsHeldLocally (g_lease G3) pid" using l' b' e' assms(2) by simp
  note run = assms(3) [unfolded recover_session_def fst_conv l Let_def prod.case b e]
  consider (load) "\<not> ok load" | (bind) "ok load" "bind_failed bound" | (ens) "ok load" "\<not> bind_failed bound" "\<not> ok ens"
    | (gone) "ok load" "\<not> bind_failed bound" "ok ens"
        "case session_of G3 pid of None \<Rightarrow> True | Some rec \<Rightarrow> ss_state rec = st_loading \<or> ss_state rec = st_unloading"
    | (ok) rec where "ok load" "\<not> bind_failed bound" "ok ens" "session_of G3 pid = Some rec"
        "\<not> (ss_state rec = st_loading \<or> ss_state rec = st_unloading)"
    by (cases "session_of G3 pid") auto
  then show ?thesis
  proof cases
    case load
    then have r: "r = load" "release_lease E pid (G1, w1) = (G', w')" using run by auto
    show ?thesis using release_lease_end [OF r(2) _ s(1)] l' load r(1) by (simp add: activation_spec_def)
  next
    case bind
    then have r: "r = bound" "release_lease E pid (G2, w1) = (G', w')" using run by auto
    show ?thesis using release_lease_end [OF r(2) f2 s(2)] bind r(1) by (simp add: activation_spec_def bind_failed_def)
  next
    case ens
    obtain G4 w4 where k: "release_lease E pid (G3, w1) = (G4, w4)" by (cases "release_lease E pid (G3, w1)")
    have r: "r = ens" "G' = unbind_player pid G4" using run k ens by auto
    note k' = release_lease_end [OF k f3 s(3)]
    have "ipc_ok G4" using k' assms(1) ipc_ok_frame by blast
    from k' unbind_player_view [OF this, of pid] ens frame_trans show ?thesis unfolding activation_spec_def r by metis
  next
    case gone
    then have r: "\<not> ok r" "release_lease E pid (G3, w1) = (G', w')"
      using run by (auto simp: transitioning_def split: option.splits)
    show ?thesis using release_lease_end [OF r(2) f3 s(3)] r(1) by (simp add: activation_spec_def)
  next
    case ok
    obtain now w2 where n: "NowMs (ge_env E) w1 = (now, w2)" by (cases "NowMs (ge_env E) w1")
    have r: "r = Success" "G' = set_session pid (go_online gate now rec) G3" using run n ok by auto
    show ?thesis
      using set_session_view [of pid G3] f3 frame_trans ok e' b' held
      by (auto simp: activation_spec_def online_with_def view_def bound_here_def r)
  qed
qed

lemma acquire_view:
  assumes "call_lease (lease_Acquire E pid) (G, w) = (r, G', w')"
  shows "frame pid G G' \<and> session_of G' pid = session_of G pid \<and> g_ipc G' = g_ipc G \<and> g_repository G' = g_repository G \<and>
     g_runtime G' = g_runtime G \<and> (ok r \<longrightarrow> IsHeldLocally (g_lease G') pid) \<and> (\<not> ok r \<longrightarrow> G' = G)"
  using assms lease_Acquire_held [of E pid "g_lease G" w] Acquire_refused [of E pid "g_lease G" w]
  by (auto simp: call_lease_def frame_def ipc_ok_def view_def session_of_def bound_here_def split: prod.splits)

lemma acquire_then_spec:
  assumes "ipc_ok G" and "acquire_then E pid continue (G, w) = (r, G', w')"
    and "\<And>G1 w1. ipc_ok G1 \<Longrightarrow> IsHeldLocally (g_lease G1) pid \<Longrightarrow> continue (G1, w1) = (r, G', w') \<Longrightarrow> activation_spec pid gate G1 r G'"
  shows "activation_spec pid gate G r G' \<or> \<not> ok r \<and> G' = G"
proof -
  obtain q G1 w1 where a: "call_lease (lease_Acquire (ge_env E) pid) (G, w) = (q, G1, w1)"
    by (cases "call_lease (lease_Acquire (ge_env E) pid) (G, w)")
  note a' = acquire_view [OF a]
  show ?thesis
  proof (cases "ok q")
    case True
    then have "continue (G1, w1) = (r, G', w')" using assms(2) a by (simp add: acquire_then_def)
    moreover have "ipc_ok G1" using a' assms(1) ipc_ok_frame by blast
    ultimately show ?thesis using assms(3) [of G1 w1] a' True frame_trans unfolding activation_spec_def by metis
  qed (use assms(2) a a' in \<open>auto simp: acquire_then_def\<close>)
qed

text \<open>
  A successful activation leaves the player online for that gate session, with lease, data, runtime and
  binding in place; a failed one changes no session and keeps no lease it took.
\<close>

lemma ActivatePlayer_spec:
  assumes "session_inv G" and "ActivatePlayer E pid gate allow (G, w) = (r, G', w')"
  shows "activation_spec pid gate G r G' \<or> \<not> ok r \<and> G' = G"
proof -
  have ipc: "ipc_ok G" and rv: "ready_view (view G pid)" using assms(1) by (auto simp: session_inv_def)
  show ?thesis
  proof (cases "dependencies G")
    case False
    then show ?thesis using assms(2) by (auto simp: ActivatePlayer_def)
  next
    case deps: True
    show ?thesis
    proof (cases "session_of G pid")
      case None
      then have "acquire_then E pid (start_session E pid gate allow) (G, w) = (r, G', w')"
        using assms(2) deps by (simp add: ActivatePlayer_def)
      then show ?thesis by (rule acquire_then_spec [OF ipc]) (rule start_session_spec)
    next
      case (Some rec)
      consider (lost) "ss_state rec = st_online \<or> ss_state rec = st_detached" "\<not> IsHeldLocally (g_lease G) pid"
        | (here) "ss_state rec = st_online \<or> ss_state rec = st_detached" "IsHeldLocally (g_lease G) pid"
        | (trans) "\<not> (ss_state rec = st_online \<or> ss_state rec = st_detached)" by blast
      then show ?thesis
      proof cases
        case lost
        then have "acquire_then E pid (recover_session E pid gate allow) (G, w) = (r, G', w')"
          using assms(2) deps Some by (simp add: ActivatePlayer_def)
        then show ?thesis by (rule acquire_then_spec [OF ipc]) (rule recover_session_spec)
      next
        case here
        obtain now w1 where "NowMs (ge_env E) w = (now, w1)" by (cases "NowMs (ge_env E) w")
        then obtain rec' where r: "r = Success" "G' = set_session pid rec' G" "ss_state rec' = st_online" "ss_gate rec' = gate"
          using assms(2) deps Some here by (auto simp: ActivatePlayer_def bind_gate_def)
        have "repo_loaded (g_repository G) pid \<and> rt_tracked (g_runtime G) pid \<and> bound_here G pid"
          using rv here Some by (auto simp: ready_view_def view_def)
        then show ?thesis
          using set_session_view [of pid G rec'] r here by (auto simp: activation_spec_def online_with_def view_def bound_here_def)
      next
        case trans
        then show ?thesis using assms(2) deps Some by (auto simp: ActivatePlayer_def transitioning_def)
      qed
    qed
  qed
qed

lemma ready_not_held: "\<not> IsHeldLocally (g_lease G) pid \<Longrightarrow> ready_view (view G pid)"
  by (simp add: ready_view_def view_def split: option.splits)

lemma ActivatePlayer_inv:
  assumes "session_inv G" and "ActivatePlayer E pid gate allow (G, w) = (r, G', w')"
  shows "session_inv G'"
proof -
  have "activation_spec pid gate G r G' \<Longrightarrow> session_inv G'"
    using session_inv_frame [OF assms(1)] online_ready ready_not_held unfolding activation_spec_def by metis
  then show ?thesis using ActivatePlayer_spec [OF assms] assms(1) by blast
qed

section \<open>Detaching\<close>

lemma DetachPlayer_cases:
  assumes "DetachPlayer E pid gate (G, w) = (r, G', w')"
  shows "ok r \<and> (\<exists>rec now. session_of G pid = Some rec \<and> ss_state rec = st_online \<and>
       (\<forall>g. gate = Some g \<longrightarrow> ss_gate rec = g) \<and> G' = set_session pid (go_detached (mDetachedTtlSeconds G) now rec) G) \<or>
     \<not> ok r \<and> G' = G"
  using assms by (auto simp: DetachPlayer_def split: option.splits if_splits prod.splits)

text \<open>A disconnect of an old gate session never detaches a player that has moved to another one.\<close>

lemma stale_detach_refused:
  assumes "session_of G pid = Some rec" and "ss_gate rec \<noteq> gate"
  shows "\<exists>why. DetachPlayer E pid (Some gate) (G, w) = (Failure why, G, w)"
  using assms by (auto simp: DetachPlayer_def)

lemma DetachPlayer_inv:
  assumes "session_inv G" and "DetachPlayer E pid gate (G, w) = (r, G', w')"
  shows "session_inv G'"
proof (cases "ok r")
  case True
  then obtain rec now where o1: "session_of G pid = Some rec" "ss_state rec = st_online"
    and G': "G' = set_session pid (go_detached (mDetachedTtlSeconds G) now rec) G"
    using DetachPlayer_cases [OF assms(2)] by blast
  have "ready_view (view G pid)" using assms(1) by (simp add: session_inv_def)
  then have "ready_view (view G' pid)"
    using o1 set_session_view [of pid G] by (auto simp: G' view_def ready_view_def bound_here_def)
  then show ?thesis using session_inv_frame [OF assms(1)] set_session_view [of pid G] G' by blast
qed (use DetachPlayer_cases [OF assms(2)] assms(1) in auto)

section \<open>Release\<close>

definition gone :: "game \<Rightarrow> u64 \<Rightarrow> bool" where
  "gone G pid \<longleftrightarrow> view G pid = (None, False, False, False, False)"

lemma gone_ready: "gone G pid \<Longrightarrow> ready_view (view G pid)"
  by (simp add: gone_def ready_view_def)

lemma RemovePlayer_view:
  "frame pid G (G\<lparr>g_runtime := snd (RemovePlayer pid (g_runtime G))\<rparr>) \<and>
     \<not> rt_tracked (snd (RemovePlayer pid (g_runtime G))) pid"
  by (auto simp: RemovePlayer_def frame_def ipc_ok_def view_def session_of_def bound_here_def rt_tracked_def split: option.splits)

lemma unload_player_spec:
  assumes "ipc_ok G" and "unload_player E pid (G, w) = (r, G', w')"
  shows "frame pid G G' \<and> (ok r \<longrightarrow> gone G' pid) \<and> (\<not> ok r \<longrightarrow> session_of G' pid = session_of G pid)"
proof -
  obtain unb i where i: "UnbindLocalPlayer pid (g_ipc G) = (unb, i)" by (cases "UnbindLocalPlayer pid (g_ipc G)")
  let ?G1 = "unbind_player pid G"
  have G1: "?G1 = G\<lparr>g_ipc := i\<rparr>" by (simp add: unbind_player_def call_ipc_def i)
  note u = unbind_player_view [OF assms(1), of pid]
  let ?G2 = "?G1\<lparr>g_runtime := snd (RemovePlayer pid (g_runtime ?G1))\<rparr>"
  note m = RemovePlayer_view [of pid ?G1]
  let ?G3 = "release_record pid ?G2"
  note rr = release_record_view [of pid ?G2]
  have f3: "frame pid G ?G3" using u m rr frame_trans by blast
  obtain G4 w4 where k: "release_lease E pid (?G3, w) = (G4, w4)" by (cases "release_lease E pid (?G3, w)")
  have s3: "session_of ?G3 pid = session_of G pid" using u rr by (simp add: session_of_def)
  note k' = release_lease_end [OF k f3 s3]
  let ?q = "fst (repo_ReleasePlayer pid (g_repository ?G2))"
  have run: "(r, G', w') = (if \<not> ok unb then (unb, ?G1, w) else if \<not> ok ?q then (?q, ?G3, w)
      else (Success, G4\<lparr>sessions := AList.delete pid (sessions G4)\<rparr>, w4))"
    using assms(2) k
    by (auto simp: unload_player_def call_ipc_def i G1 [symmetric] release_record_def case_prod_unfold Let_def split: if_splits)
  consider "\<not> ok unb" | "ok unb" "\<not> ok ?q" | (fin) "ok unb" "ok ?q" by blast
  then show ?thesis
  proof cases
    case fin
    let ?G5 = "G4\<lparr>sessions := AList.delete pid (sessions G4)\<rparr>"
    have G': "G' = ?G5" "r = Success" using run fin by auto
    have "\<not> repo_loaded (g_repository ?G3) pid"
      using fin(2) by (auto simp: release_record_def repo_ReleasePlayer_def repo_loaded_def repo_Snapshot_def split: option.splits)
    moreover have "\<not> rt_tracked (g_runtime G4) pid" "\<not> bound_here G4 pid"
      using m u release_lease_view [OF k, of pid]
      by (auto simp: view_def release_record_def bound_here_def)
    ultimately have "gone ?G5 pid" using k' by (simp add: gone_def view_def session_of_def bound_here_def)
    moreover have "frame pid G4 ?G5"
      by (auto simp: frame_def ipc_ok_def view_def session_of_def bound_here_def distinct_delete)
    ultimately show ?thesis using k' frame_trans G' by auto
  qed (use run u f3 s3 in auto)
qed

text \<open>
  Releasing a player that was changed writes it first. On success nothing of the player is left; when the
  write fails everything is as before.
\<close>

lemma set_session_twice: "session_of G pid = Some s \<Longrightarrow> set_session pid s (set_session pid t G) = G"
  by (simp add: set_session_def session_of_def update_triv)

lemma call_flush_view:
  assumes "call_repository (FlushPlayer E C pid) (G, w) = (r, G', w')"
  shows "frame pid G G' \<and> session_of G' pid = session_of G pid \<and> (\<not> ok r \<longrightarrow> G' = G)"
proof -
  have "repo_Snapshot R' q = repo_Snapshot R q" if "FlushPlayer E C pid (R, w) = (r, R', w')" "q \<noteq> pid" for R R' q
    using that by (auto simp: FlushPlayer_def with_loaded_def repo_Snapshot_def Let_def split: option.splits prod.splits if_splits)
  then show ?thesis
    using assms FlushPlayer_failed [of E C pid "g_repository G" w]
    by (auto simp: call_repository_def frame_def ipc_ok_def view_def session_of_def bound_here_def repo_loaded_def
        split: prod.splits)
qed

lemma ReleasePlayer_spec:
  assumes "session_inv G" and "ReleasePlayer E pid (G, w) = (r, G', w')"
  shows "frame pid G G' \<and> (ok r \<longrightarrow> gone G' pid) \<and>
     (\<not> ok r \<longrightarrow> G' = G \<or> (\<exists>rec. session_of G' pid = Some rec \<and> ss_state rec = st_unloading))"
proof (cases "dependencies G \<and> session_of G pid \<noteq> None")
  case False
  then show ?thesis using assms(2) by (auto simp: ReleasePlayer_def split: if_splits)
next
  case True
  then obtain prev where deps: "dependencies G" and prev: "session_of G pid = Some prev" by blast
  obtain now w1 where n: "NowMs (ge_env E) w = (now, w1)" by (cases "NowMs (ge_env E) w")
  let ?G1 = "set_session pid (prev\<lparr>ss_state := st_unloading, last_state_change_ms := now\<rparr>) G"
  note s1 = set_session_view [of pid G "prev\<lparr>ss_state := st_unloading, last_state_change_ms := now\<rparr>"]
  have ipc1: "ipc_ok ?G1" using assms(1) s1 ipc_ok_frame unfolding session_inv_def by blast
  note run = assms(2) [unfolded ReleasePlayer_def Let_def prod.case n]
  have unloaded: ?thesis
    if u: "unload_player E pid (G2, w2) = (r, G', w')" and f: "frame pid ?G1 G2" "session_of G2 pid = session_of ?G1 pid" for G2 w2
  proof -
    have "ipc_ok G2" using f ipc1 ipc_ok_frame by blast
    note u' = unload_player_spec [OF this u]
    have "frame pid G G'" using s1 f(1) u' frame_trans by blast
    then show ?thesis using u' f(2) s1 by simp
  qed
  obtain fl G2 w2 where fl: "call_repository (FlushPlayer (ge_env E) (ge_codec E) pid) (?G1, w1) = (fl, G2, w2)"
    by (cases "call_repository (FlushPlayer (ge_env E) (ge_codec E) pid) (?G1, w1)")
  note fl' = call_flush_view [OF fl]
  consider "\<not> is_dirty ?G1 pid" | "is_dirty ?G1 pid" "ok fl" | "is_dirty ?G1 pid" "\<not> ok fl" by blast
  then show ?thesis
  proof cases
    case 1
    then show ?thesis using run deps prev by (intro unloaded [of ?G1 w1]) auto
  next
    case 2
    then show ?thesis using run deps prev fl fl' by (intro unloaded [of G2 w2]) auto
  next
    case 3
    then have "G' = set_session pid prev G2" "\<not> ok r" using run deps prev fl by auto
    then show ?thesis using fl' 3 set_session_twice [OF prev] by simp
  qed
qed

lemma ReleasePlayer_inv:
  assumes "session_inv G" and "ReleasePlayer E pid (G, w) = (r, G', w')"
  shows "session_inv G'"
proof -
  note s = ReleasePlayer_spec [OF assms]
  have "ready_view (view G' pid)" if "session_of G' pid = Some rec" "ss_state rec = st_unloading" for rec
    using that by (simp add: ready_view_def view_def)
  then show ?thesis using s gone_ready session_inv_frame [OF assms(1)] assms(1) by metis
qed

text \<open>A failed write before the release changes nothing at all.\<close>

lemma ReleasePlayer_flush_failed:
  assumes "dependencies G" and "session_of G pid = Some prev" and "is_dirty G pid"
    and "NowMs (ge_env E) w = (now, w1)"
    and "FlushPlayer (ge_env E) (ge_codec E) pid (g_repository G, w1) = (fl, R, w2)" and "\<not> ok fl"
  shows "ReleasePlayer E pid (G, w) = (Failure (''player flush before release failed: '' @ message fl), G, w2)"
proof -
  have R: "R = g_repository G" by (rule FlushPlayer_failed [OF assms(5,6)])
  let ?G1 = "set_session pid (prev\<lparr>ss_state := st_unloading, last_state_change_ms := now\<rparr>) G"
  have "call_repository (FlushPlayer (ge_env E) (ge_codec E) pid) (?G1, w1) = (fl, ?G1, w2)"
    using assms(5) R by (simp add: call_repository_def set_session_def)
  moreover have "is_dirty ?G1 pid" using assms(3) by (simp add: is_dirty_def set_session_def)
  ultimately show ?thesis
    using assms(1,2,4,6) set_session_twice [OF assms(2)] by (simp add: ReleasePlayer_def)
qed

text \<open>
  C35. A tracked player without unwritten changes whose binding is gone cannot be released: the session is left
  in the state \<^verbatim>\<open>unloading\<close>, in which every activation is refused.
\<close>

lemma ReleasePlayer_stuck:
  assumes "dependencies G" and "session_of G pid = Some prev" and "\<not> is_dirty G pid" and "\<not> bound_here G pid"
    and "ReleasePlayer E pid (G, w) = (r, G', w')"
  shows "\<not> ok r \<and> (\<exists>rec. session_of G' pid = Some rec \<and> ss_state rec = st_unloading) \<and>
     ActivatePlayer E pid gate allow (G', w'') = (transitioning, G', w'')"
proof -
  obtain now w1 where n: "NowMs (ge_env E) w = (now, w1)" by (cases "NowMs (ge_env E) w")
  let ?G1 = "set_session pid (prev\<lparr>ss_state := st_unloading, last_state_change_ms := now\<rparr>) G"
  note s1 = set_session_view [of pid G "prev\<lparr>ss_state := st_unloading, last_state_change_ms := now\<rparr>"]
  have "\<not> is_dirty ?G1 pid" using assms(3) by (simp add: is_dirty_def set_session_def)
  then have u: "unload_player E pid (?G1, w1) = (r, G', w')" using assms(1,2,5) n by (simp add: ReleasePlayer_def)
  have nb: "\<not> player_host_IsBound (mPlayerReceiverHost (g_ipc ?G1)) pid" using assms(4) s1 by (simp add: bound_here_def)
  have r: "\<not> ok r" "G' = ?G1"
    using u UnbindLocalPlayer_unbound [OF nb] by (auto simp: unload_player_def call_ipc_def split: prod.splits if_splits)
  then have "session_of G' pid = Some (prev\<lparr>ss_state := st_unloading, last_state_change_ms := now\<rparr>)"
    and "dependencies G'" using s1 assms(1) by (auto simp: dependencies_def set_session_def)
  then show ?thesis using r(1) by (simp add: ActivatePlayer_def)
qed

section \<open>Expiry\<close>

lemma release_all_spec:
  assumes "session_inv G" and "release_all E pids n (G, w) = (m, G', w')"
  shows "session_inv G' \<and> (\<forall>q. q \<notin> set pids \<longrightarrow> view G' q = view G q)"
  using assms
proof (induction pids arbitrary: n G w)
  case (Cons pid pids)
  obtain r G1 w1 where r: "ReleasePlayer E pid (G, w) = (r, G1, w1)" by (cases "ReleasePlayer E pid (G, w)")
  have "release_all E pids (if ok r then n + 1 else n) (G1, w1) = (m, G', w')" using Cons.prems(2) r by simp
  from Cons.IH [OF ReleasePlayer_inv [OF Cons.prems(1) r] this] ReleasePlayer_spec [OF Cons.prems(1) r]
  show ?case by (auto simp: frame_def)
qed simp

text \<open>Only detached players whose deadline has passed are released.\<close>

lemma ExpireDetachedPlayers_spec:
  assumes "session_inv G" and "ExpireDetachedPlayers E (G, w) = (m, G', w')"
  shows "session_inv G' \<and>
     (\<forall>pid rec. session_of G pid = Some rec \<longrightarrow> \<not> expired (fst (NowMs (ge_env E) w)) rec \<longrightarrow> view G' pid = view G pid)"
proof -
  obtain now w1 where n: "NowMs (ge_env E) w = (now, w1)" by (cases "NowMs (ge_env E) w")
  let ?ps = "map fst (filter (\<lambda>(_, rec). expired now rec) (sessions G))"
  have run: "release_all E ?ps 0 (G, w1) = (m, G', w')" using assms(2) n by (simp add: ExpireDetachedPlayers_def)
  have "pid \<notin> set ?ps" if "session_of G pid = Some rec" "\<not> expired now rec" for pid rec
    using that assms(1) by (auto simp: session_inv_def session_of_def dest: map_of_is_SomeI)
  then show ?thesis using release_all_spec [OF assms(1) run] n by auto
qed

section \<open>Lost leases\<close>

text \<open>The notice to the gate changes no player; the dispatcher has no handler for it in this process.\<close>

lemma notify_gate_view:
  assumes "quiet_for (ge_handler E) (TypeUrlFor (unbind_request E pid (ss_gate action)))"
    and "notify_gate E pid action (G, w) = (G', w')"
  shows "(ipc_ok G \<longrightarrow> ipc_ok G') \<and> view G' q = view G q \<and> sessions G' = sessions G \<and> g_lease G' = g_lease G \<and>
     mDetachedTtlSeconds G' = mDetachedTtlSeconds G"
proof -
  obtain i where G': "G' = G\<lparr>g_ipc := i\<rparr>" and b: "same_bindings (g_ipc G) i"
  proof (cases "ss_state action = st_online \<and> gate_service_type (ss_gate action) \<noteq> 0 \<and>
      gate_instance_id (ss_gate action) \<noteq> 0 \<and> gate_session_id (ss_gate action) \<noteq> 0")
    case True
    obtain r i v where i: "SendProcessPayload (ge_node E) (ge_wire E) (ge_handler E)
        (mk_process_id (gate_service_type (ss_gate action)) (gate_instance_id (ss_gate action)))
        (unbind_request E pid (ss_gate action)) (g_ipc G, w) = (r, i, v)" by (metis prod_cases3)
    have "G' = G\<lparr>g_ipc := i\<rparr>" using assms(2) True i by (simp add: notify_gate_def)
    then show ?thesis using SendProcessPayload_bindings [OF assms(1) i] that by blast
  next
    case False
    then have "G' = G\<lparr>g_ipc := g_ipc G\<rparr>" using assms(2) by (auto simp: notify_gate_def Let_def)
    then show ?thesis using that same_bindings_refl by blast
  qed
  then show ?thesis
    by (simp add: ipc_ok_def view_def session_of_def bound_here_def same_bindings_inv) (simp add: same_bindings_def)
qed

definition unbind_url :: string where
  "unbind_url = ''type.googleapis.com/pb.ipc.UnbindPlayerSession''"

lemma unbind_request_url: "TypeUrlFor (unbind_request E pid gate) = unbind_url"
  by (simp add: TypeUrlFor_def unbind_request_def unbind_url_def)

lemma go_detached_sel [simp]: "ss_state (go_detached ttl now s) = st_detached" "ss_gate (go_detached ttl now s) = no_gate"
  by (simp_all add: go_detached_def)

text \<open>One lost player: no longer online and no longer bound, every other player as before.\<close>

lemma reconcile_player_spec:
  assumes "quiet_for (ge_handler E) unbind_url" and "ipc_ok G" and "\<not> IsHeldLocally (g_lease G) pid"
    and "reconcile_player E now (pid, record) (n, G, w) = (m, G', w')"
  shows "frame pid G G' \<and> g_lease G' = g_lease G \<and> \<not> bound_here G' pid \<and>
     (\<forall>rec. session_of G' pid = Some rec \<longrightarrow> ss_state rec \<noteq> st_online) \<and>
     (session_of G pid = None \<longrightarrow> session_of G' pid = None)"
proof -
  obtain G1 w1 where n1: "notify_gate E pid record (G, w) = (G1, w1)" by (cases "notify_gate E pid record (G, w)")
  have v1: "(ipc_ok G \<longrightarrow> ipc_ok G1) \<and> view G1 q = view G q \<and> sessions G1 = sessions G \<and> g_lease G1 = g_lease G" for q
    using notify_gate_view [OF _ n1] assms(1) unbind_request_url by metis
  have f1: "frame pid G G1" using v1 by (simp add: frame_def)
  have ok1: "ipc_ok G1" using v1 assms(2) by blast
  let ?G2 = "unbind_player pid G1"
  note u = unbind_player_view [OF ok1, of pid]
  have f2: "frame pid G ?G2" using f1 u frame_trans by blast
  have s2: "session_of ?G2 pid = session_of G pid" using u v1 by (simp add: session_of_def)
  have l2: "g_lease ?G2 = g_lease G" using u v1 by simp
  note run = assms(4) [unfolded reconcile_player_def recheck_player_def Let_def prod.case n1]
  show ?thesis
  proof (cases "session_of G pid")
    case None
    then show ?thesis using run s2 f2 l2 u by auto
  next
    case (Some rec)
    then have G': "G' = ?G2 \<and> ss_state rec \<noteq> st_online \<or>
        G' = set_session pid (go_detached (mDetachedTtlSeconds ?G2) now rec) ?G2"
      using run s2 l2 assms(3) by (auto split: if_splits)
    note sv = set_session_view [of pid ?G2 "go_detached (mDetachedTtlSeconds ?G2) now rec"]
    from G' show ?thesis
    proof
      assume "G' = ?G2 \<and> ss_state rec \<noteq> st_online"
      then show ?thesis using f2 l2 u s2 Some by auto
    next
      assume g: "G' = set_session pid (go_detached (mDetachedTtlSeconds ?G2) now rec) ?G2"
      have "frame pid G G'" using f2 sv frame_trans g by blast
      moreover have "bound_here G' pid = bound_here ?G2 pid" using sv g by (simp add: bound_here_def)
      ultimately show ?thesis using sv g l2 u Some by auto
    qed
  qed
qed

definition offline_here :: "game \<Rightarrow> u64 \<Rightarrow> bool" where
  "offline_here G pid \<longleftrightarrow> \<not> bound_here G pid \<and> (\<forall>rec. session_of G pid = Some rec \<longrightarrow> ss_state rec \<noteq> st_online)"

lemma offline_here_view: "view G' pid = view G pid \<Longrightarrow> offline_here G' pid = offline_here G pid"
  by (simp add: offline_here_def view_def)

lemma reconcile_all_spec:
  assumes "quiet_for (ge_handler E) unbind_url" and "session_inv G"
    and "\<forall>ps \<in> set lost. \<not> IsHeldLocally (g_lease G) (fst ps)"
    and "fold (reconcile_player E now) lost (n, G, w) = (m, G', w')"
  shows "session_inv G' \<and> g_lease G' = g_lease G \<and> (\<forall>q. q \<notin> fst ` set lost \<longrightarrow> view G' q = view G q) \<and>
     (\<forall>q \<in> fst ` set lost. offline_here G' q)"
  using assms(2-4)
proof (induction lost arbitrary: n G w)
  case (Cons ps lost)
  obtain pid seen where ps: "ps = (pid, seen)" by (cases ps)
  obtain k G1 w1 where r: "reconcile_player E now (pid, seen) (n, G, w) = (k, G1, w1)"
    by (cases "reconcile_player E now (pid, seen) (n, G, w)")
  have held: "\<not> IsHeldLocally (g_lease G) pid" using Cons.prems(2) ps by simp
  have ipc: "ipc_ok G" using Cons.prems(1) by (simp add: session_inv_def)
  note spec = reconcile_player_spec [OF assms(1) ipc held r]
  have "\<not> IsHeldLocally (g_lease G1) pid" using spec held by simp
  then have inv1: "session_inv G1" using session_inv_frame [OF Cons.prems(1)] spec ready_not_held by blast
  have "fold (reconcile_player E now) lost (k, G1, w1) = (m, G', w')" using Cons.prems(3) ps r by simp
  note IH = Cons.IH [OF inv1 _ this]
  have all: "\<forall>ps \<in> set lost. \<not> IsHeldLocally (g_lease G1) (fst ps)" using Cons.prems(2) spec by simp
  have "offline_here G' pid" if "pid \<notin> fst ` set lost"
    using IH [OF all] that spec offline_here_view [of G' pid G1] by (simp add: offline_here_def)
  then have "\<forall>q \<in> fst ` set (ps # lost). offline_here G' q"
    using IH [OF all] ps by (cases "pid \<in> fst ` set lost") auto
  moreover have "view G' q = view G q" if "q \<notin> fst ` set (ps # lost)" for q
    using IH [OF all] that spec ps by (auto simp: frame_def)
  ultimately show ?case using IH [OF all] spec by simp
qed simp

text \<open>
  After a reconcile pass a player is online only with its lease; the players that kept their lease are as before.
\<close>

lemma ReconcileLeaseLosses_spec:
  assumes "quiet_for (ge_handler E) unbind_url" and "session_inv G"
    and "ReconcileLeaseLosses E (G, w) = (m, G', w')"
  shows "session_inv G' \<and> (\<forall>pid. IsHeldLocally (g_lease G) pid \<longrightarrow> view G' pid = view G pid) \<and>
     (\<forall>pid rec. session_of G' pid = Some rec \<longrightarrow> ss_state rec = st_online \<longrightarrow> IsHeldLocally (g_lease G') pid) \<and>
     (\<forall>ps \<in> set (sessions G). lost_player G ps \<longrightarrow> offline_here G' (fst ps))"
proof -
  obtain now w1 where n: "NowMs (ge_env E) w = (now, w1)" by (cases "NowMs (ge_env E) w")
  let ?lost = "filter (lost_player G) (sessions G)"
  have run: "fold (reconcile_player E now) ?lost (0, G, w1) = (m, G', w')"
    using assms(2,3) n by (simp add: ReconcileLeaseLosses_def lost_players_def session_inv_def ipc_ok_def dependencies_def)
  have unheld: "\<forall>ps \<in> set ?lost. \<not> IsHeldLocally (g_lease G) (fst ps)" by (auto simp: lost_player_def)
  note spec = reconcile_all_spec [OF assms(1,2) unheld run]
  have "IsHeldLocally (g_lease G') pid" if o1: "session_of G' pid = Some rec" "ss_state rec = st_online" for pid rec
  proof (rule ccontr)
    assume nh: "\<not> ?thesis"
    have "pid \<notin> fst ` set ?lost" using spec o1 by (auto simp: offline_here_def)
    then have "session_of G pid = Some rec" using spec o1(1) by (auto simp: view_def)
    then have "(pid, rec) \<in> set ?lost" using o1(2) nh spec by (auto simp: lost_player_def session_of_def dest: map_of_SomeD)
    with \<open>pid \<notin> fst ` set ?lost\<close> show False by (metis fst_conv image_eqI)
  qed
  moreover have "view G' pid = view G pid" if "IsHeldLocally (g_lease G) pid" for pid
  proof -
    have "pid \<notin> fst ` set ?lost" using unheld that by (auto simp del: set_filter)
    then show ?thesis using spec by blast
  qed
  moreover have "\<forall>ps \<in> set (sessions G). lost_player G ps \<longrightarrow> offline_here G' (fst ps)" using spec by auto
  ultimately show ?thesis using spec by blast
qed

section \<open>One call after another\<close>

text \<open>
  The calls a game process makes on its session service, each without interruption, and what happens
  besides: the lease service loses leases, the persistence service flushes, handlers change data, and the
  clock and the servers move on. Calls that run into each other are in \<^verbatim>\<open>Session_Threads\<close>.
\<close>

inductive game_step :: "'w game_env \<Rightarrow> game \<times> 'w \<Rightarrow> game \<times> 'w \<Rightarrow> bool" for E where
  activate: "ActivatePlayer E pid gate allow (G, w) = (r, G', w') \<Longrightarrow> game_step E (G, w) (G', w')"
| detach: "DetachPlayer E pid gate (G, w) = (r, G', w') \<Longrightarrow> game_step E (G, w) (G', w')"
| release: "ReleasePlayer E pid (G, w) = (r, G', w') \<Longrightarrow> game_step E (G, w) (G', w')"
| expire: "ExpireDetachedPlayers E (G, w) = (n, G', w') \<Longrightarrow> game_step E (G, w) (G', w')"
| reconcile: "ReconcileLeaseLosses E (G, w) = (n, G', w') \<Longrightarrow> game_step E (G, w) (G', w')"
| renew: "RenewPass (ge_env E) (g_lease G, w) = (L, w') \<Longrightarrow> game_step E (G, w) (G\<lparr>g_lease := L\<rparr>, w')"
| flush: "FlushPlayer (ge_env E) (ge_codec E) pid (g_repository G, w) = (r, R, w') \<Longrightarrow>
    game_step E (G, w) (G\<lparr>g_repository := R\<rparr>, w')"
| touch: "TouchLogin (ge_env E) pid (g_repository G, w) = (r, R, w') \<Longrightarrow> game_step E (G, w) (G\<lparr>g_repository := R\<rparr>, w')"
| rename: "rt_HandleRename (ge_env E) pid name (g_runtime G, g_repository G, w) = (r, T, R, w') \<Longrightarrow>
    game_step E (G, w) (G\<lparr>g_runtime := T, g_repository := R\<rparr>, w')"
| echo: "rt_HandleEcho (g_repository G) pid said (g_runtime G) = (r, T) \<Longrightarrow> game_step E (G, w) (G\<lparr>g_runtime := T\<rparr>, w)"
| outside: "game_step E (G, w) (G, w')"

lemma drop_lost_held: "IsHeldLocally (drop_lost lost L) pid \<Longrightarrow> IsHeldLocally L pid"
  by (auto simp: IsHeldLocally_def drop_lost_leases split: if_splits)

text \<open>A change outside the sessions that keeps what is loaded and running, and loses leases at most.\<close>

lemma session_inv_quiet:
  assumes "session_inv G" and "sessions G' = sessions G" and "g_ipc G' = g_ipc G"
    and "\<And>pid. IsHeldLocally (g_lease G') pid \<Longrightarrow> IsHeldLocally (g_lease G) pid"
    and "dependencies G' = dependencies G"
    and "\<And>pid. repo_loaded (g_repository G) pid \<Longrightarrow> repo_loaded (g_repository G') pid"
    and "\<And>pid. rt_tracked (g_runtime G) pid \<Longrightarrow> rt_tracked (g_runtime G') pid"
  shows "session_inv G'"
proof -
  have "ready_view (view G pid) \<Longrightarrow> ready_view (view G' pid)" for pid
    using assms(2-7) by (auto simp: ready_view_def view_def session_of_def bound_here_def split: option.splits)
  then show ?thesis using assms(1-3,5) by (simp add: session_inv_def ipc_ok_def)
qed

lemma repository_loaded_kept:
  "FlushPlayer E C pid (R, w) = (r, R', w') \<Longrightarrow> repo_loaded R q \<Longrightarrow> repo_loaded R' q"
  "TouchLogin E pid (R, w) = (r, R', w') \<Longrightarrow> repo_loaded R q \<Longrightarrow> repo_loaded R' q"
  "SetDisplayName E pid name (R, w) = (r, R', w') \<Longrightarrow> repo_loaded R q \<Longrightarrow> repo_loaded R' q"
  by (auto simp: FlushPlayer_def TouchLogin_def SetDisplayName_def with_loaded_def repo_loaded_def Let_def
      split: option.splits prod.splits if_splits)

lemma count_command_tracked: "rt_tracked T q \<Longrightarrow> rt_tracked (count_command pid i T) q"
  by (auto simp: rt_tracked_def count_command_def)

lemma renew_each_leases: "renew_each E ls (L, w) = (lost, L', w') \<Longrightarrow> mLeases L' = mLeases L"
  by (induction ls arbitrary: L w lost) (auto split: prod.splits)

lemma RenewPass_held: "RenewPass E (L, w) = (L', w') \<Longrightarrow> IsHeldLocally L' pid \<Longrightarrow> IsHeldLocally L pid"
  by (auto simp: RenewPass_def set_tracked_def Let_def IsHeldLocally_def drop_lost_leases dest!: renew_each_leases
      split: prod.splits if_splits)

lemma game_step_inv:
  assumes "game_step E s s'" and "quiet_for (ge_handler E) unbind_url" and "session_inv (fst s)"
  shows "session_inv (fst s')"
  using assms
proof (induction rule: game_step.induct)
  case (activate pid gate allow G w r G' w')
  then show ?case using ActivatePlayer_inv by fastforce
next
  case (detach pid gate G w r G' w')
  then show ?case using DetachPlayer_inv by fastforce
next
  case (release pid G w r G' w')
  then show ?case using ReleasePlayer_inv by fastforce
next
  case (expire G w n G' w')
  then show ?case using ExpireDetachedPlayers_spec by fastforce
next
  case (reconcile G w n G' w')
  then show ?case using ReconcileLeaseLosses_spec by fastforce
next
  case (renew G w L w')
  then show ?case by (auto intro!: session_inv_quiet [of G] dest: RenewPass_held)
next
  case (flush pid G w r R w')
  then show ?case by (auto intro!: session_inv_quiet [of G] dest: repository_loaded_kept)
next
  case (touch pid G w r R w')
  then show ?case by (auto intro!: session_inv_quiet [of G] dest: repository_loaded_kept)
next
  case (rename pid name G w r T R w')
  then have "(repo_loaded (g_repository G) q \<longrightarrow> repo_loaded R q) \<and> (rt_tracked (g_runtime G) q \<longrightarrow> rt_tracked T q)" for q
    by (auto simp: rt_HandleRename_def count_command_tracked Let_def dest: repository_loaded_kept(3)
        split: option.splits if_splits prod.splits)
  then show ?case using rename by (auto intro!: session_inv_quiet [of G])
next
  case (echo G pid x r T w)
  then have "rt_tracked (g_runtime G) q \<longrightarrow> rt_tracked T q" for q
    by (auto simp: rt_HandleEcho_def count_command_tracked split: option.splits if_splits)
  then show ?case using echo by (auto intro!: session_inv_quiet [of G])
qed simp

end
