(* ===== verification/Player_Persistence.thy ===== *)
theory Player_Persistence
  imports Player_Session
begin

text \<open>
  \<^verbatim>\<open>PlayerPersistenceService\<close> (src/src/game/services/player_persistence_service.cpp): the background
  writer. One pass walks the loaded players, decides for each whether a write is due, and keeps a retry state
  per player that backs off after failures. The loop is this pass once a second.
\<close>

section \<open>State\<close>

record RetryState =
  consecutive_failure_count :: u64
  next_retry_ms :: u64
  last_failure_ms :: u64
  retry_last_error :: string

definition default_RetryState :: RetryState where
  "default_RetryState = \<lparr>consecutive_failure_count = 0, next_retry_ms = 0, last_failure_ms = 0, retry_last_error = []\<rparr>"

record PlayerPersistenceSnapshot =
  pp_running :: bool
  scan_count :: u64
  pp_tracked_player_count :: u64
  pending_initial_persist_count :: u64
  created_without_maria_count :: u64
  flush_attempt_count :: u64
  flush_success_count :: u64
  flush_failure_count :: u64
  last_scan_ms :: u64
  last_flush_player_id :: u64
  pp_last_flush_ms :: u64
  pp_last_error :: string

record PlayerPersistenceService =
  pp_configuration :: ResolvedStorageConfiguration
  has_session :: bool
  pp_mSnapshot :: PlayerPersistenceSnapshot
  mRetryStates :: "(u64 \<times> RetryState) list"

definition on_snapshot :: "(PlayerPersistenceSnapshot \<Rightarrow> PlayerPersistenceSnapshot) \<Rightarrow> PlayerPersistenceService \<Rightarrow> PlayerPersistenceService" where
  "on_snapshot f P = P\<lparr>pp_mSnapshot := f (pp_mSnapshot P)\<rparr>"

lemma on_snapshot_sel [simp]:
  "pp_configuration (on_snapshot f P) = pp_configuration P" "mRetryStates (on_snapshot f P) = mRetryStates P"
  "has_session (on_snapshot f P) = has_session P"
  by (simp_all add: on_snapshot_def)

section \<open>Backoff\<close>

definition kMaxBackoffMultiplier :: u64 where "kMaxBackoffMultiplier = 8"

text \<open>The loop that doubles the multiplier: \<^verbatim>\<open>for (i; i < count && multiplier < 8; ++i) multiplier *= 2\<close>.\<close>

function backoff_loop :: "u64 \<Rightarrow> u64 \<Rightarrow> u64 \<Rightarrow> u64" where
  "backoff_loop i n multiplier =
     (if i < n \<and> multiplier < kMaxBackoffMultiplier then backoff_loop (i + 1) n (multiplier * 2) else multiplier)"
  by pat_completeness auto
termination
proof (relation "measure (\<lambda>(i, n, m). unat n - unat i)", goal_cases)
  case (2 i n multiplier)
  then have lt: "unat i < unat n" by (simp add: word_less_nat_alt)
  then have "unat i + 1 < 2 ^ LENGTH(64)" using unsigned_less [of n] by (metis Suc_eq_plus1 Suc_leI le_less_trans)
  then have "unat (i + 1) = unat i + 1" by (simp add: unat_word_ariths)
  then show ?case using lt by simp
qed simp

declare backoff_loop.simps [simp del]

definition ComputeRetryDelayMs :: "ResolvedStorageConfiguration \<Rightarrow> u64 \<Rightarrow> u64" where
  "ComputeRetryDelayMs c n = (case FindDataset c ''player'' of
      None \<Rightarrow> 5000
    | Some d \<Rightarrow>
        let base_ms = ucast (landing_min_time_seconds (timing d)) * 1000;
            max_ms = ucast (landing_time_seconds (timing d)) * 1000;
            delay_ms = base_ms * backoff_loop 1 n 1
        in if delay_ms < max_ms then delay_ms else max_ms)"

section \<open>The pass\<close>

definition ShouldFlush :: "PlayerPersistenceService \<Rightarrow> u64 \<Rightarrow> PlayerRepositoryRecord \<Rightarrow> PlayerSessionRecord option \<Rightarrow> u64 \<Rightarrow> bool" where
  "ShouldFlush P pid r session now_ms =
     (if \<not> loaded r \<or> \<not> dirty r then False
      else if pending_initial_persist r then True
      else case FindDataset (pp_configuration P) ''player'' of
        None \<Rightarrow> False
      | Some d \<Rightarrow>
          if (case map_of (mRetryStates P) pid of None \<Rightarrow> False | Some retry \<Rightarrow> next_retry_ms retry > now_ms) then False
          else if (case session of None \<Rightarrow> False | Some s \<Rightarrow> ss_state s = st_detached) then True
          else if last_dirty_ms r = 0 then True
          else let min_flush_age_ms = ucast (landing_min_time_seconds (timing d)) * 1000 in
          now_ms \<ge> last_dirty_ms r \<and> now_ms - last_dirty_ms r \<ge> min_flush_age_ms)"

record pass_counts =
  pc_tracked :: u64
  pc_pending :: u64
  pc_without_maria :: u64
  pc_flushed :: nat

text \<open>The bookkeeping after a failed and after a successful write.\<close>

definition note_failure :: "u64 \<Rightarrow> u64 \<Rightarrow> string \<Rightarrow> PlayerPersistenceService \<Rightarrow> PlayerPersistenceService" where
  "note_failure now_ms pid msg P =
     (let retry = (case map_of (mRetryStates P) pid of None \<Rightarrow> default_RetryState | Some r \<Rightarrow> r);
          n = consecutive_failure_count retry + 1
      in (on_snapshot (\<lambda>s. s\<lparr>flush_failure_count := flush_failure_count s + 1, pp_last_error := msg\<rparr>) P)
         \<lparr>mRetryStates := AList.update pid
            \<lparr>consecutive_failure_count = n, next_retry_ms = now_ms + ComputeRetryDelayMs (pp_configuration P) n,
             last_failure_ms = now_ms, retry_last_error = msg\<rparr> (mRetryStates P)\<rparr>)"

definition note_success :: "u64 \<Rightarrow> PlayerPersistenceService \<Rightarrow> PlayerPersistenceService" where
  "note_success pid P =
     (on_snapshot (\<lambda>s. s\<lparr>flush_success_count := flush_success_count s + 1\<rparr>) P)
       \<lparr>mRetryStates := AList.delete pid (mRetryStates P)\<rparr>"

definition count_player :: "PlayerRepositoryRecord \<Rightarrow> pass_counts \<Rightarrow> pass_counts" where
  "count_player r c = c\<lparr>pc_tracked := pc_tracked c + 1,
     pc_pending := (if pending_initial_persist r then pc_pending c + 1 else pc_pending c),
     pc_without_maria := (if created_without_maria r then pc_without_maria c + 1 else pc_without_maria c)\<rparr>"

definition uncount_player :: "PlayerRepositoryRecord \<Rightarrow> pass_counts \<Rightarrow> pass_counts" where
  "uncount_player r c = c\<lparr>
     pc_pending := (if pending_initial_persist r \<and> pc_pending c > 0 then pc_pending c - 1 else pc_pending c),
     pc_without_maria := (if created_without_maria r \<and> pc_without_maria c > 0 then pc_without_maria c - 1 else pc_without_maria c),
     pc_flushed := pc_flushed c + 1\<rparr>"

definition flush_due :: "'w game_env \<Rightarrow> u64 \<Rightarrow> u64 \<Rightarrow> pass_counts \<times> PlayerPersistenceService \<times> game \<times> 'w
    \<Rightarrow> pass_counts \<times> PlayerPersistenceService \<times> game \<times> 'w" where
  "flush_due E now_ms pid s = (let (c, P, G, w) = s in
     case repo_Snapshot (g_repository G) pid of
       None \<Rightarrow> (c, P, G, w)
     | Some r \<Rightarrow>
         let c1 = count_player r c in
         if \<not> IsHeldLocally (g_lease G) pid then (c1, P, G, w)
         else if \<not> ShouldFlush P pid r (session_of G pid) now_ms then (c1, P, G, w)
         else let P1 = on_snapshot (\<lambda>s. s\<lparr>flush_attempt_count := flush_attempt_count s + 1,
                    last_flush_player_id := pid, pp_last_flush_ms := now_ms\<rparr>) P;
                  (flush, G1, w1) = call_repository (FlushPlayer (ge_env E) (ge_codec E) pid) (G, w) in
         if \<not> ok flush then (c1, note_failure now_ms pid (message flush) P1, G1, w1)
         else (uncount_player r c1, note_success pid P1, G1, w1))"

definition FlushDuePlayersOnce :: "'w game_env \<Rightarrow> PlayerPersistenceService \<times> game \<times> 'w \<Rightarrow> nat \<times> PlayerPersistenceService \<times> game \<times> 'w" where
  "FlushDuePlayersOnce E s = (let (P, G, w) = s in
     if \<not> has_lease G \<or> \<not> has_repository G \<or> \<not> has_session P then (0, P, G, w)
     else let (now_ms, w1) = NowMs (ge_env E) w;
              P1 = on_snapshot (\<lambda>s. s\<lparr>scan_count := scan_count s + 1, last_scan_ms := now_ms\<rparr>) P;
              (c, P2, G2, w2) = fold (flush_due E now_ms) (LoadedPlayerIds (g_repository G))
                 (\<lparr>pc_tracked = 0, pc_pending = 0, pc_without_maria = 0, pc_flushed = 0\<rparr>, P1, G, w1)
          in (pc_flushed c,
              on_snapshot (\<lambda>s. s\<lparr>pp_tracked_player_count := pc_tracked c, pending_initial_persist_count := pc_pending c,
                 created_without_maria_count := pc_without_maria c\<rparr>) P2, G2, w2))"

definition ResetRetryStates :: "PlayerPersistenceService \<Rightarrow> nat \<times> PlayerPersistenceService" where
  "ResetRetryStates P = (length (mRetryStates P), (on_snapshot (\<lambda>s. s\<lparr>pp_last_error := []\<rparr>) P)\<lparr>mRetryStates := []\<rparr>)"

definition ResetRetryState :: "u64 \<Rightarrow> PlayerPersistenceService \<Rightarrow> bool \<times> PlayerPersistenceService" where
  "ResetRetryState pid P = (map_of (mRetryStates P) pid \<noteq> None, P\<lparr>mRetryStates := AList.delete pid (mRetryStates P)\<rparr>)"

definition persistence_Start :: "game \<Rightarrow> PlayerPersistenceService \<Rightarrow> PlayerPersistenceService" where
  "persistence_Start G P = (if \<not> has_lease G \<or> \<not> has_repository G \<or> \<not> has_session P then P
     else on_snapshot (\<lambda>s. s\<lparr>pp_running := True, pp_last_error := []\<rparr>) P)"

definition persistence_Stop :: "PlayerPersistenceService \<Rightarrow> PlayerPersistenceService" where
  "persistence_Stop P = on_snapshot (\<lambda>s. s\<lparr>pp_running := False\<rparr>) P"

record PlayerPersistencePlayerSnapshot =
  pps_tracked :: bool
  pps_record :: "PlayerRepositoryRecord option"
  pps_retry :: RetryState

definition PlayerSnapshot :: "PlayerPersistenceService \<Rightarrow> game \<Rightarrow> u64 \<Rightarrow> PlayerPersistencePlayerSnapshot" where
  "PlayerSnapshot P G pid =
     \<lparr>pps_tracked = (map_of (mRetryStates P) pid \<noteq> None),
      pps_record = (if has_repository G then repo_Snapshot (g_repository G) pid else None),
      pps_retry = (case map_of (mRetryStates P) pid of None \<Rightarrow> default_RetryState | Some r \<Rightarrow> r)\<rparr>"

section \<open>The backoff is exact\<close>

lemma backoff_loop_unfold:
  "backoff_loop i n m = (if i < n \<and> m < 8 then backoff_loop (i + 1) n (m * 2) else m)"
  using backoff_loop.simps [of i n m] by (simp add: kMaxBackoffMultiplier_def)

lemma backoff_values:
  "backoff_loop 1 n 1 = (if n \<le> 1 then 1 else if n \<le> 2 then 2 else if n \<le> 3 then 4 else 8)"
proof -
  have "backoff_loop 4 n 8 = 8" by (simp add: backoff_loop_unfold [of 4 n 8])
  moreover have "backoff_loop 3 n 4 = (if n \<le> 3 then 4 else 8)"
    using calculation by (auto simp: backoff_loop_unfold [of 3 n 4])
  moreover have "backoff_loop 2 n 2 = (if n \<le> 2 then 2 else if n \<le> 3 then 4 else 8)"
    using calculation by (auto simp: backoff_loop_unfold [of 2 n 2])
  ultimately show ?thesis by (auto simp: backoff_loop_unfold [of 1 n 1])
qed

lemma unat_mult_small:
  fixes a :: u32
  assumes "k \<le> 8000"
  shows "unat (ucast a * of_nat k :: u64) = unat a * k"
proof -
  have "unat a < 2 ^ 32" using unsigned_less [of a] by simp
  then have "unat a * k < 2 ^ 32 * 8001" using assms by (intro mult_strict_mono) auto
  moreover have "unat (ucast a :: u64) = unat a" using \<open>unat a < 2 ^ 32\<close> by (simp add: unsigned_ucast_eq take_bit_nat_eq_self)
  moreover have "unat (of_nat k :: u64) = k" using assms by (simp add: unat_of_nat)
  ultimately show ?thesis by (simp add: unat_word_ariths)
qed

text \<open>
  C33. The delay in exact arithmetic: the minimal landing time, doubled for each further failure up to eight
  times, and never above the landing time. No product wraps.
\<close>

lemma ComputeRetryDelayMs_exact:
  assumes "FindDataset c ''player'' = Some d"
  shows "unat (ComputeRetryDelayMs c n) =
     min (unat (landing_min_time_seconds (timing d)) * 1000 * 2 ^ min (unat n - 1) 3)
         (unat (landing_time_seconds (timing d)) * 1000)"
proof -
  let ?lo = "landing_min_time_seconds (timing d)" and ?hi = "landing_time_seconds (timing d)"
  define m :: nat where "m = (if n \<le> 1 then 1 else if n \<le> 2 then 2 else if n \<le> 3 then 4 else 8)"
  have m: "backoff_loop 1 n 1 = of_nat m" "m \<le> 8" by (auto simp: backoff_values m_def)
  have pow: "2 ^ min (unat n - 1) 3 = m"
  proof -
    consider "unat n \<le> 1" | "unat n = 2" | "unat n = 3" | "4 \<le> unat n" by linarith
    then show ?thesis
      by cases (auto simp: m_def word_le_nat_alt)
  qed
  have "ucast ?lo * 1000 * backoff_loop 1 n 1 = (ucast ?lo * of_nat (1000 * m) :: u64)"
    by (simp add: m(1) algebra_simps)
  then have lo: "unat (ucast ?lo * 1000 * backoff_loop 1 n 1 :: u64) = unat ?lo * 1000 * 2 ^ min (unat n - 1) 3"
    using unat_mult_small [of "1000 * m" ?lo] m(2) unfolding pow by (simp add: algebra_simps)
  have hi: "unat (ucast ?hi * 1000 :: u64) = unat ?hi * 1000"
    using unat_mult_small [of 1000 ?hi] by simp
  show ?thesis
    using assms lo hi by (simp add: ComputeRetryDelayMs_def Let_def word_less_nat_alt min_def)
qed

section \<open>What a pass writes\<close>

text \<open>Only leased, loaded, changed players are written; a player that is waiting for its retry is left alone.\<close>

lemma ShouldFlush_dirty: "ShouldFlush P pid r s now \<Longrightarrow> loaded r \<and> dirty r"
  by (simp add: ShouldFlush_def split: if_splits)

lemma ShouldFlush_backoff:
  assumes "map_of (mRetryStates P) pid = Some retry" and "now < next_retry_ms retry" and "\<not> pending_initial_persist r"
  shows "\<not> ShouldFlush P pid r s now"
  using assms by (auto simp: ShouldFlush_def split: option.splits)

text \<open>A player that has never been written is tried in every pass, whatever its retry state says.\<close>

lemma ShouldFlush_initial_ignores_backoff:
  assumes "loaded r" and "dirty r" and "pending_initial_persist r"
  shows "ShouldFlush P pid r s now"
  using assms by (simp add: ShouldFlush_def)

lemma flush_due_others:
  assumes "flush_due E now pid (c, P, G, w) = (c', P', G', w')"
  shows "(q \<noteq> pid \<longrightarrow> repo_Snapshot (g_repository G') q = repo_Snapshot (g_repository G) q \<and>
       map_of (mRetryStates P') q = map_of (mRetryStates P) q) \<and>
     sessions G' = sessions G \<and> g_lease G' = g_lease G \<and> g_ipc G' = g_ipc G \<and> g_runtime G' = g_runtime G \<and>
     pp_configuration P' = pp_configuration P"
proof (cases "repo_Snapshot (g_repository G) pid")
  case None
  then show ?thesis using assms by (simp add: flush_due_def)
next
  case (Some r)
  obtain fl G1 w1 where f: "call_repository (FlushPlayer (ge_env E) (ge_codec E) pid) (G, w) = (fl, G1, w1)"
    by (cases "call_repository (FlushPlayer (ge_env E) (ge_codec E) pid) (G, w)")
  obtain R where R: "FlushPlayer (ge_env E) (ge_codec E) pid (g_repository G, w) = (fl, R, w1)" "G1 = G\<lparr>g_repository := R\<rparr>"
    using f by (auto simp: call_repository_def split: prod.splits)
  have "repo_Snapshot R q = repo_Snapshot (g_repository G) q" if "q \<noteq> pid"
    using FlushPlayer_ok [OF R(1)] FlushPlayer_failed [OF R(1)] that by (cases "ok fl") auto
  then show ?thesis
    using assms Some f R(2)
    by (auto simp: flush_due_def note_failure_def note_success_def on_snapshot_def Let_def split: if_splits)
qed

text \<open>One player of a pass: its record changes only by a successful write that was due under the lease.\<close>

lemma flush_due_changes:
  assumes "flush_due E now pid (c, P, G, w) = (c', P', G', w')"
    and "repo_Snapshot (g_repository G') pid \<noteq> repo_Snapshot (g_repository G) pid"
  shows "IsHeldLocally (g_lease G) pid \<and>
     (\<exists>r. repo_Snapshot (g_repository G) pid = Some r \<and> loaded r \<and> dirty r \<and> ShouldFlush P pid r (session_of G pid) now) \<and>
     map_of (mRetryStates P') pid = None"
proof -
  obtain r where r: "repo_Snapshot (g_repository G) pid = Some r"
    using assms by (cases "repo_Snapshot (g_repository G) pid") (auto simp: flush_due_def)
  have due: "IsHeldLocally (g_lease G) pid" "ShouldFlush P pid r (session_of G pid) now"
    using assms r by (auto simp: flush_due_def Let_def split: if_splits)
  obtain fl G1 w1 where f: "call_repository (FlushPlayer (ge_env E) (ge_codec E) pid) (G, w) = (fl, G1, w1)"
    by (cases "call_repository (FlushPlayer (ge_env E) (ge_codec E) pid) (G, w)")
  have "ok fl"
  proof (rule ccontr)
    assume "\<not> ok fl"
    then have "G1 = G" using call_flush_view [OF f] by blast
    then show False using assms r due f \<open>\<not> ok fl\<close> by (simp add: flush_due_def Let_def)
  qed
  then show ?thesis
    using assms(1) r due f ShouldFlush_dirty [OF due(2)]
    by (auto simp: flush_due_def Let_def note_success_def on_snapshot_def)
qed

text \<open>A failed write keeps the record and schedules the next attempt.\<close>

lemma flush_due_failure:
  assumes "repo_Snapshot (g_repository G) pid = Some r" and "IsHeldLocally (g_lease G) pid"
    and "ShouldFlush P pid r (session_of G pid) now"
    and "FlushPlayer (ge_env E) (ge_codec E) pid (g_repository G, w) = (fl, R, w1)" and "\<not> ok fl"
    and "flush_due E now pid (c, P, G, w) = (c', P', G', w')"
  shows "G' = G \<and> (\<exists>retry. map_of (mRetryStates P') pid = Some retry \<and>
     consecutive_failure_count retry =
       (case map_of (mRetryStates P) pid of None \<Rightarrow> 0 | Some r0 \<Rightarrow> consecutive_failure_count r0) + 1 \<and>
     next_retry_ms retry = now + ComputeRetryDelayMs (pp_configuration P) (consecutive_failure_count retry))"
proof -
  have "R = g_repository G" by (rule FlushPlayer_failed [OF assms(4,5)])
  then have "call_repository (FlushPlayer (ge_env E) (ge_codec E) pid) (G, w) = (fl, G, w1)"
    using assms(4) by (simp add: call_repository_def)
  then show ?thesis
    using assms(1-3,5,6)
    by (auto simp: flush_due_def Let_def note_failure_def on_snapshot_def default_RetryState_def split: option.splits)
qed

text \<open>The whole pass touches sessions, leases, bindings and instances not at all, and keeps the session invariant.\<close>

lemma fold_flush_due:
  assumes "session_inv G" and "fold (flush_due E now) pids (c, P, G, w) = (c', P', G', w')"
  shows "session_inv G' \<and> sessions G' = sessions G \<and> g_lease G' = g_lease G \<and>
     (\<forall>q. repo_Snapshot (g_repository G') q \<noteq> repo_Snapshot (g_repository G) q \<longrightarrow> IsHeldLocally (g_lease G) q)"
  using assms
proof (induction pids arbitrary: c P G w)
  case (Cons pid pids)
  obtain c1 P1 G1 w1 where f: "flush_due E now pid (c, P, G, w) = (c1, P1, G1, w1)"
    by (cases "flush_due E now pid (c, P, G, w)")
  note o1 = flush_due_others [OF f]
  have loaded: "repo_loaded (g_repository G) q \<longrightarrow> repo_loaded (g_repository G1) q" for q
    using f by (auto simp: flush_due_def Let_def call_repository_def dest: repository_loaded_kept
        split: option.splits if_splits prod.splits)
  have "dependencies G1 = dependencies G"
    using f by (auto simp: flush_due_def Let_def call_repository_def split: option.splits if_splits prod.splits)
  then have inv1: "session_inv G1" using o1 loaded by (auto intro: session_inv_quiet [OF Cons.prems(1)])
  have "fold (flush_due E now) pids (c1, P1, G1, w1) = (c', P', G', w')" using Cons.prems(2) f by simp
  note IH = Cons.IH [OF inv1 this]
  have "IsHeldLocally (g_lease G) q" if "repo_Snapshot (g_repository G') q \<noteq> repo_Snapshot (g_repository G) q" for q
    using IH o1 [of q] flush_due_changes [OF f] that by (metis flush_due_others [OF f])
  then show ?case using IH o1 by simp
qed simp

text \<open>
  C23. A pass of the background writer keeps the invariant, every session and every lease, and changes the stored
  record of a player only while this process holds its lease.
\<close>

lemma FlushDuePlayersOnce_spec:
  assumes "session_inv G" and "FlushDuePlayersOnce E (P, G, w) = (n, P', G', w')"
  shows "session_inv G' \<and> sessions G' = sessions G \<and> g_lease G' = g_lease G \<and>
     (\<forall>q. repo_Snapshot (g_repository G') q \<noteq> repo_Snapshot (g_repository G) q \<longrightarrow> IsHeldLocally (g_lease G) q)"
proof (cases "has_lease G \<and> has_repository G \<and> has_session P")
  case True
  obtain now w1 where n: "NowMs (ge_env E) w = (now, w1)" by (cases "NowMs (ge_env E) w")
  let ?P1 = "on_snapshot (\<lambda>s. s\<lparr>scan_count := scan_count s + 1, last_scan_ms := now\<rparr>) P"
  let ?c0 = "\<lparr>pc_tracked = 0, pc_pending = 0, pc_without_maria = 0, pc_flushed = 0\<rparr>"
  obtain c P2 G2 w2 where f: "fold (flush_due E now) (LoadedPlayerIds (g_repository G)) (?c0, ?P1, G, w1) = (c, P2, G2, w2)"
    by (cases "fold (flush_due E now) (LoadedPlayerIds (g_repository G)) (?c0, ?P1, G, w1)")
  have "G' = G2" using assms(2) True by (simp add: FlushDuePlayersOnce_def n f)
  then show ?thesis using fold_flush_due [OF assms(1) f] by simp
next
  case False
  then have "G' = G" using assms(2) by (auto simp: FlushDuePlayersOnce_def)
  then show ?thesis using assms(1) by simp
qed

end
