(* ===== verification/Player_Handlers.thy ===== *)
theory Player_Handlers
  imports Player_Directory Player_Persistence
begin

text \<open>
  The handlers through which a gate reaches a player: \<^verbatim>\<open>PlayerLoginService\<close>
  (src/src/game/services/player_login_service.cpp) and \<^verbatim>\<open>GamePlayerMessageService\<close>
  (src/src/game/services/player_message_service.cpp) with its dispatcher
  (src/src/common/protocol/protobuf_dispatcher.h). A handler receives its parsed request. The byte formats of
  the protobuf messages are generated code, the record \<open>handler_codec\<close>.
\<close>

section \<open>Messages\<close>

datatype ResultCode = RESULT_CODE_UNSPECIFIED | RESULT_CODE_OK | RESULT_CODE_INVALID_ARGUMENT | RESULT_CODE_UNAUTHORIZED
  | RESULT_CODE_PLAYER_NOT_FOUND | RESULT_CODE_PLAYER_HELD_BY_OTHER_GAME | RESULT_CODE_SESSION_EXPIRED
  | RESULT_CODE_ROUTE_MISMATCH | RESULT_CODE_INTERNAL

text \<open>The requests, with the three gate fields as a \<^typ>\<open>GateRef\<close>; fields no handler reads are left out.\<close>

record LoginPlayerRequest =
  lq_request_id :: u64
  lq_gate :: GateRef
  lq_platform :: string
  lq_account_id :: string
  lq_area_id :: u32

record LoginPlayerResponse =
  lr_request_id :: u64
  lr_result_code :: ResultCode
  lr_player_id :: u64
  lr_game_service_type :: u32
  lr_game_instance_id :: u32
  lr_is_reconnect :: bool
  lr_error_message :: string

record ReconnectPlayerRequest =
  rq_request_id :: u64
  rq_player_id :: u64
  rq_gate :: GateRef

record ReconnectPlayerResponse =
  rr_request_id :: u64
  rr_result_code :: ResultCode
  rr_player_id :: u64
  rr_error_message :: string

record ForwardPlayerMessageRequest =
  fq_request_id :: u64
  fq_player_id :: u64
  fq_message_id :: u32
  fq_payload_bytes :: string
  fq_client_sequence :: u64

record ForwardPlayerMessageResponse =
  fr_request_id :: u64
  fr_player_id :: u64
  fr_message_id :: u32
  fr_result_code :: ResultCode
  fr_response_payload_bytes :: string
  fr_server_sequence :: u64
  fr_error_message :: string

record PushPlayerMessage =
  pm_player_id :: u64
  pm_gate :: GateRef
  pm_message_id :: u32
  pm_payload_bytes :: string
  pm_push_sequence :: u64

record handler_codec =
  hc_login :: "LoginPlayerResponse \<Rightarrow> ByteBuffer"
  hc_reconnect :: "ReconnectPlayerResponse \<Rightarrow> ByteBuffer"
  hc_forward :: "ForwardPlayerMessageResponse \<Rightarrow> ByteBuffer"
  hc_push :: "PushPlayerMessage \<Rightarrow> ByteBuffer"
  hc_parse_echo :: "string \<Rightarrow> string option" \<comment> \<open>\<^verbatim>\<open>PlayerEchoRequest::text\<close>\<close>
  hc_echo :: "PlayerEchoResponse \<Rightarrow> string option"
  hc_parse_rename :: "string \<Rightarrow> string option" \<comment> \<open>\<^verbatim>\<open>RenamePlayerRequest::display_name\<close>\<close>
  hc_rename :: "u64 \<times> string \<Rightarrow> string option"
  hc_profile :: "PlayerProfilePush \<Rightarrow> string option"

section \<open>Answering\<close>

definition pb_message :: "string \<Rightarrow> ByteBuffer \<Rightarrow> proto_message" where
  "pb_message name bytes = \<lparr>full_name = ''pb.ipc.'' @ name, serialized = bytes\<rparr>"

text \<open>The send at the end of a handler and the dispatch result it becomes.\<close>

definition send_answer :: "'w game_env \<Rightarrow> ProcessId \<Rightarrow> proto_message \<Rightarrow> game \<times> 'w \<Rightarrow> result \<times> game \<times> 'w" where
  "send_answer E target m s = (let (G, w) = s;
     (r, i, w') = SendProcessPayload (ge_node E) (ge_wire E) (ge_handler E) target m (g_ipc G, w)
     in (if ok r then Success else Failure (message r), G\<lparr>g_ipc := i\<rparr>, w'))"

definition ToResultCode :: "result \<Rightarrow> ResultCode" where
  "ToResultCode r = (if message r = ''player lease is already held by another game''
     then RESULT_CODE_PLAYER_HELD_BY_OTHER_GAME else RESULT_CODE_INTERNAL)"

section \<open>Login\<close>

text \<open>
  The directory and session pointers of the login service; its IPC pointer is the one of the process.
\<close>

record login_state =
  ls_directory :: "PlayerDirectoryService option"
  ls_has_session :: bool
  ls_game :: game

definition login_response :: "Envelope \<Rightarrow> LoginPlayerRequest \<Rightarrow> u64 \<Rightarrow> result \<Rightarrow> LoginPlayerResponse" where
  "login_response e q pid activate =
     \<lparr>lr_request_id = lq_request_id q,
      lr_result_code = (if ok activate then RESULT_CODE_OK else ToResultCode activate),
      lr_player_id = pid,
      lr_game_service_type = ucast (key_hi (target_receiver (header e))),
      lr_game_instance_id = ucast (key_lo (target_receiver (header e))),
      lr_is_reconnect = False,
      lr_error_message = (if ok activate then [] else message activate)\<rparr>"

text \<open>The request up to its answer; \<open>None\<close> and \<open>Inl\<close> come from the directory.\<close>

definition login_answer :: "'w game_env \<Rightarrow> Envelope \<Rightarrow> LoginPlayerRequest \<Rightarrow> PlayerDirectoryService \<times> game \<times> 'w
    \<Rightarrow> ((std_exception + LoginPlayerResponse) \<times> PlayerDirectoryService \<times> game \<times> 'w) option" where
  "login_answer E e q s = (let (D, G, w) = s in
     case ResolveOrCreate (ge_env E) (lq_platform q) (lq_account_id q) (lq_area_id q) (D, w) of
       None \<Rightarrow> None
     | Some (Inl x, D1, w1) \<Rightarrow> Some (Inl x, D1, G, w1)
     | Some (Inr resolved, D1, w1) \<Rightarrow>
         let (activate, G2, w2) = ActivatePlayer E (resolved_player_id resolved) (lq_gate q) (created resolved) (G, w1)
         in Some (Inr (login_response e q (resolved_player_id resolved) activate), D1, G2, w2))"

definition HandleLoginRequest :: "'w game_env \<Rightarrow> handler_codec \<Rightarrow> Envelope \<Rightarrow> LoginPlayerRequest \<Rightarrow> login_state \<times> 'w
    \<Rightarrow> ((std_exception + result) \<times> login_state \<times> 'w) option" where
  "HandleLoginRequest E C e q s = (let (L, w) = s in
     case ls_directory L of
       None \<Rightarrow> Some (Inr (Failure ''player login dependencies are not registered''), L, w)
     | Some D \<Rightarrow>
         if \<not> ls_has_session L \<or> \<not> has_ipc (ls_game L)
         then Some (Inr (Failure ''player login dependencies are not registered''), L, w)
         else (case login_answer E e q (D, ls_game L, w) of
             None \<Rightarrow> None
           | Some (Inl x, D1, G1, w1) \<Rightarrow> Some (Inl x, L\<lparr>ls_directory := Some D1, ls_game := G1\<rparr>, w1)
           | Some (Inr response, D1, G1, w1) \<Rightarrow>
               let (r, G2, w2) = send_answer E (process_id (source_process (header e)))
                     (pb_message ''LoginPlayerResponse'' (hc_login C response)) (G1, w1)
               in Some (Inr r, L\<lparr>ls_directory := Some D1, ls_game := G2\<rparr>, w2)))"

definition reconnect_response :: "ReconnectPlayerRequest \<Rightarrow> result \<Rightarrow> ReconnectPlayerResponse" where
  "reconnect_response q activate =
     \<lparr>rr_request_id = rq_request_id q,
      rr_result_code = (if ok activate then RESULT_CODE_OK else ToResultCode activate),
      rr_player_id = rq_player_id q,
      rr_error_message = (if ok activate then [] else message activate)\<rparr>"

definition HandleReconnectRequest :: "'w game_env \<Rightarrow> handler_codec \<Rightarrow> Envelope \<Rightarrow> ReconnectPlayerRequest \<Rightarrow> login_state \<times> 'w
    \<Rightarrow> result \<times> login_state \<times> 'w" where
  "HandleReconnectRequest E C e q s = (let (L, w) = s in
     if \<not> ls_has_session L \<or> \<not> has_ipc (ls_game L)
     then (Failure ''player login dependencies are not registered'', L, w)
     else let (activate, G1, w1) = ActivatePlayer E (rq_player_id q) (rq_gate q) False (ls_game L, w);
              (r, G2, w2) = send_answer E (process_id (source_process (header e)))
                (pb_message ''ReconnectPlayerResponse'' (hc_reconnect C (reconnect_response q activate))) (G1, w1)
          in (r, L\<lparr>ls_game := G2\<rparr>, w2))"

definition HandlePlayerDisconnected :: "'w game_env \<Rightarrow> u64 \<Rightarrow> GateRef \<Rightarrow> login_state \<times> 'w \<Rightarrow> result \<times> login_state \<times> 'w" where
  "HandlePlayerDisconnected E pid gate s = (let (L, w) = s in
     if \<not> ls_has_session L then (Failure ''player session service is not registered'', L, w)
     else let (detach, G1, w1) = DetachPlayer E pid (Some gate) (ls_game L, w) in
       (if \<not> ok detach \<and> message detach \<noteq> ''player session is not tracked'' then Failure (message detach) else Success,
        L\<lparr>ls_game := G1\<rparr>, w1))"

section \<open>Player messages\<close>

text \<open>
  \<^verbatim>\<open>ProtobufRequestResponseDispatcher\<close>: a handler turns the payload and the player into the response bytes.
\<close>

type_synonym 'w player_handler = "u64 \<Rightarrow> string \<Rightarrow> game \<times> 'w \<Rightarrow> (result + string) \<times> game \<times> 'w"

definition player_Dispatch :: "(u32 \<times> 'w player_handler) list \<Rightarrow> u32 \<Rightarrow> 'w player_handler" where
  "player_Dispatch handlers message_id pid bytes s = (case map_of handlers message_id of
      None \<Rightarrow> (Inl (Failure ''unsupported message id''), s)
    | Some h \<Rightarrow> h pid bytes s)"

definition player_Register :: "(string \<Rightarrow> 'q option) \<Rightarrow> ('r \<Rightarrow> string option)
    \<Rightarrow> (u64 \<Rightarrow> 'q \<Rightarrow> game \<times> 'w \<Rightarrow> (result + 'r) \<times> game \<times> 'w) \<Rightarrow> 'w player_handler" where
  "player_Register parse serialize h pid bytes s = (case parse bytes of
      None \<Rightarrow> (Inl (Failure ''failed to parse protobuf payload''), s)
    | Some q \<Rightarrow> (case h pid q s of
        (Inl r, s') \<Rightarrow> (Inl r, s')
      | (Inr response, s') \<Rightarrow> (case serialize response of
          None \<Rightarrow> (Inl (Failure ''failed to serialize protobuf payload''), s')
        | Some out \<Rightarrow> (Inr out, s'))))"

definition HandleEcho :: "u64 \<Rightarrow> string \<Rightarrow> game \<times> 'w \<Rightarrow> (result + PlayerEchoResponse) \<times> game \<times> 'w" where
  "HandleEcho pid said s = (let (G, w) = s; (r, T) = rt_HandleEcho (g_repository G) pid said (g_runtime G)
     in (r, G\<lparr>g_runtime := T\<rparr>, w))"

definition HandleRename :: "'w game_env \<Rightarrow> u64 \<Rightarrow> string \<Rightarrow> game \<times> 'w \<Rightarrow> (result + u64 \<times> string) \<times> game \<times> 'w" where
  "HandleRename E pid name s = (let (G, w) = s;
     (r, T, R, w') = rt_HandleRename (ge_env E) pid name (g_runtime G, g_repository G, w)
     in (r, G\<lparr>g_runtime := T, g_repository := R\<rparr>, w'))"

definition MESSAGE_ID_PLAYER_ECHO_REQUEST :: u32 where "MESSAGE_ID_PLAYER_ECHO_REQUEST = 3101"
definition MESSAGE_ID_PLAYER_RENAME_REQUEST :: u32 where "MESSAGE_ID_PLAYER_RENAME_REQUEST = 3102"
definition MESSAGE_ID_PLAYER_PROFILE_PUSH :: u32 where "MESSAGE_ID_PLAYER_PROFILE_PUSH = 5101"

definition builtin_handlers :: "'w game_env \<Rightarrow> handler_codec \<Rightarrow> (u32 \<times> 'w player_handler) list" where
  "builtin_handlers E C =
     [(MESSAGE_ID_PLAYER_ECHO_REQUEST, player_Register (hc_parse_echo C) (hc_echo C) HandleEcho),
      (MESSAGE_ID_PLAYER_RENAME_REQUEST, player_Register (hc_parse_rename C) (hc_rename C) (HandleRename E))]"

definition forward_response :: "ForwardPlayerMessageRequest \<Rightarrow> ResultCode \<Rightarrow> string \<Rightarrow> string \<Rightarrow> ForwardPlayerMessageResponse" where
  "forward_response q code bytes err =
     \<lparr>fr_request_id = fq_request_id q, fr_player_id = fq_player_id q, fr_message_id = fq_message_id q,
      fr_result_code = code, fr_response_payload_bytes = bytes, fr_server_sequence = fq_client_sequence q + 1,
      fr_error_message = err\<rparr>"

definition forward_answer :: "'w game_env \<Rightarrow> handler_codec \<Rightarrow> ForwardPlayerMessageRequest \<Rightarrow> game \<times> 'w
    \<Rightarrow> ForwardPlayerMessageResponse \<times> game \<times> 'w" where
  "forward_answer E C q s = (let (G, w) = s in
     case session_of G (fq_player_id q) of
       None \<Rightarrow> (forward_response q RESULT_CODE_PLAYER_NOT_FOUND [] ''player session is not tracked'', G, w)
     | Some session \<Rightarrow>
         if ss_state session \<noteq> st_online
         then (forward_response q RESULT_CODE_SESSION_EXPIRED [] ''player session is not online'', G, w)
         else if \<not> IsHeldLocally (g_lease G) (fq_player_id q)
         then (forward_response q RESULT_CODE_PLAYER_HELD_BY_OTHER_GAME [] ''player lease is not held locally'', G, w)
         else (case player_Dispatch (builtin_handlers E C) (fq_message_id q) (fq_player_id q) (fq_payload_bytes q) (G, w) of
             (Inl r, s') \<Rightarrow> (forward_response q RESULT_CODE_INVALID_ARGUMENT [] (message r), s')
           | (Inr bytes, s') \<Rightarrow> (forward_response q RESULT_CODE_OK bytes [], s')))"

definition HandleForwardPlayerMessageRequest :: "'w game_env \<Rightarrow> handler_codec \<Rightarrow> Envelope \<Rightarrow> ForwardPlayerMessageRequest
    \<Rightarrow> game \<times> 'w \<Rightarrow> result \<times> game \<times> 'w" where
  "HandleForwardPlayerMessageRequest E C e q s = (let (G, w) = s in
     if \<not> dependencies G then (Failure ''game player message dependencies are not registered'', G, w)
     else let (response, s1) = forward_answer E C q (G, w) in
     send_answer E (process_id (source_process (header e)))
       (pb_message ''ForwardPlayerMessageResponse'' (hc_forward C response)) s1)"

definition PushToPlayer :: "'w game_env \<Rightarrow> handler_codec \<Rightarrow> u64 \<Rightarrow> u32 \<Rightarrow> string \<Rightarrow> game \<times> 'w \<Rightarrow> result \<times> game \<times> 'w" where
  "PushToPlayer E C pid message_id bytes s = (let (G, w) = s in
     if \<not> has_lease G \<or> \<not> has_ipc G then (Failure ''game player push dependencies are not registered'', G, w)
     else case session_of G pid of
       None \<Rightarrow> (Failure ''player is not online'', G, w)
     | Some session \<Rightarrow>
         if ss_state session \<noteq> st_online \<or> gate_service_type (ss_gate session) = 0
         then (Failure ''player is not online'', G, w)
         else if \<not> IsHeldLocally (g_lease G) pid then (Failure ''player lease is not held locally'', G, w)
         else send_answer E (mk_process_id (gate_service_type (ss_gate session)) (gate_instance_id (ss_gate session)))
           (pb_message ''PushPlayerMessage'' (hc_push C
             \<lparr>pm_player_id = pid, pm_gate = ss_gate session, pm_message_id = message_id, pm_payload_bytes = bytes,
              pm_push_sequence = activate_count session\<rparr>)) (G, w))"

definition BuildProfilePushPayload :: "handler_codec \<Rightarrow> game \<Rightarrow> u64 \<Rightarrow> string option" where
  "BuildProfilePushPayload C G pid = (if \<not> has_runtime G then None
     else case BuildProfilePush (g_repository G) pid (g_runtime G) of None \<Rightarrow> None | Some p \<Rightarrow> hc_profile C p)"

definition PushProfileToPlayer :: "'w game_env \<Rightarrow> handler_codec \<Rightarrow> u64 \<Rightarrow> game \<times> 'w \<Rightarrow> result \<times> game \<times> 'w" where
  "PushProfileToPlayer E C pid s = (case BuildProfilePushPayload C (fst s) pid of
      None \<Rightarrow> (Failure ''failed to build player profile push payload'', s)
    | Some bytes \<Rightarrow> PushToPlayer E C pid MESSAGE_ID_PLAYER_PROFILE_PUSH bytes s)"

section \<open>What the handlers promise\<close>

lemma send_answer_quiet:
  assumes "quiet_for (ge_handler E) (TypeUrlFor m)" and "send_answer E target m (G, w) = (r, G', w')"
  shows "view G' q = view G q \<and> sessions G' = sessions G \<and> g_lease G' = g_lease G \<and>
     g_repository G' = g_repository G \<and> g_runtime G' = g_runtime G \<and> (session_inv G \<longrightarrow> session_inv G')"
proof -
  obtain r0 i where i: "SendProcessPayload (ge_node E) (ge_wire E) (ge_handler E) target m (g_ipc G, w) = (r0, i, w')"
    and G': "G' = G\<lparr>g_ipc := i\<rparr>"
    using assms(2) by (auto simp: send_answer_def split: prod.splits)
  have b: "same_bindings (g_ipc G) i" by (rule SendProcessPayload_bindings [OF assms(1) i])
  then have v: "view G' p = view G p" for p
    by (simp add: G' view_def session_of_def bound_here_def) (simp add: same_bindings_def)
  moreover have "ipc_ok G \<longrightarrow> ipc_ok G'"
    using b by (simp add: G' ipc_ok_def same_bindings_inv) (simp add: same_bindings_def)
  ultimately show ?thesis by (simp add: session_inv_def G')
qed

text \<open>A refused activation leaves the player not online: a player that is online with its lease held is never refused.\<close>

lemma ActivatePlayer_refused:
  assumes "session_inv G" and "ActivatePlayer E pid gate allow (G, w) = (r, G', w')" and "\<not> ok r"
  shows "\<not> online_with G' pid g"
proof
  assume on: "online_with G' pid g"
  then have "IsHeldLocally (g_lease G') pid" by (auto simp: online_with_def view_def split: option.splits)
  then have "G' = G" using ActivatePlayer_spec [OF assms(1,2)] assms(3) by (auto simp: activation_spec_def)
  then obtain rec where "session_of G pid = Some rec" "ss_state rec = st_online" "IsHeldLocally (g_lease G) pid"
    using on by (auto simp: online_with_def view_def split: option.splits)
  moreover have "dependencies G" using assms(1) by (simp add: session_inv_def ipc_ok_def)
  ultimately have "ok r" using assms(2) by (auto simp: ActivatePlayer_def split: prod.splits)
  then show False using assms(3) by simp
qed

text \<open>
  C24. A login is answered with OK exactly when the player is now online here for the gate session that asked,
  with its lease, its data, its runtime and its bindings, a player that was online before included; a login that is
  answered otherwise leaves the player's session as it was.
\<close>

lemma login_answer_spec:
  assumes "session_inv G" and "login_answer E e q (D, G, w) = Some (Inr resp, D', G', w')"
  shows "session_inv G' \<and>
     (lr_result_code resp = RESULT_CODE_OK \<longleftrightarrow> online_with G' (lr_player_id resp) (lq_gate q)) \<and>
     (lr_result_code resp \<noteq> RESULT_CODE_OK \<longrightarrow> session_of G' (lr_player_id resp) = session_of G (lr_player_id resp) \<and>
        (G' = G \<or> \<not> IsHeldLocally (g_lease G') (lr_player_id resp)))"
proof -
  obtain res w1 where d: "ResolveOrCreate (ge_env E) (lq_platform q) (lq_account_id q) (lq_area_id q) (D, w) = Some (Inr res, D', w1)"
    and "(let (activate, G2, w2) = ActivatePlayer E (resolved_player_id res) (lq_gate q) (created res) (G, w1)
          in (login_response e q (resolved_player_id res) activate, G2, w2)) = (resp, G', w')"
    using assms(2) by (auto simp: login_answer_def split: option.splits sum.splits prod.splits)
  then obtain act where a: "ActivatePlayer E (resolved_player_id res) (lq_gate q) (created res) (G, w1) = (act, G', w')"
    and resp: "resp = login_response e q (resolved_player_id res) act"
    by (auto split: prod.splits)
  have "lr_result_code resp = RESULT_CODE_OK \<longleftrightarrow> ok act" "lr_player_id resp = resolved_player_id res"
    by (simp_all add: resp login_response_def ToResultCode_def)
  then show ?thesis
    using ActivatePlayer_spec [OF assms(1) a] ActivatePlayer_inv [OF assms(1) a] ActivatePlayer_refused [OF assms(1) a]
    by (auto simp: activation_spec_def)
qed

text \<open>The instance of a player carries the player's id.\<close>

definition runtime_ids :: "PlayerRuntimeService \<Rightarrow> bool" where
  "runtime_ids T \<longleftrightarrow> (\<forall>pid i. map_of (rt_mPlayers T) pid = Some i \<longrightarrow> mPlayerId i = pid)"

lemma runtime_ids_kept:
  "runtime_ids T \<Longrightarrow> EnsurePlayer R pid T = (r, T') \<Longrightarrow> runtime_ids T'"
  "runtime_ids T \<Longrightarrow> RemovePlayer pid T = (r, T') \<Longrightarrow> runtime_ids T'"
  "runtime_ids T \<Longrightarrow> map_of (rt_mPlayers T) pid = Some i \<Longrightarrow> runtime_ids (count_command pid i T)"
  by (auto simp: runtime_ids_def EnsurePlayer_def RemovePlayer_def count_command_def split: if_splits option.splits)

lemma SetDisplayName_frame:
  "SetDisplayName E pid name (R, w) = (r, R', w') \<Longrightarrow> q \<noteq> pid \<Longrightarrow> repo_Snapshot R' q = repo_Snapshot R q"
  by (auto simp: SetDisplayName_def with_loaded_def Let_def split: option.splits if_splits prod.splits)

lemma HandleRename_frame:
  assumes "runtime_ids (g_runtime G)" and "HandleRename E pid name (G, w) = (r, G', w')"
  shows "runtime_ids (g_runtime G') \<and> sessions G' = sessions G \<and> g_lease G' = g_lease G \<and> g_ipc G' = g_ipc G \<and>
     (\<forall>q. q \<noteq> pid \<longrightarrow> repo_Snapshot (g_repository G') q = repo_Snapshot (g_repository G) q) \<and>
     (case r of Inl _ \<Rightarrow> True
      | Inr x \<Rightarrow> x = (pid, name) \<and> name \<noteq> [] \<and> (\<exists>p. repo_Snapshot (g_repository G') pid = Some p \<and> display_name (data p) = name \<and> dirty p))"
proof (cases "map_of (rt_mPlayers (g_runtime G)) pid")
  case None
  then show ?thesis using assms by (auto simp: HandleRename_def rt_HandleRename_def)
next
  case (Some i)
  then have i: "mPlayerId i = pid" using assms(1) by (simp add: runtime_ids_def)
  obtain s R w1 where n: "SetDisplayName (ge_env E) pid name (g_repository G, w) = (s, R, w1)" by (metis prod_cases3)
  have "\<exists>p. repo_Snapshot R pid = Some p \<and> display_name (data p) = name \<and> dirty p" if "ok s"
    using n that by (auto simp: SetDisplayName_def with_loaded_def Let_def split: option.splits if_splits prod.splits)
  moreover have "repo_Snapshot R q = repo_Snapshot (g_repository G) q" if "q \<noteq> pid" for q
    using SetDisplayName_frame [OF n that] .
  ultimately show ?thesis
    using assms Some i n runtime_ids_kept(3) [OF assms(1) Some]
    by (auto simp: HandleRename_def rt_HandleRename_def Let_def split: if_splits)
qed

lemma HandleEcho_frame:
  assumes "runtime_ids (g_runtime G)" and "HandleEcho pid said (G, w) = (r, G', w')"
  shows "runtime_ids (g_runtime G') \<and> sessions G' = sessions G \<and> g_lease G' = g_lease G \<and> g_ipc G' = g_ipc G \<and>
     g_repository G' = g_repository G"
  using assms runtime_ids_kept(3) [OF assms(1), of pid]
  by (auto simp: HandleEcho_def rt_HandleEcho_def Let_def split: option.splits if_splits)

text \<open>
  C25. A forwarded message changes the data of no other player, and that of its player only while the player is
  online here with the lease held.
\<close>

lemma forward_answer_spec:
  assumes "runtime_ids (g_runtime G)" and "forward_answer E C q (G, w) = (resp, G', w')"
    and "repo_Snapshot (g_repository G') pid \<noteq> repo_Snapshot (g_repository G) pid"
  shows "pid = fq_player_id q \<and> IsHeldLocally (g_lease G) pid \<and>
     (\<exists>s. session_of G pid = Some s \<and> ss_state s = st_online) \<and> fq_message_id q = MESSAGE_ID_PLAYER_RENAME_REQUEST"
proof -
  obtain s where s: "session_of G (fq_player_id q) = Some s" "ss_state s = st_online" "IsHeldLocally (g_lease G) (fq_player_id q)"
    using assms(2,3) by (auto simp: forward_answer_def split: option.splits if_splits)
  obtain r where d: "player_Dispatch (builtin_handlers E C) (fq_message_id q) (fq_player_id q) (fq_payload_bytes q) (G, w) = (r, G', w')"
    using assms(2) s by (auto simp: forward_answer_def split: prod.splits sum.splits)
  have "fq_message_id q = MESSAGE_ID_PLAYER_RENAME_REQUEST \<and> (\<exists>name r'. HandleRename E (fq_player_id q) name (G, w) = (r', G', w'))"
  proof -
    have "G' = G \<or> fq_message_id q = MESSAGE_ID_PLAYER_ECHO_REQUEST \<and> (\<exists>said r'. HandleEcho (fq_player_id q) said (G, w) = (r', G', w')) \<or>
        fq_message_id q = MESSAGE_ID_PLAYER_RENAME_REQUEST \<and> (\<exists>name r'. HandleRename E (fq_player_id q) name (G, w) = (r', G', w'))"
      using d by (auto simp: player_Dispatch_def builtin_handlers_def player_Register_def split: if_splits option.splits prod.splits sum.splits)
    then show ?thesis using assms(1,3) HandleEcho_frame by metis
  qed
  then show ?thesis using HandleRename_frame [OF assms(1)] assms(3) s by metis
qed

end
