(* ===== verification/Sample_World.thy ===== *)
theory Sample_World
  imports Player_Handlers
begin

text \<open>
  A concrete game process on the in-memory server, on which witnesses run: one dataset, one Redis
  connection, an IPC node that knows itself, and an operating system that refuses every socket call. Also a
  loopback socket, whose world is the queue of bytes in flight.
\<close>

section \<open>The outside world\<close>

definition closed_sockets :: "'w sockets" where
  "closed_sockets = \<lparr>sk_socket = (\<lambda>w. (-1, w)), sk_reuseaddr = (\<lambda>fd w. (-1, w)), sk_inet_pton = (\<lambda>h. False),
     sk_bind = (\<lambda>fd a w. (-1, w)), sk_listen = (\<lambda>fd w. (-1, w)), sk_connect = (\<lambda>fd a w. (-1, w)),
     sk_accept = (\<lambda>fd w. (-1, w)), sk_recv = (\<lambda>fd n w. ([], w)), sk_send = (\<lambda>fd bs w. (-1, w)),
     sk_shutdown = (\<lambda>fd w. w), sk_close = (\<lambda>fd w. w), sk_strerror = (\<lambda>w. [])\<rparr>"

definition loop_sockets :: "u8 list sockets" where
  "loop_sockets = closed_sockets
     \<lparr>sk_recv := (\<lambda>fd n w. (take n w, drop n w)), sk_send := (\<lambda>fd bs w. (int (length bs), w @ bs))\<rparr>"

lemma loop_recv: "recv_documented loop_sockets (\<lambda>w fd. w)"
  by (auto simp: recv_documented_def loop_sockets_def)

lemma loop_send: "send_documented loop_sockets (\<lambda>w fd. w)"
  by (auto simp: send_documented_def loop_sockets_def)

text \<open>An etcd that grants lease 1 and holds no keys.\<close>

definition sample_backend :: "'w etcd_backend" where
  "sample_backend = \<lparr>be_GrantLease = (\<lambda>ttl old w. (Success, 1, w)), be_Put = (\<lambda>k v l w. (Success, w)),
     be_KeepAliveOnce = (\<lambda>i w. (Success, w)), be_Delete = (\<lambda>k w. (Success, w)), be_GetPrefix = (\<lambda>p e w. (Success, [], w)),
     be_StartWatchPrefix = (\<lambda>p w. (Success, w)), be_WaitForWatchEvent = (\<lambda>w. (poll_stopped, w)), be_StopWatch = (\<lambda>w. w)\<rparr>"

definition sample_json :: json where
  "sample_json = \<lparr>js_write = (\<lambda>p. Some []), js_read_descriptor = (\<lambda>s. Inl []), js_read_kvs = (\<lambda>s. Inr [])\<rparr>"

definition sample_control :: control_wire where
  "sample_control = \<lparr>ctl_serialize = (\<lambda>m. []), ctl_parse = (\<lambda>b. None)\<rparr>"

definition sample_node_env :: "'w node_env" where
  "sample_node_env = \<lparr>ne_sockets = closed_sockets, ne_backend = sample_backend, ne_json = sample_json, ne_control = sample_control\<rparr>"

definition sample_wire :: env_wire where
  "sample_wire = \<lparr>env_serialize = (\<lambda>e. []), env_parse = (\<lambda>b. None)\<rparr>"

text \<open>A codec that keeps the display name, which is enough of the record to see it written and read.\<close>

definition sample_codec :: player_codec where
  "sample_codec = \<lparr>pd_serialize = (\<lambda>d. Some (display_name d)), pd_parse = (\<lambda>s. (True, empty_PlayerData\<lparr>display_name := s\<rparr>))\<rparr>"

definition sample_env :: "memory_world game_env" where
  "sample_env = \<lparr>ge_env = memory_env kRefreshScript kReleaseScript, ge_node = sample_node_env, ge_wire = sample_wire,
     ge_codec = sample_codec, ge_handler = dispatcher_Dispatch [], ge_unbind = (\<lambda>pid gate. [])\<rparr>"

section \<open>The process\<close>

definition sample_options :: EtcdDiscoveryOptions where
  "sample_options = \<lparr>endpoints = [], prefix = ''/s'', lease_ttl_seconds = 10, command_timeout_seconds = 3\<rparr>"

definition sample_self :: ProcessDescriptor where
  "sample_self = game_BuildSelfDescriptor 10 1 \<lparr>host = ''h'', port = 1\<rparr>"

definition sample_ipc :: game_ipc where
  "sample_ipc = \<lparr>gi_node = (new_node sample_options)\<lparr>nd_self := Some sample_self\<rparr>, gi_service_type = 10,
     mProcessReceiverHost = None, mPlayerReceiverHost = empty_player_host,
     mServiceReceiverHost = \<lparr>svc_type = 10, svc_mDispatchCount = 0, svc_mLastPayloadType = []\<rparr>,
     mSendRejectCount = 0, mLastSendRejectReason = []\<rparr>"

definition sample_lease :: PlayerLeaseService where
  "sample_lease = \<lparr>mRedisName = ''r'', mGameServiceType = 10, mGameInstanceId = 1, mLeaseTtlSeconds = 30,
     mRedisKeyPrefix = ''k:game:player:lease:'', lease_mRedis = Some 1, mLeases = [],
     lease_mSnapshot = \<lparr>lease_running = True, tracked_player_count = 0, renew_success_count = 0, renew_failure_count = 0,
       local_loss_count = 0, release_success_count = 0, release_failure_count = 0, last_renew_ms = 0, lease_last_error = []\<rparr>\<rparr>"

definition sample_game :: game where
  "sample_game = \<lparr>g_repository = \<lparr>repo_storage = Some sample_storage, mDatasetName = ''player'', repo_mPlayers = []\<rparr>,
     g_lease = sample_lease, g_runtime = \<lparr>rt_has_repository = True, rt_mPlayers = []\<rparr>, g_ipc = sample_ipc,
     has_repository = True, has_lease = True, has_runtime = True, has_ipc = True, mDetachedTtlSeconds = 60, sessions = []\<rparr>"

lemma sample_game_inv: "session_inv sample_game"
  by (simp add: session_inv_def ipc_ok_def dependencies_def players_inv_def directory_def sample_game_def sample_ipc_def
      new_node_def directory_valid_def ready_view_def view_def session_of_def player_host_IsBound_def empty_player_host_def)

lemma sample_quiet: "quiet_for (ge_handler sample_env) url"
  by (simp add: sample_env_def dispatcher_quiet)

definition sample_gate :: GateRef where
  "sample_gate = \<lparr>gate_service_type = 20, gate_instance_id = 1, gate_session_id = 5\<rparr>"

section \<open>A player logs in\<close>

lemmas sample_world_defs = sample_env_def memory_env_def mem_command_def sample_game_def sample_lease_def sample_ipc_def
  new_node_def storage_ok_def status_result_def str_or_def redis_error_def NowMs_def

lemma sample_dataset_names [simp]:
  "GetDataset sample_storage ''player'' = Some sample_dataset" "BuildMariaEntriesTableName sample_storage ''player'' = ''t_entries''"
  by (simp_all add: GetDataset_def FindDataset_def BuildMariaEntriesTableName_def sample_storage_def sample_dataset_def
      IsSafeSqlIdentifier_def isalnum_def)

text \<open>Activating a player nobody has seen, as long as the server is up and neither its lease nor its data is there.\<close>

definition unseen :: "u64 \<Rightarrow> memory_world \<Rightarrow> bool" where
  "unseen pid w \<longleftrightarrow> \<not> mem_down w \<and> map_of (mem_keys w) (''k:game:player:lease:'' @ to_string pid) = None \<and>
     map_of (mem_keys w) (''k:p:entries:'' @ to_string pid) = None"

lemma activates:
  assumes "unseen pid w"
  shows "fst (ActivatePlayer sample_env pid gate allow (sample_game, w)) = Success"
proof -
  have w: "\<not> mem_down w" "map_of (mem_keys w) (''k:game:player:lease:'' @ to_string pid) = None"
    "map_of (mem_keys w) (''k:p:entries:'' @ to_string pid) = None"
    using assms by (simp_all add: unseen_def)
  show ?thesis
    using w
    by (simp add: ActivatePlayer_def acquire_then_def start_session_def call_lease_def lease_Acquire_def call_repository_def
        LoadPlayer_def sample_world_defs DatasetGet_def redis_calls BuildKey_def entries_suffix_def
        EnsureMariaEntriesTable_def Let_def finish_load_def dependencies_def session_of_def init_player_def)
      (simp add: call_ipc_def BindLocalPlayer_def player_host_Bind_def empty_player_host_def directory_def Bind_def Let_def
        set_directory_def default_Entry_def bind_failed_def ensure_runtime_def EnsurePlayer_def repo_loaded_def repo_Snapshot_def case_prod_beta)
qed
definition active_game :: game where
  "active_game = fst (snd (ActivatePlayer sample_env 7 sample_gate True (sample_game, memory_world0)))"

definition active_world :: memory_world where
  "active_world = snd (snd (ActivatePlayer sample_env 7 sample_gate True (sample_game, memory_world0)))"

lemma active: "ActivatePlayer sample_env 7 sample_gate True (sample_game, memory_world0) = (Success, active_game, active_world)"
  using activates [of 7 memory_world0 sample_gate True] by (simp add: active_game_def active_world_def unseen_def memory_world0_def prod_eq_iff)

lemma active_inv: "session_inv active_game"
  by (rule ActivatePlayer_inv [OF sample_game_inv active])

lemma active_online: "online_with active_game 7 sample_gate"
  using ActivatePlayer_spec [OF sample_game_inv active] by (simp add: activation_spec_def)

lemma active_record:
  "\<exists>r. repo_Snapshot (g_repository active_game) 7 = Some r \<and> loaded r \<and> dirty r \<and> display_name (data r) = ''player_'' @ to_string (7 :: u64)"
  by (simp add: active_game_def ActivatePlayer_def acquire_then_def start_session_def call_lease_def lease_Acquire_def call_repository_def
        LoadPlayer_def sample_world_defs DatasetGet_def redis_calls BuildKey_def entries_suffix_def memory_world0_def
        EnsureMariaEntriesTable_def Let_def finish_load_def dependencies_def session_of_def init_player_def)
      (simp add: call_ipc_def BindLocalPlayer_def player_host_Bind_def empty_player_host_def directory_def Bind_def Let_def
        set_directory_def default_Entry_def bind_failed_def ensure_runtime_def EnsurePlayer_def repo_loaded_def repo_Snapshot_def
        case_prod_beta set_session_def InitializeDefaultPlayerData_def default_PlayerRepositoryRecord_def)

end
