(* ===== verification/Ipc_Examples.thy ===== *)
theory Ipc_Examples
  imports Relay_Process Sample_World
begin

text \<open>
  Concrete inputs for the properties of the IPC framework: a transport with one connection, three processes that
  know each other, messengers on them, an etcd that holds one record, nodes before and after a lost lease.
\<close>

section \<open>Frames and links\<close>

definition sample_transport :: transport where
  "sample_transport = \<lparr>mListeningEndpoint = \<lparr>host = ''h'', port = 1\<rparr>, mListening = False, mListenSocket = -1,
     mConnections = [(1, \<lparr>socket_fd = 3, closed = False\<rparr>)], mNextConnectionId = 2\<rparr>"

definition sample_frame :: RawFrame where
  "sample_frame = \<lparr>connection_id = 1, frame_header = default_FrameHeader\<lparr>frame_length := 2\<rparr>, payload = [7, 8]\<rparr>"

lemma sample_send:
  "\<exists>r. Send loop_sockets sample_frame (sample_transport, []) =
     (r, [], sample_transport, SerializeFrameHeader (frame_header sample_frame) @ [7, 8]) \<and> ok r"
  by (simp add: Send_def sample_transport_def sample_frame_def WriteExact_def loop_sockets_def WriteExact_from.simps
      SerializeFrameHeader_def le32_def le16_def)

definition tag_wire :: control_wire where
  "tag_wire = \<lparr>ctl_serialize = (\<lambda>m. case m of Hello _ _ _ \<Rightarrow> [1] | _ \<Rightarrow> [2]),
     ctl_parse = (\<lambda>b. if b = [1] then Some (Hello (Some default_ProcessRef) 1 1)
                     else Some (HelloAck RESULT_OK (Some default_ProcessRef) 1))\<rparr>"

lemma tag_hello: "wire_roundtrip tag_wire (hello_of (LinkManager_new default_ProcessRef 1))"
  by (simp add: wire_roundtrip_def tag_wire_def hello_of_def LinkManager_new_def)

lemma tag_answer: "wire_roundtrip tag_wire (answer_of (LinkManager_new default_ProcessRef 1) (LinkManager_new default_ProcessRef 1))"
  by (simp add: wire_roundtrip_def tag_wire_def answer_of_def ack_of_def LinkManager_new_def)

theorem PrefixRangeEnd_exact_witness:
  "\<not> bytes_less ''/ab'' ''/a'' \<and> bytes_less ''/ab'' (PrefixRangeEnd ''/a'')"
proof -
  have "CHR ''a'' \<noteq> max_char" by (simp add: max_char_def char_of_def)
  then have "\<exists>c \<in> set ''/a''. c \<noteq> max_char" by simp
  from PrefixRangeEnd_exact [OF this, of "''/ab''"] show ?thesis by simp
qed

definition player_seven :: ReceiverAddress where
  "player_seven = PlayerReceiverAddress 7"

definition p_game :: ProcessRef where "p_game = \<lparr>process_id = mk_process_id 10 1, incarnation_id = 1\<rparr>"

definition p_relay :: ProcessRef where "p_relay = \<lparr>process_id = mk_process_id 30 1, incarnation_id = 1\<rparr>"

definition p_gate :: ProcessRef where "p_gate = \<lparr>process_id = mk_process_id 20 1, incarnation_id = 1\<rparr>"

lemmas places = p_game_def p_relay_def p_gate_def mk_process_id_def

definition bound_seven :: receiver_table where
  "bound_seven = snd (Bind \<lparr>mEntries = []\<rparr> player_seven p_game)"

lemma bound_seven: "directory_valid bound_seven" "Receiver.owner_of bound_seven player_seven = Some (p_game, 1)"
  by (simp_all add: bound_seven_def Bind_def Let_def default_Entry_def directory_valid_def Receiver.owner_of_def)

section \<open>Messages between processes\<close>

definition relay_member :: ProcessDescriptor where
  "relay_member = sample_self\<lparr>process := p_relay\<rparr>"

definition gate_member :: ProcessDescriptor where
  "gate_member = sample_self\<lparr>process := p_gate\<rparr>"

definition three_members :: process_table where
  "three_members = map (\<lambda>p. (key_of p, p)) [sample_self\<lparr>process := p_game\<rparr>, relay_member, gate_member]"

text \<open>A sender that writes down what it is asked to send.\<close>

definition sample_messenger :: "ProcessRef \<Rightarrow> LinkManager option \<Rightarrow> (nat, (ProcessRef \<times> Envelope) list) messenger" where
  "sample_messenger self links = \<lparr>mSelf = self, mRelayServiceType = 30, mReceiverDirectory = bound_seven,
     mHosts = replicate 8 (Some 1), host_Dispatch = (\<lambda>h a e s. (Success, s)), mTypeUrls = [''type.googleapis.com/m''],
     mMembership = Some three_members, messenger_links = links, mRemoteSender = Some (\<lambda>p e s. (Success, s @ [(p, e)]))\<rparr>"

definition sample_message :: proto_message where
  "sample_message = \<lparr>full_name = ''m'', serialized = [1]\<rparr>"

text \<open>A wire that carries one given envelope.\<close>

definition wire_of :: "Envelope \<Rightarrow> env_wire" where
  "wire_of e = \<lparr>env_serialize = (\<lambda>m. [9]), env_parse = (\<lambda>b. Some (envelope_ToProto e))\<rparr>"

lemma wire_of: "envelope_wire_documented (wire_of e) (envelope_ToProto e)"
  by (cases "de_broadcast_scope (envelope_ToProto e)")
    (simp_all add: envelope_wire_documented_def wire_of_def same_message_def same_scope_def)

definition links_to :: "ProcessRef \<Rightarrow> LinkManager" where
  "links_to p = (LinkManager_new p_relay 1)
     \<lparr>mLinks := [(4, \<lparr>link_connection_id = 4, remote_process = p, link_state = link_active\<rparr>)]\<rparr>"

lemma links_to [simp]: "HasHealthyDirectLink (links_to p) q \<longleftrightarrow> q = p"
  by (auto simp: links_to_def HasHealthyDirectLink_def is_healthy_def)

definition service_envelope :: Envelope where
  "service_envelope = default_Envelope\<lparr>header := default_EnvelopeHeader\<lparr>semantic := broadcast_delivery,
     target_receiver := \<lparr>rtype = RT_service, key_hi = 20, key_lo = 1\<rparr>\<rparr>,
     broadcast_scope := default_BroadcastScope\<lparr>required_labels := [(''zone'', ''a'')]\<rparr>\<rparr>"

definition service_ctx :: RoutingContext where
  "service_ctx = \<lparr>ctx_self = p_game, ctx_envelope = service_envelope\<lparr>broadcast_scope := default_BroadcastScope\<rparr>,
     ctx_receiver_location = None, ctx_membership = Some three_members, ctx_links = None\<rparr>"

theorem decode_encode_broadcast_witness:
  "\<exists>ls. set ls = {(''zone'', ''a'')} \<and> DecodeDataEnvelope (wire_of service_envelope) (EncodeDataEnvelope (wire_of service_envelope) service_envelope) =
     Inr (service_envelope\<lparr>broadcast_scope := (broadcast_scope service_envelope)\<lparr>required_labels := ls\<rparr>\<rparr>)"
  using decode_encode_broadcast [OF wire_of, of service_envelope] by (simp add: service_envelope_def)

theorem SendEnvelope_broadcast_witness:
  "\<exists>s. SendEnvelope (sample_messenger p_game None) service_envelope None [] = (Failure ''message dropped during route resolution'', s)"
  using SendEnvelope_broadcast [of service_envelope "sample_messenger p_game None" three_members "[]"]
  by (simp add: service_envelope_def sample_messenger_def in_scope_def MatchesLabels_def FindByService_def three_members_def
      relay_member_def gate_member_def sample_self_def game_BuildSelfDescriptor_def broadcast_service_def default_BroadcastScope_def places)

definition relay_b :: ProcessRef where "relay_b = \<lparr>process_id = mk_process_id 30 2, incarnation_id = 1\<rparr>"

definition two_relays :: process_table where
  "two_relays = map (\<lambda>p. (key_of p, p)) [relay_member, relay_member\<lparr>process := relay_b\<rparr>]"

definition relay_ctx :: "ProcessRef \<Rightarrow> RoutingContext" where
  "relay_ctx self = \<lparr>ctx_self = self, ctx_envelope = default_Envelope, ctx_receiver_location = None,
     ctx_membership = Some two_relays, ctx_links = Some (links_to p_gate)\<rparr>"

theorem relay_ping_pong_witness:
  "hops (ResolveSingleTarget 30 (relay_ctx p_relay) p_game) = [hop relay_b False] \<and>
   hops (ResolveSingleTarget 30 (relay_ctx relay_b) p_game) = [hop p_relay False]"
  using relay_ping_pong [of 30 "relay_ctx p_relay" "relay_member\<lparr>process := relay_b\<rparr>" "relay_ctx relay_b" relay_member p_game
      "links_to p_gate" "links_to p_gate"]
  by (simp add: relay_ctx_def first_relay_def FindByService_def two_relays_def relay_member_def relay_b_def places)

section \<open>Discovery\<close>

theorem RefreshSnapshot_events_witness:
  "\<exists>r d' w'. RefreshSnapshot sample_backend sample_json (EtcdDiscovery_new sample_options, ()) = (r, d', w') \<and> ok r \<and> table_valid (ed_mProcesses d')"
proof -
  obtain r d' w' where f: "RefreshSnapshot sample_backend sample_json (EtcdDiscovery_new sample_options, ()) = (r, d', w')" by (metis prod_cases3)
  have "ok r" using f by (auto simp: RefreshSnapshot_def sample_backend_def sample_json_def ParseSnapshot_def)
  moreover have "table_valid (ed_mProcesses (EtcdDiscovery_new sample_options))" by (simp add: EtcdDiscovery_new_def)
  from RefreshSnapshot_events [OF this f] have "table_valid (ed_mProcesses d')" by blast
  ultimately show ?thesis using f by blast
qed

text \<open>An etcd client whose range request finds the record of one process, and a JSON library that can read it.\<close>

definition one_member_kvs :: "(string \<times> string) list" where
  "one_member_kvs = [(MemberKey (EtcdDiscovery_new sample_options) (process_id (process sample_self)), ''d'')]"

definition one_member_json :: json where
  "one_member_json = \<lparr>js_write = (\<lambda>p. Some ''d''), js_read_descriptor = (\<lambda>s. Inr (to_serializable sample_self)),
     js_read_kvs = (\<lambda>s. Inr (map encode_kv one_member_kvs))\<rparr>"

definition one_member_grpc :: "unit etcd_grpc" where
  "one_member_grpc = \<lparr>gp_LeaseGrant = (\<lambda>ttl w. (\<lparr>error_code = 0, error_message = []\<rparr>, 1, w)), gp_Put = (\<lambda>k v l w. (\<lparr>error_code = 0, error_message = []\<rparr>, w)),
     gp_ka_open = (\<lambda>w. (True, w)), gp_ka_write = (\<lambda>i w. (True, w)), gp_ka_writes_done = (\<lambda>w. w), gp_ka_read = (\<lambda>w. (Some 1, w)),
     gp_ka_finish = (\<lambda>w. (\<lparr>error_code = 0, error_message = []\<rparr>, w)), gp_DeleteRange = (\<lambda>k w. (\<lparr>error_code = 0, error_message = []\<rparr>, w)),
     gp_Range = (\<lambda>a b w. (\<lparr>error_code = 0, error_message = []\<rparr>, one_member_kvs, w))\<rparr>"

theorem RefreshSnapshot_members_witness:
  "\<exists>r d' q' w. RefreshSnapshot (sdk_backend one_member_grpc poll_stopped) one_member_json (EtcdDiscovery_new sample_options, watch_init, ()) = (r, d', q', w) \<and>
     set (All (ed_mProcesses d')) = {sample_self}"
proof -
  obtain r d' q' w where f: "RefreshSnapshot (sdk_backend one_member_grpc poll_stopped) one_member_json
      (EtcdDiscovery_new sample_options, watch_init, ()) = (r, d', q', w)" by (metis prod_cases4)
  have kvs: "one_member_kvs = map (\<lambda>p. (MemberKey (EtcdDiscovery_new sample_options) (process_id (process p)), SerializeDescriptor one_member_json p)) [sample_self]"
    by (simp add: one_member_kvs_def SerializeDescriptor_def one_member_json_def)
  have range: "gp_Range one_member_grpc (members_prefix (EtcdDiscovery_new sample_options)) (PrefixRangeEnd (members_prefix (EtcdDiscovery_new sample_options))) () =
      (\<lparr>error_code = 0, error_message = []\<rparr>, one_member_kvs, ())" by (simp add: one_member_grpc_def)
  have json: "json_documented one_member_json one_member_kvs [sample_self]" by (simp add: json_documented_def one_member_json_def)
  have "set (All (ed_mProcesses d')) = set [sample_self]"
    using RefreshSnapshot_members [OF kvs range _ json _ f] by (simp add: status_ok_def)
  then show ?thesis using f by simp
qed

text \<open>An etcd that has lost every lease and grants none.\<close>

definition lost_backend :: "'w etcd_backend" where
  "lost_backend = sample_backend\<lparr>be_KeepAliveOnce := (\<lambda>i w. (Failure ''lease not found'', w)), be_GrantLease := (\<lambda>ttl old w. (Failure ''busy'', old, w))\<rparr>"

definition leased :: EtcdDiscovery where
  "leased = (EtcdDiscovery_new sample_options)\<lparr>mLeaseId := 5\<rparr>"

definition registered_node :: "nat node" where
  "registered_node = (new_node sample_options)\<lparr>nd_self := Some sample_self, nd_transport_ready := True, nd_registered := True,
     nd_ipc_ready := True, nd_watch_thread := True, nd_discovery := leased,
     nd_transport := Some (empty_transport\<lparr>mListening := True, mListeningEndpoint := listen_endpoint sample_self\<rparr>)\<rparr>"

text \<open>An etcd whose world is whether it can be reached.\<close>

definition switch_backend :: "bool etcd_backend" where
  "switch_backend = sample_backend\<lparr>be_GrantLease := (\<lambda>ttl old w. (if w then Success else Failure ''away'', 1, w)),
     be_Put := (\<lambda>k v i w. (if w then Success else Failure ''away'', w)),
     be_KeepAliveOnce := (\<lambda>i w. (if w then Success else Failure ''away'', w)),
     be_GetPrefix := (\<lambda>p out w. (if w then Success else Failure ''away'', [], w))\<rparr>"

definition switch_env :: "bool node_env" where
  "switch_env = sample_node_env\<lparr>ne_backend := switch_backend\<rparr>"

lemma switch_env_documented:
  "etcd_gone (ne_backend switch_env) Not" "etcd_answers (ne_backend switch_env) (ne_json switch_env) (\<lambda>w. w) (\<lambda>w i. i = 1)"
  by (simp_all add: etcd_gone_def etcd_answers_def switch_env_def switch_backend_def sample_node_env_def ParseSnapshot_def sample_json_def)

theorem keepalive_failure_then_recovery_witness:
  "IsIpcActiveLocked registered_node \<and>
   \<not> IsIpcActiveLocked (keepalive_rounds switch_env (game_recovered switch_env) [False] registered_node) \<and>
   \<not> IsIpcActiveLocked (keepalive_rounds switch_env (game_recovered switch_env) [False, False] registered_node) \<and>
   IsIpcActiveLocked (keepalive_rounds switch_env (game_recovered switch_env) [False, False, True] registered_node)"
proof -
  let ?N = registered_node
  have N: "node_inv ?N" "IsIpcActiveLocked ?N" "\<not> nd_stop_keepalive ?N" "0 < lease_ttl_seconds (mOptions (nd_discovery ?N))"
    by (simp_all add: registered_node_def new_node_def node_inv_def listening_at_def listening_def IsIpcActiveLocked_def leased_def
        EtcdDiscovery_new_def sample_options_def)
  have r: "(\<forall>n. 0 < n \<longrightarrow> n \<le> length [False, False] \<longrightarrow>
        \<not> IsIpcActiveLocked (keepalive_rounds switch_env (game_recovered switch_env) (take n [False, False]) ?N)) \<and>
      IsIpcActiveLocked (keepalive_rounds switch_env (game_recovered switch_env) ([False, False] @ [True]) ?N)"
    by (rule keepalive_failure_then_recovery [OF switch_env_documented _ N]) simp_all
  have "\<not> IsIpcActiveLocked (keepalive_rounds switch_env (game_recovered switch_env) (take 1 [False, False]) ?N)"
    and "\<not> IsIpcActiveLocked (keepalive_rounds switch_env (game_recovered switch_env) (take 2 [False, False]) ?N)"
    using r [THEN conjunct1, rule_format, of 1] r [THEN conjunct1, rule_format, of 2] by simp_all
  then show ?thesis using r N(2) by simp
qed

definition dropped_node :: "nat node" where
  "dropped_node = registered_node\<lparr>nd_transport := Some empty_transport, nd_links := Some (LinkManager_new (process sample_self) 1),
     nd_discovery := leased\<lparr>ed_mProcesses := [(key_of sample_self, sample_self)]\<rparr>, auto_connect_attempts := [key_of sample_self]\<rparr>"

theorem reconcile_skips_attempted_witness:
  "ReconcileAutoConnectMembers sample_node_env relay_should_connect (dropped_node, ()) = (dropped_node, ())"
  by (rule reconcile_skips_attempted) (simp add: dropped_node_def Members_def All_def)

text \<open>An etcd that refuses the first registration, on a machine where listening works.\<close>

definition refusing_env :: "'w node_env" where
  "refusing_env = sample_node_env\<lparr>ne_backend := lost_backend, ne_sockets := closed_sockets\<lparr>sk_socket := (\<lambda>w. (3, w)), sk_reuseaddr := (\<lambda>fd w. (0, w)),
     sk_inet_pton := (\<lambda>h. True), sk_bind := (\<lambda>fd a w. (0, w)), sk_listen := (\<lambda>fd w. (0, w))\<rparr>\<rparr>"

definition loaded_node :: "nat node" where
  "loaded_node = LoadIpcRuntime sample_self (\<lambda>N. (Success, N)) (new_node sample_options)"

theorem first_registration_not_retried_witness:
  "\<exists>N' w'. StartIpcRuntime refusing_env (loaded_node, ()) = (N', w') \<and> nd_transport_ready N' \<and> \<not> nd_registered N' \<and> \<not> nd_keepalive_thread N'"
proof -
  obtain N' w' where s: "StartIpcRuntime refusing_env (loaded_node, ()) = (N', w')" by (cases "StartIpcRuntime refusing_env (loaded_node, ())")
  note defs = StartIpcRuntime_def loaded_node_def LoadIpcRuntime_def refusing_env_def sample_node_env_def closed_sockets_def lost_backend_def
    Listen_def empty_transport_def with_discovery_def ed_RegisterSelf_def GrantLease_def sample_self_def game_BuildSelfDescriptor_def
    new_node_def EtcdDiscovery_new_def sample_options_def
  have "nd_transport_ready N'" "\<not> nd_registered N'" using s by (auto simp: defs)
  moreover have "\<not> nd_keepalive_thread loaded_node" by (simp add: defs)
  ultimately show ?thesis using first_registration_not_retried [OF s] s by blast
qed

text \<open>A machine on which listening works, and an etcd that takes the registration.\<close>

definition serving_node_env :: "'w node_env" where
  "serving_node_env = sample_node_env\<lparr>ne_sockets := closed_sockets\<lparr>sk_socket := (\<lambda>w. (3, w)), sk_reuseaddr := (\<lambda>fd w. (0, w)),
     sk_inet_pton := (\<lambda>h. True), sk_bind := (\<lambda>fd a w. (0, w)), sk_listen := (\<lambda>fd w. (0, w))\<rparr>\<rparr>"

definition loaded_relay :: "unit node" where
  "loaded_relay = relay_Load 99 1 \<lparr>host = ''h'', port = 1\<rparr> \<lparr>full_name = ''m'', serialized = []\<rparr> (new_node sample_options)"


end
