(* ===== verification/Session_Threads.thy ===== *)
theory Session_Threads
  imports Player_Session
begin

text \<open>
  The same methods cut at the points at which \<^verbatim>\<open>PlayerSessionService\<close> leaves its lock or calls another
  service, so that several threads of the process can be inside them at once: the console, the IPC threads
  that deliver logins, and the service's own loop (src/src/game/services/player_session_service.cpp). A call
  in progress is a value of \<^verbatim>\<open>session_call\<close>, and one step of it is one locked section or one call
  into the lease service, the repository, the runtime or the IPC service. Run without a break the steps are
  the methods of \<^verbatim>\<open>Player_Session\<close>.
\<close>

section \<open>Activation in steps\<close>

datatype cleanup = clean_lease | clean_binding | clean_record

datatype activation_phase =
    act_check
  | act_acquire bool
  | act_load bool
  | act_bind bool
  | act_ensure bool
  | act_finish bool
  | act_clean result "cleanup list"
  | act_done result

text \<open>The first locked section; \<^verbatim>\<open>reuse_existing\<close> is the argument of the phases after it.\<close>

definition activate_check :: "'w game_env \<Rightarrow> u64 \<Rightarrow> GateRef \<Rightarrow> game \<times> 'w \<Rightarrow> activation_phase \<times> game \<times> 'w" where
  "activate_check E pid gate s = (let (G, w) = s in
     if \<not> dependencies G then (act_done (Failure ''player session dependencies are not registered''), G, w)
     else case session_of G pid of
       None \<Rightarrow> (act_acquire False, G, w)
     | Some rec \<Rightarrow>
         if (ss_state rec = st_online \<or> ss_state rec = st_detached) \<and> \<not> IsHeldLocally (g_lease G) pid
         then (act_acquire True, G, w)
         else if ss_state rec = st_online
         then (let (now, w1) = NowMs (ge_env E) w in (act_done Success, set_session pid (bind_gate gate now rec) G, w1))
         else if ss_state rec = st_detached
         then (let (now, w1) = NowMs (ge_env E) w in (act_done Success, set_session pid (go_online gate now rec) G, w1))
         else (act_done transitioning, G, w))"

text \<open>The last locked section, of the recovery and of a new session.\<close>

definition activate_finish :: "'w game_env \<Rightarrow> u64 \<Rightarrow> GateRef \<Rightarrow> bool \<Rightarrow> game \<times> 'w \<Rightarrow> activation_phase \<times> game \<times> 'w" where
  "activate_finish E pid gate reuse s = (let (G, w) = s in
     case session_of G pid of
       None \<Rightarrow>
         if reuse then (act_done (Failure ''player session disappeared during lease recovery''), release_lease E pid (G, w))
         else (let (now, w2) = NowMs (ge_env E) w in (act_done Success, set_session pid (go_online gate now default_session) G, w2))
     | Some rec \<Rightarrow>
         if reuse \<and> (ss_state rec = st_loading \<or> ss_state rec = st_unloading)
         then (act_done transitioning, release_lease E pid (G, w))
         else (let (now, w2) = NowMs (ge_env E) w in (act_done Success, set_session pid (go_online gate now rec) G, w2)))"

fun run_cleanup :: "'w game_env \<Rightarrow> u64 \<Rightarrow> cleanup \<Rightarrow> game \<times> 'w \<Rightarrow> game \<times> 'w" where
  "run_cleanup E pid clean_lease s = release_lease E pid s"
| "run_cleanup E pid clean_binding s = (unbind_player pid (fst s), snd s)"
| "run_cleanup E pid clean_record s = (release_record pid (fst s), snd s)"

fun activate_step :: "'w game_env \<Rightarrow> u64 \<Rightarrow> GateRef \<Rightarrow> bool \<Rightarrow> activation_phase \<times> game \<times> 'w \<Rightarrow> activation_phase \<times> game \<times> 'w" where
  "activate_step E pid gate allow (act_check, s) = activate_check E pid gate s"
| "activate_step E pid gate allow (act_acquire reuse, s) =
     (let (r, s1) = call_lease (lease_Acquire (ge_env E) pid) s in (if ok r then act_load reuse else act_done r, s1))"
| "activate_step E pid gate allow (act_load reuse, s) =
     (if reuse \<and> repo_Snapshot (g_repository (fst s)) pid \<noteq> None then (act_bind reuse, s)
      else let (r, s1) = call_repository (LoadPlayer (ge_env E) (ge_codec E) pid allow) s in
      (if ok r then act_bind reuse else act_clean r [clean_lease], s1))"
| "activate_step E pid gate allow (act_bind reuse, s) =
     (let (r, G1) = call_ipc (BindLocalPlayer pid) (fst s) in
      (if bind_failed r then act_clean r (if reuse then [clean_lease] else [clean_lease, clean_record]) else act_ensure reuse,
       G1, snd s))"
| "activate_step E pid gate allow (act_ensure reuse, s) =
     (let (r, G1) = ensure_runtime pid (fst s) in
      (if ok r then act_finish reuse
       else act_clean r (if reuse then [clean_lease, clean_binding] else [clean_lease, clean_binding, clean_record]),
       G1, snd s))"
| "activate_step E pid gate allow (act_finish reuse, s) = activate_finish E pid gate reuse s"
| "activate_step E pid gate allow (act_clean r [], s) = (act_done r, s)"
| "activate_step E pid gate allow (act_clean r (c # cs), s) = (act_clean r cs, run_cleanup E pid c s)"
| "activate_step E pid gate allow (act_done r, s) = (act_done r, s)"

section \<open>Release and expiry in steps\<close>

datatype release_phase =
    rel_mark
  | rel_inspect PlayerSessionRecord
  | rel_flush PlayerSessionRecord
  | rel_restore PlayerSessionRecord result
  | rel_unbind
  | rel_remove
  | rel_record
  | rel_lease
  | rel_erase
  | rel_done result

fun release_step :: "'w game_env \<Rightarrow> u64 \<Rightarrow> release_phase \<times> game \<times> 'w \<Rightarrow> release_phase \<times> game \<times> 'w" where
  "release_step E pid (rel_mark, G, w) =
     (if \<not> dependencies G then (rel_done (Failure ''player session dependencies are not registered''), G, w)
      else case session_of G pid of
        None \<Rightarrow> (rel_done (Failure ''player session is not tracked''), G, w)
      | Some previous \<Rightarrow> (let (now, w1) = NowMs (ge_env E) w in
          (rel_inspect previous, set_session pid (previous\<lparr>ss_state := st_unloading, last_state_change_ms := now\<rparr>) G, w1)))"
| "release_step E pid (rel_inspect previous, G, w) = (if is_dirty G pid then rel_flush previous else rel_unbind, G, w)"
| "release_step E pid (rel_flush previous, G, w) =
     (let (r, G1, w1) = call_repository (FlushPlayer (ge_env E) (ge_codec E) pid) (G, w) in
      (if ok r then rel_unbind else rel_restore previous r, G1, w1))"
| "release_step E pid (rel_restore previous r, G, w) =
     (rel_done (Failure (''player flush before release failed: '' @ message r)),
      (if session_of G pid = None then G else set_session pid previous G), w)"
| "release_step E pid (rel_unbind, G, w) =
     (let (r, G1) = call_ipc (UnbindLocalPlayer pid) G in (if ok r then rel_remove else rel_done r, G1, w))"
| "release_step E pid (rel_remove, G, w) = (rel_record, G\<lparr>g_runtime := snd (RemovePlayer pid (g_runtime G))\<rparr>, w)"
| "release_step E pid (rel_record, G, w) =
     (let (r, R) = repo_ReleasePlayer pid (g_repository G) in (if ok r then rel_lease else rel_done r, G\<lparr>g_repository := R\<rparr>, w))"
| "release_step E pid (rel_lease, G, w) = (rel_erase, release_lease E pid (G, w))"
| "release_step E pid (rel_erase, G, w) = (rel_done Success, G\<lparr>sessions := AList.delete pid (sessions G)\<rparr>, w)"
| "release_step E pid (rel_done r, G, w) = (rel_done r, G, w)"

section \<open>A reconcile pass in steps\<close>

text \<open>What a pass has left: the players it collected, and where it is with the first of them.\<close>

datatype reconcile_phase =
    rec_collect
  | rec_clock "(u64 \<times> PlayerSessionRecord) list"
  | rec_notify u64 nat "(u64 \<times> PlayerSessionRecord) list"
  | rec_unbind u64 nat u64 "(u64 \<times> PlayerSessionRecord) list"
  | rec_recheck u64 nat u64 "(u64 \<times> PlayerSessionRecord) list"
  | rec_done nat

fun reconcile_step :: "'w game_env \<Rightarrow> reconcile_phase \<times> game \<times> 'w \<Rightarrow> reconcile_phase \<times> game \<times> 'w" where
  "reconcile_step E (rec_collect, G, w) =
     (if \<not> has_lease G \<or> \<not> has_ipc G then (rec_done 0, G, w) else (rec_clock (lost_players G), G, w))"
| "reconcile_step E (rec_clock lost, G, w) = (let (now, w1) = NowMs (ge_env E) w in (rec_notify now 0 lost, G, w1))"
| "reconcile_step E (rec_notify now n [], G, w) = (rec_done n, G, w)"
| "reconcile_step E (rec_notify now n ((pid, record) # rest), G, w) = (rec_unbind now n pid rest, notify_gate E pid record (G, w))"
| "reconcile_step E (rec_unbind now n pid rest, G, w) = (rec_recheck now n pid rest, unbind_player pid G, w)"
| "reconcile_step E (rec_recheck now n pid rest, G, w) = (let (m, G1) = recheck_player now pid (n, G) in (rec_notify now m rest, G1, w))"
| "reconcile_step E (rec_done n, G, w) = (rec_done n, G, w)"

section \<open>Undisturbed, the steps are the methods\<close>

lemma activate_clean_run:
  "(activate_step E pid gate allow ^^ 4) (act_clean r [], s) = (act_done r, s)"
  "(activate_step E pid gate allow ^^ 4) (act_clean r [c], s) = (act_done r, run_cleanup E pid c s)"
  "(activate_step E pid gate allow ^^ 4) (act_clean r [c, d], s) = (act_done r, run_cleanup E pid d (run_cleanup E pid c s))"
  "(activate_step E pid gate allow ^^ 4) (act_clean r [c, d, e], s) =
     (act_done r, run_cleanup E pid e (run_cleanup E pid d (run_cleanup E pid c s)))"
  "(activate_step E pid gate allow ^^ 4) (act_done r, s) = (act_done r, s)"
  by (simp_all add: eval_nat_numeral)

lemma finish_done: "\<exists>r s'. activate_finish E pid gate reuse s = (act_done r, s')"
  by (simp add: activate_finish_def split: prod.splits option.splits)

lemma activate_finish_run:
  "(activate_step E pid gate allow ^^ 4) (act_finish reuse, s) = activate_finish E pid gate reuse s"
proof -
  obtain r s' where "activate_finish E pid gate reuse s = (act_done r, s')" using finish_done by blast
  then show ?thesis by (simp add: eval_nat_numeral)
qed

lemma start_session_run:
  "(activate_step E pid gate allow ^^ 7) (act_load False, s) =
     (let (r, s') = start_session E pid gate allow s in (act_done r, s'))"
proof -
  obtain load G1 w1 where l: "call_repository (LoadPlayer (ge_env E) (ge_codec E) pid allow) s = (load, G1, w1)" by (rule prod_cases3)
  obtain bound G2 where b: "call_ipc (BindLocalPlayer pid) G1 = (bound, G2)" by (cases "call_ipc (BindLocalPlayer pid) G1")
  obtain ens G3 where e: "ensure_runtime pid G2 = (ens, G3)" by (cases "ensure_runtime pid G2")
  show ?thesis
    by (cases "ok load"; cases "bind_failed bound"; cases "ok ens"; cases "session_of G3 pid")
      (simp_all add: eval_nat_numeral start_session_def l b e activate_finish_def case_prod_beta)
qed

lemma recover_session_run:
  "(activate_step E pid gate allow ^^ 7) (act_load True, s) =
     (let (r, s') = recover_session E pid gate allow s in (act_done r, s'))"
proof -
  obtain load G1 w1 where l: "(if repo_Snapshot (g_repository (fst s)) pid = None
      then call_repository (LoadPlayer (ge_env E) (ge_codec E) pid allow) s else (Success, s)) = (load, G1, w1)" by (rule prod_cases3)
  have load: "activate_step E pid gate allow (act_load True, s) =
      (if ok load then act_bind True else act_clean load [clean_lease], G1, w1)"
    using l by (cases s) (auto split: if_splits prod.splits)
  obtain bound G2 where b: "call_ipc (BindLocalPlayer pid) G1 = (bound, G2)" by (cases "call_ipc (BindLocalPlayer pid) G1")
  obtain ens G3 where e: "ensure_runtime pid G2 = (ens, G3)" by (cases "ensure_runtime pid G2")
  have run: "recover_session E pid gate allow s = (if \<not> ok load then (load, release_lease E pid (G1, w1))
     else if bind_failed bound then (bound, release_lease E pid (G2, w1))
     else if \<not> ok ens then (let (G4, w4) = release_lease E pid (G3, w1) in (ens, unbind_player pid G4, w4))
     else (case session_of G3 pid of
         None \<Rightarrow> (Failure ''player session disappeared during lease recovery'', release_lease E pid (G3, w1))
       | Some rec \<Rightarrow>
           if ss_state rec = st_loading \<or> ss_state rec = st_unloading then (transitioning, release_lease E pid (G3, w1))
           else let (now, w2) = NowMs (ge_env E) w1 in (Success, set_session pid (go_online gate now rec) G3, w2)))"
    by (simp only: recover_session_def l Let_def prod.case b e)
  show ?thesis
    unfolding run
    by (simp only: numeral_nat funpow_Suc_right o_apply load One_nat_def)
      (cases "ok load"; cases "bind_failed bound"; cases "ok ens"; cases "session_of G3 pid";
        simp add: b e activate_finish_def case_prod_beta)
qed

lemma activate_done_run: "(activate_step E pid gate allow ^^ n) (act_done r, s) = (act_done r, s)"
  by (induction n) simp_all

theorem ActivatePlayer_run:
  "(activate_step E pid gate allow ^^ 9) (act_check, s) = (let (r, s') = ActivatePlayer E pid gate allow s in (act_done r, s'))"
proof -
  have nine: "(activate_step E pid gate allow ^^ 9) x =
      (activate_step E pid gate allow ^^ 7) (activate_step E pid gate allow (activate_step E pid gate allow x))" for x
    by (simp only: numeral_nat funpow_Suc_right o_apply One_nat_def)
  obtain G w where s: "s = (G, w)" by (cases s)
  have acquire: "(activate_step E pid gate allow ^^ 7) (activate_step E pid gate allow (act_acquire reuse, G, w)) =
      (let (r, s') = acquire_then E pid (if reuse then recover_session E pid gate allow else start_session E pid gate allow) (G, w)
       in (act_done r, s'))" for reuse
    by (cases reuse) (simp_all add: acquire_then_def start_session_run recover_session_run activate_done_run split: prod.splits)
  show ?thesis
    unfolding nine s
    by (simp del: activate_step.simps add: activate_step.simps(1,9) activate_check_def ActivatePlayer_def acquire
        activate_done_run Let_def case_prod_beta split: option.splits)
qed

lemma release_done_run: "(release_step E pid ^^ n) (rel_done r, s) = (rel_done r, s)"
  by (induction n) (cases s; simp)+

lemma unload_player_run:
  "(release_step E pid ^^ 5) (rel_unbind, G, w) = (let (r, s') = unload_player E pid (G, w) in (rel_done r, s'))"
proof -
  obtain unb G1 where u: "call_ipc (UnbindLocalPlayer pid) G = (unb, G1)" by (cases "call_ipc (UnbindLocalPlayer pid) G")
  let ?G2 = "G1\<lparr>g_runtime := snd (RemovePlayer pid (g_runtime G1))\<rparr>"
  obtain rr R where r: "repo_ReleasePlayer pid (g_repository ?G2) = (rr, R)" by (cases "repo_ReleasePlayer pid (g_repository ?G2)")
  obtain G4 w4 where k: "release_lease E pid (?G2\<lparr>g_repository := R\<rparr>, w) = (G4, w4)"
    by (cases "release_lease E pid (?G2\<lparr>g_repository := R\<rparr>, w)")
  show ?thesis
    using r k by (simp add: numeral_nat unload_player_def u)
qed

theorem ReleasePlayer_run:
  "(release_step E pid ^^ 8) (rel_mark, s) = (let (r, s') = ReleasePlayer E pid s in (rel_done r, s'))"
proof -
  have eight: "(release_step E pid ^^ 8) x =
      (release_step E pid ^^ 5) (release_step E pid (release_step E pid (release_step E pid x)))" for x
    by (simp only: numeral_nat funpow_Suc_right o_apply One_nat_def)
  have six: "(release_step E pid ^^ 5) (release_step E pid (rel_unbind, G, w)) =
      (let (r, s') = unload_player E pid (G, w) in (rel_done r, s'))" for G w
  proof -
    have swap: "(release_step E pid ^^ 5) (release_step E pid x) = release_step E pid ((release_step E pid ^^ 5) x)" for x
      by (simp only: funpow_swap1)
    obtain r G' w' where u: "unload_player E pid (G, w) = (r, G', w')" by (rule prod_cases3)
    show ?thesis unfolding swap unload_player_run u by simp
  qed
  obtain G w where s: "s = (G, w)" by (cases s)
  have restored: "session_of G1 pid \<noteq> None"
    if "call_repository (FlushPlayer (ge_env E) (ge_codec E) pid) (set_session pid rec G, w1) = (r, G1, w2)" for rec r G1 w1 w2
    using call_flush_view [OF that] set_session_view [of pid G rec] by simp
  show ?thesis
  proof (cases "dependencies G \<and> session_of G pid \<noteq> None")
    case False
    then show ?thesis unfolding eight s by (auto simp: ReleasePlayer_def release_done_run)
  next
    case True
    then obtain previous where p: "dependencies G" "session_of G pid = Some previous" by blast
    obtain now w1 where n: "NowMs (ge_env E) w = (now, w1)" by (cases "NowMs (ge_env E) w")
    let ?G1 = "set_session pid (previous\<lparr>ss_state := st_unloading, last_state_change_ms := now\<rparr>) G"
    obtain fl G2 w2 where f: "call_repository (FlushPlayer (ge_env E) (ge_codec E) pid) (?G1, w1) = (fl, G2, w2)" by (rule prod_cases3)
    have five: "(release_step E pid ^^ 5) (rel_restore q r, G2, w2) =
        (rel_done (Failure (''player flush before release failed: '' @ message r)), set_session pid q G2, w2)" for q r
      using restored [OF f] by (auto simp: numeral_nat)
    have mark: "release_step E pid (rel_mark, G, w) = (rel_inspect previous, ?G1, w1)" using p n by simp
    have run: "ReleasePlayer E pid (G, w) = (if is_dirty ?G1 pid
        then (if \<not> ok fl then (Failure (''player flush before release failed: '' @ message fl), set_session pid previous G2, w2)
              else unload_player E pid (G2, w2))
        else unload_player E pid (?G1, w1))"
      using p n f by (simp add: ReleasePlayer_def)
    consider "\<not> is_dirty ?G1 pid" | "is_dirty ?G1 pid" "ok fl" | "is_dirty ?G1 pid" "\<not> ok fl" by blast
    then show ?thesis
    proof cases
      case 1
      then have "release_step E pid (rel_inspect previous, ?G1, w1) = (rel_unbind, ?G1, w1)" by simp
      then show ?thesis using 1 unfolding eight s mark run by (simp only: six if_False simp_thms)
    next
      case 2
      then have "release_step E pid (release_step E pid (rel_inspect previous, ?G1, w1)) = (rel_unbind, G2, w2)" using f by simp
      then show ?thesis using 2 unfolding eight s mark run by (simp only: unload_player_run if_True if_False simp_thms)
    next
      case 3
      then have "release_step E pid (release_step E pid (rel_inspect previous, ?G1, w1)) = (rel_restore previous fl, G2, w2)" using f by simp
      then show ?thesis using 3 unfolding eight s mark run by (simp only: five if_True if_False simp_thms Let_def prod.case)
    qed
  qed
qed

text \<open>A pass is its collection and then, for each collected player, the notice, the unbind and the second look.\<close>

lemma reconcile_player_run:
  "(reconcile_step E ^^ 3) (rec_notify now n (ps # rest), G, w) =
     (let (m, G', w') = reconcile_player E now ps (n, G, w) in (rec_notify now m rest, G', w'))"
proof -
  obtain pid seen where ps: "ps = (pid, seen)" by (cases ps)
  obtain G1 w1 where n: "notify_gate E pid seen (G, w) = (G1, w1)" by (cases "notify_gate E pid seen (G, w)")
  show ?thesis by (simp add: numeral_nat reconcile_player_def ps n case_prod_beta)
qed

lemma reconcile_all_run:
  "(reconcile_step E ^^ (3 * length lost + 1)) (rec_notify now n lost, G, w) =
     (let (m, G', w') = fold (reconcile_player E now) lost (n, G, w) in (rec_done m, G', w'))"
proof (induction lost arbitrary: n G w)
  case (Cons ps lost)
  obtain m G1 w1 where r: "reconcile_player E now ps (n, G, w) = (m, G1, w1)" by (rule prod_cases3)
  have "3 * length (ps # lost) + 1 = (3 * length lost + 1) + 3" by simp
  then show ?case
    by (simp only: funpow_add [of "3 * length lost + 1"] o_apply reconcile_player_run r Let_def prod.case Cons.IH fold_simps)
qed simp

theorem ReconcileLeaseLosses_run:
  assumes "has_lease G" and "has_ipc G"
  shows "(reconcile_step E ^^ (3 * length (lost_players G) + 3)) (rec_collect, G, w) =
     (let (m, G', w') = ReconcileLeaseLosses E (G, w) in (rec_done m, G', w'))"
proof -
  obtain now w1 where n: "NowMs (ge_env E) w = (now, w1)" by (cases "NowMs (ge_env E) w")
  have start: "(reconcile_step E ^^ 2) (rec_collect, G, w) = (rec_notify now 0 (lost_players G), G, w1)"
    using assms n by (simp add: numeral_nat)
  have three: "3 * length (lost_players G) + 3 = (3 * length (lost_players G) + 1) + 2" by simp
  show ?thesis
    unfolding three by (simp only: funpow_add [of _ 2] o_apply start reconcile_all_run) (simp add: ReconcileLeaseLosses_def assms n)
qed

section \<open>Several calls at once\<close>

datatype session_call =
    activating u64 GateRef bool activation_phase
  | releasing u64 release_phase
  | reconciling reconcile_phase

fun call_step :: "'w game_env \<Rightarrow> session_call \<times> game \<times> 'w \<Rightarrow> session_call \<times> game \<times> 'w" where
  "call_step E (activating pid gate allow ph, s) =
     (let (ph', s') = activate_step E pid gate allow (ph, s) in (activating pid gate allow ph', s'))"
| "call_step E (releasing pid ph, s) = (let (ph', s') = release_step E pid (ph, s) in (releasing pid ph', s'))"
| "call_step E (reconciling ph, s) = (let (ph', s') = reconcile_step E (ph, s) in (reconciling ph', s'))"

fun call_begins :: "session_call \<Rightarrow> bool" where
  "call_begins (activating pid gate allow ph) \<longleftrightarrow> ph = act_check"
| "call_begins (releasing pid ph) \<longleftrightarrow> ph = rel_mark"
| "call_begins (reconciling ph) \<longleftrightarrow> ph = rec_collect"

fun call_returned :: "session_call \<Rightarrow> bool" where
  "call_returned (activating pid gate allow ph) \<longleftrightarrow> (\<exists>r. ph = act_done r)"
| "call_returned (releasing pid ph) \<longleftrightarrow> (\<exists>r. ph = rel_done r)"
| "call_returned (reconciling ph) \<longleftrightarrow> (\<exists>n. ph = rec_done n)"

text \<open>
  What happens in one piece: detaching, which stays inside the lock, and what the other services do on their
  own threads. \<^verbatim>\<open>ExpireDetachedPlayers\<close> reads the sessions and then makes one release after another.
\<close>

inductive session_event :: "'w game_env \<Rightarrow> game \<times> 'w \<Rightarrow> game \<times> 'w \<Rightarrow> bool" for E where
  detach: "DetachPlayer E pid gate (G, w) = (r, G', w') \<Longrightarrow> session_event E (G, w) (G', w')"
| renew: "RenewPass (ge_env E) (g_lease G, w) = (L, w') \<Longrightarrow> session_event E (G, w) (G\<lparr>g_lease := L\<rparr>, w')"
| flush: "FlushPlayer (ge_env E) (ge_codec E) pid (g_repository G, w) = (r, R, w') \<Longrightarrow>
    session_event E (G, w) (G\<lparr>g_repository := R\<rparr>, w')"
| touch: "TouchLogin (ge_env E) pid (g_repository G, w) = (r, R, w') \<Longrightarrow> session_event E (G, w) (G\<lparr>g_repository := R\<rparr>, w')"
| rename: "rt_HandleRename (ge_env E) pid name (g_runtime G, g_repository G, w) = (r, T, R, w') \<Longrightarrow>
    session_event E (G, w) (G\<lparr>g_runtime := T, g_repository := R\<rparr>, w')"
| echo: "rt_HandleEcho (g_repository G) pid said (g_runtime G) = (r, T) \<Longrightarrow> session_event E (G, w) (G\<lparr>g_runtime := T\<rparr>, w)"
| outside: "session_event E (G, w) (G, w')"

text \<open>A configuration is the process, the world, and the call each thread is in.\<close>

inductive thread_step :: "'w game_env \<Rightarrow> game \<times> 'w \<times> (nat \<rightharpoonup> session_call) \<Rightarrow> game \<times> 'w \<times> (nat \<rightharpoonup> session_call) \<Rightarrow> bool" for E where
  call_begin: "C t = None \<Longrightarrow> call_begins c \<Longrightarrow> thread_step E (G, w, C) (G, w, C(t \<mapsto> c))"
| call_runs: "C t = Some c \<Longrightarrow> call_step E (c, G, w) = (c', G', w') \<Longrightarrow> thread_step E (G, w, C) (G', w', C(t \<mapsto> c'))"
| call_end: "C t = Some c \<Longrightarrow> call_returned c \<Longrightarrow> thread_step E (G, w, C) (G, w, C(t := None))"
| event: "session_event E (G, w) (G', w') \<Longrightarrow> thread_step E (G, w, C) (G', w', C)"

inductive thread_reachable :: "'w game_env \<Rightarrow> game \<Rightarrow> game \<times> 'w \<times> (nat \<rightharpoonup> session_call) \<Rightarrow> bool" for E G0 where
  start: "thread_reachable E G0 (G0, w, Map.empty)"
| step: "thread_reachable E G0 s \<Longrightarrow> thread_step E s s' \<Longrightarrow> thread_reachable E G0 s'"

text \<open>The players a call works on: a pass works on the players it has collected and not yet seen to the end.\<close>

fun still_lost :: "reconcile_phase \<Rightarrow> u64 set" where
  "still_lost (rec_clock lost) = fst ` set lost"
| "still_lost (rec_notify now n lost) = fst ` set lost"
| "still_lost (rec_unbind now n pid rest) = insert pid (fst ` set rest)"
| "still_lost (rec_recheck now n pid rest) = insert pid (fst ` set rest)"
| "still_lost ph = {}"

fun works_on :: "session_call \<Rightarrow> u64 set" where
  "works_on (activating pid gate allow ph) = {pid}"
| "works_on (releasing pid ph) = {pid}"
| "works_on (reconciling ph) = still_lost ph"

fun is_pass :: "session_call \<Rightarrow> bool" where
  "is_pass (reconciling ph) = True"
| "is_pass c = False"

fun is_activation_of :: "u64 \<Rightarrow> session_call \<Rightarrow> bool" where
  "is_activation_of pid (activating q gate allow ph) \<longleftrightarrow> q = pid"
| "is_activation_of pid c \<longleftrightarrow> False"

text \<open>
  Two calls are compatible when they work on different players, or when one of them is a reconcile pass and
  the other one is a pass or a release. Only an activation needs its player for itself.
\<close>

definition compatible :: "session_call \<Rightarrow> session_call \<Rightarrow> bool" where
  "compatible c d \<longleftrightarrow> works_on c \<inter> works_on d = {} \<or>
     (is_pass c \<or> is_pass d) \<and> (\<forall>pid. \<not> is_activation_of pid c \<and> \<not> is_activation_of pid d)"

definition compatible_calls :: "(nat \<rightharpoonup> session_call) \<Rightarrow> bool" where
  "compatible_calls C \<longleftrightarrow> (\<forall>t u c d. t \<noteq> u \<longrightarrow> C t = Some c \<longrightarrow> C u = Some d \<longrightarrow> compatible c d)"

inductive calm_reachable :: "'w game_env \<Rightarrow> game \<Rightarrow> game \<times> 'w \<times> (nat \<rightharpoonup> session_call) \<Rightarrow> bool" for E G0 where
  start: "calm_reachable E G0 (G0, w, Map.empty)"
| step: "calm_reachable E G0 s \<Longrightarrow> thread_step E s (G, w, C) \<Longrightarrow> compatible_calls C \<Longrightarrow> calm_reachable E G0 (G, w, C)"

lemma calm_is_reachable: "calm_reachable E G0 s \<Longrightarrow> thread_reachable E G0 s"
  by (induction rule: calm_reachable.induct) (auto intro: thread_reachable.intros)

section \<open>What every call keeps\<close>

subsection \<open>Activation\<close>

text \<open>What is known of the player between two steps of its activation, whatever other players' calls do.\<close>

fun act_inv :: "game \<Rightarrow> u64 \<Rightarrow> activation_phase \<Rightarrow> bool" where
  "act_inv G pid (act_load reuse) \<longleftrightarrow> True"
| "act_inv G pid (act_bind reuse) \<longleftrightarrow> True"
| "act_inv G pid (act_ensure reuse) \<longleftrightarrow> bound_here G pid"
| "act_inv G pid (act_finish reuse) \<longleftrightarrow> bound_here G pid \<and> rt_tracked (g_runtime G) pid \<and> repo_loaded (g_repository G) pid"
| "act_inv G pid (act_clean r cs) \<longleftrightarrow> \<not> IsHeldLocally (g_lease G) pid \<or> (\<exists>rest. cs = clean_lease # rest)"
| "act_inv G pid ph \<longleftrightarrow> ready_view (view G pid)"

lemma release_lease_gone: "release_lease E pid (G, w) = (G', w') \<Longrightarrow> \<not> IsHeldLocally (g_lease G') pid"
  by (drule release_lease_view [of E pid G w G' w' pid]) (auto simp: view_def split: prod.splits)

lemma run_cleanup_frame:
  assumes "ipc_ok G" and "run_cleanup E pid c (G, w) = (G', w')"
  shows "frame pid G G' \<and> (c = clean_lease \<longrightarrow> \<not> IsHeldLocally (g_lease G') pid) \<and>
     (c \<noteq> clean_lease \<longrightarrow> g_lease G' = g_lease G)"
  using assms release_lease_frame [of E pid G w G' w'] release_lease_gone [of E pid G w G' w'] unbind_player_view [of G pid]
    release_record_view [of pid G]
  by (cases c) auto

lemma set_session_ready:
  assumes "bound_here G pid" and "rt_tracked (g_runtime G) pid" and "repo_loaded (g_repository G) pid"
  shows "ready_view (view (set_session pid s G) pid)"
  using assms set_session_view [of pid G s] by (simp add: ready_view_def view_def bound_here_def)

lemma activate_check_inv:
  assumes "ready_view (view G pid)" and "activate_check E pid gate (G, w) = (ph', G', w')"
  shows "frame pid G G' \<and> act_inv G' pid ph'"
proof (cases "session_of G pid")
  case None
  then show ?thesis using assms by (auto simp: activate_check_def split: if_splits)
next
  case (Some rec)
  obtain now w1 where n: "NowMs (ge_env E) w = (now, w1)" by (cases "NowMs (ge_env E) w")
  have ready: "repo_loaded (g_repository G) pid \<and> rt_tracked (g_runtime G) pid \<and> bound_here G pid"
    if "ss_state rec = st_online \<or> ss_state rec = st_detached" "IsHeldLocally (g_lease G) pid"
    using assms(1) that Some by (auto simp: ready_view_def view_def)
  show ?thesis
    using assms Some n ready set_session_ready [of G pid] set_session_view [of pid G]
    by (auto simp: activate_check_def transitioning_def split: if_splits)
qed

lemma activate_finish_inv:
  assumes "act_inv G pid (act_finish reuse)" and "activate_finish E pid gate reuse (G, w) = (ph', G', w')"
  shows "frame pid G G' \<and> act_inv G' pid ph'"
proof -
  have rel: "frame pid G G1 \<and> ready_view (view G1 pid)" if "release_lease E pid (G, w) = (G1, w1)" for G1 w1
    using release_lease_frame [OF that] release_lease_gone [OF that] ready_not_held by blast
  have set: "frame pid G (set_session pid s G) \<and> ready_view (view (set_session pid s G) pid)" for s
    using assms(1) set_session_ready set_session_view by simp
  show ?thesis
    using assms(2) rel set by (auto simp: activate_finish_def split: option.splits if_splits prod.splits)
qed

lemma activate_step_inv:
  assumes "ipc_ok G" and "act_inv G pid ph" and "activate_step E pid gate allow (ph, G, w) = (ph', G', w')"
  shows "frame pid G G' \<and> act_inv G' pid ph'"
proof (cases ph)
  case act_check
  then show ?thesis using assms(2,3) activate_check_inv [of G pid E gate w] by simp
next
  case (act_acquire reuse)
  then show ?thesis using assms(2,3) acquire_view [of "ge_env E" pid G w] by (auto split: prod.splits if_splits)
next
  case (act_load reuse)
  then show ?thesis using assms(3) call_load_view [of "ge_env E" "ge_codec E" pid allow G w] by (auto split: prod.splits if_splits)
next
  case (act_bind reuse)
  then show ?thesis using assms(3) call_bind_view [OF assms(1), of pid] by (auto split: prod.splits if_splits)
next
  case (act_ensure reuse)
  then show ?thesis
    using assms(2,3) ensure_runtime_view [of pid G] by (auto simp: bound_here_def split: prod.splits if_splits)
next
  case (act_finish reuse)
  then show ?thesis using assms(2,3) activate_finish_inv [of G pid reuse E gate w] by simp
next
  case (act_clean r cs)
  show ?thesis
  proof (cases cs)
    case Nil
    then show ?thesis using assms(2,3) act_clean ready_not_held by auto
  next
    case (Cons c rest)
    then have "run_cleanup E pid c (G, w) = (G', w')" and ph': "ph' = act_clean r rest" using assms(3) act_clean by simp_all
    note run_cleanup_frame [OF assms(1) this(1)]
    then show ?thesis using assms(2) act_clean Cons ph' by auto
  qed
next
  case (act_done r)
  then show ?thesis using assms(2,3) by auto
qed

subsection \<open>Release\<close>

definition unloading_here :: "game \<Rightarrow> u64 \<Rightarrow> bool" where
  "unloading_here G pid \<longleftrightarrow> (\<exists>rec. session_of G pid = Some rec \<and> ss_state rec = st_unloading)"

fun rel_inv :: "game \<Rightarrow> u64 \<Rightarrow> release_phase \<Rightarrow> bool" where
  "rel_inv G pid (rel_inspect previous) \<longleftrightarrow> unloading_here G pid \<and> ready_view (Some previous, snd (view G pid))"
| "rel_inv G pid (rel_flush previous) \<longleftrightarrow> unloading_here G pid \<and> ready_view (Some previous, snd (view G pid))"
| "rel_inv G pid (rel_restore previous r) \<longleftrightarrow> unloading_here G pid \<and> ready_view (Some previous, snd (view G pid))"
| "rel_inv G pid rel_mark \<longleftrightarrow> True"
| "rel_inv G pid (rel_done r) \<longleftrightarrow> True"
| "rel_inv G pid ph \<longleftrightarrow> unloading_here G pid"

lemma unloading_ready: "unloading_here G pid \<Longrightarrow> ready_view (view G pid)"
  by (auto simp: unloading_here_def ready_view_def view_def)

lemma release_step_inv:
  assumes "ipc_ok G" and "ready_view (view G pid)" and "rel_inv G pid ph" and "release_step E pid (ph, G, w) = (ph', G', w')"
  shows "frame pid G G' \<and> rel_inv G' pid ph' \<and> ready_view (view G' pid) \<and>
     (IsHeldLocally (g_lease G') pid \<longrightarrow> IsHeldLocally (g_lease G) pid)"
proof (cases ph)
  case rel_mark
  show ?thesis
  proof (cases "dependencies G \<and> session_of G pid \<noteq> None")
    case False
    then show ?thesis using assms rel_mark by (auto split: if_splits)
  next
    case True
    then obtain previous where p: "dependencies G" "session_of G pid = Some previous" by blast
    obtain now w1 where n: "NowMs (ge_env E) w = (now, w1)" by (cases "NowMs (ge_env E) w")
    have G': "G' = set_session pid (previous\<lparr>ss_state := st_unloading, last_state_change_ms := now\<rparr>) G" "ph' = rel_inspect previous"
      using assms(4) rel_mark p n by auto
    note v = set_session_view [of pid G "previous\<lparr>ss_state := st_unloading, last_state_change_ms := now\<rparr>"]
    have u: "unloading_here G' pid" using v by (simp add: unloading_here_def G')
    have "(Some previous, snd (view G' pid)) = view G pid" using v p by (simp add: view_def G' bound_here_def)
    then show ?thesis using assms(2) v u unloading_ready [OF u] by (simp add: G')
  qed
next
  case (rel_inspect previous)
  then show ?thesis using assms unloading_ready by (auto split: if_splits)
next
  case (rel_flush previous)
  obtain r R1 w1 where f: "call_repository (FlushPlayer (ge_env E) (ge_codec E) pid) (G, w) = (r, R1, w1)" by (rule prod_cases3)
  have lease: "g_lease R1 = g_lease G" using f by (auto simp: call_repository_def split: prod.splits)
  have G': "G' = R1" "ph' = (if ok r then rel_unbind else rel_restore previous r)" using assms(4) rel_flush f by auto
  note v = call_flush_view [OF f]
  have "unloading_here R1 pid" using assms(3) rel_flush v by (simp add: unloading_here_def)
  then show ?thesis using assms(3) rel_flush v lease unloading_ready by (auto simp: G')
next
  case (rel_restore previous r)
  then have s: "session_of G pid \<noteq> None" using assms(3) by (auto simp: unloading_here_def)
  have G': "G' = set_session pid previous G" "ph' = rel_done (Failure (''player flush before release failed: '' @ message r))"
    using assms(4) rel_restore s by auto
  note v = set_session_view [of pid G previous]
  have "view G' pid = (Some previous, snd (view G pid))" using v by (simp add: view_def bound_here_def G')
  then show ?thesis using assms(3) rel_restore v by (simp add: G')
next
  case rel_unbind
  have G': "G' = unbind_player pid G" "ph' = rel_remove \<or> (\<exists>r. ph' = rel_done r)"
    using assms(4) rel_unbind by (auto simp: unbind_player_def split: prod.splits if_splits)
  note v = unbind_player_view [OF assms(1), of pid]
  have u: "unloading_here G' pid" using assms(3) rel_unbind v by (simp add: unloading_here_def G')
  then show ?thesis using v G' unloading_ready [OF u] by auto
next
  case rel_remove
  have G': "G' = G\<lparr>g_runtime := snd (RemovePlayer pid (g_runtime G))\<rparr>" "ph' = rel_record" using assms(4) rel_remove by auto
  have u: "unloading_here G' pid" using assms(3) rel_remove by (simp add: unloading_here_def G' session_of_def)
  then show ?thesis using RemovePlayer_view [of pid G] G' unloading_ready [OF u] by auto
next
  case rel_record
  have G': "G' = release_record pid G" "ph' = rel_lease \<or> (\<exists>r. ph' = rel_done r)"
    using assms(4) rel_record by (auto simp: release_record_def split: prod.splits if_splits)
  note v = release_record_view [of pid G]
  have u: "unloading_here G' pid" using assms(3) rel_record v by (simp add: unloading_here_def G')
  then show ?thesis using v G' unloading_ready [OF u] by auto
next
  case rel_lease
  have k: "release_lease E pid (G, w) = (G', w')" and ph': "ph' = rel_erase" using assms(4) rel_lease by auto
  have u: "unloading_here G' pid"
    using assms(3) rel_lease release_lease_view [OF k, of pid] by (simp add: unloading_here_def session_of_def)
  then show ?thesis using release_lease_frame [OF k] release_lease_gone [OF k] ph' unloading_ready [OF u] by auto
next
  case rel_erase
  have G': "G' = G\<lparr>sessions := AList.delete pid (sessions G)\<rparr>" "ph' = rel_done Success" using assms(4) rel_erase by auto
  have "frame pid G G'" by (auto simp: G' frame_def ipc_ok_def view_def session_of_def bound_here_def distinct_delete)
  moreover have "ready_view (view G' pid)" by (simp add: G' ready_view_def view_def session_of_def)
  ultimately show ?thesis by (simp add: G')
next
  case (rel_done r)
  then show ?thesis using assms by auto
qed

subsection \<open>Reconciling\<close>

text \<open>
  A pass may run into the other passes and into releases of its players. It never brings a lease back, never
  ends the unloading of a player, and takes nothing away from a player whose lease is held.
\<close>

definition rec_inv :: "game \<Rightarrow> reconcile_phase \<Rightarrow> bool" where
  "rec_inv G ph \<longleftrightarrow> (\<forall>pid \<in> still_lost ph. \<not> IsHeldLocally (g_lease G) pid)"

definition milder :: "u64 \<Rightarrow> game \<Rightarrow> game \<Rightarrow> bool" where
  "milder pid G G' \<longleftrightarrow> (IsHeldLocally (g_lease G') pid \<longrightarrow> IsHeldLocally (g_lease G) pid) \<and>
     (unloading_here G pid \<longrightarrow> unloading_here G' pid) \<and>
     (IsHeldLocally (g_lease G') pid \<longrightarrow> (repo_loaded (g_repository G) pid \<longrightarrow> repo_loaded (g_repository G') pid) \<and>
        (rt_tracked (g_runtime G) pid \<longrightarrow> rt_tracked (g_runtime G') pid) \<and> (bound_here G pid \<longrightarrow> bound_here G' pid))"

lemma milder_view: "view G' pid = view G pid \<Longrightarrow> milder pid G G'"
  by (simp add: milder_def view_def unloading_here_def)

lemma milder_unloading: "milder pid G G' \<Longrightarrow> unloading_here G pid \<Longrightarrow> unloading_here G' pid"
  by (simp add: milder_def)

lemma milder_ready_with:
  "milder pid G G' \<Longrightarrow> ready_view (Some previous, snd (view G pid)) \<Longrightarrow> ready_view (Some previous, snd (view G' pid))"
  by (auto simp: milder_def ready_view_def view_def)

lemma milder_rel_inv: "milder pid G G' \<Longrightarrow> rel_inv G pid ph \<Longrightarrow> rel_inv G' pid ph"
  by (cases ph) (auto intro: milder_ready_with milder_unloading)

lemma recheck_player_view:
  assumes "\<not> IsHeldLocally (g_lease G) pid" and "recheck_player now pid (n, G) = (m, G')"
  shows "frame pid G G' \<and> g_lease G' = g_lease G \<and> (unloading_here G pid \<longrightarrow> unloading_here G' pid)"
  using assms set_session_view [of pid G]
  by (auto simp: recheck_player_def unloading_here_def split: option.splits if_splits)

lemma reconcile_step_inv:
  assumes "quiet_for (ge_handler E) unbind_url" and "ipc_ok G" and "rec_inv G ph"
    and "reconcile_step E (ph, G, w) = (ph', G', w')"
  shows "rec_inv G' ph' \<and> g_lease G' = g_lease G \<and> (\<forall>q. milder q G G') \<and> ipc_ok G' \<and>
     (distinct (map fst (sessions G)) \<longrightarrow> distinct (map fst (sessions G'))) \<and> (\<forall>q. q \<notin> still_lost ph \<longrightarrow> view G' q = view G q)"
proof (cases ph)
  case rec_collect
  then have "G' = G" and "ph' = rec_done 0 \<or> ph' = rec_clock (lost_players G)" using assms(4) by (auto split: if_splits)
  then show ?thesis using assms(2) by (auto simp: rec_inv_def milder_view lost_players_def lost_player_def)
next
  case (rec_clock lost)
  then show ?thesis using assms by (auto simp: rec_inv_def milder_view split: prod.splits)
next
  case (rec_notify now n lost)
  show ?thesis
  proof (cases lost)
    case Nil
    then show ?thesis using assms rec_notify by (auto simp: rec_inv_def milder_view)
  next
    case (Cons ps rest)
    obtain pid seen where ps: "ps = (pid, seen)" by (cases ps)
    have k: "notify_gate E pid seen (G, w) = (G', w')" and ph': "ph' = rec_unbind now n pid rest"
      using assms(4) rec_notify Cons ps by auto
    have "(ipc_ok G \<longrightarrow> ipc_ok G') \<and> view G' q = view G q \<and> sessions G' = sessions G \<and> g_lease G' = g_lease G" for q
      using notify_gate_view [OF _ k] assms(1) unbind_request_url by metis
    then show ?thesis using assms(2,3) rec_notify Cons ps by (auto simp: rec_inv_def ph' milder_view)
  qed
next
  case (rec_unbind now n pid rest)
  have G': "G' = unbind_player pid G" "ph' = rec_recheck now n pid rest" using assms(4) rec_unbind by auto
  note v = unbind_player_view [OF assms(2), of pid]
  have "milder q G G'" for q
    using v assms(3) rec_unbind
    by (cases "q = pid") (auto simp: G' milder_view frame_def, auto simp: milder_def rec_inv_def unloading_here_def)
  then show ?thesis using v assms(2,3) rec_unbind by (auto simp: G' rec_inv_def frame_def)
next
  case (rec_recheck now n pid rest)
  obtain m where k: "recheck_player now pid (n, G) = (m, G')" and ph': "ph' = rec_notify now m rest"
    using assms(4) rec_recheck by (auto split: prod.splits)
  have nh: "\<not> IsHeldLocally (g_lease G) pid" using assms(3) rec_recheck by (simp add: rec_inv_def)
  note v = recheck_player_view [OF nh k]
  have "milder q G G'" for q
    using v nh by (cases "q = pid") (auto simp: milder_view frame_def, auto simp: milder_def)
  then show ?thesis using v assms(2,3) rec_recheck by (auto simp: ph' rec_inv_def frame_def)
next
  case (rec_done n)
  then show ?thesis using assms by (auto simp: rec_inv_def milder_view)
qed

subsection \<open>The other services\<close>

text \<open>An event keeps what a player has, except that a lease may be lost and an online player may be detached.\<close>

definition calmer :: "u64 \<Rightarrow> game \<Rightarrow> game \<Rightarrow> bool" where
  "calmer pid G G' \<longleftrightarrow> (IsHeldLocally (g_lease G') pid \<longrightarrow> IsHeldLocally (g_lease G) pid) \<and>
     (repo_loaded (g_repository G) pid \<longrightarrow> repo_loaded (g_repository G') pid) \<and>
     (rt_tracked (g_runtime G) pid \<longrightarrow> rt_tracked (g_runtime G') pid) \<and> (bound_here G pid \<longrightarrow> bound_here G' pid) \<and>
     (session_of G' pid = session_of G pid \<or>
      (\<exists>rec rec'. session_of G pid = Some rec \<and> ss_state rec = st_online \<and> session_of G' pid = Some rec'))"

lemma calmer_milder: "calmer pid G G' \<Longrightarrow> milder pid G G'"
  by (auto simp: calmer_def milder_def unloading_here_def)

lemma calmer_ready: "calmer pid G G' \<Longrightarrow> ready_view (view G pid) \<Longrightarrow> ready_view (view G' pid)"
  by (auto simp: calmer_def ready_view_def view_def split: option.splits)

lemma calmer_act_inv: "calmer pid G G' \<Longrightarrow> act_inv G pid ph \<Longrightarrow> act_inv G' pid ph"
  by (cases ph) (auto intro: calmer_ready, auto simp: calmer_def)

lemma calmer_quiet:
  assumes "sessions G' = sessions G" and "g_ipc G' = g_ipc G"
    and "IsHeldLocally (g_lease G') pid \<Longrightarrow> IsHeldLocally (g_lease G) pid"
    and "repo_loaded (g_repository G) pid \<Longrightarrow> repo_loaded (g_repository G') pid"
    and "rt_tracked (g_runtime G) pid \<Longrightarrow> rt_tracked (g_runtime G') pid"
  shows "calmer pid G G'"
  using assms by (auto simp: calmer_def session_of_def bound_here_def)

lemma session_event_calmer:
  assumes "session_event E s s'" and "ipc_ok (fst s)"
  shows "calmer pid (fst s) (fst s') \<and> ipc_ok (fst s') \<and>
     (distinct (map fst (sessions (fst s))) \<longrightarrow> distinct (map fst (sessions (fst s'))))"
  using assms
proof (induction rule: session_event.induct)
  case (detach q gate G w r G' w')
  show ?case
  proof (cases "ok r")
    case True
    then obtain rec now where o1: "session_of G q = Some rec" "ss_state rec = st_online"
      and G': "G' = set_session q (go_detached (mDetachedTtlSeconds G) now rec) G"
      using DetachPlayer_cases [OF detach.hyps] by blast
    note v = set_session_view [of q G "go_detached (mDetachedTtlSeconds G) now rec"]
    have "calmer pid G G'"
    proof (cases "pid = q")
      case False
      then have "view G' pid = view G pid" using v by (simp add: frame_def G')
      then show ?thesis by (simp add: calmer_def view_def)
    qed (use v o1 in \<open>auto simp: calmer_def G' bound_here_def\<close>)
    then show ?thesis using v detach.prems by (simp add: G' frame_def)
  qed (use DetachPlayer_cases [OF detach.hyps] detach.prems in \<open>auto simp: calmer_quiet\<close>)
next
  case (renew G w L w')
  then show ?case by (auto intro!: calmer_quiet dest: RenewPass_held simp: ipc_ok_def)
next
  case (flush q G w r R w')
  then show ?case by (auto intro!: calmer_quiet dest: repository_loaded_kept simp: ipc_ok_def)
next
  case (touch q G w r R w')
  then show ?case by (auto intro!: calmer_quiet dest: repository_loaded_kept simp: ipc_ok_def)
next
  case (rename q name G w r T R w')
  then have "(repo_loaded (g_repository G) pid \<longrightarrow> repo_loaded R pid) \<and> (rt_tracked (g_runtime G) pid \<longrightarrow> rt_tracked T pid)"
    by (auto simp: rt_HandleRename_def count_command_tracked Let_def dest: repository_loaded_kept(3)
        split: option.splits if_splits prod.splits)
  then show ?case using rename by (auto intro!: calmer_quiet simp: ipc_ok_def)
next
  case (echo G q said r T w)
  then have "rt_tracked (g_runtime G) pid \<longrightarrow> rt_tracked T pid"
    by (auto simp: rt_HandleEcho_def count_command_tracked split: option.splits if_splits)
  then show ?case using echo by (auto intro!: calmer_quiet simp: ipc_ok_def)
qed (simp add: calmer_quiet)

section \<open>The invariant of all threads\<close>

fun call_inv :: "game \<Rightarrow> session_call \<Rightarrow> bool" where
  "call_inv G (activating pid gate allow ph) \<longleftrightarrow> act_inv G pid ph"
| "call_inv G (releasing pid ph) \<longleftrightarrow> rel_inv G pid ph"
| "call_inv G (reconciling ph) \<longleftrightarrow> rec_inv G ph"

definition activation_under_way :: "(nat \<rightharpoonup> session_call) \<Rightarrow> u64 \<Rightarrow> bool" where
  "activation_under_way C pid \<longleftrightarrow> (\<exists>t c. C t = Some c \<and> is_activation_of pid c)"

definition threads_inv :: "game \<Rightarrow> (nat \<rightharpoonup> session_call) \<Rightarrow> bool" where
  "threads_inv G C \<longleftrightarrow> ipc_ok G \<and> distinct (map fst (sessions G)) \<and> compatible_calls C \<and>
     (\<forall>t c. C t = Some c \<longrightarrow> call_inv G c) \<and> (\<forall>pid. \<not> activation_under_way C pid \<longrightarrow> ready_view (view G pid))"

lemma frame_others: "frame pid G G' \<Longrightarrow> q \<noteq> pid \<Longrightarrow> view G' q = view G q"
  by (simp add: frame_def)

lemma activation_works: "is_activation_of pid c \<Longrightarrow> pid \<in> works_on c"
  by (cases c) auto

lemma call_inv_view:
  assumes "call_inv G c" and "\<forall>pid \<in> works_on c. view G' pid = view G pid"
  shows "call_inv G' c"
proof (cases c)
  case (activating pid gate allow ph)
  then show ?thesis using assms by (cases ph) (auto simp: view_def ready_view_def)
next
  case (releasing pid ph)
  then show ?thesis using assms milder_rel_inv [OF milder_view] by simp
next
  case (reconciling ph)
  then show ?thesis using assms by (auto simp: rec_inv_def view_def)
qed

lemma call_inv_milder: "call_inv G c \<Longrightarrow> \<forall>pid. milder pid G G' \<Longrightarrow> \<forall>pid. \<not> is_activation_of pid c \<Longrightarrow> call_inv G' c"
  by (cases c) (auto intro: milder_rel_inv simp: rec_inv_def, auto simp: milder_def)

lemma call_inv_calmer: "call_inv G c \<Longrightarrow> \<forall>pid. calmer pid G G' \<Longrightarrow> call_inv G' c"
  by (cases c) (auto intro: calmer_act_inv milder_rel_inv calmer_milder simp: rec_inv_def, auto simp: calmer_def)

text \<open>One step of a call keeps what the call knows, what every compatible call knows, and every player it may.\<close>

lemma call_step_inv:
  assumes "quiet_for (ge_handler E) unbind_url" and "ipc_ok G" and "call_inv G c"
    and "\<forall>pid \<in> works_on c. is_activation_of pid c \<or> ready_view (view G pid)"
    and "call_step E (c, G, w) = (c', G', w')"
  shows "call_inv G' c' \<and> ipc_ok G' \<and> (distinct (map fst (sessions G)) \<longrightarrow> distinct (map fst (sessions G'))) \<and>
     (\<forall>pid. pid \<notin> works_on c \<longrightarrow> view G' pid = view G pid) \<and> (\<forall>pid. is_activation_of pid c' = is_activation_of pid c) \<and>
     (\<forall>pid \<in> works_on c. is_activation_of pid c \<or> ready_view (view G' pid)) \<and>
     (\<forall>d. call_inv G d \<longrightarrow> compatible c d \<longrightarrow> call_inv G' d)"
proof (cases c)
  case (activating pid gate allow ph)
  obtain ph' where k: "activate_step E pid gate allow (ph, G, w) = (ph', G', w')" and c': "c' = activating pid gate allow ph'"
    using assms(5) activating by (auto split: prod.splits)
  have inv: "frame pid G G' \<and> act_inv G' pid ph'" using activate_step_inv [OF assms(2) _ k] assms(3) activating by simp
  have "call_inv G' d" if d: "call_inv G d" "compatible c d" for d
  proof (rule call_inv_view [OF d(1)])
    have "pid \<notin> works_on d" using d(2) activating by (auto simp: compatible_def)
    then show "\<forall>q \<in> works_on d. view G' q = view G q" using inv by (metis frame_others)
  qed
  then show ?thesis using inv assms(2) by (auto simp: activating c' frame_def)
next
  case (releasing pid ph)
  obtain ph' where k: "release_step E pid (ph, G, w) = (ph', G', w')" and c': "c' = releasing pid ph'"
    using assms(5) releasing by (auto split: prod.splits)
  have inv: "frame pid G G' \<and> rel_inv G' pid ph' \<and> ready_view (view G' pid) \<and>
      (IsHeldLocally (g_lease G') pid \<longrightarrow> IsHeldLocally (g_lease G) pid)"
    using release_step_inv [OF assms(2) _ _ k] assms(3,4) releasing by simp
  then have held: "IsHeldLocally (g_lease G') q \<longrightarrow> IsHeldLocally (g_lease G) q" for q
    by (cases "q = pid") (auto simp: frame_def view_def)
  have "call_inv G' d" if d: "call_inv G d" "compatible c d" for d
  proof (cases "works_on c \<inter> works_on d = {}")
    case True
    then have "pid \<notin> works_on d" using releasing by simp
    then have "\<forall>q \<in> works_on d. view G' q = view G q" using inv by (metis frame_others)
    then show ?thesis by (rule call_inv_view [OF d(1)])
  next
    case False
    then have "is_pass d" using d(2) releasing by (simp add: compatible_def)
    then show ?thesis using d(1) held by (cases d) (auto simp: rec_inv_def)
  qed
  then show ?thesis using inv assms(2) by (auto simp: releasing c' frame_def)
next
  case (reconciling ph)
  obtain ph' where k: "reconcile_step E (ph, G, w) = (ph', G', w')" and c': "c' = reconciling ph'"
    using assms(5) reconciling by (auto split: prod.splits)
  have ph: "rec_inv G ph" using assms(3) reconciling by simp
  note inv = reconcile_step_inv [OF assms(1,2) ph k]
  have "ready_view (view G' pid)" if "pid \<in> still_lost ph" for pid
    using inv ph that ready_not_held [of G' pid] by (simp add: rec_inv_def)
  moreover have "call_inv G' d" if d: "call_inv G d" "compatible c d" for d
  proof (cases "works_on c \<inter> works_on d = {}")
    case True
    then have "\<forall>q \<in> works_on d. view G' q = view G q" using inv reconciling by auto
    then show ?thesis by (rule call_inv_view [OF d(1)])
  next
    case False
    then show ?thesis using d inv by (intro call_inv_milder [OF d(1)]) (auto simp: compatible_def)
  qed
  ultimately show ?thesis using inv assms(2) by (auto simp: reconciling c')
qed

lemma under_way_update:
  "C t = Some c \<Longrightarrow> \<forall>pid. is_activation_of pid c' = is_activation_of pid c \<Longrightarrow>
     activation_under_way (C(t \<mapsto> c')) pid = activation_under_way C pid"
  unfolding activation_under_way_def by (metis fun_upd_apply option.inject)

lemma thread_step_inv:
  assumes "thread_step E (G, w, C) (G', w', C')" and "quiet_for (ge_handler E) unbind_url" and "threads_inv G C"
    and "compatible_calls C'"
  shows "threads_inv G' C'"
  using assms(1)
proof cases
  case (call_begin t c)
  have "call_inv G c"
  proof (cases c)
    case (activating pid gate allow ph)
    have "\<not> activation_under_way C pid"
    proof
      assume "activation_under_way C pid"
      then obtain u d where d: "C u = Some d" "is_activation_of pid d" by (auto simp: activation_under_way_def)
      then have "u \<noteq> t" using call_begin by auto
      then have "compatible c d" using assms(4) call_begin d(1) unfolding compatible_calls_def by (metis fun_upd_apply)
      then show False using d(2) activation_works [of pid d] activating by (auto simp: compatible_def)
    qed
    then show ?thesis using assms(3) call_begin activating by (simp add: threads_inv_def)
  qed (use call_begin in \<open>auto simp: rec_inv_def\<close>)
  moreover have "\<not> activation_under_way C' pid \<Longrightarrow> \<not> activation_under_way C pid" for pid
    using call_begin unfolding activation_under_way_def by (metis fun_upd_apply option.distinct(1))
  ultimately show ?thesis using assms(3,4) call_begin by (auto simp: threads_inv_def)
next
  case (call_runs t c c')
  have ipc: "ipc_ok G" and inv: "call_inv G c" using assms(3) call_runs by (auto simp: threads_inv_def)
  have ready: "\<forall>pid \<in> works_on c. is_activation_of pid c \<or> ready_view (view G pid)"
  proof (intro ballI disjCI)
    fix pid assume p: "pid \<in> works_on c" "\<not> ready_view (view G pid)"
    then have "activation_under_way C pid" using assms(3) by (auto simp: threads_inv_def)
    then obtain u d where d: "C u = Some d" "is_activation_of pid d" by (auto simp: activation_under_way_def)
    show "is_activation_of pid c"
    proof (cases "u = t")
      case False
      then have "compatible c d" using assms(3) call_runs d(1) unfolding threads_inv_def compatible_calls_def by metis
      then show ?thesis using p(1) d(2) activation_works [of pid d] by (auto simp: compatible_def)
    qed (use d call_runs in simp)
  qed
  note step = call_step_inv [OF assms(2) ipc inv ready call_runs(3)]
  have "call_inv G' d" if "C' u = Some d" for u d
  proof (cases "u = t")
    case False
    then have "C u = Some d" using that call_runs by simp
    moreover have "compatible c d" using False calculation assms(3) call_runs unfolding threads_inv_def compatible_calls_def by metis
    ultimately show ?thesis using step assms(3) by (auto simp: threads_inv_def)
  qed (use that step call_runs in simp)
  moreover have "ready_view (view G' pid)" if "\<not> activation_under_way C' pid" for pid
  proof -
    have na: "\<not> activation_under_way C pid"
      using that under_way_update [of C t c c' pid] step call_runs by simp
    then have "\<not> is_activation_of pid c" using call_runs by (auto simp: activation_under_way_def)
    then show ?thesis using na step assms(3) by (cases "pid \<in> works_on c") (auto simp: threads_inv_def)
  qed
  ultimately show ?thesis using step assms(3,4) by (auto simp: threads_inv_def)
next
  case (call_end t c)
  have "ready_view (view G pid)" if "\<not> activation_under_way C' pid" for pid
  proof (cases "is_activation_of pid c")
    case True
    moreover have "call_inv G c" using call_end assms(3) unfolding threads_inv_def by metis
    ultimately show ?thesis using call_end(5) by (cases c) auto
  next
    case False
    then have "\<not> activation_under_way C pid"
      using that call_end unfolding activation_under_way_def by (metis fun_upd_other option.inject)
    then show ?thesis using assms(3) by (simp add: threads_inv_def)
  qed
  then show ?thesis using assms(3,4) call_end by (auto simp: threads_inv_def split: if_splits)
next
  case event
  have ipc: "ipc_ok G" using assms(3) by (simp add: threads_inv_def)
  have c: "calmer pid G G' \<and> ipc_ok G' \<and> (distinct (map fst (sessions G)) \<longrightarrow> distinct (map fst (sessions G')))" for pid
    using session_event_calmer [OF event(2), of pid] ipc by simp
  then show ?thesis
    using assms(3,4) call_inv_calmer calmer_ready event(1) unfolding threads_inv_def by metis
qed

lemma session_inv_threads: "session_inv G \<Longrightarrow> threads_inv G Map.empty"
  by (simp add: session_inv_def threads_inv_def compatible_calls_def)

lemma calm_reachable_inv:
  assumes "calm_reachable E G0 s" and "quiet_for (ge_handler E) unbind_url" and "session_inv G0"
  shows "threads_inv (fst s) (snd (snd s))"
  using assms(1)
proof (induction rule: calm_reachable.induct)
  case (start w)
  then show ?case using session_inv_threads [OF assms(3)] by simp
next
  case (step s G w C)
  obtain G1 w1 C1 where "s = (G1, w1, C1)" by (cases s)
  then show ?case using step thread_step_inv [OF _ assms(2)] by simp
qed

text \<open>A login of a player that no call is working on may run beside everything else.\<close>

lemma compatible_beside:
  assumes "compatible_calls C" and "\<forall>u d. C u = Some d \<longrightarrow> pid \<notin> works_on d"
  shows "compatible_calls (C(t \<mapsto> activating pid gate allow ph))"
  using assms unfolding compatible_calls_def compatible_def by (auto split: if_splits)

lemma calm_login:
  assumes "calm_reachable E G0 (G, w, C)" and "C t = None" and "compatible_calls C"
    and "\<forall>u d. C u = Some d \<longrightarrow> pid \<notin> works_on d" and "ActivatePlayer E pid gate allow (G, w) = (r, G', w')"
  shows "calm_reachable E G0 (G', w', C)"
proof -
  note beside = compatible_beside [OF assms(3,4)]
  have run: "calm_reachable E G0 (H, v, C(t \<mapsto> activating pid gate allow ph))"
    if "(activate_step E pid gate allow ^^ n) (act_check, G, w) = (ph, H, v)" for n ph H v
    using that
  proof (induction n arbitrary: ph H v)
    case 0
    then have eqs: "ph = act_check" "H = G" "v = w" by auto
    show ?case unfolding eqs
      by (rule calm_reachable.step [OF assms(1) thread_step.call_begin beside]) (simp_all add: assms(2))
  next
    case (Suc n)
    obtain qh K u where q: "(activate_step E pid gate allow ^^ n) (act_check, G, w) = (qh, K, u)" by (rule prod_cases3)
    have k: "call_step E (activating pid gate allow qh, K, u) = (activating pid gate allow ph, H, v)" using Suc.prems q by simp
    have "thread_step E (K, u, C(t \<mapsto> activating pid gate allow qh))
        (H, v, (C(t \<mapsto> activating pid gate allow qh))(t \<mapsto> activating pid gate allow ph))"
      by (rule thread_step.call_runs [OF _ k]) simp
    from calm_reachable.step [OF Suc.IH [OF q] this] beside show ?case by (simp only: fun_upd_upd)
  qed
  have "calm_reachable E G0 (G', w', C(t \<mapsto> activating pid gate allow (act_done r)))"
    by (rule run [of 9]) (simp only: ActivatePlayer_run assms(5) Let_def prod.case)
  moreover have "thread_step E (G', w', C(t \<mapsto> activating pid gate allow (act_done r))) (G', w', (C(t \<mapsto> activating pid gate allow (act_done r)))(t := None))"
    by (rule thread_step.call_end) auto
  moreover have "(C(t \<mapsto> activating pid gate allow (act_done r)))(t := None) = C" using assms(2) by auto
  ultimately show ?thesis using calm_reachable.step assms(3) by metis
qed

section \<open>A login inside a pass\<close>

lemma call_begins_in:
  "thread_reachable E G0 (G, w, C) \<Longrightarrow> C t = None \<Longrightarrow> call_begins c \<Longrightarrow> thread_reachable E G0 (G, w, C(t \<mapsto> c))"
  by (rule thread_reachable.step [OF _ thread_step.call_begin])

lemma call_ends_in:
  "thread_reachable E G0 (G, w, C) \<Longrightarrow> C t = Some c \<Longrightarrow> call_returned c \<Longrightarrow> thread_reachable E G0 (G, w, C(t := None))"
  by (rule thread_reachable.step [OF _ thread_step.call_end])

lemma call_runs_on:
  assumes "thread_reachable E G0 (G, w, C)" and "C t = Some c" and "(call_step E ^^ n) (c, G, w) = (c', G', w')"
  shows "thread_reachable E G0 (G', w', C(t \<mapsto> c'))"
  using assms(3)
proof (induction n arbitrary: c' G' w')
  case 0
  then show ?case using assms(1,2) by (simp add: fun_upd_idem)
next
  case (Suc n)
  obtain d H v where d: "(call_step E ^^ n) (c, G, w) = (d, H, v)" by (rule prod_cases3)
  then have "thread_reachable E G0 (H, v, C(t \<mapsto> d))" by (rule Suc.IH)
  moreover have "thread_step E (H, v, C(t \<mapsto> d)) (G', w', (C(t \<mapsto> d))(t \<mapsto> c'))"
    using Suc.prems d by (intro thread_step.call_runs) auto
  ultimately show ?case using thread_reachable.step by fastforce
qed

lemma activating_runs:
  "(call_step E ^^ n) (activating pid gate allow ph, s) =
     (let (ph', s') = (activate_step E pid gate allow ^^ n) (ph, s) in (activating pid gate allow ph', s'))"
  by (induction n) (auto split: prod.splits)

lemma reconciling_runs:
  "(call_step E ^^ n) (reconciling ph, s) = (let (ph', s') = (reconcile_step E ^^ n) (ph, s) in (reconciling ph', s'))"
  by (induction n) (auto split: prod.splits)

lemma reconcile_others:
  assumes "quiet_for (ge_handler E) unbind_url" and "ipc_ok G"
    and "\<forall>ps \<in> set lost. \<not> IsHeldLocally (g_lease G) (fst ps)"
    and "fold (reconcile_player E now) lost (n, G, w) = (m, G', w')"
  shows "ipc_ok G' \<and> g_lease G' = g_lease G \<and> dependencies G' = dependencies G \<and>
     (\<forall>q. q \<notin> fst ` set lost \<longrightarrow> view G' q = view G q)"
  using assms(2-4)
proof (induction lost arbitrary: n G w)
  case (Cons ps lost)
  obtain pid seen where ps: "ps = (pid, seen)" by (cases ps)
  obtain k G1 w1 where r: "reconcile_player E now (pid, seen) (n, G, w) = (k, G1, w1)" by (rule prod_cases3)
  have "\<not> IsHeldLocally (g_lease G) pid" using Cons.prems(2) ps by simp
  note spec = reconcile_player_spec [OF assms(1) Cons.prems(1) this r]
  have ok1: "ipc_ok G1" using spec Cons.prems(1) ipc_ok_frame by blast
  have "\<forall>ps \<in> set lost. \<not> IsHeldLocally (g_lease G1) (fst ps)" using Cons.prems(2) spec by simp
  note IH = Cons.IH [OF ok1 this, of k w1]
  have "fold (reconcile_player E now) lost (k, G1, w1) = (m, G', w')" using Cons.prems(3) ps r by simp
  then show ?case using IH spec ok1 Cons.prems(1) by (auto simp: ps frame_def ipc_ok_def)
qed simp

text \<open>The state a login leaves behind that came between the collection and the unbind.\<close>

definition stranded :: "game \<Rightarrow> u64 \<Rightarrow> GateRef \<Rightarrow> bool" where
  "stranded G pid gate \<longleftrightarrow> ipc_ok G \<and> IsHeldLocally (g_lease G) pid \<and> \<not> bound_here G pid \<and>
     (\<exists>rec. session_of G pid = Some rec \<and> ss_state rec = st_online \<and> ss_gate rec = gate)"

text \<open>Neither a later pass nor another login of the player mends it.\<close>

lemma stranded_pass:
  assumes "quiet_for (ge_handler E) unbind_url" and "stranded G pid gate" and "ReconcileLeaseLosses E (G, w) = (m, G', w')"
  shows "stranded G' pid gate"
proof -
  obtain now w1 where n: "NowMs (ge_env E) w = (now, w1)" by (cases "NowMs (ge_env E) w")
  have ok: "ipc_ok G" and held: "IsHeldLocally (g_lease G) pid" using assms(2) by (simp_all add: stranded_def)
  have run: "fold (reconcile_player E now) (lost_players G) (0, G, w1) = (m, G', w')"
    using assms(3) n ok by (simp add: ReconcileLeaseLosses_def ipc_ok_def dependencies_def)
  have unheld: "\<forall>ps \<in> set (lost_players G). \<not> IsHeldLocally (g_lease G) (fst ps)" by (auto simp: lost_players_def lost_player_def)
  then have "pid \<notin> fst ` set (lost_players G)" using held by auto
  then have "view G' pid = view G pid" and "ipc_ok G'" using reconcile_others [OF assms(1) ok unheld run] by auto
  then show ?thesis using assms(2) by (simp add: stranded_def view_def)
qed

lemma stranded_login:
  assumes "stranded G pid gate"
  shows "\<exists>G' w'. ActivatePlayer E pid gate' allow (G, w) = (Success, G', w') \<and> stranded G' pid gate'"
proof -
  obtain rec where rec: "session_of G pid = Some rec" "ss_state rec = st_online" using assms by (auto simp: stranded_def)
  obtain now w1 where n: "NowMs (ge_env E) w = (now, w1)" by (cases "NowMs (ge_env E) w")
  have run: "ActivatePlayer E pid gate' allow (G, w) = (Success, set_session pid (bind_gate gate' now rec) G, w1)"
    using assms rec n by (simp add: ActivatePlayer_def stranded_def ipc_ok_def)
  have "stranded (set_session pid (bind_gate gate' now rec) G) pid gate'"
    using assms rec set_session_view [of pid G "bind_gate gate' now rec"]
    by (auto simp: stranded_def bind_gate_def bound_here_def frame_def)
  then show ?thesis using run by blast
qed

lemma reconcile_strands:
  assumes "quiet_for (ge_handler E) unbind_url" and "session_inv G" and "session_of G pid = Some rec" and "lost_player G (pid, rec)"
    and "ActivatePlayer E pid gate allow (G, w) = (r, G1, w1)" and "ok r"
    and "fold (reconcile_player E now) (lost_players G) (0, G1, v) = (m, G2, w2)"
  shows "stranded G2 pid gate"
proof -
  have on1: "online_with G1 pid gate" and f1: "frame pid G G1"
    using ActivatePlayer_spec [OF assms(2,5)] assms(6) by (auto simp: activation_spec_def)
  have ok1: "ipc_ok G1" using f1 assms(2) ipc_ok_frame unfolding session_inv_def by blast
  have "(pid, rec) \<in> set (lost_players G)" using assms(3,4) by (auto simp: lost_players_def session_of_def dest: map_of_SomeD)
  then obtain pre post where lp: "lost_players G = pre @ (pid, rec) # post" by (meson split_list)
  have "distinct (map fst (lost_players G))"
    using assms(2) distinct_map_filter by (auto simp: lost_players_def session_inv_def)
  then have out: "pid \<notin> fst ` set pre" "pid \<notin> fst ` set post" by (auto simp: lp)
  have unheld: "\<not> IsHeldLocally (g_lease G1) (fst ps)" if "ps \<in> set (pre @ post)" for ps
  proof -
    have "ps \<in> set (lost_players G)" using that by (auto simp: lp)
    then have "\<not> IsHeldLocally (g_lease G) (fst ps)" by (auto simp: lost_players_def lost_player_def)
    moreover have "fst ps \<noteq> pid" using that out by auto
    ultimately show ?thesis using f1 by (auto simp: frame_def view_def)
  qed
  obtain k H u where pre: "fold (reconcile_player E now) pre (0, G1, v) = (k, H, u)" by (rule prod_cases3)
  have ph: "ipc_ok H \<and> g_lease H = g_lease G1 \<and> view H pid = view G1 pid"
    using reconcile_others [OF assms(1) ok1 _ pre] unheld out by auto
  obtain k' H' u' where mid: "reconcile_player E now (pid, rec) (k, H, u) = (k', H', u')" by (rule prod_cases3)
  obtain H1 u1 where no: "notify_gate E pid rec (H, u) = (H1, u1)" by (cases "notify_gate E pid rec (H, u)")
  have v1: "ipc_ok H1" "view H1 pid = view H pid" "g_lease H1 = g_lease H"
    using notify_gate_view [OF _ no] assms(1) unbind_request_url ph by metis+
  note ub = unbind_player_view [OF v1(1), of pid]
  have held: "IsHeldLocally (g_lease (unbind_player pid H1)) pid"
    using on1 ph v1(3) ub by (auto simp: online_with_def view_def split: option.splits)
  have H': "H' = unbind_player pid H1"
    using mid no held by (auto simp: reconcile_player_def recheck_player_def split: option.splits)
  have str: "stranded H' pid gate"
    using on1 ph v1 ub held ipc_ok_frame [of pid H1 H']
    by (auto simp: stranded_def H' online_with_def view_def split: option.splits)
  have "fold (reconcile_player E now) post (k', H', u') = (m, G2, w2)" using assms(7) pre mid by (simp add: lp)
  moreover have "\<forall>ps \<in> set post. \<not> IsHeldLocally (g_lease H') (fst ps)" using unheld ph v1(3) ub by (simp add: H')
  ultimately have "ipc_ok G2 \<and> view G2 pid = view H' pid"
    using reconcile_others [OF assms(1) _ _ \<open>fold (reconcile_player E now) post (k', H', u') = (m, G2, w2)\<close>] str out
    by (auto simp: stranded_def)
  then show ?thesis using str by (simp add: stranded_def view_def)
qed

text \<open>
  C36. A login that comes between a reconcile pass's collection and its unbind is lost: there is a history of the
  two threads after which both calls have returned and the player is online for the gate of the login, its lease
  held, and not bound, so that its messages have no receiver; every later pass and every later login of the
  player leaves it so.
\<close>

theorem login_inside_a_pass_strands_the_player:
  assumes "quiet_for (ge_handler E) unbind_url" and "session_inv G" and "session_of G pid = Some rec" and "lost_player G (pid, rec)"
    and "ActivatePlayer E pid gate allow (G, w) = (r, G1, w1)" and "ok r"
  shows "\<exists>G2 w2. thread_reachable E G (G2, w2, Map.empty) \<and> stranded G2 pid gate \<and>
     (\<forall>w3 m G3 w4. ReconcileLeaseLosses E (G2, w3) = (m, G3, w4) \<longrightarrow> stranded G3 pid gate) \<and>
     (\<forall>gate' allow' w3. \<exists>G3 w4. ActivatePlayer E pid gate' allow' (G2, w3) = (Success, G3, w4) \<and> stranded G3 pid gate')"
proof -
  have deps: "has_lease G" "has_ipc G" using assms(2) by (auto simp: session_inv_def ipc_ok_def dependencies_def)
  let ?lost = "lost_players G"
  obtain now v where n: "NowMs (ge_env E) w1 = (now, v)" by (cases "NowMs (ge_env E) w1")
  obtain m G2 w2 where f: "fold (reconcile_player E now) ?lost (0, G1, v) = (m, G2, w2)" by (rule prod_cases3)
  have R0: "thread_reachable E G (G, w, [0 \<mapsto> reconciling rec_collect])"
    by (rule call_begins_in [OF thread_reachable.start]) simp_all
  have R1: "thread_reachable E G (G, w, [0 \<mapsto> reconciling (rec_clock ?lost)])"
    using call_runs_on [OF R0, of 0 "reconciling rec_collect" 1] deps by simp
  have R2: "thread_reachable E G (G, w, [0 \<mapsto> reconciling (rec_clock ?lost), 1 \<mapsto> activating pid gate allow act_check])"
    by (rule call_begins_in [OF R1]) simp_all
  have act: "(call_step E ^^ 9) (activating pid gate allow act_check, G, w) = (activating pid gate allow (act_done r), G1, w1)"
    unfolding activating_runs ActivatePlayer_run by (simp add: assms(5))
  have R3: "thread_reachable E G (G1, w1, [0 \<mapsto> reconciling (rec_clock ?lost), 1 \<mapsto> activating pid gate allow (act_done r)])"
    using call_runs_on [OF R2 _ act, of 1] by simp
  have R4: "thread_reachable E G (G1, w1, [0 \<mapsto> reconciling (rec_clock ?lost)])"
    using call_ends_in [OF R3, of 1] by (simp add: fun_upd_twist)
  have clock: "(reconcile_step E ^^ 1) (rec_clock ?lost, G1, w1) = (rec_notify now 0 ?lost, G1, v)" using n by simp
  have rest: "(reconcile_step E ^^ (3 * length ?lost + 1 + 1)) (rec_clock ?lost, G1, w1) = (rec_done m, G2, w2)"
    unfolding funpow_add [of "3 * length ?lost + 1" 1] o_apply clock reconcile_all_run f by simp
  have pass: "(call_step E ^^ (3 * length ?lost + 1 + 1)) (reconciling (rec_clock ?lost), G1, w1) = (reconciling (rec_done m), G2, w2)"
    unfolding reconciling_runs rest by simp
  have R5: "thread_reachable E G (G2, w2, [0 \<mapsto> reconciling (rec_done m)])"
    using call_runs_on [OF R4 _ pass, of 0] by simp
  have "thread_reachable E G (G2, w2, Map.empty)"
    using call_ends_in [OF R5, of 0] by simp
  moreover have str: "stranded G2 pid gate" by (rule reconcile_strands [OF assms f])
  moreover have "\<forall>w3 m G3 w4. ReconcileLeaseLosses E (G2, w3) = (m, G3, w4) \<longrightarrow> stranded G3 pid gate"
    by (intro allI impI) (rule stranded_pass [OF assms(1) str])
  moreover have "\<forall>gate' allow' w3. \<exists>G3 w4. ActivatePlayer E pid gate' allow' (G2, w3) = (Success, G3, w4) \<and> stranded G3 pid gate'"
    by (intro allI) (rule stranded_login [OF str])
  ultimately show ?thesis by blast
qed

end
