(* ===== verification/Player_Examples.thy ===== *)
theory Player_Examples
  imports Sample_World Session_Threads
begin

text \<open>
  Concrete inputs for the properties of the storage layer and of the player services: a login, a rename, a game
  whose lease is gone, two games on one server, a replica that refuses to write, a codec that cannot write.
\<close>

section \<open>Handlers\<close>

definition sample_login :: LoginPlayerRequest where
  "sample_login = \<lparr>lq_request_id = 1, lq_gate = sample_gate, lq_platform = ''p'', lq_account_id = ''a'', lq_area_id = 1\<rparr>"

theorem login_answer_spec_witness:
  "\<exists>resp D' G' w'. login_answer sample_env default_Envelope sample_login
      (new_directory (Some sample_storage) ''player'', sample_game, memory_world0) = Some (Inr resp, D', G', w') \<and>
     lr_result_code resp = RESULT_CODE_OK \<and> online_with G' 100000 sample_gate"
proof -
  let ?w = "first_world (account_MakeKey ''p'' ''a'' 1)"
  obtain act G' w' where a: "ActivatePlayer sample_env 100000 sample_gate True (sample_game, ?w) = (act, G', w')"
    by (metis prod_cases3)
  have "unseen 100000 ?w" by (simp add: unseen_def first_world_def memory_world0_def)
  then have "act = Success" using activates [of 100000 ?w sample_gate True] a by simp
  then have l: "login_answer sample_env default_Envelope sample_login
      (new_directory (Some sample_storage) ''player'', sample_game, memory_world0) =
        Some (Inr (login_response default_Envelope sample_login 100000 Success),
          cache_entry (account_MakeKey ''p'' ''a'' 1) 100000 (new_directory (Some sample_storage) ''player''), G', w')"
    using a first_resolve [of kRefreshScript kReleaseScript]
    by (simp add: login_answer_def sample_login_def sample_env_def [THEN arg_cong [where f = ge_env]])
  show ?thesis using login_answer_spec [OF sample_game_inv l] l by (auto simp: login_response_def sample_login_def)
qed

definition echo_codec :: handler_codec where
  "echo_codec = \<lparr>hc_login = (\<lambda>r. []), hc_reconnect = (\<lambda>r. []), hc_forward = (\<lambda>r. []), hc_push = (\<lambda>p. []),
     hc_parse_echo = Some, hc_echo = (\<lambda>r. Some (echo_text r)), hc_parse_rename = Some, hc_rename = (\<lambda>(pid, name). Some name),
     hc_profile = (\<lambda>p. Some (push_display_name p))\<rparr>"

definition sample_rename :: ForwardPlayerMessageRequest where
  "sample_rename = \<lparr>fq_request_id = 1, fq_player_id = 7, fq_message_id = MESSAGE_ID_PLAYER_RENAME_REQUEST,
     fq_payload_bytes = ''x'', fq_client_sequence = 1\<rparr>"

lemma active_runtime: "runtime_ids (g_runtime active_game) \<and> map_of (rt_mPlayers (g_runtime active_game)) 7 = Some \<lparr>mPlayerId = 7, mCommandCount = 0\<rparr> \<and> rt_has_repository (g_runtime active_game)"
  by (simp add: active_game_def ActivatePlayer_def acquire_then_def start_session_def call_lease_def lease_Acquire_def call_repository_def
        LoadPlayer_def sample_world_defs DatasetGet_def redis_calls BuildKey_def entries_suffix_def memory_world0_def
        EnsureMariaEntriesTable_def Let_def finish_load_def dependencies_def session_of_def init_player_def)
      (simp add: call_ipc_def BindLocalPlayer_def player_host_Bind_def empty_player_host_def directory_def Bind_def Let_def
        set_directory_def default_Entry_def bind_failed_def ensure_runtime_def EnsurePlayer_def repo_loaded_def repo_Snapshot_def
        case_prod_beta set_session_def runtime_ids_def)

theorem forward_answer_spec_witness:
  "\<exists>resp G' w'. forward_answer sample_env echo_codec sample_rename (active_game, active_world) = (resp, G', w') \<and>
     repo_Snapshot (g_repository G') 7 \<noteq> repo_Snapshot (g_repository active_game) 7 \<and> IsHeldLocally (g_lease active_game) 7"
proof -
  obtain r where r: "repo_Snapshot (g_repository active_game) 7 = Some r" "loaded r" "display_name (data r) = ''player_'' @ to_string (7 :: u64)"
    using active_record by blast
  obtain rec where s: "session_of active_game 7 = Some rec" "ss_state rec = st_online" "IsHeldLocally (g_lease active_game) 7"
    using active_online by (auto simp: online_with_def view_def split: option.splits)
  obtain resp G' w' where f: "forward_answer sample_env echo_codec sample_rename (active_game, active_world) = (resp, G', w')"
    by (metis prod_cases3)
  have ne: "r\<lparr>data := data r\<lparr>display_name := ''x''\<rparr>, dirty := b, last_dirty_ms := t\<rparr> \<noteq> r" for b t
  proof
    assume eq: "r\<lparr>data := data r\<lparr>display_name := ''x''\<rparr>, dirty := b, last_dirty_ms := t\<rparr> = r"
    have "display_name (data (r\<lparr>data := data r\<lparr>display_name := ''x''\<rparr>, dirty := b, last_dirty_ms := t\<rparr>)) = ''x''" by simp
    then show False unfolding eq r(3) by simp
  qed
  have "repo_Snapshot (g_repository G') 7 \<noteq> repo_Snapshot (g_repository active_game) 7"
    using f r s active_runtime
    by (auto simp: forward_answer_def sample_rename_def player_Dispatch_def builtin_handlers_def player_Register_def echo_codec_def
        HandleRename_def rt_HandleRename_def SetDisplayName_def with_loaded_def Let_def repo_Snapshot_def
        MESSAGE_ID_PLAYER_ECHO_REQUEST_def MESSAGE_ID_PLAYER_RENAME_REQUEST_def ne split: prod.splits)
  moreover note forward_answer_spec [OF _ f this]
  ultimately show ?thesis using f active_runtime by blast
qed

definition lost_game :: game where
  "lost_game = active_game\<lparr>g_lease := sample_lease\<rparr>"

lemma lost_game_inv: "session_inv lost_game"
  by (rule session_inv_quiet [OF active_inv]) (simp_all add: lost_game_def IsHeldLocally_def sample_lease_def)

lemma sample_acquire: "fst (lease_Acquire (memory_env rf rl) 7 (sample_lease, memory_world0)) = Success"
  by (simp add: lease_Acquire_def memory_env_def mem_command_def sample_lease_def memory_world0_def NowMs_def Let_def)

lemma lost_game_recovers: "fst (ActivatePlayer sample_env 7 sample_gate True (lost_game, memory_world0)) = Success"
proof -
  obtain rec where rec: "session_of active_game 7 = Some rec" "ss_state rec = st_online" "bound_here active_game 7"
    and run: "rt_tracked (g_runtime active_game) 7"
    using active_online by (auto simp: online_with_def view_def split: option.splits)
  obtain q where q: "repo_Snapshot (g_repository active_game) 7 = Some q" "loaded q" using active_record by blast
  have d: "dependencies active_game" using active_inv by (simp add: session_inv_def ipc_ok_def)
  obtain L w where a: "lease_Acquire (ge_env sample_env) 7 (sample_lease, memory_world0) = (Success, L, w)"
    using sample_acquire [of kRefreshScript kReleaseScript] by (cases "lease_Acquire (ge_env sample_env) 7 (sample_lease, memory_world0)")
      (auto simp: sample_env_def)
  let ?G = "active_game\<lparr>g_lease := L\<rparr>"
  have b: "call_ipc (BindLocalPlayer 7) ?G = (Failure ''player is already bound locally'', ?G)"
    using rec(3) active_inv
    by (auto simp: call_ipc_def BindLocalPlayer_def player_host_Bind_def bound_here_def player_host_IsBound_def session_inv_def ipc_ok_def)
  have e: "ensure_runtime 7 ?G = (Success, ?G)"
    using run q active_runtime by (auto simp: ensure_runtime_def EnsurePlayer_def rt_tracked_def repo_loaded_def)
  show ?thesis
    using rec q d a b e
    by (simp add: ActivatePlayer_def acquire_then_def call_lease_def recover_session_def lost_game_def bind_failed_def
        session_of_def IsHeldLocally_def sample_lease_def case_prod_beta)
qed

theorem login_inside_a_pass_strands_the_player_witness:
  "\<exists>G w. thread_reachable sample_env lost_game (G, w, Map.empty) \<and> stranded G 7 sample_gate \<and> bound_here lost_game 7"
proof -
  obtain G1 w1 where r: "ActivatePlayer sample_env 7 sample_gate True (lost_game, memory_world0) = (Success, G1, w1)"
    using lost_game_recovers by (metis prod.collapse)
  obtain rec where s: "session_of active_game 7 = Some rec" "ss_state rec = st_online" "bound_here active_game 7"
    using active_online by (auto simp: online_with_def view_def split: option.splits)
  have l: "session_of lost_game 7 = Some rec" "lost_player lost_game (7, rec)"
    using s by (simp_all add: lost_player_def lost_game_def IsHeldLocally_def sample_lease_def session_of_def)
  show ?thesis
    using login_inside_a_pass_strands_the_player [OF sample_quiet lost_game_inv l r] s(3)
    by (auto simp: lost_game_def bound_here_def)
qed

definition other_lease :: PlayerLeaseService where
  "other_lease = sample_lease\<lparr>mGameInstanceId := 2\<rparr>"

definition held_lease :: PlayerLeaseService where
  "held_lease = fst (snd (lease_Acquire (memory_env kRefreshScript kReleaseScript) 7 (sample_lease, memory_world0)))"

definition held_world :: memory_world where
  "held_world = snd (snd (lease_Acquire (memory_env kRefreshScript kReleaseScript) 7 (sample_lease, memory_world0)))"

lemma held: "lease_Acquire (memory_env kRefreshScript kReleaseScript) 7 (sample_lease, memory_world0) = (Success, held_lease, held_world)"
  using sample_acquire [of kRefreshScript kReleaseScript] by (simp add: held_lease_def held_world_def prod_eq_iff)

lemma held_handle: "lease_mRedis held_lease = Some 1" "mRedisKeyPrefix held_lease = ''k:game:player:lease:''" "leases_own held_lease"
  by (simp_all add: held_lease_def lease_Acquire_def memory_env_def mem_command_def sample_lease_def memory_world0_def NowMs_def
      Let_def set_tracked_def leases_own_def)

lemma held_renews:
  assumes "mem_keys w = mem_keys held_world" and "\<not> mem_down w"
  shows "IsHeldLocally (fst (RenewPass (memory_env kRefreshScript kReleaseScript) (held_lease, w))) 7 \<and>
     mem_keys (snd (RenewPass (memory_env kRefreshScript kReleaseScript) (held_lease, w))) = mem_keys held_world \<and>
     \<not> mem_down (snd (RenewPass (memory_env kRefreshScript kReleaseScript) (held_lease, w)))"
  using assms
  by (simp add: held_lease_def held_world_def lease_Acquire_def memory_env_def mem_command_def sample_lease_def memory_world0_def NowMs_def
      Let_def set_tracked_def RenewPass_def RefreshLeaseLocked_def BuildKey_def count_renew_def drop_lost_def IsHeldLocally_def)

lemma held_world_up: "\<not> mem_down held_world"
  by (simp add: held_world_def lease_Acquire_def memory_env_def mem_command_def sample_lease_def memory_world0_def NowMs_def Let_def)

text \<open>A process that lost the lease of player 7 while it was away, without noticing.\<close>

definition stale_lease :: PlayerLeaseService where
  "stale_lease = held_lease\<lparr>mGameInstanceId := 2, mLeases := [(7, \<lparr>game_service_type = 10, game_instance_id = 2, token = ''t''\<rparr>)]\<rparr>"

theorem Release_own_only_witness:
  "\<exists>r L' w'. lease_Release (memory_env kRefreshScript kReleaseScript) 7 (held_lease, held_world) = (r, L', w') \<and> \<not> IsHeldLocally L' 7"
proof -
  obtain r L' w' where rel: "lease_Release (memory_env kRefreshScript kReleaseScript) 7 (held_lease, held_world) = (r, L', w')"
    by (metis prod_cases3)
  have "IsHeldLocally held_lease 7"
    by (simp add: held_lease_def lease_Acquire_def memory_env_def mem_command_def sample_lease_def memory_world0_def NowMs_def Let_def
        set_tracked_def IsHeldLocally_def)
  then have "r = Success" using rel by (auto simp: lease_Release_def IsHeldLocally_def Let_def split: prod.splits)
  then show ?thesis using Release_own_only [OF memory_release held_handle(1) rel] rel by auto
qed

definition sample_record :: PlayerRepositoryRecord where
  "sample_record = default_PlayerRepositoryRecord\<lparr>loaded := True, dirty := True, data := empty_PlayerData\<lparr>display_name := ''n''\<rparr>\<rparr>"

definition sample_repository :: PlayerRepository where
  "sample_repository = \<lparr>repo_storage = Some sample_storage, mDatasetName = ''player'', repo_mPlayers = [(7, sample_record)]\<rparr>"

lemmas put_simps = DatasetPut_def EnsureMariaEntriesTable_def redis_calls memory_env_def mem_command_def storage_ok_def
  status_result_def str_or_def redis_error_def Let_def entries_suffix_def

lemma sample_put: "\<not> mem_down w \<Longrightarrow> fst (DatasetPut (memory_env rf rl) sample_storage ''player'' (to_string (7 :: u64)) v w) = storage_ok ''OK'' \<and>
    \<not> mem_down (snd (DatasetPut (memory_env rf rl) sample_storage ''player'' (to_string (7 :: u64)) v w))"
  by (simp add: put_simps)

theorem flush_release_load_witness:
  "\<exists>r R1 w1 R3 w3 p3. FlushPlayer (memory_env [] []) sample_codec 7 (sample_repository, memory_world0) = (r, R1, w1) \<and>
     LoadPlayer (memory_env [] []) sample_codec 7 False (snd (repo_ReleasePlayer 7 R1), w1) = (Success, R3, w3) \<and>
     repo_Snapshot R3 7 = Some p3 \<and> data p3 = data sample_record"
proof -
  obtain r R1 w1 where f: "FlushPlayer (memory_env [] []) sample_codec 7 (sample_repository, memory_world0) = (r, R1, w1)" by (metis prod_cases3)
  obtain put wp where p: "DatasetPut (memory_env [] []) sample_storage ''player'' (to_string (7 :: u64)) ''n'' memory_world0 = (put, wp)"
    by (cases "DatasetPut (memory_env [] []) sample_storage ''player'' (to_string (7 :: u64)) ''n'' memory_world0")
  have put: "put = storage_ok ''OK''" "\<not> mem_down wp" using sample_put [of memory_world0 "[]" "[]" "''n''"] p by (simp_all add: memory_world0_def)
  have ok: "ok r" and w1: "\<not> mem_down w1"
    using f p put by (auto simp: FlushPlayer_def with_loaded_def sample_repository_def sample_record_def sample_codec_def NowMs_def memory_env_def)
  obtain g w2 where g: "redisCommand (memory_env [] []) 1 [''GET'', cache_key sample_storage ''player'' (to_string (7 :: u64))] w1 = (Some g, w2)"
    using w1 by (simp add: memory_env_def mem_command_def)
  have S: "repo_storage sample_repository = Some sample_storage" "mDatasetName sample_repository = ''player''"
    "repo_Snapshot sample_repository 7 = Some sample_record" "data sample_record = empty_PlayerData\<lparr>display_name := ''n''\<rparr>"
    by (simp_all add: sample_repository_def sample_record_def repo_Snapshot_def)
  show ?thesis
    using flush_release_load [OF memory_set memory_get memory_clock S(1) _ S(3) _ _ f ok, of 1 "''n''" wp g w2] f p put g
    by (auto simp: S sample_codec_def)
qed

theorem DatasetPut_Get_witness:
  "\<exists>w1 w2. DatasetPut (memory_env [] []) sample_storage ''player'' ''7'' ''n'' memory_world0 = (storage_ok ''OK'', w1) \<and>
     DatasetGet (memory_env [] []) sample_storage ''player'' ''7'' [] w1 = (storage_ok ''redis'', ''n'', w2)"
proof -
  obtain put w1 where p: "DatasetPut (memory_env [] []) sample_storage ''player'' ''7'' ''n'' memory_world0 = (put, w1)"
    by (cases "DatasetPut (memory_env [] []) sample_storage ''player'' ''7'' ''n'' memory_world0")
  then have "put = storage_ok ''OK''" "\<not> mem_down w1" by (auto simp: put_simps memory_world0_def)
  moreover obtain g w2 where "redisCommand (memory_env [] []) 1 [''GET'', cache_key sample_storage ''player'' ''7''] w1 = (Some g, w2)"
    using calculation(2) by (simp add: memory_env_def mem_command_def)
  ultimately show ?thesis
    using DatasetPut_Get [OF memory_set memory_get, of sample_storage "''player''" 1 "[]" "[]" "''7''" "''n''" memory_world0 w1 g w2 "[]"] p
    by auto
qed

text \<open>A server that refuses to write, as a read-only replica does.\<close>

definition read_only_env :: "memory_world env" where
  "read_only_env = (memory_env [] [])\<lparr>redisCommand := (\<lambda>h argv w.
     if hd argv = ''SET'' then (Some (REDIS_ERROR ''READONLY''), w) else mem_command [] [] h argv (w\<lparr>mem_down := False\<rparr>))\<rparr>"

lemma read_only:
  "get_documented read_only_env h mem_kv" "maria_takes read_only_env m mem_kv" "refuses_write read_only_env h mem_kv key"
  "fst (redisCommand read_only_env h [''GET'', key] w) \<noteq> None"
  by (auto simp: get_documented_def maria_takes_def refuses_write_def read_only_env_def memory_env_def mem_command_def mem_kv_def split: if_splits)

definition cached_world :: memory_world where
  "cached_world = memory_world0\<lparr>mem_keys := [(''k:p:entries:7'', ''old'')]\<rparr>"

theorem DatasetPut_stale_witness:
  "\<exists>p w1 w2. DatasetPut read_only_env sample_storage ''player'' ''7'' ''new'' cached_world = (p, w1) \<and> ok p \<and>
     DatasetGet read_only_env sample_storage ''player'' ''7'' [] w1 = (storage_ok ''redis'', ''old'', w2)"
proof -
  have key: "mem_kv cached_world (cache_key sample_storage ''player'' ''7'') = Some ''old''"
    by (simp add: cache_key_def entries_suffix_def mem_kv_def cached_world_def)
  have maria: "GetMariaForDataset sample_storage ''player'' = Some 1" by simp
  show ?thesis
    using DatasetPut_stale [where S = sample_storage and name = "''player''" and k = "''7''" and h = 1 and m = 1 and w = cached_world and old = "''old''"
        and v = "''new''" and x = "[]", OF read_only(1-3)]
      read_only(4) key maria by auto
qed

definition sample_configuration :: StorageConfiguration where
  "sample_configuration = \<lparr>defaults = timing sample_dataset, datasets = [(''player'',
     \<lparr>ds_redis = ''r'', ds_maria = ''m'', ds_redis_prefix = ''p:'', ds_table_prefix = ''t_'',
      ds_timing = \<lparr>alive_time_seconds = 0, landing_time_seconds = 0, landing_min_time_seconds = 9\<rparr>\<rparr>)]\<rparr>"

theorem ResolveStorageConfiguration_spec_witness:
  "\<exists>r e d. ResolveStorageConfiguration [(''r'', rd_redis sample_dataset)] [(''m'', rd_maria sample_dataset)] sample_configuration [] = (True, r, e) \<and>
     FindDataset r ''player'' = Some d \<and> resolved_ok [(''r'', rd_redis sample_dataset)] [(''m'', rd_maria sample_dataset)] d"
proof -
  obtain good r e where res: "ResolveStorageConfiguration [(''r'', rd_redis sample_dataset)] [(''m'', rd_maria sample_dataset)]
      sample_configuration [] = (good, r, e)" by (metis prod_cases3)
  have good: "good"
    using res by (auto simp: ResolveStorageConfiguration_def sample_configuration_def sample_dataset_def resolve_dataset_def
        resolve_timing_def ResolveTimingValue_def IsSafeTablePrefix_def isalnum_def Let_def split: sum.splits)
  note spec = ResolveStorageConfiguration_spec [OF res, THEN conjunct1, rule_format, OF good]
  have "FindDataset r ''player'' \<noteq> None" unfolding spec [THEN conjunct1, rule_format] by (simp add: sample_configuration_def)
  then obtain d where d: "FindDataset r ''player'' = Some d" by blast
  then have "resolved_ok [(''r'', rd_redis sample_dataset)] [(''m'', rd_maria sample_dataset)] d"
    using spec by blast
  moreover have "ResolveStorageConfiguration [(''r'', rd_redis sample_dataset)] [(''m'', rd_maria sample_dataset)] sample_configuration [] = (True, r, e)"
    using res good by simp
  ultimately show ?thesis using d by blast
qed

theorem ParseRedisEndpoint_roundtrip_witness:
  "ParseRedisEndpoint \<lparr>redis_endpoints = [''h'' @ CHR '':'' # to_string (6379 :: u16)], redis_password = [], redis_database = 0, key_prefix = []\<rparr>
     = Inr (''h'', 6379)"
  by (rule ParseRedisEndpoint_roundtrip [where rest = "[]"]) simp_all

theorem ComputeRetryDelayMs_exact_witness:
  "unat (ComputeRetryDelayMs [(''player'', sample_dataset)] 3) = 20000"
  using ComputeRetryDelayMs_exact [of "[(''player'', sample_dataset)]" sample_dataset 3]
  by (simp add: FindDataset_def) (simp add: sample_dataset_def)

definition sample_persistence :: PlayerPersistenceService where
  "sample_persistence = \<lparr>pp_configuration = [(''player'', sample_dataset)], has_session = True,
     pp_mSnapshot = \<lparr>pp_running = True, scan_count = 0, pp_tracked_player_count = 0, pending_initial_persist_count = 0,
       created_without_maria_count = 0, flush_attempt_count = 0, flush_success_count = 0, flush_failure_count = 0,
       last_scan_ms = 0, last_flush_player_id = 0, pp_last_flush_ms = 0, pp_last_error = []\<rparr>, mRetryStates = []\<rparr>"

theorem FlushDuePlayersOnce_spec_witness:
  "\<exists>n P' G' w'. FlushDuePlayersOnce sample_env (sample_persistence, active_game, active_world) = (n, P', G', w') \<and> session_inv G'"
proof -
  obtain n P' G' w' where f: "FlushDuePlayersOnce sample_env (sample_persistence, active_game, active_world) = (n, P', G', w')"
    by (metis prod_cases4)
  then show ?thesis using FlushDuePlayersOnce_spec [OF active_inv f] by blast
qed

text \<open>A build whose codec cannot write the record.\<close>

definition no_codec_env :: "memory_world game_env" where
  "no_codec_env = sample_env\<lparr>ge_codec := sample_codec\<lparr>pd_serialize := (\<lambda>d. None)\<rparr>\<rparr>"

lemma no_codec_flush:
  assumes "repo_Snapshot R pid = Some r" and "loaded r"
  shows "FlushPlayer (ge_env no_codec_env) (ge_codec no_codec_env) pid (R, w) = (Failure ''failed to serialize player data'', R, w)"
  using assms by (simp add: FlushPlayer_def with_loaded_def no_codec_env_def repo_Snapshot_def)

lemma active_deps: "dependencies active_game"
  using active_inv by (simp add: session_inv_def ipc_ok_def)

definition detached_game :: game where
  "detached_game = sample_game\<lparr>sessions := [(7, default_session\<lparr>ss_state := st_detached\<rparr>)]\<rparr>"

theorem ReleasePlayer_stuck_witness:
  "\<exists>r G' w'. ReleasePlayer sample_env 7 (detached_game, memory_world0) = (r, G', w') \<and> \<not> ok r \<and>
     ActivatePlayer sample_env 7 sample_gate True (G', w') = (transitioning, G', w')"
proof -
  obtain r G' w' where rel: "ReleasePlayer sample_env 7 (detached_game, memory_world0) = (r, G', w')" by (metis prod_cases3)
  have "dependencies detached_game" "session_of detached_game 7 = Some (default_session\<lparr>ss_state := st_detached\<rparr>)"
    "\<not> is_dirty detached_game 7" "\<not> bound_here detached_game 7"
    by (simp_all add: detached_game_def dependencies_def sample_game_def session_of_def is_dirty_def repo_Snapshot_def bound_here_def
        sample_ipc_def empty_player_host_def player_host_IsBound_def)
  from ReleasePlayer_stuck [OF this rel] show ?thesis using rel by blast
qed

section \<open>Persistence\<close>

definition no_counts :: pass_counts where
  "no_counts = \<lparr>pc_tracked = 0, pc_pending = 0, pc_without_maria = 0, pc_flushed = 0\<rparr>"

lemma active_due: "repo_Snapshot (g_repository active_game) 7 = Some r \<Longrightarrow> ShouldFlush P 7 r s now"
  by (simp add: active_game_def ActivatePlayer_def acquire_then_def start_session_def call_lease_def lease_Acquire_def call_repository_def
        LoadPlayer_def sample_world_defs DatasetGet_def redis_calls BuildKey_def entries_suffix_def memory_world0_def
        EnsureMariaEntriesTable_def Let_def finish_load_def dependencies_def session_of_def init_player_def)
      (auto simp: call_ipc_def BindLocalPlayer_def player_host_Bind_def empty_player_host_def directory_def Bind_def Let_def
        set_directory_def default_Entry_def bind_failed_def ensure_runtime_def EnsurePlayer_def repo_loaded_def repo_Snapshot_def
        case_prod_beta set_session_def InitializeDefaultPlayerData_def default_PlayerRepositoryRecord_def ShouldFlush_def)

theorem flush_due_failure_witness:
  "\<exists>c' P' w' retry. flush_due no_codec_env 40000 7 (no_counts, sample_persistence, active_game, active_world) = (c', P', active_game, w') \<and>
     map_of (mRetryStates P') 7 = Some retry \<and> consecutive_failure_count retry = 1"
proof -
  obtain r where r: "repo_Snapshot (g_repository active_game) 7 = Some r" "loaded r" using active_record by blast
  obtain rec where held: "IsHeldLocally (g_lease active_game) 7"
    using active_online by (auto simp: online_with_def view_def split: option.splits)
  obtain c' P' G' w' where f: "flush_due no_codec_env 40000 7 (no_counts, sample_persistence, active_game, active_world) = (c', P', G', w')"
    by (metis prod_cases4)
  show ?thesis
    using flush_due_failure [OF r(1) held active_due [OF r(1)] no_codec_flush [OF r] _ f] f by (auto simp: sample_persistence_def)
qed

theorem ReleasePlayer_flush_failed_witness:
  "\<exists>why w'. ReleasePlayer no_codec_env 7 (active_game, active_world) = (Failure why, active_game, w')"
proof -
  obtain rec where s: "session_of active_game 7 = Some rec" using active_online by (auto simp: online_with_def view_def split: option.splits)
  obtain r where r: "repo_Snapshot (g_repository active_game) 7 = Some r" "loaded r" "dirty r" using active_record by blast
  obtain now w1 where n: "NowMs (ge_env no_codec_env) active_world = (now, w1)" by (cases "NowMs (ge_env no_codec_env) active_world")
  show ?thesis
    using ReleasePlayer_flush_failed [OF active_deps s _ n no_codec_flush [OF r(1,2)]] r by (auto simp: is_dirty_def)
qed

end
