(* ===== verification/Lifecycle.thy ===== *)
theory Lifecycle
  imports Prelude
begin

text \<open>
  The application base class (src/src/framework/application/base.h): services in batches, loaded and started forward,
  stopped and unloaded in reverse, with a rollback of what was done when one of them throws. An exception is its text. Every
  stage in this repository returns a completed \<^verbatim>\<open>LifecycleTask\<close>, so \<^verbatim>\<open>Wait\<close> returns at once and a stage is one step on the
  state \<open>'w\<close> of everything outside.
\<close>

section \<open>Services and applications\<close>

datatype stage = stage_Load | stage_Start | stage_Stop | stage_Unload

record service =
  GetName :: string
  GetBatch :: int

type_synonym exn = string
type_synonym 'w action = "'w \<Rightarrow> exn option \<times> 'w"

text \<open>What a concrete application brings: its services, its commands, its four hooks, and the stages of the services.\<close>

record 'w app_env =
  app_name :: string
  app_services :: "service list" \<comment> \<open>those its \<^verbatim>\<open>RegisterServices\<close> adds, in that order\<close>
  app_commands :: "'w action" \<comment> \<open>\<^verbatim>\<open>RegisterRuntimeCommands\<close>\<close>
  app_hook :: "stage \<Rightarrow> 'w action" \<comment> \<open>\<^verbatim>\<open>OnLoad\<close>, \<^verbatim>\<open>OnStart\<close>, \<^verbatim>\<open>OnStop\<close>, \<^verbatim>\<open>OnUnload\<close>\<close>
  svc_stage :: "stage \<Rightarrow> service \<Rightarrow> 'w action"

record application =
  mServices :: "service list"
  mServicesInOrder :: "service list"
  mLoadedServices :: "service list"
  mStartedServices :: "service list"
  mServicesRegistered :: bool
  mRuntimeCommandsRegistered :: bool

definition new_application :: application where
  "new_application = \<lparr>mServices = [], mServicesInOrder = [], mLoadedServices = [], mStartedServices = [],
     mServicesRegistered = False, mRuntimeCommandsRegistered = False\<rparr>"

section \<open>Registration\<close>

definition AddService :: "service \<Rightarrow> application \<Rightarrow> exn option \<times> application" where
  "AddService s A = (if GetName s = [] then (Some ''service name must not be empty'', A)
     else (None, A\<lparr>mServices := mServices A @ [s]\<rparr>))"

fun add_services :: "service list \<Rightarrow> application \<Rightarrow> exn option \<times> application" where
  "add_services [] A = (None, A)"
| "add_services (s # ss) A = (case AddService s A of (Some e, A') \<Rightarrow> (Some e, A') | (None, A') \<Rightarrow> add_services ss A')"

fun ValidateServices_from :: "string set \<Rightarrow> service list \<Rightarrow> exn option" where
  "ValidateServices_from names [] = None"
| "ValidateServices_from names (s # ss) = (if GetName s \<in> names then Some (''duplicate service name: '' @ GetName s)
     else ValidateServices_from (insert (GetName s) names) ss)"

definition ValidateServices :: "application \<Rightarrow> exn option" where
  "ValidateServices A = ValidateServices_from {} (mServices A)"

definition EnsureServicesRegistered :: "'w app_env \<Rightarrow> application \<Rightarrow> exn option \<times> application" where
  "EnsureServicesRegistered E A = (if mServicesRegistered A then (None, A)
     else case add_services (app_services E) A of
       (Some e, A1) \<Rightarrow> (Some e, A1)
     | (None, A1) \<Rightarrow> (case ValidateServices A1 of
           Some e \<Rightarrow> (Some e, A1)
         | None \<Rightarrow> (None, A1\<lparr>mServicesInOrder := sort_key GetBatch (mServices A1), mServicesRegistered := True\<rparr>)))"

definition EnsureRuntimeCommandsRegistered :: "'w app_env \<Rightarrow> application \<times> 'w \<Rightarrow> exn option \<times> application \<times> 'w" where
  "EnsureRuntimeCommandsRegistered E s = (let (A, w) = s in
     if mRuntimeCommandsRegistered A then (None, A, w)
     else case app_commands E w of
       (Some e, w') \<Rightarrow> (Some (''failed to register runtime commands for application '' @ [CHR 0x27] @ app_name E @ [CHR 0x27] @ '': '' @ e), A, w')
     | (None, w') \<Rightarrow> (None, A\<lparr>mRuntimeCommandsRegistered := True\<rparr>, w'))"

section \<open>Batches\<close>

text \<open>One batch forward: it ends at the first exception; the second component collects the services that succeeded.\<close>

fun run_batch :: "(service \<Rightarrow> 'w action) \<Rightarrow> service list \<Rightarrow> service list \<times> 'w \<Rightarrow> exn option \<times> service list \<times> 'w" where
  "run_batch f [] s = (None, s)"
| "run_batch f (x # xs) (done', w) = (case f x w of
      (Some e, w') \<Rightarrow> (Some e, done', w')
    | (None, w') \<Rightarrow> run_batch f xs (done' @ [x], w'))"

function RunForwardBatches :: "(service \<Rightarrow> 'w action) \<Rightarrow> service list \<Rightarrow> service list \<times> 'w \<Rightarrow> exn option \<times> service list \<times> 'w" where
  "RunForwardBatches f [] s = (None, s)"
| "RunForwardBatches f (x # xs) s = (let same = (\<lambda>y. GetBatch y = GetBatch x) in
     case run_batch f (takeWhile same (x # xs)) s of
       (Some e, s') \<Rightarrow> (Some e, s')
     | (None, s') \<Rightarrow> RunForwardBatches f (dropWhile same (x # xs)) s')"
  by pat_completeness auto
termination
  by (relation "measure (\<lambda>(f, xs, s). length xs)") (auto simp: le_imp_less_Suc length_dropWhile_le)

definition CaptureFailure :: "'w action \<Rightarrow> exn option \<times> 'w \<Rightarrow> exn option \<times> 'w" where
  "CaptureFailure operation s = (let (error, w) = s; (e, w') = operation w in (if error = None then e else error, w'))"

text \<open>Backwards, over the reversed vector; every operation runs, the first failure is kept.\<close>

function reverse_batches :: "(service \<Rightarrow> 'w action) \<Rightarrow> service list \<Rightarrow> exn option \<times> 'w \<Rightarrow> exn option \<times> 'w" where
  "reverse_batches f [] s = s"
| "reverse_batches f (x # xs) s = (let same = (\<lambda>y. GetBatch y = GetBatch x) in
     reverse_batches f (dropWhile same (x # xs)) (fold (\<lambda>y. CaptureFailure (f y)) (takeWhile same (x # xs)) s))"
  by pat_completeness auto
termination
  by (relation "measure (\<lambda>(f, xs, s). length xs)") (auto simp: le_imp_less_Suc length_dropWhile_le)

definition RunReverseBatches :: "(service \<Rightarrow> 'w action) \<Rightarrow> service list \<Rightarrow> exn option \<times> 'w \<Rightarrow> exn option \<times> 'w" where
  "RunReverseBatches f services s = reverse_batches f (rev services) s"

definition Rollback :: "(service \<Rightarrow> 'w action) \<Rightarrow> service list \<Rightarrow> 'w \<Rightarrow> exn option \<times> 'w" where
  "Rollback f services w = fold (\<lambda>x. CaptureFailure (f x)) (rev services) (None, w)"

section \<open>The four stages\<close>

text \<open>The \<^verbatim>\<open>try\<close> of \<^verbatim>\<open>Load\<close> and of \<^verbatim>\<open>Start\<close>: an exception of the rollback replaces the first one and leaves the list as it is.\<close>

definition forward_or_rollback :: "(service \<Rightarrow> 'w action) \<Rightarrow> (service \<Rightarrow> 'w action) \<Rightarrow> service list \<Rightarrow> 'w \<Rightarrow> exn option \<times> service list \<times> 'w" where
  "forward_or_rollback f back services w = (case RunForwardBatches f services ([], w) of
      (None, done', w') \<Rightarrow> (None, done', w')
    | (Some e, done', w') \<Rightarrow> (case Rollback back done' w' of
          (Some e', w'') \<Rightarrow> (Some e', done', w'')
        | (None, w'') \<Rightarrow> (Some e, [], w'')))"

definition app_Load :: "'w app_env \<Rightarrow> application \<times> 'w \<Rightarrow> exn option \<times> application \<times> 'w" where
  "app_Load E s = (let (A, w) = s in case EnsureServicesRegistered E A of
      (Some e, A1) \<Rightarrow> (Some e, A1, w)
    | (None, A1) \<Rightarrow> (case EnsureRuntimeCommandsRegistered E (A1, w) of
        (Some e, A2, w2) \<Rightarrow> (Some e, A2, w2)
      | (None, A2, w2) \<Rightarrow> (case app_hook E stage_Load w2 of
          (Some e, w3) \<Rightarrow> (Some e, A2, w3)
        | (None, w3) \<Rightarrow>
            let (r, loaded, w4) = forward_or_rollback (svc_stage E stage_Load) (svc_stage E stage_Unload) (mServicesInOrder A2) w3
            in (r, A2\<lparr>mLoadedServices := loaded\<rparr>, w4))))"

definition app_Start :: "'w app_env \<Rightarrow> application \<times> 'w \<Rightarrow> exn option \<times> application \<times> 'w" where
  "app_Start E s = (let (A, w) = s in case app_hook E stage_Start w of
      (Some e, w1) \<Rightarrow> (Some e, A, w1)
    | (None, w1) \<Rightarrow>
        let (r, started, w2) = forward_or_rollback (svc_stage E stage_Start) (svc_stage E stage_Stop) (mServicesInOrder A) w1
        in (r, A\<lparr>mStartedServices := started\<rparr>, w2))"

definition app_Stop :: "'w app_env \<Rightarrow> application \<times> 'w \<Rightarrow> exn option \<times> application \<times> 'w" where
  "app_Stop E s = (let (A, w) = s;
     (e, w') = CaptureFailure (app_hook E stage_Stop) (RunReverseBatches (svc_stage E stage_Stop) (mStartedServices A) (None, w))
     in (e, A\<lparr>mStartedServices := []\<rparr>, w'))"

definition app_Unload :: "'w app_env \<Rightarrow> application \<times> 'w \<Rightarrow> exn option \<times> application \<times> 'w" where
  "app_Unload E s = (let (A, w) = s;
     (e, w') = CaptureFailure (app_hook E stage_Unload) (RunReverseBatches (svc_stage E stage_Unload) (mLoadedServices A) (None, w))
     in (e, A\<lparr>mLoadedServices := []\<rparr>, w'))"

section \<open>The thread of the loader\<close>

text \<open>
  The application thread of \<^verbatim>\<open>Loader::Initialize\<close> (src/src/loader/loader.cpp): the four calls in one \<^verbatim>\<open>try\<close> block. The first
  exception ends it; its text is what the loader reports.
\<close>

definition application_thread :: "'w app_env \<Rightarrow> application \<times> 'w \<Rightarrow> exn option \<times> application \<times> 'w" where
  "application_thread E s = (case app_Load E s of
      (Some e, s1) \<Rightarrow> (Some e, s1)
    | (None, s1) \<Rightarrow> (case app_Start E s1 of
        (Some e, s2) \<Rightarrow> (Some e, s2)
      | (None, s2) \<Rightarrow> (case app_Stop E s2 of
          (Some e, s3) \<Rightarrow> (Some e, s3)
        | (None, s3) \<Rightarrow> app_Unload E s3)))"

section \<open>Batches make no difference\<close>

text \<open>The reference: one pass over all services. Splitting it into batches changes nothing.\<close>

lemma run_batch_append: "run_batch f (xs @ ys) s = (case run_batch f xs s of (Some e, s') \<Rightarrow> (Some e, s') | (None, s') \<Rightarrow> run_batch f ys s')"
  by (induction f xs s rule: run_batch.induct) (auto split: option.splits prod.splits)

lemma RunForwardBatches_eq: "RunForwardBatches f xs s = run_batch f xs s"
proof (induction f xs s rule: RunForwardBatches.induct)
  case (2 f x xs s)
  let ?same = "\<lambda>y. GetBatch y = GetBatch x"
  have "run_batch f (x # xs) s = run_batch f (takeWhile ?same (x # xs) @ dropWhile ?same (x # xs)) s"
    by (simp only: takeWhile_dropWhile_id)
  with 2 show ?case by (simp only: run_batch_append RunForwardBatches.simps Let_def split: option.splits prod.splits) auto
qed simp

lemma reverse_batches_eq: "reverse_batches f xs s = fold (\<lambda>x. CaptureFailure (f x)) xs s"
proof (induction f xs s rule: reverse_batches.induct)
  case (2 f x xs s)
  let ?same = "\<lambda>y. GetBatch y = GetBatch x"
  have "fold (\<lambda>x. CaptureFailure (f x)) (x # xs) s =
      fold (\<lambda>x. CaptureFailure (f x)) (takeWhile ?same (x # xs) @ dropWhile ?same (x # xs)) s"
    by (simp only: takeWhile_dropWhile_id)
  with 2 show ?case by (simp only: fold_append comp_apply reverse_batches.simps Let_def)
qed simp

section \<open>What is called, and in which order\<close>

text \<open>The same application, keeping a log of the service stages that are run and of their exceptions.\<close>

type_synonym log = "(stage \<times> service \<times> exn option) list"

definition traced :: "'w app_env \<Rightarrow> ('w \<times> log) app_env" where
  "traced E = \<lparr>app_name = app_name E, app_services = app_services E,
     app_commands = (\<lambda>(w, l). let (e, w') = app_commands E w in (e, w', l)),
     app_hook = (\<lambda>k (w, l). let (e, w') = app_hook E k w in (e, w', l)),
     svc_stage = (\<lambda>k x (w, l). let (e, w') = svc_stage E k x w in (e, w', l @ [(k, x, e)]))\<rparr>"

definition calls :: "log \<Rightarrow> (stage \<times> service) list" where
  "calls l = map (\<lambda>(k, x, e). (k, x)) l"

lemma calls_simps [simp]: "calls [] = []" "calls ((k, x, e) # l) = (k, x) # calls l" "calls (l @ l') = calls l @ calls l'"
  by (simp_all add: calls_def)

lemma svc_stage_traced [simp]:
  "svc_stage (traced E) k x (w, l) = (let (e, w') = svc_stage E k x w in (e, w', l @ [(k, x, e)]))"
  by (simp add: traced_def)

lemma traced_run_batch:
  assumes "run_batch (svc_stage (traced E) k) xs (d, w, l) = (r, d', w', l')"
  shows "(case r of
      None \<Rightarrow> d' = d @ xs \<and> calls l' = calls l @ map (Pair k) xs
    | Some e \<Rightarrow> \<exists>pre x post. xs = pre @ x # post \<and> d' = d @ pre \<and> calls l' = calls l @ map (Pair k) (pre @ [x]))"
  using assms
proof (induction xs arbitrary: d w l)
  case (Cons x xs)
  obtain e w1 where s: "svc_stage E k x w = (e, w1)" by fastforce
  show ?case
  proof (cases e)
    case None
    with Cons.prems s have "run_batch (svc_stage (traced E) k) xs (d @ [x], w1, l @ [(k, x, None)]) = (r, d', w', l')" by simp
    note ih = Cons.IH [OF this]
    show ?thesis
    proof (cases r)
      case (Some y)
      with ih obtain pre z post where "xs = pre @ z # post" "d' = (d @ [x]) @ pre"
        "calls l' = calls (l @ [(k, x, None)]) @ map (Pair k) (pre @ [z])" by auto
      then have "x # xs = (x # pre) @ z # post \<and> d' = d @ (x # pre) \<and> calls l' = calls l @ map (Pair k) ((x # pre) @ [z])" by simp
      with Some show ?thesis by (simp only: option.case) blast
    qed (use ih in simp)
  next
    case (Some y)
    with Cons.prems s show ?thesis by auto
  qed
qed auto

lemma traced_fold:
  assumes "fold (\<lambda>x. CaptureFailure (svc_stage (traced E) k x)) xs (e, w, l) = (e', w', l')"
  shows "calls l' = calls l @ map (Pair k) xs"
  using assms
  by (induction xs arbitrary: e w l) (auto simp: CaptureFailure_def split: prod.splits)

lemma traced_hook: "app_hook (traced E) k (w, l) = (e, w', l') \<Longrightarrow> l' = l"
  by (auto simp: traced_def split: prod.splits)

lemma CaptureFailure_hook:
  "CaptureFailure (app_hook (traced E) k) (e, w, l) = (e', w', l') \<Longrightarrow> l' = l \<and> (e' = None \<longrightarrow> e = None)"
  by (auto simp: CaptureFailure_def traced_def split: prod.splits if_splits)

lemma traced_reverse:
  assumes "RunReverseBatches (svc_stage (traced E) k) xs (e, w, l) = (e', w', l')"
  shows "calls l' = calls l @ map (Pair k) (rev xs)"
  using traced_fold assms by (simp add: RunReverseBatches_def reverse_batches_eq)

lemma traced_forward:
  assumes "forward_or_rollback (svc_stage (traced E) k) (svc_stage (traced E) b) xs (w, l) = (r, d, w', l')"
  shows "(case r of
      None \<Rightarrow> d = xs \<and> calls l' = calls l @ map (Pair k) xs
    | Some e \<Rightarrow> \<exists>pre x post. xs = pre @ x # post \<and> (d = [] \<or> d = pre) \<and>
        calls l' = calls l @ map (Pair k) (pre @ [x]) @ map (Pair b) (rev pre))"
proof -
  obtain r1 d1 w1 l1 where f: "run_batch (svc_stage (traced E) k) xs ([], w, l) = (r1, d1, w1, l1)" by (metis prod_cases4)
  show ?thesis
  proof (cases r1)
    case None
    then show ?thesis using assms f traced_run_batch [OF f] by (simp add: forward_or_rollback_def RunForwardBatches_eq)
  next
    case (Some e)
    obtain r2 w2 l2 where b: "Rollback (svc_stage (traced E) b) d1 (w1, l1) = (r2, w2, l2)" by (metis prod_cases3)
    have "calls l2 = calls l1 @ map (Pair b) (rev d1)" using traced_fold b by (simp add: Rollback_def)
    then show ?thesis
      using assms f Some b traced_run_batch [OF f]
      by (auto simp: forward_or_rollback_def RunForwardBatches_eq split: option.splits)
  qed
qed

section \<open>Properties\<close>

lemma ensured_order:
  assumes "EnsureServicesRegistered E new_application = (None, A)"
  shows "mServicesInOrder A = sort_key GetBatch (app_services E) \<and> distinct (map GetName (app_services E))"
proof -
  have add: "add_services ss A0 = (None, A1) \<Longrightarrow> A1 = A0\<lparr>mServices := mServices A0 @ ss\<rparr>" for ss A0 A1
    by (induction ss A0 rule: add_services.induct) (auto simp: AddService_def split: option.splits prod.splits if_splits)
  have valid: "ValidateServices_from ns ss = None \<Longrightarrow> distinct (map GetName ss) \<and> ns \<inter> GetName ` set ss = {}" for ns ss
    by (induction ns ss rule: ValidateServices_from.induct) (auto split: if_splits)
  show ?thesis
    using assms
    by (auto simp: EnsureServicesRegistered_def new_application_def ValidateServices_def split: option.splits prod.splits
        dest!: add valid)
qed

lemma traced_commands:
  "EnsureRuntimeCommandsRegistered (traced E) (A, w, l) = (r, A', w', l') \<Longrightarrow>
     l' = l \<and> mServicesInOrder A' = mServicesInOrder A \<and> mLoadedServices A' = mLoadedServices A"
  by (auto simp: EnsureRuntimeCommandsRegistered_def traced_def split: if_splits option.splits prod.splits)

lemma traced_registered: "EnsureServicesRegistered (traced E) A = EnsureServicesRegistered E A"
  by (simp add: EnsureServicesRegistered_def traced_def)

lemma traced_Load:
  assumes "app_Load (traced E) (new_application, w, []) = (r, A', w', l')"
  shows "(r = None \<longrightarrow> mLoadedServices A' = mServicesInOrder A' \<and> mServicesInOrder A' = sort_key GetBatch (app_services E) \<and>
      distinct (map GetName (app_services E)) \<and> calls l' = map (Pair stage_Load) (mServicesInOrder A')) \<and>
    (r \<noteq> None \<longrightarrow> l' = [] \<or> (\<exists>pre x post. mServicesInOrder A' = pre @ x # post \<and>
      mServicesInOrder A' = sort_key GetBatch (app_services E) \<and> (mLoadedServices A' = [] \<or> mLoadedServices A' = pre) \<and>
      calls l' = map (Pair stage_Load) (pre @ [x]) @ map (Pair stage_Unload) (rev pre)))"
proof -
  obtain r1 A1 where e: "EnsureServicesRegistered E new_application = (r1, A1)" by fastforce
  show ?thesis
  proof (cases r1)
    case (Some y)
    then show ?thesis using assms e by (auto simp: app_Load_def traced_registered)
  next
    case None
    note order = ensured_order [OF e [unfolded None]]
    obtain r2 A2 w2 l2 where c: "EnsureRuntimeCommandsRegistered (traced E) (A1, w, []) = (r2, A2, w2, l2)" by (metis prod_cases4)
    note c' = traced_commands [OF c]
    obtain r3 w3 l3 where h: "app_hook (traced E) stage_Load (w2, l2) = (r3, w3, l3)" by (metis prod_cases3)
    have l3: "l3 = []" using traced_hook [OF h] c' by simp
    obtain r4 d w4 l4 where f: "forward_or_rollback (svc_stage (traced E) stage_Load) (svc_stage (traced E) stage_Unload)
        (mServicesInOrder A2) (w3, l3) = (r4, d, w4, l4)" by (metis prod_cases4)
    show ?thesis
    proof (cases "r2 = None \<and> r3 = None")
      case True
      then have "r = r4" "A' = A2\<lparr>mLoadedServices := d\<rparr>" "l' = l4"
        using assms e None c h f by (auto simp: app_Load_def traced_registered)
      then show ?thesis using traced_forward [OF f] order c' l3 by (cases r4) auto
    next
      case False
      then have "r \<noteq> None \<and> l' = []" using assms e None c h c' l3 by (auto simp: app_Load_def traced_registered split: option.splits)
      then show ?thesis by blast
    qed
  qed
qed

text \<open>
  C13. A load that fails after it reached the services: the services before the failing one, in batch order, were loaded, and exactly
  those are unloaded again, once and in reverse order. The failing service itself is not unloaded.
\<close>

theorem failed_load_is_undone:
  assumes "app_Load (traced E) (new_application, w, []) = (Some e, A', w', l')" and "l' \<noteq> []"
  shows "\<exists>pre x post. sort_key GetBatch (app_services E) = pre @ x # post \<and>
     calls l' = map (Pair stage_Load) (pre @ [x]) @ map (Pair stage_Unload) (rev pre)"
proof -
  obtain pre x post where "mServicesInOrder A' = pre @ x # post" "mServicesInOrder A' = sort_key GetBatch (app_services E)"
    "calls l' = map (Pair stage_Load) (pre @ [x]) @ map (Pair stage_Unload) (rev pre)"
    using traced_Load [OF assms(1)] assms(2) by auto
  then show ?thesis by metis
qed

lemma traced_Start:
  assumes "app_Start (traced E) (A, w, l) = (r, A', w', l')"
  shows "mLoadedServices A' = mLoadedServices A \<and>
    (r = None \<longrightarrow> mStartedServices A' = mServicesInOrder A \<and> calls l' = calls l @ map (Pair stage_Start) (mServicesInOrder A)) \<and>
    (\<exists>more. calls l' = calls l @ more \<and> (\<forall>(k, x) \<in> set more. k = stage_Start \<or> k = stage_Stop))"
proof -
  obtain r1 w1 l1 where h: "app_hook (traced E) stage_Start (w, l) = (r1, w1, l1)" by (metis prod_cases3)
  obtain r2 d w2 l2 where f: "forward_or_rollback (svc_stage (traced E) stage_Start) (svc_stage (traced E) stage_Stop)
      (mServicesInOrder A) (w1, l1) = (r2, d, w2, l2)" by (metis prod_cases4)
  show ?thesis
  proof (cases r1)
    case None
    then have "r = r2" "A' = A\<lparr>mStartedServices := d\<rparr>" "l' = l2" using assms h f by (auto simp: app_Start_def)
    then show ?thesis using traced_forward [OF f] traced_hook [OF h] by (cases r2) auto
  qed (use assms h traced_hook [OF h] in \<open>auto simp: app_Start_def\<close>)
qed

lemma traced_Stop:
  assumes "app_Stop (traced E) (A, w, l) = (r, A', w', l')"
  shows "mLoadedServices A' = mLoadedServices A \<and> calls l' = calls l @ map (Pair stage_Stop) (rev (mStartedServices A))"
proof -
  obtain e w1 l1 where r: "RunReverseBatches (svc_stage (traced E) stage_Stop) (mStartedServices A) (None, w, l) = (e, w1, l1)"
    by (metis prod_cases3)
  obtain e2 w2 l2 where c: "CaptureFailure (app_hook (traced E) stage_Stop) (e, w1, l1) = (e2, w2, l2)" by (metis prod_cases3)
  show ?thesis using assms r c traced_reverse [OF r] CaptureFailure_hook [OF c] by (auto simp: app_Stop_def)
qed

lemma traced_Unload:
  assumes "app_Unload (traced E) (A, w, l) = (r, A', w', l')"
  shows "calls l' = calls l @ map (Pair stage_Unload) (rev (mLoadedServices A))"
proof -
  obtain e w1 l1 where r: "RunReverseBatches (svc_stage (traced E) stage_Unload) (mLoadedServices A) (None, w, l) = (e, w1, l1)"
    by (metis prod_cases3)
  obtain e2 w2 l2 where c: "CaptureFailure (app_hook (traced E) stage_Unload) (e, w1, l1) = (e2, w2, l2)" by (metis prod_cases3)
  show ?thesis using assms r c traced_reverse [OF r] CaptureFailure_hook [OF c] by (auto simp: app_Unload_def)
qed

text \<open>
  C22. A run that ends without an exception: every service is loaded, started, stopped and unloaded exactly once, the first two in the
  order of the batches and, within a batch, of registration, the last two in the opposite order.
\<close>

theorem lifecycle_is_symmetric:
  assumes "application_thread (traced E) (new_application, w, []) = (None, A', w', l')"
  shows "let order = sort_key GetBatch (app_services E) in
     calls l' = map (Pair stage_Load) order @ map (Pair stage_Start) order @ map (Pair stage_Stop) (rev order) @
       map (Pair stage_Unload) (rev order) \<and> sorted (map GetBatch order) \<and> distinct (map GetName order)"
proof -
  obtain r1 A1 w1 l1 where L: "app_Load (traced E) (new_application, w, []) = (r1, A1, w1, l1)" by (metis prod_cases4)
  obtain r2 A2 w2 l2 where S: "app_Start (traced E) (A1, w1, l1) = (r2, A2, w2, l2)" by (metis prod_cases4)
  obtain r3 A3 w3 l3 where P: "app_Stop (traced E) (A2, w2, l2) = (r3, A3, w3, l3)" by (metis prod_cases4)
  have none: "r1 = None" "r2 = None" "r3 = None" and U: "app_Unload (traced E) (A3, w3, l3) = (None, A', w', l')"
    using assms L S P by (auto simp: application_thread_def split: option.splits)
  have "distinct (map GetName (sort_key GetBatch (app_services E)))"
    using traced_Load [OF L] none(1) by (auto simp: distinct_map)
  then show ?thesis
    using traced_Load [OF L] traced_Start [OF S] traced_Stop [OF P] traced_Unload [OF U] none by (simp add: Let_def)
qed

text \<open>
  When a service cannot be started, or one of them fails to stop, the thread ends in its handler: no service is unloaded, although
  all of them are loaded.
\<close>

lemma failed_start_never_unloads:
  assumes "app_Load (traced E) (new_application, w, []) = (None, s1)" and "app_Start (traced E) s1 = (r2, s2)"
    and "r2 \<noteq> None \<or> fst (app_Stop (traced E) s2) \<noteq> None"
    and "application_thread (traced E) (new_application, w, []) = (r, A', w', l')"
  shows "r \<noteq> None \<and> mLoadedServices A' = sort_key GetBatch (app_services E) \<and> (\<forall>x. (stage_Unload, x) \<notin> set (calls l'))"
proof -
  obtain A1 w1 l1 where s1: "s1 = (A1, w1, l1)" by (metis prod_cases3)
  obtain A2 w2 l2 where s2: "s2 = (A2, w2, l2)" by (metis prod_cases3)
  obtain r3 A3 w3 l3 where P: "app_Stop (traced E) (A2, w2, l2) = (r3, A3, w3, l3)" by (metis prod_cases4)
  note load = traced_Load [OF assms(1) [unfolded s1]] and start = traced_Start [OF assms(2) [unfolded s1 s2]] and stop = traced_Stop [OF P]
  show ?thesis
  proof (cases r2)
    case (Some e)
    then have "r = Some e" "A' = A2" "l' = l2" using assms(1,2,4) s1 s2 by (auto simp: application_thread_def)
    then show ?thesis using load start by auto
  next
    case None
    then obtain e where "r3 = Some e" using assms(3) s2 P by auto
    then have "r = Some e" "A' = A3" "l' = l3" using assms(1,2,4) s1 s2 None P by (auto simp: application_thread_def)
    then show ?thesis using load start stop None by auto
  qed
qed

section \<open>Two services\<close>

text \<open>An application with two services registered out of order; stage \<open>k\<close> of the later one fails in the state \<open>True\<close>.\<close>

definition two_services :: "stage \<Rightarrow> bool app_env" where
  "two_services k = \<lparr>app_name = ''app'', app_services = [\<lparr>GetName = ''b'', GetBatch = 2\<rparr>, \<lparr>GetName = ''a'', GetBatch = 1\<rparr>],
     app_commands = (\<lambda>w. (None, w)), app_hook = (\<lambda>k w. (None, w)),
     svc_stage = (\<lambda>k' x w. (if w \<and> k' = k \<and> GetName x = ''b'' then Some ''failed'' else None, w))\<rparr>"

lemmas run_two_services = app_Load_def app_Start_def app_Stop_def app_Unload_def two_services_def traced_def EnsureServicesRegistered_def
  EnsureRuntimeCommandsRegistered_def ValidateServices_def new_application_def AddService_def forward_or_rollback_def
  Rollback_def CaptureFailure_def RunReverseBatches_def application_thread_def

theorem failed_load_is_undone_witness:
  "\<exists>A w l. app_Load (traced (two_services stage_Load)) (new_application, True, []) = (Some ''failed'', A, w, l) \<and>
     calls l = [(stage_Load, \<lparr>GetName = ''a'', GetBatch = 1\<rparr>), (stage_Load, \<lparr>GetName = ''b'', GetBatch = 2\<rparr>),
       (stage_Unload, \<lparr>GetName = ''a'', GetBatch = 1\<rparr>)]"
proof -
  obtain r A w l where run: "app_Load (traced (two_services stage_Load)) (new_application, True, []) = (r, A, w, l)" by (metis prod_cases4)
  have r: "r = Some ''failed''" "l \<noteq> []" "calls l = [(stage_Load, \<lparr>GetName = ''a'', GetBatch = 1\<rparr>), (stage_Load, \<lparr>GetName = ''b'', GetBatch = 2\<rparr>),
       (stage_Unload, \<lparr>GetName = ''a'', GetBatch = 1\<rparr>)]"
    using run by (auto simp: run_two_services)
  from failed_load_is_undone [OF run [unfolded r(1)] r(2)] run r show ?thesis by blast
qed

theorem lifecycle_is_symmetric_witness:
  "\<exists>A w l. application_thread (traced (two_services stage_Load)) (new_application, False, []) = (None, A, w, l) \<and> length (calls l) = 8"
proof -
  obtain r A w l where run: "application_thread (traced (two_services stage_Load)) (new_application, False, []) = (r, A, w, l)"
    by (metis prod_cases4)
  have "r = None" using run by (auto simp: run_two_services)
  with lifecycle_is_symmetric [of "two_services stage_Load" False A w l] run show ?thesis by (simp add: Let_def) (simp add: two_services_def)
qed

theorem failed_start_never_unloads_witness:
  "\<exists>A w l. application_thread (traced (two_services stage_Start)) (new_application, True, []) = (Some ''failed'', A, w, l) \<and>
     length (mLoadedServices A) = 2 \<and> (\<forall>x. (stage_Unload, x) \<notin> set (calls l))"
proof -
  let ?E = "traced (two_services stage_Start)"
  obtain r1 s1 where load: "app_Load ?E (new_application, True, []) = (r1, s1)" by (metis surj_pair)
  obtain r2 s2 where start: "app_Start ?E s1 = (r2, s2)" by (metis surj_pair)
  obtain r A w l where run: "application_thread ?E (new_application, True, []) = (r, A, w, l)" by (metis prod_cases4)
  have r1: "r1 = None" using load by (auto simp: run_two_services)
  have r2: "r2 \<noteq> None" using load start by (auto simp: run_two_services)
  have r: "r = Some ''failed''" using run by (auto simp: run_two_services)
  have "length (mLoadedServices A) = 2"
    using failed_start_never_unloads [OF load [unfolded r1] start disjI1 [OF r2] run] by (simp add: two_services_def)
  then show ?thesis using failed_start_never_unloads [OF load [unfolded r1] start disjI1 [OF r2] run] run r by auto
qed

end
