(* ===== verification/Loader.thy ===== *)
theory Loader
  imports Lifecycle
begin

text \<open>
  The loader (src/src/loader): command line, configuration files, logging, runtime commands and the console loop. The file
  system and the JSON library are parameters; a parsed document is a \<open>generic\<close>.
\<close>

section \<open>Commands\<close>

datatype CommandExecutionStatus = cmd_handled | cmd_exit_requested | cmd_unknown_command

text \<open>A handler may throw, and nothing between it and \<^verbatim>\<open>main\<close> catches; and it may call what never returns.\<close>

datatype 'a outcome = returned 'a | threw std_exception | hangs

type_synonym 'w CommandHandler = "string list \<Rightarrow> 'w \<Rightarrow> CommandExecutionStatus outcome \<times> 'w"

record CommandExecutionResult =
  exec_status :: CommandExecutionStatus
  exec_command_name :: string

type_synonym 'w CommandRegistry = "(string \<times> string \<times> 'w CommandHandler) list"

definition registry_RegisterCommand :: "string \<Rightarrow> string \<Rightarrow> 'w CommandHandler option \<Rightarrow> 'w CommandRegistry \<Rightarrow> bool \<times> 'w CommandRegistry" where
  "registry_RegisterCommand name description handler M = (case handler of
      None \<Rightarrow> (False, M)
    | Some h \<Rightarrow> if name = [] \<or> map_of M name \<noteq> None then (False, M) else (True, M @ [(name, description, h)]))"

text \<open>What \<^verbatim>\<open>stream >> word\<close> reads until the stream is exhausted.\<close>

lemma dropWhile_less: "t \<noteq> [] \<Longrightarrow> Q (hd t) \<Longrightarrow> length (dropWhile Q t) < length t"
  by (cases t) (auto simp: le_imp_less_Suc length_dropWhile_le)

function stream_words :: "string \<Rightarrow> string list" where
  "stream_words s = (let t = dropWhile is_space s in
     if t = [] then [] else takeWhile (\<lambda>c. \<not> is_space c) t # stream_words (dropWhile (\<lambda>c. \<not> is_space c) t))"
  by pat_completeness auto
termination
proof (relation "measure length", goal_cases)
  case (2 s t)
  then have "\<not> is_space (hd t)" using hd_dropWhile by metis
  then have "length (dropWhile (\<lambda>c. \<not> is_space c) t) < length t" using 2(2) by (intro dropWhile_less) simp_all
  also have "\<dots> \<le> length s" using 2(1) by (simp add: length_dropWhile_le)
  finally show ?case by simp
qed simp

declare stream_words.simps [simp del]

definition registry_Execute :: "string \<Rightarrow> 'w CommandRegistry \<Rightarrow> 'w \<Rightarrow> CommandExecutionResult outcome \<times> 'w" where
  "registry_Execute input M w = (case stream_words input of
      [] \<Rightarrow> (returned \<lparr>exec_status = cmd_handled, exec_command_name = []\<rparr>, w)
    | name # arguments \<Rightarrow> (case map_of M name of
          None \<Rightarrow> (returned \<lparr>exec_status = cmd_unknown_command, exec_command_name = name\<rparr>, w)
        | Some (description, handler) \<Rightarrow>
            let (r, w') = handler arguments w
            in (map_outcome (\<lambda>status. \<lparr>exec_status = status, exec_command_name = name\<rparr>) r, w')))"

definition registry_ClearCommands :: "'w CommandRegistry \<Rightarrow> 'w CommandRegistry" where
  "registry_ClearCommands M = []"

section \<open>The command line\<close>

datatype ParseResult = parse_ok | parse_exit_success | parse_exit_failure

record OptionDefinition =
  long_name :: string
  short_name :: string
  expects_value :: bool

definition kOptionDefinitions :: "OptionDefinition list" where
  "kOptionDefinitions = [\<lparr>long_name = ''help'', short_name = ''h'', expects_value = False\<rparr>,
     \<lparr>long_name = ''config'', short_name = ''c'', expects_value = True\<rparr>]"

definition starts_with :: "string \<Rightarrow> string \<Rightarrow> bool" where
  "starts_with p s \<longleftrightarrow> take (length p) s = p"

definition match_option :: "string \<Rightarrow> OptionDefinition option" where
  "match_option argument =
     (if starts_with ''--'' argument then find (\<lambda>opt. long_name opt = drop 2 argument) kOptionDefinitions
      else if starts_with ''-'' argument then find (\<lambda>opt. short_name opt = drop 1 argument) kOptionDefinitions
      else None)"

text \<open>The loop over the arguments; \<open>emplace\<close> keeps the value that is there, \<open>operator[]\<close> replaces it.\<close>

fun parse_options :: "string list \<Rightarrow> (string \<times> string) list \<Rightarrow> ParseResult \<times> (string \<times> string) list" where
  "parse_options [] vs = (parse_ok, vs)"
| "parse_options (a # as) vs = (case match_option a of
      None \<Rightarrow> (parse_exit_failure, vs)
    | Some opt \<Rightarrow>
        if \<not> expects_value opt
        then parse_options as (if map_of vs (long_name opt) = None then AList.update (long_name opt) [] vs else vs)
        else (case as of [] \<Rightarrow> (parse_exit_failure, vs) | v # as' \<Rightarrow> parse_options as' (AList.update (long_name opt) v vs)))"

definition ParseArguments :: "string list \<Rightarrow> ParseResult \<times> (string \<times> string) list" where
  "ParseArguments args = (let (r, vs) = parse_options args [] in
     if r \<noteq> parse_ok then (r, vs) else if map_of vs ''help'' \<noteq> None then (parse_exit_success, vs) else (parse_ok, vs))"

section \<open>Configuration documents\<close>

datatype generic = JNull | JBool bool | JNumber string | JString string | JArray "generic list" | JObject "(string \<times> generic) list"

function MergeConfigurationValue :: "generic \<Rightarrow> generic \<Rightarrow> generic"
  and merge_fields :: "(string \<times> generic) list \<Rightarrow> (string \<times> generic) list \<Rightarrow> (string \<times> generic) list" where
  "MergeConfigurationValue base override = (case (base, override) of
      (JObject bs, JObject os) \<Rightarrow> JObject (merge_fields bs os)
    | _ \<Rightarrow> override)"
| "merge_fields bs [] = bs"
| "merge_fields bs ((k, v) # os) = merge_fields (AList.update k (case map_of bs k of None \<Rightarrow> v | Some b \<Rightarrow> MergeConfigurationValue b v) bs) os"
  by pat_completeness auto
termination
  by (relation "measure (\<lambda>x. case x of Inl (b, v) \<Rightarrow> 2 * size v | Inr (bs, os) \<Rightarrow> 2 * size_list (size_prod (\<lambda>_. 0) size) os + 1)")
    auto

declare MergeConfigurationValue.simps [simp del]

lemma Merge_simps [simp]:
  "MergeConfigurationValue (JObject bs) (JObject os) = JObject (merge_fields bs os)"
  "\<not> (\<exists>bs. b = JObject bs) \<Longrightarrow> MergeConfigurationValue b v = v" "\<not> (\<exists>os. v = JObject os) \<Longrightarrow> MergeConfigurationValue b v = v"
  by (auto simp: MergeConfigurationValue.simps split: generic.splits)

text \<open>The world of the loader: the file system, and the JSON library.\<close>

record load_env =
  fs_exists :: "string \<Rightarrow> bool"
  fs_read :: "string \<Rightarrow> string option" \<comment> \<open>the content, if the file can be opened\<close>
  fs_extension :: "string \<Rightarrow> string"
  json_parse :: "string \<Rightarrow> string + generic"
  json_dump :: "generic \<Rightarrow> string + string"

definition tolower :: "char \<Rightarrow> char" where
  "tolower c = (let n = (of_char c :: nat) in if 65 \<le> n \<and> n \<le> 90 then char_of (n + 32) else c)"

definition ToLower :: "string \<Rightarrow> string" where
  "ToLower s = map tolower s"

definition LoadConfigurationDocument :: "load_env \<Rightarrow> string \<Rightarrow> string + string" where
  "LoadConfigurationDocument E path = (let extension = ToLower (fs_extension E path) in
     if extension \<noteq> [] \<and> extension \<noteq> ''.json'' then Inl (''unsupported config format: '' @ path)
     else case fs_read E path of None \<Rightarrow> Inl (''failed to open config file: '' @ path) | Some d \<Rightarrow> Inr d)"

definition MergeConfigurationFile :: "load_env \<Rightarrow> generic \<Rightarrow> string \<Rightarrow> string + generic" where
  "MergeConfigurationFile E configuration path = (case LoadConfigurationDocument E path of
      Inl e \<Rightarrow> Inl e
    | Inr d \<Rightarrow> (case json_parse E d of Inl e \<Rightarrow> Inl e | Inr v \<Rightarrow> Inr (MergeConfigurationValue configuration v)))"

record LogRotationConfiguration =
  rot_mode :: string
  rot_max_size :: u64
  rot_max_files :: u64
  rot_daily_hour :: u64
  rot_daily_minute :: u64

record LogConfiguration =
  log_file :: string
  log_error_file :: string
  log_level :: string
  log_console :: bool
  log_syslog :: bool
  log_rotate :: LogRotationConfiguration

text \<open>The log part of \<^verbatim>\<open>CommonConfiguration\<close> is what the loader itself checks; the rest is \<open>'c\<close>.\<close>

record 'c common_configuration =
  cc_log :: LogConfiguration
  cc_rest :: 'c

definition default_log :: LogConfiguration where
  "default_log = \<lparr>log_file = [], log_error_file = [], log_level = ''info'', log_console = True, log_syslog = False,
     log_rotate = \<lparr>rot_mode = ''size'', rot_max_size = 10 * 1024 * 1024, rot_max_files = 5, rot_daily_hour = 0, rot_daily_minute = 0\<rparr>\<rparr>"

definition BuildDefaultCommonConfiguration :: "string \<Rightarrow> 'c \<Rightarrow> 'c common_configuration" where
  "BuildDefaultCommonConfiguration name rest = \<lparr>cc_log = default_log\<lparr>log_file := ''logs/'' @ name @ ''.log'',
     log_error_file := ''logs/'' @ name @ ''.error.log''\<rparr>, cc_rest = rest\<rparr>"

definition ValidateCommonConfiguration :: "'c common_configuration \<Rightarrow> string option" where
  "ValidateCommonConfiguration c = (let r = log_rotate (cc_log c); mode = ToLower (rot_mode r) in
     if mode \<noteq> ''size'' \<and> mode \<noteq> ''daily'' then Some ''loader.log.rotate.mode must be one of [size, daily]''
     else if rot_max_files r = 0 then Some ''loader.log.rotate.max_files must be greater than 0''
     else if rot_daily_hour r > 23 then Some ''loader.log.rotate.daily_hour must be in range 0-23''
     else if rot_daily_minute r > 59 then Some ''loader.log.rotate.daily_minute must be in range 0-59''
     else None)"

text \<open>
  \<^verbatim>\<open>LoadConfiguration\<close>: reading the common part and the part of the application out of the document is \<open>read_common\<close> and
  \<open>read_app\<close>. The result is a failure with its message, or both configurations.
\<close>

definition field_of :: "generic \<Rightarrow> string \<Rightarrow> generic option" where
  "field_of v k = (case v of JObject fs \<Rightarrow> map_of fs k | _ \<Rightarrow> None)"

definition LoadConfiguration :: "load_env \<Rightarrow> ('c common_configuration \<Rightarrow> string \<Rightarrow> string + 'c common_configuration)
    \<Rightarrow> ('a \<Rightarrow> generic \<Rightarrow> string + 'a) \<Rightarrow> string \<Rightarrow> 'a option \<Rightarrow> string \<Rightarrow> string \<Rightarrow> 'c common_configuration
    \<Rightarrow> string + 'c common_configuration \<times> 'a" where
  "LoadConfiguration E read_common read_app name created main_path override_path common = (case created of
      None \<Rightarrow> Inl ''failed to create application configuration''
    | Some app \<Rightarrow>
        if \<not> fs_exists E main_path then Inl (''failed to open main config file: '' @ main_path)
        else case MergeConfigurationFile E JNull main_path of
          Inl e \<Rightarrow> Inl e
        | Inr v1 \<Rightarrow> (case (if override_path \<noteq> [] \<and> fs_exists E override_path then MergeConfigurationFile E v1 override_path else Inr v1) of
            Inl e \<Rightarrow> Inl e
          | Inr v \<Rightarrow> (case json_dump E v of
              Inl e \<Rightarrow> Inl e
            | Inr document \<Rightarrow> (case read_common common document of
                Inl e \<Rightarrow> Inl e
              | Inr common' \<Rightarrow> (case (case field_of v name of None \<Rightarrow> Inr app | Some part \<Rightarrow> read_app app part) of
                  Inl e \<Rightarrow> Inl e
                | Inr app' \<Rightarrow> (case ValidateCommonConfiguration common' of
                    Some e \<Rightarrow> Inl e
                  | None \<Rightarrow> Inr (common', app')))))))"

section \<open>Logging\<close>

datatype log_level_enum = lv_trace | lv_debug | lv_info | lv_warn | lv_err | lv_critical

definition ToSpdlogLevel :: "string \<Rightarrow> log_level_enum option" where
  "ToSpdlogLevel level = (let l = ToLower level in
     if l = ''trace'' then Some lv_trace else if l = ''debug'' then Some lv_debug else if l = ''info'' then Some lv_info
     else if l = ''warn'' \<or> l = ''warning'' then Some lv_warn else if l = ''error'' then Some lv_err
     else if l = ''fatal'' \<or> l = ''critical'' then Some lv_critical else None)"

text \<open>The sinks of the logger; the conversions of the source to \<^verbatim>\<open>int\<close> and \<^verbatim>\<open>uint16_t\<close> are those of its casts.\<close>

datatype sink = console_sink | daily_file_sink string "32 word" "32 word" u16 | rotating_file_sink string u64 u64
  | error_file_sink string | syslog_sink string

definition file_sink :: "LogConfiguration \<Rightarrow> sink" where
  "file_sink c = (let r = log_rotate c in
     if rot_mode r = ''daily''
     then daily_file_sink (log_file c) (ucast (rot_daily_hour r)) (ucast (rot_daily_minute r)) (ucast (rot_max_files r))
     else rotating_file_sink (log_file c) (rot_max_size r) (rot_max_files r))"

text \<open>\<open>create\<close> is the first message a sink's constructor throws, if any.\<close>

definition SetupLogging :: "(sink list \<Rightarrow> string option) \<Rightarrow> string \<Rightarrow> LogConfiguration \<Rightarrow> string + log_level_enum \<times> sink list" where
  "SetupLogging create name c = (case ToSpdlogLevel (log_level c) of
      None \<Rightarrow> Inl (''invalid log level: '' @ log_level c)
    | Some level \<Rightarrow>
        let sinks = (if log_console c then [console_sink] else []) @ (if log_file c \<noteq> [] then [file_sink c] else []) @
              (if log_error_file c \<noteq> [] then [error_file_sink (log_error_file c)] else []) @ (if log_syslog c then [syslog_sink name] else [])
        in case create sinks of
             Some e \<Rightarrow> Inl (''failed to initialize logging: '' @ e)
           | None \<Rightarrow> if sinks = [] then Inl ''no log sinks enabled'' else Inr (level, sinks))"

text \<open>\<^verbatim>\<open>Run\<close>, with \<open>initialize\<close> for the part after the set-up, which the next section models; the result is the exit code.\<close>

definition loader_Run :: "load_env \<Rightarrow> ('c common_configuration \<Rightarrow> string \<Rightarrow> string + 'c common_configuration) \<Rightarrow> ('a \<Rightarrow> generic \<Rightarrow> string + 'a)
    \<Rightarrow> (sink list \<Rightarrow> string option) \<Rightarrow> ('c common_configuration \<Rightarrow> 'a \<Rightarrow> bool) \<Rightarrow> string \<Rightarrow> 'a option \<Rightarrow> 'c \<Rightarrow> string list \<Rightarrow> int" where
  "loader_Run E read_common read_app create initialize name created rest args = (let (r, vs) = ParseArguments args in
     if r \<noteq> parse_ok then (if r = parse_exit_success then 0 else 1)
     else let override_path = (case map_of vs ''config'' of Some p \<Rightarrow> p | None \<Rightarrow> ''conf/'' @ name @ ''_my.json'') in
       case LoadConfiguration E read_common read_app name created (''conf/'' @ name @ ''.json'') override_path
              (BuildDefaultCommonConfiguration name rest) of
         Inl e \<Rightarrow> 1
       | Inr (common, app) \<Rightarrow> (case SetupLogging create name (cc_log common) of
             Inl e \<Rightarrow> 1
           | Inr l \<Rightarrow> if initialize common app then 0 else 1))"

section \<open>The two threads of \<^verbatim>\<open>Initialize\<close>\<close>

text \<open>
  The application thread runs the four stages, each of which may throw; the main thread waits for the start, reads the console
  and joins. A step is one action of one of them, or a stop request of the application itself. An exception of a command
  leaves \<^verbatim>\<open>Initialize\<close> while the thread can be joined, which is \<^verbatim>\<open>std::terminate\<close> for the whole process.
\<close>

datatype app_pc = ap_load | ap_start | ap_wait | ap_stop | ap_unload | ap_end

datatype main_pc = mp_wait_start | mp_join_failed | mp_console | mp_join | mp_returned bool | mp_terminated

record RuntimeState =
  start_completed :: bool
  stop_requested :: bool
  runtime_failed :: bool
  error_message :: string
  app_at :: app_pc
  main_at :: main_pc

definition initial_runtime :: RuntimeState where
  "initial_runtime = \<lparr>start_completed = False, stop_requested = False, runtime_failed = False, error_message = [],
     app_at = ap_load, main_at = mp_wait_start\<rparr>"

definition thread_fails :: "string \<Rightarrow> RuntimeState \<Rightarrow> RuntimeState" where
  "thread_fails e s = s\<lparr>start_completed := True, stop_requested := True, runtime_failed := True, error_message := e, app_at := ap_end\<rparr>"

inductive loader_step :: "RuntimeState \<Rightarrow> RuntimeState \<Rightarrow> bool" where
  app_loaded: "main_at s \<noteq> mp_terminated \<Longrightarrow> app_at s = ap_load \<Longrightarrow> loader_step s (s\<lparr>app_at := ap_start\<rparr>)"
| app_started: "main_at s \<noteq> mp_terminated \<Longrightarrow> app_at s = ap_start \<Longrightarrow> loader_step s (s\<lparr>start_completed := True, app_at := ap_wait\<rparr>)"
| app_woken: "main_at s \<noteq> mp_terminated \<Longrightarrow> app_at s = ap_wait \<Longrightarrow> stop_requested s \<Longrightarrow> loader_step s (s\<lparr>app_at := ap_stop\<rparr>)"
| app_stopped: "main_at s \<noteq> mp_terminated \<Longrightarrow> app_at s = ap_stop \<Longrightarrow> loader_step s (s\<lparr>app_at := ap_unload\<rparr>)"
| app_unloaded: "main_at s \<noteq> mp_terminated \<Longrightarrow> app_at s = ap_unload \<Longrightarrow> loader_step s (s\<lparr>app_at := ap_end\<rparr>)"
| app_throws: "main_at s \<noteq> mp_terminated \<Longrightarrow> app_at s \<in> {ap_load, ap_start, ap_stop, ap_unload} \<Longrightarrow> loader_step s (thread_fails e s)"
| main_start_failed: "main_at s = mp_wait_start \<Longrightarrow> start_completed s \<Longrightarrow> runtime_failed s \<Longrightarrow> loader_step s (s\<lparr>main_at := mp_join_failed\<rparr>)"
| main_start_ok: "main_at s = mp_wait_start \<Longrightarrow> start_completed s \<Longrightarrow> \<not> runtime_failed s \<Longrightarrow> loader_step s (s\<lparr>main_at := mp_console\<rparr>)"
| main_joined_failed: "main_at s = mp_join_failed \<Longrightarrow> app_at s = ap_end \<Longrightarrow> loader_step s (s\<lparr>main_at := mp_returned False\<rparr>)"
| main_command: "main_at s = mp_console \<Longrightarrow> loader_step s s"
| main_command_throws: "main_at s = mp_console \<Longrightarrow> loader_step s (s\<lparr>main_at := mp_terminated\<rparr>)"
| main_exit: "main_at s = mp_console \<Longrightarrow> loader_step s (s\<lparr>stop_requested := True, main_at := mp_join\<rparr>)"
| main_joined: "main_at s = mp_join \<Longrightarrow> app_at s = ap_end \<Longrightarrow> loader_step s (s\<lparr>main_at := mp_returned (\<not> runtime_failed s)\<rparr>)"

inductive_cases loader_stepE: "loader_step s s'"

definition loader_inv :: "RuntimeState \<Rightarrow> bool" where
  "loader_inv s \<longleftrightarrow> (app_at s \<in> {ap_wait, ap_stop, ap_unload, ap_end} \<longrightarrow> start_completed s) \<and>
     (app_at s \<in> {ap_load, ap_start} \<longrightarrow> \<not> start_completed s) \<and> (runtime_failed s \<longrightarrow> app_at s = ap_end) \<and>
     (main_at s = mp_join \<longrightarrow> stop_requested s) \<and> (main_at s = mp_join_failed \<longrightarrow> runtime_failed s) \<and>
     (main_at s \<in> {mp_console, mp_join} \<longrightarrow> start_completed s) \<and>
     (\<forall>b. main_at s = mp_returned b \<longrightarrow> app_at s = ap_end \<and> (b \<longleftrightarrow> \<not> runtime_failed s))"

lemma loader_inv_step:
  assumes "loader_step s s'" and "loader_inv s"
  shows "loader_inv s'"
  using assms
proof (induction rule: loader_step.induct)
  case (app_throws s e)
  then show ?case by (cases "main_at s") (auto simp: loader_inv_def thread_fails_def)
qed (simp_all add: loader_inv_def, blast+)

lemma loader_inv_reachable: "loader_step\<^sup>*\<^sup>* initial_runtime s \<Longrightarrow> loader_inv s"
proof (induction rule: rtranclp_induct)
  case base
  show ?case by (simp add: loader_inv_def initial_runtime_def)
qed (rule loader_inv_step)

text \<open>Steps in which no stage and no command throws, and how far the two threads are from their end.\<close>

definition orderly_step :: "RuntimeState \<Rightarrow> RuntimeState \<Rightarrow> bool" where
  "orderly_step s s' \<longleftrightarrow> loader_step s s' \<and> runtime_failed s' = runtime_failed s \<and> main_at s' \<noteq> mp_terminated"

fun app_left :: "app_pc \<Rightarrow> nat" where
  "app_left ap_load = 5"
| "app_left ap_start = 4"
| "app_left ap_wait = 3"
| "app_left ap_stop = 2"
| "app_left ap_unload = 1"
| "app_left ap_end = 0"

fun main_left :: "main_pc \<Rightarrow> nat" where
  "main_left mp_wait_start = 3"
| "main_left mp_console = 2"
| "main_left mp_join = 1"
| "main_left mp_join_failed = 1"
| "main_left (mp_returned b) = 0"
| "main_left mp_terminated = 0"

definition steps_left :: "RuntimeState \<Rightarrow> nat" where
  "steps_left s = app_left (app_at s) + main_left (main_at s)"

lemma orderly_intro:
  "loader_step s s' \<Longrightarrow> runtime_failed s' = runtime_failed s \<and> main_at s' \<noteq> mp_terminated \<and> steps_left s' < steps_left s \<Longrightarrow>
     \<exists>s'. orderly_step s s' \<and> steps_left s' < steps_left s"
  unfolding orderly_step_def by blast

text \<open>As long as \<^verbatim>\<open>Initialize\<close> has not returned, one of the threads can do its next step.\<close>

lemma orderly_progress:
  assumes "loader_inv s" and "\<forall>b. main_at s \<noteq> mp_returned b" and "main_at s \<noteq> mp_terminated"
  shows "\<exists>s'. orderly_step s s' \<and> steps_left s' < steps_left s"
proof (cases "app_at s")
  case ap_load
  then show ?thesis using assms by (intro orderly_intro [OF app_loaded]) (simp_all add: steps_left_def)
next
  case ap_start
  then show ?thesis using assms by (intro orderly_intro [OF app_started]) (simp_all add: steps_left_def)
next
  case ap_stop
  then show ?thesis using assms by (intro orderly_intro [OF app_stopped]) (simp_all add: steps_left_def)
next
  case ap_unload
  then show ?thesis using assms by (intro orderly_intro [OF app_unloaded]) (simp_all add: steps_left_def)
next
  case ap_wait
  show ?thesis
  proof (cases "stop_requested s")
    case True
    then show ?thesis using ap_wait assms by (intro orderly_intro [OF app_woken]) (simp_all add: steps_left_def)
  next
    case False
    have started: "start_completed s" "\<not> runtime_failed s" using assms(1) ap_wait by (auto simp: loader_inv_def)
    have "main_at s = mp_wait_start \<or> main_at s = mp_console"
      using assms False ap_wait by (cases "main_at s") (auto simp: loader_inv_def)
    then show ?thesis
    proof
      assume "main_at s = mp_wait_start"
      then show ?thesis using started by (intro orderly_intro [OF main_start_ok]) (simp_all add: steps_left_def)
    next
      assume "main_at s = mp_console"
      then show ?thesis by (intro orderly_intro [OF main_exit]) (simp_all add: steps_left_def)
    qed
  qed
next
  case ap_end
  show ?thesis
  proof (cases "main_at s")
    case mp_wait_start
    have "start_completed s" using assms(1) ap_end by (simp add: loader_inv_def)
    then show ?thesis
      using mp_wait_start orderly_intro [OF main_start_failed] orderly_intro [OF main_start_ok]
      by (cases "runtime_failed s") (simp_all add: steps_left_def)
  next
    case mp_join_failed
    then show ?thesis using ap_end by (intro orderly_intro [OF main_joined_failed]) (simp_all add: steps_left_def)
  next
    case mp_console
    then show ?thesis by (intro orderly_intro [OF main_exit]) (simp_all add: steps_left_def)
  next
    case mp_join
    then show ?thesis using ap_end by (intro orderly_intro [OF main_joined]) (simp_all add: steps_left_def)
  qed (use assms in simp_all)
qed

lemma orderly_end:
  "loader_inv s \<Longrightarrow> main_at s \<noteq> mp_terminated \<Longrightarrow> \<exists>s' b. orderly_step\<^sup>*\<^sup>* s s' \<and> main_at s' = mp_returned b"
proof (induction "steps_left s" arbitrary: s rule: less_induct)
  case less
  show ?case
  proof (cases "\<exists>b. main_at s = mp_returned b")
    case False
    then obtain t where t: "orderly_step s t" "steps_left t < steps_left s" using orderly_progress less.prems by blast
    have "loader_inv t" and "main_at t \<noteq> mp_terminated" using t loader_inv_step less.prems by (auto simp: orderly_step_def)
    then show ?thesis using less.hyps [OF t(2)] t(1) by (meson converse_rtranclp_into_rtranclp)
  qed blast
qed

text \<open>Once the console loop has ended every step of either thread brings the end nearer.\<close>

lemma joining_step:
  assumes "loader_step s s'" and "main_at s \<in> {mp_join, mp_join_failed} \<or> (\<exists>b. main_at s = mp_returned b)"
  shows "steps_left s' < steps_left s \<and> (main_at s' \<in> {mp_join, mp_join_failed} \<or> (\<exists>b. main_at s' = mp_returned b))"
  using assms
  by (induction rule: loader_step.induct) (auto simp: steps_left_def thread_fails_def)

lemma joining_ends:
  assumes "(loader_step ^^ n) s s'" and "main_at s \<in> {mp_join, mp_join_failed} \<or> (\<exists>b. main_at s = mp_returned b)"
  shows "n + steps_left s' \<le> steps_left s \<and> (main_at s' \<in> {mp_join, mp_join_failed} \<or> (\<exists>b. main_at s' = mp_returned b))"
  using assms(1)
proof (induction n arbitrary: s')
  case (Suc n)
  then obtain t where t: "(loader_step ^^ n) s t" "loader_step t s'" by auto
  show ?case using Suc.IH [OF t(1)] joining_step [OF t(2)] by fastforce
qed (use assms(2) in simp)

text \<open>
  C21. In every interleaving: \<^verbatim>\<open>Initialize\<close> returns only after the application thread has ended, with true exactly when no stage threw;
  unless a command threw and ended the process, it can always still return without another exception and without any step but those
  of the two threads and the end of the console; and once the console has ended (or the start failed) it returns within six steps,
  whichever thread runs.
\<close>

theorem loader_waits_for_the_application:
  assumes "loader_step\<^sup>*\<^sup>* initial_runtime s"
  shows "(\<forall>b. main_at s = mp_returned b \<longrightarrow> app_at s = ap_end \<and> (b \<longleftrightarrow> \<not> runtime_failed s)) \<and>
     (main_at s \<noteq> mp_terminated \<longrightarrow> (\<exists>s' b. orderly_step\<^sup>*\<^sup>* s s' \<and> main_at s' = mp_returned b)) \<and>
     (main_at s \<in> {mp_join, mp_join_failed} \<longrightarrow> (\<forall>n s'. (loader_step ^^ n) s s' \<longrightarrow> n \<le> 6))"
proof -
  have inv: "loader_inv s" using loader_inv_reachable [OF assms] .
  have "n \<le> 6" if "main_at s \<in> {mp_join, mp_join_failed}" "(loader_step ^^ n) s s'" for n s'
  proof -
    have "n \<le> steps_left s" using joining_ends [OF that(2)] that(1) by auto
    moreover have "steps_left s \<le> 6" using that(1) by (cases "app_at s") (auto simp: steps_left_def)
    ultimately show ?thesis by simp
  qed
  then show ?thesis using orderly_end [OF inv] inv unfolding loader_inv_def by blast
qed

section \<open>Overlays\<close>

fun at_path :: "generic \<Rightarrow> string list \<Rightarrow> generic option" where
  "at_path v [] = Some v"
| "at_path v (k # ks) = (case field_of v k of None \<Rightarrow> None | Some x \<Rightarrow> at_path x ks)"

text \<open>The overlay does not mention the path: on the way there it has objects only, and lacks one of the keys.\<close>

fun silent_at :: "generic \<Rightarrow> string list \<Rightarrow> bool" where
  "silent_at (JObject fs) (k # ks) = (case map_of fs k of None \<Rightarrow> True | Some x \<Rightarrow> silent_at x ks)"
| "silent_at v ks = False"

fun distinct_keys :: "generic \<Rightarrow> bool" where
  "distinct_keys (JObject fs) = (distinct (map fst fs) \<and> (\<forall>x \<in> set fs. distinct_keys (snd x)))"
| "distinct_keys v = True"

lemma silent_at_None: "silent_at v p \<Longrightarrow> at_path v p = None"
  by (induction v p rule: silent_at.induct) (auto simp: field_of_def split: option.splits)

lemma map_of_merge_fields:
  "distinct (map fst os) \<Longrightarrow> map_of (merge_fields bs os) k = (case map_of os k of
      None \<Rightarrow> map_of bs k
    | Some v \<Rightarrow> Some (case map_of bs k of None \<Rightarrow> v | Some b \<Rightarrow> MergeConfigurationValue b v))"
proof (induction os arbitrary: bs)
  case (Cons x os)
  obtain k' v where x: "x = (k', v)" by fastforce
  have "map_of os k' = None" using Cons.prems x by (simp add: map_of_eq_None_iff)
  with Cons x show ?case by (auto split: option.splits)
qed simp

lemma map_of_distinct_keys: "distinct_keys (JObject fs) \<Longrightarrow> map_of fs k = Some v \<Longrightarrow> distinct_keys v"
  by (auto dest!: map_of_SomeD)

text \<open>
  The effective configuration: at every path at which the overlay holds a value that is not an object the merge holds that value,
  and at every path the overlay does not mention it holds what the base file holds there.
\<close>

lemma overlay_wins_where_it_speaks:
  assumes "distinct_keys v"
  shows "(at_path v p = Some x \<longrightarrow> (\<forall>fs. x \<noteq> JObject fs) \<longrightarrow> at_path (MergeConfigurationValue base v) p = Some x) \<and>
     (silent_at v p \<longrightarrow> at_path (MergeConfigurationValue base v) p = at_path base p)"
  using assms
proof (induction p arbitrary: v base)
  case Nil
  then show ?case by auto
next
  case (Cons k ks)
  show ?case
  proof (cases v)
    case (JObject fs)
    show ?thesis
    proof (cases base)
      case base: (JObject bs)
      show ?thesis
      proof (cases "map_of fs k")
        case None
        then show ?thesis using Cons.prems JObject base by (simp add: field_of_def map_of_merge_fields)
      next
        case (Some y)
        have "distinct_keys y" using map_of_distinct_keys Cons.prems JObject Some by blast
        note ih = Cons.IH [OF this]
        show ?thesis
        proof (cases "map_of bs k")
          case None
          then show ?thesis using Cons.prems JObject base Some silent_at_None [of y ks] by (auto simp: field_of_def map_of_merge_fields)
        next
          case (Some b)
          then show ?thesis using Cons.prems JObject base \<open>map_of fs k = Some y\<close> ih [of b] by (simp add: field_of_def map_of_merge_fields)
        qed
      qed
    qed (use JObject silent_at_None [of v "k # ks"] in \<open>auto simp: field_of_def\<close>)
  qed (auto simp: field_of_def)
qed

theorem overlay_wins_where_it_speaks_witness:
  "at_path (MergeConfigurationValue (JObject [(''a'', JObject [(''x'', JNumber ''1''), (''y'', JNumber ''2'')])])
      (JObject [(''a'', JObject [(''x'', JNumber ''3'')])])) [''a'', ''x''] = Some (JNumber ''3'') \<and>
   at_path (MergeConfigurationValue (JObject [(''a'', JObject [(''x'', JNumber ''1''), (''y'', JNumber ''2'')])])
      (JObject [(''a'', JObject [(''x'', JNumber ''3'')])])) [''a'', ''y''] = Some (JNumber ''2'')"
  using overlay_wins_where_it_speaks [of "JObject [(''a'', JObject [(''x'', JNumber ''3'')])]" "[''a'', ''x'']" "JNumber ''3''"
      "JObject [(''a'', JObject [(''x'', JNumber ''1''), (''y'', JNumber ''2'')])]"]
    overlay_wins_where_it_speaks [of "JObject [(''a'', JObject [(''x'', JNumber ''3'')])]" "[''a'', ''y'']" "JNumber ''2''"
      "JObject [(''a'', JObject [(''x'', JNumber ''1''), (''y'', JNumber ''2'')])]"]
  by (simp add: field_of_def)

theorem loader_waits_for_the_application_witness:
  "\<exists>s. loader_step\<^sup>*\<^sup>* initial_runtime s \<and> main_at s = mp_returned False \<and> app_at s = ap_end \<and> runtime_failed s"
proof -
  let ?s1 = "thread_fails ''x'' initial_runtime"
  let ?s2 = "?s1\<lparr>main_at := mp_join_failed\<rparr>"
  let ?s3 = "?s2\<lparr>main_at := mp_returned False\<rparr>"
  have "loader_step initial_runtime ?s1" "loader_step ?s1 ?s2" "loader_step ?s2 ?s3"
    by (rule app_throws main_start_failed main_joined_failed; simp add: initial_runtime_def thread_fails_def)+
  then have "loader_step\<^sup>*\<^sup>* initial_runtime ?s3" by (meson converse_rtranclp_into_rtranclp rtranclp.rtrancl_refl)
  from loader_waits_for_the_application [OF this] this show ?thesis by auto
qed

section \<open>Commands and logging\<close>

text \<open>The first registration of a name stands: a second one is refused, and the name keeps running the first handler.\<close>

lemma first_registration_stands:
  assumes "registry_RegisterCommand n d (Some h) M = (True, M1)" and "registry_RegisterCommand n d' (Some h') M1 = (r, M2)"
    and "stream_words input = n # arguments"
  shows "\<not> r \<and> M2 = M1 \<and> registry_Execute input M2 w =
     (let (r, w') = h arguments w in (map_outcome (\<lambda>status. \<lparr>exec_status = status, exec_command_name = n\<rparr>) r, w'))"
proof -
  have M1: "M1 = M @ [(n, d, h)]" "n \<noteq> []" "map_of M n = None"
    using assms(1) by (auto simp: registry_RegisterCommand_def simp del: not_None_eq split: if_splits)
  then have "map_of M1 n = Some (d, h)" by (simp add: map_add_def)
  then show ?thesis using assms(2,3) M1(2) by (auto simp: registry_RegisterCommand_def registry_Execute_def)
qed

text \<open>
  The validation accepts the rotation mode in any case, the logger compares it as it is written: any spelling of \<open>daily\<close> but
  the lower-case one passes and gives a log that rotates by size.
\<close>

lemma daily_in_capitals_rotates_by_size:
  assumes "ToLower (rot_mode (log_rotate (cc_log c))) = ''daily''" and "rot_mode (log_rotate (cc_log c)) \<noteq> ''daily''"
    and "rot_max_files (log_rotate (cc_log c)) \<noteq> 0" and "rot_daily_hour (log_rotate (cc_log c)) \<le> 23"
    and "rot_daily_minute (log_rotate (cc_log c)) \<le> 59"
  shows "ValidateCommonConfiguration c = None \<and> (\<exists>path sz n. file_sink (cc_log c) = rotating_file_sink path sz n)"
  using assms by (simp add: ValidateCommonConfiguration_def file_sink_def Let_def not_less [symmetric])

lemma ToLower_Daily: "ToLower ''Daily'' = ''daily''"
  by (simp add: ToLower_def tolower_def char_of_def bit_0)

end
