(* ===== verification/Console.thy ===== *)
theory Console
  imports Loader
begin

text \<open>
  What the runtime commands of the four applications share (src/src/{game,gate,relay,sim_client}/application.cpp): the lines they
  log, the numbers they read from their arguments, and their registration with the loader. A command runs on the state of its
  application and the lines written so far; it ends with
  \<^verbatim>\<open>handled\<close>, with the exception of a number it did not guard, or not at all, when an operation it calls does not return.
\<close>

section \<open>Lines\<close>

datatype log_line = info_line string | warn_line string

text \<open>The replacement fields of a format string, all of them \<^verbatim>\<open>{}\<close>.\<close>

fun fmt :: "string \<Rightarrow> string list \<Rightarrow> string" where
  "fmt [] as = []"
| "fmt (c # s) as = (case (s, as) of
      (d # t, a # as') \<Rightarrow> if c = CHR ''{'' \<and> d = CHR ''}'' then a @ fmt t as' else c # fmt s as
    | _ \<Rightarrow> c # fmt s as)"

definition show_bool :: "bool \<Rightarrow> string" where
  "show_bool b = (if b then ''true'' else ''false'')"

text \<open>\<^verbatim>\<open>s.empty() ? "none" : s\<close>\<close>

definition or_none :: "string \<Rightarrow> string" where
  "or_none s = (if s = [] then ''none'' else s)"

text \<open>The words from \<open>begin_index\<close> on, with single spaces.\<close>

fun join_words :: "string list \<Rightarrow> string" where
  "join_words [] = []"
| "join_words [a] = a"
| "join_words (a # b # as) = a @ '' '' @ join_words (b # as)"

definition JoinArguments :: "string list \<Rightarrow> nat \<Rightarrow> string" where
  "JoinArguments arguments begin_index = join_words (drop begin_index arguments)"

section \<open>Commands\<close>

text \<open>The body of a command: the lines it logs, the exception that leaves it, or that it never ends.\<close>

type_synonym 's command_body = "string list \<Rightarrow> 's \<Rightarrow> log_line list outcome \<times> 's"

definition command :: "'s command_body \<Rightarrow> ('s \<times> log_line list) CommandHandler" where
  "command body arguments z = (let (s, out) = z in case body arguments s of
      (returned lines, s') \<Rightarrow> (returned cmd_handled, s', out @ lines)
    | (threw e, s') \<Rightarrow> (threw e, s', out)
    | (hangs, s') \<Rightarrow> (hangs, s', out))"

definition loader_RegisterCommand :: "string \<Rightarrow> string \<Rightarrow> 'w CommandHandler \<Rightarrow> 'w CommandRegistry \<Rightarrow> exn option \<times> 'w CommandRegistry" where
  "loader_RegisterCommand name description handler M =
     (case registry_RegisterCommand name description (Some handler) M of
        (False, M') \<Rightarrow> (Some (''failed to register runtime command: '' @ name), M')
      | (True, M') \<Rightarrow> (None, M'))"

fun register_commands :: "(string \<times> string \<times> 'w CommandHandler) list \<Rightarrow> 'w CommandRegistry \<Rightarrow> exn option \<times> 'w CommandRegistry" where
  "register_commands [] M = (None, M)"
| "register_commands ((name, description, handler) # cs) M = (case loader_RegisterCommand name description handler M of
      (Some e, M') \<Rightarrow> (Some e, M')
    | (None, M') \<Rightarrow> register_commands cs M')"

text \<open>The registry of a run before the application adds to it; \<open>stop\<close> is \<^verbatim>\<open>RequestStop\<close>.\<close>

definition exit_command :: "('w \<Rightarrow> 'w) \<Rightarrow> 'w CommandHandler" where
  "exit_command stop arguments w = (returned cmd_exit_requested, stop w)"

definition loader_commands :: "('w \<Rightarrow> 'w) \<Rightarrow> 'w CommandRegistry" where
  "loader_commands stop = snd (registry_RegisterCommand ''exit'' ''Stop the application and exit the loader''
     (Some (exit_command stop)) (registry_ClearCommands []))"

text \<open>Shapes that many commands have: a missing service, a wrong number of words, and the answer of an operation.\<close>

definition refuse :: "string \<Rightarrow> 's \<Rightarrow> log_line list outcome \<times> 's" where
  "refuse text' s = (returned [warn_line text'], s)"

definition inform :: "string \<Rightarrow> string list \<Rightarrow> 's \<Rightarrow> log_line list outcome \<times> 's" where
  "inform text' as s = (returned [info_line (fmt text' as)], s)"

definition report :: "result \<Rightarrow> string \<Rightarrow> string \<Rightarrow> string list \<Rightarrow> 's \<Rightarrow> log_line list outcome \<times> 's" where
  "report r failure text' as s = (if \<not> ok r then refuse (fmt failure [message r]) s else inform text' as s)"

text \<open>A number read outside any handler, and one read inside \<^verbatim>\<open>try\<close>.\<close>

definition with_number :: "string \<Rightarrow> (u64 \<Rightarrow> 's \<Rightarrow> 'a outcome \<times> 's) \<Rightarrow> 's \<Rightarrow> 'a outcome \<times> 's" where
  "with_number word k s = (case stoull word of Inl e \<Rightarrow> (threw e, s) | Inr n \<Rightarrow> k n s)"

definition guarded_number :: "string \<Rightarrow> string \<Rightarrow> (u64 \<Rightarrow> 's \<Rightarrow> log_line list outcome \<times> 's) \<Rightarrow> 's
    \<Rightarrow> log_line list outcome \<times> 's" where
  "guarded_number word text' k s = (case stoull word of Inl e \<Rightarrow> refuse text' s | Inr n \<Rightarrow> k n s)"

text \<open>Several numbers read inside one \<^verbatim>\<open>try\<close>.\<close>

definition numbers :: "string list \<Rightarrow> u64 list option" where
  "numbers words = those (map (\<lambda>w. case stoull w of Inl e \<Rightarrow> None | Inr n \<Rightarrow> Some n) words)"

section \<open>Lemmas\<close>

lemma snd_shapes [simp]: "snd (refuse t s) = s" "snd (inform t as s) = s" "snd (report r f t as s) = s"
  by (simp_all add: refuse_def inform_def report_def)

lemma snd_guarded_number: "(\<And>n. snd (k n s) = s) \<Longrightarrow> snd (guarded_number word t k s) = s"
  by (auto simp: guarded_number_def split: sum.splits)

lemma fst_shapes [simp]: "fst (refuse t s) = returned [warn_line t]" "fst (inform t as s) = returned [info_line (fmt t as)]"
  "\<exists>ls. fst (report r f t as s) = returned ls"
  by (simp_all add: refuse_def inform_def report_def)

text \<open>Registration fails only for a name that is empty or taken.\<close>

lemma register_commands_ok:
  "distinct (map fst cs) \<Longrightarrow> [] \<notin> fst ` set cs \<Longrightarrow> fst ` set cs \<inter> fst ` set M = {} \<Longrightarrow> register_commands cs M = (None, M @ cs)"
proof (induction cs arbitrary: M)
  case (Cons c cs)
  obtain name description handler where c: "c = (name, description, handler)" by (metis prod_cases3)
  have "map_of M name = None" using Cons.prems(3) c by (auto simp: map_of_eq_None_iff)
  then have "loader_RegisterCommand name description handler M = (None, M @ [c])"
    using Cons.prems(2) c by (auto simp: loader_RegisterCommand_def registry_RegisterCommand_def)
  moreover have "register_commands cs (M @ [c]) = (None, (M @ [c]) @ cs)"
    using Cons.prems by (intro Cons.IH) auto
  ultimately show ?case using c by simp
qed simp

text \<open>A line whose first word names a command runs that command on the other words.\<close>

lemma Execute_command:
  assumes "map_of M name = Some (description, command body)" and "stream_words input = name # arguments" and "body arguments s = (r, s')"
  shows "registry_Execute input M (s, out) =
     (map_outcome (\<lambda>_. \<lparr>exec_status = cmd_handled, exec_command_name = name\<rparr>) r, s', out @ (case r of returned lines \<Rightarrow> lines | _ \<Rightarrow> []))"
  using assms by (cases r) (simp_all add: registry_Execute_def command_def)

text \<open>What every command keeps, every line keeps.\<close>

lemma command_keeps: "(\<And>s. P s \<Longrightarrow> P (snd (body as s))) \<Longrightarrow> P s \<Longrightarrow> P (fst (snd (command body as (s, out))))"
  by (cases "body as s"; cases "fst (body as s)") (force simp: command_def)+

lemma Execute_keeps:
  assumes "\<And>name description h as s out. (name, description, h) \<in> set M \<Longrightarrow> P s \<Longrightarrow> P (fst (snd (h as (s, out))))" and "P s"
  shows "P (fst (snd (registry_Execute input M (s, out))))"
proof (cases "stream_words input")
  case (Cons name as)
  show ?thesis
  proof (cases "map_of M name")
    case (Some x)
    obtain d h where x: "x = (d, h)" by fastforce
    have "P (fst (snd (h as (s, out))))" using assms map_of_SomeD [OF Some] x by blast
    then show ?thesis using Some x Cons by (cases "h as (s, out)") (simp add: registry_Execute_def)
  qed (simp add: registry_Execute_def Cons assms(2))
qed (simp add: registry_Execute_def assms(2))

text \<open>What every command of a registry keeps of the state of the application, a line typed at the console keeps.\<close>

definition body_keeps :: "('s \<Rightarrow> bool) \<Rightarrow> 's command_body \<Rightarrow> bool" where
  "body_keeps P body \<longleftrightarrow> (\<forall>arguments s. P s \<longrightarrow> P (snd (body arguments s)))"

definition handler_keeps :: "('s \<Rightarrow> bool) \<Rightarrow> ('s \<times> log_line list) CommandHandler \<Rightarrow> bool" where
  "handler_keeps P h \<longleftrightarrow> (\<forall>arguments s out. P s \<longrightarrow> P (fst (snd (h arguments (s, out)))))"

lemma body_keepsI: "(\<And>arguments s. P s \<Longrightarrow> P (snd (body arguments s))) \<Longrightarrow> body_keeps P body"
  by (simp add: body_keeps_def)

lemma body_keepsD: "body_keeps P body \<Longrightarrow> P s \<Longrightarrow> P (snd (body arguments s))"
  by (simp add: body_keeps_def)

lemma body_keeps_reading: "(\<And>arguments s. snd (body arguments s) = s) \<Longrightarrow> body_keeps P body"
  by (simp add: body_keeps_def)

lemma handler_keeps_command: "body_keeps P body \<Longrightarrow> handler_keeps P (command body)"
  unfolding handler_keeps_def by (blast intro: command_keeps dest: body_keepsD)

text \<open>Only the command that the line names has to keep it.\<close>

lemma line_keeps_named:
  assumes "\<And>name description h as. (name, description, h) \<in> set cs \<Longrightarrow> stream_words input = name # as \<Longrightarrow> handler_keeps P h" and "P s"
  shows "P (fst (snd (registry_Execute input (loader_commands id @ cs) (s, out))))"
proof (cases "stream_words input")
  case (Cons name as)
  show ?thesis
  proof (cases "map_of (loader_commands id @ cs) name")
    case (Some x)
    obtain d h where x: "x = (d, h)" by fastforce
    from map_of_SomeD [OF Some] x consider "h = exit_command id" | "(name, d, h) \<in> set cs"
      by (auto simp: loader_commands_def registry_RegisterCommand_def registry_ClearCommands_def)
    then have "P (fst (snd (h as (s, out))))"
      by cases (use assms Cons in \<open>auto simp: exit_command_def handler_keeps_def\<close>)
    then show ?thesis using Some x Cons by (cases "h as (s, out)") (simp add: registry_Execute_def)
  next
    case None
    then show ?thesis unfolding registry_Execute_def by (simp only: Cons list.case option.case fst_conv snd_conv assms(2))
  qed
qed (simp add: registry_Execute_def assms(2))

lemma line_keeps:
  assumes "\<And>c. c \<in> set cs \<Longrightarrow> handler_keeps P (snd (snd c))" and "P s"
  shows "P (fst (snd (registry_Execute input (loader_commands id @ cs) (s, out))))"
  by (rule line_keeps_named) (use assms in force)+

text \<open>A word that is not a number, where no handler is around it, leaves the command as an exception.\<close>

lemma with_number_throws: "stoull word = Inl e \<Longrightarrow> with_number word k s = (threw e, s)"
  by (simp add: with_number_def)

lemma keeps_with_number: "(\<And>n s. P s \<Longrightarrow> P (snd (k n s))) \<Longrightarrow> P s \<Longrightarrow> P (snd (with_number word k s))"
  by (simp add: with_number_def split: sum.splits)

lemma keeps_guarded_number: "(\<And>n s. P s \<Longrightarrow> P (snd (k n s))) \<Longrightarrow> P s \<Longrightarrow> P (snd (guarded_number word t k s))"
  by (simp add: guarded_number_def split: sum.splits)

end
