(* ===== verification/Gate_Tables.thy ===== *)
theory Gate_Tables
  imports Tcp_Transport Connectivity
begin

text \<open>
  The tables of a gate process (src/src/gate/services): client connections, gate sessions, player routes, the
  check of credentials and the account directory in Redis. What runs when a connection ends is wired together in
  \<^verbatim>\<open>Gate_Services\<close>; here each service is on its own.
\<close>

section \<open>Connections\<close>

datatype GateConnectionState = gc_accepted | gc_handshaking | gc_anonymous | gc_authenticating | gc_bound | gc_closing | gc_closed

fun connection_ToString :: "GateConnectionState \<Rightarrow> string" where
  "connection_ToString gc_accepted = ''accepted''"
| "connection_ToString gc_handshaking = ''handshaking''"
| "connection_ToString gc_anonymous = ''anonymous''"
| "connection_ToString gc_authenticating = ''authenticating''"
| "connection_ToString gc_bound = ''bound''"
| "connection_ToString gc_closing = ''closing''"
| "connection_ToString gc_closed = ''closed''"

record GateConnectionRecord =
  gcr_state :: GateConnectionState
  remote_endpoint :: string
  last_recv_time_ms :: u64
  last_send_time_ms :: u64
  heartbeat_deadline_ms :: u64

definition default_connection :: GateConnectionRecord where
  "default_connection = \<lparr>gcr_state = gc_accepted, remote_endpoint = [], last_recv_time_ms = 0, last_send_time_ms = 0,
     heartbeat_deadline_ms = 0\<rparr>"

record GateConnectionService =
  gc_mConnections :: "(u64 \<times> GateConnectionRecord) list"
  mSocketByConnectionId :: "(u64 \<times> int) list"
  mConnectionIdBySocket :: "(int \<times> u64) list"
  mListenHost :: string
  mListenPort :: u16
  gc_mNextConnectionId :: u64
  mListenSocketFd :: int
  mStopping :: bool
  gc_worker :: bool \<comment> \<open>whether \<^verbatim>\<open>mWorkerThread\<close> is joinable\<close>

text \<open>
  The operating system of a gate: clock and Redis, sockets, the text of a peer's address and \<^verbatim>\<open>select\<close>, which
  returns the ready descriptors, none when it times out or fails.
\<close>

record 'w gate_os =
  os_env :: "'w env"
  os_sockets :: "'w sockets"
  os_peer :: "int \<Rightarrow> 'w \<Rightarrow> string"
  os_select :: "int list \<Rightarrow> 'w \<Rightarrow> int list \<times> 'w"

definition gate_connection_Start :: "'w gate_os \<Rightarrow> GateConnectionService \<times> 'w \<Rightarrow> GateConnectionService \<times> 'w" where
  "gate_connection_Start OS s = (let (C, w) = s; K = os_sockets OS in
     if gc_worker C then (C, w)
     else let (fd, w1) = sk_socket K w; C1 = C\<lparr>mListenSocketFd := fd\<rparr> in
     if fd < 0 then (C1, w1)
     else let (_, w2) = sk_reuseaddr K fd w1 in
     if \<not> sk_inet_pton K (mListenHost C) then (C1\<lparr>mListenSocketFd := -1\<rparr>, sk_close K fd w2)
     else let (rb, w3) = sk_bind K fd \<lparr>host = mListenHost C, port = mListenPort C\<rparr> w2 in
     if rb \<noteq> 0 then (C1\<lparr>mListenSocketFd := -1\<rparr>, sk_close K fd w3)
     else let (rl, w4) = sk_listen K fd w3 in
     if rl \<noteq> 0 then (C1\<lparr>mListenSocketFd := -1\<rparr>, sk_close K fd w4)
     else (C1\<lparr>mStopping := False, gc_worker := True\<rparr>, w4))"

definition gate_connection_Stop :: "'w gate_os \<Rightarrow> GateConnectionService \<times> 'w \<Rightarrow> GateConnectionService \<times> 'w" where
  "gate_connection_Stop OS s = (let (C, w) = s; K = os_sockets OS;
     w1 = (if 0 \<le> mListenSocketFd C then sk_close K (mListenSocketFd C) (sk_shutdown K (mListenSocketFd C) w) else w);
     w2 = fold (\<lambda>(i, fd) w. sk_close K fd (sk_shutdown K fd w)) (mSocketByConnectionId C) w1
     in (C\<lparr>mStopping := True, mListenSocketFd := (if 0 \<le> mListenSocketFd C then -1 else mListenSocketFd C),
           mSocketByConnectionId := [], mConnectionIdBySocket := [], gc_worker := False\<rparr>, w2))"

definition set_connection :: "u64 \<Rightarrow> GateConnectionRecord \<Rightarrow> GateConnectionService \<Rightarrow> GateConnectionService" where
  "set_connection cid r C = C\<lparr>gc_mConnections := AList.update cid r (gc_mConnections C)\<rparr>"

definition connection_at :: "GateConnectionService \<Rightarrow> u64 \<Rightarrow> GateConnectionRecord" where
  "connection_at C cid = (case map_of (gc_mConnections C) cid of None \<Rightarrow> default_connection | Some r \<Rightarrow> r)"

text \<open>The four assignments to a new record, shared by \<^verbatim>\<open>Accept\<close> and \<^verbatim>\<open>AcceptReadySocket\<close>.\<close>

definition open_record :: "string \<Rightarrow> u64 \<Rightarrow> GateConnectionRecord \<Rightarrow> GateConnectionRecord" where
  "open_record remote now r = r\<lparr>gcr_state := gc_accepted, remote_endpoint := remote, last_recv_time_ms := now,
     last_send_time_ms := now, heartbeat_deadline_ms := now + 30000\<rparr>"

definition gate_Accept :: "'w gate_os \<Rightarrow> u64 \<Rightarrow> string \<Rightarrow> GateConnectionService \<times> 'w \<Rightarrow> result \<times> GateConnectionService \<times> 'w" where
  "gate_Accept OS cid remote s = (let (C, w) = s in
     if map_of (gc_mConnections C) cid \<noteq> None then (Failure ''connection already exists'', C, w)
     else let (now, w1) = NowMs (os_env OS) w in
     (Success, set_connection cid (open_record remote now (connection_at C cid)) C, w1))"

definition mark :: "GateConnectionState \<Rightarrow> u64 \<Rightarrow> GateConnectionService \<Rightarrow> result \<times> GateConnectionService" where
  "mark st cid C = (case map_of (gc_mConnections C) cid of
      None \<Rightarrow> (Failure ''connection does not exist'', C)
    | Some r \<Rightarrow> (Success, set_connection cid (r\<lparr>gcr_state := st\<rparr>) C))"

definition MarkAnonymous :: "u64 \<Rightarrow> GateConnectionService \<Rightarrow> result \<times> GateConnectionService" where
  "MarkAnonymous = mark gc_anonymous"

definition MarkBound :: "u64 \<Rightarrow> GateConnectionService \<Rightarrow> result \<times> GateConnectionService" where
  "MarkBound = mark gc_bound"

definition connection_Snapshot :: "u64 \<Rightarrow> GateConnectionService \<Rightarrow> GateConnectionRecord option" where
  "connection_Snapshot cid C = map_of (gc_mConnections C) cid"

definition CloseSocketLocked :: "'w gate_os \<Rightarrow> u64 \<Rightarrow> GateConnectionService \<times> 'w \<Rightarrow> GateConnectionService \<times> 'w" where
  "CloseSocketLocked OS cid s = (let (C, w) = s; K = os_sockets OS in
     case map_of (mSocketByConnectionId C) cid of
       None \<Rightarrow> (C, w)
     | Some fd \<Rightarrow> (C\<lparr>mConnectionIdBySocket := AList.delete fd (mConnectionIdBySocket C),
                     mSocketByConnectionId := AList.delete cid (mSocketByConnectionId C)\<rparr>,
                   sk_close K fd (sk_shutdown K fd w)))"

text \<open>The locked part of \<^verbatim>\<open>FinalizeConnection\<close>, before the disconnect handler.\<close>

definition finalize_locked :: "'w gate_os \<Rightarrow> u64 \<Rightarrow> GateConnectionService \<times> 'w \<Rightarrow> GateConnectionService \<times> 'w" where
  "finalize_locked OS cid s = (let (C, w) = s in
     case map_of (gc_mConnections C) cid of
       None \<Rightarrow> CloseSocketLocked OS cid (C, w)
     | Some r \<Rightarrow> let (now, w1) = NowMs (os_env OS) w in
         CloseSocketLocked OS cid (set_connection cid (r\<lparr>gcr_state := gc_closed, last_recv_time_ms := now\<rparr>) C, w1))"

text \<open>The locked part of \<^verbatim>\<open>Close\<close>; the caller goes on with \<^verbatim>\<open>FinalizeConnection\<close> when it succeeds.\<close>

definition close_locked :: "'w gate_os \<Rightarrow> u64 \<Rightarrow> GateConnectionService \<times> 'w \<Rightarrow> result \<times> GateConnectionService \<times> 'w" where
  "close_locked OS cid s = (let (C, w) = s in
     case map_of (gc_mConnections C) cid of
       None \<Rightarrow> (Failure ''connection does not exist'', C, w)
     | Some r \<Rightarrow> (Success, CloseSocketLocked OS cid (set_connection cid (r\<lparr>gcr_state := gc_closed\<rparr>) C, w)))"

text \<open>A client frame is the message id and the payload size as two little-endian words, then the payload.\<close>

definition client_header :: "u32 \<Rightarrow> u32 \<Rightarrow> u8 list" where
  "client_header message_id sz = le32 message_id @ le32 sz"

definition gate_Send :: "'w gate_os \<Rightarrow> u64 \<Rightarrow> u32 \<Rightarrow> ByteBuffer \<Rightarrow> GateConnectionService \<times> 'w
    \<Rightarrow> result \<times> GateConnectionService \<times> 'w" where
  "gate_Send OS cid message_id bytes s = (let (C, w) = s; K = os_sockets OS in
     case map_of (mSocketByConnectionId C) cid of
       None \<Rightarrow> (Failure ''connection socket does not exist'', C, w)
     | Some fd \<Rightarrow>
         let (head_ok, w1) = WriteExact K fd (client_header message_id (of_nat (length bytes))) w in
         if \<not> head_ok then (Failure ''failed to send frame header'', C, w1)
         else let (body_ok, w2) = (if bytes = [] then (True, w1) else WriteExact K fd bytes w1) in
         if \<not> body_ok then (Failure ''failed to send frame payload'', C, w2)
         else case map_of (gc_mConnections C) cid of
           None \<Rightarrow> (Success, C, w2)
         | Some r \<Rightarrow> let (now, w3) = NowMs (os_env OS) w2 in
             (Success, set_connection cid (r\<lparr>last_send_time_ms := now\<rparr>) C, w3))"

definition AcceptReadySocket :: "'w gate_os \<Rightarrow> GateConnectionService \<times> 'w \<Rightarrow> GateConnectionService \<times> 'w" where
  "AcceptReadySocket OS s = (let (C, w) = s in
     if mListenSocketFd C < 0 then (C, w)
     else let (fd, w1) = sk_accept (os_sockets OS) (mListenSocketFd C) w in
     if fd < 0 then (C, w1)
     else let cid = gc_mNextConnectionId C; (now, w2) = NowMs (os_env OS) w1;
              C1 = C\<lparr>gc_mNextConnectionId := cid + 1\<rparr>;
              C2 = set_connection cid (open_record (os_peer OS fd w1) now (connection_at C1 cid)) C1
          in (C2\<lparr>mSocketByConnectionId := AList.update cid fd (mSocketByConnectionId C2),
                 mConnectionIdBySocket := AList.update fd cid (mConnectionIdBySocket C2)\<rparr>, w2))"

text \<open>
  \<^verbatim>\<open>HandleReadable\<close> up to its call-back: the connection is to be finalised, or one message goes to the handler.
\<close>

datatype readable = rd_finalize | rd_message u32 ByteBuffer

definition read_client_frame :: "'w gate_os \<Rightarrow> u64 \<Rightarrow> int \<Rightarrow> GateConnectionService \<times> 'w \<Rightarrow> readable \<times> GateConnectionService \<times> 'w" where
  "read_client_frame OS cid fd s = (let (C, w) = s; K = os_sockets OS in
     case ReadExact K fd 8 w of
       (None, w1) \<Rightarrow> (rd_finalize, C, w1)
     | (Some h, w1) \<Rightarrow>
         let message_id = from_le32 h; sz = from_le32 (drop 4 h);
             (body, w2) = (if sz = 0 then (Some [], w1) else ReadExact K fd (unat sz) w1) in
         case body of
           None \<Rightarrow> (rd_finalize, C, w2)
         | Some p \<Rightarrow> (case map_of (gc_mConnections C) cid of
               None \<Rightarrow> (rd_message message_id p, C, w2)
             | Some r \<Rightarrow> let (now, w3) = NowMs (os_env OS) w2 in
                 (rd_message message_id p,
                  set_connection cid (r\<lparr>last_recv_time_ms := now, heartbeat_deadline_ms := now + 30000\<rparr>) C, w3)))"

section \<open>Sessions\<close>

datatype GateSessionState = gs_anonymous | gs_logging_in | gs_active | gs_kicked | gs_reconnecting | gs_closing

fun session_ToString :: "GateSessionState \<Rightarrow> string" where
  "session_ToString gs_anonymous = ''anonymous''"
| "session_ToString gs_logging_in = ''logging_in''"
| "session_ToString gs_active = ''active''"
| "session_ToString gs_kicked = ''kicked''"
| "session_ToString gs_reconnecting = ''reconnecting''"
| "session_ToString gs_closing = ''closing''"

record GateSessionRecord =
  gs_state :: GateSessionState
  gs_gate_session_id :: u64
  gs_connection_id :: u64
  gs_account_id :: string
  gs_player_id :: u64
  gs_game_service_type :: u32
  gs_game_instance_id :: u32
  login_version :: u64
  session_epoch :: u64
  gs_last_active_time_ms :: u64

definition default_gate_session :: GateSessionRecord where
  "default_gate_session = \<lparr>gs_state = gs_anonymous, gs_gate_session_id = 0, gs_connection_id = 0, gs_account_id = [], gs_player_id = 0,
     gs_game_service_type = 0, gs_game_instance_id = 0, login_version = 0, session_epoch = 0, gs_last_active_time_ms = 0\<rparr>"

type_synonym GateSessions = "(u64 \<times> GateSessionRecord) list"

definition OpenAnonymous :: "'w env \<Rightarrow> u64 \<Rightarrow> u64 \<Rightarrow> GateSessions \<times> 'w \<Rightarrow> result \<times> GateSessions \<times> 'w" where
  "OpenAnonymous E sid cid s = (let (S, w) = s in
     if map_of S sid \<noteq> None then (Failure ''session already exists'', S, w)
     else let (now, w1) = NowMs E w in
     (Success, AList.update sid (default_gate_session\<lparr>gs_state := gs_anonymous, gs_gate_session_id := sid, gs_connection_id := cid,
        session_epoch := 1, gs_last_active_time_ms := now\<rparr>) S, w1))"

definition gate_Activate :: "'w env \<Rightarrow> u64 \<Rightarrow> string \<Rightarrow> u64 \<Rightarrow> u32 \<Rightarrow> u32 \<Rightarrow> GateSessions \<times> 'w \<Rightarrow> result \<times> GateSessions \<times> 'w" where
  "gate_Activate E sid account pid game_type game_instance s = (let (S, w) = s in
     case map_of S sid of
       None \<Rightarrow> (Failure ''session does not exist'', S, w)
     | Some r \<Rightarrow> let (now, w1) = NowMs E w in
         (Success, AList.update sid (r\<lparr>gs_state := gs_active, gs_gate_session_id := sid, gs_account_id := account, gs_player_id := pid,
            gs_game_service_type := game_type, gs_game_instance_id := game_instance, login_version := login_version r + 1,
            session_epoch := session_epoch r + 1, gs_last_active_time_ms := now\<rparr>) S, w1))"

definition gate_FindByConnection :: "u64 \<Rightarrow> GateSessions \<Rightarrow> GateSessionRecord option" where
  "gate_FindByConnection cid S = find (\<lambda>r. gs_connection_id r = cid) (map snd S)"

definition gate_FindByAccount :: "string \<Rightarrow> GateSessions \<Rightarrow> GateSessionRecord option" where
  "gate_FindByAccount account S =
     find (\<lambda>r. gs_account_id r = account \<and> (gs_state r = gs_active \<or> gs_state r = gs_logging_in)) (map snd S)"

text \<open>The record handed out through \<^verbatim>\<open>removed\<close> is the result.\<close>

definition RemoveByConnection :: "u64 \<Rightarrow> GateSessions \<Rightarrow> (result + GateSessionRecord) \<times> GateSessions" where
  "RemoveByConnection cid S = (case find (\<lambda>(sid, r). gs_connection_id r = cid) S of
      None \<Rightarrow> (Inl (Failure ''session for connection does not exist''), S)
    | Some (sid, r) \<Rightarrow> (Inr (r\<lparr>gs_state := gs_closing\<rparr>), AList.delete sid S))"

definition gate_Snapshot :: "u64 \<Rightarrow> GateSessions \<Rightarrow> GateSessionRecord option" where
  "gate_Snapshot sid S = map_of S sid"

section \<open>Routes\<close>

record GatePlayerRoute =
  gr_game_service_type :: u32
  gr_game_instance_id :: u32
  gr_gate_session_id :: u64
  last_update_ms :: u64

type_synonym GateRoutes = "(u64 \<times> GatePlayerRoute) list"

definition BindPlayer :: "'w env \<Rightarrow> u64 \<Rightarrow> u32 \<Rightarrow> u32 \<Rightarrow> u64 \<Rightarrow> GateRoutes \<times> 'w \<Rightarrow> result \<times> GateRoutes \<times> 'w" where
  "BindPlayer E pid game_type game_instance sid s = (let (R, w) = s; (now, w1) = NowMs E w in
     (Success, AList.update pid \<lparr>gr_game_service_type = game_type, gr_game_instance_id = game_instance,
        gr_gate_session_id = sid, last_update_ms = now\<rparr> R, w1))"

definition UnbindPlayer :: "u64 \<Rightarrow> u64 \<Rightarrow> GateRoutes \<Rightarrow> result \<times> GateRoutes" where
  "UnbindPlayer pid sid R = (case map_of R pid of
      None \<Rightarrow> (Failure ''player route does not exist'', R)
    | Some r \<Rightarrow>
        if gr_gate_session_id r \<noteq> sid then (Failure ''player route gate_session_id mismatch'', R)
        else (Success, AList.delete pid R))"

definition route_Snapshot :: "u64 \<Rightarrow> GateRoutes \<Rightarrow> GatePlayerRoute option" where
  "route_Snapshot pid R = map_of R pid"

section \<open>Credentials\<close>

record GateAuthResult =
  auth_ok :: bool
  auth_account_id :: string
  auth_message :: string

definition Validate :: "string \<Rightarrow> string \<Rightarrow> string \<Rightarrow> GateAuthResult" where
  "Validate platform account_id credential =
     (if platform = [] then \<lparr>auth_ok = False, auth_account_id = account_id, auth_message = ''platform is empty''\<rparr>
      else if account_id = [] then \<lparr>auth_ok = False, auth_account_id = [], auth_message = ''account_id is empty''\<rparr>
      else if credential = [] then \<lparr>auth_ok = False, auth_account_id = account_id, auth_message = ''credential is empty''\<rparr>
      else \<lparr>auth_ok = True, auth_account_id = account_id, auth_message = ''OK''\<rparr>)"

end
