(* ===== verification/Gate_Accounts.thy ===== *)
theory Gate_Accounts
  imports Connectivity
begin

text \<open>
  \<^verbatim>\<open>GateAccountDirectoryService\<close> (src/src/gate/services/account_directory_service.cpp): which gate session an
  account is logged in on, kept in Redis and shared by all gates. \<^verbatim>\<open>RemoveAccountIfMatches\<close> issues two commands, which
  are modelled as two steps.
\<close>

section \<open>Values\<close>

record GateAccountOwner =
  own_gate_service_type :: u32
  own_gate_instance_id :: u32
  own_gate_session_id :: u64

definition account_BuildValue :: "GateAccountOwner \<Rightarrow> string" where
  "account_BuildValue ow = to_string (own_gate_service_type ow) @ '':'' @ to_string (own_gate_instance_id ow) @ '':'' @
     to_string (own_gate_session_id ow)"

definition account_ParseValue :: "string \<Rightarrow> GateAccountOwner option" where
  "account_ParseValue value = (case getline CHR '':'' value of
      None \<Rightarrow> None
    | Some (service_type_text, s1) \<Rightarrow> (case getline CHR '':'' s1 of
        None \<Rightarrow> None
      | Some (instance_id_text, s2) \<Rightarrow> (case getline CHR '':'' s2 of
          None \<Rightarrow> None
        | Some (gate_session_id_text, s3) \<Rightarrow>
            (case (stoull service_type_text, stoull instance_id_text, stoull gate_session_id_text) of
              (Inr a, Inr b, Inr c) \<Rightarrow>
                Some \<lparr>own_gate_service_type = ucast a, own_gate_instance_id = ucast b, own_gate_session_id = c\<rparr>
            | _ \<Rightarrow> None))))"

section \<open>Operations\<close>

record GateAccountDirectory =
  ad_mRedisName :: string
  ad_mRedisKeyPrefix :: string
  ad_mRedis :: "redis_handle option"

definition account_Load :: "'w env \<Rightarrow> (string \<times> RedisConfiguration) list \<Rightarrow> GateAccountDirectory \<times> 'w \<Rightarrow> GateAccountDirectory \<times> 'w" where
  "account_Load E redis s = (let (D, w) = s in
     case map_of redis (ad_mRedisName D) of
       None \<Rightarrow> (D, w)
     | Some c \<Rightarrow> (let (r, w') = ConnectRedis E c w in
         (D\<lparr>ad_mRedis := conn_handle r, ad_mRedisKeyPrefix := key_prefix c @ ''gate:account:''\<rparr>, w')))"

definition account_Unload :: "'w env \<Rightarrow> GateAccountDirectory \<times> 'w \<Rightarrow> GateAccountDirectory \<times> 'w" where
  "account_Unload E s = (let (D, w) = s in
     (D\<lparr>ad_mRedis := None, ad_mRedisKeyPrefix := []\<rparr>, CloseRedis E (ad_mRedis D) w))"

definition account_key :: "GateAccountDirectory \<Rightarrow> string \<Rightarrow> string" where
  "account_key D account = ad_mRedisKeyPrefix D @ account"

definition LookupAccount :: "'w env \<Rightarrow> GateAccountDirectory \<Rightarrow> string \<Rightarrow> 'w \<Rightarrow> GateAccountOwner option \<times> 'w" where
  "LookupAccount E D account w = (case ad_mRedis D of
      None \<Rightarrow> (None, w)
    | Some h \<Rightarrow> let (reply, w1) = redisCommand E h [''GET'', account_key D account] w in
        (case reply of Some (REDIS_STRING v) \<Rightarrow> account_ParseValue v | _ \<Rightarrow> None, w1))"

definition BindAccount :: "'w env \<Rightarrow> GateAccountDirectory \<Rightarrow> string \<Rightarrow> GateAccountOwner \<Rightarrow> 'w \<Rightarrow> result \<times> 'w" where
  "BindAccount E D account owner w = (case ad_mRedis D of
      None \<Rightarrow> (Failure ''redis account directory is unavailable'', w)
    | Some h \<Rightarrow> let (reply, w1) = redisCommand E h [''SET'', account_key D account, account_BuildValue owner] w in
        (if reply = None then Failure (redis_error E h ''redis SET failed'' w1) else Success, w1))"

text \<open>The read half: \<open>Inl\<close> ends the call with a result, \<open>Inr ()\<close> goes on to delete.\<close>

definition remove_check :: "'w env \<Rightarrow> GateAccountDirectory \<Rightarrow> string \<Rightarrow> GateAccountOwner \<Rightarrow> 'w \<Rightarrow> (result + unit) \<times> 'w" where
  "remove_check E D account owner w = (case ad_mRedis D of
      None \<Rightarrow> (Inl (Failure ''redis account directory is unavailable''), w)
    | Some h \<Rightarrow> let (reply, w1) = redisCommand E h [''GET'', account_key D account] w in
        (case reply of
           None \<Rightarrow> Inl (Failure (redis_error E h ''redis GET failed'' w1))
         | Some (REDIS_STRING v) \<Rightarrow>
             (case account_ParseValue v of
                None \<Rightarrow> Inl Success
              | Some existing \<Rightarrow>
                  if own_gate_service_type existing = own_gate_service_type owner \<and>
                     own_gate_instance_id existing = own_gate_instance_id owner \<and>
                     own_gate_session_id existing = own_gate_session_id owner
                  then Inr () else Inl Success)
         | Some _ \<Rightarrow> Inl Success, w1))"

definition remove_delete :: "'w env \<Rightarrow> GateAccountDirectory \<Rightarrow> string \<Rightarrow> 'w \<Rightarrow> result \<times> 'w" where
  "remove_delete E D account w = (case ad_mRedis D of
      None \<Rightarrow> (Failure ''redis account directory is unavailable'', w)
    | Some h \<Rightarrow> let (reply, w1) = redisCommand E h [''DEL'', account_key D account] w in
        (if reply = None then Failure (redis_error E h ''redis DEL failed'' w1) else Success, w1))"

definition RemoveAccountIfMatches :: "'w env \<Rightarrow> GateAccountDirectory \<Rightarrow> string \<Rightarrow> GateAccountOwner \<Rightarrow> 'w \<Rightarrow> result \<times> 'w" where
  "RemoveAccountIfMatches E D account owner w = (let (c, w1) = remove_check E D account owner w in
     case c of Inl r \<Rightarrow> (r, w1) | Inr _ \<Rightarrow> remove_delete E D account w1)"

section \<open>Facts\<close>

definition del_documented :: "'w env \<Rightarrow> redis_handle \<Rightarrow> ('w \<Rightarrow> string \<Rightarrow> string option) \<Rightarrow> bool" where
  "del_documented E h kv \<longleftrightarrow> (\<forall>k w r w'. redisCommand E h [''DEL'', k] w = (r, w') \<longrightarrow>
     (r \<noteq> None \<and> kv w' = (kv w)(k := None)) \<or> (r = None \<and> (kv w' = kv w \<or> kv w' = (kv w)(k := None))))"

lemma ucast_u32_u64 [simp]: "ucast (ucast x :: u64) = (x :: u32)"
  by (rule bit_word_eqI) (auto simp: bit_simps)

text \<open>The value of an owner is read back as that owner.\<close>

lemma account_ParseValue_BuildValue [simp]: "account_ParseValue (account_BuildValue ow) = Some ow"
proof -
  have "stoull (to_string (own_gate_service_type ow)) = Inr (ucast (own_gate_service_type ow))"
    "stoull (to_string (own_gate_instance_id ow)) = Inr (ucast (own_gate_instance_id ow))"
    "stoull (to_string (own_gate_session_id ow)) = Inr (own_gate_session_id ow)"
    using stoull_to_string [of "own_gate_session_id ow"] by (simp_all add: stoull_to_string)
  then show ?thesis by (simp add: account_ParseValue_def account_BuildValue_def getline_field getline_last)
qed

lemma owner_eq_iff: "ow = (ow' :: GateAccountOwner) \<longleftrightarrow> own_gate_service_type ow = own_gate_service_type ow' \<and>
    own_gate_instance_id ow = own_gate_instance_id ow' \<and> own_gate_session_id ow = own_gate_session_id ow'"
  by (cases ow; cases ow') simp

lemma account_key_inject [simp]: "account_key D a = account_key D b \<longleftrightarrow> a = b"
  by (simp add: account_key_def)

text \<open>What the directory says about an account, given the keys of the server.\<close>

definition owner_in :: "GateAccountDirectory \<Rightarrow> (string \<Rightarrow> string option) \<Rightarrow> string \<Rightarrow> GateAccountOwner option" where
  "owner_in D keys account = Option.bind (keys (account_key D account)) account_ParseValue"

lemma LookupAccount_owner:
  assumes "get_documented E h kv" and "ad_mRedis D = Some h"
    and "redisCommand E h [''GET'', account_key D account] w = (Some a, w')"
  shows "LookupAccount E D account w = (owner_in D (kv w) account, w') \<and> kv w' = kv w"
proof -
  have "kv w' = kv w \<and> a = (case kv w (account_key D account) of None \<Rightarrow> REDIS_NIL | Some v \<Rightarrow> REDIS_STRING v)"
    using assms(1,3) unfolding get_documented_def by blast
  then show ?thesis using assms(2,3) by (auto simp: LookupAccount_def owner_in_def split: option.splits)
qed

lemma BindAccount_binds:
  assumes "set_documented E h kv" and "ad_mRedis D = Some h"
    and "redisCommand E h [''SET'', account_key D account, account_BuildValue owner] w = (Some (REDIS_STATUS ''OK''), w')"
  shows "BindAccount E D account owner w = (Success, w') \<and> owner_in D (kv w') = (owner_in D (kv w))(account \<mapsto> owner)"
proof -
  have "kv w' = (kv w)(account_key D account \<mapsto> account_BuildValue owner)"
    using assms(1,3) unfolding set_documented_def by fastforce
  then show ?thesis using assms(2,3) by (auto simp: BindAccount_def owner_in_def)
qed

lemma remove_check_spec:
  assumes "get_documented E h kv" and "ad_mRedis D = Some h" and "remove_check E D account owner w = (c, w')"
  shows "kv w' = kv w \<and> (c = Inr () \<longrightarrow> owner_in D (kv w) account = Some owner)"
proof -
  obtain reply w1 where g: "redisCommand E h [''GET'', account_key D account] w = (reply, w1)"
    by (cases "redisCommand E h [''GET'', account_key D account] w")
  have kv: "kv w1 = kv w" "\<And>a. reply = Some a \<Longrightarrow> a = (case kv w (account_key D account) of None \<Rightarrow> REDIS_NIL | Some v \<Rightarrow> REDIS_STRING v)"
    using assms(1) g unfolding get_documented_def by blast+
  show ?thesis
    using assms(2,3) g kv
    by (auto simp: remove_check_def owner_in_def owner_eq_iff split: option.splits redis_reply.splits if_splits)
qed

text \<open>
  Removing an account never touches another account, and the account itself only when it was bound to the given
  owner when it was read.
\<close>

lemma RemoveAccountIfMatches_spec:
  assumes "get_documented E h kv" and "del_documented E h kv" and "ad_mRedis D = Some h"
    and "RemoveAccountIfMatches E D account owner w = (r, w')"
  shows "kv w' = kv w \<or> owner_in D (kv w) account = Some owner \<and> kv w' = (kv w)(account_key D account := None)"
proof -
  obtain c w1 where c: "remove_check E D account owner w = (c, w1)" by (cases "remove_check E D account owner w")
  note check = remove_check_spec [OF assms(1,3) c]
  show ?thesis
  proof (cases c)
    case (Inl x)
    then show ?thesis using assms(4) c check by (simp add: RemoveAccountIfMatches_def)
  next
    case (Inr u)
    obtain reply w2 where d: "redisCommand E h [''DEL'', account_key D account] w1 = (reply, w2)"
      by (cases "redisCommand E h [''DEL'', account_key D account] w1")
    have "w' = w2" using assms(3,4) c Inr d by (simp add: RemoveAccountIfMatches_def remove_delete_def)
    moreover have "kv w2 = kv w1 \<or> kv w2 = (kv w1)(account_key D account := None)"
      using assms(2) d unfolding del_documented_def by blast
    ultimately show ?thesis using check Inr by auto
  qed
qed

text \<open>
  The two commands of a removal are not one: when the account is bound by another gate in between, the removal
  deletes the binding of the new owner.
\<close>

lemma removal_races_with_login:
  assumes "get_documented E h kv" and "set_documented E h kv" and "del_documented E h kv" and "ad_mRedis D = Some h"
    and "remove_check E D account old w = (Inr (), w1)"
    and "redisCommand E h [''SET'', account_key D account, account_BuildValue new] w1 = (Some (REDIS_STATUS ''OK''), w2)"
    and "redisCommand E h [''DEL'', account_key D account] w2 = (Some a, w3)"
  shows "owner_in D (kv w2) account = Some new \<and> remove_delete E D account w2 = (Success, w3) \<and> owner_in D (kv w3) account = None"
proof -
  have "owner_in D (kv w2) account = Some new" using BindAccount_binds [OF assms(2,4,6)] by simp
  moreover have "kv w3 = (kv w2)(account_key D account := None)" using assms(3,7) unfolding del_documented_def by blast
  ultimately show ?thesis using assms(4,7) by (simp add: remove_delete_def owner_in_def)
qed

end
