(* ===== verification/Gate_Ipc.thy ===== *)
theory Gate_Ipc
  imports Ipc_Node
begin

text \<open>
  \<^verbatim>\<open>GateIpcService\<close> (src/src/gate/services/ipc_service.cpp): the IPC node of a gate process with its two receiver
  hosts, the guarded send to a process and the dispatch of incoming data frames. The handlers registered with the
  process dispatcher are an argument; \<open>'w\<close> is everything the operating system and those handlers keep.
\<close>

section \<open>State\<close>

datatype gate_host = gh_process | gh_service

record gate_ipc =
  ga_node :: "gate_host node"
  mGateServiceType :: ServiceType
  ga_mProcessReceiverHost :: "process_host option"
  ga_mServiceReceiverHost :: service_host
  ga_mSendRejectCount :: u64
  ga_mLastSendRejectReason :: string

type_synonym 'w gate_handler = "ReceiverAddress \<Rightarrow> Envelope \<Rightarrow> gate_ipc \<times> 'w \<Rightarrow> result \<times> gate_ipc \<times> 'w"

fun gate_host_CanHandle :: "gate_host \<Rightarrow> ReceiverType \<Rightarrow> bool" where
  "gate_host_CanHandle gh_process ty = (ty = RT_process)"
| "gate_host_CanHandle gh_service ty = (ty = RT_service)"

fun gate_host_Dispatch :: "'w gate_handler \<Rightarrow> gate_host \<Rightarrow> ReceiverAddress \<Rightarrow> Envelope \<Rightarrow> gate_ipc \<times> 'w \<Rightarrow> result \<times> gate_ipc \<times> 'w" where
  "gate_host_Dispatch H gh_service target e (g, w) =
     (let (r, h) = service_host_Dispatch target e (ga_mServiceReceiverHost g) in (r, g\<lparr>ga_mServiceReceiverHost := h\<rparr>, w))"
| "gate_host_Dispatch H gh_process target e (g, w) = (case ga_mProcessReceiverHost g of
      None \<Rightarrow> (Failure ''receiver host not registered'', g, w)
    | Some h \<Rightarrow>
        let (r, h', _) = process_host_Dispatch None target e (h, ());
            g' = g\<lparr>ga_mProcessReceiverHost := Some h'\<rparr> in
        if \<not> ok r then (r, g', w) else H target e (g', w))"

section \<open>Sending\<close>

text \<open>While the messenger lives, transport and links exist, so the last case is never reached.\<close>

definition gate_remote_send :: "'w node_env \<Rightarrow> env_wire \<Rightarrow> ProcessRef \<Rightarrow> Envelope \<Rightarrow> gate_ipc \<times> 'w \<Rightarrow> result \<times> gate_ipc \<times> 'w" where
  "gate_remote_send E W p e s = (let (g, w) = s in
     case (nd_transport (ga_node g), nd_links (ga_node g)) of
       (Some t, Some l) \<Rightarrow>
         let (r, evs, t1, w1) = TransportMessageSender_Send (ne_sockets E) W l p e (t, w);
             (l2, t2, w2) = (if evs = [] then (l, t1, w1) else on_connection_events E evs (l, t1, w1))
         in (r, g\<lparr>ga_node := (ga_node g)\<lparr>nd_transport := Some t2, nd_links := Some l2\<rparr>\<rparr>, w2)
     | _ \<Rightarrow> (Failure ''no healthy link to next hop'', g, w))"

definition gate_messenger :: "'w node_env \<Rightarrow> env_wire \<Rightarrow> 'w gate_handler \<Rightarrow> ProcessDescriptor \<Rightarrow> gate_ipc
    \<Rightarrow> (gate_host, gate_ipc \<times> 'w) messenger" where
  "gate_messenger E W H self g =
     \<lparr>mSelf = process self, mRelayServiceType = kRelayServiceType, mReceiverDirectory = nd_directory (ga_node g),
      mHosts = nd_hosts (ga_node g), host_Dispatch = gate_host_Dispatch H, mTypeUrls = nd_urls (ga_node g),
      mMembership = Some (ed_mProcesses (nd_discovery (ga_node g))), messenger_links = nd_links (ga_node g),
      mRemoteSender = Some (gate_remote_send E W)\<rparr>"

definition gate_RecordSendReject :: "string \<Rightarrow> gate_ipc \<Rightarrow> gate_ipc" where
  "gate_RecordSendReject reason g = g\<lparr>ga_mSendRejectCount := ga_mSendRejectCount g + 1, ga_mLastSendRejectReason := reason,
     ga_node := (ga_node g)\<lparr>nd_last_error := reason\<rparr>\<rparr>"

definition gate_SendProcessPayload :: "'w node_env \<Rightarrow> env_wire \<Rightarrow> 'w gate_handler \<Rightarrow> ProcessId \<Rightarrow> proto_message
    \<Rightarrow> gate_ipc \<times> 'w \<Rightarrow> result \<times> gate_ipc \<times> 'w" where
  "gate_SendProcessPayload E W H target m s = (let (g, w) = s in
     case (nd_messenger (ga_node g), nd_self (ga_node g)) of
       (True, Some self) \<Rightarrow>
         if \<not> IsIpcActiveLocked (ga_node g)
         then (Failure ''ipc is not active'', gate_RecordSendReject ''ipc is not active'' g, w)
         else let (r, g', w') = SendToProcess (gate_messenger E W H self g) target m (g, w)
              in (r, if ok r then g' else gate_RecordSendReject (message r) g', w')
     | _ \<Rightarrow> (Failure ''messenger is not initialized'', gate_RecordSendReject ''messenger is not initialized'' g, w))"

definition gate_HandleIncomingDataFrame :: "'w node_env \<Rightarrow> env_wire \<Rightarrow> 'w gate_handler \<Rightarrow> RawFrame
    \<Rightarrow> gate_ipc \<times> 'w \<Rightarrow> gate_ipc \<times> 'w" where
  "gate_HandleIncomingDataFrame E W H f s = (let (g, w) = s in
     case (nd_messenger (ga_node g), nd_self (ga_node g)) of
       (True, Some self) \<Rightarrow>
         if \<not> IsIpcActiveLocked (ga_node g) then (g, w)
         else snd (HandleIncomingFrame W (gate_messenger E W H self g) f (g, w))
     | _ \<Rightarrow> (g, w))"

section \<open>Lifecycle\<close>

definition gate_BuildSelfDescriptor :: "ServiceType \<Rightarrow> InstanceId \<Rightarrow> Endpoint \<Rightarrow> ProcessDescriptor" where
  "gate_BuildSelfDescriptor ty inst listen =
     \<lparr>process = \<lparr>process_id = mk_process_id ty inst, incarnation_id = 1\<rparr>, service_name = ''gate'', listen_endpoint = listen,
      protocol_version = 1, start_time_unix_ms = 0, labels = [(''role'', ''gate'')], relay_capabilities = []\<rparr>"

definition gate_LocalServiceReceiverAddress :: "ServiceType \<Rightarrow> ReceiverAddress" where
  "gate_LocalServiceReceiverAddress ty = \<lparr>rtype = RT_service, key_hi = ucast ty, key_lo = 1\<rparr>"

definition gate_payloads :: "string list" where
  "gate_payloads = ''google.protobuf.StringValue'' # map (\<lambda>n. ''pb.ipc.'' @ n)
     [''LoginPlayerRequest'', ''LoginPlayerResponse'', ''ReconnectPlayerRequest'', ''ReconnectPlayerResponse'',
      ''KickAccountSession'', ''KickAccountSessionAck'', ''PlayerDisconnected'', ''BindPlayerSession'', ''UnbindPlayerSession'',
      ''ForwardPlayerMessageRequest'', ''ForwardPlayerMessageResponse'', ''PushPlayerMessage'']"

fun gate_register_payloads :: "string list \<Rightarrow> string list \<Rightarrow> result \<times> string list" where
  "gate_register_payloads [] urls = (Success, urls)"
| "gate_register_payloads (n # names) urls = (let (r, urls') = payload_Register \<lparr>full_name = n, serialized = []\<rparr> urls
     in if \<not> ok r then (r, urls') else gate_register_payloads names urls')"

definition gate_register_host :: "gate_host \<Rightarrow> ReceiverType \<Rightarrow> gate_ipc \<Rightarrow> result \<times> gate_ipc" where
  "gate_register_host h ty g = (let (r, hosts) = registry_Register gate_host_CanHandle (nd_hosts (ga_node g)) h ty;
     g' = g\<lparr>ga_node := (ga_node g)\<lparr>nd_hosts := hosts\<rparr>\<rparr>
     in (r, if ok r then g' else g'\<lparr>ga_node := (ga_node g')\<lparr>nd_last_error := message r\<rparr>\<rparr>))"

definition gate_SetupRoleComponents :: "gate_ipc \<Rightarrow> result \<times> gate_ipc" where
  "gate_SetupRoleComponents g0 = (case nd_self (ga_node g0) of
      None \<Rightarrow> (Failure [], g0)
    | Some self \<Rightarrow>
        let g = g0\<lparr>ga_mProcessReceiverHost := Some \<lparr>proc_self = process self, proc_mDispatchCount = 0, proc_mLastPayloadType = []\<rparr>\<rparr>;
            (r1, g1) = gate_register_host gh_process RT_process g in
        if \<not> ok r1 then (r1, g1)
        else let (r2, d) = Bind (nd_directory (ga_node g1)) (gate_LocalServiceReceiverAddress (mGateServiceType g1)) (process self);
                 g2 = g1\<lparr>ga_node := (ga_node g1)\<lparr>nd_directory := d\<rparr>\<rparr> in
        if \<not> ok r2 then (r2, g2\<lparr>ga_node := (ga_node g2)\<lparr>nd_last_error := message r2\<rparr>\<rparr>)
        else let (r3, g3) = gate_register_host gh_service RT_service g2 in
        if \<not> ok r3 then (r3, g3)
        else let (r4, urls) = gate_register_payloads gate_payloads (nd_urls (ga_node g3));
                 g4 = g3\<lparr>ga_node := (ga_node g3)\<lparr>nd_urls := urls\<rparr>\<rparr> in
        (r4, if ok r4 then g4 else g4\<lparr>ga_node := (ga_node g4)\<lparr>nd_last_error := message r4\<rparr>\<rparr>))"

definition gate_TeardownRoleComponents :: "gate_ipc \<Rightarrow> gate_ipc" where
  "gate_TeardownRoleComponents g = g\<lparr>ga_mProcessReceiverHost := None\<rparr>"

text \<open>
  \<^verbatim>\<open>LoadIpcRuntime\<close> runs the set-up on the node; the process host is created in the same call, whatever the set-up
  returns.
\<close>

definition gate_Load :: "InstanceId \<Rightarrow> Endpoint \<Rightarrow> gate_ipc \<Rightarrow> gate_ipc" where
  "gate_Load inst listen g = (let self = gate_BuildSelfDescriptor (mGateServiceType g) inst listen;
     N = LoadIpcRuntime self (\<lambda>N. let (r, g') = gate_SetupRoleComponents (g\<lparr>ga_node := N\<rparr>) in (r, ga_node g')) (ga_node g)
     in g\<lparr>ga_node := N, ga_mProcessReceiverHost :=
          Some \<lparr>proc_self = process self, proc_mDispatchCount = 0, proc_mLastPayloadType = []\<rparr>\<rparr>)"

definition gate_ShouldRefresh :: "gate_host node \<Rightarrow> bool" where
  "gate_ShouldRefresh N = ShouldGameReconcile (HasMemberOfServiceType (Members N) kRelayServiceType)
     (HasHealthyLinkOfServiceType (HealthyLinks N) kRelayServiceType)"

definition gate_should_connect :: "gate_host node \<Rightarrow> ProcessRef \<Rightarrow> LinkManager \<Rightarrow> ProcessDescriptor \<Rightarrow> bool" where
  "gate_should_connect N self l m =
     ShouldGameAutoConnectTarget self m kRelayServiceType (HasHealthyLinkOfServiceType (GetHealthyLinks l) kRelayServiceType)"

definition gate_recovered :: "'w node_env \<Rightarrow> gate_host node \<times> 'w \<Rightarrow> gate_host node \<times> 'w" where
  "gate_recovered E = ReconcileAutoConnectMembers E gate_should_connect"

definition gate_Start :: "'w node_env \<Rightarrow> gate_ipc \<times> 'w \<Rightarrow> gate_ipc \<times> 'w" where
  "gate_Start E s = (let (g, w) = s; (N, w') = gate_recovered E (StartIpcRuntime E (ga_node g, w))
     in (g\<lparr>ga_node := StartAutoConnectLoop N\<rparr>, w'))"

definition gate_Stop :: "'w node_env \<Rightarrow> gate_ipc \<times> 'w \<Rightarrow> gate_ipc \<times> 'w" where
  "gate_Stop E s = (let (g, w) = s; (N, w') = StopIpcRuntime E (ga_node g, w) in (g\<lparr>ga_node := N\<rparr>, w'))"

definition gate_Unload :: "'w node_env \<Rightarrow> gate_ipc \<times> 'w \<Rightarrow> gate_ipc \<times> 'w" where
  "gate_Unload E s = (let (g, w) = s; (N, w') = UnloadIpcRuntime E (\<lambda>N. N) (ga_node g, w)
     in (gate_TeardownRoleComponents (g\<lparr>ga_node := N\<rparr>), w'))"

section \<open>Facts\<close>

text \<open>A send while the node is inactive is refused, counted, and leaves the outside world alone.\<close>

lemma gate_send_inactive:
  assumes "\<not> IsIpcActiveLocked (ga_node g)"
  shows "\<exists>why. gate_SendProcessPayload E W H target m (g, w) = (Failure why, gate_RecordSendReject why g, w)"
  using assms by (auto simp: gate_SendProcessPayload_def split: option.splits bool.splits)

text \<open>What a gate sends to itself reaches its process host, is counted there and then goes to the registered handlers.\<close>

lemma gate_host_process:
  assumes "ga_mProcessReceiverHost g = Some h" and "process_host_Dispatch None target e (h, ()) = (r, h', u)"
  shows "gate_host_Dispatch H gh_process target e (g, w) =
     (let g' = g\<lparr>ga_mProcessReceiverHost := Some h'\<rparr> in if ok r then H target e (g', w) else (r, g', w))"
  using assms by (simp add: Let_def)

lemma gate_register_payloads_ok [simp]: "fst (gate_register_payloads names urls) = Success"
  by (induction names arbitrary: urls) (simp_all add: payload_Register_def case_prod_beta)

text \<open>Loading a fresh gate succeeds: its node can send as soon as it is active, and dispatches to the two hosts of the role.\<close>

lemma gate_Load_ready:
  assumes "nd_hosts (ga_node g) = empty_registry" and "nd_directory (ga_node g) = \<lparr>mEntries = []\<rparr>"
  shows "nd_messenger (ga_node (gate_Load inst listen g)) \<and>
     registry_Dispatch D (nd_hosts (ga_node (gate_Load inst listen g))) a e s =
       (if rtype a = RT_process then D gh_process a e s else if rtype a = RT_service then D gh_service a e s
        else if unat (rtype a) < kMaxReceiverTypes then (Failure ''receiver host not registered'', s)
        else (Failure ''receiver type out of range'', s))"
proof -
  have nth: "i < kMaxReceiverTypes \<Longrightarrow> i \<noteq> unat RT_process \<Longrightarrow> i \<noteq> unat RT_service \<Longrightarrow>
      (replicate kMaxReceiverTypes None)[unat RT_process := Some gh_process, unat RT_service := Some gh_service] ! i = None" for i
    by simp
  obtain urls where u: "gate_register_payloads gate_payloads (nd_urls (ga_node g)) = (Success, urls)"
    by (metis gate_register_payloads_ok prod.collapse)
  show ?thesis
    using assms u nth [of "unat (rtype a)"]
    by (auto simp: gate_Load_def LoadIpcRuntime_def gate_SetupRoleComponents_def gate_register_host_def registry_Register_def
        empty_registry_def kMaxReceiverTypes_def Bind_def Let_def default_Entry_def registry_Dispatch_def word_unat_eq_iff
        case_prod_beta)
qed

end
