(* ===== verification/Gate_Services.thy ===== *)
theory Gate_Services
  imports Gate_Tables Gate_Accounts Gate_Ipc Player_Handlers
begin

text \<open>
  The services of a gate process put together as src/src/gate/application.cpp wires them: the client protocol
  (client_protocol_service.cpp), the end of a connection (connection_service.cpp), logging in and kicking
  (login_service.cpp), the messages of players (player_message_service.cpp) and the loop that reads the clients. The
  byte formats of the client messages and of the messages to a game are generated code, the record \<open>gate_codec\<close>.
\<close>

section \<open>Messages\<close>

datatype ErrorCode = ERROR_CODE_UNSPECIFIED | ERROR_CODE_OK | ERROR_CODE_INVALID_REQUEST | ERROR_CODE_UNAUTHORIZED | ERROR_CODE_INTERNAL

datatype DisconnectReason = DISCONNECT_REASON_UNSPECIFIED | DISCONNECT_REASON_CLIENT_CLOSED | DISCONNECT_REASON_HEARTBEAT_TIMEOUT
  | DISCONNECT_REASON_KICKED | DISCONNECT_REASON_GATE_SHUTDOWN

abbreviation (input) MESSAGE_ID_LOGIN_REQUEST :: u32 where "MESSAGE_ID_LOGIN_REQUEST \<equiv> 1001"
abbreviation (input) MESSAGE_ID_HEARTBEAT_REQUEST :: u32 where "MESSAGE_ID_HEARTBEAT_REQUEST \<equiv> 1002"
abbreviation (input) MESSAGE_ID_LOGIN_RESPONSE :: u32 where "MESSAGE_ID_LOGIN_RESPONSE \<equiv> 2001"
abbreviation (input) MESSAGE_ID_HEARTBEAT_RESPONSE :: u32 where "MESSAGE_ID_HEARTBEAT_RESPONSE \<equiv> 2002"
abbreviation (input) MESSAGE_ID_KICK_NOTIFICATION :: u32 where "MESSAGE_ID_KICK_NOTIFICATION \<equiv> 2003"
abbreviation (input) MESSAGE_ID_PLAYER_MESSAGE_REQUEST :: u32 where "MESSAGE_ID_PLAYER_MESSAGE_REQUEST \<equiv> 3001"
abbreviation (input) MESSAGE_ID_PLAYER_MESSAGE_RESPONSE :: u32 where "MESSAGE_ID_PLAYER_MESSAGE_RESPONSE \<equiv> 3002"
abbreviation (input) MESSAGE_ID_PLAYER_PUSH :: u32 where "MESSAGE_ID_PLAYER_PUSH \<equiv> 3003"

record RequestHeader =
  qh_message_id :: u32
  qh_sequence :: u64
  qh_timestamp_ms :: u64

record ResponseHeader =
  rh_message_id :: u32
  rh_sequence :: u64
  rh_error_code :: ErrorCode
  rh_error_message :: string

record LoginRequest =
  cl_platform :: string
  cl_account_id :: string
  cl_credential :: string

record PlayerMessageRequest =
  cm_header :: RequestHeader
  cm_payload :: string

text \<open>What a gate sends to a client, and what it sends to a game or to another gate.\<close>

datatype client_message =
    LoginResponse ResponseHeader u64 bool
  | HeartbeatResponse ResponseHeader u64
  | KickNotification string
  | PlayerMessageResponse ResponseHeader string
  | PlayerPushMessage u32 string

record gate_login_request =
  glq_request_id :: u64
  glq_gate :: GateRef
  glq_platform :: string
  glq_account_id :: string
  glq_area_id :: u32
  glq_client_version :: u32
  glq_channel :: string
  glq_login_token :: string

record kick_request =
  kr_request_id :: u64
  kr_account_id :: string
  kr_old_gate :: GateRef
  kr_new_gate_service_type :: u32
  kr_new_gate_instance_id :: u32
  kr_reason :: string

record disconnected_request =
  dq_player_id :: u64
  dq_gate :: GateRef
  dq_reason :: DisconnectReason
  dq_occurred_at_ms :: u64

record forward_request =
  fwd_request_id :: u64
  fwd_gate :: GateRef
  fwd_player_id :: u64
  fwd_message_id :: u32
  fwd_payload_bytes :: string
  fwd_client_sequence :: u64
  fwd_timestamp_ms :: u64

record unbind_session_request =
  ub_player_id :: u64
  ub_gate_session_id :: u64

datatype process_message = gm_login gate_login_request | gm_kick kick_request | gm_disconnected disconnected_request
  | gm_forward forward_request

fun process_message_name :: "process_message \<Rightarrow> string" where
  "process_message_name (gm_login m) = ''LoginPlayerRequest''"
| "process_message_name (gm_kick m) = ''KickAccountSession''"
| "process_message_name (gm_disconnected m) = ''PlayerDisconnected''"
| "process_message_name (gm_forward m) = ''ForwardPlayerMessageRequest''"

record gate_codec =
  gcd_client :: "client_message \<Rightarrow> ByteBuffer option" \<comment> \<open>\<^verbatim>\<open>SerializeToString\<close>\<close>
  gcd_process :: "process_message \<Rightarrow> ByteBuffer"
  gcd_parse_login :: "ByteBuffer \<Rightarrow> LoginRequest option"
  gcd_parse_heartbeat :: "ByteBuffer \<Rightarrow> bool"
  gcd_parse_player_message :: "ByteBuffer \<Rightarrow> PlayerMessageRequest option"

section \<open>State\<close>

record GateClientProtocolSnapshot =
  encoded_login_response_bytes :: u64
  encoded_heartbeat_response_bytes :: u64
  encoded_kick_notification_bytes :: u64
  encoded_player_message_response_bytes :: u64
  encoded_player_push_bytes :: u64

record PendingLogin =
  pl_connection_id :: u64
  pl_gate_session_id :: u64
  pl_account_id :: string

record GateLoginSnapshot =
  gls_request_id :: u64
  gls_player_id :: u64
  gls_result_code :: ResultCode
  gls_game_service_type :: u32
  gls_game_instance_id :: u32
  gls_is_reconnect :: bool
  gls_error_message :: string

record GateLoginService =
  mGateInstanceId :: u32
  mPendingLogins :: "(u64 \<times> PendingLogin) list"
  gl_mSnapshot :: GateLoginSnapshot
  gl_mNextRequestId :: u64

record PendingMessage =
  pe_connection_id :: u64
  pe_gate_session_id :: u64
  pe_player_id :: u64
  pe_client_message_id :: u32

record GatePlayerMessageService =
  mPendingMessages :: "(u64 \<times> PendingMessage) list"
  gpm_mNextRequestId :: u64

text \<open>Which of the pointers the services and call-backs are given are set, and whether the send handler is.\<close>

record gate_wiring =
  wr_ipc :: bool
  wr_accounts :: bool
  wr_connections :: bool
  wr_sessions :: bool
  wr_routing :: bool
  wr_protocol :: bool
  wr_auth :: bool
  wr_login :: bool
  wr_send_handler :: bool

record gate =
  gt_ipc :: gate_ipc
  gt_accounts :: GateAccountDirectory
  gt_connections :: GateConnectionService
  gt_sessions :: GateSessions
  gt_routes :: GateRoutes
  gt_protocol :: GateClientProtocolSnapshot
  gt_login :: GateLoginService
  gt_messages :: GatePlayerMessageService
  gt_wiring :: gate_wiring

record 'w gate_env =
  gte_os :: "'w gate_os"
  gte_node :: "'w node_env"
  gte_wire :: env_wire
  gte_handler :: "'w gate_handler"
  gte_codec :: gate_codec
  gte_time :: "'w \<Rightarrow> u64 \<times> 'w" \<comment> \<open>\<^verbatim>\<open>std::time(nullptr)\<close>\<close>

definition gate_kGameServiceType :: ServiceType where "gate_kGameServiceType = 10"
definition kGateServiceType :: ServiceType where "kGateServiceType = 20"

definition with_connections :: "(GateConnectionService \<times> 'w \<Rightarrow> 'r \<times> GateConnectionService \<times> 'w) \<Rightarrow> gate \<times> 'w \<Rightarrow> 'r \<times> gate \<times> 'w" where
  "with_connections f s = (let (g, w) = s; (r, C, w') = f (gt_connections g, w) in (r, g\<lparr>gt_connections := C\<rparr>, w'))"

definition self_gate :: "gate \<Rightarrow> u64 \<Rightarrow> GateRef" where
  "self_gate g sid = \<lparr>gate_service_type = kGateServiceType, gate_instance_id = mGateInstanceId (gt_login g), gate_session_id = sid\<rparr>"

definition self_owner :: "gate \<Rightarrow> u64 \<Rightarrow> GateAccountOwner" where
  "self_owner g sid = \<lparr>own_gate_service_type = kGateServiceType, own_gate_instance_id = mGateInstanceId (gt_login g),
     own_gate_session_id = sid\<rparr>"

definition send_to_process :: "'w gate_env \<Rightarrow> u32 \<Rightarrow> u32 \<Rightarrow> process_message \<Rightarrow> gate \<times> 'w \<Rightarrow> result \<times> gate \<times> 'w" where
  "send_to_process E ty inst m s = (let (g, w) = s;
     (r, i, w') = gate_SendProcessPayload (gte_node E) (gte_wire E) (gte_handler E) (mk_process_id (ucast ty) (ucast inst))
       (pb_message (process_message_name m) (gcd_process (gte_codec E) m)) (gt_ipc g, w)
     in (r, g\<lparr>gt_ipc := i\<rparr>, w'))"

section \<open>The client protocol\<close>

definition SendHandler :: "'w gate_env \<Rightarrow> u64 \<Rightarrow> u32 \<Rightarrow> ByteBuffer \<Rightarrow> gate \<times> 'w \<Rightarrow> result \<times> gate \<times> 'w" where
  "SendHandler E cid message_id bytes s = (let (g, w) = s in
     if \<not> wr_connections (gt_wiring g) then (Failure ''gate connection service is not registered'', g, w)
     else with_connections (gate_Send (gte_os E) cid message_id bytes) (g, w))"

definition SendMessage :: "'w gate_env \<Rightarrow> u64 \<Rightarrow> u32 \<Rightarrow> client_message
    \<Rightarrow> (u64 \<Rightarrow> GateClientProtocolSnapshot \<Rightarrow> GateClientProtocolSnapshot) \<Rightarrow> gate \<times> 'w \<Rightarrow> result \<times> gate \<times> 'w" where
  "SendMessage E cid frame_message_id m counter s = (let (g, w) = s in
     if \<not> wr_send_handler (gt_wiring g) then (Failure ''gate client protocol send handler is not registered'', g, w)
     else case gcd_client (gte_codec E) m of
       None \<Rightarrow> (Failure ''failed to serialize protobuf payload'', g, w)
     | Some bytes \<Rightarrow> SendHandler E cid frame_message_id bytes
         (g\<lparr>gt_protocol := counter (of_nat (length bytes)) (gt_protocol g)\<rparr>, w))"

definition response_header :: "u32 \<Rightarrow> ErrorCode \<Rightarrow> string \<Rightarrow> ResponseHeader" where
  "response_header message_id code text' = \<lparr>rh_message_id = message_id, rh_sequence = 1, rh_error_code = code, rh_error_message = text'\<rparr>"

definition SendLoginResponse :: "'w gate_env \<Rightarrow> u64 \<Rightarrow> u64 \<Rightarrow> bool \<Rightarrow> ErrorCode \<Rightarrow> string \<Rightarrow> gate \<times> 'w \<Rightarrow> result \<times> gate \<times> 'w" where
  "SendLoginResponse E cid pid is_reconnect code text' = SendMessage E cid MESSAGE_ID_LOGIN_RESPONSE
     (LoginResponse (response_header MESSAGE_ID_LOGIN_RESPONSE code text') pid is_reconnect)
     (\<lambda>n. encoded_login_response_bytes_update (\<lambda>_. n))"

definition SendHeartbeatResponse :: "'w gate_env \<Rightarrow> u64 \<Rightarrow> u64 \<Rightarrow> gate \<times> 'w \<Rightarrow> result \<times> gate \<times> 'w" where
  "SendHeartbeatResponse E cid server_time_ms = SendMessage E cid MESSAGE_ID_HEARTBEAT_RESPONSE
     (HeartbeatResponse (response_header MESSAGE_ID_HEARTBEAT_RESPONSE ERROR_CODE_OK []) server_time_ms)
     (\<lambda>n. encoded_heartbeat_response_bytes_update (\<lambda>_. n))"

definition SendKickNotification :: "'w gate_env \<Rightarrow> u64 \<Rightarrow> string \<Rightarrow> gate \<times> 'w \<Rightarrow> result \<times> gate \<times> 'w" where
  "SendKickNotification E cid reason = SendMessage E cid MESSAGE_ID_KICK_NOTIFICATION (KickNotification reason)
     (\<lambda>n. encoded_kick_notification_bytes_update (\<lambda>_. n))"

definition SendPlayerMessageResponse :: "'w gate_env \<Rightarrow> u64 \<Rightarrow> u32 \<Rightarrow> string \<Rightarrow> ErrorCode \<Rightarrow> string \<Rightarrow> gate \<times> 'w
    \<Rightarrow> result \<times> gate \<times> 'w" where
  "SendPlayerMessageResponse E cid message_id body code text' = SendMessage E cid MESSAGE_ID_PLAYER_MESSAGE_RESPONSE
     (PlayerMessageResponse (response_header message_id code text') body)
     (\<lambda>n. encoded_player_message_response_bytes_update (\<lambda>_. n))"

definition SendPlayerPushMessage :: "'w gate_env \<Rightarrow> u64 \<Rightarrow> u32 \<Rightarrow> string \<Rightarrow> gate \<times> 'w \<Rightarrow> result \<times> gate \<times> 'w" where
  "SendPlayerPushMessage E cid message_id body = SendMessage E cid MESSAGE_ID_PLAYER_PUSH (PlayerPushMessage message_id body)
     (\<lambda>n. encoded_player_push_bytes_update (\<lambda>_. n))"

definition HandleHeartbeat :: "'w gate_env \<Rightarrow> u64 \<Rightarrow> gate \<times> 'w \<Rightarrow> result \<times> gate \<times> 'w" where
  "HandleHeartbeat E cid s = (let (g, w) = s; (now, w1) = gte_time E w in SendHeartbeatResponse E cid (now * 1000) (g, w1))"

section \<open>The end of a connection\<close>

definition HandleSessionDisconnected :: "'w gate_env \<Rightarrow> GateSessionRecord \<Rightarrow> DisconnectReason \<Rightarrow> gate \<times> 'w \<Rightarrow> result \<times> gate \<times> 'w" where
  "HandleSessionDisconnected E session reason s = (let (g, w) = s in
     if \<not> wr_ipc (gt_wiring g) then (Failure ''gate ipc service is not registered'', g, w)
     else if gs_player_id session = 0 \<or> gs_game_service_type session = 0 \<or> gs_game_instance_id session = 0 then (Success, g, w)
     else let (now, w1) = gte_time E w;
              m = gm_disconnected \<lparr>dq_player_id = gs_player_id session, dq_gate = self_gate g (gs_gate_session_id session),
                dq_reason = reason, dq_occurred_at_ms = now * 1000\<rparr>;
              (r, g2, w2) = send_to_process E (gs_game_service_type session) (gs_game_instance_id session) m (g, w1) in
     if \<not> ok r then (r, g2, w2)
     else let g3 = (if wr_routing (gt_wiring g2)
                    then g2\<lparr>gt_routes := snd (UnbindPlayer (gs_player_id session) (gs_gate_session_id session) (gt_routes g2))\<rparr>
                    else g2);
              w3 = (if wr_accounts (gt_wiring g3)
                    then snd (RemoveAccountIfMatches (os_env (gte_os E)) (gt_accounts g3) (gs_account_id session)
                      (self_owner g3 (gs_gate_session_id session)) w2)
                    else w2)
          in (Success, g3, w3))"

definition DisconnectHandler :: "'w gate_env \<Rightarrow> u64 \<Rightarrow> gate \<times> 'w \<Rightarrow> gate \<times> 'w" where
  "DisconnectHandler E cid s = (let (g, w) = s in
     if \<not> wr_sessions (gt_wiring g) then (g, w)
     else case RemoveByConnection cid (gt_sessions g) of
       (Inl r, S) \<Rightarrow> (g, w)
     | (Inr removed, S) \<Rightarrow>
         let g1 = g\<lparr>gt_sessions := S\<rparr> in
         if wr_login (gt_wiring g1) then snd (HandleSessionDisconnected E removed DISCONNECT_REASON_CLIENT_CLOSED (g1, w))
         else (g1, w))"

definition FinalizeConnection :: "'w gate_env \<Rightarrow> u64 \<Rightarrow> gate \<times> 'w \<Rightarrow> gate \<times> 'w" where
  "FinalizeConnection E cid s = (let (g, w) = s; (C, w1) = finalize_locked (gte_os E) cid (gt_connections g, w)
     in DisconnectHandler E cid (g\<lparr>gt_connections := C\<rparr>, w1))"

definition gate_Close :: "'w gate_env \<Rightarrow> u64 \<Rightarrow> gate \<times> 'w \<Rightarrow> result \<times> gate \<times> 'w" where
  "gate_Close E cid s = (let (r, g1, w1) = with_connections (close_locked (gte_os E) cid) s in
     if \<not> ok r then (r, g1, w1) else (Success, FinalizeConnection E cid (g1, w1)))"

section \<open>Logging in\<close>

text \<open>
  \<^verbatim>\<open>RequestLogin\<close> sends first and registers the pending login after: two steps, since the answer is handled by another
  thread.
\<close>

definition login_request_send :: "'w gate_env \<Rightarrow> u32 \<Rightarrow> u64 \<Rightarrow> string \<Rightarrow> string \<Rightarrow> u32 \<Rightarrow> gate \<times> 'w \<Rightarrow> (result + u64) \<times> gate \<times> 'w" where
  "login_request_send E inst sid platform account area s = (let (g, w) = s in
     if \<not> wr_ipc (gt_wiring g) then (Inl (Failure ''gate ipc service is not registered''), g, w)
     else let rid = gl_mNextRequestId (gt_login g);
              g1 = g\<lparr>gt_login := (gt_login g)\<lparr>gl_mNextRequestId := rid + 1\<rparr>\<rparr>;
              m = gm_login \<lparr>glq_request_id = rid, glq_gate = self_gate g1 sid, glq_platform = platform, glq_account_id = account,
                glq_area_id = area, glq_client_version = 1, glq_channel = ''runtime'', glq_login_token = ''runtime-login-token''\<rparr>;
              (r, g2, w2) = send_to_process E (ucast gate_kGameServiceType) inst m (g1, w)
          in (if ok r then Inr rid else Inl r, g2, w2))"

definition login_request_register :: "u64 \<Rightarrow> u64 \<Rightarrow> u64 \<Rightarrow> string \<Rightarrow> gate \<Rightarrow> gate" where
  "login_request_register rid cid sid account g = g\<lparr>gt_login := (gt_login g)
     \<lparr>mPendingLogins := AList.update rid \<lparr>pl_connection_id = cid, pl_gate_session_id = sid, pl_account_id = account\<rparr>
        (mPendingLogins (gt_login g)),
      gl_mSnapshot := (gl_mSnapshot (gt_login g))\<lparr>gls_request_id := rid\<rparr>\<rparr>\<rparr>"

definition RequestLogin :: "'w gate_env \<Rightarrow> u32 \<Rightarrow> u64 \<Rightarrow> u64 \<Rightarrow> string \<Rightarrow> string \<Rightarrow> u32 \<Rightarrow> gate \<times> 'w \<Rightarrow> result \<times> gate \<times> 'w" where
  "RequestLogin E inst cid sid platform account area s =
     (case login_request_send E inst sid platform account area s of
        (Inl r, g1, w1) \<Rightarrow> (r, g1, w1)
      | (Inr rid, g1, w1) \<Rightarrow> (Success, login_request_register rid cid sid account g1, w1))"

definition kick_reason :: string where
  "kick_reason = ''same account logged in on a new connection''"

text \<open>The notification and the close of a local session that has to go.\<close>

definition kick_connection :: "'w gate_env \<Rightarrow> u64 \<Rightarrow> string \<Rightarrow> gate \<times> 'w \<Rightarrow> result \<times> gate \<times> 'w" where
  "kick_connection E cid reason s = (let (g, w) = s;
     (r, g1, w1) = (if wr_protocol (gt_wiring g) then SendKickNotification E cid reason (g, w) else (Success, g, w)) in
     if \<not> ok r then (r, g1, w1) else gate_Close E cid (g1, w1))"

definition kick_local :: "'w gate_env \<Rightarrow> GateSessionRecord option \<Rightarrow> u64 \<Rightarrow> gate \<times> 'w \<Rightarrow> result \<times> gate \<times> 'w" where
  "kick_local E existing current s = (case existing of
      None \<Rightarrow> (Success, s)
    | Some session \<Rightarrow>
        if gs_connection_id session = current then (Success, s)
        else kick_connection E (gs_connection_id session) kick_reason s)"

definition kick_remote :: "'w gate_env \<Rightarrow> GateAccountOwner \<Rightarrow> string \<Rightarrow> gate \<times> 'w \<Rightarrow> result \<times> gate \<times> 'w" where
  "kick_remote E ow account s = (let (g, w) = s in
     if \<not> wr_ipc (gt_wiring g) then (Failure ''gate ipc service is not registered'', g, w)
     else let rid = gl_mNextRequestId (gt_login g);
              g1 = g\<lparr>gt_login := (gt_login g)\<lparr>gl_mNextRequestId := rid + 1\<rparr>\<rparr>;
              m = gm_kick \<lparr>kr_request_id = rid, kr_account_id = account,
                kr_old_gate = \<lparr>gate_service_type = own_gate_service_type ow, gate_instance_id = own_gate_instance_id ow,
                  gate_session_id = own_gate_session_id ow\<rparr>,
                kr_new_gate_service_type = kGateServiceType, kr_new_gate_instance_id = mGateInstanceId (gt_login g1),
                kr_reason = kick_reason\<rparr>
          in send_to_process E (own_gate_service_type ow) (own_gate_instance_id ow) m (g1, w))"

definition KickExistingAccountSession :: "'w gate_env \<Rightarrow> string \<Rightarrow> u64 \<Rightarrow> gate \<times> 'w \<Rightarrow> result \<times> gate \<times> 'w" where
  "KickExistingAccountSession E account current s = (let (g, w) = s in
     if \<not> wr_sessions (gt_wiring g) \<or> \<not> wr_connections (gt_wiring g)
     then (Failure ''gate kick dependencies are not registered'', g, w)
     else let (found, w1) = (if wr_accounts (gt_wiring g) then LookupAccount (os_env (gte_os E)) (gt_accounts g) account w else (None, w)) in
     case found of
       None \<Rightarrow> kick_local E (gate_FindByAccount account (gt_sessions g)) current (g, w1)
     | Some ow \<Rightarrow>
         if own_gate_instance_id ow = mGateInstanceId (gt_login g)
         then kick_local E (gate_Snapshot (own_gate_session_id ow) (gt_sessions g)) current (g, w1)
         else kick_remote E ow account (g, w1))"

definition SendLoginFailure :: "'w gate_env \<Rightarrow> u64 \<Rightarrow> ErrorCode \<Rightarrow> string \<Rightarrow> gate \<times> 'w \<Rightarrow> result \<times> gate \<times> 'w" where
  "SendLoginFailure E cid code text' s = (let (g, w) = s in
     if \<not> wr_protocol (gt_wiring g) \<or> \<not> wr_connections (gt_wiring g)
     then (Failure ''gate login failure path dependencies are not registered'', g, w)
     else SendLoginResponse E cid 0 False code text' (g, w))"

text \<open>The gate session of a connection has the connection's own number.\<close>

definition open_session :: "'w gate_env \<Rightarrow> u64 \<Rightarrow> gate \<times> 'w \<Rightarrow> result \<times> gate \<times> 'w" where
  "open_session E cid s = (let (g, w) = s in
     if gate_Snapshot cid (gt_sessions g) \<noteq> None then (Success, g, w)
     else let (r, S, w1) = OpenAnonymous (os_env (gte_os E)) cid cid (gt_sessions g, w) in (r, g\<lparr>gt_sessions := S\<rparr>, w1))"

definition gate_HandleClientLogin :: "'w gate_env \<Rightarrow> u64 \<Rightarrow> LoginRequest \<Rightarrow> gate \<times> 'w \<Rightarrow> result \<times> gate \<times> 'w" where
  "gate_HandleClientLogin E cid q s = (let (g, w) = s in
     if \<not> wr_auth (gt_wiring g) \<or> \<not> wr_sessions (gt_wiring g) \<or> \<not> wr_connections (gt_wiring g)
     then (Failure ''gate login dependencies are not registered'', g, w)
     else let auth = Validate (cl_platform q) (cl_account_id q) (cl_credential q) in
     if \<not> auth_ok auth then SendLoginFailure E cid ERROR_CODE_UNAUTHORIZED (auth_message auth) (g, w)
     else let (kick, g1, w1) = KickExistingAccountSession E (auth_account_id auth) cid (g, w) in
     if \<not> ok kick then (kick, g1, w1)
     else let (opened, g2, w2) = open_session E cid (g1, w1) in
     if \<not> ok opened then (opened, g2, w2)
     else let (anonymous, C) = MarkAnonymous cid (gt_connections g2); g3 = g2\<lparr>gt_connections := C\<rparr> in
     if \<not> ok anonymous then (anonymous, g3, w2)
     else RequestLogin E 1 cid cid (cl_platform q) (auth_account_id auth) 1 (g3, w2))"

text \<open>What a successful answer of the game changes, in the order of the calls; their results are dropped.\<close>

definition login_succeeded :: "'w gate_env \<Rightarrow> PendingLogin \<Rightarrow> LoginPlayerResponse \<Rightarrow> gate \<times> 'w \<Rightarrow> gate \<times> 'w" where
  "login_succeeded E pending a s = (let (g, w) = s; env = os_env (gte_os E); sid = pl_gate_session_id pending;
     (S, w1) = (if wr_sessions (gt_wiring g)
                then snd (gate_Activate env sid (pl_account_id pending) (lr_player_id a) (lr_game_service_type a)
                  (lr_game_instance_id a) (gt_sessions g, w))
                else (gt_sessions g, w));
     (R, w2) = (if wr_routing (gt_wiring g)
                then snd (BindPlayer env (lr_player_id a) (lr_game_service_type a) (lr_game_instance_id a) sid (gt_routes g, w1))
                else (gt_routes g, w1));
     C = (if wr_connections (gt_wiring g) then snd (MarkBound (pl_connection_id pending) (gt_connections g)) else gt_connections g);
     w3 = (if wr_accounts (gt_wiring g)
           then snd (BindAccount env (gt_accounts g) (pl_account_id pending) (self_owner g sid) w2) else w2)
     in (g\<lparr>gt_sessions := S, gt_routes := R, gt_connections := C\<rparr>, w3))"

definition answered :: "LoginPlayerResponse \<Rightarrow> GateLoginSnapshot" where
  "answered a = \<lparr>gls_request_id = lr_request_id a, gls_player_id = lr_player_id a, gls_result_code = lr_result_code a,
     gls_game_service_type = lr_game_service_type a, gls_game_instance_id = lr_game_instance_id a,
     gls_is_reconnect = lr_is_reconnect a, gls_error_message = lr_error_message a\<rparr>"

definition client_error_code :: "ResultCode \<Rightarrow> ErrorCode" where
  "client_error_code code = (if code = RESULT_CODE_OK then ERROR_CODE_OK else ERROR_CODE_INTERNAL)"

definition HandleLoginResponse :: "'w gate_env \<Rightarrow> LoginPlayerResponse \<Rightarrow> gate \<times> 'w \<Rightarrow> result \<times> gate \<times> 'w" where
  "HandleLoginResponse E a s = (let (g, w) = s; g0 = g\<lparr>gt_login := (gt_login g)\<lparr>gl_mSnapshot := answered a\<rparr>\<rparr> in
     case map_of (mPendingLogins (gt_login g0)) (lr_request_id a) of
       None \<Rightarrow> (Failure ''missing pending login'', g0, w)
     | Some pending \<Rightarrow>
         let g1 = g0\<lparr>gt_login := (gt_login g0)\<lparr>mPendingLogins := AList.delete (lr_request_id a) (mPendingLogins (gt_login g0))\<rparr>\<rparr>;
             (g2, w2) = (if lr_result_code a = RESULT_CODE_OK then login_succeeded E pending a (g1, w) else (g1, w)) in
         if \<not> wr_protocol (gt_wiring g2) \<or> \<not> wr_connections (gt_wiring g2) then (Success, g2, w2)
         else let (r, g3, w3) = SendLoginResponse E (pl_connection_id pending) (lr_player_id a) (lr_is_reconnect a)
                (client_error_code (lr_result_code a)) (lr_error_message a) (g2, w2)
              in (if ok r then Success else Failure (message r), g3, w3))"

definition HandleKickAccountSession :: "'w gate_env \<Rightarrow> kick_request \<Rightarrow> gate \<times> 'w \<Rightarrow> result \<times> gate \<times> 'w" where
  "HandleKickAccountSession E q s = (let (g, w) = s in
     if \<not> wr_sessions (gt_wiring g) \<or> \<not> wr_connections (gt_wiring g)
     then (Failure ''gate kick handling dependencies are not registered'', g, w)
     else case gate_Snapshot (gate_session_id (kr_old_gate q)) (gt_sessions g) of
       None \<Rightarrow> (Success, g, w)
     | Some session \<Rightarrow>
         if gs_account_id session \<noteq> kr_account_id q then (Success, g, w)
         else let (r, g1, w1) = kick_connection E (gs_connection_id session)
                (if kr_reason q = [] then kick_reason else kr_reason q) (g, w)
              in (if ok r then Success else Failure (message r), g1, w1))"

definition HandleUnbindPlayerSession :: "'w gate_env \<Rightarrow> unbind_session_request \<Rightarrow> gate \<times> 'w \<Rightarrow> result \<times> gate \<times> 'w" where
  "HandleUnbindPlayerSession E q s = (let (g, w) = s in
     if \<not> wr_sessions (gt_wiring g) \<or> \<not> wr_connections (gt_wiring g)
     then (Failure ''gate unbind handling dependencies are not registered'', g, w)
     else case gate_Snapshot (ub_gate_session_id q) (gt_sessions g) of
       None \<Rightarrow> (Success, g, w)
     | Some session \<Rightarrow>
         if gs_player_id session \<noteq> ub_player_id q then (Success, g, w)
         else let (sent, g1, w1) = (if wr_protocol (gt_wiring g)
                then SendKickNotification E (gs_connection_id session) ''player session ownership moved'' (g, w)
                else (Success, g, w)) in
         if \<not> ok sent then (Failure (message sent), g1, w1)
         else let (shut, g2, w2) = gate_Close E (gs_connection_id session) (g1, w1) in
         if \<not> ok shut \<and> message shut \<noteq> ''connection does not exist'' then (Failure (message shut), g2, w2)
         else (Success, g2, w2))"

section \<open>Messages of players\<close>

text \<open>The request for a game; instance and service type of the gate are the constants 1 and 20 of the source.\<close>

definition forward_of :: "u64 \<Rightarrow> GateSessionRecord \<Rightarrow> PlayerMessageRequest \<Rightarrow> forward_request" where
  "forward_of rid session q =
     \<lparr>fwd_request_id = rid,
      fwd_gate = \<lparr>gate_service_type = (if gs_game_service_type session = 0 then 20 else 20),
        gate_instance_id = (if gs_game_instance_id session = 0 then 1 else 1), gate_session_id = gs_gate_session_id session\<rparr>,
      fwd_player_id = gs_player_id session, fwd_message_id = qh_message_id (cm_header q), fwd_payload_bytes = cm_payload q,
      fwd_client_sequence = qh_sequence (cm_header q), fwd_timestamp_ms = qh_timestamp_ms (cm_header q)\<rparr>"

definition pending_of :: "u64 \<Rightarrow> GateSessionRecord \<Rightarrow> PlayerMessageRequest \<Rightarrow> PendingMessage" where
  "pending_of cid session q = \<lparr>pe_connection_id = cid, pe_gate_session_id = gs_gate_session_id session,
     pe_player_id = gs_player_id session, pe_client_message_id = qh_message_id (cm_header q)\<rparr>"

text \<open>The request is sent first and its entry is filed after: two steps, since the answer is handled by another thread.\<close>

definition player_message_send :: "'w gate_env \<Rightarrow> u64 \<Rightarrow> PlayerMessageRequest \<Rightarrow> gate \<times> 'w
    \<Rightarrow> (result + u64 \<times> PendingMessage) \<times> gate \<times> 'w" where
  "player_message_send E cid q s = (let (g, w) = s in
     if \<not> wr_connections (gt_wiring g) \<or> \<not> wr_sessions (gt_wiring g) \<or> \<not> wr_ipc (gt_wiring g)
     then (Inl (Failure ''gate player message dependencies are not registered''), g, w)
     else case gate_FindByConnection cid (gt_sessions g) of
       None \<Rightarrow> (Inl (Failure ''gate session is not active''), g, w)
     | Some session \<Rightarrow>
         if gs_state session \<noteq> gs_active \<or> gs_player_id session = 0 then (Inl (Failure ''gate session is not active''), g, w)
         else let rid = gpm_mNextRequestId (gt_messages g);
                  g1 = g\<lparr>gt_messages := (gt_messages g)\<lparr>gpm_mNextRequestId := rid + 1\<rparr>\<rparr>;
                  (r, g2, w2) = send_to_process E (gs_game_service_type session) (gs_game_instance_id session)
                    (gm_forward (forward_of rid session q)) (g1, w) in
         if \<not> ok r then (Inl r, g2, w2) else (Inr (rid, pending_of cid session q), g2, w2))"

definition player_message_register :: "u64 \<Rightarrow> PendingMessage \<Rightarrow> gate \<Rightarrow> gate" where
  "player_message_register rid entry g = g\<lparr>gt_messages := (gt_messages g)
     \<lparr>mPendingMessages := AList.update rid entry (mPendingMessages (gt_messages g))\<rparr>\<rparr>"

definition HandleClientPlayerMessage :: "'w gate_env \<Rightarrow> u64 \<Rightarrow> PlayerMessageRequest \<Rightarrow> gate \<times> 'w \<Rightarrow> result \<times> gate \<times> 'w" where
  "HandleClientPlayerMessage E cid q s = (case player_message_send E cid q s of
      (Inl r, s') \<Rightarrow> (r, s')
    | (Inr (rid, entry), g, w) \<Rightarrow> (Success, player_message_register rid entry g, w))"

lemmas HandleClientPlayerMessage_defs = HandleClientPlayerMessage_def player_message_send_def player_message_register_def

definition HandleForwardPlayerMessageResponse :: "'w gate_env \<Rightarrow> ForwardPlayerMessageResponse \<Rightarrow> gate \<times> 'w \<Rightarrow> result \<times> gate \<times> 'w" where
  "HandleForwardPlayerMessageResponse E a s = (let (g, w) = s in
     case map_of (mPendingMessages (gt_messages g)) (fr_request_id a) of
       None \<Rightarrow> (Failure ''missing pending player message'', g, w)
     | Some pending \<Rightarrow>
         let g1 = g\<lparr>gt_messages := (gt_messages g)\<lparr>mPendingMessages :=
               AList.delete (fr_request_id a) (mPendingMessages (gt_messages g))\<rparr>\<rparr>;
             (r, g2, w2) = SendPlayerMessageResponse E (pe_connection_id pending) (fr_message_id a) (fr_response_payload_bytes a)
               (client_error_code (fr_result_code a)) (fr_error_message a) (g1, w)
         in (if ok r then Success else Failure (message r), g2, w2))"

definition HandlePushPlayerMessage :: "'w gate_env \<Rightarrow> PushPlayerMessage \<Rightarrow> gate \<times> 'w \<Rightarrow> result \<times> gate \<times> 'w" where
  "HandlePushPlayerMessage E m s = (let (g, w) = s;
     refuse = (Failure ''gate session for push is not available'', g, w) in
     case gate_Snapshot (gate_session_id (pm_gate m)) (gt_sessions g) of
       None \<Rightarrow> refuse
     | Some session \<Rightarrow>
         if gs_connection_id session = 0 \<or> gs_player_id session \<noteq> pm_player_id m then refuse
         else let (r, g1, w1) = SendPlayerPushMessage E (gs_connection_id session) (pm_message_id m) (pm_payload_bytes m) (g, w)
              in (if ok r then Success else Failure (message r), g1, w1))"

section \<open>Reading the clients\<close>

text \<open>
  \<^verbatim>\<open>ProtobufMessageDispatcher\<close> (src/src/common/protocol/protobuf_dispatcher.h): handlers by message id, each behind the
  parser of its message.
\<close>

type_synonym 'w client_handler = "ByteBuffer \<Rightarrow> u64 \<Rightarrow> gate \<times> 'w \<Rightarrow> result \<times> gate \<times> 'w"

definition client_Register :: "u32 \<Rightarrow> (ByteBuffer \<Rightarrow> 'm option) \<Rightarrow> (u64 \<Rightarrow> 'm \<Rightarrow> gate \<times> 'w \<Rightarrow> result \<times> gate \<times> 'w)
    \<Rightarrow> (u32 \<times> 'w client_handler) list \<Rightarrow> (u32 \<times> 'w client_handler) list" where
  "client_Register message_id parse h hs = AList.update message_id
     (\<lambda>bytes cid s. case parse bytes of None \<Rightarrow> (Failure ''failed to parse protobuf payload'', s) | Some m \<Rightarrow> h cid m s) hs"

definition client_Dispatch :: "(u32 \<times> 'w client_handler) list \<Rightarrow> u32 \<Rightarrow> ByteBuffer \<Rightarrow> u64 \<Rightarrow> gate \<times> 'w \<Rightarrow> result \<times> gate \<times> 'w" where
  "client_Dispatch hs message_id bytes cid s = (case map_of hs message_id of
      None \<Rightarrow> (Failure ''unsupported message id'', s)
    | Some h \<Rightarrow> h bytes cid s)"

text \<open>The handlers the three services register when they are constructed.\<close>

definition client_handlers :: "'w gate_env \<Rightarrow> (u32 \<times> 'w client_handler) list" where
  "client_handlers E =
     client_Register MESSAGE_ID_PLAYER_MESSAGE_REQUEST (gcd_parse_player_message (gte_codec E)) (HandleClientPlayerMessage E)
     (client_Register MESSAGE_ID_LOGIN_REQUEST (gcd_parse_login (gte_codec E)) (gate_HandleClientLogin E)
     (client_Register MESSAGE_ID_HEARTBEAT_REQUEST (\<lambda>b. if gcd_parse_heartbeat (gte_codec E) b then Some () else None)
       (\<lambda>cid _. HandleHeartbeat E cid) []))"

definition MessageHandler :: "'w gate_env \<Rightarrow> u64 \<Rightarrow> u32 \<Rightarrow> ByteBuffer \<Rightarrow> gate \<times> 'w \<Rightarrow> gate \<times> 'w" where
  "MessageHandler E cid message_id bytes s = (let (g, w) = s in
     if \<not> wr_protocol (gt_wiring g) then (g, w) else snd (client_Dispatch (client_handlers E) message_id bytes cid (g, w)))"

definition HandleReadable :: "'w gate_env \<Rightarrow> u64 \<Rightarrow> int \<Rightarrow> gate \<times> 'w \<Rightarrow> gate \<times> 'w" where
  "HandleReadable E cid fd s = (case with_connections (read_client_frame (gte_os E) cid fd) s of
      (rd_finalize, s') \<Rightarrow> FinalizeConnection E cid s'
    | (rd_message message_id bytes, s') \<Rightarrow> MessageHandler E cid message_id bytes s')"

text \<open>One turn of \<^verbatim>\<open>WorkerLoop\<close>; \<open>False\<close> means the thread returns.\<close>

definition WorkerRound :: "'w gate_env \<Rightarrow> gate \<times> 'w \<Rightarrow> bool \<times> gate \<times> 'w" where
  "WorkerRound E s = (let (g, w) = s; C = gt_connections g; sockets = mSocketByConnectionId C;
     watched = (if 0 \<le> mListenSocketFd C then [mListenSocketFd C] else []) @ map snd sockets in
     if mStopping C then (False, g, w)
     else if \<forall>fd \<in> set watched. fd < 0 then (False, g, w)
     else let (ready, w1) = os_select (gte_os E) watched w in
     if ready = [] then (True, g, w1)
     else let (C1, w2) = (if 0 \<le> mListenSocketFd C \<and> mListenSocketFd C \<in> set ready
                          then AcceptReadySocket (gte_os E) (C, w1) else (C, w1))
          in (True, fold (\<lambda>(cid, fd) s. if fd \<in> set ready then HandleReadable E cid fd s else s) sockets
                (g\<lparr>gt_connections := C1\<rparr>, w2)))"

end
