(* ===== verification/Sim_Client.thy ===== *)
theory Sim_Client
  imports Console Gate_Services
begin

text \<open>
  The simulated client (src/src/sim_client): its TCP connection with the reader thread, the client side of the protocol, the
  scenarios and the runtime commands. The byte formats are generated code, the record \<open>client_codec\<close>. The reader thread is
  modelled by its position in the loop; \<open>reader_step\<close> takes it to the next one.
\<close>

section \<open>State\<close>

record SimClientConfiguration =
  cfg_gate_host :: string
  cfg_gate_port :: u32
  default_platform :: string
  default_account_id :: string
  default_client_version :: u32
  default_channel :: string

definition default_SimClientConfiguration :: SimClientConfiguration where
  "default_SimClientConfiguration = \<lparr>cfg_gate_host = ''127.0.0.1'', cfg_gate_port = 9000, default_platform = ''dev'',
     default_account_id = ''sim-account-1'', default_client_version = 1, default_channel = ''sim''\<rparr>"

record SimClientConnectionSnapshot =
  cs_host :: string
  cs_port :: u32
  cs_connected :: bool
  connect_attempts :: u64
  disconnect_count :: u64
  last_connect_ms :: u64
  last_disconnect_ms :: u64
  sent_frame_count :: u64
  received_frame_count :: u64

text \<open>
  Where the reader thread is: not started (or moved away), before the lock at the top of its loop, in \<^verbatim>\<open>recv\<close> with the socket it
  saw, about to call the handler it saw, or at its end.
\<close>

datatype reader_at = rp_none | rp_top | rp_recv int bool | rp_handle bool u32 ByteBuffer | rp_end

record ConnectionService =
  sim_snapshot :: SimClientConnectionSnapshot
  mSocketFd :: int
  mMessageHandler :: bool \<comment> \<open>whether it is set; it is \<^verbatim>\<open>ProtocolService::HandleFrame\<close>\<close>
  mReaderThread :: reader_at

type_synonym SimClientProtocolFrame = "u32 \<times> ByteBuffer"

record ProtocolEncodeResult =
  enc_ok :: bool
  enc_message_id :: u32
  encoded_size :: u64
  enc_message :: string

record SimClientProtocolSnapshot =
  encoded_login_bytes :: u64
  encoded_heartbeat_bytes :: u64
  received_login_response_bytes :: u64
  configured_platform :: string
  configured_account_id :: string
  configured_channel :: string
  configured_client_version :: u32
  last_login_player_id :: u64
  last_login_ok :: bool
  last_login_error_code :: u32
  last_login_error_message :: string
  last_kick_reason :: string
  encoded_player_message_bytes :: u64
  last_player_response_message_id :: u32
  last_player_response_error_code :: u32
  last_player_response_error_message :: string
  last_player_response_payload :: string
  last_echo_text :: string
  last_rename_display_name :: string
  last_push_message_id :: u32
  last_push_payload :: string
  last_profile_push_display_name :: string

record ProtocolService =
  sp_mConfiguration :: SimClientConfiguration
  sp_mSnapshot :: SimClientProtocolSnapshot

record SimClientScenarioSnapshot =
  last_scenario :: string
  run_count :: u64

record sim_client =
  cl_connection :: ConnectionService
  cl_protocol :: ProtocolService
  cl_scenario :: SimClientScenarioSnapshot
  has_connection :: bool
  has_protocol :: bool
  has_scenario :: bool

record client_login =
  lo_header :: RequestHeader
  lo_platform :: string
  lo_account_id :: string
  lo_credential :: string
  lo_client_version :: u32
  lo_channel :: string

record client_codec =
  cc_login :: "client_login \<Rightarrow> ByteBuffer option" \<comment> \<open>\<^verbatim>\<open>SerializeToString\<close>\<close>
  cc_heartbeat :: "RequestHeader \<Rightarrow> ByteBuffer option"
  cc_player_message :: "PlayerMessageRequest \<Rightarrow> ByteBuffer option"
  cc_echo :: "string \<Rightarrow> string option"
  cc_rename :: "string \<Rightarrow> string option"
  cc_parse_login_response :: "ByteBuffer \<Rightarrow> (ResponseHeader \<times> u64) option" \<comment> \<open>header and player id\<close>
  cc_parse_heartbeat_response :: "ByteBuffer \<Rightarrow> bool"
  cc_parse_kick :: "ByteBuffer \<Rightarrow> string option" \<comment> \<open>the reason\<close>
  cc_parse_player_response :: "ByteBuffer \<Rightarrow> (ResponseHeader \<times> string) option"
  cc_parse_echo_response :: "string \<Rightarrow> string option"
  cc_parse_rename_response :: "string \<Rightarrow> string option"
  cc_parse_push :: "ByteBuffer \<Rightarrow> (u32 \<times> string) option"
  cc_parse_profile_push :: "string \<Rightarrow> string option"

record 'w client_env =
  ce_env :: "'w env"
  ce_sockets :: "'w sockets"
  ce_codec :: client_codec

section \<open>The protocol\<close>

definition new_ProtocolService :: "SimClientConfiguration \<Rightarrow> ProtocolService" where
  "new_ProtocolService c = \<lparr>sp_mConfiguration = c, sp_mSnapshot = \<lparr>encoded_login_bytes = 0, encoded_heartbeat_bytes = 0,
     received_login_response_bytes = 0, configured_platform = default_platform c, configured_account_id = default_account_id c,
     configured_channel = default_channel c, configured_client_version = default_client_version c, last_login_player_id = 0,
     last_login_ok = False, last_login_error_code = 0, last_login_error_message = [], last_kick_reason = [],
     encoded_player_message_bytes = 0, last_player_response_message_id = 0, last_player_response_error_code = 0,
     last_player_response_error_message = [], last_player_response_payload = [], last_echo_text = [],
     last_rename_display_name = [], last_push_message_id = 0, last_push_payload = [], last_profile_push_display_name = []\<rparr>\<rparr>"

definition SetAccountId :: "string \<Rightarrow> ProtocolService \<Rightarrow> result \<times> ProtocolService" where
  "SetAccountId account P =
     (if account = [] then (Failure ''account_id must not be empty'', P)
      else (Success, P\<lparr>sp_mConfiguration := (sp_mConfiguration P)\<lparr>default_account_id := account\<rparr>,
                       sp_mSnapshot := (sp_mSnapshot P)\<lparr>configured_account_id := account\<rparr>\<rparr>))"

definition ResetRuntimeState :: "ProtocolService \<Rightarrow> result \<times> ProtocolService" where
  "ResetRuntimeState P = (Success, P\<lparr>sp_mSnapshot := (sp_mSnapshot P)
     \<lparr>encoded_login_bytes := 0, encoded_heartbeat_bytes := 0, received_login_response_bytes := 0, last_login_player_id := 0,
      last_login_ok := False, last_login_error_code := 0, last_login_error_message := [], last_kick_reason := [],
      encoded_player_message_bytes := 0, last_player_response_message_id := 0, last_player_response_error_code := 0,
      last_player_response_error_message := [], last_player_response_payload := [], last_echo_text := [],
      last_rename_display_name := [], last_push_message_id := 0, last_push_payload := [], last_profile_push_display_name := []\<rparr>\<rparr>)"

text \<open>The request that \<^verbatim>\<open>EncodeDefaultLogin\<close> and \<^verbatim>\<open>BuildDefaultLoginFrame\<close> both build.\<close>

definition login_of :: "SimClientConfiguration \<Rightarrow> client_login" where
  "login_of c = \<lparr>lo_header = \<lparr>qh_message_id = MESSAGE_ID_LOGIN_REQUEST, qh_sequence = 1, qh_timestamp_ms = 1\<rparr>,
     lo_platform = default_platform c, lo_account_id = default_account_id c, lo_credential = ''sim-token'',
     lo_client_version = default_client_version c, lo_channel = default_channel c\<rparr>"

definition heartbeat_header :: RequestHeader where
  "heartbeat_header = \<lparr>qh_message_id = MESSAGE_ID_HEARTBEAT_REQUEST, qh_sequence = 2, qh_timestamp_ms = 2\<rparr>"

definition encode_failed :: "string \<Rightarrow> ProtocolEncodeResult" where
  "encode_failed text' = \<lparr>enc_ok = False, enc_message_id = 0, encoded_size = 0, enc_message = text'\<rparr>"

definition encoded :: "u32 \<Rightarrow> ByteBuffer \<Rightarrow> ProtocolEncodeResult" where
  "encoded message_id bytes = \<lparr>enc_ok = True, enc_message_id = message_id, encoded_size = of_nat (length bytes), enc_message = ''OK''\<rparr>"

definition EncodeDefaultLogin :: "client_codec \<Rightarrow> ProtocolService \<Rightarrow> ProtocolEncodeResult \<times> ProtocolService" where
  "EncodeDefaultLogin C P = (case cc_login C (login_of (sp_mConfiguration P)) of
      None \<Rightarrow> (encode_failed ''failed to serialize login request'', P)
    | Some bytes \<Rightarrow> (encoded MESSAGE_ID_LOGIN_REQUEST bytes,
        P\<lparr>sp_mSnapshot := (sp_mSnapshot P)\<lparr>encoded_login_bytes := of_nat (length bytes)\<rparr>\<rparr>))"

definition EncodeHeartbeat :: "client_codec \<Rightarrow> ProtocolService \<Rightarrow> ProtocolEncodeResult \<times> ProtocolService" where
  "EncodeHeartbeat C P = (case cc_heartbeat C heartbeat_header of
      None \<Rightarrow> (encode_failed ''failed to serialize heartbeat request'', P)
    | Some bytes \<Rightarrow> (encoded MESSAGE_ID_HEARTBEAT_REQUEST bytes,
        P\<lparr>sp_mSnapshot := (sp_mSnapshot P)\<lparr>encoded_heartbeat_bytes := of_nat (length bytes)\<rparr>\<rparr>))"

definition BuildTypedPlayerFrame :: "client_codec \<Rightarrow> u32 \<Rightarrow> string option \<Rightarrow> SimClientProtocolFrame option" where
  "BuildTypedPlayerFrame C message_id payload_message = (case payload_message of
      None \<Rightarrow> None
    | Some inner \<Rightarrow> (case cc_player_message C \<lparr>cm_header = \<lparr>qh_message_id = message_id, qh_sequence = 3, qh_timestamp_ms = 3\<rparr>,
            cm_payload = inner\<rparr> of
          None \<Rightarrow> None
        | Some bytes \<Rightarrow> Some (MESSAGE_ID_PLAYER_MESSAGE_REQUEST, bytes)))"

text \<open>The common end of \<^verbatim>\<open>EncodeEchoRequest\<close> and \<^verbatim>\<open>EncodeRenameRequest\<close>.\<close>

definition encode_frame :: "string \<Rightarrow> SimClientProtocolFrame option \<Rightarrow> ProtocolService \<Rightarrow> ProtocolEncodeResult \<times> ProtocolService" where
  "encode_frame failure built P = (case built of
      None \<Rightarrow> (encode_failed failure, P)
    | Some (message_id, bytes) \<Rightarrow> (encoded message_id bytes,
        P\<lparr>sp_mSnapshot := (sp_mSnapshot P)\<lparr>encoded_player_message_bytes := of_nat (length bytes)\<rparr>\<rparr>))"

definition EncodeEchoRequest :: "client_codec \<Rightarrow> string \<Rightarrow> ProtocolService \<Rightarrow> ProtocolEncodeResult \<times> ProtocolService" where
  "EncodeEchoRequest C text' = encode_frame ''failed to serialize echo request''
     (BuildTypedPlayerFrame C MESSAGE_ID_PLAYER_ECHO_REQUEST (cc_echo C text'))"

definition EncodePlayerMessage :: "client_codec \<Rightarrow> string \<Rightarrow> ProtocolService \<Rightarrow> ProtocolEncodeResult \<times> ProtocolService" where
  "EncodePlayerMessage C body = EncodeEchoRequest C body"

definition EncodeRenameRequest :: "client_codec \<Rightarrow> string \<Rightarrow> ProtocolService \<Rightarrow> ProtocolEncodeResult \<times> ProtocolService" where
  "EncodeRenameRequest C name = encode_frame ''failed to serialize rename player request''
     (BuildTypedPlayerFrame C MESSAGE_ID_PLAYER_RENAME_REQUEST (cc_rename C name))"

definition BuildDefaultLoginFrame :: "client_codec \<Rightarrow> ProtocolService \<Rightarrow> SimClientProtocolFrame option \<times> ProtocolService" where
  "BuildDefaultLoginFrame C P = (let (r, P1) = EncodeDefaultLogin C P in
     if \<not> enc_ok r then (None, P1)
     else (map_option (Pair MESSAGE_ID_LOGIN_REQUEST) (cc_login C (login_of (sp_mConfiguration P1))), P1))"

definition BuildHeartbeatFrame :: "client_codec \<Rightarrow> ProtocolService \<Rightarrow> SimClientProtocolFrame option \<times> ProtocolService" where
  "BuildHeartbeatFrame C P = (let (r, P1) = EncodeHeartbeat C P in
     if \<not> enc_ok r then (None, P1) else (map_option (Pair MESSAGE_ID_HEARTBEAT_REQUEST) (cc_heartbeat C heartbeat_header), P1))"

definition BuildEchoFrame :: "client_codec \<Rightarrow> string \<Rightarrow> ProtocolService \<Rightarrow> SimClientProtocolFrame option \<times> ProtocolService" where
  "BuildEchoFrame C text' P = (let (r, P1) = EncodeEchoRequest C text' P in
     if \<not> enc_ok r then (None, P1) else (BuildTypedPlayerFrame C MESSAGE_ID_PLAYER_ECHO_REQUEST (cc_echo C text'), P1))"

definition BuildPlayerMessageFrame :: "client_codec \<Rightarrow> string \<Rightarrow> ProtocolService \<Rightarrow> SimClientProtocolFrame option \<times> ProtocolService" where
  "BuildPlayerMessageFrame C body = BuildEchoFrame C body"

definition BuildRenameFrame :: "client_codec \<Rightarrow> string \<Rightarrow> ProtocolService \<Rightarrow> SimClientProtocolFrame option \<times> ProtocolService" where
  "BuildRenameFrame C name P = (let (r, P1) = EncodeRenameRequest C name P in
     if \<not> enc_ok r then (None, P1) else (BuildTypedPlayerFrame C MESSAGE_ID_PLAYER_RENAME_REQUEST (cc_rename C name), P1))"

fun ErrorCode_number :: "ErrorCode \<Rightarrow> u32" where
  "ErrorCode_number ERROR_CODE_UNSPECIFIED = 0"
| "ErrorCode_number ERROR_CODE_OK = 1"
| "ErrorCode_number ERROR_CODE_INVALID_REQUEST = 2"
| "ErrorCode_number ERROR_CODE_UNAUTHORIZED = 3"
| "ErrorCode_number ERROR_CODE_INTERNAL = 4"

definition observe :: "(SimClientProtocolSnapshot \<Rightarrow> SimClientProtocolSnapshot) \<Rightarrow> ProtocolService \<Rightarrow> ProtocolService" where
  "observe f P = P\<lparr>sp_mSnapshot := f (sp_mSnapshot P)\<rparr>"

text \<open>The two answers that carry a message of their own, for \<^verbatim>\<open>PLAYER_MESSAGE_RESPONSE\<close>.\<close>

definition player_answer :: "client_codec \<Rightarrow> ResponseHeader \<Rightarrow> string \<Rightarrow> ProtocolService \<Rightarrow> result \<times> ProtocolService" where
  "player_answer C h body P =
     (if rh_message_id h = MESSAGE_ID_PLAYER_ECHO_REQUEST then (case cc_parse_echo_response C body of
          None \<Rightarrow> (Failure ''failed to parse PlayerEchoResponse'', P)
        | Some text' \<Rightarrow> (Success, observe (\<lambda>s. s\<lparr>last_echo_text := text', last_player_response_payload := text'\<rparr>) P))
      else if rh_message_id h = MESSAGE_ID_PLAYER_RENAME_REQUEST then (case cc_parse_rename_response C body of
          None \<Rightarrow> (Failure ''failed to parse RenamePlayerResponse'', P)
        | Some name \<Rightarrow> (Success, observe (\<lambda>s. s\<lparr>last_rename_display_name := name, last_player_response_payload := name\<rparr>) P))
      else (Success, P))"

definition HandleFrame :: "client_codec \<Rightarrow> u32 \<Rightarrow> ByteBuffer \<Rightarrow> ProtocolService \<Rightarrow> result \<times> ProtocolService" where
  "HandleFrame C message_id bytes P =
     (if message_id = MESSAGE_ID_LOGIN_RESPONSE then (case cc_parse_login_response C bytes of
          None \<Rightarrow> (Failure ''failed to parse LoginResponse'', P)
        | Some (h, pid) \<Rightarrow> (Success, observe (\<lambda>s. s\<lparr>received_login_response_bytes := of_nat (length bytes),
            last_login_player_id := pid, last_login_ok := (rh_error_code h = ERROR_CODE_OK),
            last_login_error_code := ErrorCode_number (rh_error_code h), last_login_error_message := rh_error_message h\<rparr>) P))
      else if message_id = MESSAGE_ID_HEARTBEAT_RESPONSE then
        (if \<not> cc_parse_heartbeat_response C bytes then (Failure ''failed to parse HeartbeatResponse'', P) else (Success, P))
      else if message_id = MESSAGE_ID_KICK_NOTIFICATION then (case cc_parse_kick C bytes of
          None \<Rightarrow> (Failure ''failed to parse KickNotification'', P)
        | Some reason \<Rightarrow> (Success, observe (\<lambda>s. s\<lparr>last_kick_reason := reason\<rparr>) P))
      else if message_id = MESSAGE_ID_PLAYER_MESSAGE_RESPONSE then (case cc_parse_player_response C bytes of
          None \<Rightarrow> (Failure ''failed to parse PlayerMessageResponse'', P)
        | Some (h, body) \<Rightarrow> player_answer C h body (observe (\<lambda>s. s\<lparr>last_player_response_message_id := rh_message_id h,
            last_player_response_error_code := ErrorCode_number (rh_error_code h),
            last_player_response_error_message := rh_error_message h, last_player_response_payload := body\<rparr>) P))
      else if message_id = MESSAGE_ID_PLAYER_PUSH then (case cc_parse_push C bytes of
          None \<Rightarrow> (Failure ''failed to parse PlayerPushMessage'', P)
        | Some (push_id, body) \<Rightarrow>
            let P1 = observe (\<lambda>s. s\<lparr>last_push_message_id := push_id, last_push_payload := body\<rparr>) P in
            if push_id = MESSAGE_ID_PLAYER_PROFILE_PUSH then (case cc_parse_profile_push C body of
                None \<Rightarrow> (Failure ''failed to parse PlayerProfilePush'', P1)
              | Some name \<Rightarrow> (Success, observe (\<lambda>s. s\<lparr>last_profile_push_display_name := name, last_push_payload := name\<rparr>) P1))
            else (Success, P1))
      else (Failure ''unsupported message_id'', P))"

section \<open>The connection\<close>

definition new_ConnectionService :: "string \<Rightarrow> u32 \<Rightarrow> ConnectionService" where
  "new_ConnectionService host' port' = \<lparr>sim_snapshot = \<lparr>cs_host = host', cs_port = port', cs_connected = False, connect_attempts = 0,
     disconnect_count = 0, last_connect_ms = 0, last_disconnect_ms = 0, sent_frame_count = 0, received_frame_count = 0\<rparr>,
     mSocketFd = -1, mMessageHandler = False, mReaderThread = rp_none\<rparr>"

definition SetMessageHandler :: "bool \<Rightarrow> ConnectionService \<Rightarrow> ConnectionService" where
  "SetMessageHandler handler C = C\<lparr>mMessageHandler := handler\<rparr>"

definition count :: "(SimClientConnectionSnapshot \<Rightarrow> SimClientConnectionSnapshot) \<Rightarrow> ConnectionService \<Rightarrow> ConnectionService" where
  "count f C = C\<lparr>sim_snapshot := f (sim_snapshot C)\<rparr>"

text \<open>The end of \<^verbatim>\<open>ReaderLoop\<close> after a \<^verbatim>\<open>break\<close>.\<close>

definition reader_exit :: "'w client_env \<Rightarrow> ConnectionService \<times> 'w \<Rightarrow> ConnectionService \<times> 'w" where
  "reader_exit E s = (let (C, w) = s;
     (C1, w1) = (if 0 \<le> mSocketFd C then (C\<lparr>mSocketFd := -1\<rparr>, sk_close (ce_sockets E) (mSocketFd C) w) else (C, w));
     (now, w2) = NowMs (ce_env E) w1
     in ((count (\<lambda>n. n\<lparr>disconnect_count := disconnect_count n + 1, cs_connected := False, last_disconnect_ms := now\<rparr>) C1)
           \<lparr>mReaderThread := rp_end\<rparr>, w2))"

definition reader_step :: "'w client_env \<Rightarrow> (ConnectionService \<times> ProtocolService) \<times> 'w \<Rightarrow> (ConnectionService \<times> ProtocolService) \<times> 'w" where
  "reader_step E s = (let ((C, P), w) = s; K = ce_sockets E in case mReaderThread C of
      rp_none \<Rightarrow> s
    | rp_end \<Rightarrow> s
    | rp_top \<Rightarrow> ((C\<lparr>mReaderThread := if mSocketFd C < 0 then rp_end else rp_recv (mSocketFd C) (mMessageHandler C)\<rparr>, P), w)
    | rp_recv fd handler \<Rightarrow> (case ReadExact K fd 8 w of
          (None, w1) \<Rightarrow> let (C1, w2) = reader_exit E (C, w1) in ((C1, P), w2)
        | (Some h, w1) \<Rightarrow>
            let (body, w2) = (if from_le32 (drop 4 h) > 0 then ReadExact K fd (unat (from_le32 (drop 4 h))) w1 else (Some [], w1)) in
            case body of
              None \<Rightarrow> let (C1, w3) = reader_exit E (C, w2) in ((C1, P), w3)
            | Some bytes \<Rightarrow> (((count (\<lambda>n. n\<lparr>received_frame_count := received_frame_count n + 1\<rparr>) C)
                \<lparr>mReaderThread := rp_handle handler (from_le32 h) bytes\<rparr>, P), w2))
    | rp_handle handler message_id bytes \<Rightarrow>
        ((C\<lparr>mReaderThread := rp_top\<rparr>, if handler then snd (HandleFrame (ce_codec E) message_id bytes P) else P), w))"

text \<open>
  \<^verbatim>\<open>join\<close> lets the moved-away thread run to its end. It is only called while \<^verbatim>\<open>mSocketFd\<close> is negative, so the thread ends at the next
  top of its loop, after at most four steps (lemma \<open>join_ends\<close>).
\<close>

definition join_reader :: "'w client_env \<Rightarrow> (ConnectionService \<times> ProtocolService) \<times> 'w \<Rightarrow> (ConnectionService \<times> ProtocolService) \<times> 'w" where
  "join_reader E s = (let ((C, P), w) = (reader_step E ^^ 4) s in ((C\<lparr>mReaderThread := rp_none\<rparr>, P), w))"

definition sim_connection_Stop :: "'w client_env \<Rightarrow> (ConnectionService \<times> ProtocolService) \<times> 'w \<Rightarrow> (ConnectionService \<times> ProtocolService) \<times> 'w" where
  "sim_connection_Stop E s = (let ((C, P), w) = s; fd = mSocketFd C; K = ce_sockets E;
     C1 = count (\<lambda>n. n\<lparr>cs_connected := False\<rparr>) (C\<lparr>mSocketFd := -1\<rparr>);
     w1 = (if 0 \<le> fd then sk_close K fd (sk_shutdown K fd w) else w)
     in join_reader E ((C1, P), w1))"

definition sim_Connect :: "'w client_env \<Rightarrow> (ConnectionService \<times> ProtocolService) \<times> 'w
    \<Rightarrow> result \<times> (ConnectionService \<times> ProtocolService) \<times> 'w" where
  "sim_Connect E s = (let ((C, P), w) = s; K = ce_sockets E; C0 = count (\<lambda>n. n\<lparr>connect_attempts := connect_attempts n + 1\<rparr>) C in
     if 0 \<le> mSocketFd C0 then (Failure ''socket already connected'', (C0, P), w)
     else let ((C1, P1), w1) = join_reader E ((C0, P), w); (fd, w2) = sk_socket K w1 in
     if fd < 0 then (Failure ''failed to create socket'', (C1, P1), w2)
     else if \<not> sk_inet_pton K (cs_host (sim_snapshot C1)) then (Failure ''failed to parse gate host'', (C1, P1), sk_close K fd w2)
     else let (rc, w3) = sk_connect K fd \<lparr>host = cs_host (sim_snapshot C1), port = ucast (cs_port (sim_snapshot C1))\<rparr> w2 in
     if rc \<noteq> 0 then (Failure ''failed to connect to gate'', (C1, P1), sk_close K fd w3)
     else let (now, w4) = NowMs (ce_env E) w3 in
     (Success, ((count (\<lambda>n. n\<lparr>cs_connected := True, last_connect_ms := now\<rparr>) C1)\<lparr>mSocketFd := fd, mReaderThread := rp_top\<rparr>, P1), w4))"

definition sim_Disconnect :: "'w client_env \<Rightarrow> (ConnectionService \<times> ProtocolService) \<times> 'w
    \<Rightarrow> result \<times> (ConnectionService \<times> ProtocolService) \<times> 'w" where
  "sim_Disconnect E s = (let ((C, P), w) = s; K = ce_sockets E; fd = mSocketFd C in
     if fd < 0 then (Failure ''socket is not connected'', (C, P), w)
     else let (now, w1) = NowMs (ce_env E) w;
              C1 = count (\<lambda>n. n\<lparr>disconnect_count := disconnect_count n + 1, cs_connected := False, last_disconnect_ms := now\<rparr>)
                     (C\<lparr>mSocketFd := -1\<rparr>)
          in (Success, join_reader E ((C1, P), sk_close K fd (sk_shutdown K fd w1))))"

definition SendFrame :: "'w client_env \<Rightarrow> u32 \<Rightarrow> ByteBuffer \<Rightarrow> ConnectionService \<times> 'w \<Rightarrow> result \<times> ConnectionService \<times> 'w" where
  "SendFrame E message_id bytes s = (let (C, w) = s; K = ce_sockets E; fd = mSocketFd C in
     if fd < 0 then (Failure ''socket is not connected'', C, w)
     else let (head_ok, w1) = WriteExact K fd (client_header message_id (of_nat (length bytes))) w in
     if \<not> head_ok then (Failure ''failed to send frame header'', C, w1)
     else let (body_ok, w2) = (if bytes = [] then (True, w1) else WriteExact K fd bytes w1) in
     if \<not> body_ok then (Failure ''failed to send frame payload'', C, w2)
     else (Success, count (\<lambda>n. n\<lparr>sent_frame_count := sent_frame_count n + 1\<rparr>) C, w2))"

lemma reader_step_closed:
  "mSocketFd (fst (fst s)) < 0 \<Longrightarrow> mSocketFd (fst (fst (reader_step E s))) = mSocketFd (fst (fst s))"
  by (cases "fst (fst s)")
    (auto simp: reader_step_def reader_exit_def count_def Let_def split: reader_at.splits prod.splits option.splits if_splits)

lemma join_ends:
  assumes "mSocketFd C < 0"
  shows "mReaderThread (fst (fst ((reader_step E ^^ 4) ((C, P), w)))) \<in> {rp_none, rp_end}"
proof -
  let ?s = "\<lambda>n. (reader_step E ^^ n) ((C, P), w)" and ?at = "\<lambda>s. mReaderThread (fst (fst s))"
  have closed: "mSocketFd (fst (fst (?s n))) < 0" for n
    by (induction n) (simp_all add: assms reader_step_closed)
  have step: "?at (reader_step E s) \<in> {rp_none, rp_end}" if "?at s \<in> {rp_none, rp_end, rp_top}" "mSocketFd (fst (fst s)) < 0" for s
    using that by (auto simp: reader_step_def split: prod.splits)
  have top: "?at (reader_step E s) \<in> {rp_none, rp_end, rp_top}" if "\<forall>fd b. ?at s \<noteq> rp_recv fd b" "mSocketFd (fst (fst s)) < 0" for s
    using that by (cases "?at s") (auto simp: reader_step_def split: prod.splits)
  have recv: "\<forall>fd b. ?at (reader_step E s) \<noteq> rp_recv fd b" if "mSocketFd (fst (fst s)) < 0" for s
    using that by (cases "?at s") (auto simp: reader_step_def reader_exit_def count_def Let_def split: prod.splits option.splits if_splits)
  have Suc: "?s (Suc n) = reader_step E (?s n)" for n by simp
  have "?at (?s (Suc 0)) \<noteq> rp_recv fd b" for fd b using recv [OF closed [of 0]] Suc [of 0] by metis
  then have "?at (?s (Suc (Suc 0))) \<in> {rp_none, rp_end, rp_top}" using top [OF _ closed [of "Suc 0"]] Suc [of "Suc 0"] by metis
  then have "?at (?s (Suc (Suc (Suc 0)))) \<in> {rp_none, rp_end}" using step [OF _ closed [of "Suc (Suc 0)"]] Suc [of "Suc (Suc 0)"] by metis
  then have "?at (?s (Suc (Suc (Suc (Suc 0))))) \<in> {rp_none, rp_end}"
    using step [OF _ closed [of "Suc (Suc (Suc 0))"]] Suc [of "Suc (Suc (Suc 0))"] by fastforce
  then show ?thesis by (simp only: numeral_eq_Suc pred_numeral_simps BitM.simps arith_simps eval_nat_numeral)
qed

end
