(* ===== verification/Sim_Scenarios.thy ===== *)
theory Sim_Scenarios
  imports Sim_Client
begin

text \<open>
  The scenarios of the simulated client (src/src/sim_client/services/scenario_service.cpp) and its application
  (src/src/sim_client/application.cpp): services and runtime commands.
\<close>

section \<open>Scenarios\<close>

text \<open>The operations of the two services on the state of the whole client.\<close>

definition on_connection :: "((ConnectionService \<times> ProtocolService) \<times> 'w \<Rightarrow> result \<times> (ConnectionService \<times> ProtocolService) \<times> 'w)
    \<Rightarrow> sim_client \<times> 'w \<Rightarrow> result \<times> sim_client \<times> 'w" where
  "on_connection f s = (let (cl, w) = s; (r, (C, P), w1) = f ((cl_connection cl, cl_protocol cl), w) in
     (r, cl\<lparr>cl_connection := C, cl_protocol := P\<rparr>, w1))"

definition on_protocol :: "(ProtocolService \<Rightarrow> result \<times> ProtocolService) \<Rightarrow> sim_client \<times> 'w \<Rightarrow> result \<times> sim_client \<times> 'w" where
  "on_protocol f s = (let (cl, w) = s; (r, P) = f (cl_protocol cl) in (r, cl\<lparr>cl_protocol := P\<rparr>, w))"

text \<open>Build a frame, or fail with a message; then send it.\<close>

definition send_built :: "'w client_env \<Rightarrow> (ProtocolService \<Rightarrow> SimClientProtocolFrame option \<times> ProtocolService) \<Rightarrow> string
    \<Rightarrow> sim_client \<times> 'w \<Rightarrow> result \<times> sim_client \<times> 'w" where
  "send_built E build failure s = (let (cl, w) = s; (built, P) = build (cl_protocol cl); cl1 = cl\<lparr>cl_protocol := P\<rparr> in
     case built of
       None \<Rightarrow> (Failure failure, cl1, w)
     | Some (message_id, bytes) \<Rightarrow>
         let (r, C, w1) = SendFrame E message_id bytes (cl_connection cl1, w) in (r, cl1\<lparr>cl_connection := C\<rparr>, w1))"

text \<open>\<^verbatim>\<open>!r.ok && r.message != allowed\<close> ends the scenario.\<close>

definition unless_message :: "string \<Rightarrow> ('s \<Rightarrow> result \<times> 's) \<Rightarrow> 's \<Rightarrow> result \<times> 's" where
  "unless_message allowed f s = (let (r, s') = f s in (if \<not> ok r \<and> message r = allowed then Success else r, s'))"

definition scenario_steps :: "'w client_env \<Rightarrow> string \<Rightarrow> (sim_client \<times> 'w \<Rightarrow> result \<times> sim_client \<times> 'w) list option" where
  "scenario_steps E name = (let C = ce_codec E;
     connect = on_connection (sim_Connect E);
     connect_or_keep = unless_message ''socket already connected'' connect;
     disconnect = on_connection (sim_Disconnect E);
     login = send_built E (BuildDefaultLoginFrame C) ''failed to build login frame'';
     relogin = send_built E (BuildDefaultLoginFrame C) ''failed to build relogin frame'' in
     if name = ''connect_only'' then Some [connect]
     else if name = ''login_smoke'' then Some [connect_or_keep, login, send_built E (BuildHeartbeatFrame C) ''failed to build heartbeat frame'']
     else if name = ''reconnect_after_disconnect''
     then Some [connect_or_keep, on_protocol ResetRuntimeState, login, disconnect, connect, relogin]
     else if name = ''recover_after_kick'' then Some [unless_message ''socket is not connected'' disconnect, connect, relogin]
     else if name = ''login_then_echo''
     then Some [connect_or_keep, login, send_built E (BuildEchoFrame C ''scenario-login-echo'') ''failed to build player message frame'']
     else if name = ''player_echo''
     then Some [connect_or_keep, send_built E (BuildEchoFrame C ''sim-player-ping'') ''failed to build player message frame'']
     else if name = ''player_rename''
     then Some [connect_or_keep, send_built E (BuildRenameFrame C ''sim-player-renamed'') ''failed to build rename player frame'']
     else None)"

definition scenario_Run :: "'w client_env \<Rightarrow> string \<Rightarrow> string \<Rightarrow> sim_client \<times> 'w \<Rightarrow> result \<times> sim_client \<times> 'w" where
  "scenario_Run E name argument s = (let (cl, w) = s in
     if \<not> has_connection cl \<or> \<not> has_protocol cl then (Failure ''sim_client scenario dependencies are not registered'', cl, w)
     else let (set, s1) = (if argument \<noteq> [] then on_protocol (SetAccountId argument) (cl, w) else (Success, cl, w)) in
     if \<not> ok set then (set, s1)
     else case scenario_steps E name of
       None \<Rightarrow> (Failure ''unsupported scenario'', s1)
     | Some steps \<Rightarrow> (case run_until_failure steps s1 of
           (r, cl2, w2) \<Rightarrow>
             if \<not> ok r then (r, cl2, w2)
             else (Success, cl2\<lparr>cl_scenario := \<lparr>last_scenario = name, run_count = run_count (cl_scenario cl2) + 1\<rparr>\<rparr>, w2)))"

section \<open>The application\<close>

definition sim_RegisterServices :: "SimClientConfiguration \<Rightarrow> sim_client \<times> service list" where
  "sim_RegisterServices c =
     (\<lparr>cl_connection = SetMessageHandler True (new_ConnectionService (cfg_gate_host c) (cfg_gate_port c)),
       cl_protocol = new_ProtocolService c, cl_scenario = \<lparr>last_scenario = [], run_count = 0\<rparr>,
       has_connection = True, has_protocol = True, has_scenario = True\<rparr>,
      [\<lparr>GetName = ''sim_client_connection'', GetBatch = 10\<rparr>, \<lparr>GetName = ''sim_client_protocol'', GetBatch = 20\<rparr>,
       \<lparr>GetName = ''sim_client_scenario'', GetBatch = 30\<rparr>])"

type_synonym 'w sim_command = "(sim_client \<times> 'w) command_body"

definition sim_status :: "'w sim_command" where
  "sim_status arguments s = (let (cl, w) = s; c = sim_snapshot (cl_connection cl); p = sp_mSnapshot (cl_protocol cl); n = cl_scenario cl in
     if \<not> has_connection cl \<or> \<not> has_protocol cl \<or> \<not> has_scenario cl then refuse ''sim_client status: services not registered'' s
     else inform (''sim_client status: target={}:{} connected={} connect_attempts={} disconnect_count={} last_connect_ms={} '' @
         ''last_disconnect_ms={} sent_frames={} received_frames={} configured_platform={} configured_account_id={} '' @
         ''configured_channel={} configured_client_version={} encoded_login_bytes={} encoded_heartbeat_bytes={} '' @
         ''encoded_player_message_bytes={} received_login_response_bytes={} last_login_player_id={} last_login_ok={} '' @
         ''last_login_error_code={} last_login_error_message={} last_kick_reason={} last_player_response_message_id={} '' @
         ''last_player_response_error_code={} last_player_response_error_message={} last_player_response_payload={} '' @
         ''last_echo_text={} last_rename_display_name={} last_push_message_id={} last_push_payload={} '' @
         ''last_profile_push_display_name={} last_scenario={} scenario_runs={}'')
       [cs_host c, to_string (cs_port c), show_bool (cs_connected c), to_string (connect_attempts c), to_string (disconnect_count c),
        to_string (last_connect_ms c), to_string (last_disconnect_ms c), to_string (sent_frame_count c),
        to_string (received_frame_count c), or_none (configured_platform p), or_none (configured_account_id p),
        or_none (configured_channel p), to_string (configured_client_version p), to_string (encoded_login_bytes p),
        to_string (encoded_heartbeat_bytes p), to_string (encoded_player_message_bytes p),
        to_string (received_login_response_bytes p), to_string (last_login_player_id p), show_bool (last_login_ok p),
        to_string (last_login_error_code p), or_none (last_login_error_message p), or_none (last_kick_reason p),
        to_string (last_player_response_message_id p), to_string (last_player_response_error_code p),
        or_none (last_player_response_error_message p), or_none (last_player_response_payload p), or_none (last_echo_text p),
        or_none (last_rename_display_name p), to_string (last_push_message_id p), or_none (last_push_payload p),
        or_none (last_profile_push_display_name p), or_none (last_scenario n), to_string (run_count n)] s)"

definition sim_use_account :: "'w sim_command" where
  "sim_use_account arguments s = (let (cl, w) = s in
     if \<not> has_protocol cl then refuse ''sim_client use_account: service not registered'' s
     else case arguments of
       [account] \<Rightarrow> let (r, s1) = on_protocol (SetAccountId account) s in
         report r ''sim_client use_account failed: {}'' ''sim_client use_account: {}'' [account] s1
     | _ \<Rightarrow> refuse ''usage: use_account <account_id>'' s)"

definition sim_reset_status :: "'w sim_command" where
  "sim_reset_status arguments s = (let (cl, w) = s in
     if \<not> has_protocol cl then refuse ''sim_client reset_status: service not registered'' s
     else let (r, s1) = on_protocol ResetRuntimeState s in
       report r ''sim_client reset_status failed: {}'' ''sim_client reset_status: ok'' [] s1)"

definition sim_connect :: "'w client_env \<Rightarrow> 'w sim_command" where
  "sim_connect E arguments s = (let (cl, w) = s in
     if \<not> has_connection cl then refuse ''sim_client connect: service not registered'' s
     else let (r, s1) = on_connection (sim_Connect E) s in
       report r ''sim_client connect failed: {}'' ''sim_client connect: connected'' [] s1)"

definition sim_disconnect :: "'w client_env \<Rightarrow> 'w sim_command" where
  "sim_disconnect E arguments s = (let (cl, w) = s in
     if \<not> has_connection cl then refuse ''sim_client disconnect: service not registered'' s
     else let (r, s1) = on_connection (sim_Disconnect E) s in
       report r ''sim_client disconnect failed: {}'' ''sim_client disconnect: disconnected'' [] s1)"

definition sim_login :: "'w client_env \<Rightarrow> 'w sim_command" where
  "sim_login E arguments s = (let (cl, w) = s in
     if \<not> has_connection cl \<or> \<not> has_protocol cl then refuse ''sim_client login: services not registered'' s
     else if length arguments > 1 then refuse ''usage: login [account_id]'' s
     else let (set, s1) = (case arguments of [] \<Rightarrow> (Success, s) | account # _ \<Rightarrow> on_protocol (SetAccountId account) s) in
     if \<not> ok set then refuse (fmt ''sim_client login failed: {}'' [message set]) s1
     else let (r, s2) = send_built E (BuildDefaultLoginFrame (ce_codec E)) ''failed to build frame'' s1 in
       report r ''sim_client login failed: {}'' ''sim_client login: sent'' [] s2)"

definition sim_heartbeat :: "'w client_env \<Rightarrow> 'w sim_command" where
  "sim_heartbeat E arguments s = (let (cl, w) = s in
     if \<not> has_connection cl \<or> \<not> has_protocol cl then refuse ''sim_client heartbeat: services not registered'' s
     else let (r, s1) = send_built E (BuildHeartbeatFrame (ce_codec E)) ''failed to build frame'' s in
       report r ''sim_client heartbeat failed: {}'' ''sim_client heartbeat: sent'' [] s1)"

definition encode_command :: "string \<Rightarrow> (ProtocolService \<Rightarrow> ProtocolEncodeResult \<times> ProtocolService) \<Rightarrow> 'w sim_command" where
  "encode_command name encode arguments s = (let (cl, w) = s in
     if \<not> has_protocol cl then refuse (name @ '': service not registered'') s
     else let (r, P) = encode (cl_protocol cl); s1 = (cl\<lparr>cl_protocol := P\<rparr>, w) in
     if \<not> enc_ok r then refuse (fmt (name @ '' failed: {}'') [enc_message r]) s1
     else inform (name @ '': bytes={} message_id={}'') [to_string (encoded_size r), to_string (enc_message_id r)] s1)"

definition sim_login_encode :: "'w client_env \<Rightarrow> 'w sim_command" where
  "sim_login_encode E = encode_command ''sim_client login_encode'' (EncodeDefaultLogin (ce_codec E))"

definition sim_heartbeat_encode :: "'w client_env \<Rightarrow> 'w sim_command" where
  "sim_heartbeat_encode E = encode_command ''sim_client heartbeat_encode'' (EncodeHeartbeat (ce_codec E))"

definition sim_player_echo :: "'w client_env \<Rightarrow> 'w sim_command" where
  "sim_player_echo E arguments s = (let (cl, w) = s in
     if \<not> has_connection cl \<or> \<not> has_protocol cl then refuse ''sim_client player_echo: services not registered'' s
     else let text' = (case arguments of [] \<Rightarrow> ''sim-player-ping'' | a # _ \<Rightarrow> a);
              (r, s1) = send_built E (BuildEchoFrame (ce_codec E) text') ''failed to build frame'' s in
       report r ''sim_client player_echo failed: {}'' ''sim_client player_echo: {}'' [text'] s1)"

definition sim_player_rename :: "'w client_env \<Rightarrow> 'w sim_command" where
  "sim_player_rename E arguments s = (let (cl, w) = s in
     if \<not> has_connection cl \<or> \<not> has_protocol cl then refuse ''sim_client player_rename: services not registered'' s
     else let name = (case arguments of [] \<Rightarrow> ''sim-player-renamed'' | a # _ \<Rightarrow> a);
              (r, s1) = send_built E (BuildRenameFrame (ce_codec E) name) ''failed to build frame'' s in
       report r ''sim_client player_rename failed: {}'' ''sim_client player_rename: {}'' [name] s1)"

definition sim_scenario_run :: "'w client_env \<Rightarrow> 'w sim_command" where
  "sim_scenario_run E arguments s = (let (cl, w) = s in
     if \<not> has_scenario cl then refuse ''sim_client scenario_run: service not registered'' s
     else case arguments of
       [name] \<Rightarrow> let (r, s1) = scenario_Run E name [] s in
         report r ''sim_client scenario_run failed: {}'' ''sim_client scenario_run: {}'' [name] s1
     | [name, account] \<Rightarrow> let (r, s1) = scenario_Run E name account s in
         report r ''sim_client scenario_run failed: {}'' ''sim_client scenario_run: {}'' [name] s1
     | _ \<Rightarrow> refuse (''usage: scenario_run <connect_only|login_smoke|player_echo|player_rename|reconnect_after_disconnect|'' @
         ''recover_after_kick|login_then_echo> [account_id]'') s)"

definition sim_RegisterRuntimeCommands :: "'w client_env \<Rightarrow> (string \<times> string \<times> ((sim_client \<times> 'w) \<times> log_line list) CommandHandler) list" where
  "sim_RegisterRuntimeCommands E =
     [(''status'', ''Show sim_client runtime status'', command sim_status),
      (''use_account'', ''Switch the default account id used by login commands: <account_id>'', command sim_use_account),
      (''reset_status'', ''Clear sim_client protocol runtime observations'', command sim_reset_status),
      (''connect'', ''Connect to gate over TCP'', command (sim_connect E)),
      (''disconnect'', ''Disconnect from gate'', command (sim_disconnect E)),
      (''login'', ''Send one login request to gate: [account_id]'', command (sim_login E)),
      (''heartbeat'', ''Send one heartbeat request to gate'', command (sim_heartbeat E)),
      (''login_encode'', ''Encode one login request using client protobuf'', command (sim_login_encode E)),
      (''heartbeat_encode'', ''Encode one heartbeat request using client protobuf'', command (sim_heartbeat_encode E)),
      (''player_echo'', ''Send one typed echo message to gate/game: [text]'', command (sim_player_echo E)),
      (''player_rename'', ''Send one typed rename message to gate/game: [display_name]'', command (sim_player_rename E)),
      (''scenario_run'', ''Run one named simulated scenario'', command (sim_scenario_run E))]"

end
