(* ===== verification/Gate_Invariants.thy ===== *)
theory Gate_Invariants
  imports Gate_Services
begin

text \<open>
  What holds of the connection and session tables of a gate whatever its clients and its games send: sockets and connections
  belong to each other one to one, a connection with a socket is not closed, and a session has the number of its connection.
  Every operation of \<^verbatim>\<open>Gate_Services\<close> keeps this (the collection \<open>keep\<close>).
\<close>

section \<open>Connections and sessions\<close>

text \<open>Two maps that are inverse to each other.\<close>

definition inverse_maps :: "('a \<rightharpoonup> 'b) \<Rightarrow> ('b \<rightharpoonup> 'a) \<Rightarrow> bool" where
  "inverse_maps m n \<longleftrightarrow> (\<forall>a b. m a = Some b \<longleftrightarrow> n b = Some a)"

lemma inverse_maps_delete: "inverse_maps m n \<Longrightarrow> m a = Some b \<Longrightarrow> inverse_maps (m(a := None)) (n(b := None))"
  by (auto simp: inverse_maps_def) (metis option.distinct(1) option.inject)

lemma inverse_maps_update: "inverse_maps m n \<Longrightarrow> m a = None \<Longrightarrow> n b = None \<Longrightarrow> inverse_maps (m(a \<mapsto> b)) (n(b \<mapsto> a))"
  by (auto simp: inverse_maps_def) (metis option.distinct(1) option.inject)

definition connection_state :: "GateConnectionService \<Rightarrow> u64 \<Rightarrow> GateConnectionState option" where
  "connection_state C cid = map_option gcr_state (map_of (gc_mConnections C) cid)"

definition socket_of :: "GateConnectionService \<Rightarrow> u64 \<Rightarrow> int option" where
  "socket_of C = map_of (mSocketByConnectionId C)"

definition open_state :: "GateConnectionState option \<Rightarrow> bool" where
  "open_state st \<longleftrightarrow> st \<noteq> None \<and> st \<noteq> Some gc_closed"

lemma open_state_simps [simp]: "open_state (Some st) \<longleftrightarrow> st \<noteq> gc_closed" "\<not> open_state None"
  by (simp_all add: open_state_def)

definition sockets_inv :: "GateConnectionService \<Rightarrow> bool" where
  "sockets_inv C \<longleftrightarrow> inverse_maps (socket_of C) (map_of (mConnectionIdBySocket C)) \<and> distinct (map fst (mSocketByConnectionId C)) \<and>
     (\<forall>cid. socket_of C cid \<noteq> None \<longrightarrow> cid < gc_mNextConnectionId C \<and> open_state (connection_state C cid))"

definition same_sockets :: "GateConnectionService \<Rightarrow> GateConnectionService \<Rightarrow> bool" where
  "same_sockets C C' \<longleftrightarrow> mSocketByConnectionId C' = mSocketByConnectionId C \<and> mConnectionIdBySocket C' = mConnectionIdBySocket C \<and>
     gc_mNextConnectionId C' = gc_mNextConnectionId C \<and> connection_state C' = connection_state C"

lemma same_sockets_refl [simp]: "same_sockets C C" by (simp add: same_sockets_def)

lemma same_sockets_trans: "same_sockets C C' \<Longrightarrow> same_sockets C' C'' \<Longrightarrow> same_sockets C C''" by (simp add: same_sockets_def)

lemma sockets_inv_same: "same_sockets C C' \<Longrightarrow> sockets_inv C' = sockets_inv C"
  by (simp add: same_sockets_def sockets_inv_def socket_of_def)

lemma set_connection_sel [simp]:
  "mSocketByConnectionId (set_connection cid r C) = mSocketByConnectionId C"
  "mConnectionIdBySocket (set_connection cid r C) = mConnectionIdBySocket C"
  "gc_mNextConnectionId (set_connection cid r C) = gc_mNextConnectionId C"
  "connection_state (set_connection cid r C) = (connection_state C)(cid \<mapsto> gcr_state r)"
  "socket_of (set_connection cid r C) = socket_of C"
  by (auto simp: set_connection_def update_conv' connection_state_def socket_of_def)

lemma touch_same: "map_of (gc_mConnections C) cid = Some r \<Longrightarrow> gcr_state r' = gcr_state r \<Longrightarrow> same_sockets C (set_connection cid r' C)"
  by (auto simp: same_sockets_def connection_state_def set_connection_def update_conv')

lemma gate_Send_same: "gate_Send OS cid message_id bytes (C, w) = (r, C', w') \<Longrightarrow> same_sockets C C'"
  by (auto simp: gate_Send_def Let_def intro!: touch_same split: option.splits prod.splits if_splits)

lemma read_client_frame_same: "read_client_frame OS cid fd (C, w) = (r, C', w') \<Longrightarrow> same_sockets C C'"
  by (auto simp: read_client_frame_def Let_def intro!: touch_same split: option.splits prod.splits if_splits)

lemma mark_inv: "mark st cid C = (r, C') \<Longrightarrow> st \<noteq> gc_closed \<Longrightarrow> sockets_inv C \<Longrightarrow> sockets_inv C'"
  by (auto simp: mark_def sockets_inv_def split: option.splits)

lemma CloseSocket_sel:
  assumes "CloseSocketLocked OS cid (C, w) = (C', w')" and "sockets_inv C"
  shows "socket_of C' = (socket_of C)(cid := None)" "inverse_maps (socket_of C') (map_of (mConnectionIdBySocket C'))"
    "distinct (map fst (mSocketByConnectionId C'))" "connection_state C' = connection_state C"
    "gc_mNextConnectionId C' = gc_mNextConnectionId C" "gc_mConnections C' = gc_mConnections C"
  using assms inverse_maps_delete [of "socket_of C" "map_of (mConnectionIdBySocket C)" cid]
  by (auto simp: CloseSocketLocked_def sockets_inv_def socket_of_def connection_state_def Let_def delete_conv' distinct_delete
      split: option.splits)

text \<open>Closing: the record is closed and the socket is gone, the invariant holds.\<close>

lemma CloseSocket_inv:
  assumes "CloseSocketLocked OS cid (set_connection cid r C, w) = (C', w')" and "sockets_inv C" and "gcr_state r = gc_closed"
  shows "sockets_inv C' \<and> socket_of C' cid = None \<and> connection_state C' cid = Some gc_closed"
proof -
  have "\<exists>C0 w0. CloseSocketLocked OS cid (C, w) = (C0, w0) \<and> C' = set_connection cid r C0"
    using assms(1) by (auto simp: CloseSocketLocked_def set_connection_def Let_def split: option.splits)
  then obtain C0 w0 where c: "CloseSocketLocked OS cid (C, w) = (C0, w0)" "C' = set_connection cid r C0" by blast
  note s = CloseSocket_sel [OF c(1) assms(2)]
  show ?thesis using s assms(2,3) by (simp add: sockets_inv_def c(2))
qed

lemma finalize_locked_inv:
  assumes "finalize_locked OS cid (C, w) = (C', w')" and "sockets_inv C"
  shows "sockets_inv C' \<and> socket_of C' cid = None \<and> \<not> open_state (connection_state C' cid)"
proof (cases "map_of (gc_mConnections C) cid")
  case None
  then have "CloseSocketLocked OS cid (C, w) = (C', w')" using assms(1) by (simp add: finalize_locked_def)
  note s = CloseSocket_sel [OF this assms(2)]
  moreover have "connection_state C cid = None" using None by (simp add: connection_state_def)
  ultimately show ?thesis using assms(2) by (simp add: sockets_inv_def)
next
  case (Some r)
  obtain now w1 where "NowMs (os_env OS) w = (now, w1)" by (cases "NowMs (os_env OS) w")
  then have "CloseSocketLocked OS cid (set_connection cid (r\<lparr>gcr_state := gc_closed, last_recv_time_ms := now\<rparr>) C, w1) = (C', w')"
    using assms(1) Some by (simp add: finalize_locked_def)
  from CloseSocket_inv [OF this assms(2)] show ?thesis by simp
qed

lemma close_locked_inv:
  assumes "close_locked OS cid (C, w) = (r, C', w')" and "sockets_inv C"
  shows "sockets_inv C'"
proof (cases "map_of (gc_mConnections C) cid")
  case (Some x)
  then have "CloseSocketLocked OS cid (set_connection cid (x\<lparr>gcr_state := gc_closed\<rparr>) C, w) = (C', w')"
    using assms(1) by (auto simp: close_locked_def)
  from CloseSocket_inv [OF this assms(2)] show ?thesis by simp
qed (use assms in \<open>simp add: close_locked_def\<close>)

lemma AcceptReadySocket_inv:
  assumes "AcceptReadySocket OS (C, w) = (C', w')" and "sockets_inv C" and "gc_mNextConnectionId C \<noteq> -1"
    and "\<And>fd v. sk_accept (os_sockets OS) (mListenSocketFd C) w = (fd, v) \<Longrightarrow> 0 \<le> fd \<Longrightarrow> map_of (mConnectionIdBySocket C) fd = None"
  shows "sockets_inv C'"
proof -
  let ?n = "gc_mNextConnectionId C"
  have less: "c \<le> ?n \<Longrightarrow> c < ?n + 1" for c
    using assms(3) unatSuc [of ?n] by (simp add: word_less_nat_alt word_le_nat_alt eq_neg_iff_add_eq_0 add.commute)
  have fresh: "socket_of C ?n = None" using assms(2) unfolding sockets_inv_def by blast
  have inv: "inverse_maps (socket_of C) (map_of (mConnectionIdBySocket C))" "distinct (map fst (mSocketByConnectionId C))"
    "socket_of C c \<noteq> None \<Longrightarrow> c < ?n + 1 \<and> open_state (connection_state C c)" for c
    using assms(2) less [of c] by (auto simp: sockets_inv_def)
  obtain fd w1 where a: "sk_accept (os_sockets OS) (mListenSocketFd C) w = (fd, w1)" by fastforce
  show ?thesis
  proof (cases "mListenSocketFd C < 0 \<or> fd < 0")
    case True
    then have "C' = C" using assms(1) a by (auto simp: AcceptReadySocket_def Let_def split: if_splits prod.splits)
    then show ?thesis using assms(2) by simp
  next
    case False
    then have "inverse_maps ((socket_of C)(?n \<mapsto> fd)) ((map_of (mConnectionIdBySocket C))(fd \<mapsto> ?n))"
      using inverse_maps_update [OF inv(1) fresh] assms(4) [OF a] by simp
    then show ?thesis
      using assms(1) False a inv fresh less [of ?n]
      by (auto simp: AcceptReadySocket_def sockets_inv_def Let_def socket_of_def connection_state_def open_record_def set_connection_def
        update_conv' distinct_update split: prod.splits if_splits)
  qed
qed

section \<open>What each service leaves alone\<close>

text \<open>The parts of a gate that sends to processes and to clients keep.\<close>

definition send_frame :: "gate \<Rightarrow> gate \<Rightarrow> bool" where
  "send_frame g g' \<longleftrightarrow> same_sockets (gt_connections g) (gt_connections g') \<and> gt_sessions g' = gt_sessions g \<and> gt_routes g' = gt_routes g \<and>
     gt_login g' = gt_login g \<and> gt_messages g' = gt_messages g \<and> gt_wiring g' = gt_wiring g \<and> gt_accounts g' = gt_accounts g"

lemma send_frame_refl [simp]: "send_frame g g" by (simp add: send_frame_def)

lemma send_to_process_frame: "send_to_process E ty inst m (g, w) = (r, g', w') \<Longrightarrow> \<exists>i. g' = g\<lparr>gt_ipc := i\<rparr>"
  by (auto simp: send_to_process_def split: prod.splits)

lemma send_to_process_send_frame: "send_to_process E ty inst m (g, w) = (r, g', w') \<Longrightarrow> send_frame g g'"
  by (auto simp: send_frame_def dest!: send_to_process_frame)

lemma SendMessage_frame:
  assumes "SendMessage E cid mid m counter (g, w) = (r, g', w')"
  shows "send_frame g g' \<and> gt_ipc g' = gt_ipc g"
  using assms
  by (auto simp: SendMessage_def SendHandler_def with_connections_def send_frame_def dest: gate_Send_same
      split: if_splits option.splits prod.splits)

lemmas client_sends = SendLoginResponse_def SendHeartbeatResponse_def SendKickNotification_def SendPlayerMessageResponse_def
  SendPlayerPushMessage_def

section \<open>The invariant of a gate\<close>

definition sessions_inv :: "GateSessions \<Rightarrow> bool" where
  "sessions_inv S \<longleftrightarrow> distinct (map fst S) \<and> (\<forall>(sid, r) \<in> set S. gs_gate_session_id r = sid \<and> gs_connection_id r = sid)"

definition gate_inv :: "gate \<Rightarrow> bool" where
  "gate_inv g \<longleftrightarrow> sockets_inv (gt_connections g) \<and> sessions_inv (gt_sessions g) \<and>
     (\<forall>(rid, p) \<in> set (mPendingLogins (gt_login g)). pl_gate_session_id p = pl_connection_id p)"

lemma gate_inv_frame: "send_frame g g' \<Longrightarrow> gate_inv g' = gate_inv g"
  by (auto simp: send_frame_def gate_inv_def sockets_inv_same)

lemma sessions_inv_iff:
  "sessions_inv S \<longleftrightarrow> distinct (map fst S) \<and> (\<forall>sid r. map_of S sid = Some r \<longrightarrow> gs_gate_session_id r = sid \<and> gs_connection_id r = sid)"
  by (auto simp: sessions_inv_def map_of_eq_Some_iff)

lemma sessions_inv_update:
  "sessions_inv S \<Longrightarrow> gs_gate_session_id r = sid \<Longrightarrow> gs_connection_id r = sid \<Longrightarrow> sessions_inv (AList.update sid r S)"
  by (auto simp: sessions_inv_iff distinct_update update_conv')

lemma sessions_inv_delete: "sessions_inv S \<Longrightarrow> sessions_inv (AList.delete sid S)"
  by (auto simp: sessions_inv_iff distinct_delete delete_conv')

text \<open>In such a table the session of a connection is the one with its number.\<close>

lemma find_by_connection:
  "\<forall>(sid, r) \<in> set S. gs_connection_id r = sid \<Longrightarrow> find (\<lambda>(sid, r). gs_connection_id r = cid) S = map_option (Pair cid) (map_of S cid)"
  by (induction S) auto

lemma RemoveByConnection_eq:
  assumes "sessions_inv S"
  shows "RemoveByConnection cid S = (case map_of S cid of
      None \<Rightarrow> (Inl (Failure ''session for connection does not exist''), S)
    | Some r \<Rightarrow> (Inr (r\<lparr>gs_state := gs_closing\<rparr>), AList.delete cid S))"
proof -
  have "find (\<lambda>(sid, r). gs_connection_id r = cid) S = map_option (Pair cid) (map_of S cid)"
    using assms by (intro find_by_connection) (auto simp: sessions_inv_def)
  then show ?thesis by (simp add: RemoveByConnection_def split: option.splits)
qed

lemma gate_FindByConnection_eq:
  assumes "sessions_inv S"
  shows "gate_FindByConnection cid S = map_of S cid"
proof -
  have "\<forall>(sid, r) \<in> set S. gs_connection_id r = sid" using assms by (auto simp: sessions_inv_def)
  then show ?thesis by (induction S) (auto simp: gate_FindByConnection_def)
qed

section \<open>Every operation keeps the invariant\<close>

text \<open>A disconnected session: only routes, accounts and the IPC service are touched.\<close>

lemma HandleSessionDisconnected_frame:
  assumes "HandleSessionDisconnected E session reason (g, w) = (r, g', w')"
  shows "\<exists>i R. g' = g\<lparr>gt_ipc := i, gt_routes := R\<rparr>"
proof (cases "\<not> wr_ipc (gt_wiring g) \<or> gs_player_id session = 0 \<or> gs_game_service_type session = 0 \<or> gs_game_instance_id session = 0")
  case True
  then have "g' = g\<lparr>gt_ipc := gt_ipc g, gt_routes := gt_routes g\<rparr>"
    using assms by (auto simp: HandleSessionDisconnected_def split: if_splits)
  then show ?thesis by blast
next
  case False
  obtain now w1 where now: "gte_time E w = (now, w1)" by fastforce
  obtain q i w2 where s: "send_to_process E (gs_game_service_type session) (gs_game_instance_id session)
      (gm_disconnected \<lparr>dq_player_id = gs_player_id session, dq_gate = self_gate g (gs_gate_session_id session),
        dq_reason = reason, dq_occurred_at_ms = now * 1000\<rparr>) (g, w1) = (q, g\<lparr>gt_ipc := i\<rparr>, w2)"
    by (metis prod_cases3 send_to_process_frame)
  have "\<exists>R. g' = g\<lparr>gt_ipc := i, gt_routes := R\<rparr>"
    using assms False now s
    by (auto simp: HandleSessionDisconnected_def Let_def split: if_splits) (rule exI [of _ "gt_routes g"], simp)+
  then show ?thesis by blast
qed

lemma DisconnectHandler_spec:
  assumes "DisconnectHandler E cid (g, w) = (g', w')" and "sessions_inv (gt_sessions g)" and "wr_sessions (gt_wiring g)"
  shows "\<exists>i R. g' = g\<lparr>gt_ipc := i, gt_routes := R, gt_sessions := AList.delete cid (gt_sessions g)\<rparr>"
proof (cases "map_of (gt_sessions g) cid")
  case None
  then have "AList.delete cid (gt_sessions g) = gt_sessions g" by (simp add: delete_notin_dom map_of_eq_None_iff)
  moreover have "g' = g" using assms None by (simp add: DisconnectHandler_def RemoveByConnection_eq)
  ultimately have "g' = g\<lparr>gt_ipc := gt_ipc g, gt_routes := gt_routes g, gt_sessions := AList.delete cid (gt_sessions g)\<rparr>" by simp
  then show ?thesis by blast
next
  case (Some r)
  let ?g1 = "g\<lparr>gt_sessions := AList.delete cid (gt_sessions g)\<rparr>"
  obtain q g2 w2 where h: "HandleSessionDisconnected E (r\<lparr>gs_state := gs_closing\<rparr>) DISCONNECT_REASON_CLIENT_CLOSED (?g1, w) = (q, g2, w2)"
    by (metis prod_cases3)
  have g': "g' = (if wr_login (gt_wiring g) then g2 else ?g1)"
    using assms Some h by (auto simp: DisconnectHandler_def RemoveByConnection_eq split: if_splits)
  obtain i R where "g2 = ?g1\<lparr>gt_ipc := i, gt_routes := R\<rparr>" using HandleSessionDisconnected_frame [OF h] by blast
  then have "g' = g\<lparr>gt_ipc := (if wr_login (gt_wiring g) then i else gt_ipc g), gt_routes := (if wr_login (gt_wiring g) then R else gt_routes g),
      gt_sessions := AList.delete cid (gt_sessions g)\<rparr>"
    using g' by simp
  then show ?thesis by blast
qed

text \<open>A finished connection: no socket, a closed record if any, and no session; everything else keeps its session.\<close>

definition conn_gone :: "gate \<Rightarrow> u64 \<Rightarrow> bool" where
  "conn_gone g cid \<longleftrightarrow> socket_of (gt_connections g) cid = None \<and> \<not> open_state (connection_state (gt_connections g) cid) \<and>
     gate_FindByConnection cid (gt_sessions g) = None"

lemma FinalizeConnection_spec:
  assumes "FinalizeConnection E cid (g, w) = (g', w')" and "gate_inv g" and "wr_sessions (gt_wiring g)"
  shows "gate_inv g' \<and> conn_gone g' cid \<and> gt_sessions g' = AList.delete cid (gt_sessions g) \<and> gt_login g' = gt_login g \<and>
     gt_messages g' = gt_messages g \<and> gt_wiring g' = gt_wiring g"
proof -
  obtain C w1 where c: "finalize_locked (gte_os E) cid (gt_connections g, w) = (C, w1)" by fastforce
  have C: "sockets_inv C \<and> socket_of C cid = None \<and> \<not> open_state (connection_state C cid)"
    using finalize_locked_inv [OF c] assms(2) by (simp add: gate_inv_def)
  have S: "sessions_inv (gt_sessions g)" using assms(2) by (simp add: gate_inv_def)
  have "DisconnectHandler E cid (g\<lparr>gt_connections := C\<rparr>, w1) = (g', w')" using assms(1) c by (simp add: FinalizeConnection_def)
  from DisconnectHandler_spec [OF this] S assms(3)
  obtain i R where "g' = g\<lparr>gt_connections := C, gt_ipc := i, gt_routes := R, gt_sessions := AList.delete cid (gt_sessions g)\<rparr>"
    by auto
  then show ?thesis
    using C S assms(2) sessions_inv_delete [OF S]
    by (auto simp: gate_inv_def conn_gone_def gate_FindByConnection_eq)
qed

lemma gate_Close_spec:
  assumes "gate_Close E cid (g, w) = (r, g', w')" and "gate_inv g" and "wr_sessions (gt_wiring g)"
  shows "gate_inv g' \<and> gt_login g' = gt_login g \<and> gt_messages g' = gt_messages g \<and> gt_wiring g' = gt_wiring g \<and>
     (ok r \<longrightarrow> conn_gone g' cid \<and> gt_sessions g' = AList.delete cid (gt_sessions g)) \<and> (\<not> ok r \<longrightarrow> g' = g)"
proof -
  obtain q C w1 where c: "close_locked (gte_os E) cid (gt_connections g, w) = (q, C, w1)" by (metis prod_cases3)
  have g1: "gate_inv (g\<lparr>gt_connections := C\<rparr>)" using assms(2) close_locked_inv [OF c] by (simp add: gate_inv_def)
  show ?thesis
  proof (cases "ok q")
    case True
    then have "FinalizeConnection E cid (g\<lparr>gt_connections := C\<rparr>, w1) = (g', w')" "r = Success"
      using assms(1) c by (simp_all add: gate_Close_def with_connections_def)
    from FinalizeConnection_spec [OF this(1) g1] this(2) assms(3) show ?thesis by simp
  next
    case False
    then have "C = gt_connections g" using c by (auto simp: close_locked_def split: option.splits prod.splits)
    then have "g' = g" "r = q" using assms(1) c False by (auto simp: gate_Close_def with_connections_def)
    then show ?thesis using assms(2) False by simp
  qed
qed

definition good :: "gate \<Rightarrow> bool" where
  "good g \<longleftrightarrow> gate_inv g \<and> wr_sessions (gt_wiring g)"

definition keeps :: "(gate \<times> 'w \<Rightarrow> 'r \<times> gate \<times> 'w) \<Rightarrow> bool" where
  "keeps f \<longleftrightarrow> (\<forall>g w r g' w'. f (g, w) = (r, g', w') \<longrightarrow> good g \<longrightarrow> good g')"

lemma keepsI: "(\<And>g w r g' w'. f (g, w) = (r, g', w') \<Longrightarrow> good g \<Longrightarrow> good g') \<Longrightarrow> keeps f"
  unfolding keeps_def by blast

lemma keepsD: "keeps f \<Longrightarrow> f (g, w) = (r, g', w') \<Longrightarrow> good g \<Longrightarrow> good g'"
  unfolding keeps_def by blast

lemma good_frame: "send_frame g g' \<Longrightarrow> good g \<Longrightarrow> good g'"
  using gate_inv_frame by (auto simp: good_def send_frame_def)

named_theorems keep

lemma keeps_send_to_process [keep]: "keeps (send_to_process E ty inst m)"
  by (rule keepsI) (blast intro: good_frame send_to_process_send_frame)

lemma keeps_SendMessage [keep]: "keeps (SendMessage E cid mid m counter)"
  by (rule keepsI) (blast intro: good_frame dest: SendMessage_frame)

lemma keeps_client_sends [keep]:
  "keeps (SendLoginResponse E cid pid b code txt1)" "keeps (SendHeartbeatResponse E cid now)" "keeps (SendKickNotification E cid txt1)"
  "keeps (SendPlayerMessageResponse E cid mid txt2 code txt1)" "keeps (SendPlayerPushMessage E cid mid txt2)"
  unfolding client_sends by (rule keep)+

lemma keeps_gate_Close [keep]: "keeps (gate_Close E cid)"
  by (rule keepsI) (use gate_Close_spec good_def in metis)

lemma keeps_kick_connection [keep]: "keeps (kick_connection E cid reason)"
  by (rule keepsI) (auto simp: kick_connection_def split: prod.splits if_splits dest!: keep [THEN keepsD])

lemma good_login: "good g \<Longrightarrow> mPendingLogins L = mPendingLogins (gt_login g) \<Longrightarrow> good (g\<lparr>gt_login := L\<rparr>)"
  by (simp add: good_def gate_inv_def)

lemma good_messages [simp]: "good (g\<lparr>gt_messages := M\<rparr>) = good g"
  by (simp add: good_def gate_inv_def)

lemma good_ipc: "good (g\<lparr>gt_ipc := i\<rparr>) = good g"
  by (simp add: good_def gate_inv_def)

lemma keeps_kick_local [keep]: "keeps (kick_local E existing current)"
  by (rule keepsI) (auto simp: kick_local_def split: option.splits if_splits dest: keepsD [OF keeps_kick_connection])

lemma keeps_kick_remote [keep]: "keeps (kick_remote E ow account)"
  by (rule keepsI) (auto simp: kick_remote_def Let_def split: if_splits intro: good_login dest!: keepsD [OF keeps_send_to_process])

lemma keeps_KickExisting [keep]: "keeps (KickExistingAccountSession E account current)"
  by (rule keepsI) (auto simp: KickExistingAccountSession_def Let_def split: prod.splits if_splits option.splits
      dest: keepsD [OF keeps_kick_local] keepsD [OF keeps_kick_remote])

lemma keeps_open_session [keep]: "keeps (open_session E cid)"
  by (rule keepsI) (auto simp: open_session_def OpenAnonymous_def good_def gate_inv_def Let_def intro!: sessions_inv_update
      split: if_splits prod.splits)

lemma update_subset: "x \<in> set (AList.update k v m) \<Longrightarrow> x = (k, v) \<or> x \<in> set m"
  by (induction m) (auto split: if_splits)

lemma keeps_RequestLogin [keep]: "keeps (RequestLogin E inst cid cid platform account area)"
proof (rule keepsI)
  fix g w r g' w'
  assume "RequestLogin E inst cid cid platform account area (g, w) = (r, g', w')" and g: "good g"
  then obtain q g1 w1 where s: "login_request_send E inst cid platform account area (g, w) = (q, g1, w1)"
    and g': "g' = g1 \<or> (\<exists>rid. g' = login_request_register rid cid cid account g1)"
    by (auto simp: RequestLogin_def split: prod.splits sum.splits)
  have "good g1"
    using s g by (auto simp: login_request_send_def Let_def split: if_splits prod.splits intro: good_login
        dest!: keepsD [OF keeps_send_to_process])
  then show "good g'" using g' 
    by (auto simp: login_request_register_def good_def gate_inv_def dest!: update_subset)
qed

lemma keeps_HandleClientLogin [keep]: "keeps (gate_HandleClientLogin E cid q)"
proof (rule keepsI)
  fix g w r g' w'
  assume h: "gate_HandleClientLogin E cid q (g, w) = (r, g', w')" and g: "good g"
  obtain k g1 w1 where k: "KickExistingAccountSession E (auth_account_id (Validate (cl_platform q) (cl_account_id q) (cl_credential q))) cid
      (g, w) = (k, g1, w1)" by (metis prod_cases3)
  obtain p g2 w2 where p: "open_session E cid (g1, w1) = (p, g2, w2)" by (metis prod_cases3)
  obtain a C where a: "MarkAnonymous cid (gt_connections g2) = (a, C)" by fastforce
  have g2: "good g2" using keepsD [OF keeps_open_session p] keepsD [OF keeps_KickExisting k g] by blast
  moreover have "good (g2\<lparr>gt_connections := C\<rparr>)"
    using g2 a mark_inv [of gc_anonymous cid "gt_connections g2" a C] by (simp add: good_def gate_inv_def MarkAnonymous_def)
  ultimately show "good g'"
    using h k p a keepsD [OF keeps_KickExisting k g] g
    by (auto simp: gate_HandleClientLogin_def SendLoginFailure_def Let_def split: if_splits
        dest: keepsD [OF keeps_RequestLogin] keepsD [OF keeps_client_sends(1)])
qed

lemma login_succeeded_good:
  assumes "login_succeeded E pending a (g, w) = (g', w')" and "good g" and "pl_gate_session_id pending = pl_connection_id pending"
  shows "good g'"
proof -
  let ?sid = "pl_gate_session_id pending"
  obtain rs S w1 where S: "gate_Activate (os_env (gte_os E)) ?sid (pl_account_id pending) (lr_player_id a) (lr_game_service_type a)
      (lr_game_instance_id a) (gt_sessions g, w) = (rs, S, w1)" by (metis prod_cases3)
  have inv: "sessions_inv (gt_sessions g)" "sockets_inv (gt_connections g)" using assms(2) by (simp_all add: good_def gate_inv_def)
  have "sessions_inv S"
    using S inv(1)
    by (auto simp: gate_Activate_def split: option.splits prod.splits intro!: sessions_inv_update) (simp add: sessions_inv_iff)
  moreover have "sockets_inv (snd (MarkBound (pl_connection_id pending) (gt_connections g)))"
    using mark_inv [OF surjective_pairing _ inv(2)] by (simp add: MarkBound_def)
  ultimately show ?thesis
    using assms S by (auto simp: login_succeeded_def good_def gate_inv_def Let_def case_prod_beta split: if_splits)
qed

lemma keeps_HandleLoginResponse [keep]: "keeps (HandleLoginResponse E a)"
proof (rule keepsI)
  fix g w r g' w'
  assume h: "HandleLoginResponse E a (g, w) = (r, g', w')" and g: "good g"
  let ?g0 = "g\<lparr>gt_login := (gt_login g)\<lparr>gl_mSnapshot := answered a\<rparr>\<rparr>"
  show "good g'"
  proof (cases "map_of (mPendingLogins (gt_login g)) (lr_request_id a)")
    case None
    then show ?thesis using h g by (auto simp: HandleLoginResponse_def intro: good_login)
  next
    case (Some pending)
    let ?g1 = "?g0\<lparr>gt_login := (gt_login ?g0)\<lparr>mPendingLogins := AList.delete (lr_request_id a) (mPendingLogins (gt_login ?g0))\<rparr>\<rparr>"
    have same: "pl_gate_session_id pending = pl_connection_id pending"
      using g map_of_SomeD [OF Some] by (auto simp: good_def gate_inv_def)
    have g1: "good ?g1"
      using g by (auto simp: good_def gate_inv_def AList.delete_eq)
    obtain g2 w2 where g2: "(if lr_result_code a = RESULT_CODE_OK then login_succeeded E pending a (?g1, w) else (?g1, w)) = (g2, w2)"
      by fastforce
    have "good g2" using g2 g1 login_succeeded_good [OF _ g1 same] by (auto split: if_splits)
    then show ?thesis
      using h Some g2 by (auto simp: HandleLoginResponse_def Let_def split: if_splits prod.splits dest: keepsD [OF keeps_client_sends(1)])
  qed
qed

lemma keeps_HandleKick [keep]: "keeps (HandleKickAccountSession E q)"
  by (rule keepsI) (auto simp: HandleKickAccountSession_def split: if_splits option.splits prod.splits
      dest: keepsD [OF keeps_kick_connection])

lemma keeps_HandleUnbind [keep]: "keeps (HandleUnbindPlayerSession E q)"
  by (rule keepsI) (auto simp: HandleUnbindPlayerSession_def Let_def split: if_splits option.splits prod.splits
      dest!: keepsD [OF keeps_gate_Close] keepsD [OF keeps_client_sends(3)])

lemma keeps_HandleClientPlayerMessage [keep]: "keeps (HandleClientPlayerMessage E cid q)"
  by (rule keepsI) (auto simp: HandleClientPlayerMessage_defs Let_def split: if_splits option.splits prod.splits
      dest!: keepsD [OF keeps_send_to_process])

lemma keeps_HandleForwardResponse [keep]: "keeps (HandleForwardPlayerMessageResponse E a)"
  by (rule keepsI) (auto simp: HandleForwardPlayerMessageResponse_def Let_def split: if_splits option.splits prod.splits
      dest!: keepsD [OF keeps_client_sends(4)])

lemma keeps_HandlePush [keep]: "keeps (HandlePushPlayerMessage E m)"
  by (rule keepsI) (auto simp: HandlePushPlayerMessage_def Let_def split: if_splits option.splits prod.splits
      dest!: keepsD [OF keeps_client_sends(5)])

lemma keeps_HandleHeartbeat [keep]: "keeps (HandleHeartbeat E cid)"
  by (rule keepsI) (auto simp: HandleHeartbeat_def split: prod.splits dest!: keepsD [OF keeps_client_sends(2)])

lemma keeps_client_Dispatch: "keeps (client_Dispatch (client_handlers E) mid bytes cid)"
  by (rule keepsI) (auto simp: client_Dispatch_def client_handlers_def client_Register_def split: option.splits if_splits
      dest: keep [THEN keepsD])

lemma HandleReadable_good:
  assumes "HandleReadable E cid fd (g, w) = (g', w')" and "good g"
  shows "good g'"
proof -
  obtain r C w1 where c: "read_client_frame (gte_os E) cid fd (gt_connections g, w) = (r, C, w1)" by (metis prod_cases3)
  let ?g1 = "g\<lparr>gt_connections := C\<rparr>"
  have g1: "good ?g1" using assms(2) sockets_inv_same [OF read_client_frame_same [OF c]] by (simp add: good_def gate_inv_def)
  show ?thesis
  proof (cases r)
    case rd_finalize
    then have "FinalizeConnection E cid (?g1, w1) = (g', w')" using assms(1) c by (simp add: HandleReadable_def with_connections_def)
    then show ?thesis using FinalizeConnection_spec g1 unfolding good_def by metis
  next
    case (rd_message mid bytes)
    then show ?thesis
      using assms(1) c g1
      by (auto simp: HandleReadable_def with_connections_def MessageHandler_def split: if_splits)
        (metis keepsD keeps_client_Dispatch prod.collapse)+
  qed
qed

lemma fold_good:
  assumes "\<And>x g w g' w'. f x (g, w) = (g', w') \<Longrightarrow> good g \<Longrightarrow> good g'" and "good (fst s)"
  shows "good (fst (fold f xs s))"
  using assms(2)
proof (induction xs arbitrary: s)
  case (Cons x xs)
  have "good (fst (f x s))" using assms(1) [of x "fst s" "snd s" "fst (f x s)" "snd (f x s)"] Cons.prems by simp
  then show ?case using Cons.IH by simp
qed simp

text \<open>
  The descriptor \<^verbatim>\<open>accept\<close> returns in this round, if any, is not one of the table, as the operating system documents for open
  descriptors; and connection numbers have not run out.
\<close>

definition accept_is_fresh :: "'w gate_env \<Rightarrow> gate \<times> 'w \<Rightarrow> bool" where
  "accept_is_fresh E s = (let (g, w) = s; C = gt_connections g;
     (ready, w1) = os_select (gte_os E)
       ((if 0 \<le> mListenSocketFd C then [mListenSocketFd C] else []) @ map snd (mSocketByConnectionId C)) w;
     (fd, w2) = sk_accept (os_sockets (gte_os E)) (mListenSocketFd C) w1
     in (0 \<le> fd \<longrightarrow> map_of (mConnectionIdBySocket C) fd = None) \<and> gc_mNextConnectionId C \<noteq> -1)"

lemma WorkerRound_good:
  assumes "WorkerRound E (g, w) = (b, g', w')" and "good g" and "accept_is_fresh E (g, w)"
  shows "good g'"
proof -
  let ?C = "gt_connections g"
  let ?watched = "(if 0 \<le> mListenSocketFd ?C then [mListenSocketFd ?C] else []) @ map snd (mSocketByConnectionId ?C)"
  obtain ready w1 where sel: "os_select (gte_os E) ?watched w = (ready, w1)" by fastforce
  obtain C1 w2 where acc: "(if 0 \<le> mListenSocketFd ?C \<and> mListenSocketFd ?C \<in> set ready
      then AcceptReadySocket (gte_os E) (?C, w1) else (?C, w1)) = (C1, w2)" by fastforce
  have "sockets_inv ?C" using assms(2) by (simp add: good_def gate_inv_def)
  then have "sockets_inv C1"
    using acc assms(3) sel AcceptReadySocket_inv [of "gte_os E" ?C w1 C1 w2]
    by (auto simp: accept_is_fresh_def Let_def split: if_splits)
  then have g1: "good (g\<lparr>gt_connections := C1\<rparr>)" using assms(2) by (simp add: good_def gate_inv_def)
  let ?f = "\<lambda>(cid, fd) s. if fd \<in> set ready then HandleReadable E cid fd s else s"
  have "good (fst (fold ?f (mSocketByConnectionId ?C) (g\<lparr>gt_connections := C1\<rparr>, w2)))"
    by (rule fold_good) (use g1 HandleReadable_good in \<open>auto split: if_splits\<close>)
  then show ?thesis
    using assms(1,2) sel acc by (auto simp: WorkerRound_def Let_def split: if_splits)
qed

section \<open>Histories\<close>

inductive gate_step :: "'w gate_env \<Rightarrow> gate \<times> 'w \<Rightarrow> gate \<times> 'w \<Rightarrow> bool" for E where
  step_worker: "WorkerRound E s = (b, s') \<Longrightarrow> accept_is_fresh E s \<Longrightarrow> gate_step E s s'"
| step_login: "HandleLoginResponse E a s = (r, s') \<Longrightarrow> gate_step E s s'"
| step_kick: "HandleKickAccountSession E q s = (r, s') \<Longrightarrow> gate_step E s s'"
| step_unbind: "HandleUnbindPlayerSession E u s = (r, s') \<Longrightarrow> gate_step E s s'"
| step_forward: "HandleForwardPlayerMessageResponse E f s = (r, s') \<Longrightarrow> gate_step E s s'"
| step_push: "HandlePushPlayerMessage E m s = (r, s') \<Longrightarrow> gate_step E s s'"
| step_close: "gate_Close E cid s = (r, s') \<Longrightarrow> gate_step E s s'"
| step_world: "gate_step E (g, w) (g\<lparr>gt_ipc := i\<rparr>, w')"

lemma gate_step_good:
  assumes "gate_step E s s'" and "good (fst s)"
  shows "good (fst s')"
  using assms
  by (cases s; cases s') (auto elim!: gate_step.cases simp: good_ipc dest: WorkerRound_good keep [THEN keepsD])

definition fresh_gate :: "gate \<Rightarrow> bool" where
  "fresh_gate g \<longleftrightarrow> gc_mConnections (gt_connections g) = [] \<and> mSocketByConnectionId (gt_connections g) = [] \<and>
     mConnectionIdBySocket (gt_connections g) = [] \<and> gt_sessions g = [] \<and> mPendingLogins (gt_login g) = [] \<and> wr_sessions (gt_wiring g)"

lemma fresh_gate_good: "fresh_gate g \<Longrightarrow> good g"
  by (simp add: fresh_gate_def good_def gate_inv_def sockets_inv_def sessions_inv_def inverse_maps_def socket_of_def)

end
