(* ===== verification/Gate_Protocol.thy ===== *)
theory Gate_Protocol
  imports Gate_Invariants
begin

text \<open>
  What the gate promises its clients: frames survive the wire, a second login replaces the first, the answer of the game activates
  the session that asked, the answer to a player message returns to its connection once. And what it does not: answers that
  come too late or too early, disconnects that cannot be told, owners that are out of date.
\<close>

section \<open>Frames of a client\<close>

lemma clock_view: "clock_documented E obs \<Longrightarrow> NowMs E w = (t, w') \<Longrightarrow> obs w' = obs w"
  unfolding clock_documented_def NowMs_def by (metis snd_conv)

lemma gate_Send_stream:
  assumes "send_documented (os_sockets OS) sent" and "clock_documented (os_env OS) sent"
    and "gate_Send OS cid mid bytes (C, w) = (r, C', w')" and "ok r"
  shows "\<exists>fd. socket_of C cid = Some fd \<and> sent w' fd = sent w fd @ client_header mid (of_nat (length bytes)) @ bytes"
proof (cases "map_of (mSocketByConnectionId C) cid")
  case None
  then show ?thesis using assms(3,4) by (auto simp: gate_Send_def)
next
  case (Some fd)
  obtain h w1 where h: "WriteExact (os_sockets OS) fd (client_header mid (of_nat (length bytes))) w = (h, w1)" by fastforce
  obtain b w2 where b: "(if bytes = [] then (True, w1) else WriteExact (os_sockets OS) fd bytes w1) = (b, w2)" by fastforce
  have hb: "h \<and> b" using assms(3,4) Some h b by (auto simp: gate_Send_def Let_def split: if_splits)
  then have "sent w1 fd = sent w fd @ client_header mid (of_nat (length bytes))" "sent w2 fd = sent w1 fd @ bytes"
    using WriteExact_stream [OF assms(1)] h b by (auto split: if_splits)
  moreover have "sent w' = sent w2"
    using assms(3) Some h b hb clock_view [OF assms(2)]
    by (auto simp: gate_Send_def Let_def split: if_splits option.splits prod.splits)
  ultimately show ?thesis using Some by (simp add: socket_of_def)
qed

lemma read_client_frame_stream:
  assumes doc: "recv_documented (os_sockets OS) pending" "clock_documented (os_env OS) pending"
    and pend: "pending w fd = client_header mid (of_nat (length bytes)) @ bytes @ rest" and len: "length bytes < 2 ^ 32"
  shows "\<exists>C' w'. read_client_frame OS cid fd (C, w) = (rd_message mid bytes, C', w') \<and> pending w' fd = rest"
proof -
  have sz: "unat (of_nat (length bytes) :: u32) = length bytes" using len by (simp add: unsigned_of_nat take_bit_nat_eq_self)
  then have empty: "(of_nat (length bytes) :: u32) = 0 \<longleftrightarrow> bytes = []" by (metis length_0_conv unat_eq_zero)
  have parts: "from_le32 (client_header mid n) = mid" "from_le32 (drop 4 (client_header mid n)) = n" "length (client_header mid n) = 8" for n
    by (simp_all add: client_header_def)
  obtain w1 where r1: "ReadExact (os_sockets OS) fd 8 w = (Some (client_header mid (of_nat (length bytes))), w1)"
    and p1: "pending w1 fd = bytes @ rest"
    using ReadExact_stream [OF doc(1) pend] parts(3) by auto
  obtain w2 where r2: "ReadExact (os_sockets OS) fd (length bytes) w1 = (Some bytes, w2)" and p2: "pending w2 fd = rest"
    using ReadExact_stream [OF doc(1) p1] by auto
  obtain now w3 where n: "NowMs (os_env OS) w1 = (now, w3)" by fastforce
  obtain now' w4 where n': "NowMs (os_env OS) w2 = (now', w4)" by fastforce
  have "pending w3 = pending w1" "pending w4 = pending w2" using clock_view [OF doc(2)] n n' by auto
  then show ?thesis
    using r1 r2 p1 p2 n n' sz empty parts
    by (cases "bytes = []"; cases "map_of (gc_mConnections C) cid") (simp_all add: read_client_frame_def Let_def)
qed

theorem client_frame_roundtrip:
  assumes "send_documented (os_sockets OS) sent" and "clock_documented (os_env OS) sent"
    and "recv_documented (os_sockets OS') pending" and "clock_documented (os_env OS') pending"
    and "gate_Send OS cid mid bytes (C, w) = (r, C1, w1)" and "ok r" and "length bytes < 2 ^ 32"
    and "\<And>fd. sent w fd = []" and "socket_of C cid = Some fd" and "pending v fd' = sent w1 fd @ rest"
  shows "\<exists>D' v'. read_client_frame OS' cid' fd' (D, v) = (rd_message mid bytes, D', v') \<and> pending v' fd' = rest"
proof -
  have "sent w1 fd = client_header mid (of_nat (length bytes)) @ bytes"
    using gate_Send_stream [OF assms(1,2,5,6)] assms(8,9) by auto
  then show ?thesis using read_client_frame_stream [OF assms(3,4) _ assms(7)] assms(10) by simp
qed

section \<open>Closing and kicking\<close>

definition wired :: "gate \<Rightarrow> bool" where
  "wired g \<longleftrightarrow> gt_wiring g = \<lparr>wr_ipc = True, wr_accounts = True, wr_connections = True, wr_sessions = True, wr_routing = True,
     wr_protocol = True, wr_auth = True, wr_login = True, wr_send_handler = True\<rparr>"

lemma wired_sel [simp]:
  "wired g \<Longrightarrow> wr_ipc (gt_wiring g)" "wired g \<Longrightarrow> wr_accounts (gt_wiring g)" "wired g \<Longrightarrow> wr_connections (gt_wiring g)"
  "wired g \<Longrightarrow> wr_sessions (gt_wiring g)" "wired g \<Longrightarrow> wr_routing (gt_wiring g)" "wired g \<Longrightarrow> wr_protocol (gt_wiring g)"
  "wired g \<Longrightarrow> wr_auth (gt_wiring g)" "wired g \<Longrightarrow> wr_login (gt_wiring g)" "wired g \<Longrightarrow> wr_send_handler (gt_wiring g)"
  by (simp_all add: wired_def)

lemma kick_connection_gone:
  assumes "kick_connection E cid reason (g, w) = (r, g', w')" and "good g" and "wired g"
  shows "(ok r \<longrightarrow> conn_gone g' cid \<and> gt_sessions g' = AList.delete cid (gt_sessions g)) \<and> (\<not> ok r \<longrightarrow> gt_sessions g' = gt_sessions g) \<and>
     gt_login g' = gt_login g \<and> gt_wiring g' = gt_wiring g"
proof -
  obtain q g1 w1 where s: "SendKickNotification E cid reason (g, w) = (q, g1, w1)" by (metis prod_cases3)
  have f: "send_frame g g1" using SendMessage_frame [OF s [unfolded client_sends]] by blast
  then have g1: "good g1" "wr_sessions (gt_wiring g1)" "gt_sessions g1 = gt_sessions g" "gt_login g1 = gt_login g" "gt_wiring g1 = gt_wiring g"
    using assms(2,3) good_frame [OF f] by (auto simp: send_frame_def)
  show ?thesis
  proof (cases "ok q")
    case True
    then have "gate_Close E cid (g1, w1) = (r, g', w')" using assms s by (simp add: kick_connection_def)
    from gate_Close_spec [OF this] g1 show ?thesis by (auto simp: good_def)
  next
    case False
    then have "r = q" "g' = g1" using assms s by (simp_all add: kick_connection_def)
    then show ?thesis using False g1 by simp
  qed
qed

text \<open>
  When the directory or the session table names a session of this gate as the owner of an account, a successful kick leaves
  neither that session nor its connection, and no other session is touched.
\<close>

definition owner_session :: "'w gate_env \<Rightarrow> gate \<Rightarrow> string \<Rightarrow> 'w \<Rightarrow> GateSessionRecord option" where
  "owner_session E g account w = (case fst (LookupAccount (os_env (gte_os E)) (gt_accounts g) account w) of
      None \<Rightarrow> gate_FindByAccount account (gt_sessions g)
    | Some ow \<Rightarrow> if own_gate_instance_id ow = mGateInstanceId (gt_login g)
        then gate_Snapshot (own_gate_session_id ow) (gt_sessions g) else None)"

lemma kick_existing_gone:
  assumes "KickExistingAccountSession E account cid (g, w) = (r, g', w')" and "good g" and "wired g" and "ok r"
    and "owner_session E g account w = Some s" and "gs_connection_id s \<noteq> cid"
  shows "conn_gone g' (gs_connection_id s) \<and> gt_sessions g' = AList.delete (gs_connection_id s) (gt_sessions g) \<and> gt_wiring g' = gt_wiring g"
proof -
  obtain found w1 where l: "LookupAccount (os_env (gte_os E)) (gt_accounts g) account w = (found, w1)" by fastforce
  have "kick_connection E (gs_connection_id s) kick_reason (g, w1) = (r, g', w')"
    using assms l by (auto simp: KickExistingAccountSession_def owner_session_def kick_local_def split: option.splits if_splits)
  from kick_connection_gone [OF this assms(2,3)] assms(4) show ?thesis by simp
qed

lemma unauthorized_login_changes_nothing:
  assumes "gate_HandleClientLogin E cid q (g, w) = (r, g', w')"
    and "cl_platform q = [] \<or> cl_account_id q = [] \<or> cl_credential q = []"
  shows "send_frame g g' \<and> gt_ipc g' = gt_ipc g"
proof -
  have "\<not> auth_ok (Validate (cl_platform q) (cl_account_id q) (cl_credential q))" using assms(2) by (auto simp: Validate_def)
  then show ?thesis
    using assms(1)
    by (auto simp: gate_HandleClientLogin_def SendLoginFailure_def Let_def SendLoginResponse_def split: if_splits dest: SendMessage_frame)
qed

lemma RequestLogin_spec:
  assumes "RequestLogin E inst cid sid platform account area (g, w) = (r, g', w')" and "ok r" and "wired g"
  shows "gt_sessions g' = gt_sessions g \<and> gt_routes g' = gt_routes g \<and> gt_connections g' = gt_connections g \<and>
     gt_wiring g' = gt_wiring g \<and> gt_messages g' = gt_messages g \<and>
     map_of (mPendingLogins (gt_login g')) = (map_of (mPendingLogins (gt_login g)))(gl_mNextRequestId (gt_login g) \<mapsto>
       \<lparr>pl_connection_id = cid, pl_gate_session_id = sid, pl_account_id = account\<rparr>)"
proof -
  obtain q g1 w1 where s: "login_request_send E inst sid platform account area (g, w) = (q, g1, w1)" by (metis prod_cases3)
  then obtain i where g1: "g1 = g\<lparr>gt_login := (gt_login g)\<lparr>gl_mNextRequestId := gl_mNextRequestId (gt_login g) + 1\<rparr>, gt_ipc := i\<rparr>"
    and q: "q = Inr (gl_mNextRequestId (gt_login g)) \<or> (\<exists>f. q = Inl f \<and> \<not> ok f)"
    using assms(3) by (fastforce simp: login_request_send_def Let_def split: prod.splits if_splits dest: send_to_process_frame)
  then show ?thesis using assms(1,2) s by (auto simp: RequestLogin_def login_request_register_def)
qed

lemma open_session_spec:
  assumes "open_session E cid (g, w) = (r, g', w')"
  shows "gt_connections g' = gt_connections g \<and> gt_wiring g' = gt_wiring g \<and>
     (\<forall>c. c \<noteq> cid \<longrightarrow> map_of (gt_sessions g') c = map_of (gt_sessions g) c)"
  using assms by (auto simp: open_session_def OpenAnonymous_def Let_def split: if_splits prod.splits)

lemma mark_spec:
  "mark st cid C = (r, C') \<Longrightarrow> socket_of C' = socket_of C \<and> (\<forall>c. c \<noteq> cid \<longrightarrow> connection_state C' c = connection_state C c) \<and>
     (ok r \<longrightarrow> connection_state C' cid = Some st)"
  by (auto simp: mark_def split: option.splits)

lemma conn_gone_iff: "sessions_inv (gt_sessions g) \<Longrightarrow> conn_gone g cid \<longleftrightarrow> socket_of (gt_connections g) cid = None \<and>
    \<not> open_state (connection_state (gt_connections g) cid) \<and> map_of (gt_sessions g) cid = None"
  by (simp add: conn_gone_def gate_FindByConnection_eq)

lemma good_sessions: "good g \<Longrightarrow> sessions_inv (gt_sessions g)"
  by (simp add: good_def gate_inv_def)

text \<open>
  C8. A login on a second connection: when the gate accepts it, the session that owned the account is gone with its connection, the
  request is pending for the new connection, and no third session has changed.
\<close>

theorem second_login_replaces_first:
  assumes "gate_inv g" and "wired g" and "gate_HandleClientLogin E cid q (g, w) = (r, g', w')" and "ok r"
    and "cl_platform q \<noteq> [] \<and> cl_account_id q \<noteq> [] \<and> cl_credential q \<noteq> []"
    and "owner_session E g (cl_account_id q) w = Some s" and "gs_connection_id s \<noteq> cid"
  shows "conn_gone g' (gs_connection_id s) \<and>
     (\<exists>rid. map_of (mPendingLogins (gt_login g')) rid =
        Some \<lparr>pl_connection_id = cid, pl_gate_session_id = cid, pl_account_id = cl_account_id q\<rparr>) \<and>
     (\<forall>c. c \<noteq> cid \<longrightarrow> c \<noteq> gs_connection_id s \<longrightarrow> gate_Snapshot c (gt_sessions g') = gate_Snapshot c (gt_sessions g))"
proof -
  let ?old = "gs_connection_id s"
  have good: "good g" using assms(1,2) by (simp add: good_def)
  have auth: "Validate (cl_platform q) (cl_account_id q) (cl_credential q) =
      \<lparr>auth_ok = True, auth_account_id = cl_account_id q, auth_message = ''OK''\<rparr>"
    using assms(5) by (simp add: Validate_def)
  obtain k g1 w1 where k: "KickExistingAccountSession E (cl_account_id q) cid (g, w) = (k, g1, w1)" by (metis prod_cases3)
  obtain p g2 w2 where p: "open_session E cid (g1, w1) = (p, g2, w2)" by (metis prod_cases3)
  obtain a C where a: "MarkAnonymous cid (gt_connections g2) = (a, C)" by fastforce
  have oks: "ok k" "ok p" "ok a" and req: "RequestLogin E 1 cid cid (cl_platform q) (cl_account_id q) 1 (g2\<lparr>gt_connections := C\<rparr>, w2) = (r, g', w')"
    using assms(2-4) auth k p a by (auto simp: gate_HandleClientLogin_def Let_def split: if_splits)
  have g1: "conn_gone g1 ?old" "gt_sessions g1 = AList.delete ?old (gt_sessions g)" "good g1" "wired g1"
    using kick_existing_gone [OF k good assms(2) oks(1) assms(6,7)] keepsD [OF keeps_KickExisting k good] assms(2) by (auto simp: wired_def)
  have g2: "gt_connections g2 = gt_connections g1" "wired g2" "c \<noteq> cid \<Longrightarrow> map_of (gt_sessions g2) c = map_of (gt_sessions g1) c" for c
    using open_session_spec [OF p] g1(4) by (auto simp: wired_def)
  have C: "socket_of C = socket_of (gt_connections g1)" "c \<noteq> cid \<Longrightarrow> connection_state C c = connection_state (gt_connections g1) c" for c
    using mark_spec [of gc_anonymous cid "gt_connections g2" a C] a g2(1) by (auto simp: MarkAnonymous_def)
  have g': "gt_sessions g' = gt_sessions g2" "gt_connections g' = C"
    "\<exists>rid. map_of (mPendingLogins (gt_login g')) rid =
        Some \<lparr>pl_connection_id = cid, pl_gate_session_id = cid, pl_account_id = cl_account_id q\<rparr>"
    using RequestLogin_spec [OF req assms(4)] g2(2) by (auto simp: wired_def)
  have "good g'" using keepsD [OF keeps_HandleClientLogin assms(3) good] .
  then have "conn_gone g' ?old"
    using g1(1) assms(7) C g2(3) g'(1,2) conn_gone_iff [OF good_sessions [OF g1(3)]] conn_gone_iff [OF good_sessions] by simp
  moreover have "c \<noteq> cid \<Longrightarrow> c \<noteq> ?old \<Longrightarrow> gate_Snapshot c (gt_sessions g') = gate_Snapshot c (gt_sessions g)" for c
    using g2(3) g'(1) g1(2) by (simp add: gate_Snapshot_def)
  ultimately show ?thesis using g'(3) by blast
qed

section \<open>The answer of the game\<close>

definition activated_session :: "PendingLogin \<Rightarrow> LoginPlayerResponse \<Rightarrow> GateSessionRecord \<Rightarrow> GateSessionRecord \<Rightarrow> bool" where
  "activated_session p a s s' \<longleftrightarrow> gs_state s' = gs_active \<and> gs_account_id s' = pl_account_id p \<and> gs_player_id s' = lr_player_id a \<and>
     gs_game_service_type s' = lr_game_service_type a \<and> gs_game_instance_id s' = lr_game_instance_id a \<and>
     gs_connection_id s' = gs_connection_id s"

lemma gate_Activate_spec:
  assumes "gate_Activate Env (pl_gate_session_id p) (pl_account_id p) (lr_player_id a) (lr_game_service_type a) (lr_game_instance_id a)
      (S, w) = (r, S', w')"
  shows "(map_of S (pl_gate_session_id p) = None \<longrightarrow> S' = S) \<and>
     (\<forall>s. map_of S (pl_gate_session_id p) = Some s \<longrightarrow>
       (\<exists>s'. map_of S' = (map_of S)(pl_gate_session_id p \<mapsto> s') \<and> activated_session p a s s'))"
  using assms by (auto simp: gate_Activate_def activated_session_def split: option.splits prod.splits)

definition player_route :: "PendingLogin \<Rightarrow> LoginPlayerResponse \<Rightarrow> GatePlayerRoute \<Rightarrow> bool" where
  "player_route p a rt \<longleftrightarrow> gr_game_service_type rt = lr_game_service_type a \<and> gr_game_instance_id rt = lr_game_instance_id a \<and>
     gr_gate_session_id rt = pl_gate_session_id p"

definition login_applied :: "PendingLogin \<Rightarrow> LoginPlayerResponse \<Rightarrow> gate \<Rightarrow> gate \<Rightarrow> bool" where
  "login_applied p a g g' \<longleftrightarrow>
     (\<exists>rt. map_of (gt_routes g') = (map_of (gt_routes g))(lr_player_id a \<mapsto> rt) \<and> player_route p a rt) \<and>
     (map_of (gt_sessions g) (pl_gate_session_id p) = None \<longrightarrow> gt_sessions g' = gt_sessions g) \<and>
     (\<forall>s. map_of (gt_sessions g) (pl_gate_session_id p) = Some s \<longrightarrow>
       (\<exists>s'. map_of (gt_sessions g') = (map_of (gt_sessions g))(pl_gate_session_id p \<mapsto> s') \<and> activated_session p a s s'))"

lemma login_succeeded_spec:
  assumes "login_succeeded E p a (g, w) = (g', w')" and "wired g"
  shows "g' = g\<lparr>gt_sessions := gt_sessions g', gt_routes := gt_routes g',
      gt_connections := snd (MarkBound (pl_connection_id p) (gt_connections g))\<rparr> \<and> login_applied p a g g'"
proof -
  obtain r S w1 where S: "gate_Activate (os_env (gte_os E)) (pl_gate_session_id p) (pl_account_id p) (lr_player_id a)
      (lr_game_service_type a) (lr_game_instance_id a) (gt_sessions g, w) = (r, S, w1)" by (metis prod_cases3)
  obtain r' R w2 where R: "BindPlayer (os_env (gte_os E)) (lr_player_id a) (lr_game_service_type a) (lr_game_instance_id a)
      (pl_gate_session_id p) (gt_routes g, w1) = (r', R, w2)" by (metis prod_cases3)
  have g': "g' = g\<lparr>gt_sessions := S, gt_routes := R, gt_connections := snd (MarkBound (pl_connection_id p) (gt_connections g))\<rparr>"
    using assms S R by (simp add: login_succeeded_def Let_def)
  moreover have "\<exists>rt. map_of R = (map_of (gt_routes g))(lr_player_id a \<mapsto> rt) \<and> player_route p a rt"
    using R by (auto simp: BindPlayer_def player_route_def split: prod.splits)
  ultimately show ?thesis using gate_Activate_spec [OF S] by (simp add: login_applied_def)
qed

text \<open>A successful answer to a pending login, up to the response to the client, whose result it is.\<close>

lemma HandleLoginResponse_spec:
  assumes "HandleLoginResponse E a (g, w) = (r, g', w')" and "wired g"
    and "map_of (mPendingLogins (gt_login g)) (lr_request_id a) = Some p" and "lr_result_code a = RESULT_CODE_OK"
  shows "login_applied p a g g' \<and>
     same_sockets (snd (MarkBound (pl_connection_id p) (gt_connections g))) (gt_connections g') \<and>
     map_of (mPendingLogins (gt_login g')) = (map_of (mPendingLogins (gt_login g)))(lr_request_id a := None) \<and>
     gt_ipc g' = gt_ipc g \<and> gt_wiring g' = gt_wiring g \<and> gt_messages g' = gt_messages g \<and>
     (socket_of (gt_connections g) (pl_connection_id p) = None \<longrightarrow> \<not> ok r)"
proof -
  let ?C = "snd (MarkBound (pl_connection_id p) (gt_connections g))"
  let ?g1 = "g\<lparr>gt_login := (gt_login g)\<lparr>gl_mSnapshot := answered a, mPendingLogins :=
      AList.delete (lr_request_id a) (mPendingLogins (gt_login g))\<rparr>\<rparr>"
  obtain g2 w2 where l: "login_succeeded E p a (?g1, w) = (g2, w2)" by fastforce
  have g2: "g2 = ?g1\<lparr>gt_sessions := gt_sessions g2, gt_routes := gt_routes g2, gt_connections := ?C\<rparr>" "login_applied p a ?g1 g2"
    using login_succeeded_spec [OF l] assms(2) by (simp_all add: wired_def)
  have eqs: "gt_connections g2 = ?C" "gt_login g2 = gt_login ?g1" "gt_wiring g2 = gt_wiring g" "gt_ipc g2 = gt_ipc g"
    "gt_messages g2 = gt_messages g"
    using g2(1) [THEN arg_cong, of gt_connections] g2(1) [THEN arg_cong, of gt_login] g2(1) [THEN arg_cong, of gt_wiring]
      g2(1) [THEN arg_cong, of gt_ipc] g2(1) [THEN arg_cong, of gt_messages] by simp_all
  obtain q g3 w3 where s: "SendLoginResponse E (pl_connection_id p) (lr_player_id a) (lr_is_reconnect a)
      (client_error_code (lr_result_code a)) (lr_error_message a) (g2, w2) = (q, g3, w3)" by (metis prod_cases3)
  have wired: "wired g2" using eqs(3) assms(2) by (simp add: wired_def)
  then have r: "r = (if ok q then Success else Failure (message q))" "g' = g3"
    using assms l s by (auto simp: HandleLoginResponse_def Let_def)
  have f: "send_frame g2 g3 \<and> gt_ipc g3 = gt_ipc g2" using SendMessage_frame [OF s [unfolded SendLoginResponse_def]] .
  have "socket_of ?C = socket_of (gt_connections g)"
    using mark_spec [OF surjective_pairing] by (simp add: MarkBound_def)
  then have "socket_of (gt_connections g) (pl_connection_id p) = None \<longrightarrow> \<not> ok q"
    using s wired eqs(1) by (auto simp: SendLoginResponse_def SendMessage_def SendHandler_def with_connections_def gate_Send_def
          socket_of_def split: option.splits)
  then show ?thesis using f g2(2) eqs r by (auto simp: send_frame_def login_applied_def)
qed

text \<open>
  C9. From the request to the active session: the game's answer to the request a connection has pending makes its session that of
  the player, routes the player to the process that was asked, and marks the connection as bound.
\<close>

theorem login_reaches_the_game_that_was_asked:
  assumes "gate_inv g" and "wired g" and "RequestLogin E inst cid cid platform account area (g, w) = (r, g1, w1)" and "ok r"
    and "gate_Snapshot cid (gt_sessions g) = Some s0" and "connection_state (gt_connections g) cid \<noteq> None"
    and "target_receiver (header e) = ProcessReceiver (mk_process_id (ucast gate_kGameServiceType) (ucast inst))"
    and "lq_request_id q = gl_mNextRequestId (gt_login g)"
    and "HandleLoginResponse E (login_response e q pid Success) (g1, w2) = (r2, g2, w3)"
  shows "(\<exists>s. gate_Snapshot cid (gt_sessions g2) = Some s \<and> gs_state s = gs_active \<and> gs_account_id s = account \<and> gs_player_id s = pid \<and>
       gs_connection_id s = cid \<and> gs_game_service_type s = ucast gate_kGameServiceType \<and> gs_game_instance_id s = inst) \<and>
     (\<exists>rt. route_Snapshot pid (gt_routes g2) = Some rt \<and> gr_gate_session_id rt = cid \<and>
       gr_game_service_type rt = ucast gate_kGameServiceType \<and> gr_game_instance_id rt = inst) \<and>
     connection_state (gt_connections g2) cid = Some gc_bound \<and>
     map_of (mPendingLogins (gt_login g2)) (lq_request_id q) = None"
proof -
  let ?a = "login_response e q pid Success" and ?p = "\<lparr>pl_connection_id = cid, pl_gate_session_id = cid, pl_account_id = account\<rparr>"
  note req = RequestLogin_spec [OF assms(3,4,2)]
  have w1: "wired g1" using req assms(2) by (simp add: wired_def)
  have a: "lr_request_id ?a = lq_request_id q" "lr_result_code ?a = RESULT_CODE_OK" "lr_player_id ?a = pid"
    "lr_game_service_type ?a = ucast gate_kGameServiceType" "lr_game_instance_id ?a = inst"
    using assms(7) by (simp_all add: login_response_def ProcessReceiver_def mk_process_id_def)
  have "map_of (mPendingLogins (gt_login g1)) (lr_request_id ?a) = Some ?p" using req assms(8) a(1) by simp
  note ans = HandleLoginResponse_spec [OF assms(9) w1 this a(2)]
  have "connection_state (snd (MarkBound cid (gt_connections g1))) cid = Some gc_bound"
    using assms(6) req by (auto simp: MarkBound_def mark_def connection_state_def set_connection_def split: option.splits)
  moreover have "gs_connection_id s0 = cid"
    using assms(1,5) unfolding gate_inv_def sessions_inv_iff gate_Snapshot_def by blast
  ultimately show ?thesis
    using ans req assms(5) a
    by (auto simp: login_applied_def activated_session_def player_route_def gate_Snapshot_def route_Snapshot_def same_sockets_def)
qed

text \<open>The owner that a successful answer binds to the account, on a server that carries out its writes.\<close>

lemma login_succeeded_binds:
  assumes "set_documented Env h kv" and "ad_mRedis (gt_accounts g) = Some h" and "wired g"
    and "\<forall>k v w. fst (redisCommand Env h [''SET'', k, v] w) = Some (REDIS_STATUS ''OK'')"
    and "os_env (gte_os E) = Env" and "login_succeeded E p a (g, w) = (g', w')"
  shows "owner_in (gt_accounts g') (kv w') (pl_account_id p) = Some (self_owner g (pl_gate_session_id p))"
proof -
  obtain r S w1 where S: "gate_Activate Env (pl_gate_session_id p) (pl_account_id p) (lr_player_id a)
      (lr_game_service_type a) (lr_game_instance_id a) (gt_sessions g, w) = (r, S, w1)" by (metis prod_cases3)
  obtain r' R w2 where R: "BindPlayer Env (lr_player_id a) (lr_game_service_type a) (lr_game_instance_id a)
      (pl_gate_session_id p) (gt_routes g, w1) = (r', R, w2)" by (metis prod_cases3)
  let ?o = "self_owner g (pl_gate_session_id p)"
  obtain w3 where s: "redisCommand Env h [''SET'', account_key (gt_accounts g) (pl_account_id p), account_BuildValue ?o] w2 =
      (Some (REDIS_STATUS ''OK''), w3)" using assms(4) by (metis prod.collapse)
  have "w' = w3" "gt_accounts g' = gt_accounts g"
    using assms(2,3,5,6) S R BindAccount_binds [OF assms(1,2) s] by (auto simp: login_succeeded_def wired_def Let_def)
  then show ?thesis using BindAccount_binds [OF assms(1,2) s] by simp
qed

lemma late_answer_binds:
  assumes "wired g" and "map_of (mPendingLogins (gt_login g)) (lr_request_id a) = Some p" and "lr_result_code a = RESULT_CODE_OK"
    and "ad_mRedis (gt_accounts g) = Some h" and "set_documented (os_env (gte_os E)) h kv"
    and "\<forall>k v w. fst (redisCommand (os_env (gte_os E)) h [''SET'', k, v] w) = Some (REDIS_STATUS ''OK'')"
    and "HandleLoginResponse E a (g, w) = (r, g', w')" and "socket_of (gt_connections g) (pl_connection_id p) = None"
  shows "owner_in (gt_accounts g') (kv w') (pl_account_id p) = Some (self_owner g (pl_gate_session_id p))"
proof -
  let ?g1 = "g\<lparr>gt_login := (gt_login g)\<lparr>gl_mSnapshot := answered a, mPendingLogins :=
      AList.delete (lr_request_id a) (mPendingLogins (gt_login g))\<rparr>\<rparr>"
  obtain g2 w2 where l: "login_succeeded E p a (?g1, w) = (g2, w2)" by fastforce
  have w1: "wired ?g1" using assms(1) by (simp add: wired_def)
  have g2: "g2 = ?g1\<lparr>gt_sessions := gt_sessions g2, gt_routes := gt_routes g2,
      gt_connections := snd (MarkBound (pl_connection_id p) (gt_connections ?g1))\<rparr>"
    using login_succeeded_spec [OF l w1] by blast
  have own: "owner_in (gt_accounts g2) (kv w2) (pl_account_id p) = Some (self_owner ?g1 (pl_gate_session_id p))"
    by (rule login_succeeded_binds [OF assms(5) _ w1 assms(6) refl l]) (simp add: assms(4))
  have eqs: "gt_connections g2 = snd (MarkBound (pl_connection_id p) (gt_connections g))" "gt_wiring g2 = gt_wiring g" "gt_accounts g2 = gt_accounts g"
    using g2 [THEN arg_cong, of gt_connections] g2 [THEN arg_cong, of gt_wiring] g2 [THEN arg_cong, of gt_accounts] by simp_all
  have "socket_of (gt_connections g2) (pl_connection_id p) = None"
    using mark_spec [OF surjective_pairing] assms(8) by (simp add: eqs(1) MarkBound_def)
  then have "w' = w2 \<and> gt_accounts g' = gt_accounts g2"
    using assms(1-3,7) l eqs(2)
    by (auto simp: HandleLoginResponse_def SendLoginResponse_def SendMessage_def SendHandler_def with_connections_def gate_Send_def
        socket_of_def wired_def Let_def split: option.splits prod.splits if_splits)
  then show ?thesis using own by (simp add: self_owner_def)
qed

text \<open>
  C38. An answer that comes after the connection has ended, at a Redis server that carries out its writes: the handler fails, yet the
  route of the player and the owner of the account in Redis now name a session that does not exist, the closed connection is marked
  as bound, and nothing is sent to the game.
\<close>

theorem late_login_answer_leaks:
  assumes "gate_inv g" and "wired g" and "conn_gone g cid" and "connection_state (gt_connections g) cid = Some gc_closed"
    and "map_of (mPendingLogins (gt_login g)) (lr_request_id a) =
      Some \<lparr>pl_connection_id = cid, pl_gate_session_id = cid, pl_account_id = account\<rparr>"
    and "lr_result_code a = RESULT_CODE_OK"
    and "ad_mRedis (gt_accounts g) = Some h" and "set_documented (os_env (gte_os E)) h kv"
    and "\<forall>k v w. fst (redisCommand (os_env (gte_os E)) h [''SET'', k, v] w) = Some (REDIS_STATUS ''OK'')"
    and "HandleLoginResponse E a (g, w) = (r, g', w')"
  shows "\<not> ok r \<and> gt_ipc g' = gt_ipc g \<and> gate_Snapshot cid (gt_sessions g') = None \<and>
     (\<exists>rt. route_Snapshot (lr_player_id a) (gt_routes g') = Some rt \<and> gr_gate_session_id rt = cid) \<and>
     owner_in (gt_accounts g') (kv w') account = Some (self_owner g cid) \<and>
     connection_state (gt_connections g') cid = Some gc_bound \<and> socket_of (gt_connections g') cid = None \<and>
     map_of (mPendingLogins (gt_login g')) (lr_request_id a) = None"
proof -
  note ans = HandleLoginResponse_spec [OF assms(10,2,5,6), simplified]
  have S: "sessions_inv (gt_sessions g)" using assms(1) by (simp add: gate_inv_def)
  then have conn_gone: "map_of (gt_sessions g) cid = None" "socket_of (gt_connections g) cid = None" using assms(3) by (simp_all add: conn_gone_iff)
  obtain x C where m: "MarkBound cid (gt_connections g) = (x, C)" by fastforce
  have "ok x" using m assms(4) by (auto simp: MarkBound_def mark_def connection_state_def split: option.splits)
  then have "connection_state C cid = Some gc_bound" "socket_of C = socket_of (gt_connections g)"
    using mark_spec m unfolding MarkBound_def by blast+
  then show ?thesis
    using ans conn_gone m late_answer_binds [OF assms(2,5-10)] conn_gone(2) by (auto simp: login_applied_def player_route_def gate_Snapshot_def route_Snapshot_def same_sockets_def socket_of_def)
qed

section \<open>Player messages\<close>

text \<open>
  Only the active session of a connection sends for a player: the request is refused and nothing changes otherwise, and an accepted
  one is pending with the player of that session.
\<close>

lemma HandleClientPlayerMessage_spec:
  assumes "HandleClientPlayerMessage E cid q (g, w) = (r, g', w')" and "wired g" and "sessions_inv (gt_sessions g)"
  shows "(ok r \<longrightarrow> (\<exists>s. gate_Snapshot cid (gt_sessions g) = Some s \<and> gs_state s = gs_active \<and> gs_player_id s \<noteq> 0 \<and>
      map_of (mPendingMessages (gt_messages g')) = (map_of (mPendingMessages (gt_messages g)))
        (gpm_mNextRequestId (gt_messages g) \<mapsto> pending_of cid s q))) \<and>
     gt_sessions g' = gt_sessions g \<and> gt_connections g' = gt_connections g \<and> gt_wiring g' = gt_wiring g \<and> gt_routes g' = gt_routes g"
proof (cases "map_of (gt_sessions g) cid")
  case None
  then show ?thesis using assms by (auto simp: HandleClientPlayerMessage_defs gate_FindByConnection_eq)
next
  case (Some s)
  show ?thesis
  proof (cases "gs_state s \<noteq> gs_active \<or> gs_player_id s = 0")
    case True
    then show ?thesis using assms Some by (auto simp: HandleClientPlayerMessage_defs gate_FindByConnection_eq split: if_splits)
  next
    case False
    let ?rid = "gpm_mNextRequestId (gt_messages g)"
    let ?g1 = "g\<lparr>gt_messages := (gt_messages g)\<lparr>gpm_mNextRequestId := ?rid + 1\<rparr>\<rparr>"
    obtain q1 g2 w2 where s: "send_to_process E (gs_game_service_type s) (gs_game_instance_id s)
        (gm_forward (forward_of ?rid s q)) (?g1, w) = (q1, g2, w2)" by (metis prod_cases3)
    from send_to_process_frame [OF this] obtain i where g2: "g2 = ?g1\<lparr>gt_ipc := i\<rparr>" ..
    show ?thesis
      using assms(1) Some False s g2 assms(2)
      by (auto simp: HandleClientPlayerMessage_defs gate_FindByConnection_eq [OF assms(3)] gate_Snapshot_def Let_def split: if_splits)
  qed
qed

text \<open>
  C10. The answer to a message goes to the connection that asked, once: its frame is appended to that connection's stream, and a
  second answer to the same request is refused without effect.
\<close>

theorem answer_returns_to_the_asker:
  assumes "send_documented (os_sockets (gte_os E)) sent" and "clock_documented (os_env (gte_os E)) sent"
    and "gate_inv g" and "wired g" and "HandleClientPlayerMessage E cid q (g, w) = (r, g1, w1)" and "ok r"
    and "fr_request_id f = gpm_mNextRequestId (gt_messages g)"
    and "HandleForwardPlayerMessageResponse E f (g1, w2) = (r2, g2, w3)" and "ok r2"
  shows "\<exists>s bytes fd. gate_Snapshot cid (gt_sessions g) = Some s \<and> gs_state s = gs_active \<and> gs_player_id s \<noteq> 0 \<and>
     socket_of (gt_connections g) cid = Some fd \<and>
     gcd_client (gte_codec E) (PlayerMessageResponse (response_header (fr_message_id f) (client_error_code (fr_result_code f))
       (fr_error_message f)) (fr_response_payload_bytes f)) = Some bytes \<and>
     sent w3 fd = sent w2 fd @ client_header MESSAGE_ID_PLAYER_MESSAGE_RESPONSE (of_nat (length bytes)) @ bytes \<and>
     HandleForwardPlayerMessageResponse E f (g2, w3) = (Failure ''missing pending player message'', g2, w3)"
proof -
  have S: "sessions_inv (gt_sessions g)" using assms(3) by (simp add: gate_inv_def)
  obtain s where s: "gate_Snapshot cid (gt_sessions g) = Some s" "gs_state s = gs_active" "gs_player_id s \<noteq> 0"
    and pend: "map_of (mPendingMessages (gt_messages g1)) (fr_request_id f) = Some (pending_of cid s q)"
    and g1: "gt_connections g1 = gt_connections g" "wired g1"
    using HandleClientPlayerMessage_spec [OF assms(5,4) S] assms(4,6,7) by (auto simp: wired_def)
  let ?m = "PlayerMessageResponse (response_header (fr_message_id f) (client_error_code (fr_result_code f)) (fr_error_message f))
      (fr_response_payload_bytes f)"
  let ?g1 = "g1\<lparr>gt_messages := (gt_messages g1)\<lparr>mPendingMessages := AList.delete (fr_request_id f) (mPendingMessages (gt_messages g1))\<rparr>\<rparr>"
  obtain q2 g3 w4 where send: "SendPlayerMessageResponse E cid (fr_message_id f) (fr_response_payload_bytes f)
      (client_error_code (fr_result_code f)) (fr_error_message f) (?g1, w2) = (q2, g3, w4)" by (metis prod_cases3)
  have eqs: "ok q2" "g2 = g3" "w3 = w4"
    using assms(8,9) pend send by (auto simp: HandleForwardPlayerMessageResponse_def pending_of_def Let_def split: if_splits)
  obtain bytes where b: "gcd_client (gte_codec E) ?m = Some bytes"
    using send eqs(1) g1(2) by (auto simp: SendPlayerMessageResponse_def SendMessage_def wired_def split: option.splits)
  obtain C where c: "gate_Send (gte_os E) cid MESSAGE_ID_PLAYER_MESSAGE_RESPONSE bytes (gt_connections g, w2) = (q2, C, w3)"
    using send b eqs g1 by (auto simp: SendPlayerMessageResponse_def SendMessage_def SendHandler_def with_connections_def wired_def
        split: prod.splits)
  have "gt_messages g2 = gt_messages ?g1"
    using SendMessage_frame [OF send [unfolded SendPlayerMessageResponse_def]] eqs by (simp add: send_frame_def)
  then have "HandleForwardPlayerMessageResponse E f (g2, w3) = (Failure ''missing pending player message'', g2, w3)"
    by (simp add: HandleForwardPlayerMessageResponse_def)
  then show ?thesis using gate_Send_stream [OF assms(1,2) c eqs(1)] s b by blast
qed

text \<open>
  The request is sent before it is registered. An answer handled in between finds nothing pending, and the entry that is
  registered afterwards is never answered.
\<close>

lemma answer_before_registration:
  assumes "map_of (mPendingLogins (gt_login g)) (gl_mNextRequestId (gt_login g)) = None" and "wired g"
    and "login_request_send E inst sid platform account area (g, w) = (Inr rid, g1, w1)" and "lr_request_id a = rid"
  shows "\<exists>g2. HandleLoginResponse E a (g1, w2) = (Failure ''missing pending login'', g2, w2) \<and>
     map_of (mPendingLogins (gt_login (login_request_register rid cid sid account g2))) rid \<noteq> None"
proof -
  obtain i where g1: "g1 = g\<lparr>gt_login := (gt_login g)\<lparr>gl_mNextRequestId := gl_mNextRequestId (gt_login g) + 1\<rparr>, gt_ipc := i\<rparr>"
    and rid: "rid = gl_mNextRequestId (gt_login g)"
    using assms(2,3) by (fastforce simp: login_request_send_def Let_def split: prod.splits if_splits dest: send_to_process_frame)
  then show ?thesis using assms(1,4) by (simp add: HandleLoginResponse_def login_request_register_def)
qed

text \<open>Player messages have the same gap: an answer that is handled before its entry is filed is lost, and the entry stays.\<close>

lemma player_message_answer_before_registration:
  assumes "map_of (mPendingMessages (gt_messages g)) (gpm_mNextRequestId (gt_messages g)) = None" and "wired g"
    and "player_message_send E cid q (g, w) = (Inr (rid, entry), g1, w1)" and "fr_request_id a = rid"
  shows "HandleForwardPlayerMessageResponse E a (g1, w2) = (Failure ''missing pending player message'', g1, w2) \<and>
     map_of (mPendingMessages (gt_messages (player_message_register rid entry g1))) rid = Some entry"
proof -
  have "rid = gpm_mNextRequestId (gt_messages g) \<and> mPendingMessages (gt_messages g1) = mPendingMessages (gt_messages g)"
    using assms(2,3) by (fastforce simp: player_message_send_def Let_def split: option.splits prod.splits if_splits dest: send_to_process_frame)
  then show ?thesis using assms(1,4) by (simp add: HandleForwardPlayerMessageResponse_def player_message_register_def)
qed

text \<open>When the game cannot be told of a disconnect, the route of the player stays although its session is gone.\<close>

lemma failed_disconnect_keeps_route:
  assumes "FinalizeConnection E cid (g, w) = (g', w')" and "gate_inv g" and "wired g"
    and "\<not> IsIpcActiveLocked (ga_node (gt_ipc g))" and "gate_Snapshot cid (gt_sessions g) = Some s" and "gs_player_id s \<noteq> 0"
    and "gs_game_service_type s \<noteq> 0" and "gs_game_instance_id s \<noteq> 0"
  shows "gate_Snapshot cid (gt_sessions g') = None \<and> gt_routes g' = gt_routes g"
proof -
  obtain C w1 where c: "finalize_locked (gte_os E) cid (gt_connections g, w) = (C, w1)" by fastforce
  let ?s = "s\<lparr>gs_state := gs_closing\<rparr>" and ?g1 = "g\<lparr>gt_connections := C, gt_sessions := AList.delete cid (gt_sessions g)\<rparr>"
  have S: "sessions_inv (gt_sessions g)" using assms(2) by (simp add: gate_inv_def)
  obtain q g2 w2 where h: "HandleSessionDisconnected E ?s DISCONNECT_REASON_CLIENT_CLOSED (?g1, w1) = (q, g2, w2)" by (metis prod_cases3)
  have g': "g' = g2"
    using assms(1,3,5) c h by (simp add: FinalizeConnection_def DisconnectHandler_def RemoveByConnection_eq [OF S] gate_Snapshot_def)
  obtain now w3 where now: "gte_time E w1 = (now, w3)" by fastforce
  obtain x i w4 where s: "send_to_process E (gs_game_service_type s) (gs_game_instance_id s)
      (gm_disconnected \<lparr>dq_player_id = gs_player_id s, dq_gate = self_gate ?g1 (gs_gate_session_id s),
        dq_reason = DISCONNECT_REASON_CLIENT_CLOSED, dq_occurred_at_ms = now * 1000\<rparr>) (?g1, w3) = (x, i, w4)" by (metis prod_cases3)
  have "\<not> ok x \<and> gt_routes i = gt_routes g"
    using s gate_send_inactive [OF assms(4), of "gte_node E" "gte_wire E" "gte_handler E"]
    by (auto simp: send_to_process_def case_prod_beta) (metis fst_conv not_ok_Failure)
  then have "gt_routes g2 = gt_routes g"
    using h now s assms(3,6-8) by (auto simp: HandleSessionDisconnected_def Let_def split: if_splits)
  then show ?thesis using FinalizeConnection_spec [OF assms(1,2)] assms(3) g' by (simp add: gate_Snapshot_def)
qed

text \<open>
  An owner in the directory is taken by its session number alone. When the record is older than this run of the gate, the session
  of whoever has that number now is kicked.
\<close>

lemma stale_owner_kicks_a_stranger:
  assumes "KickExistingAccountSession E account cid (g, w) = (r, g', w')" and "good g" and "wired g" and "ok r"
    and "LookupAccount (os_env (gte_os E)) (gt_accounts g) account w = (Some ow, w1)"
    and "own_gate_instance_id ow = mGateInstanceId (gt_login g)"
    and "gate_Snapshot (own_gate_session_id ow) (gt_sessions g) = Some s" and "gs_account_id s \<noteq> account" and "gs_connection_id s \<noteq> cid"
  shows "conn_gone g' (gs_connection_id s)"
  using kick_existing_gone [OF assms(1-4), of s] assms(5-7,9) by (simp add: owner_session_def)

text \<open>
  A client that logs in again as another account: the session is overwritten, and the route of its former player stays and still
  names this session.
\<close>

lemma relogin_keeps_old_route:
  assumes "HandleLoginResponse E a (g, w) = (r, g', w')" and "wired g"
    and "map_of (mPendingLogins (gt_login g)) (lr_request_id a) = Some p" and "lr_result_code a = RESULT_CODE_OK"
    and "gate_Snapshot (pl_gate_session_id p) (gt_sessions g) = Some s" and "gs_player_id s \<noteq> lr_player_id a"
  shows "route_Snapshot (gs_player_id s) (gt_routes g') = route_Snapshot (gs_player_id s) (gt_routes g) \<and> gt_ipc g' = gt_ipc g \<and>
     (\<exists>s'. gate_Snapshot (pl_gate_session_id p) (gt_sessions g') = Some s' \<and> gs_player_id s' = lr_player_id a)"
  using HandleLoginResponse_spec [OF assms(1-4)] assms(5,6)
  by (auto simp: login_applied_def route_Snapshot_def gate_Snapshot_def activated_session_def)

end
