(* ===== verification/Sim_Gate.thy ===== *)
theory Sim_Gate
  imports Sim_Scenarios Gate_Protocol
begin

text \<open>
  The simulated client and a gate together: what a scenario writes is what the gate reads and dispatches, and what the gate
  answers is what the client shows. And a disconnect that the client counts twice.
\<close>

section \<open>From the client to the gate\<close>

text \<open>The bytes of one frame, in both directions.\<close>

definition frame_bytes :: "u32 \<Rightarrow> ByteBuffer \<Rightarrow> u8 list" where
  "frame_bytes message_id bytes = client_header message_id (of_nat (length bytes)) @ bytes"

lemma SendFrame_stream:
  assumes "send_documented (ce_sockets E) sent" and "SendFrame E mid bytes (C, w) = (r, C', w')" and "ok r"
  shows "mSocketFd C' = mSocketFd C \<and> sent w' (mSocketFd C) = sent w (mSocketFd C) @ frame_bytes mid bytes"
proof -
  let ?fd = "mSocketFd C"
  obtain h w1 where h: "WriteExact (ce_sockets E) ?fd (client_header mid (of_nat (length bytes))) w = (h, w1)" by fastforce
  obtain b w2 where b: "(if bytes = [] then (True, w1) else WriteExact (ce_sockets E) ?fd bytes w1) = (b, w2)" by fastforce
  have hb: "h" "b" "w' = w2" "mSocketFd C' = ?fd"
    using assms(2,3) h b by (auto simp: SendFrame_def count_def Let_def split: if_splits)
  moreover have "sent w1 ?fd = sent w ?fd @ client_header mid (of_nat (length bytes))" "sent w2 ?fd = sent w1 ?fd @ bytes"
    using WriteExact_stream [OF assms(1)] h b hb by (auto split: if_splits)
  ultimately show ?thesis by (simp add: frame_bytes_def)
qed

lemma send_built_stream:
  assumes "send_documented (ce_sockets E) sent" and "send_built E build failure (cl, w) = (r, cl', w')" and "ok r"
  shows "\<exists>mid bytes P. build (cl_protocol cl) = (Some (mid, bytes), P) \<and> cl_protocol cl' = P \<and>
     mSocketFd (cl_connection cl') = mSocketFd (cl_connection cl) \<and>
     sent w' (mSocketFd (cl_connection cl)) = sent w (mSocketFd (cl_connection cl)) @ frame_bytes mid bytes"
proof -
  obtain built P where b: "build (cl_protocol cl) = (built, P)" by fastforce
  then obtain mid bytes where m: "built = Some (mid, bytes)"
    using assms(2,3) by (cases built) (auto simp: send_built_def)
  obtain q C w1 where s: "SendFrame E mid bytes (cl_connection cl, w) = (q, C, w1)" by (metis prod_cases3)
  then show ?thesis using assms(2,3) b m SendFrame_stream [OF assms(1) s] by (auto simp: send_built_def)
qed

lemma connect_or_keep:
  assumes "0 \<le> mSocketFd (cl_connection cl)"
  shows "unless_message ''socket already connected'' (on_connection (sim_Connect E)) (cl, w) =
     (Success, cl\<lparr>cl_connection := count (\<lambda>n. n\<lparr>connect_attempts := connect_attempts n + 1\<rparr>) (cl_connection cl)\<rparr>, w)"
  using assms by (simp add: unless_message_def on_connection_def sim_Connect_def count_def Let_def)

definition codecs_agree :: "client_codec \<Rightarrow> gate_codec \<Rightarrow> bool" where
  "codecs_agree C D \<longleftrightarrow>
     (\<forall>m b. cc_login C m = Some b \<longrightarrow> length b < 2 ^ 32 \<and>
        gcd_parse_login D b = Some \<lparr>cl_platform = lo_platform m, cl_account_id = lo_account_id m, cl_credential = lo_credential m\<rparr>) \<and>
     (\<forall>h b. cc_heartbeat C h = Some b \<longrightarrow> length b < 2 ^ 32 \<and> gcd_parse_heartbeat D b) \<and>
     (\<forall>h pid again b. gcd_client D (LoginResponse h pid again) = Some b \<longrightarrow>
        length b < 2 ^ 32 \<and> cc_parse_login_response C b = Some (h, pid))"

lemma read_dispatch:
  assumes "recv_documented (os_sockets (gte_os G)) pending" and "clock_documented (os_env (gte_os G)) pending"
    and "pending v fd = frame_bytes mid bytes @ rest" and "length bytes < 2 ^ 32"
  shows "\<exists>C v1. HandleReadable G cid fd (g, v) = MessageHandler G cid mid bytes (g\<lparr>gt_connections := C\<rparr>, v1) \<and> pending v1 fd = rest"
proof -
  have "pending v fd = client_header mid (of_nat (length bytes)) @ bytes @ rest" using assms(3) by (simp add: frame_bytes_def)
  from read_client_frame_stream [OF assms(1,2) this assms(4), of cid "gt_connections g"]
  obtain C v1 where "read_client_frame (gte_os G) cid fd (gt_connections g, v) = (rd_message mid bytes, C, v1)" "pending v1 fd = rest"
    by blast
  then show ?thesis by (auto simp: HandleReadable_def with_connections_def)
qed

lemma login_smoke_steps:
  assumes "scenario_Run E ''login_smoke'' account (cl, w) = (r, cl', w')" and "ok r" and "account \<noteq> []"
    and "0 \<le> mSocketFd (cl_connection cl)"
  shows "\<exists>cl1 cl2 w2 q1 q2. mSocketFd (cl_connection cl1) = mSocketFd (cl_connection cl) \<and>
     default_account_id (sp_mConfiguration (cl_protocol cl1)) = account \<and>
     default_platform (sp_mConfiguration (cl_protocol cl1)) = default_platform (sp_mConfiguration (cl_protocol cl)) \<and>
     send_built E (BuildDefaultLoginFrame (ce_codec E)) ''failed to build login frame'' (cl1, w) = (q1, cl2, w2) \<and> ok q1 \<and>
     (\<exists>cl3. send_built E (BuildHeartbeatFrame (ce_codec E)) ''failed to build heartbeat frame'' (cl2, w2) = (q2, cl3, w')) \<and> ok q2"
proof -
  obtain P where P: "SetAccountId account (cl_protocol cl) = (Success, P)" "default_account_id (sp_mConfiguration P) = account"
      "default_platform (sp_mConfiguration P) = default_platform (sp_mConfiguration (cl_protocol cl))"
    using assms(3) by (simp add: SetAccountId_def)
  let ?cl1 = "cl\<lparr>cl_protocol := P, cl_connection := count (\<lambda>n. n\<lparr>connect_attempts := connect_attempts n + 1\<rparr>) (cl_connection cl)\<rparr>"
  obtain q1 cl2 w2 where l: "send_built E (BuildDefaultLoginFrame (ce_codec E)) ''failed to build login frame'' (?cl1, w) = (q1, cl2, w2)"
    by (rule prod_cases3)
  obtain q2 cl3 w3 where h: "send_built E (BuildHeartbeatFrame (ce_codec E)) ''failed to build heartbeat frame'' (cl2, w2) = (q2, cl3, w3)"
    by (rule prod_cases3)
  have keep: "unless_message ''socket already connected'' (on_connection (sim_Connect E)) (cl\<lparr>cl_protocol := P\<rparr>, w) = (Success, ?cl1, w)"
    using connect_or_keep [of "cl\<lparr>cl_protocol := P\<rparr>" E w] assms(4) by simp
  have set: "on_protocol (SetAccountId account) (cl, w) = (Success, cl\<lparr>cl_protocol := P\<rparr>, w)" by (simp add: on_protocol_def P(1))
  have "r = Failure ''sim_client scenario dependencies are not registered''" if "\<not> (has_connection cl \<and> has_protocol cl)"
    using assms(1) that by (simp add: scenario_Run_def del: Failure_def)
  then have deps: "has_connection cl \<and> has_protocol cl" using assms(2) by (cases "has_connection cl \<and> has_protocol cl") simp_all
  have steps: "scenario_steps E ''login_smoke'' = Some [unless_message ''socket already connected'' (on_connection (sim_Connect E)),
      send_built E (BuildDefaultLoginFrame (ce_codec E)) ''failed to build login frame'',
      send_built E (BuildHeartbeatFrame (ce_codec E)) ''failed to build heartbeat frame'']"
    by (simp add: scenario_steps_def Let_def)
  have oks: "ok q1 \<and> ok q2 \<and> w3 = w'"
  proof (cases "ok q1")
    case True
    then show ?thesis using assms(1,2,3) deps
      by (cases "ok q2") (simp_all add: scenario_Run_def set steps keep l h)
  next
    case False
    then show ?thesis using assms(1,2,3) deps by (simp add: scenario_Run_def set steps keep l)
  qed
  show ?thesis
    by (rule exI [of _ ?cl1], rule exI [of _ cl2], rule exI [of _ w2], rule exI [of _ q1], rule exI [of _ q2])
      (use l h P(2,3) oks in \<open>simp add: count_def\<close>)
qed

text \<open>
  C11. The scenario \<^verbatim>\<open>login_smoke\<close> on a connection that is open: it writes two frames; a gate whose parsers read what the client's
  serializers write handles the first as a login of the account that was asked for, and the second as a heartbeat.
\<close>

theorem login_smoke_reaches_the_gate:
  assumes "send_documented (ce_sockets E) sent" and "scenario_Run E ''login_smoke'' account (cl, w) = (r, cl', w')" and "ok r"
    and "account \<noteq> []" and "fd = mSocketFd (cl_connection cl)" and "0 \<le> fd"
    and "recv_documented (os_sockets (gte_os G)) pending" and "clock_documented (os_env (gte_os G)) pending"
    and "codecs_agree (ce_codec E) (gte_codec G)"
  shows "\<exists>login heartbeat. sent w' fd = sent w fd @ frame_bytes 1001 login @ frame_bytes 1002 heartbeat \<and>
     (\<forall>g v cid peer rest. wr_protocol (gt_wiring g) \<longrightarrow> pending v peer = frame_bytes 1001 login @ rest \<longrightarrow>
        (\<exists>C v1. pending v1 peer = rest \<and> HandleReadable G cid peer (g, v) = snd (gate_HandleClientLogin G cid
           \<lparr>cl_platform = default_platform (sp_mConfiguration (cl_protocol cl)), cl_account_id = account, cl_credential = ''sim-token''\<rparr>
           (g\<lparr>gt_connections := C\<rparr>, v1)))) \<and>
     (\<forall>g v cid peer rest. wr_protocol (gt_wiring g) \<longrightarrow> pending v peer = frame_bytes 1002 heartbeat @ rest \<longrightarrow>
        (\<exists>C v1. pending v1 peer = rest \<and> HandleReadable G cid peer (g, v) = snd (HandleHeartbeat G cid (g\<lparr>gt_connections := C\<rparr>, v1))))"
proof -
  obtain cl1 cl2 w2 q1 q2 cl3 where cl1: "mSocketFd (cl_connection cl1) = fd" "default_account_id (sp_mConfiguration (cl_protocol cl1)) = account"
      "default_platform (sp_mConfiguration (cl_protocol cl1)) = default_platform (sp_mConfiguration (cl_protocol cl))"
    and l: "send_built E (BuildDefaultLoginFrame (ce_codec E)) ''failed to build login frame'' (cl1, w) = (q1, cl2, w2)" "ok q1"
    and h: "send_built E (BuildHeartbeatFrame (ce_codec E)) ''failed to build heartbeat frame'' (cl2, w2) = (q2, cl3, w')" "ok q2"
    using login_smoke_steps [OF assms(2-4)] assms(5,6) by metis
  obtain mid login P where b1: "BuildDefaultLoginFrame (ce_codec E) (cl_protocol cl1) = (Some (mid, login), P)"
    and s1: "sent w2 fd = sent w fd @ frame_bytes mid login" "mSocketFd (cl_connection cl2) = fd"
    using send_built_stream [OF assms(1) l] cl1(1) by auto
  obtain mid' hb P' where b2: "BuildHeartbeatFrame (ce_codec E) (cl_protocol cl2) = (Some (mid', hb), P')"
    and s2: "sent w' fd = sent w2 fd @ frame_bytes mid' hb"
    using send_built_stream [OF assms(1) h] s1(2) by auto
  have login: "mid = 1001" "cc_login (ce_codec E) (login_of (sp_mConfiguration (cl_protocol cl1))) = Some login"
    using b1 by (auto simp: BuildDefaultLoginFrame_def EncodeDefaultLogin_def Let_def split: if_splits option.splits prod.splits)
  have hb: "mid' = 1002" "cc_heartbeat (ce_codec E) heartbeat_header = Some hb"
    using b2 by (auto simp: BuildHeartbeatFrame_def EncodeHeartbeat_def Let_def split: if_splits option.splits prod.splits)
  have small: "length login < 2 ^ 32" "length hb < 2 ^ 32" "gcd_parse_heartbeat (gte_codec G) hb"
    and parsed: "gcd_parse_login (gte_codec G) login = Some \<lparr>cl_platform = default_platform (sp_mConfiguration (cl_protocol cl)),
       cl_account_id = account, cl_credential = ''sim-token''\<rparr>"
    using assms(9) login(2) hb(2) cl1(2,3) by (auto simp: codecs_agree_def login_of_def)
  have sent: "sent w' fd = sent w fd @ frame_bytes 1001 login @ frame_bytes 1002 hb" using s1 s2 login hb by simp
  have first: "\<exists>C v1. pending v1 peer = rest \<and> HandleReadable G cid peer (g, v) = snd (gate_HandleClientLogin G cid
      \<lparr>cl_platform = default_platform (sp_mConfiguration (cl_protocol cl)), cl_account_id = account, cl_credential = ''sim-token''\<rparr>
      (g\<lparr>gt_connections := C\<rparr>, v1))"
    if "wr_protocol (gt_wiring g)" "pending v peer = frame_bytes 1001 login @ rest" for g v cid peer rest
    using read_dispatch [OF assms(7,8) that(2) small(1), of cid g] that(1) parsed
    by (auto simp: MessageHandler_def client_Dispatch_def client_handlers_def client_Register_def)
  have second: "\<exists>C v1. pending v1 peer = rest \<and> HandleReadable G cid peer (g, v) = snd (HandleHeartbeat G cid (g\<lparr>gt_connections := C\<rparr>, v1))"
    if "wr_protocol (gt_wiring g)" "pending v peer = frame_bytes 1002 hb @ rest" for g v cid peer rest
    using read_dispatch [OF assms(7,8) that(2) small(2), of cid g] that(1) small(3)
    by (auto simp: MessageHandler_def client_Dispatch_def client_handlers_def client_Register_def)
  show ?thesis by (rule exI [of _ login], rule exI [of _ hb]) (use sent first second in blast)
qed

section \<open>From the gate to the client\<close>

lemma reader_reads:
  assumes "recv_documented (ce_sockets E) pending" and "mReaderThread C = rp_recv fd True"
    and "pending v fd = frame_bytes mid bytes @ rest" and "length bytes < 2 ^ 32"
  shows "\<exists>C' v'. (reader_step E ^^ 2) ((C, P), v) = ((C', snd (HandleFrame (ce_codec E) mid bytes P)), v') \<and>
     pending v' fd = rest \<and> mReaderThread C' = rp_top"
proof -
  have sz: "unat (of_nat (length bytes) :: u32) = length bytes" using assms(4) by (simp add: unsigned_of_nat take_bit_nat_eq_self)
  then have pos: "0 < (of_nat (length bytes) :: u32) \<longleftrightarrow> bytes \<noteq> []" by (simp add: word_less_nat_alt)
  have parts: "from_le32 (client_header mid n) = mid" "from_le32 (drop 4 (client_header mid n)) = n" "length (client_header mid n) = 8" for n
    by (simp_all add: client_header_def)
  have split: "pending v fd = client_header mid (of_nat (length bytes)) @ bytes @ rest" using assms(3) by (simp add: frame_bytes_def)
  obtain v1 where r1: "ReadExact (ce_sockets E) fd 8 v = (Some (client_header mid (of_nat (length bytes))), v1)"
    and p1: "pending v1 fd = bytes @ rest"
    using ReadExact_stream [OF assms(1) split] parts(3) by auto
  obtain v2 where r2: "ReadExact (ce_sockets E) fd (length bytes) v1 = (Some bytes, v2)" and p2: "pending v2 fd = rest"
    using ReadExact_stream [OF assms(1) p1] by auto
  have "\<exists>C' v'. reader_step E ((C, P), v) = ((C', P), v') \<and> mReaderThread C' = rp_handle True mid bytes \<and> pending v' fd = rest"
    (is "\<exists>C' v'. ?first C' v'") using assms(2) r1 r2 p1 p2 sz pos parts
    by (cases "bytes = []") (auto simp: reader_step_def count_def Let_def)
  then obtain C1 v3 where one: "?first C1 v3" by blast
  then have "reader_step E ((C1, P), v3) = ((C1\<lparr>mReaderThread := rp_top\<rparr>, snd (HandleFrame (ce_codec E) mid bytes P)), v3)"
    by (simp add: reader_step_def)
  with one show ?thesis by (simp add: numeral_2_eq_2)
qed

text \<open>
  C12. The login answer of the gate: its frame goes to the connection that asked, and the client that reads it shows the player, whether
  the login was accepted, and the text of the gate.
\<close>

theorem login_answer_reaches_the_client:
  assumes "send_documented (os_sockets (gte_os G)) sent" and "clock_documented (os_env (gte_os G)) sent"
    and "recv_documented (ce_sockets E) pending" and "codecs_agree (ce_codec E) (gte_codec G)"
    and "SendLoginResponse G cid pid again code explanation (g, w) = (r, g', w')" and "ok r"
  shows "\<exists>fd bytes. socket_of (gt_connections g) cid = Some fd \<and> sent w' fd = sent w fd @ frame_bytes 2001 bytes \<and>
     (\<forall>C P v peer rest. mReaderThread C = rp_recv peer True \<longrightarrow> pending v peer = frame_bytes 2001 bytes @ rest \<longrightarrow>
        (\<exists>C' P' v'. (reader_step E ^^ 2) ((C, P), v) = ((C', P'), v') \<and> pending v' peer = rest \<and> mReaderThread C' = rp_top \<and>
           last_login_player_id (sp_mSnapshot P') = pid \<and> (last_login_ok (sp_mSnapshot P') \<longleftrightarrow> code = ERROR_CODE_OK) \<and>
           last_login_error_message (sp_mSnapshot P') = explanation))"
proof -
  let ?m = "LoginResponse (response_header 2001 code explanation) pid again"
  obtain bytes where b: "gcd_client (gte_codec G) ?m = Some bytes"
    using assms(5,6) by (auto simp: SendLoginResponse_def SendMessage_def split: option.splits if_splits)
  then obtain C1 where c: "gate_Send (gte_os G) cid 2001 bytes (gt_connections g, w) = (r, C1, w')"
    using assms(5,6) by (auto simp: SendLoginResponse_def SendMessage_def SendHandler_def with_connections_def split: prod.splits if_splits)
  obtain fd where fd: "socket_of (gt_connections g) cid = Some fd" "sent w' fd = sent w fd @ frame_bytes 2001 bytes"
    using gate_Send_stream [OF assms(1,2) c assms(6)] by (auto simp: frame_bytes_def)
  have parse: "length bytes < 2 ^ 32" "cc_parse_login_response (ce_codec E) bytes = Some (response_header 2001 code explanation, pid)"
    using assms(4) b by (auto simp: codecs_agree_def)
  have shown: "last_login_player_id (sp_mSnapshot P') = pid" "last_login_ok (sp_mSnapshot P') \<longleftrightarrow> code = ERROR_CODE_OK"
      "last_login_error_message (sp_mSnapshot P') = explanation" if "P' = snd (HandleFrame (ce_codec E) 2001 bytes P)" for P P'
    using parse(2) that by (simp_all add: HandleFrame_def observe_def response_header_def)
  show ?thesis
  proof (rule exI [of _ fd], rule exI [of _ bytes], intro conjI allI impI)
    fix C :: ConnectionService and P v peer rest assume "mReaderThread C = rp_recv peer True" "pending v peer = frame_bytes 2001 bytes @ rest"
    from reader_reads [OF assms(3) this parse(1), of P]
    obtain C' v' where "(reader_step E ^^ 2) ((C, P), v) = ((C', snd (HandleFrame (ce_codec E) 2001 bytes P)), v')"
      "pending v' peer = rest" "mReaderThread C' = rp_top" by blast
    then show "\<exists>C' P' v'. (reader_step E ^^ 2) ((C, P), v) = ((C', P'), v') \<and> pending v' peer = rest \<and> mReaderThread C' = rp_top \<and>
        last_login_player_id (sp_mSnapshot P') = pid \<and> (last_login_ok (sp_mSnapshot P') \<longleftrightarrow> code = ERROR_CODE_OK) \<and>
        last_login_error_message (sp_mSnapshot P') = explanation"
      using shown [OF refl, of P] by blast
  qed (use fd in simp_all)
qed

section \<open>Counting\<close>

text \<open>A disconnect while the reader waits for bytes is counted twice: by \<^verbatim>\<open>Disconnect\<close> and by the end of \<^verbatim>\<open>ReaderLoop\<close>.\<close>

lemma disconnect_counts_twice:
  assumes "mReaderThread C = rp_recv fd h" and "0 \<le> mSocketFd C" and "\<And>w. fst (ReadExact (ce_sockets E) fd 8 w) = None"
    and "sim_Disconnect E ((C, P), w) = (r, (C', P'), w')"
  shows "ok r \<and> disconnect_count (sim_snapshot C') = disconnect_count (sim_snapshot C) + 2 \<and> mReaderThread C' = rp_none"
proof -
  have stay: "(reader_step E ^^ n) ((D, P), v) = ((D, P), v)" if "mReaderThread D = rp_end" for n D v
    using that by (induction n) (simp_all add: reader_step_def funpow_swap1)
  have key: "\<exists>D v'. (reader_step E ^^ 4) ((D0, P), v) = ((D, P), v') \<and> disconnect_count (sim_snapshot D) = disconnect_count (sim_snapshot D0) + 1"
    if at: "mReaderThread D0 = rp_recv fd h" for D0 v
  proof -
    obtain v1 where "ReadExact (ce_sockets E) fd 8 v = (None, v1)" using assms(3) [of v] by (cases "ReadExact (ce_sockets E) fd 8 v") simp
    moreover obtain D v2 where e: "reader_exit E (D0, v1) = (D, v2)" by fastforce
    moreover from e have "mReaderThread D = rp_end" "disconnect_count (sim_snapshot D) = disconnect_count (sim_snapshot D0) + 1"
      by (auto simp: reader_exit_def count_def Let_def split: prod.splits if_splits)
    ultimately have "reader_step E ((D0, P), v) = ((D, P), v2)" "mReaderThread D = rp_end"
        "disconnect_count (sim_snapshot D) = disconnect_count (sim_snapshot D0) + 1"
      using at by (simp_all add: reader_step_def)
    moreover have "(reader_step E ^^ 4) s = (reader_step E ^^ 3) (reader_step E s)" for s
      by (simp add: eval_nat_numeral funpow_swap1)
    ultimately show ?thesis using stay [of D 3] by simp
  qed
  obtain now w1 where n: "NowMs (ce_env E) w = (now, w1)" by fastforce
  let ?D0 = "count (\<lambda>n. n\<lparr>disconnect_count := disconnect_count n + 1, cs_connected := False, last_disconnect_ms := now\<rparr>) (C\<lparr>mSocketFd := -1\<rparr>)"
  let ?v = "sk_close (ce_sockets E) (mSocketFd C) (sk_shutdown (ce_sockets E) (mSocketFd C) w1)"
  have "ok r" and j: "join_reader E ((?D0, P), ?v) = ((C', P'), w')" using assms(2,4) n by (auto simp: sim_Disconnect_def Let_def)
  moreover obtain D v' where "(reader_step E ^^ 4) ((?D0, P), ?v) = ((D, P), v')"
      "disconnect_count (sim_snapshot D) = disconnect_count (sim_snapshot ?D0) + 1"
    using key [of ?D0 ?v] assms(1) by (auto simp: count_def)
  ultimately show ?thesis by (auto simp: join_reader_def count_def)
qed

end
