(* ===== verification/Gate_Examples.thy ===== *)
theory Gate_Examples
  imports Gate_Protocol Sample_World
begin

text \<open>
  A concrete gate with two clients, linked to a relay, on which the properties of the gate services are run. The world is the
  queue of bytes in flight; the account directory has no Redis connection.
\<close>

section \<open>The gate\<close>

definition quiet_env :: "'w env" where
  "quiet_env =
     \<lparr>env_now_ms = (\<lambda>w. (5, w)), redisConnect = (\<lambda>h p w. (None, w)), redisFormat = (\<lambda>h c w. (None, w)),
      redisCommand = (\<lambda>h c w. (None, w)), redis_err = (\<lambda>h w. (0, [])), redisFree = (\<lambda>h w. w), mysql_init = (\<lambda>w. (None, w)),
      mysql_real_connect = (\<lambda>h c w. (False, w)), mysql_error = (\<lambda>h w. []), mysql_close = (\<lambda>h w. w), mysql_ping = (\<lambda>h w. (1, w)),
      mysql_query = (\<lambda>h sql w. (1, w)), mysql_escape = (\<lambda>h s w. s), mysql_rows = (\<lambda>h w. (None, w)),
      mysql_field_count = (\<lambda>h w. 0), mysql_affected_rows = (\<lambda>h w. 0)\<rparr>"

definition sample_gate_env :: "u8 list gate_env" where
  "sample_gate_env =
     \<lparr>gte_os = \<lparr>os_env = quiet_env, os_sockets = loop_sockets, os_peer = (\<lambda>fd w. ''p''), os_select = (\<lambda>fds w. ([], w))\<rparr>,
      gte_node = sample_node_env\<lparr>ne_sockets := loop_sockets\<rparr>, gte_wire = sample_wire, gte_handler = (\<lambda>target e s. (Success, s)),
      gte_codec = \<lparr>gcd_client = (\<lambda>m. Some [7]), gcd_process = (\<lambda>m. []), gcd_parse_login = (\<lambda>b. None),
        gcd_parse_heartbeat = (\<lambda>b. False), gcd_parse_player_message = (\<lambda>b. None)\<rparr>,
      gte_time = (\<lambda>w. (0, w))\<rparr>"

definition gate_self :: ProcessDescriptor where
  "gate_self = gate_BuildSelfDescriptor 20 1 \<lparr>host = ''h'', port = 2\<rparr>"

definition a_relay :: ProcessRef where
  "a_relay = \<lparr>process_id = mk_process_id kRelayServiceType 1, incarnation_id = 1\<rparr>"

definition sample_gate_ipc :: gate_ipc where
  "sample_gate_ipc =
     \<lparr>ga_node = (new_node sample_options)
        \<lparr>nd_self := Some gate_self, nd_transport := Some (empty_transport\<lparr>mConnections := [(1, \<lparr>socket_fd = 3, closed = False\<rparr>)]\<rparr>),
         nd_links := Some ((LinkManager_new (process gate_self) 1)
           \<lparr>mLinks := [(1, \<lparr>link_connection_id = 1, remote_process = a_relay, link_state = link_active\<rparr>)]\<rparr>),
         nd_discovery := (EtcdDiscovery_new sample_options)
           \<lparr>ed_mProcesses := [(1, gate_self\<lparr>process := a_relay\<rparr>)]\<rparr>,
         nd_messenger := True, nd_registered := True, nd_transport_ready := True, nd_ipc_ready := True\<rparr>,
      mGateServiceType = 20,
      ga_mProcessReceiverHost = Some \<lparr>proc_self = process gate_self, proc_mDispatchCount = 0, proc_mLastPayloadType = []\<rparr>,
      ga_mServiceReceiverHost = \<lparr>svc_type = 20, svc_mDispatchCount = 0, svc_mLastPayloadType = []\<rparr>,
      ga_mSendRejectCount = 0, ga_mLastSendRejectReason = []\<rparr>"

definition open_connection :: GateConnectionRecord where
  "open_connection = default_connection\<lparr>remote_endpoint := ''p''\<rparr>"

definition sample_gate_state :: gate where
  "sample_gate_state =
     \<lparr>gt_ipc = sample_gate_ipc, gt_accounts = \<lparr>ad_mRedisName = ''default'', ad_mRedisKeyPrefix = [], ad_mRedis = None\<rparr>,
      gt_connections = \<lparr>gc_mConnections = [(1, open_connection), (2, open_connection)],
        mSocketByConnectionId = [(1, 11), (2, 12)], mConnectionIdBySocket = [(11, 1), (12, 2)], mListenHost = ''h'', mListenPort = 5,
        gc_mNextConnectionId = 3, mListenSocketFd = 10, mStopping = False, gc_worker = True\<rparr>,
      gt_sessions = [(1, default_gate_session\<lparr>gs_gate_session_id := 1, gs_connection_id := 1, gs_state := gs_active,
         gs_account_id := ''a'', gs_player_id := 7, gs_game_service_type := 10, gs_game_instance_id := 1\<rparr>)],
      gt_routes = [(7, \<lparr>gr_game_service_type = 10, gr_game_instance_id = 1, gr_gate_session_id = 1, last_update_ms = 5\<rparr>)],
      gt_protocol = \<lparr>encoded_login_response_bytes = 0, encoded_heartbeat_response_bytes = 0, encoded_kick_notification_bytes = 0,
        encoded_player_message_response_bytes = 0, encoded_player_push_bytes = 0\<rparr>,
      gt_login = \<lparr>mGateInstanceId = 1, mPendingLogins = [],
        gl_mSnapshot = \<lparr>gls_request_id = 0, gls_player_id = 0, gls_result_code = RESULT_CODE_UNSPECIFIED, gls_game_service_type = 0,
          gls_game_instance_id = 0, gls_is_reconnect = False, gls_error_message = []\<rparr>, gl_mNextRequestId = 1\<rparr>,
      gt_messages = \<lparr>mPendingMessages = [], gpm_mNextRequestId = 1\<rparr>,
      gt_wiring = \<lparr>wr_ipc = True, wr_accounts = True, wr_connections = True, wr_sessions = True, wr_routing = True,
        wr_protocol = True, wr_auth = True, wr_login = True, wr_send_handler = True\<rparr>\<rparr>"

lemma sample_wired: "wired sample_gate_state" by (simp add: wired_def sample_gate_state_def)

lemma sample_inv: "gate_inv sample_gate_state"
  by (auto simp: gate_inv_def sample_gate_state_def sockets_inv_def sessions_inv_def inverse_maps_def socket_of_def
      connection_state_def open_connection_def default_connection_def split: if_splits)

lemma loop_WriteExact [simp]: "WriteExact loop_sockets fd bytes w = (True, w @ bytes)"
  by (simp add: WriteExact_def WriteExact_from.simps loop_sockets_def closed_sockets_def)

definition data_header :: "u8 list" where
  "data_header = SerializeFrameHeader (default_FrameHeader\<lparr>kind := FK_data, frame_length := 0\<rparr>)"

lemma sample_remote_send:
  "gate_remote_send (sample_node_env\<lparr>ne_sockets := loop_sockets\<rparr>) sample_wire a_relay e (sample_gate_ipc, w) =
    (Success, sample_gate_ipc, w @ data_header)"
  by (simp add: gate_remote_send_def TransportMessageSender_Send_def FindConnection_def sample_gate_ipc_def is_healthy_def
      LinkManager_new_def data_frame_def EncodeDataEnvelope_def sample_wire_def Send_def empty_transport_def data_header_def)

lemma sample_route:
  "SendToProcess (gate_messenger N W H gate_self sample_gate_ipc) (mk_process_id 10 1) m s =
     send_remote (gate_messenger N W H gate_self sample_gate_ipc) a_relay
       (outgoing (gate_messenger N W H gate_self sample_gate_ipc) (ProcessReceiver (mk_process_id 10 1)) m) s"
  by (simp add: SendToProcess_def SendEnvelope.simps gate_messenger_def route_def policy_Resolve_def ResolveProcessReceiver_def
      ResolveSingleTarget_def HasHealthyDirectLink_def sample_gate_ipc_def LinkManager_new_def outgoing_def default_EnvelopeHeader_def
      ProcessReceiver_def annotate_owner_def first_relay_def FindByService_def gate_self_def gate_BuildSelfDescriptor_def mk_process_id_def
      a_relay_def kRelayServiceType_def Find_def EtcdDiscovery_new_def is_healthy_def MakeProcessKey_def routing_context_def Let_def)

lemma gate_sample_send [simp]:
  assumes "gt_ipc g = sample_gate_ipc"
  shows "send_to_process sample_gate_env 10 1 m (g, w) = (Success, g, w @ data_header)"
proof -
  have "nd_messenger (ga_node sample_gate_ipc)" "nd_self (ga_node sample_gate_ipc) = Some gate_self" "IsIpcActiveLocked (ga_node sample_gate_ipc)"
    by (simp_all add: sample_gate_ipc_def IsIpcActiveLocked_def)
  then have "gate_SendProcessPayload (sample_node_env\<lparr>ne_sockets := loop_sockets\<rparr>) sample_wire H (mk_process_id 10 1) p (sample_gate_ipc, w) =
      (Success, sample_gate_ipc, w @ data_header)" for H p
    by (simp add: gate_SendProcessPayload_def sample_route) (simp add: send_remote_def gate_messenger_def sample_remote_send)
  then show ?thesis using assms by (simp add: send_to_process_def sample_gate_env_def)
qed

lemma sample_gate_docs:
  "send_documented (os_sockets (gte_os sample_gate_env)) (\<lambda>w fd. w)" "recv_documented (os_sockets (gte_os sample_gate_env)) (\<lambda>w fd. w)"
  "clock_documented (os_env (gte_os sample_gate_env)) obs"
  by (simp_all add: sample_gate_env_def loop_send loop_recv clock_documented_def quiet_env_def)

lemma quiet_now [simp]: "NowMs quiet_env w = (5, w)" by (simp add: NowMs_def quiet_env_def)

lemma loop_shutdown [simp]: "sk_shutdown loop_sockets fd w = w" "sk_close loop_sockets fd w = w"
  by (simp_all add: loop_sockets_def closed_sockets_def)

lemma sample_gate_env_sel [simp]:
  "os_env (gte_os sample_gate_env) = quiet_env" "os_sockets (gte_os sample_gate_env) = loop_sockets"
  "gcd_client (gte_codec sample_gate_env) m = Some [7]" "gte_time sample_gate_env w = (0, w)"
  by (simp_all add: sample_gate_env_def)

lemmas run_gate = gate_HandleClientLogin_def Validate_def KickExistingAccountSession_def LookupAccount_def kick_local_def
  kick_connection_def client_sends SendMessage_def SendHandler_def with_connections_def gate_Send_def gate_Close_def close_locked_def
  CloseSocketLocked_def FinalizeConnection_def finalize_locked_def DisconnectHandler_def RemoveByConnection_def
  HandleSessionDisconnected_def RemoveAccountIfMatches_def remove_check_def remove_delete_def UnbindPlayer_def open_session_def
  OpenAnonymous_def MarkAnonymous_def MarkBound_def mark_def RequestLogin_def login_request_send_def login_request_register_def
  gate_Snapshot_def gate_FindByAccount_def gate_FindByConnection_def set_connection_def gate_kGameServiceType_def
  HandleLoginResponse_def HandleClientPlayerMessage_defs HandleForwardPlayerMessageResponse_def default_gate_session_def

section \<open>A frame\<close>

theorem client_frame_roundtrip_witness:
  "\<exists>D v. read_client_frame (gte_os sample_gate_env) 1 11 (gt_connections sample_gate_state,
      snd (snd (gate_Send (gte_os sample_gate_env) 1 2002 [7, 8] (gt_connections sample_gate_state, []))) @ [9]) =
      (rd_message 2002 [7, 8], D, v) \<and> v = [9]"
proof -
  obtain C1 w1 where s: "gate_Send (gte_os sample_gate_env) 1 2002 [7, 8] (gt_connections sample_gate_state, []) = (Success, C1, w1)"
    by (simp add: gate_Send_def sample_gate_state_def Let_def)
  have "socket_of (gt_connections sample_gate_state) 1 = Some 11" by (simp add: sample_gate_state_def socket_of_def)
  from client_frame_roundtrip [OF sample_gate_docs(1) sample_gate_docs(3) sample_gate_docs(2) sample_gate_docs(3) s _ _ _ this,
      where v = "w1 @ [9]" and rest = "[9]" and fd' = 11 and cid' = 1 and D = "gt_connections sample_gate_state"] s
  show ?thesis by simp
qed

section \<open>A second login\<close>

definition sample_client_login :: LoginRequest where
  "sample_client_login = \<lparr>cl_platform = ''p'', cl_account_id = ''a'', cl_credential = ''c''\<rparr>"

lemmas gate_defs = sample_gate_state_def sample_gate_env_def quiet_env_def

theorem second_login_replaces_first_witness:
  "\<exists>g' w'. gate_HandleClientLogin sample_gate_env 2 sample_client_login (sample_gate_state, []) = (Success, g', w') \<and> conn_gone g' 1"
proof -
  obtain r g' w' where run: "gate_HandleClientLogin sample_gate_env 2 sample_client_login (sample_gate_state, []) = (r, g', w')"
    by (metis prod_cases3)
  have "r = Success"
    using run by (simp add: run_gate sample_client_login_def Let_def) (simp add: sample_gate_state_def run_gate open_connection_def default_connection_def Let_def)
  let ?s = "default_gate_session\<lparr>gs_gate_session_id := 1, gs_connection_id := 1, gs_state := gs_active,
         gs_account_id := ''a'', gs_player_id := 7, gs_game_service_type := 10, gs_game_instance_id := 1\<rparr>"
  have "owner_session sample_gate_env sample_gate_state (cl_account_id sample_client_login) [] = Some ?s"
    by (simp add: owner_session_def LookupAccount_def sample_gate_state_def gate_FindByAccount_def sample_client_login_def default_gate_session_def)
  from second_login_replaces_first [OF sample_inv sample_wired run _ _ this] \<open>r = Success\<close> run
  show ?thesis by (simp add: sample_client_login_def)
qed

section \<open>A login and its answer\<close>

definition waiting_gate :: gate where
  "waiting_gate = sample_gate_state\<lparr>gt_sessions := [(2, default_gate_session\<lparr>gs_gate_session_id := 2, gs_connection_id := 2\<rparr>)]\<rparr>"

lemma waiting_gate_ok: "gate_inv waiting_gate" "wired waiting_gate"
  using sample_inv sample_wired by (simp_all add: waiting_gate_def gate_inv_def wired_def sessions_inv_def sample_gate_state_def)

definition game_envelope :: Envelope where
  "game_envelope = default_Envelope\<lparr>header := default_EnvelopeHeader\<lparr>target_receiver := ProcessReceiver (mk_process_id 10 1)\<rparr>\<rparr>"

definition game_request :: "u64 \<Rightarrow> LoginPlayerRequest" where
  "game_request rid = \<lparr>lq_request_id = rid, lq_gate = \<lparr>gate_service_type = 20, gate_instance_id = 1, gate_session_id = 2\<rparr>,
     lq_platform = ''p'', lq_account_id = ''b'', lq_area_id = 1\<rparr>"

theorem login_reaches_the_game_that_was_asked_witness:
  "\<exists>g1 w1. RequestLogin sample_gate_env 1 2 2 ''p'' ''b'' 1 (waiting_gate, []) = (Success, g1, w1) \<and>
     (\<exists>rt. route_Snapshot 9 (gt_routes (fst (snd (HandleLoginResponse sample_gate_env
        (login_response game_envelope (game_request 1) 9 Success) (g1, w1))))) = Some rt \<and> gr_gate_session_id rt = 2)"
proof -
  let ?a = "login_response game_envelope (game_request 1) 9 Success"
  obtain r g1 w1 where run: "RequestLogin sample_gate_env 1 2 2 ''p'' ''b'' 1 (waiting_gate, []) = (r, g1, w1)" by (metis prod_cases3)
  have r: "r = Success" using run by (simp add: run_gate waiting_gate_def sample_gate_state_def Let_def)
  obtain r2 g2 w2 where answer: "HandleLoginResponse sample_gate_env ?a (g1, w1) = (r2, g2, w2)" by (metis prod_cases3)
  have "gate_Snapshot 2 (gt_sessions waiting_gate) = Some (default_gate_session\<lparr>gs_gate_session_id := 2, gs_connection_id := 2\<rparr>)"
    "connection_state (gt_connections waiting_gate) 2 \<noteq> None"
    "target_receiver (header game_envelope) = ProcessReceiver (mk_process_id (ucast gate_kGameServiceType) (ucast (1 :: u32)))"
    "lq_request_id (game_request 1) = gl_mNextRequestId (gt_login waiting_gate)"
    by (simp_all add: waiting_gate_def gate_Snapshot_def sample_gate_state_def connection_state_def game_envelope_def gate_kGameServiceType_def
        game_request_def default_Envelope_def default_EnvelopeHeader_def)
  from login_reaches_the_game_that_was_asked [OF waiting_gate_ok run _ this answer] r run answer show ?thesis by auto
qed

section \<open>An answer that comes too late\<close>

definition left_gate :: gate where
  "left_gate = sample_gate_state\<lparr>gt_connections := (gt_connections sample_gate_state)
       \<lparr>gc_mConnections := [(1, open_connection), (2, open_connection\<lparr>gcr_state := gc_closed\<rparr>)],
        mSocketByConnectionId := [(1, 11)], mConnectionIdBySocket := [(11, 1)]\<rparr>,
     gt_login := (gt_login sample_gate_state)
       \<lparr>mPendingLogins := [(1, \<lparr>pl_connection_id = 2, pl_gate_session_id = 2, pl_account_id = ''b''\<rparr>)]\<rparr>\<rparr>"

text \<open>The same gate on a server that keeps keys; no byte can be written, and none is.\<close>

definition keyed_gate_env :: "memory_world gate_env" where
  "keyed_gate_env =
     \<lparr>gte_os = \<lparr>os_env = (memory_env [] [])\<lparr>redisCommand := (\<lambda>h argv w. mem_command [] [] h argv (w\<lparr>mem_down := False\<rparr>))\<rparr>,
        os_sockets = closed_sockets, os_peer = (\<lambda>fd w. ''p''), os_select = (\<lambda>fds w. ([], w))\<rparr>,
      gte_node = sample_node_env, gte_wire = sample_wire, gte_handler = (\<lambda>target e s. (Success, s)),
      gte_codec = gte_codec sample_gate_env, gte_time = (\<lambda>w. (0, w))\<rparr>"

lemma keyed_server:
  "set_documented (os_env (gte_os keyed_gate_env)) h mem_kv"
  "\<forall>k v w. fst (redisCommand (os_env (gte_os keyed_gate_env)) h [''SET'', k, v] w) = Some (REDIS_STATUS ''OK'')"
  by (auto simp: set_documented_def keyed_gate_env_def memory_env_def mem_command_def mem_kv_def)

definition keyed_left_gate :: gate where
  "keyed_left_gate = left_gate\<lparr>gt_accounts := (gt_accounts left_gate)\<lparr>ad_mRedis := Some 1\<rparr>\<rparr>"

theorem late_login_answer_leaks_witness:
  "\<exists>r g' w'. HandleLoginResponse keyed_gate_env (login_response game_envelope (game_request 1) 9 Success) (keyed_left_gate, memory_world0) =
      (r, g', w') \<and> \<not> ok r \<and> gate_Snapshot 2 (gt_sessions g') = None \<and>
     owner_in (gt_accounts g') (mem_kv w') ''b'' = Some (self_owner keyed_left_gate 2)"
proof -
  let ?a = "login_response game_envelope (game_request 1) 9 Success"
  have inv: "gate_inv keyed_left_gate" "wired keyed_left_gate"
    using sample_inv sample_wired
    by (auto simp: keyed_left_gate_def left_gate_def gate_inv_def wired_def sample_gate_state_def sockets_inv_def inverse_maps_def socket_of_def
        connection_state_def open_connection_def default_connection_def split: if_splits)
  have g: "conn_gone keyed_left_gate 2" "connection_state (gt_connections keyed_left_gate) 2 = Some gc_closed"
    "map_of (mPendingLogins (gt_login keyed_left_gate)) (lr_request_id ?a) =
       Some \<lparr>pl_connection_id = 2, pl_gate_session_id = 2, pl_account_id = ''b''\<rparr>" "lr_result_code ?a = RESULT_CODE_OK"
    "ad_mRedis (gt_accounts keyed_left_gate) = Some 1"
    by (simp_all add: keyed_left_gate_def left_gate_def conn_gone_def sample_gate_state_def socket_of_def connection_state_def
        gate_FindByConnection_def login_response_def game_request_def)
  obtain r g' w' where run: "HandleLoginResponse keyed_gate_env ?a (keyed_left_gate, memory_world0) = (r, g', w')" by (metis prod_cases3)
  show ?thesis using late_login_answer_leaks [OF inv g keyed_server run] run by auto
qed

section \<open>A player message\<close>

definition sample_player_message :: PlayerMessageRequest where
  "sample_player_message = \<lparr>cm_header = \<lparr>qh_message_id = 3101, qh_sequence = 1, qh_timestamp_ms = 0\<rparr>, cm_payload = ''x''\<rparr>"

definition sample_answer :: ForwardPlayerMessageResponse where
  "sample_answer = \<lparr>fr_request_id = 1, fr_player_id = 7, fr_message_id = 3101, fr_result_code = RESULT_CODE_OK,
     fr_response_payload_bytes = ''y'', fr_server_sequence = 1, fr_error_message = []\<rparr>"

theorem answer_returns_to_the_asker_witness:
  "\<exists>g1 w1 g2 w2. HandleClientPlayerMessage sample_gate_env 1 sample_player_message (sample_gate_state, []) = (Success, g1, w1) \<and>
     HandleForwardPlayerMessageResponse sample_gate_env sample_answer (g1, []) = (Success, g2, w2) \<and>
     w2 = client_header 3002 1 @ [7] \<and>
     HandleForwardPlayerMessageResponse sample_gate_env sample_answer (g2, w2) = (Failure ''missing pending player message'', g2, w2)"
proof -
  obtain r g1 w1 where ask: "HandleClientPlayerMessage sample_gate_env 1 sample_player_message (sample_gate_state, []) = (r, g1, w1)"
    by (metis prod_cases3)
  obtain r2 g2 w2 where answer: "HandleForwardPlayerMessageResponse sample_gate_env sample_answer (g1, []) = (r2, g2, w2)"
    by (metis prod_cases3)
  have ok: "r = Success"
    using ask by (auto simp: run_gate sample_gate_state_def Let_def)
  have ok2: "r2 = Success"
    using ask answer by (auto simp: run_gate sample_gate_state_def sample_answer_def pending_of_def Let_def)
  have "fr_request_id sample_answer = gpm_mNextRequestId (gt_messages sample_gate_state)"
    by (simp add: sample_answer_def sample_gate_state_def)
  from answer_returns_to_the_asker [OF sample_gate_docs(1,3) sample_inv sample_wired ask _ this answer] ok ok2 ask answer
  show ?thesis by auto
qed

end
