(* ===== verification/Sim_Examples.thy ===== *)
theory Sim_Examples
  imports Sim_Gate Gate_Examples
begin

text \<open>A client that is connected to a gate, with codecs that know just the messages of one login.\<close>

definition first_login :: client_login where
  "first_login = login_of (default_SimClientConfiguration\<lparr>default_account_id := ''a''\<rparr>)"

definition first_answer :: client_message where
  "first_answer = LoginResponse (response_header 2001 ERROR_CODE_OK ''OK'') 7 False"

definition sample_client_codec :: client_codec where
  "sample_client_codec = \<lparr>cc_login = (\<lambda>m. if m = first_login then Some [1] else None), cc_heartbeat = (\<lambda>h. Some [2]),
     cc_player_message = (\<lambda>m. None), cc_echo = (\<lambda>s. None), cc_rename = (\<lambda>s. None),
     cc_parse_login_response = (\<lambda>b. Some (response_header 2001 ERROR_CODE_OK ''OK'', 7)), cc_parse_heartbeat_response = (\<lambda>b. True),
     cc_parse_kick = (\<lambda>b. None), cc_parse_player_response = (\<lambda>b. None), cc_parse_echo_response = (\<lambda>s. None),
     cc_parse_rename_response = (\<lambda>s. None), cc_parse_push = (\<lambda>b. None), cc_parse_profile_push = (\<lambda>s. None)\<rparr>"

definition sample_client_env :: "u8 list client_env" where
  "sample_client_env = \<lparr>ce_env = quiet_env, ce_sockets = loop_sockets, ce_codec = sample_client_codec\<rparr>"

definition agreeing_gate_env :: "u8 list gate_env" where
  "agreeing_gate_env = sample_gate_env\<lparr>gte_codec := (gte_codec sample_gate_env)
     \<lparr>gcd_client := (\<lambda>m. if m = first_answer then Some [7] else None), gcd_parse_heartbeat := (\<lambda>b. True),
      gcd_parse_login := (\<lambda>b. Some \<lparr>cl_platform = ''dev'', cl_account_id = ''a'', cl_credential = ''sim-token''\<rparr>)\<rparr>\<rparr>"

definition sample_client :: sim_client where
  "sample_client = (let cl = fst (sim_RegisterServices default_SimClientConfiguration) in
     cl\<lparr>cl_connection := (cl_connection cl)\<lparr>mSocketFd := 3, mReaderThread := rp_recv 3 True\<rparr>\<rparr>)"

lemma sample_codecs_agree: "codecs_agree sample_client_codec (gte_codec agreeing_gate_env)"
  by (auto simp: codecs_agree_def sample_client_codec_def agreeing_gate_env_def first_login_def first_answer_def login_of_def
      default_SimClientConfiguration_def split: if_splits)

lemma agreeing_env [simp]: "os_sockets (gte_os agreeing_gate_env) = loop_sockets" "os_env (gte_os agreeing_gate_env) = quiet_env"
  "gte_os agreeing_gate_env = gte_os sample_gate_env"
  by (simp_all add: agreeing_gate_env_def sample_gate_env_def)

lemma quiet_clock: "clock_documented quiet_env obs"
  by (simp add: clock_documented_def quiet_env_def)

lemma sample_documented:
  "send_documented (ce_sockets sample_client_env) (\<lambda>w fd. w)" "recv_documented (ce_sockets sample_client_env) (\<lambda>w fd. w)"
  "send_documented (os_sockets (gte_os agreeing_gate_env)) (\<lambda>w fd. w)" "recv_documented (os_sockets (gte_os agreeing_gate_env)) (\<lambda>w fd. w)"
  "clock_documented (os_env (gte_os agreeing_gate_env)) obs" "codecs_agree (ce_codec sample_client_env) (gte_codec agreeing_gate_env)"
  using loop_send loop_recv sample_codecs_agree by (simp_all add: sample_client_env_def sample_gate_env_def quiet_clock)

lemma sample_SendFrame:
  "0 \<le> mSocketFd C \<Longrightarrow> SendFrame sample_client_env mid bytes (C, w) =
     (Success, count (\<lambda>n. n\<lparr>sent_frame_count := sent_frame_count n + 1\<rparr>) C, w @ frame_bytes mid bytes)"
  by (auto simp: SendFrame_def sample_client_env_def frame_bytes_def)

lemma sample_scenario: "\<exists>cl'. scenario_Run sample_client_env ''login_smoke'' ''a'' (sample_client, []) = (Success, cl', frame_bytes 1001 [1] @ frame_bytes 1002 [2])"
proof -
  have codec: "ce_codec sample_client_env = sample_client_codec" by (simp add: sample_client_env_def)
  show ?thesis
    by (simp add: scenario_Run_def scenario_steps_def on_protocol_def SetAccountId_def sample_client_def sim_RegisterServices_def
      new_ConnectionService_def new_ProtocolService_def SetMessageHandler_def unless_message_def on_connection_def sim_Connect_def count_def
      send_built_def BuildDefaultLoginFrame_def EncodeDefaultLogin_def BuildHeartbeatFrame_def EncodeHeartbeat_def codec
      sample_client_codec_def first_login_def encoded_def sample_SendFrame Let_def)
qed

theorem login_smoke_reaches_the_gate_witness:
  "\<exists>r cl' w' login heartbeat. scenario_Run sample_client_env ''login_smoke'' ''a'' (sample_client, []) = (r, cl', w') \<and> ok r \<and>
     w' = frame_bytes 1001 login @ frame_bytes 1002 heartbeat"
proof -
  obtain cl' where run: "scenario_Run sample_client_env ''login_smoke'' ''a'' (sample_client, []) =
    (Success, cl', frame_bytes 1001 [1] @ frame_bytes 1002 [2])" using sample_scenario by blast
  have "3 = mSocketFd (cl_connection sample_client)" by (simp add: sample_client_def Let_def)
  note gate = login_smoke_reaches_the_gate [OF sample_documented(1) run _ _ this _ sample_documented(4-6)]
  have "\<exists>login heartbeat. frame_bytes 1001 [1] @ frame_bytes 1002 [2] = [] @ frame_bytes 1001 login @ frame_bytes 1002 heartbeat"
    using gate by auto
  then show ?thesis using run by (metis append_Nil ok_Success)
qed

theorem login_answer_reaches_the_client_witness:
  "\<exists>r g' w' C' P' v'. SendLoginResponse agreeing_gate_env 1 7 False ERROR_CODE_OK ''OK'' (sample_gate_state, []) = (r, g', w') \<and> ok r \<and>
     (reader_step sample_client_env ^^ 2) ((cl_connection sample_client, cl_protocol sample_client), w') = ((C', P'), v') \<and>
     v' = [] \<and> last_login_player_id (sp_mSnapshot P') = 7 \<and> last_login_ok (sp_mSnapshot P')"
proof -
  obtain r g' w' where run: "SendLoginResponse agreeing_gate_env 1 7 False ERROR_CODE_OK ''OK'' (sample_gate_state, []) = (r, g', w')"
    by (metis prod_cases3)
  have "ok r"
    using run by (auto simp: SendLoginResponse_def SendMessage_def SendHandler_def with_connections_def gate_Send_def agreeing_gate_env_def
        first_answer_def sample_gate_state_def Let_def split: prod.splits option.splits)
  from login_answer_reaches_the_client [OF sample_documented(3,5,2,6) run this]
  obtain bytes where "w' = [] @ frame_bytes 2001 bytes"
    and all: "\<forall>C P v peer rest. mReaderThread C = rp_recv peer True \<longrightarrow> v = frame_bytes 2001 bytes @ rest \<longrightarrow>
        (\<exists>C' P' v'. (reader_step sample_client_env ^^ 2) ((C, P), v) = ((C', P'), v') \<and> v' = rest \<and> mReaderThread C' = rp_top \<and>
           last_login_player_id (sp_mSnapshot P') = 7 \<and> (last_login_ok (sp_mSnapshot P') \<longleftrightarrow> ERROR_CODE_OK = ERROR_CODE_OK) \<and>
           last_login_error_message (sp_mSnapshot P') = ''OK'')"
    by blast
  then show ?thesis
    using all [rule_format, of "cl_connection sample_client" 3 w' "[]" "cl_protocol sample_client"] run \<open>ok r\<close>
    by (auto simp: sample_client_def Let_def)
qed

end
