(* ===== verification/Ipc_Status.thy ===== *)
theory Ipc_Status
  imports Relay_Process Gate_Ipc Game_Ipc Console
begin

text \<open>
  What the IPC services report of themselves (\<^verbatim>\<open>Snapshot\<close> in src/src/common/ipc/ipc_node_service_base.cpp and the services of game,
  gate and relay) and the runtime commands that game and relay share up to the name they print.
\<close>

section \<open>Snapshots\<close>

record EtcdDiscoveryRuntimeStats =
  rs_watch_restart_count :: u64
  rs_watch_start_failure_count :: u64
  rs_watch_stream_closed_count :: u64
  rs_snapshot_refresh_failure_count :: u64

definition RuntimeStats :: "EtcdDiscovery \<Rightarrow> EtcdDiscoveryRuntimeStats" where
  "RuntimeStats d = \<lparr>rs_watch_restart_count = watch_restart_count d, rs_watch_start_failure_count = watch_start_failure_count d,
     rs_watch_stream_closed_count = watch_stream_closed_count d,
     rs_snapshot_refresh_failure_count = snapshot_refresh_failure_count d\<rparr>"

text \<open>A pair of a \<^verbatim>\<open>has_\<close> flag and a value is an option.\<close>

record IpcNodeBaseStatusSnapshot =
  st_self :: "ProcessDescriptor option"
  st_transport_ready :: bool
  st_registered :: bool
  st_ipc_ready :: bool
  st_membership_degraded :: bool
  st_keepalive_running :: bool
  st_watch_running :: bool
  st_keepalive_failure_count :: u64
  st_discovery_recovery_success_count :: u64
  st_discovery_recovery_failure_count :: u64
  st_discovery_runtime :: EtcdDiscoveryRuntimeStats
  st_member_count :: nat
  st_auto_connect_targets :: nat
  st_auto_connect_success_count :: u64
  st_auto_connect_failure_count :: u64
  st_last_auto_connect_target :: "ProcessRef option"
  st_last_auto_connect_failure_target :: "ProcessRef option"
  st_last_auto_connect_failure_reason :: string
  st_last_error :: string

text \<open>
  \<open>watching\<close> is \<^verbatim>\<open>WatchRunning\<close> of the backend, which \<^verbatim>\<open>EtcdDiscovery::WatchRunning\<close> asks. The keepalive thread sets its flag
  when it begins, which here is when it is started.
\<close>

definition SnapshotBaseStatusLocked :: "bool \<Rightarrow> 'h node \<Rightarrow> IpcNodeBaseStatusSnapshot" where
  "SnapshotBaseStatusLocked watching N =
     \<lparr>st_self = nd_self N, st_transport_ready = nd_transport_ready N, st_registered = nd_registered N, st_ipc_ready = nd_ipc_ready N,
      st_membership_degraded = (nd_transport_ready N \<and> \<not> nd_registered N \<and> \<not> nd_ipc_ready N),
      st_keepalive_running = nd_keepalive_thread N, st_watch_running = watching,
      st_keepalive_failure_count = keepalive_failure_count N,
      st_discovery_recovery_success_count = discovery_recovery_success_count N,
      st_discovery_recovery_failure_count = discovery_recovery_failure_count N,
      st_discovery_runtime = RuntimeStats (nd_discovery N), st_member_count = length (Members N),
      st_auto_connect_targets = length (auto_connect_attempts N), st_auto_connect_success_count = auto_connect_success_count N,
      st_auto_connect_failure_count = auto_connect_failure_count N, st_last_auto_connect_target = last_auto_connect_target N,
      st_last_auto_connect_failure_target = last_auto_connect_failure_target N,
      st_last_auto_connect_failure_reason = last_auto_connect_failure_reason N, st_last_error = nd_last_error N\<rparr>"

text \<open>The statuses of the roles repeat the fields of the base and add their own.\<close>

record RelayIpcStatus = IpcNodeBaseStatusSnapshot +
  st_forward_failure_count :: u64
  st_last_forward_failure_reason :: string
  st_visible_game_members :: nat
  st_healthy_game_links :: nat
  st_forwarded_data_frame_count :: u64

record GateIpcStatus = IpcNodeBaseStatusSnapshot +
  st_send_reject_count :: u64
  st_last_send_reject_reason :: string
  st_relay_member_visible :: bool
  st_healthy_relay_link :: bool
  st_process_dispatch_count :: u64
  st_last_process_payload_type :: string
  st_local_service_dispatch_count :: u64
  st_last_payload_type :: string

record GameIpcClientStatus = GateIpcStatus +
  st_player_dispatch_count :: u64
  st_last_player_id :: u64
  st_last_player_payload_type :: string

definition relay_Snapshot :: "bool \<Rightarrow> relay_counters \<Rightarrow> 'h node \<Rightarrow> RelayIpcStatus" where
  "relay_Snapshot watching c N = IpcNodeBaseStatusSnapshot.extend (SnapshotBaseStatusLocked watching N)
     (RelayIpcStatus.fields (mForwardFailureCount c) (mLastForwardFailureReason c)
        (length (filter (\<lambda>m. service_type (process_id (process m)) = kGameServiceType) (Members N)))
        (length (filter (\<lambda>p. service_type (process_id p) = kGameServiceType) (HealthyLinks N))) (mForwardedDataFrameCount c))"

definition process_dispatches :: "process_host option \<Rightarrow> u64 \<times> string" where
  "process_dispatches h = (case h of None \<Rightarrow> (0, []) | Some p \<Rightarrow> (proc_mDispatchCount p, proc_mLastPayloadType p))"

definition gate_ipc_Snapshot :: "bool \<Rightarrow> gate_ipc \<Rightarrow> GateIpcStatus" where
  "gate_ipc_Snapshot watching g = (let N = ga_node g; h = ga_mServiceReceiverHost g in
     IpcNodeBaseStatusSnapshot.extend (SnapshotBaseStatusLocked watching N)
       (GateIpcStatus.fields (ga_mSendRejectCount g) (ga_mLastSendRejectReason g)
          (HasMemberOfServiceType (Members N) kRelayServiceType) (HasHealthyLinkOfServiceType (HealthyLinks N) kRelayServiceType)
          (fst (process_dispatches (ga_mProcessReceiverHost g))) (snd (process_dispatches (ga_mProcessReceiverHost g)))
          (svc_mDispatchCount h) (svc_mLastPayloadType h)))"

definition game_ipc_Snapshot :: "bool \<Rightarrow> game_ipc \<Rightarrow> GameIpcClientStatus" where
  "game_ipc_Snapshot watching g = (let N = gi_node g; h = mServiceReceiverHost g; p = mPlayerReceiverHost g in
     GateIpcStatus.extend
       (IpcNodeBaseStatusSnapshot.extend (SnapshotBaseStatusLocked watching N)
          (GateIpcStatus.fields (mSendRejectCount g) (mLastSendRejectReason g)
             (HasMemberOfServiceType (Members N) kRelayServiceType) (HasHealthyLinkOfServiceType (HealthyLinks N) kRelayServiceType)
             (fst (process_dispatches (mProcessReceiverHost g))) (snd (process_dispatches (mProcessReceiverHost g)))
             (svc_mDispatchCount h) (svc_mLastPayloadType h)))
       (GameIpcClientStatus.fields (ph_mDispatchCount p) (mLastPlayerId p) (ph_mLastPayloadType p)))"

record GameLocalReceiverSnapshot =
  lr_process_receiver :: ProcessRef
  lr_service_receiver :: ReceiverAddress
  lr_local_player_ids :: "u64 list"

definition LocalReceivers :: "game_ipc \<Rightarrow> GameLocalReceiverSnapshot" where
  "LocalReceivers g = \<lparr>lr_process_receiver = (case nd_self (gi_node g) of None \<Rightarrow> default_ProcessRef | Some s \<Rightarrow> process s),
     lr_service_receiver = LocalServiceReceiverAddress (gi_service_type g),
     lr_local_player_ids = sort (BoundPlayers (mPlayerReceiverHost g))\<rparr>"

section \<open>Words of a line\<close>

fun MembershipEventType_ToString :: "MembershipEventType \<Rightarrow> string" where
  "MembershipEventType_ToString me_added = ''added''"
| "MembershipEventType_ToString me_updated = ''updated''"
| "MembershipEventType_ToString me_removed = ''removed''"

definition id_words :: "ProcessRef \<Rightarrow> string list" where
  "id_words p = [to_string (service_type (process_id p)), to_string (instance_id (process_id p))]"

definition self_words :: "('a) IpcNodeBaseStatusSnapshot_scheme \<Rightarrow> string list" where
  "self_words s = (case st_self s of None \<Rightarrow> id_words default_ProcessRef | Some d \<Rightarrow> id_words (process d))"

definition target_words :: "ProcessRef option \<Rightarrow> string list" where
  "target_words t = (case t of None \<Rightarrow> [''0'', ''0''] | Some p \<Rightarrow> id_words p)"

text \<open>Fields that the status lines print in the same order.\<close>

definition flag_words :: "('a) IpcNodeBaseStatusSnapshot_scheme \<Rightarrow> string list" where
  "flag_words s = map show_bool [st_transport_ready s, st_registered s, st_ipc_ready s, st_membership_degraded s,
     st_keepalive_running s, st_watch_running s]"

definition auto_connect_words :: "('a) IpcNodeBaseStatusSnapshot_scheme \<Rightarrow> string list" where
  "auto_connect_words s = [show_nat (st_auto_connect_targets s), to_string (st_auto_connect_success_count s),
     to_string (st_auto_connect_failure_count s)] @ target_words (st_last_auto_connect_target s) @
     target_words (st_last_auto_connect_failure_target s) @ [or_none (st_last_auto_connect_failure_reason s)]"

definition watch_words :: "('a) IpcNodeBaseStatusSnapshot_scheme \<Rightarrow> string list" where
  "watch_words s = (let d = st_discovery_runtime s in map to_string [rs_watch_restart_count d, rs_watch_start_failure_count d,
     rs_watch_stream_closed_count d, rs_snapshot_refresh_failure_count d])"

definition auto_connect_format :: string where
  "auto_connect_format = ''auto_connect_targets={} auto_connect_success_count={} auto_connect_failure_count={} '' @
     ''last_auto_connect_target={}:{} last_auto_connect_failure_target={}:{} last_auto_connect_failure_reason={}''"

definition watch_format :: string where
  "watch_format = ''watch_restart_count={} watch_start_failure_count={} watch_stream_closed_count={} snapshot_refresh_failure_count={}''"

definition bootstrap_format :: string where
  "bootstrap_format = ''service_type={} instance_id={} transport_ready={} registered={} ipc_ready={} membership_degraded={} '' @
     ''keepalive_running={} watch_running={} members={} ''"

definition bootstrap_words :: "('a) IpcNodeBaseStatusSnapshot_scheme \<Rightarrow> string list" where
  "bootstrap_words s = self_words s @ flag_words s @ [show_nat (st_member_count s)]"

section \<open>Commands on a node\<close>

text \<open>Each is used by the game and by the relay, which print their name first.\<close>

definition event_line :: "string \<Rightarrow> MembershipEvent \<Rightarrow> log_line" where
  "event_line name e = info_line (fmt (name @ '' ipc event: type={} service_type={} instance_id={} incarnation={}'')
     (MembershipEventType_ToString (me_type e) # id_words (process (me_process e)) @ [to_string (incarnation_id (process (me_process e)))]))"

definition refresh_lines :: "string \<Rightarrow> 'w node_env \<Rightarrow> 'h node \<times> 'w \<Rightarrow> log_line list \<times> 'h node \<times> 'w" where
  "refresh_lines name E s = (let (r, N, w) = RefreshDiscovery E s in
     if \<not> ok r then ([warn_line (fmt (name @ '' ipc refresh failed: {}'') [message r])], N, w)
     else let (es, N1) = DrainMembershipEvents N in
       (info_line (fmt (name @ '' ipc refresh: members={} events={}'') [show_nat (length (Members N1)), show_nat (length es)]) #
        map (event_line name) es, N1, w))"

definition keepalive_lines :: "string \<Rightarrow> 'w node_env \<Rightarrow> 'h node \<times> 'w \<Rightarrow> log_line list \<times> 'h node \<times> 'w" where
  "keepalive_lines name E s = (let (r, N, w) = node_KeepAliveOnce E s in
     (if \<not> ok r then [warn_line (fmt (name @ '' ipc keepalive failed: {}'') [message r])]
      else [info_line (name @ '' ipc keepalive: ok'')], N, w))"

definition member_line :: "string \<Rightarrow> ProcessDescriptor \<Rightarrow> log_line" where
  "member_line name m = info_line (fmt (name @ '' ipc member: service={} service_type={} instance_id={} host={} port={}'')
     (service_name m # id_words (process m) @ [host (listen_endpoint m), to_string (port (listen_endpoint m))]))"

definition members_lines :: "string \<Rightarrow> 'h node \<Rightarrow> log_line list" where
  "members_lines name N = info_line (fmt (name @ '' ipc members: count={}'') [show_nat (length (Members N))]) #
     map (member_line name) (Members N)"

definition link_line :: "string \<Rightarrow> ProcessRef \<Rightarrow> log_line" where
  "link_line name p = info_line (fmt (name @ '' ipc link: service_type={} instance_id={} incarnation={}'')
     (id_words p @ [to_string (incarnation_id p)]))"

definition links_lines :: "string \<Rightarrow> 'h node \<Rightarrow> log_line list" where
  "links_lines name N = info_line (fmt (name @ '' ipc links: count={}'') [show_nat (length (HealthyLinks N))]) #
     map (link_line name) (HealthyLinks N)"

definition topology_link_line :: "string \<Rightarrow> (ServiceType \<Rightarrow> string) \<Rightarrow> ProcessRef \<Rightarrow> log_line" where
  "topology_link_line name role p = info_line
     (fmt (name @ '' ipc topology link: service_type={} instance_id={} incarnation={} role={}'')
       (id_words p @ [to_string (incarnation_id p), role (service_type (process_id p))]))"

section \<open>Facts\<close>

lemma snapshot_only_reads [simp]:
  "st_member_count (SnapshotBaseStatusLocked b N) = length (Members N)"
  "st_membership_degraded (SnapshotBaseStatusLocked b N) \<longleftrightarrow> nd_transport_ready N \<and> \<not> nd_registered N \<and> \<not> nd_ipc_ready N"
  by (simp_all add: SnapshotBaseStatusLocked_def)

text \<open>After a refresh at the console no membership event is left for the auto-connect loop.\<close>

lemma refresh_lines_drains:
  assumes "refresh_lines name E s = (ls, N, w)" and "ok (fst (RefreshDiscovery E s))"
  shows "ed_mEvents (nd_discovery N) = []"
  using assms by (auto simp: refresh_lines_def DrainMembershipEvents_def ed_DrainEvents_def Let_def split: prod.splits)

lemma refresh_lines_inv: "refresh_lines name E (N, w) = (ls, N', w') \<Longrightarrow> node_flag_bits N' = node_flag_bits N"
  by (auto simp: refresh_lines_def Let_def split: prod.splits if_splits dest!: RefreshDiscovery_flags DrainMembershipEvents_flags)

lemma keepalive_lines_inv: "keepalive_lines name E (N, w) = (ls, N', w') \<Longrightarrow> node_flag_bits N' = node_flag_bits N"
  by (auto simp: keepalive_lines_def split: prod.splits dest!: node_KeepAliveOnce_flags)

end
