(* ===== verification/Relay_Application.thy ===== *)
theory Relay_Application
  imports Ipc_Status
begin

text \<open>
  The relay application (src/src/relay/application.cpp): its service and its runtime commands over the IPC node. A word that is
  not a number ends the process, as the numbers of \<^verbatim>\<open>ipc_connect\<close> are read outside any handler.
\<close>

section \<open>State and services\<close>

record RelayConfiguration =
  relay_instance_id :: u32
  relay_discovery :: EtcdDiscoveryOptions

record relay_app =
  ra_registered :: bool \<comment> \<open>whether \<^verbatim>\<open>mIpcService\<close> is set\<close>
  ra_counters :: relay_counters
  ra_node :: "unit node"

definition relay_RegisterServices :: "RelayConfiguration \<Rightarrow> relay_app \<times> service list" where
  "relay_RegisterServices c =
     (\<lparr>ra_registered = True,
       ra_counters = no_forwards,
       ra_node = new_node (relay_discovery c)\<rparr>,
      [\<lparr>GetName = ''relay_ipc'', GetBatch = 100\<rparr>])"

type_synonym 'w relay_command = "(relay_app \<times> 'w) command_body"

definition relay_guard :: "string \<Rightarrow> 'w relay_command \<Rightarrow> 'w relay_command" where
  "relay_guard what body arguments s =
     (if \<not> ra_registered (fst s) then refuse (''relay ipc '' @ what @ '': service not registered'') s else body arguments s)"

definition relay_on_node :: "(unit node \<times> 'w \<Rightarrow> log_line list \<times> unit node \<times> 'w) \<Rightarrow> 'w relay_command" where
  "relay_on_node f arguments s = (let (A, w) = s; (lines, N, w') = f (ra_node A, w) in (returned lines, A\<lparr>ra_node := N\<rparr>, w'))"

section \<open>Commands\<close>

definition relay_ipc_status :: "('w \<Rightarrow> bool) \<Rightarrow> 'w relay_command" where
  "relay_ipc_status watching = relay_guard ''status'' (\<lambda>_ s. let st = relay_Snapshot (watching (snd s)) (ra_counters (fst s)) (ra_node (fst s)) in
     inform (''relay ipc status: '' @ bootstrap_format @ ''visible_game_members={} healthy_game_links={} '' @ auto_connect_format @
         '' forwarded_data_frame_count={} last_error={}'')
       (bootstrap_words st @ [show_nat (st_visible_game_members st), show_nat (st_healthy_game_links st)] @ auto_connect_words st @
        [to_string (st_forwarded_data_frame_count st), or_none (st_last_error st)]) s)"

definition relay_ipc_refresh :: "'w node_env \<Rightarrow> 'w relay_command" where
  "relay_ipc_refresh E = relay_guard ''refresh'' (relay_on_node (refresh_lines ''relay'' E))"

definition relay_ipc_keepalive :: "'w node_env \<Rightarrow> 'w relay_command" where
  "relay_ipc_keepalive E = relay_guard ''keepalive'' (relay_on_node (keepalive_lines ''relay'' E))"

definition relay_ipc_members :: "'w relay_command" where
  "relay_ipc_members = relay_guard ''members'' (\<lambda>_ s. (returned (members_lines ''relay'' (ra_node (fst s))), s))"

definition relay_ipc_topology :: "('w \<Rightarrow> bool) \<Rightarrow> 'w relay_command" where
  "relay_ipc_topology watching = relay_guard ''topology'' (\<lambda>_ s.
     let st = relay_Snapshot (watching (snd s)) (ra_counters (fst s)) (ra_node (fst s)) in
     (returned (info_line (fmt (''relay ipc topology: visible_game_members={} healthy_game_links={} '' @ auto_connect_format @
          '' forwarded_data_frame_count={}'')
        ([show_nat (st_visible_game_members st), show_nat (st_healthy_game_links st)] @ auto_connect_words st @
         [to_string (st_forwarded_data_frame_count st)])) #
       map (topology_link_line ''relay'' (\<lambda>ty. if ty = kRelayServiceType then ''relay'' else ''game'')) (HealthyLinks (ra_node (fst s)))), s))"

definition relay_ipc_metrics :: "('w \<Rightarrow> bool) \<Rightarrow> 'w relay_command" where
  "relay_ipc_metrics watching = relay_guard ''metrics'' (\<lambda>_ s.
     let st = relay_Snapshot (watching (snd s)) (ra_counters (fst s)) (ra_node (fst s)) in
     inform (''relay ipc metrics: keepalive_failure_count={} discovery_recovery_success_count={} discovery_recovery_failure_count={} '' @
         ''forward_failure_count={} last_forward_failure_reason={} forwarded_data_frame_count={} '' @ watch_format)
       ([to_string (st_keepalive_failure_count st), to_string (st_discovery_recovery_success_count st),
         to_string (st_discovery_recovery_failure_count st), to_string (st_forward_failure_count st),
         or_none (st_last_forward_failure_reason st), to_string (st_forwarded_data_frame_count st)] @ watch_words st) s)"

definition relay_ipc_links :: "'w relay_command" where
  "relay_ipc_links = relay_guard ''links'' (\<lambda>_ s. (returned (links_lines ''relay'' (ra_node (fst s))), s))"

definition relay_ipc_connect :: "'w node_env \<Rightarrow> 'w relay_command" where
  "relay_ipc_connect E = relay_guard ''connect'' (\<lambda>arguments s. case arguments of
      [ty, inst] \<Rightarrow> with_number ty (\<lambda>ty. with_number inst (\<lambda>inst s. let (A, w) = s;
          (r, N, w') = relay_ConnectToMember E (ucast ty) (ucast inst) (ra_node A, w) in
          report r ''relay ipc connect failed: {}'' ''relay ipc connect: ok'' [] (A\<lparr>ra_node := N\<rparr>, w'))) s
    | _ \<Rightarrow> refuse ''usage: ipc_connect <service_type> <instance_id>'' s)"

definition relay_RegisterRuntimeCommands :: "'w node_env \<Rightarrow> ('w \<Rightarrow> bool)
    \<Rightarrow> (string \<times> string \<times> ((relay_app \<times> 'w) \<times> log_line list) CommandHandler) list" where
  "relay_RegisterRuntimeCommands E watching =
     [(''ipc_status'', ''Show relay IPC bootstrap status'', command (relay_ipc_status watching)),
      (''ipc_refresh'', ''Refresh relay IPC discovery snapshot'', command (relay_ipc_refresh E)),
      (''ipc_keepalive'', ''Send one relay IPC discovery lease keepalive'', command (relay_ipc_keepalive E)),
      (''ipc_members'', ''List relay IPC discovery members'', command relay_ipc_members),
      (''ipc_topology'', ''Show relay IPC topology and auto-connect state'', command (relay_ipc_topology watching)),
      (''ipc_metrics'', ''Show relay IPC runtime metrics'', command (relay_ipc_metrics watching)),
      (''ipc_links'', ''List relay IPC healthy direct links'', command relay_ipc_links),
      (''ipc_connect'', ''Connect relay to another process by service_type and instance_id'', command (relay_ipc_connect E))]"

text \<open>The registration of the commands succeeds, so a line runs in the registry of the loader with the commands added.\<close>

lemma relay_commands_registered: "register_commands (relay_RegisterRuntimeCommands E watching) (loader_commands id) =
    (None, loader_commands id @ relay_RegisterRuntimeCommands E watching)"
  by (rule register_commands_ok)
    (simp_all add: relay_RegisterRuntimeCommands_def loader_commands_def registry_RegisterCommand_def registry_ClearCommands_def)

section \<open>What the console does to the relay\<close>

text \<open>The node of the application state, as the state machine of the relay has it.\<close>

definition relay_view :: "relay_app \<times> 'w \<Rightarrow> relay_counters \<times> unit node \<times> 'w" where
  "relay_view s = (ra_counters (fst s), ra_node (fst s), snd s)"

lemma relay_on_node_view: "relay_on_node f as s = (r, s') \<Longrightarrow> \<exists>ls N w. f (ra_node (fst s), snd s) = (ls, N, w) \<and> r = returned ls \<and>
    relay_view s' = (ra_counters (fst s), N, w) \<and> ra_registered (fst s') = ra_registered (fst s)"
  by (cases "f (ra_node (fst s), snd s)") (auto simp: relay_on_node_def relay_view_def split: prod.splits)

text \<open>A state of the application whose relay its state machine reaches; every command keeps it.\<close>

definition relay_reached :: "'w node_env \<Rightarrow> env_wire \<Rightarrow> ServiceType \<Rightarrow> InstanceId \<Rightarrow> Endpoint
    \<Rightarrow> proto_message \<Rightarrow> relay_app \<times> 'w \<Rightarrow> bool" where
  "relay_reached E W ty inst listen sample s \<longleftrightarrow> relay_reachable E W ty inst listen sample (relay_view s)"

lemma keeps_relay_guard: "body_keeps P body \<Longrightarrow> body_keeps P (relay_guard what body)"
  by (simp add: body_keeps_def relay_guard_def)

lemma keeps_relay_on_node:
  assumes "\<And>c N w ls N' w'. f (N, w) = (ls, N', w') \<Longrightarrow> relay_reachable E W ty inst listen sample (c, N, w) \<Longrightarrow>
      relay_reachable E W ty inst listen sample (c, N', w')"
  shows "body_keeps (relay_reached E W ty inst listen sample) (relay_on_node f)"
proof (rule body_keepsI, goal_cases)
  case (1 as s)
  obtain r s' where e: "relay_on_node f as s = (r, s')" by (cases "relay_on_node f as s")
  then show ?case using relay_on_node_view [OF e] assms 1 by (force simp: relay_reached_def relay_view_def)
qed

lemma refresh_reached:
  "refresh_lines name E (N, w) = (ls, N', w') \<Longrightarrow> relay_reachable E W ty inst listen sample (c, N, w) \<Longrightarrow>
     relay_reachable E W ty inst listen sample (c, N', w')"
  by (auto simp: refresh_lines_def Let_def split: prod.splits if_splits
      intro: relay_reachable.step relay_step.refresh relay_step.drain)

lemma keepalive_reached:
  "keepalive_lines name E (N, w) = (ls, N', w') \<Longrightarrow> relay_reachable E W ty inst listen sample (c, N, w) \<Longrightarrow>
     relay_reachable E W ty inst listen sample (c, N', w')"
  by (auto simp: keepalive_lines_def split: prod.splits intro: relay_reachable.step relay_step.keepalive_once)

lemma keeps_relay_connect: "body_keeps (relay_reached E W ty inst listen sample) (relay_ipc_connect E)"
  unfolding relay_ipc_connect_def
  by (intro keeps_relay_guard body_keepsI)
    (auto simp: relay_reached_def with_number_def relay_view_def Let_def split: list.splits sum.splits prod.splits
      intro: relay_reachable.step relay_step.connect)

lemma keeps_relay_reports:
  "body_keeps P (relay_ipc_status watching)" "body_keeps P relay_ipc_members" "body_keeps P (relay_ipc_topology watching)"
  "body_keeps P (relay_ipc_metrics watching)" "body_keeps P relay_ipc_links"
  by (simp_all add: relay_ipc_status_def relay_ipc_members_def relay_ipc_topology_def relay_ipc_metrics_def relay_ipc_links_def
      Let_def keeps_relay_guard body_keeps_reading)

lemma relay_commands_keep:
  assumes "c \<in> set (relay_RegisterRuntimeCommands E watching)"
  shows "handler_keeps (relay_reached E W ty inst listen sample) (snd (snd c))"
  using assms
  by (auto simp: relay_RegisterRuntimeCommands_def relay_ipc_refresh_def relay_ipc_keepalive_def
      intro!: handler_keeps_command keeps_relay_reports keeps_relay_connect keeps_relay_guard keeps_relay_on_node
      elim: refresh_reached keepalive_reached)

text \<open>
  So whatever line is typed at the console leaves the relay in a state of its state machine, and what holds in every history
  of the relay holds at its console.
\<close>

lemma relay_console_is_a_history:
  assumes "relay_reachable E W ty inst listen sample (relay_view s)"
  shows "relay_reachable E W ty inst listen sample
    (relay_view (fst (snd (registry_Execute input (loader_commands id @ relay_RegisterRuntimeCommands E watching) (s, out)))))"
  using line_keeps [of "relay_RegisterRuntimeCommands E watching" "relay_reached E W ty inst listen sample" s input out]
    relay_commands_keep assms unfolding relay_reached_def by blast

text \<open>
  C40. \<^verbatim>\<open>ipc_refresh\<close> takes the membership events for itself: each is printed as a line, and the next round of the auto-connect
  loop finds none, does not reconcile either, and leaves relay and world as they are, so a game that the command discovered is
  not connected to.
\<close>

theorem console_refresh_starves_auto_connect:
  assumes "ra_registered A" and "RefreshDiscovery E (ra_node A, w) = (r, N, w')" and "ok r"
    and "relay_ipc_refresh E arguments (A, w) = (out, A', w'')"
  shows "(\<exists>lines. out = returned lines \<and> event_line ''relay'' ` set (ed_mEvents (nd_discovery N)) \<subseteq> set lines) \<and>
    AutoConnect_round E relay_should_connect relay_ShouldRefresh (ra_node A', w'') = (ra_node A', w'')"
  using assms
  by (auto simp: relay_ipc_refresh_def relay_guard_def relay_on_node_def refresh_lines_def Let_def DrainMembershipEvents_def
      ed_DrainEvents_def AutoConnect_round_def relay_ShouldRefresh_def RefreshDiscovery_def)

end
