(* ===== verification/Gate_Application.thy ===== *)
theory Gate_Application
  imports Ipc_Status Gate_Invariants
begin

text \<open>
  The gate application (src/src/gate/application.cpp): the services of a gate as it is constructed, and its runtime commands. The
  wiring of the services is part of \<^verbatim>\<open>Gate_Services\<close>. Every number is read inside a handler, so no word ends the process.
\<close>

section \<open>Services\<close>

record GateConfiguration =
  gcf_instance_id :: u32
  gcf_client_host :: string
  gcf_client_port :: u16
  gcf_discovery :: EtcdDiscoveryOptions

definition gate_RegisterServices :: "GateConfiguration \<Rightarrow> gate \<times> service list" where
  "gate_RegisterServices c =
     (\<lparr>gt_ipc = \<lparr>ga_node = new_node (gcf_discovery c), mGateServiceType = ucast kGateServiceType, ga_mProcessReceiverHost = None,
         ga_mServiceReceiverHost = \<lparr>svc_type = kGateServiceType, svc_mDispatchCount = 0, svc_mLastPayloadType = []\<rparr>,
         ga_mSendRejectCount = 0, ga_mLastSendRejectReason = []\<rparr>,
       gt_accounts = \<lparr>ad_mRedisName = ''default'', ad_mRedisKeyPrefix = [], ad_mRedis = None\<rparr>,
       gt_connections = \<lparr>gc_mConnections = [], mSocketByConnectionId = [], mConnectionIdBySocket = [],
         mListenHost = gcf_client_host c, mListenPort = gcf_client_port c, gc_mNextConnectionId = 1, mListenSocketFd = -1,
         mStopping = False, gc_worker = False\<rparr>,
       gt_sessions = [], gt_routes = [],
       gt_protocol = \<lparr>encoded_login_response_bytes = 0, encoded_heartbeat_response_bytes = 0, encoded_kick_notification_bytes = 0,
         encoded_player_message_response_bytes = 0, encoded_player_push_bytes = 0\<rparr>,
       gt_login = \<lparr>mGateInstanceId = gcf_instance_id c, mPendingLogins = [],
         gl_mSnapshot = \<lparr>gls_request_id = 0, gls_player_id = 0, gls_result_code = RESULT_CODE_UNSPECIFIED, gls_game_service_type = 0,
           gls_game_instance_id = 0, gls_is_reconnect = False, gls_error_message = []\<rparr>, gl_mNextRequestId = 1\<rparr>,
       gt_messages = \<lparr>mPendingMessages = [], gpm_mNextRequestId = 1\<rparr>,
       gt_wiring = \<lparr>wr_ipc = True, wr_accounts = True, wr_connections = True, wr_sessions = True, wr_routing = True,
         wr_protocol = True, wr_auth = True, wr_login = True, wr_send_handler = True\<rparr>\<rparr>,
      [\<lparr>GetName = ''gate_connection'', GetBatch = 10\<rparr>, \<lparr>GetName = ''gate_account_directory'', GetBatch = 15\<rparr>,
       \<lparr>GetName = ''gate_session'', GetBatch = 20\<rparr>, \<lparr>GetName = ''gate_routing'', GetBatch = 30\<rparr>,
       \<lparr>GetName = ''gate_client_protocol'', GetBatch = 40\<rparr>, \<lparr>GetName = ''gate_auth'', GetBatch = 50\<rparr>,
       \<lparr>GetName = ''gate_ipc'', GetBatch = 100\<rparr>, \<lparr>GetName = ''gate_login'', GetBatch = 60\<rparr>,
       \<lparr>GetName = ''gate_player_message'', GetBatch = 70\<rparr>])"

type_synonym 'w gate_command = "(gate \<times> 'w) command_body"

definition gate_guard :: "(gate_wiring \<Rightarrow> bool) \<Rightarrow> string \<Rightarrow> 'w gate_command \<Rightarrow> 'w gate_command" where
  "gate_guard here text' body arguments s = (if \<not> here (gt_wiring (fst s)) then refuse text' s else body arguments s)"

section \<open>Commands\<close>

definition gate_status :: "'w gate_command" where
  "gate_status arguments = inform ''gate status: {}'' [''running'']"

definition gate_connection_status :: "'w gate_command" where
  "gate_connection_status = gate_guard wr_connections ''gate connection status: service not registered'' (\<lambda>arguments s. case arguments of
      [cid] \<Rightarrow> guarded_number cid ''gate connection status: connection_id must be an unsigned integer'' (\<lambda>cid s.
        let r = connection_Snapshot cid (gt_connections (fst s)); num = \<lambda>f. case_option ''0'' (\<lambda>r. to_string (f r :: u64)) r in
        inform (''gate connection status: connection_id={} present={} state={} remote={} last_recv_ms={} last_send_ms={} '' @
            ''heartbeat_deadline_ms={}'')
          [to_string cid, show_bool (r \<noteq> None), case_option ''none'' (\<lambda>r. connection_ToString (gcr_state r)) r,
           case_option ''none'' remote_endpoint r, num last_recv_time_ms, num last_send_time_ms, num heartbeat_deadline_ms] s) s
    | _ \<Rightarrow> refuse ''usage: connection_status <connection_id>'' s)"

definition gate_connection_accept :: "'w gate_env \<Rightarrow> 'w gate_command" where
  "gate_connection_accept E = gate_guard wr_connections ''gate connection accept: service not registered'' (\<lambda>arguments s.
     let accept = (\<lambda>word remote. guarded_number word ''gate connection accept: connection_id must be an unsigned integer'' (\<lambda>cid s.
           let (r, s1) = with_connections (gate_Accept (gte_os E) cid remote) s in
           report r ''gate connection accept failed: {}'' ''gate connection accept: connection_id={} remote={}''
             [to_string cid, remote] s1) s) in
     case arguments of
       [word] \<Rightarrow> accept word ''127.0.0.1:0''
     | [word, remote] \<Rightarrow> accept word remote
     | _ \<Rightarrow> refuse ''usage: connection_accept <connection_id> [remote_endpoint]'' s)"

definition gate_connection_close :: "'w gate_env \<Rightarrow> 'w gate_command" where
  "gate_connection_close E = gate_guard (\<lambda>W. wr_connections W \<and> wr_sessions W) ''gate connection close: services not registered''
     (\<lambda>arguments s. case arguments of
      [word] \<Rightarrow> guarded_number word ''gate connection close: connection_id must be an unsigned integer'' (\<lambda>cid s.
        let (r, s1) = gate_Close E cid s in
        report r ''gate connection close failed: {}'' ''gate connection close: connection_id={}'' [to_string cid] s1) s
    | _ \<Rightarrow> refuse ''usage: connection_close <connection_id>'' s)"

definition gate_session_status :: "'w gate_command" where
  "gate_session_status = gate_guard wr_sessions ''gate session status: service not registered'' (\<lambda>arguments s. case arguments of
      [word] \<Rightarrow> guarded_number word ''gate session status: gate_session_id must be an unsigned integer'' (\<lambda>sid s.
        let r = gate_Snapshot sid (gt_sessions (fst s)); num = \<lambda>f. case_option ''0'' (\<lambda>r. to_string (f r :: u64)) r;
            num32 = \<lambda>f. case_option ''0'' (\<lambda>r. to_string (f r :: u32)) r in
        inform (''gate session status: gate_session_id={} present={} state={} connection_id={} account_id={} player_id={} '' @
            ''game_process={}:{} login_version={} session_epoch={} last_active_ms={}'')
          [to_string sid, show_bool (r \<noteq> None), case_option ''none'' (\<lambda>r. session_ToString (gs_state r)) r, num gs_connection_id,
           case_option ''none'' gs_account_id r, num gs_player_id, num32 gs_game_service_type, num32 gs_game_instance_id,
           num login_version, num session_epoch, num gs_last_active_time_ms] s) s
    | _ \<Rightarrow> refuse ''usage: session_status <gate_session_id>'' s)"

definition gate_session_open :: "'w gate_env \<Rightarrow> 'w gate_command" where
  "gate_session_open E = gate_guard wr_sessions ''gate session open: service not registered'' (\<lambda>arguments s. case arguments of
      [a, b] \<Rightarrow> (case numbers [a, b] of
        Some [sid, cid] \<Rightarrow> (let (g, w) = s; (r, S, w1) = OpenAnonymous (os_env (gte_os E)) sid cid (gt_sessions g, w) in
          report r ''gate session open failed: {}'' ''gate session open: gate_session_id={} connection_id={}''
            [to_string sid, to_string cid] (g\<lparr>gt_sessions := S\<rparr>, w1))
      | _ \<Rightarrow> refuse ''gate session open: arguments must be unsigned integers'' s)
    | _ \<Rightarrow> refuse ''usage: session_open <gate_session_id> <connection_id>'' s)"

definition gate_session_activate :: "'w gate_env \<Rightarrow> 'w gate_command" where
  "gate_session_activate E = gate_guard wr_sessions ''gate session activate: service not registered'' (\<lambda>arguments s. case arguments of
      [a, account, b, c, d] \<Rightarrow> (case numbers [a, b, c, d] of
        Some [sid, pid, ty, inst] \<Rightarrow> (let (g, w) = s; ty = ucast ty :: u32; inst = ucast inst :: u32;
            (r, S, w1) = gate_Activate (os_env (gte_os E)) sid account pid ty inst (gt_sessions g, w) in
          report r ''gate session activate failed: {}''
            ''gate session activate: gate_session_id={} account_id={} player_id={} game_process={}:{}''
            [to_string sid, account, to_string pid, to_string ty, to_string inst] (g\<lparr>gt_sessions := S\<rparr>, w1))
      | _ \<Rightarrow> refuse ''gate session activate: numeric arguments must be unsigned integers'' s)
    | _ \<Rightarrow> refuse (''usage: session_activate <gate_session_id> <account_id> <player_id> <game_service_type> '' @
        ''<game_instance_id>'') s)"

definition gate_route_bind :: "'w gate_env \<Rightarrow> 'w gate_command" where
  "gate_route_bind E = gate_guard wr_routing ''gate route bind: service not registered'' (\<lambda>arguments s. case arguments of
      [a, b, c, d] \<Rightarrow> (case numbers [a, b, c, d] of
        Some [pid, ty, inst, sid] \<Rightarrow> (let (g, w) = s; ty = ucast ty :: u32; inst = ucast inst :: u32;
            (r, R, w1) = BindPlayer (os_env (gte_os E)) pid ty inst sid (gt_routes g, w) in
          report r ''gate route bind failed: {}'' ''gate route bind: player_id={} game_process={}:{} gate_session_id={}''
            [to_string pid, to_string ty, to_string inst, to_string sid] (g\<lparr>gt_routes := R\<rparr>, w1))
      | _ \<Rightarrow> refuse ''gate route bind: arguments must be unsigned integers'' s)
    | _ \<Rightarrow> refuse ''usage: route_bind <player_id> <game_service_type> <game_instance_id> <gate_session_id>'' s)"

definition gate_route_status :: "'w gate_command" where
  "gate_route_status = gate_guard wr_routing ''gate route status: service not registered'' (\<lambda>arguments s. case arguments of
      [word] \<Rightarrow> guarded_number word ''gate route status: player_id must be an unsigned integer'' (\<lambda>pid s.
        let r = route_Snapshot pid (gt_routes (fst s)); num32 = \<lambda>f. case_option ''0'' (\<lambda>r. to_string (f r :: u32)) r;
            num = \<lambda>f. case_option ''0'' (\<lambda>r. to_string (f r :: u64)) r in
        inform ''gate route status: player_id={} present={} game_process={}:{} gate_session_id={} last_update_ms={}''
          [to_string pid, show_bool (r \<noteq> None), num32 gr_game_service_type, num32 gr_game_instance_id, num gr_gate_session_id,
           num last_update_ms] s) s
    | _ \<Rightarrow> refuse ''usage: route_status <player_id>'' s)"

definition gate_login_validate :: "'w gate_command" where
  "gate_login_validate = gate_guard wr_auth ''gate login validate: service not registered'' (\<lambda>arguments s. case arguments of
      [platform, account, credential] \<Rightarrow> (let r = Validate platform account credential in
        inform ''gate login validate: ok={} account_id={} message={}'' [show_bool (auth_ok r), auth_account_id r, auth_message r] s)
    | _ \<Rightarrow> refuse ''usage: login_validate <platform> <account_id> <credential>'' s)"

definition gate_request_login :: "'w gate_env \<Rightarrow> 'w gate_command" where
  "gate_request_login E = gate_guard wr_login ''gate login request: service not registered'' (\<lambda>arguments s. case arguments of
      [a, b, platform, account, c] \<Rightarrow> (case numbers [a, b, c] of
        Some [inst, sid, area] \<Rightarrow> (let inst = ucast inst :: u32; area = ucast area :: u32;
            (r, s1) = RequestLogin E inst 0 sid platform account area s in
          report r ''gate login request failed: {}''
            ''gate login request: game_instance_id={} gate_session_id={} account_id={} area_id={}''
            [to_string inst, to_string sid, account, to_string area] s1)
      | _ \<Rightarrow> refuse ''gate login request: numeric arguments must be unsigned integers'' s)
    | _ \<Rightarrow> refuse ''usage: login_request <game_instance_id> <gate_session_id> <platform> <account_id> <area_id>'' s)"

fun ResultCode_number :: "ResultCode \<Rightarrow> u32" where
  "ResultCode_number RESULT_CODE_UNSPECIFIED = 0"
| "ResultCode_number RESULT_CODE_OK = 1"
| "ResultCode_number RESULT_CODE_INVALID_ARGUMENT = 2"
| "ResultCode_number RESULT_CODE_UNAUTHORIZED = 3"
| "ResultCode_number RESULT_CODE_PLAYER_NOT_FOUND = 4"
| "ResultCode_number RESULT_CODE_PLAYER_HELD_BY_OTHER_GAME = 5"
| "ResultCode_number RESULT_CODE_SESSION_EXPIRED = 6"
| "ResultCode_number RESULT_CODE_ROUTE_MISMATCH = 7"
| "ResultCode_number RESULT_CODE_INTERNAL = 8"

definition gate_login_response_status :: "'w gate_command" where
  "gate_login_response_status = gate_guard wr_login ''gate login response status: service not registered'' (\<lambda>_ s.
     let n = gl_mSnapshot (gt_login (fst s)) in
     inform ''gate login response status: request_id={} player_id={} result_code={} game_process={}:{} is_reconnect={} error_message={}''
       [to_string (gls_request_id n), to_string (gls_player_id n), to_string (ResultCode_number (gls_result_code n)),
        to_string (gls_game_service_type n), to_string (gls_game_instance_id n), show_bool (gls_is_reconnect n),
        or_none (gls_error_message n)] s)"

definition gate_ipc_status :: "('w \<Rightarrow> bool) \<Rightarrow> 'w gate_command" where
  "gate_ipc_status watching = gate_guard wr_ipc ''gate ipc status: service not registered'' (\<lambda>_ s.
     let st = gate_ipc_Snapshot (watching (snd s)) (gt_ipc (fst s)) in
     inform (''gate ipc status: '' @ bootstrap_format @ ''relay_member_visible={} healthy_relay_link={} '' @ auto_connect_format @
         '' process_dispatch_count={} last_process_payload_type={} local_service_dispatch_count={} last_payload_type={} last_error={}'')
       (bootstrap_words st @ [show_bool (st_relay_member_visible st), show_bool (st_healthy_relay_link st)] @ auto_connect_words st @
        [to_string (st_process_dispatch_count st), or_none (st_last_process_payload_type st),
         to_string (st_local_service_dispatch_count st), or_none (st_last_payload_type st), or_none (st_last_error st)]) s)"

definition gate_RegisterRuntimeCommands :: "'w gate_env \<Rightarrow> ('w \<Rightarrow> bool)
    \<Rightarrow> (string \<times> string \<times> ((gate \<times> 'w) \<times> log_line list) CommandHandler) list" where
  "gate_RegisterRuntimeCommands E watching =
     [(''status'', ''Show gate runtime status'', command gate_status),
      (''connection_status'', ''Show one gate connection state: <connection_id>'', command gate_connection_status),
      (''connection_accept'', ''Simulate accepting one connection: <connection_id> [remote_endpoint]'', command (gate_connection_accept E)),
      (''connection_close'', ''Simulate closing one connection: <connection_id>'', command (gate_connection_close E)),
      (''session_status'', ''Show one gate session state: <gate_session_id>'', command gate_session_status),
      (''session_open'', ''Open one anonymous session: <gate_session_id> <connection_id>'', command (gate_session_open E)),
      (''session_activate'',
       ''Activate one session: <gate_session_id> <account_id> <player_id> <game_service_type> <game_instance_id>'',
       command (gate_session_activate E)),
      (''route_bind'', ''Bind one player route: <player_id> <game_service_type> <game_instance_id> <gate_session_id>'',
       command (gate_route_bind E)),
      (''route_status'', ''Show one player route: <player_id>'', command gate_route_status),
      (''login_validate'', ''Validate one simulated login: <platform> <account_id> <credential>'', command gate_login_validate),
      (''login_request'',
       ''Send one simulated login request to game: <game_instance_id> <gate_session_id> <platform> <account_id> <area_id>'',
       command (gate_request_login E)),
      (''login_response_status'', ''Show last received simulated login response'', command gate_login_response_status),
      (''ipc_status'', ''Show gate IPC runtime status'', command (gate_ipc_status watching))]"

text \<open>The registration of the commands succeeds, so a line runs in the registry of the loader with the commands added.\<close>

lemma gate_commands_registered: "register_commands (gate_RegisterRuntimeCommands E watching) (loader_commands id) =
    (None, loader_commands id @ gate_RegisterRuntimeCommands E watching)"
  by (rule register_commands_ok)
    (simp_all add: gate_RegisterRuntimeCommands_def loader_commands_def registry_RegisterCommand_def registry_ClearCommands_def)

section \<open>What the console does to the gate\<close>

text \<open>A gate as it is constructed is a fresh one.\<close>

lemma registered_gate_fresh: "fresh_gate (fst (gate_RegisterServices c))"
  by (simp add: fresh_gate_def gate_RegisterServices_def)

definition gate_good :: "gate \<times> 'w \<Rightarrow> bool" where
  "gate_good s \<longleftrightarrow> good (fst s)"

lemma keeps_gate_guard: "body_keeps P body \<Longrightarrow> body_keeps P (gate_guard here t body)"
  by (simp add: body_keeps_def gate_guard_def)

lemma keeps_gate_reports:
  "body_keeps P gate_status" "body_keeps P gate_connection_status" "body_keeps P gate_session_status" "body_keeps P gate_route_status"
  "body_keeps P gate_login_validate" "body_keeps P gate_login_response_status" "body_keeps P (gate_ipc_status watching)"
  by (rule body_keeps_reading, simp add: gate_status_def gate_connection_status_def gate_session_status_def gate_route_status_def
      gate_login_validate_def gate_login_response_status_def gate_ipc_status_def gate_guard_def Let_def snd_guarded_number split: list.split)+

lemma gate_Accept_sockets:
  assumes "gate_Accept OS cid remote (C, w) = (r, C', w')" and "sockets_inv C"
  shows "sockets_inv C'"
proof (cases "map_of (gc_mConnections C) cid")
  case None
  then have "socket_of C cid = None"
    using assms(2) by (auto simp: sockets_inv_def connection_state_def)
  then show ?thesis
    using assms None by (auto simp: gate_Accept_def sockets_inv_def open_record_def split: prod.splits)
qed (use assms in \<open>simp add: gate_Accept_def\<close>)

lemma keeps_connection_accept: "body_keeps gate_good (gate_connection_accept E)"
  unfolding gate_connection_accept_def
  by (intro keeps_gate_guard body_keepsI)
    (auto simp: gate_good_def Let_def guarded_number_def with_connections_def good_def gate_inv_def
      split: list.splits sum.splits prod.splits dest: gate_Accept_sockets)

lemma keeps_connection_close: "body_keeps gate_good (gate_connection_close E)"
  unfolding gate_connection_close_def
  by (intro keeps_gate_guard body_keepsI)
    (auto simp: gate_good_def Let_def guarded_number_def split: list.splits sum.splits prod.splits dest: keepsD [OF keeps_gate_Close])

lemma keeps_session_activate: "body_keeps gate_good (gate_session_activate E)"
  unfolding gate_session_activate_def
  by (intro keeps_gate_guard body_keepsI)
    (auto simp: gate_good_def Let_def good_def gate_inv_def gate_Activate_def sessions_inv_iff distinct_update update_conv'
      split: list.splits option.splits prod.splits)

lemma keeps_route_bind: "body_keeps gate_good (gate_route_bind E)"
  unfolding gate_route_bind_def
  by (intro keeps_gate_guard body_keepsI)
    (auto simp: gate_good_def Let_def good_def gate_inv_def split: list.splits option.splits prod.splits)

text \<open>
  The two commands that name a session and a connection apart: \<^verbatim>\<open>session_open\<close> takes both numbers, and \<^verbatim>\<open>login_request\<close> gives
  connection 0 for any session.
\<close>

definition names_apart :: "string \<Rightarrow> bool" where
  "names_apart input \<longleftrightarrow> stream_words input \<noteq> [] \<and> hd (stream_words input) \<in> {''session_open'', ''login_request''}"

lemma gate_line_good:
  assumes "good (fst s)" and "\<not> names_apart input"
  shows "good (fst (fst (snd (registry_Execute input (loader_commands id @ gate_RegisterRuntimeCommands E watching) (s, out)))))"
proof -
  have "handler_keeps gate_good h"
    if "(name, description, h) \<in> set (gate_RegisterRuntimeCommands E watching)" "stream_words input = name # as"
    for name description h as
    using that assms(2)
    by (auto simp: gate_RegisterRuntimeCommands_def names_apart_def
        intro!: handler_keeps_command keeps_gate_reports keeps_connection_accept keeps_connection_close keeps_session_activate
          keeps_route_bind)
  then show ?thesis
    using line_keeps_named [of "gate_RegisterRuntimeCommands E watching" input gate_good s out] assms(1) unfolding gate_good_def by blast
qed

lemma gate_connection_Start_sockets: "gate_connection_Start OS (C, w) = (C', w') \<Longrightarrow> sockets_inv C \<Longrightarrow> sockets_inv C'"
  by (auto simp: gate_connection_Start_def Let_def sockets_inv_def socket_of_def connection_state_def split: if_splits prod.splits)

lemma gate_connection_Stop_sockets: "gate_connection_Stop OS (C, w) = (C', w') \<Longrightarrow> sockets_inv C'"
  by (auto simp: gate_connection_Stop_def Let_def sockets_inv_def socket_of_def inverse_maps_def)

text \<open>The start and the stop of the connection service, what clients, games and servers do, and what is typed at the console.\<close>

inductive gate_console_step :: "'w gate_env \<Rightarrow> ('w \<Rightarrow> bool) \<Rightarrow> gate \<times> 'w \<Rightarrow> gate \<times> 'w \<Rightarrow> bool" for E watching where
  started: "gate_connection_Start (gte_os E) (gt_connections g, w) = (C, w') \<Longrightarrow>
    gate_console_step E watching (g, w) (g\<lparr>gt_connections := C\<rparr>, w')"
| stopped: "gate_connection_Stop (gte_os E) (gt_connections g, w) = (C, w') \<Longrightarrow>
    gate_console_step E watching (g, w) (g\<lparr>gt_connections := C\<rparr>, w')"
| outside: "gate_step E s s' \<Longrightarrow> gate_console_step E watching s s'"
| typed: "registry_Execute input (loader_commands id @ gate_RegisterRuntimeCommands E watching) (s, out) = (r, s', out') \<Longrightarrow>
    \<not> names_apart input \<Longrightarrow> gate_console_step E watching s s'"

lemma gate_console_history_good:
  "(gate_console_step E watching)\<^sup>*\<^sup>* s s' \<Longrightarrow> good (fst s) \<Longrightarrow> good (fst s')"
proof (induction rule: rtranclp_induct)
  case (step t u)
  show ?case
    using step.hyps(2)
  proof cases
    case (started g w C w')
    then show ?thesis
      using step gate_connection_Start_sockets [OF started(3)] by (simp add: good_def gate_inv_def)
  next
    case (stopped g w C w')
    then show ?thesis
      using step gate_connection_Stop_sockets [OF stopped(3)] by (simp add: good_def gate_inv_def)
  next
    case outside
    then show ?thesis using gate_step_good step by blast
  next
    case (typed input out r out')
    then show ?thesis using gate_line_good [of t input E watching out] step by simp
  qed
qed

text \<open>
  C7. In every history of a gate from its construction, however often its connection service is started and stopped, whatever its clients, the games and the Redis server do and whatever is typed
  at its console except \<^verbatim>\<open>session_open\<close> and \<^verbatim>\<open>login_request\<close>: the table from connections to sockets and the table from
  sockets to connections are inverse to each other, entry for entry; a connection that has a socket is not closed; and a session is
  filed under the connection it names.
\<close>

theorem gate_tables_with_a_console:
  assumes "(gate_console_step E watching)\<^sup>*\<^sup>* (fst (gate_RegisterServices c), w0) (g, w)"
  shows "(socket_of (gt_connections g) cid = Some fd \<longleftrightarrow> map_of (mConnectionIdBySocket (gt_connections g)) fd = Some cid) \<and>
    (socket_of (gt_connections g) cid = Some fd \<longrightarrow> open_state (connection_state (gt_connections g) cid)) \<and>
    (gate_Snapshot sid (gt_sessions g) = Some r \<longrightarrow> gs_connection_id r = sid \<and> gate_FindByConnection sid (gt_sessions g) = Some r)"
proof -
  have "good g" using gate_console_history_good [OF assms] fresh_gate_good [OF registered_gate_fresh] by simp
  then have i: "sockets_inv (gt_connections g)" "sessions_inv (gt_sessions g)" by (simp_all add: good_def gate_inv_def)
  then show ?thesis
    by (auto simp: sockets_inv_def inverse_maps_def gate_FindByConnection_eq gate_Snapshot_def) (simp add: sessions_inv_iff)
qed

text \<open>
  \<^verbatim>\<open>session_open\<close> with a session number that is not the connection number leaves a session that the client of the connection
  with that number takes over: its login opens no session of its own, and when it disconnects the session stays, and no game is told.
\<close>

lemma console_session_outlives_its_client:
  assumes "wr_sessions (gt_wiring g)" and "stoull a = Inr sid" and "stoull b = Inr cid" and "sid \<noteq> cid"
    and "\<forall>r \<in> snd ` set (gt_sessions g). gs_connection_id r \<noteq> sid" and "gate_Snapshot sid (gt_sessions g) = None"
    and "gate_session_open E [a, b] (g, w) = (out, g', w')"
  shows "gate_Snapshot sid (gt_sessions g') \<noteq> None \<and> open_session E sid (g', w') = (Success, g', w') \<and>
    DisconnectHandler E sid (g', w') = (g', w')"
proof -
  obtain now v where now: "NowMs (os_env (gte_os E)) w = (now, v)" by fastforce
  let ?r = "default_gate_session\<lparr>gs_state := gs_anonymous, gs_gate_session_id := sid, gs_connection_id := cid,
      session_epoch := 1, gs_last_active_time_ms := now\<rparr>"
  have g': "g' = g\<lparr>gt_sessions := AList.update sid ?r (gt_sessions g)\<rparr>" "w' = v"
    using assms now
    by (auto simp: gate_session_open_def gate_guard_def numbers_def OpenAnonymous_def gate_Snapshot_def report_def inform_def refuse_def
        Let_def)
  have "gs_connection_id ?r = cid" by simp
  then have "gs_connection_id (snd x) \<noteq> sid" if "x \<in> set (AList.update sid ?r (gt_sessions g))" for x
    using update_subset [OF that] assms(4,5) by (metis image_eqI snd_conv)
  then have "find (\<lambda>(k, r). gs_connection_id r = sid) (AList.update sid ?r (gt_sessions g)) = None"
    unfolding find_None_iff case_prod_beta by blast
  then show ?thesis
    using assms(1) g' by (simp add: gate_Snapshot_def update_conv' open_session_def DisconnectHandler_def RemoveByConnection_def)
qed

end
