(* ===== verification/Game_Process.thy ===== *)
theory Game_Process
  imports Ipc_Status Player_Persistence Player_Handlers "HOL-Library.List_Lexorder" "HOL-Library.Char_ord"
begin

text \<open>
  The game application (src/src/game/application.cpp): the services of a game process as it is constructed, and its commands on
  players, leases, accounts and the background writer. The storage service is one object that the application, the repository
  and the account directory point to; \<open>set_storage\<close> is a change of it.
\<close>

section \<open>State\<close>

record GameConfiguration =
  gmc_instance_id :: u32
  gmc_discovery :: EtcdDiscoveryOptions
  gmc_storage :: StorageConfiguration

record game_process =
  gp_configuration :: ResolvedStorageConfiguration
  gp_storage :: "StorageService option"
  gp_directory :: "PlayerDirectoryService option"
  gp_persistence :: "PlayerPersistenceService option"
  gp_game :: game \<comment> \<open>the repository, lease, runtime and IPC services and whether they are registered; the sessions\<close>
  gp_has_sessions :: bool
  gp_has_messages :: bool

record 'w process_env =
  pe_game :: "'w game_env"
  pe_codec :: handler_codec
  pe_string :: "string \<Rightarrow> ByteBuffer" \<comment> \<open>\<^verbatim>\<open>StringValue\<close>\<close>
  pe_watching :: "'w \<Rightarrow> bool"

definition set_storage :: "StorageService \<Rightarrow> game_process \<Rightarrow> game_process" where
  "set_storage S P = P\<lparr>gp_storage := Some S,
     gp_directory := map_option (\<lambda>D. D\<lparr>mStorageService := map_option (\<lambda>_. S) (mStorageService D)\<rparr>) (gp_directory P),
     gp_game := (gp_game P)\<lparr>g_repository := (g_repository (gp_game P))
       \<lparr>repo_storage := map_option (\<lambda>_. S) (repo_storage (g_repository (gp_game P)))\<rparr>\<rparr>\<rparr>"

text \<open>\<open>Inl\<close>: \<^verbatim>\<open>OnConfigure\<close> fails with this error.\<close>

definition game_OnConfigure :: "(string \<times> RedisConfiguration) list \<Rightarrow> (string \<times> MariaConfiguration) list \<Rightarrow> GameConfiguration
    \<Rightarrow> string + ResolvedStorageConfiguration" where
  "game_OnConfigure redis maria c = (case ResolveStorageConfiguration redis maria (gmc_storage c) [] of
      (False, _, e) \<Rightarrow> Inl (fmt ''Application::OnConfigure(storage) failed: {}'' [e])
    | (True, resolved, _) \<Rightarrow> Inr resolved)"

definition new_ipc :: "EtcdDiscoveryOptions \<Rightarrow> game_ipc" where
  "new_ipc options = \<lparr>gi_node = new_node options, gi_service_type = kGameServiceType, mProcessReceiverHost = None,
     mPlayerReceiverHost = empty_player_host,
     mServiceReceiverHost = \<lparr>svc_type = kGameServiceType, svc_mDispatchCount = 0, svc_mLastPayloadType = []\<rparr>,
     mSendRejectCount = 0, mLastSendRejectReason = []\<rparr>"

definition game_RegisterServices :: "GameConfiguration \<Rightarrow> ResolvedStorageConfiguration \<Rightarrow> game_process \<times> service list" where
  "game_RegisterServices c resolved = (let S = StorageService_new resolved in
     (\<lparr>gp_configuration = resolved, gp_storage = Some S, gp_directory = Some (new_directory (Some S) ''directory''),
       gp_persistence = Some \<lparr>pp_configuration = resolved, has_session = True,
         pp_mSnapshot = \<lparr>pp_running = False, scan_count = 0, pp_tracked_player_count = 0, pending_initial_persist_count = 0,
           created_without_maria_count = 0, flush_attempt_count = 0, flush_success_count = 0, flush_failure_count = 0,
           last_scan_ms = 0, last_flush_player_id = 0, pp_last_flush_ms = 0, pp_last_error = []\<rparr>, mRetryStates = []\<rparr>,
       gp_game = \<lparr>g_repository = \<lparr>repo_storage = Some S, mDatasetName = ''player'', repo_mPlayers = []\<rparr>,
         g_lease = \<lparr>mRedisName = ''default'', mGameServiceType = kGameServiceType, mGameInstanceId = gmc_instance_id c,
           mLeaseTtlSeconds = 30, mRedisKeyPrefix = [], lease_mRedis = None, mLeases = [],
           lease_mSnapshot = \<lparr>lease_running = False, tracked_player_count = 0, renew_success_count = 0, renew_failure_count = 0,
             local_loss_count = 0, release_success_count = 0, release_failure_count = 0, last_renew_ms = 0, lease_last_error = []\<rparr>\<rparr>,
         g_runtime = \<lparr>rt_has_repository = True, rt_mPlayers = []\<rparr>, g_ipc = new_ipc (gmc_discovery c),
         has_repository = True, has_lease = True, has_runtime = True, has_ipc = True, mDetachedTtlSeconds = 300, sessions = []\<rparr>,
       gp_has_sessions = True, gp_has_messages = True\<rparr>,
      [\<lparr>GetName = ''storage'', GetBatch = 0\<rparr>, \<lparr>GetName = ''player_directory'', GetBatch = 10\<rparr>,
       \<lparr>GetName = ''player_repository'', GetBatch = 20\<rparr>, \<lparr>GetName = ''player_lease'', GetBatch = 18\<rparr>,
       \<lparr>GetName = ''player_runtime'', GetBatch = 25\<rparr>, \<lparr>GetName = ''game_ipc_client'', GetBatch = 100\<rparr>,
       \<lparr>GetName = ''player_session'', GetBatch = 30\<rparr>, \<lparr>GetName = ''player_persistence'', GetBatch = 35\<rparr>,
       \<lparr>GetName = ''player_login'', GetBatch = 40\<rparr>, \<lparr>GetName = ''game_player_message'', GetBatch = 50\<rparr>]))"

section \<open>Shapes of commands\<close>

type_synonym 'w process_command = "(game_process \<times> 'w) command_body"

definition game_guard :: "(game_process \<Rightarrow> bool) \<Rightarrow> string \<Rightarrow> 'w process_command \<Rightarrow> 'w process_command" where
  "game_guard here text' body arguments s = (if \<not> here (fst s) then refuse text' s else body arguments s)"

text \<open>A service operation on the state of the process.\<close>

definition on_game :: "(game \<times> 'w \<Rightarrow> 'r \<times> game \<times> 'w) \<Rightarrow> game_process \<times> 'w \<Rightarrow> 'r \<times> game_process \<times> 'w" where
  "on_game f s = (let (P, w) = s; (r, G, w') = f (gp_game P, w) in (r, P\<lparr>gp_game := G\<rparr>, w'))"

definition on_repository :: "(PlayerRepository \<times> 'w \<Rightarrow> 'r \<times> PlayerRepository \<times> 'w) \<Rightarrow> game \<times> 'w \<Rightarrow> 'r \<times> game \<times> 'w" where
  "on_repository f s = (let (G, w) = s; (r, R, w') = f (g_repository G, w) in (r, G\<lparr>g_repository := R\<rparr>, w'))"

definition on_persistence :: "(PlayerPersistenceService \<times> game \<times> 'w \<Rightarrow> 'r \<times> PlayerPersistenceService \<times> game \<times> 'w)
    \<Rightarrow> PlayerPersistenceService \<Rightarrow> game_process \<times> 'w \<Rightarrow> 'r \<times> game_process \<times> 'w" where
  "on_persistence f Q s = (let (P, w) = s; (r, Q', G, w') = f (Q, gp_game P, w) in
     (r, P\<lparr>gp_persistence := Some Q', gp_game := G\<rparr>, w'))"

definition one_player :: "string \<Rightarrow> string \<Rightarrow> (u64 \<Rightarrow> game_process \<times> 'w \<Rightarrow> log_line list outcome \<times> game_process \<times> 'w)
    \<Rightarrow> 'w process_command" where
  "one_player usage no_number k arguments s = (case arguments of
      [word] \<Rightarrow> guarded_number word no_number k s
    | _ \<Rightarrow> refuse usage s)"

text \<open>The same where the number is read outside any handler.\<close>

definition bare_player :: "string \<Rightarrow> (u64 \<Rightarrow> game_process \<times> 'w \<Rightarrow> log_line list outcome \<times> game_process \<times> 'w) \<Rightarrow> 'w process_command" where
  "bare_player usage k arguments s = (case arguments of [word] \<Rightarrow> with_number word k s | _ \<Rightarrow> refuse usage s)"

section \<open>Leases, the background writer, the runtime\<close>

record PlayerLeasePlayerSnapshot =
  lps_tracked :: bool
  lps_owner :: PlayerLeaseOwner

definition lease_PlayerSnapshot :: "PlayerLeaseService \<Rightarrow> u64 \<Rightarrow> PlayerLeasePlayerSnapshot" where
  "lease_PlayerSnapshot L pid = (case map_of (mLeases L) pid of
      None \<Rightarrow> \<lparr>lps_tracked = False, lps_owner = \<lparr>game_service_type = 0, game_instance_id = 0, token = []\<rparr>\<rparr>
    | Some ow \<Rightarrow> \<lparr>lps_tracked = True, lps_owner = ow\<rparr>)"

definition player_lease_status :: "'w process_env \<Rightarrow> 'w process_command" where
  "player_lease_status E = game_guard (\<lambda>P. has_lease (gp_game P)) ''player lease status: service not registered''
     (bare_player ''usage: player_lease_status <player_id>'' (\<lambda>pid s. let (P, w) = s; L = g_lease (gp_game P);
        here = lease_PlayerSnapshot L pid; (ow, w') = lease_Lookup (ge_env (pe_game E)) pid (L, w) in
        inform (''player lease status: player_id={} local_tracked={} local_owner={}:{} token={} remote_present={} '' @
            ''remote_owner={}:{} remote_token={}'')
          [to_string pid, show_bool (lps_tracked here), to_string (game_service_type (lps_owner here)),
           to_string (game_instance_id (lps_owner here)), (if lps_tracked here then token (lps_owner here) else ''none''),
           show_bool (ow \<noteq> None), case_option ''0'' (\<lambda>r. to_string (game_service_type r)) ow,
           case_option ''0'' (\<lambda>r. to_string (game_instance_id r)) ow, case_option ''none'' token ow] (P, w')))"

definition player_lease_service_status :: "'w process_command" where
  "player_lease_service_status = game_guard (\<lambda>P. has_lease (gp_game P)) ''player lease service status: service not registered''
     (\<lambda>_ s. let n = lease_mSnapshot (g_lease (gp_game (fst s))) in
        inform (''player lease service status: running={} tracked_player_count={} renew_success_count={} renew_failure_count={} '' @
            ''local_loss_count={} release_success_count={} release_failure_count={} last_renew_ms={} last_error={}'')
          ([show_bool (lease_running n)] @ map to_string [tracked_player_count n, renew_success_count n, renew_failure_count n,
             local_loss_count n, release_success_count n, release_failure_count n, last_renew_ms n] @ [or_none (lease_last_error n)]) s)"

definition has_persistence :: "game_process \<Rightarrow> bool" where
  "has_persistence P \<longleftrightarrow> gp_persistence P \<noteq> None"

definition player_persistence_status :: "'w process_command" where
  "player_persistence_status arguments s = (case gp_persistence (fst s) of
      None \<Rightarrow> refuse ''player persistence status: service not registered'' s
    | Some Q \<Rightarrow> let n = pp_mSnapshot Q in
        inform (''player persistence status: running={} scan_count={} tracked_player_count={} pending_initial_persist_count={} '' @
            ''created_without_maria_count={} flush_attempt_count={} flush_success_count={} flush_failure_count={} last_scan_ms={} '' @
            ''last_flush_player_id={} last_flush_ms={} last_error={}'')
          ([show_bool (pp_running n)] @ map to_string [scan_count n, pp_tracked_player_count n, pending_initial_persist_count n,
             created_without_maria_count n, flush_attempt_count n, flush_success_count n, flush_failure_count n, last_scan_ms n,
             last_flush_player_id n, pp_last_flush_ms n] @ [or_none (pp_last_error n)]) s)"

text \<open>The fields of a record that several lines print, with their defaults when there is none.\<close>

definition record_flags :: "PlayerRepositoryRecord option \<Rightarrow> string list" where
  "record_flags r = map (\<lambda>f. show_bool (case_option False f r)) [loaded, dirty, pending_initial_persist, created_without_maria]"

definition record_numbers :: "(PlayerRepositoryRecord \<Rightarrow> u64) list \<Rightarrow> PlayerRepositoryRecord option \<Rightarrow> string list" where
  "record_numbers fs r = map (\<lambda>f. to_string (case_option 0 f r)) fs"

definition player_persistence_player_status :: "'w process_command" where
  "player_persistence_player_status arguments s = (case gp_persistence (fst s) of
      None \<Rightarrow> refuse ''player persistence player status: service not registered'' s
    | Some Q \<Rightarrow> bare_player ''usage: player_persistence_player_status <player_id>'' (\<lambda>pid s.
        let n = PlayerSnapshot Q (gp_game (fst s)) pid; r = pps_record n; t = pps_retry n in
        inform (''player persistence player status: player_id={} tracked={} repository_present={} loaded={} dirty={} '' @
            ''pending_initial_persist={} created_without_maria={} flush_count={} last_dirty_ms={} last_flush_ms={} '' @
            ''consecutive_failure_count={} next_retry_ms={} last_failure_ms={} last_error={}'')
          ([to_string pid, show_bool (pps_tracked n), show_bool (r \<noteq> None)] @ record_flags r @
           record_numbers [flush_count, last_dirty_ms, last_flush_ms] r @
           map to_string [consecutive_failure_count t, next_retry_ms t, last_failure_ms t] @ [or_none (retry_last_error t)]) s)
        arguments s)"

definition player_persistence_flush_due :: "'w process_env \<Rightarrow> 'w process_command" where
  "player_persistence_flush_due E arguments s = (case gp_persistence (fst s) of
      None \<Rightarrow> refuse ''player persistence flush due: service not registered'' s
    | Some Q \<Rightarrow> let (n, s1) = on_persistence (FlushDuePlayersOnce (pe_game E)) Q s in
        inform ''player persistence flush due: flushed={}'' [show_nat n] s1)"

record StorageSnapshot =
  dataset_count :: nat
  sn_redis :: "(string \<times> ConnectionProbeStatus) list"
  sn_maria :: "(string \<times> ConnectionProbeStatus) list"

text \<open>A \<^verbatim>\<open>std::map\<close> is walked in the order of its keys.\<close>

definition ordered :: "(string \<times> 'a) list \<Rightarrow> (string \<times> 'a) list" where
  "ordered m = sort_key fst m"

definition ProbeAll :: "StorageService \<Rightarrow> StorageSnapshot" where
  "ProbeAll S = \<lparr>dataset_count = length (mConfiguration S),
     sn_redis = ordered (map (\<lambda>(name, c). (name, rc_status c)) (mRedisConnections S)),
     sn_maria = ordered (map (\<lambda>(name, c). (name, mc_status c)) (mMariaConnections S))\<rparr>"

definition ProbeNow :: "'w env \<Rightarrow> StorageService \<times> 'w \<Rightarrow> StorageSnapshot \<times> StorageService \<times> 'w" where
  "ProbeNow E s = (let (S, w) = RefreshConnections E s in (ProbeAll S, S, w))"

definition AllMariaTargetsReachable :: "StorageSnapshot \<Rightarrow> bool" where
  "AllMariaTargetsReachable n \<longleftrightarrow> sn_maria n \<noteq> [] \<and> (\<forall>(_, st) \<in> set (sn_maria n). reachable st)"

definition player_persistence_recover_flush :: "'w process_env \<Rightarrow> 'w process_command" where
  "player_persistence_recover_flush E arguments s = (case (gp_storage (fst s), gp_persistence (fst s)) of
      (Some S, Some Q) \<Rightarrow>
        let (n, S', w1) = ProbeNow (ge_env (pe_game E)) (S, snd s); P1 = set_storage S' (fst s); up = AllMariaTargetsReachable n;
            (reset, flushed, s2) = (if up
               then (let (reset, Q1) = ResetRetryStates Q; (flushed, s2) = on_persistence (FlushDuePlayersOnce (pe_game E)) Q1 (P1, w1)
                     in (reset, flushed, s2))
               else (0, 0, P1, w1)) in
        (returned (info_line (fmt ''player persistence recover flush: maria_reachable={} reset_retry_states={} flushed={}''
             [show_bool up, show_nat reset, show_nat flushed]) #
           (if up then [] else map (\<lambda>(name, st). info_line (fmt ''player persistence recover flush maria: name={} reachable={} error={}''
             [name, show_bool (reachable st), or_none (status_error st)])) (sn_maria n))), s2)
    | _ \<Rightarrow> refuse ''player persistence recover flush: services not registered'' s)"

definition player_runtime_status :: "'w process_command" where
  "player_runtime_status = game_guard (\<lambda>P. has_runtime (gp_game P)) ''player runtime status: service not registered''
     (bare_player ''usage: player_runtime_status <player_id>'' (\<lambda>pid s. let i = map_of (rt_mPlayers (g_runtime (gp_game (fst s)))) pid in
        inform ''player runtime status: player_id={} present={} command_count={}''
          [to_string pid, show_bool (i \<noteq> None), to_string (case_option 0 mCommandCount i)] s))"

section \<open>Pushes\<close>

definition player_push_profile :: "'w process_env \<Rightarrow> 'w process_command" where
  "player_push_profile E = game_guard gp_has_messages ''player push profile: service not registered''
     (bare_player ''usage: player_push_profile <player_id>'' (\<lambda>pid s.
        let (r, s1) = on_game (PushProfileToPlayer (pe_game E) (pe_codec E) pid) s in
        report r ''player push profile failed: {}'' ''player push profile: player_id={}'' [to_string pid] s1))"

definition player_push :: "'w process_env \<Rightarrow> 'w process_command" where
  "player_push E = game_guard gp_has_messages ''player push: service not registered'' (\<lambda>arguments s.
     let push = (\<lambda>a b body. with_number a (\<lambda>pid. with_number b (\<lambda>mid s.
           let mid = ucast mid :: u32; (r, s1) = on_game (PushToPlayer (pe_game E) (pe_codec E) pid mid body) s in
           report r ''player push failed: {}'' ''player push: player_id={} message_id={} payload={}''
             [to_string pid, to_string mid, body] s1)) s) in
     case arguments of
       [a, b] \<Rightarrow> push a b ''server-push''
     | [a, b, body] \<Rightarrow> push a b body
     | _ \<Rightarrow> refuse ''usage: player_push <player_id> <message_id> [payload]'' s)"

section \<open>Accounts\<close>

definition game_status :: "'w process_command" where
  "game_status arguments = inform ''game status: {}'' [''running'']"

definition player_directory_resolve :: "'w process_env \<Rightarrow> 'w process_command" where
  "player_directory_resolve E arguments s = (case gp_directory (fst s) of
      None \<Rightarrow> refuse ''player directory: service not registered'' s
    | Some D \<Rightarrow> (case arguments of
        [platform, account, word] \<Rightarrow> guarded_number word ''player directory: area_id must be an unsigned integer'' (\<lambda>area s.
          let (P, w) = s; area = ucast area :: u32 in
          case ResolveOrCreate (ge_env (pe_game E)) platform account area (D, w) of
            None \<Rightarrow> (hangs, s)
          | Some (Inl e, D', w') \<Rightarrow> (threw e, P\<lparr>gp_directory := Some D'\<rparr>, w')
          | Some (Inr r, D', w') \<Rightarrow>
              inform ''player directory resolve: platform={} account_id={} area_id={} player_id={} created={}''
                [platform, account, to_string area, to_string (resolved_player_id r), show_bool (created r)]
                (P\<lparr>gp_directory := Some D'\<rparr>, w')) s
      | _ \<Rightarrow> refuse ''usage: player_directory_resolve <platform> <account_id> <area_id>'' s))"

definition player_directory_lookup :: "'w process_env \<Rightarrow> 'w process_command" where
  "player_directory_lookup E arguments s = (case gp_directory (fst s) of
      None \<Rightarrow> refuse ''player directory: service not registered'' s
    | Some D \<Rightarrow> (case arguments of
        [platform, account, word] \<Rightarrow> guarded_number word ''player directory: area_id must be an unsigned integer'' (\<lambda>area s.
          let (P, w) = s; area = ucast area :: u32; (r, D', w') = dir_Lookup (ge_env (pe_game E)) platform account area (D, w);
              s1 = (P\<lparr>gp_directory := Some D'\<rparr>, w') in
          case r of
            Inl e \<Rightarrow> (threw e, s1)
          | Inr None \<Rightarrow> inform ''player directory lookup: platform={} account_id={} area_id={} present=false''
              [platform, account, to_string area] s1
          | Inr (Some pid) \<Rightarrow> inform ''player directory lookup: platform={} account_id={} area_id={} present=true player_id={}''
              [platform, account, to_string area, to_string pid] s1) s
      | _ \<Rightarrow> refuse ''usage: player_directory_lookup <platform> <account_id> <area_id>'' s))"

definition player_directory_counter :: "'w process_env \<Rightarrow> 'w process_command" where
  "player_directory_counter E arguments s = (case gp_directory (fst s) of
      None \<Rightarrow> refuse ''player directory: service not registered'' s
    | Some D \<Rightarrow>
        if arguments \<noteq> [] then refuse ''usage: player_directory_counter'' s
        else let (P, w) = s; (r, w') = NextPlayerIdCounter (ge_env (pe_game E)) D w in
        (case r of
          None \<Rightarrow> inform ''player directory counter: present=false'' [] (P, w')
        | Some n \<Rightarrow> inform ''player directory counter: present=true next_player_id={}'' [to_string n] (P, w')))"

end
