(* ===== verification/Game_Commands.thy ===== *)
theory Game_Commands
  imports Game_Process
begin

text \<open>
  The runtime commands of a game process on player sessions, storage and IPC (src/src/game/application.cpp), and their
  registration.
\<close>

section \<open>Sessions\<close>

definition number_text :: "string \<Rightarrow> string" where
  "number_text name = name @ '': player_id must be an unsigned integer''"

definition player_status :: "'w process_command" where
  "player_status = game_guard (\<lambda>P. gp_has_sessions P \<and> has_repository (gp_game P)) ''player status: services not registered''
     (one_player ''usage: player_status <player_id>'' (number_text ''player status'') (\<lambda>pid s.
        let G = gp_game (fst s); q = session_of G pid; r = repo_Snapshot (g_repository G) pid;
            num = (\<lambda>f. case_option ''0'' (\<lambda>q. to_string (f q :: u64)) q); num32 = (\<lambda>f. case_option ''0'' (\<lambda>q. to_string (f q :: u32)) q) in
        (returned (info_line (fmt (''player status: player_id={} session_present={} state={} active_gate={}:{} gate_session_id={} '' @
             ''activate_count={} last_state_change_ms={} detach_deadline_ms={} repository_present={} loaded={} dirty={} '' @
             ''pending_initial_persist={} created_without_maria={} load_count={} flush_count={} last_load_ms={} last_dirty_ms={} '' @
             ''last_flush_ms={}'')
           ([to_string pid, show_bool (q \<noteq> None), case_option ''none'' (\<lambda>q. PlayerSessionState_ToString (ss_state q)) q,
             num32 (\<lambda>q. gate_service_type (ss_gate q)), num32 (\<lambda>q. gate_instance_id (ss_gate q)),
             num (\<lambda>q. gate_session_id (ss_gate q)), num activate_count, num last_state_change_ms, num detach_deadline_ms,
             show_bool (r \<noteq> None)] @ record_flags r @
            record_numbers [load_count, flush_count, last_load_ms, last_dirty_ms, last_flush_ms] r)) #
          (case r of None \<Rightarrow> [] | Some r \<Rightarrow> let d = data r in
            [info_line (fmt (''player data: player_id={} name={} created_at_ms={} last_login_at_ms={} level={} experience={} '' @
               ''login_count={}'')
             [to_string (data_player_id d), display_name d, to_string (created_at_ms d), to_string (last_login_at_ms d),
              to_string (level d), to_string (experience d), to_string (login_count d)])])), s)))"

definition player_activate :: "'w process_env \<Rightarrow> 'w process_command" where
  "player_activate E = game_guard gp_has_sessions ''player activate: service not registered'' (\<lambda>arguments s.
     let activate = (\<lambda>ns. case ns of
           Some (pid # gate) \<Rightarrow>
             (let gate = (case gate of [a, b, c] \<Rightarrow> \<lparr>gate_service_type = ucast a, gate_instance_id = ucast b, gate_session_id = c\<rparr>
                 | _ \<Rightarrow> no_gate);
                  (r, s1) = on_game (ActivatePlayer (pe_game E) pid gate False) s in
              report r ''player activate failed: {}'' ''player activate: player_id={} gate={}:{} gate_session_id={} result={}''
                [to_string pid, to_string (gate_service_type gate), to_string (gate_instance_id gate),
                 to_string (gate_session_id gate), message r] s1)
         | _ \<Rightarrow> refuse ''player activate: arguments must be unsigned integers'' s) in
     case arguments of
       [a] \<Rightarrow> activate (numbers [a])
     | [a, b, c, d] \<Rightarrow> activate (numbers [a, b, c, d])
     | _ \<Rightarrow> refuse ''usage: player_activate <player_id> [gate_service_type gate_instance_id gate_session_id]'' s)"

definition player_detach :: "'w process_env \<Rightarrow> 'w process_command" where
  "player_detach E = game_guard gp_has_sessions ''player detach: service not registered''
     (one_player ''usage: player_detach <player_id>'' (number_text ''player detach'') (\<lambda>pid s.
        let (r, s1) = on_game (DetachPlayer (pe_game E) pid None) s in
        report r ''player detach failed: {}'' ''player detach: player_id={} result={}'' [to_string pid, message r] s1))"

definition player_reconcile_lease_loss :: "'w process_env \<Rightarrow> 'w process_command" where
  "player_reconcile_lease_loss E = game_guard gp_has_sessions ''player reconcile lease loss: service not registered'' (\<lambda>_ s.
     let (n, s1) = on_game (ReconcileLeaseLosses (pe_game E)) s in
     inform ''player reconcile lease loss: reconciled={}'' [show_nat n] s1)"

definition player_release :: "'w process_env \<Rightarrow> 'w process_command" where
  "player_release E = game_guard gp_has_sessions ''player release: service not registered''
     (one_player ''usage: player_release <player_id>'' (number_text ''player release'') (\<lambda>pid s.
        let (r, s1) = on_game (ReleasePlayer (pe_game E) pid) s; G = gp_game (fst s1); q = session_of G pid;
            rec = (if has_repository G then repo_Snapshot (g_repository G) pid else None) in
        if \<not> ok r then refuse (fmt (''player release failed: player_id={} error={} session_present={} state={} repository_present={} '' @
              ''loaded={} dirty={} pending_initial_persist={} created_without_maria={} flush_count={} last_dirty_ms={} last_flush_ms={}'')
            ([to_string pid, message r, show_bool (q \<noteq> None), case_option ''none'' (\<lambda>q. PlayerSessionState_ToString (ss_state q)) q,
              show_bool (rec \<noteq> None)] @ record_flags rec @ record_numbers [flush_count, last_dirty_ms, last_flush_ms] rec)) s1
        else inform ''player release: player_id={} result={}'' [to_string pid, message r] s1))"

definition player_touch_login :: "'w process_env \<Rightarrow> 'w process_command" where
  "player_touch_login E = game_guard (\<lambda>P. has_repository (gp_game P)) ''player touch login: repository not registered''
     (one_player ''usage: player_touch_login <player_id>'' (number_text ''player touch login'') (\<lambda>pid s.
        let (r, s1) = on_game (on_repository (TouchLogin (ge_env (pe_game E)) pid)) s in
        report r ''player touch login failed: {}'' ''player touch login: player_id={}'' [to_string pid] s1))"

definition player_set_name :: "'w process_env \<Rightarrow> 'w process_command" where
  "player_set_name E = game_guard (\<lambda>P. has_repository (gp_game P)) ''player set name: repository not registered'' (\<lambda>arguments s.
     case arguments of
       word # _ # _ \<Rightarrow> guarded_number word (number_text ''player set name'') (\<lambda>pid s. let name = JoinArguments arguments 1;
         (r, s1) = on_game (on_repository (SetDisplayName (ge_env (pe_game E)) pid name)) s in
         report r ''player set name failed: {}'' ''player set name: player_id={} display_name={}'' [to_string pid, name] s1) s
     | _ \<Rightarrow> refuse ''usage: player_set_name <player_id> <display_name...>'' s)"

definition player_flush :: "'w process_env \<Rightarrow> 'w process_command" where
  "player_flush E = game_guard (\<lambda>P. has_repository (gp_game P)) ''player flush: repository not registered''
     (one_player ''usage: player_flush <player_id>'' (number_text ''player flush'') (\<lambda>pid s.
        let (r, s1) = on_game (on_repository (FlushPlayer (ge_env (pe_game E)) (ge_codec (pe_game E)) pid)) s in
        report r ''player flush failed: {}'' ''player flush: player_id={}'' [to_string pid] s1))"

definition player_expire_detached :: "'w process_env \<Rightarrow> 'w process_command" where
  "player_expire_detached E = game_guard gp_has_sessions ''player expire detached: service not registered'' (\<lambda>_ s.
     let (n, s1) = on_game (ExpireDetachedPlayers (pe_game E)) s in inform ''player expire detached: released={}'' [show_nat n] s1)"

section \<open>Storage\<close>

text \<open>A command that only reads the storage object; what it does to the servers is in the last component.\<close>

definition with_storage :: "string \<Rightarrow> (StorageService \<Rightarrow> 'w process_command) \<Rightarrow> 'w process_command" where
  "with_storage name body arguments s = (case gp_storage (fst s) of
      None \<Rightarrow> refuse (name @ '': service not registered'') s
    | Some S \<Rightarrow> body S arguments s)"

definition target_line :: "string \<Rightarrow> string \<times> ConnectionProbeStatus \<Rightarrow> log_line" where
  "target_line prefix' t = (let (name, st) = t in info_line (fmt (prefix' @ '': name={} target={} reachable={} error={}'')
     [name, or_none (status_target st), show_bool (reachable st), or_none (status_error st)]))"

definition snapshot_line :: "string \<Rightarrow> StorageSnapshot \<Rightarrow> log_line" where
  "snapshot_line name n = info_line (fmt (name @ '': datasets={} redis_targets={} maria_targets={}'')
     (map show_nat [dataset_count n, length (sn_redis n), length (sn_maria n)]))"

definition dataset_line :: "string \<times> ResolvedDatasetConfiguration \<Rightarrow> log_line" where
  "dataset_line nd = (let (name, d) = nd; t = timing d in
     info_line (fmt (''storage dataset: name={} redis={} maria={} redis_prefix={} full_redis_prefix={} table_prefix={} '' @
         ''alive_time_seconds={} landing_time_seconds={} landing_min_time_seconds={}'')
       ([name, redis_name d, maria_name d, redis_prefix d, full_redis_prefix d, table_prefix d] @
        map to_string [alive_time_seconds t, landing_time_seconds t, landing_min_time_seconds t])))"

definition storage_status :: "'w process_command" where
  "storage_status = with_storage ''storage status'' (\<lambda>S _ s. let n = ProbeAll S in
     (returned (snapshot_line ''storage status'' n # map (target_line ''storage redis'') (sn_redis n) @
        map (target_line ''storage maria'') (sn_maria n) @ map dataset_line (ordered (gp_configuration (fst s)))), s))"

definition storage_probe :: "'w process_env \<Rightarrow> 'w process_command" where
  "storage_probe E = with_storage ''storage probe'' (\<lambda>S _ s. let (n, S', w') = ProbeNow (ge_env (pe_game E)) (S, snd s) in
     (returned (snapshot_line ''storage probe'' n # map (target_line ''storage redis probe'') (sn_redis n) @
        map (target_line ''storage maria probe'') (sn_maria n)), set_storage S' (fst s), w'))"

definition storage_disable_maria :: "'w process_env \<Rightarrow> 'w process_command" where
  "storage_disable_maria E = with_storage ''storage disable maria'' (\<lambda>S arguments s. case arguments of
      [name] \<Rightarrow> (let (known, S', w') = DisableMariaTarget (ge_env (pe_game E)) name (S, snd s); s1 = (set_storage S' (fst s), w') in
        if \<not> known then refuse (fmt ''storage disable maria failed: unknown target {}'' [name]) s1
        else inform ''storage disable maria: name={}'' [name] s1)
    | _ \<Rightarrow> refuse ''usage: storage_disable_maria <name>'' s)"

definition storage_enable_maria :: "'w process_command" where
  "storage_enable_maria = with_storage ''storage enable maria'' (\<lambda>S arguments s. case arguments of
      [name] \<Rightarrow> (let (was, S') = EnableMariaTarget name S; s1 = (set_storage S' (fst s), snd s) in
        if \<not> was then refuse (fmt ''storage enable maria failed: target was not disabled {}'' [name]) s1
        else inform ''storage enable maria: name={}'' [name] s1)
    | _ \<Rightarrow> refuse ''usage: storage_enable_maria <name>'' s)"

definition storage_dataset_init :: "'w process_env \<Rightarrow> 'w process_command" where
  "storage_dataset_init E = with_storage ''storage dataset init'' (\<lambda>S arguments s. case arguments of
      [name] \<Rightarrow> (let (r, w') = EnsureMariaEntriesTable (ge_env (pe_game E)) S name (snd s) in
        report r ''storage dataset init failed: {}'' ''storage dataset init: dataset={} table={}''
          [name, BuildMariaEntriesTableName S name] (fst s, w'))
    | _ \<Rightarrow> refuse ''usage: storage_dataset_init <dataset>'' s)"

definition storage_dataset_migrate_binary :: "'w process_env \<Rightarrow> 'w process_command" where
  "storage_dataset_migrate_binary E = with_storage ''storage dataset migrate binary'' (\<lambda>S arguments s. case arguments of
      [name] \<Rightarrow> (let (r, w') = MigrateMariaEntriesTableToBinary (ge_env (pe_game E)) S name (snd s) in
        report r ''storage dataset migrate binary failed: {}'' ''storage dataset migrate binary: dataset={} table={}''
          [name, BuildMariaEntriesTableName S name] (fst s, w'))
    | _ \<Rightarrow> refuse ''usage: storage_dataset_migrate_binary <dataset>'' s)"

definition storage_dataset_put :: "'w process_env \<Rightarrow> 'w process_command" where
  "storage_dataset_put E = with_storage ''storage dataset put'' (\<lambda>S arguments s. case arguments of
      name # k # _ # _ \<Rightarrow> (let (r, w') = DatasetPut (ge_env (pe_game E)) S name k (JoinArguments arguments 2) (snd s) in
        report r ''storage dataset put failed: {}'' ''storage dataset put: dataset={} entry_key={} result={}''
          [name, k, message r] (fst s, w'))
    | _ \<Rightarrow> refuse ''usage: storage_dataset_put <dataset> <entry_key> <value...>'' s)"

definition storage_dataset_get :: "'w process_env \<Rightarrow> 'w process_command" where
  "storage_dataset_get E = with_storage ''storage dataset get'' (\<lambda>S arguments s. case arguments of
      [name, k] \<Rightarrow> (let (r, v, w') = DatasetGet (ge_env (pe_game E)) S name k [] (snd s) in
        report r ''storage dataset get failed: {}'' ''storage dataset get: dataset={} entry_key={} source={} value={}''
          [name, k, message r, v] (fst s, w'))
    | _ \<Rightarrow> refuse ''usage: storage_dataset_get <dataset> <entry_key>'' s)"

definition storage_dataset_del :: "'w process_env \<Rightarrow> 'w process_command" where
  "storage_dataset_del E = with_storage ''storage dataset del'' (\<lambda>S arguments s. case arguments of
      [name, k] \<Rightarrow> (let (r, w') = DatasetDelete (ge_env (pe_game E)) S name k (snd s) in
        report r ''storage dataset del failed: {}'' ''storage dataset del: dataset={} entry_key={} result={}''
          [name, k, message r] (fst s, w'))
    | _ \<Rightarrow> refuse ''usage: storage_dataset_del <dataset> <entry_key>'' s)"

definition storage_redis_set :: "'w process_env \<Rightarrow> 'w process_command" where
  "storage_redis_set E = with_storage ''storage redis set'' (\<lambda>S arguments s. case arguments of
      name # k # _ # _ \<Rightarrow> (let (r, _, w') = RedisSet (ge_env (pe_game E)) S name k (JoinArguments arguments 2) (snd s) in
        report r ''storage redis set failed: {}'' ''storage redis set: dataset={} key={} result={}''
          [name, BuildRedisKey S name k, message r] (fst s, w'))
    | _ \<Rightarrow> refuse ''usage: storage_redis_set <dataset> <key_suffix> <value...>'' s)"

definition storage_redis_get :: "'w process_env \<Rightarrow> 'w process_command" where
  "storage_redis_get E = with_storage ''storage redis get'' (\<lambda>S arguments s. case arguments of
      [name, k] \<Rightarrow> (let (r, v, w') = RedisGet (ge_env (pe_game E)) S name k [] (snd s) in
        report r ''storage redis get failed: {}'' ''storage redis get: dataset={} key={} value={}''
          [name, BuildRedisKey S name k, v] (fst s, w'))
    | _ \<Rightarrow> refuse ''usage: storage_redis_get <dataset> <key_suffix>'' s)"

definition storage_redis_del :: "'w process_env \<Rightarrow> 'w process_command" where
  "storage_redis_del E = with_storage ''storage redis del'' (\<lambda>S arguments s. case arguments of
      [name, k] \<Rightarrow> (let (r, _, w') = RedisDelete (ge_env (pe_game E)) S name k (snd s) in
        report r ''storage redis del failed: {}'' ''storage redis del: dataset={} key={} result={}''
          [name, BuildRedisKey S name k, message r] (fst s, w'))
    | _ \<Rightarrow> refuse ''usage: storage_redis_del <dataset> <key_suffix>'' s)"

definition storage_maria_exec :: "'w process_env \<Rightarrow> 'w process_command" where
  "storage_maria_exec E = with_storage ''storage maria exec'' (\<lambda>S arguments s. case arguments of
      name # _ # _ \<Rightarrow> (let sql = JoinArguments arguments 1; (r, summary, w') = MariaExecute (ge_env (pe_game E)) S name sql [] (snd s) in
        report r ''storage maria exec failed: {}'' ''storage maria exec: dataset={} sql={} summary={}'' [name, sql, summary] (fst s, w'))
    | _ \<Rightarrow> refuse ''usage: storage_maria_exec <dataset> <sql...>'' s)"

end
