(* ===== verification/Game_Application.thy ===== *)
theory Game_Application
  imports Game_Commands
begin

text \<open>
  The runtime commands of a game process on its IPC node (src/src/game/application.cpp), the registration of all commands, and
  what a line typed at the console can do to the process.
\<close>

section \<open>IPC commands\<close>

definition on_ipc :: "(game_ipc \<times> 'w \<Rightarrow> 'r \<times> game_ipc \<times> 'w) \<Rightarrow> game_process \<times> 'w \<Rightarrow> 'r \<times> game_process \<times> 'w" where
  "on_ipc f s = on_game (\<lambda>(G, w). let (r, i, w') = f (g_ipc G, w) in (r, G\<lparr>g_ipc := i\<rparr>, w')) s"

definition ipc_guard :: "string \<Rightarrow> 'w process_command \<Rightarrow> 'w process_command" where
  "ipc_guard what = game_guard (\<lambda>P. has_ipc (gp_game P)) (''game ipc '' @ what @ '': service not registered'')"

definition game_on_node :: "(game_host node \<times> 'w \<Rightarrow> log_line list \<times> game_host node \<times> 'w) \<Rightarrow> 'w process_command" where
  "game_on_node f arguments s = (let (lines, s') = on_ipc (\<lambda>(g, w). let (ls, N, w') = f (gi_node g, w) in (ls, g\<lparr>gi_node := N\<rparr>, w')) s
     in (returned lines, s'))"

definition game_node :: "game_process \<times> 'w \<Rightarrow> game_host node" where
  "game_node s = gi_node (g_ipc (gp_game (fst s)))"

definition game_ipc_status :: "'w process_env \<Rightarrow> 'w process_command" where
  "game_ipc_status E = ipc_guard ''status'' (\<lambda>_ s. let st = game_ipc_Snapshot (pe_watching E (snd s)) (g_ipc (gp_game (fst s))) in
     inform (''game ipc status: '' @ bootstrap_format @ ''relay_member_visible={} healthy_relay_link={} '' @ auto_connect_format @
         '' process_dispatch_count={} last_process_payload_type={} player_dispatch_count={} last_player_id={} '' @
         ''last_player_payload_type={} local_service_dispatch_count={} last_payload_type={} last_error={}'')
       (bootstrap_words st @ [show_bool (st_relay_member_visible st), show_bool (st_healthy_relay_link st)] @ auto_connect_words st @
        [to_string (st_process_dispatch_count st), or_none (st_last_process_payload_type st),
         to_string (st_player_dispatch_count st), to_string (st_last_player_id st), or_none (st_last_player_payload_type st),
         to_string (st_local_service_dispatch_count st), or_none (st_last_payload_type st), or_none (st_last_error st)]) s)"

definition game_ipc_refresh :: "'w process_env \<Rightarrow> 'w process_command" where
  "game_ipc_refresh E = ipc_guard ''refresh'' (game_on_node (refresh_lines ''game'' (ge_node (pe_game E))))"

definition game_ipc_keepalive :: "'w process_env \<Rightarrow> 'w process_command" where
  "game_ipc_keepalive E = ipc_guard ''keepalive'' (game_on_node (keepalive_lines ''game'' (ge_node (pe_game E))))"

definition game_ipc_members :: "'w process_command" where
  "game_ipc_members = ipc_guard ''members'' (\<lambda>_ s. (returned (members_lines ''game'' (game_node s)), s))"

definition game_ipc_receivers :: "'w process_command" where
  "game_ipc_receivers = ipc_guard ''receivers'' (\<lambda>_ s. let n = LocalReceivers (g_ipc (gp_game (fst s))); a = lr_service_receiver n in
     (returned ([info_line (fmt ''game ipc receiver: type=process service_type={} instance_id={}'' (id_words (lr_process_receiver n))),
        info_line (fmt ''game ipc receiver: type=service service_type={} key_lo={}'' [to_string (key_hi a), to_string (key_lo a)]),
        info_line (fmt ''game ipc receivers: local_players={}'' [show_nat (length (lr_local_player_ids n))])] @
        map (\<lambda>pid. info_line (fmt ''game ipc receiver: type=player player_id={}'' [to_string pid])) (lr_local_player_ids n)), s))"

definition game_ipc_topology :: "'w process_env \<Rightarrow> 'w process_command" where
  "game_ipc_topology E = ipc_guard ''topology'' (\<lambda>_ s.
     let st = game_ipc_Snapshot (pe_watching E (snd s)) (g_ipc (gp_game (fst s))); links = HealthyLinks (game_node s) in
     (returned (info_line (fmt (''game ipc topology: relay_member_visible={} healthy_relay_link={} healthy_links={} '' @ auto_connect_format)
        ([show_bool (st_relay_member_visible st), show_bool (st_healthy_relay_link st), show_nat (length links)] @ auto_connect_words st)) #
       map (topology_link_line ''game'' (\<lambda>ty. if ty = kGameServiceType then ''game'' else ''relay'')) links), s))"

definition game_ipc_metrics :: "'w process_env \<Rightarrow> 'w process_command" where
  "game_ipc_metrics E = ipc_guard ''metrics'' (\<lambda>_ s.
     let st = game_ipc_Snapshot (pe_watching E (snd s)) (g_ipc (gp_game (fst s))) in
     inform (''game ipc metrics: keepalive_failure_count={} discovery_recovery_success_count={} discovery_recovery_failure_count={} '' @
         ''send_reject_count={} last_send_reject_reason={} '' @ watch_format)
       ([to_string (st_keepalive_failure_count st), to_string (st_discovery_recovery_success_count st),
         to_string (st_discovery_recovery_failure_count st), to_string (st_send_reject_count st),
         or_none (st_last_send_reject_reason st)] @ watch_words st) s)"

definition game_ipc_links :: "'w process_command" where
  "game_ipc_links = ipc_guard ''links'' (\<lambda>_ s. (returned (links_lines ''game'' (game_node s)), s))"

definition game_ipc_connect :: "'w process_env \<Rightarrow> 'w process_command" where
  "game_ipc_connect E = ipc_guard ''connect'' (bare_player ''usage: ipc_connect <instance_id>'' (\<lambda>inst s.
     let (r, s1) = on_ipc (ConnectToProcess (ge_node (pe_game E)) (ucast inst)) s in
     report r ''game ipc connect failed: {}'' ''game ipc connect: ok'' [] s1))"

text \<open>The sends, with the node, wire and handlers of the process.\<close>

definition sending :: "('w node_env \<Rightarrow> env_wire \<Rightarrow> 'w process_handler \<Rightarrow> (string \<Rightarrow> ByteBuffer) \<Rightarrow> 'r) \<Rightarrow> 'w process_env \<Rightarrow> 'r" where
  "sending f E = (let G = pe_game E in f (ge_node G) (ge_wire G) (ge_handler G) (pe_string E))"

definition game_ipc_send_local :: "'w process_env \<Rightarrow> 'w process_command" where
  "game_ipc_send_local E = ipc_guard ''local send'' (\<lambda>_ s.
     let (r, s1) = on_ipc (sending SendLocalServiceMessage E ''local-service-ping'') s in
     report r ''game ipc local send failed: {}'' ''game ipc local send: ok'' [] s1)"

definition game_ipc_send_process :: "'w process_env \<Rightarrow> 'w process_command" where
  "game_ipc_send_process E = ipc_guard ''process send'' (\<lambda>arguments s.
     let send = (\<lambda>word body. with_number word (\<lambda>inst s.
           let (r, s1) = on_ipc (sending SendProcessMessage E (ucast inst) body) s in
           report r ''game ipc process send failed: {}'' ''game ipc process send: ok'' [] s1) s) in
     case arguments of
       [word] \<Rightarrow> send word ''process-ping''
     | [word, body] \<Rightarrow> send word body
     | _ \<Rightarrow> refuse ''usage: ipc_send_process <instance_id> [value]'' s)"

definition game_ipc_bind_player_local :: "'w process_command" where
  "game_ipc_bind_player_local = ipc_guard ''bind player local'' (bare_player ''usage: ipc_bind_player_local <player_id>'' (\<lambda>pid s.
     let (r, s1) = on_ipc (\<lambda>(g, w). let (r, g') = BindLocalPlayer pid g in (r, g', w)) s in
     report r ''game ipc bind player local failed: {}'' ''game ipc bind player local: ok'' [] s1))"

definition game_ipc_bind_player_remote :: "'w process_command" where
  "game_ipc_bind_player_remote = ipc_guard ''bind player remote'' (\<lambda>arguments s. case arguments of
      [a, b] \<Rightarrow> with_number a (\<lambda>pid. with_number b (\<lambda>inst s.
        let (r, s1) = on_ipc (\<lambda>(g, w). let (r, g') = BindRemotePlayer pid (ucast inst) g in (r, g', w)) s in
        report r ''game ipc bind player remote failed: {}'' ''game ipc bind player remote: ok'' [] s1)) s
    | _ \<Rightarrow> refuse ''usage: ipc_bind_player_remote <player_id> <instance_id>'' s)"

definition game_ipc_send_player :: "'w process_env \<Rightarrow> 'w process_command" where
  "game_ipc_send_player E = ipc_guard ''player send'' (\<lambda>arguments s.
     let send = (\<lambda>word body. with_number word (\<lambda>pid s.
           let (r, s1) = on_ipc (sending SendPlayerMessage E pid body) s in
           report r ''game ipc player send failed: {}'' ''game ipc player send: ok'' [] s1) s) in
     case arguments of
       [word] \<Rightarrow> send word ''player-ping''
     | [word, body] \<Rightarrow> send word body
     | _ \<Rightarrow> refuse ''usage: ipc_send_player <player_id> [value]'' s)"

definition game_ipc_broadcast_service :: "'w process_env \<Rightarrow> 'w process_command" where
  "game_ipc_broadcast_service E = ipc_guard ''broadcast service'' (\<lambda>arguments s.
     let send = (\<lambda>body include_local. let (r, s1) = on_ipc (sending BroadcastServiceMessage E body include_local) s in
           report r ''game ipc broadcast service failed: {}'' ''game ipc broadcast service: ok'' [] s1) in
     case arguments of
       [] \<Rightarrow> send ''broadcast-ping'' True
     | [body] \<Rightarrow> send body True
     | [body, flag] \<Rightarrow> send body (flag \<noteq> ''0'')
     | _ \<Rightarrow> refuse ''usage: ipc_broadcast_service [value] [include_local]'' s)"

section \<open>Registration\<close>

definition game_RegisterRuntimeCommands :: "'w process_env
    \<Rightarrow> (string \<times> string \<times> ((game_process \<times> 'w) \<times> log_line list) CommandHandler) list" where
  "game_RegisterRuntimeCommands E =
     [(''player_lease_status'', ''Show one player lease status: <player_id>'', command (player_lease_status E)),
      (''player_lease_service_status'', ''Show player lease service status'', command player_lease_service_status),
      (''player_persistence_status'', ''Show player persistence scheduler status'', command player_persistence_status),
      (''player_persistence_player_status'', ''Show one player'' @ CHR 0x27 # ''s persistence retry state: <player_id>'',
       command player_persistence_player_status),
      (''player_persistence_flush_due'', ''Run one immediate player persistence scan'', command (player_persistence_flush_due E)),
      (''player_persistence_recover_flush'',
       ''Probe storage, clear persistence backoff if Maria is reachable, then flush due players'',
       command (player_persistence_recover_flush E)),
      (''player_runtime_status'', ''Show one player runtime instance status: <player_id>'', command player_runtime_status),
      (''player_push_profile'', ''Push one typed profile message to the player'' @ CHR 0x27 # ''s active gate session: <player_id>'',
       command (player_push_profile E)),
      (''player_push'', ''Push one message to the player'' @ CHR 0x27 # ''s active gate session: <player_id> <message_id> [payload]'',
       command (player_push E)),
      (''status'', ''Show game runtime status'', command game_status),
      (''player_directory_resolve'', ''Resolve or create one player id for <platform> <account_id> <area_id>'',
       command (player_directory_resolve E)),
      (''player_directory_lookup'', ''Lookup one player id for <platform> <account_id> <area_id> without creating'',
       command (player_directory_lookup E)),
      (''player_directory_counter'', ''Show persisted player directory next-player-id counter'', command (player_directory_counter E)),
      (''player_status'', ''Show one player session or repository status'', command player_status),
      (''player_activate'',
       ''Activate one player on this game process: <player_id> [gate_service_type gate_instance_id gate_session_id]'',
       command (player_activate E)),
      (''player_detach'', ''Move one player to detached state: <player_id>'', command (player_detach E)),
      (''player_reconcile_lease_loss'', ''Reconcile players that no longer hold a local lease'', command (player_reconcile_lease_loss E)),
      (''player_release'', ''Release one player from this game process: <player_id>'', command (player_release E)),
      (''player_touch_login'', ''Touch one player'' @ CHR 0x27 # ''s login counters: <player_id>'', command (player_touch_login E)),
      (''player_set_name'', ''Set one player'' @ CHR 0x27 # ''s display name: <player_id> <display_name...>'', command (player_set_name E)),
      (''player_flush'', ''Flush one loaded player into storage: <player_id>'', command (player_flush E)),
      (''player_expire_detached'', ''Release all detached players past their deadline'', command (player_expire_detached E)),
      (''storage_status'', ''Show resolved storage datasets and reachability'', command storage_status),
      (''storage_probe'', ''Probe resolved Redis and Maria targets again'', command (storage_probe E)),
      (''storage_disable_maria'', ''Disable one Maria target locally: <name>'', command (storage_disable_maria E)),
      (''storage_enable_maria'', ''Enable one Maria target locally: <name>'', command storage_enable_maria),
      (''storage_dataset_init'', ''Create the generic Maria entries table for a dataset without running schema migration'',
       command (storage_dataset_init E)),
      (''storage_dataset_migrate_binary'', ''Migrate one generic Maria entries table to LONGBLOB: <dataset>'',
       command (storage_dataset_migrate_binary E)),
      (''storage_dataset_put'', ''Write one generic dataset entry to Maria and Redis'', command (storage_dataset_put E)),
      (''storage_dataset_get'', ''Read one generic dataset entry with Redis read-through'', command (storage_dataset_get E)),
      (''storage_dataset_del'', ''Delete one generic dataset entry from Maria and Redis'', command (storage_dataset_del E)),
      (''storage_redis_set'', ''Set one Redis string value through a dataset binding'', command (storage_redis_set E)),
      (''storage_redis_get'', ''Get one Redis string value through a dataset binding'', command (storage_redis_get E)),
      (''storage_redis_del'', ''Delete one Redis key through a dataset binding'', command (storage_redis_del E)),
      (''storage_maria_exec'', ''Execute one Maria SQL statement through a dataset binding'', command (storage_maria_exec E)),
      (''ipc_status'', ''Show game IPC bootstrap status'', command (game_ipc_status E)),
      (''ipc_refresh'', ''Refresh game IPC discovery snapshot'', command (game_ipc_refresh E)),
      (''ipc_keepalive'', ''Send one game IPC discovery lease keepalive'', command (game_ipc_keepalive E)),
      (''ipc_members'', ''List game IPC discovery members'', command game_ipc_members),
      (''ipc_receivers'', ''List game local IPC receivers'', command game_ipc_receivers),
      (''ipc_topology'', ''Show game IPC topology and auto-connect state'', command (game_ipc_topology E)),
      (''ipc_metrics'', ''Show game IPC runtime metrics'', command (game_ipc_metrics E)),
      (''ipc_links'', ''List game IPC healthy direct links'', command game_ipc_links),
      (''ipc_connect'', ''Connect to another game process by instance id'', command (game_ipc_connect E)),
      (''ipc_send_local'', ''Send one local IPC message to the game service receiver host'', command (game_ipc_send_local E)),
      (''ipc_send_process'', ''Send one IPC process-targeted message to another game process'', command (game_ipc_send_process E)),
      (''ipc_bind_player_local'', ''Bind a local player receiver to this game process'', command game_ipc_bind_player_local),
      (''ipc_bind_player_remote'', ''Bind a remote player receiver to another game process in the local directory'',
       command game_ipc_bind_player_remote),
      (''ipc_send_player'', ''Send one IPC player-targeted message'', command (game_ipc_send_player E)),
      (''ipc_broadcast_service'', ''Broadcast one IPC service-targeted message to game instances'',
       command (game_ipc_broadcast_service E))]"

end
