(* ===== verification/Game_Console.thy ===== *)
theory Game_Console
  imports Game_Application
begin

text \<open>
  What a line typed at the console of a game does to its players: the invariant of the session service holds after every line, and
  which words end the process.
\<close>

definition push_url :: string where
  "push_url = TypeUrlFor (pb_message ''PushPlayerMessage'' [])"

definition string_url :: string where
  "string_url = TypeUrlFor (StringValue (\<lambda>_. []) [])"

section \<open>Lines that keep the players ready\<close>

definition players_ready :: "game_process \<times> 'w \<Rightarrow> bool" where
  "players_ready s \<longleftrightarrow> session_inv (gp_game (fst s))"

lemma keeps_game_guard: "body_keeps P body \<Longrightarrow> body_keeps P (game_guard here t body)"
  by (simp add: body_keeps_def game_guard_def)

lemma keeps_one_player: "(\<And>pid s. P s \<Longrightarrow> P (snd (k pid s))) \<Longrightarrow> body_keeps P (one_player usage t k)"
  by (simp add: body_keeps_def one_player_def guarded_number_def split: list.split sum.split)

lemma keeps_bare_player: "(\<And>pid s. P s \<Longrightarrow> P (snd (k pid s))) \<Longrightarrow> body_keeps P (bare_player usage k)"
  by (simp add: body_keeps_def bare_player_def with_number_def split: list.split sum.split)

text \<open>An operation on the game state of the process, and its answer.\<close>

lemma on_game_ready:
  assumes "players_ready s" and "\<And>G w r G' w'. f (G, w) = (r, G', w') \<Longrightarrow> session_inv G \<Longrightarrow> session_inv G'"
  shows "players_ready (snd (on_game f s))"
  using assms by (cases s; cases "f (gp_game (fst s), snd s)") (auto simp: on_game_def players_ready_def)

lemma on_ipc_ready:
  assumes "players_ready s"
    and "\<And>g w r g' w'. f (g, w) = (r, g', w') \<Longrightarrow> players_inv g \<Longrightarrow> nd_self (gi_node g) \<noteq> None \<Longrightarrow>
      players_inv g' \<and> nd_self (gi_node g') \<noteq> None \<and>
      (\<forall>p. player_host_IsBound (mPlayerReceiverHost g) p \<longrightarrow> player_host_IsBound (mPlayerReceiverHost g') p)"
  shows "players_ready (snd (on_ipc f s))"
  unfolding on_ipc_def
proof (rule on_game_ready [OF assms(1)])
  fix G w r G' w'
  assume e: "(\<lambda>(G, w). let (r, i, w') = f (g_ipc G, w) in (r, G\<lparr>g_ipc := i\<rparr>, w')) (G, w) = (r, G', w')" and inv: "session_inv G"
  then obtain i where i: "f (g_ipc G, w) = (r, i, w')" and G': "G' = G\<lparr>g_ipc := i\<rparr>" by (auto split: prod.splits)
  have ok: "players_inv (g_ipc G)" "nd_self (gi_node (g_ipc G)) \<noteq> None" "dependencies G" using inv by (auto simp: session_inv_def ipc_ok_def)
  note i = assms(2) [OF i ok(1,2)]
  have "ready_view (view G p) \<Longrightarrow> ready_view (view G' p)" for p
    using i by (auto simp: G' ready_view_def view_def session_of_def bound_here_def split: option.splits)
  then show "session_inv G'" using inv i ok(3) by (simp add: session_inv_def ipc_ok_def G')
qed

lemma on_repository_ready:
  assumes "players_ready s" and "\<And>R w r R' w' q. f (R, w) = (r, R', w') \<Longrightarrow> repo_loaded R q \<Longrightarrow> repo_loaded R' q"
  shows "players_ready (snd (on_game (on_repository f) s))"
proof (rule on_game_ready [OF assms(1)])
  fix G w r G' w'
  assume e: "on_repository f (G, w) = (r, G', w')" and inv: "session_inv G"
  then obtain R where R: "f (g_repository G, w) = (r, R, w')" and G': "G' = G\<lparr>g_repository := R\<rparr>"
    by (auto simp: on_repository_def split: prod.splits)
  show "session_inv G'" by (rule session_inv_quiet [OF inv]) (use assms(2) [OF R] in \<open>simp_all add: G'\<close>)
qed

lemma set_storage_ready: "players_ready s \<Longrightarrow> players_ready (set_storage S (fst s), w')"
  unfolding players_ready_def fst_conv
  by (rule session_inv_quiet [of "gp_game (fst s)"]) (simp_all add: set_storage_def repo_loaded_def repo_Snapshot_def)

lemma same_game_ready: "gp_game P' = gp_game P \<Longrightarrow> players_ready (P, w) \<Longrightarrow> players_ready (P', w')"
  by (simp add: players_ready_def)

section \<open>The groups of commands\<close>

text \<open>A command that leaves the game state of the process as it is.\<close>

lemma keeps_same_game: "(\<And>as s. gp_game (fst (snd (body as s))) = gp_game (fst s)) \<Longrightarrow> body_keeps players_ready body"
  by (simp add: body_keeps_def players_ready_def)

lemma snd_bare_player: "(\<And>pid s. gp_game (fst (snd (k pid s))) = gp_game (fst s)) \<Longrightarrow>
    gp_game (fst (snd (bare_player usage k as s))) = gp_game (fst s)"
  by (simp add: bare_player_def with_number_def split: list.split sum.split)

lemma snd_one_player: "(\<And>pid s. gp_game (fst (snd (k pid s))) = gp_game (fst s)) \<Longrightarrow>
    gp_game (fst (snd (one_player usage t k as s))) = gp_game (fst s)"
  by (simp add: one_player_def guarded_number_def split: list.split sum.split)

lemma snd_guarded_game: "(\<And>n s. gp_game (fst (snd (k n s))) = gp_game (fst s)) \<Longrightarrow>
    gp_game (fst (snd (guarded_number word t k s))) = gp_game (fst s)"
  by (simp add: guarded_number_def split: sum.split)

lemma gp_game_update: "gp_game (P\<lparr>gp_directory := D\<rparr>) = gp_game P"
  by simp

text \<open>With these rules alone, so that the lines themselves are left as they are.\<close>

lemmas same_game = Let_def case_prod_beta snd_bare_player snd_one_player snd_guarded_game snd_shapes fst_conv snd_conv gp_game_update
  game_guard_def with_storage_def simp_thms

lemma let_snd: "snd (Let a f) = Let a (\<lambda>x. snd (f x))" and let_same: "Let a (\<lambda>x. b) = b"
  by (simp_all add: Let_def)

lemma keeps_player_status: "body_keeps players_ready player_status"
  unfolding player_status_def
  apply (rule keeps_game_guard)
  apply (rule keeps_one_player)
  apply (subst let_snd)
  apply (subst let_snd)
  apply (subst let_snd)
  apply (subst let_snd)
  apply (subst let_snd)
  apply (subst snd_conv)
  apply (subst let_same)
  apply (subst let_same)
  apply (subst let_same)
  apply (subst let_same)
  apply (subst let_same)
  apply assumption
  done

lemma keeps_lease_commands:
  "body_keeps players_ready (player_lease_status E)" "body_keeps players_ready player_lease_service_status"
  "body_keeps players_ready player_persistence_status" "body_keeps players_ready player_persistence_player_status"
  "body_keeps players_ready player_runtime_status" "body_keeps players_ready game_status" "body_keeps players_ready player_status"
proof (goal_cases)
  case 1 show ?case by (rule keeps_same_game) (simp only: player_lease_status_def same_game split: if_split)
next
  case 2 show ?case by (rule keeps_same_game) (simp only: player_lease_service_status_def same_game split: if_split)
next
  case 3 show ?case by (rule keeps_same_game) (simp only: player_persistence_status_def same_game split: option.split)
next
  case 4 show ?case by (rule keeps_same_game) (simp only: player_persistence_player_status_def same_game split: option.split)
next
  case 5 show ?case by (rule keeps_same_game) (simp only: player_runtime_status_def same_game split: if_split)
next
  case 6 show ?case by (rule keeps_same_game) (simp only: game_status_def same_game)
next
  case 7 show ?case by (rule keeps_player_status)
qed

lemma persistence_ready: "players_ready s \<Longrightarrow> players_ready (snd (on_persistence (FlushDuePlayersOnce E) Q s))"
  by (cases s; cases "FlushDuePlayersOnce E (Q, gp_game (fst s), snd s)")
    (auto simp: on_persistence_def players_ready_def dest: FlushDuePlayersOnce_spec)

lemma keeps_persistence_commands:
  "body_keeps players_ready (player_persistence_flush_due E)" "body_keeps players_ready (player_persistence_recover_flush E)"
proof (goal_cases)
  case 1
  show ?case
    by (rule body_keepsI)
      (auto simp: player_persistence_flush_due_def Let_def case_prod_beta split: option.split intro: persistence_ready)
next
  case 2
  show ?case
  proof (rule body_keepsI, goal_cases)
    case (1 as s)
    have "snd (player_persistence_recover_flush E as s) = (case (gp_storage (fst s), gp_persistence (fst s)) of
        (Some S, Some Q) \<Rightarrow> let (n, S', w1) = ProbeNow (ge_env (pe_game E)) (S, snd s); s1 = (set_storage S' (fst s), w1) in
          if AllMariaTargetsReachable n then snd (on_persistence (FlushDuePlayersOnce (pe_game E)) (snd (ResetRetryStates Q)) s1) else s1
      | _ \<Rightarrow> s)"
      unfolding player_persistence_recover_flush_def Let_def case_prod_beta
      by (cases "gp_storage (fst s)"; cases "gp_persistence (fst s)") (simp_all only: option.case prod.case fst_conv snd_conv
          snd_shapes if_distrib [of snd] simp_thms)
    then show ?case
      using 1 by (auto simp: Let_def case_prod_beta split: option.split intro!: persistence_ready set_storage_ready)
  qed
qed

lemma keeps_directory_commands:
  "body_keeps players_ready (player_directory_resolve E)" "body_keeps players_ready (player_directory_lookup E)"
  "body_keeps players_ready (player_directory_counter E)"
  by (rule keeps_same_game, simp only: player_directory_resolve_def player_directory_lookup_def player_directory_counter_def same_game
      split: option.split list.split sum.split if_split)+

lemma keeps_storage_commands:
  "body_keeps players_ready storage_status" "body_keeps players_ready (storage_dataset_init E)"
  "body_keeps players_ready (storage_dataset_migrate_binary E)" "body_keeps players_ready (storage_dataset_put E)"
  "body_keeps players_ready (storage_dataset_get E)" "body_keeps players_ready (storage_dataset_del E)"
  "body_keeps players_ready (storage_redis_set E)" "body_keeps players_ready (storage_redis_get E)"
  "body_keeps players_ready (storage_redis_del E)" "body_keeps players_ready (storage_maria_exec E)"
  by (rule keeps_same_game, simp only: storage_status_def storage_dataset_init_def storage_dataset_migrate_binary_def
      storage_dataset_put_def storage_dataset_get_def storage_dataset_del_def storage_redis_set_def storage_redis_get_def
      storage_redis_del_def storage_maria_exec_def same_game split: option.split list.split)+

lemma keeps_target_commands:
  "body_keeps players_ready (storage_probe E)" "body_keeps players_ready (storage_disable_maria E)"
  "body_keeps players_ready storage_enable_maria"
  by (rule body_keepsI, simp only: storage_probe_def storage_disable_maria_def storage_enable_maria_def same_game
      split: option.split list.split if_split, simp add: set_storage_ready)+

lemma keeps_data_commands:
  "body_keeps players_ready (player_touch_login E)" "body_keeps players_ready (player_flush E)"
  "body_keeps players_ready (player_set_name E)"
proof (goal_cases)
  case 1
  show ?case unfolding player_touch_login_def
    by (intro keeps_game_guard keeps_one_player) (auto simp: Let_def case_prod_beta intro!: on_repository_ready dest: repository_loaded_kept)
next
  case 2
  show ?case unfolding player_flush_def
    by (intro keeps_game_guard keeps_one_player) (auto simp: Let_def case_prod_beta intro!: on_repository_ready dest: repository_loaded_kept)
next
  case 3
  show ?case unfolding player_set_name_def
    by (intro keeps_game_guard body_keepsI) (auto simp: Let_def case_prod_beta guarded_number_def split: list.split sum.split
      intro!: on_repository_ready dest: repository_loaded_kept)
qed


lemma step_ready:
  assumes "players_ready s" and "quiet_for (ge_handler E) unbind_url"
    and "\<And>G w r G' w'. f (G, w) = (r, G', w') \<Longrightarrow> game_step E (G, w) (G', w')"
  shows "players_ready (snd (on_game f s))"
  by (rule on_game_ready [OF assms(1)]) (use game_step_inv assms(2,3) in fastforce)

lemma keeps_session_commands:
  assumes "quiet_for (ge_handler (pe_game E)) unbind_url"
  shows "body_keeps players_ready (player_activate E)" "body_keeps players_ready (player_detach E)"
    "body_keeps players_ready (player_release E)" "body_keeps players_ready (player_expire_detached E)"
    "body_keeps players_ready (player_reconcile_lease_loss E)"
proof (goal_cases)
  case 1
  show ?case unfolding player_activate_def
    by (intro keeps_game_guard body_keepsI) (auto simp: Let_def case_prod_beta split: list.split option.split
      intro!: step_ready [OF _ assms] intro: game_step.activate)
next
  case 2
  show ?case unfolding player_detach_def
    by (intro keeps_game_guard keeps_one_player) (auto simp: Let_def case_prod_beta intro!: step_ready [OF _ assms] intro: game_step.detach)
next
  case 3
  show ?case unfolding player_release_def
    by (intro keeps_game_guard keeps_one_player)
      (simp only: Let_def case_prod_beta snd_shapes if_distrib [of snd] if_cancel, blast intro: step_ready [OF _ assms] game_step.release)
next
  case 4
  show ?case unfolding player_expire_detached_def
    by (intro keeps_game_guard body_keepsI) (auto simp: Let_def case_prod_beta intro!: step_ready [OF _ assms] intro: game_step.expire)
next
  case 5
  show ?case unfolding player_reconcile_lease_loss_def
    by (intro keeps_game_guard body_keepsI) (auto simp: Let_def case_prod_beta intro!: step_ready [OF _ assms] intro: game_step.reconcile)
qed

lemma keeps_push_commands:
  assumes "quiet_for (ge_handler (pe_game E)) push_url"
  shows "body_keeps players_ready (player_push_profile E)" "body_keeps players_ready (player_push E)"
proof -
  have push: "session_inv G'" if p: "PushToPlayer (pe_game E) (pe_codec E) pid mid bytes (G, w) = (r, G', w')" and inv: "session_inv G"
    for pid mid bytes G w r G' w'
  proof (cases "G' = G")
    case False
    then obtain target push where a: "send_answer (pe_game E) target (pb_message ''PushPlayerMessage'' push) (G, w) = (r, G', w')"
      using p by (auto simp: PushToPlayer_def split: if_splits option.splits)
    have q: "quiet_for (ge_handler (pe_game E)) (TypeUrlFor (pb_message ''PushPlayerMessage'' push))"
      using assms by (simp add: push_url_def TypeUrlFor_def pb_message_def)
    from send_answer_quiet [OF q a] inv show ?thesis by simp
  qed (use inv in simp)
  have ready: "players_ready s \<Longrightarrow> players_ready (snd (on_game (PushToPlayer (pe_game E) (pe_codec E) pid mid bytes) s))" for s pid mid bytes
    by (erule on_game_ready) (rule push)
  show "body_keeps players_ready (player_push_profile E)"
    unfolding player_push_profile_def
    by (intro keeps_game_guard keeps_bare_player)
      (auto simp: Let_def case_prod_beta PushProfileToPlayer_def intro!: on_game_ready split: option.splits dest: push)
  show "body_keeps players_ready (player_push E)"
    unfolding player_push_def
    by (intro keeps_game_guard body_keepsI) (auto simp: Let_def case_prod_beta with_number_def split: list.split sum.split intro: ready)
qed

text \<open>What the node operations leave of the receiver directory.\<close>

definition same_node :: "'h node \<Rightarrow> 'h node \<Rightarrow> bool" where
  "same_node N N' \<longleftrightarrow> nd_directory N' = nd_directory N \<and> nd_self N' = nd_self N"

lemma same_node_operations:
  "RefreshDiscovery E (N, w) = (r, N', w') \<Longrightarrow> same_node N N'"
  "node_KeepAliveOnce E (N, w) = (r, N', w') \<Longrightarrow> same_node N N'"
  "DrainMembershipEvents N = (es, N') \<Longrightarrow> same_node N N'"
  "ConnectDiscoveredMemberLocked E m (N, w) = (r, N', w') \<Longrightarrow> same_node N N'"
  by (auto simp: RefreshDiscovery_def node_KeepAliveOnce_def note_result_def with_discovery_def DrainMembershipEvents_def
      ConnectDiscoveredMemberLocked_def same_node_def Let_def split: prod.splits option.splits if_splits)

lemma same_node_trans: "same_node N M \<Longrightarrow> same_node M K \<Longrightarrow> same_node N K"
  by (simp add: same_node_def)

lemma same_node_lines:
  "refresh_lines name E (N, w) = (ls, N', w') \<Longrightarrow> same_node N N'"
  "keepalive_lines name E (N, w) = (ls, N', w') \<Longrightarrow> same_node N N'"
  by (auto simp: refresh_lines_def keepalive_lines_def Let_def split: prod.splits if_splits
      dest!: same_node_operations intro: same_node_trans)

lemma on_node_ready:
  assumes "players_ready s" and "\<And>N w ls N' w'. f (N, w) = (ls, N', w') \<Longrightarrow> same_node N N'"
  shows "players_ready (snd (game_on_node f as s))"
proof -
  have "players_ready (snd (on_ipc (\<lambda>(g, w). let (ls, N, w') = f (gi_node g, w) in (ls, g\<lparr>gi_node := N\<rparr>, w')) s))"
    by (rule on_ipc_ready [OF assms(1)])
      (auto simp: same_node_def players_inv_def directory_def split: prod.splits dest!: assms(2))
  then show ?thesis by (simp add: game_on_node_def case_prod_beta Let_def)
qed

lemma keeps_ipc_guard: "body_keeps P body \<Longrightarrow> body_keeps P (ipc_guard what body)"
  unfolding ipc_guard_def by (rule keeps_game_guard)

lemma keeps_ipc_reports:
  "body_keeps P (game_ipc_status E)" "body_keeps P game_ipc_members" "body_keeps P game_ipc_receivers"
  "body_keeps P (game_ipc_topology E)" "body_keeps P (game_ipc_metrics E)" "body_keeps P game_ipc_links"
  unfolding game_ipc_status_def game_ipc_members_def game_ipc_receivers_def game_ipc_topology_def game_ipc_metrics_def game_ipc_links_def
  by (intro keeps_ipc_guard body_keepsI, simp only: Let_def snd_shapes snd_conv)+

lemma keeps_ipc_node_commands:
  "body_keeps players_ready (game_ipc_refresh E)" "body_keeps players_ready (game_ipc_keepalive E)"
  unfolding game_ipc_refresh_def game_ipc_keepalive_def
  by (intro keeps_ipc_guard body_keepsI, erule on_node_ready, erule same_node_lines)+

lemma ConnectToProcess_ready: "players_ready s \<Longrightarrow> players_ready (snd (on_ipc (ConnectToProcess E inst) s))"
  by (erule on_ipc_ready)
    (auto simp: ConnectToProcess_def same_node_def players_inv_def directory_def split: option.splits prod.splits
      dest!: same_node_operations(4))

lemma BindLocal_ready: "players_ready s \<Longrightarrow> players_ready (snd (on_ipc (\<lambda>(g, w). let (r, g') = BindLocalPlayer pid g in (r, g', w)) s))"
  by (erule on_ipc_ready) (auto split: prod.splits dest: BindLocalPlayer_cases)

lemma BindRemote_frame:
  "BindRemotePlayer pid inst g = (r, g') \<Longrightarrow> mPlayerReceiverHost g' = mPlayerReceiverHost g \<and> nd_self (gi_node g') = nd_self (gi_node g)"
  by (auto simp: BindRemotePlayer_def split: option.splits prod.splits)

lemma BindRemote_ready:
  "players_ready s \<Longrightarrow> players_ready (snd (on_ipc (\<lambda>(g, w). let (r, g') = BindRemotePlayer pid inst g in (r, g', w)) s))"
  by (erule on_ipc_ready) (auto split: prod.splits dest: BindRemotePlayer_inv BindRemote_frame)

text \<open>The directory, the node itself and the players bound here are the same.\<close>

definition bindings_kept :: "game_ipc \<Rightarrow> game_ipc \<times> 'w \<Rightarrow> bool" where
  "bindings_kept g s \<longleftrightarrow> directory (fst s) = directory g \<and> nd_self (gi_node (fst s)) = nd_self (gi_node g) \<and>
     mPlayers (mPlayerReceiverHost (fst s)) = mPlayers (mPlayerReceiverHost g)"

lemma bindings_kept_same: "bindings_kept g (g1, w) \<Longrightarrow> same_bindings g1 g2 \<Longrightarrow> bindings_kept g (g2, w')"
  by (simp add: bindings_kept_def same_bindings_def)

lemma reject_kept [simp]: "bindings_kept g (RecordSendRejectLocked why x, v) = bindings_kept g (x, v)"
  by (simp add: bindings_kept_def RecordSendRejectLocked_def directory_def)

lemma game_host_Dispatch_kept:
  assumes "quiet_for H (payload_type_url e)" and "bindings_kept g0 (g, w)" and "game_host_Dispatch H h target e (g, w) = (r, g', w')"
  shows "bindings_kept g0 (g', w')"
proof (cases h)
  case host_process
  have "bindings_kept g0 (g', w')" if "H target e (g\<lparr>mProcessReceiverHost := x\<rparr>, w) = (r, g', w')" for x
  proof -
    have "same_bindings (g\<lparr>mProcessReceiverHost := x\<rparr>) g'" using assms(1) that unfolding quiet_for_def by blast
    then show ?thesis using assms(2) by (simp add: bindings_kept_def same_bindings_def directory_def)
  qed
  then show ?thesis
    using assms(2,3) host_process
    by (auto simp: bindings_kept_def directory_def Let_def split: option.splits prod.splits if_splits)
qed (use assms in \<open>auto simp: player_host_Dispatch_def service_host_Dispatch_def bindings_kept_def directory_def split: if_splits\<close>)

lemma game_sends_kept:
  assumes "quiet_for H (payload_type_url e)" and "bindings_kept g0 s"
  shows "bindings_kept g0 (snd (DispatchLocal (game_messenger E W H self g1) e s))"
    and "bindings_kept g0 (snd (send_remote (game_messenger E W H self g1) p e s))"
proof -
  obtain g w where s: "s = (g, w)" by fastforce
  have d: "bindings_kept g0 (snd (game_host_Dispatch H h target e s))" for h target
    using game_host_Dispatch_kept [OF assms(1)] assms(2) s by (metis prod.collapse)
  show "bindings_kept g0 (snd (DispatchLocal (game_messenger E W H self g1) e s))"
    using assms(2) d by (auto simp: DispatchLocal_def registry_Dispatch_def game_messenger_def Let_def split: if_splits option.splits)
  show "bindings_kept g0 (snd (send_remote (game_messenger E W H self g1) p e s))"
    using bindings_kept_same [of g0 g w] game_remote_send_bindings [of E W p e g w] assms(2) s
    by (cases "game_remote_send E W p e (g, w)") (auto simp: send_remote_def game_messenger_def)
qed

lemma SendEnvelope_kept:
  assumes "quiet_for H (payload_type_url e)" and "bindings_kept g0 s"
  shows "bindings_kept g0 (snd (SendEnvelope (game_messenger E W H self g1) e loc s))"
  by (rule SendEnvelope_keeps(1) [where url = "payload_type_url e" and P = "bindings_kept g0"])
    (use assms game_sends_kept [of H _ g0] in auto)

lemma guarded_send_ready:
  assumes "players_ready s" and f: "\<And>g w. f (g, w) = guarded_send N W H (send g) (g, w)"
    and kept: "\<And>g g0 g1 self t. bindings_kept g0 t \<Longrightarrow> bindings_kept g0 (snd (send g (game_messenger N W H self g1) t))"
  shows "players_ready (snd (on_ipc f s))"
proof (rule on_ipc_ready [OF assms(1)])
  fix g w r g' w'
  assume "f (g, w) = (r, g', w')" and g: "players_inv g" "nd_self (gi_node g) \<noteq> None"
  then have "guarded_send N W H (send g) (g, w) = (r, g', w')" by (simp add: f)
  moreover have "bindings_kept g (snd (send g (game_messenger N W H self g) (g, w)))" for self
    by (rule kept) (simp add: bindings_kept_def)
  moreover have "bindings_kept g (g, w)" by (simp add: bindings_kept_def)
  ultimately have "bindings_kept g (g', w')"
    by (auto simp: guarded_send_def split_beta Let_def split: option.splits bool.splits if_splits)
  then show "players_inv g' \<and> nd_self (gi_node g') \<noteq> None \<and>
      (\<forall>p. player_host_IsBound (mPlayerReceiverHost g) p \<longrightarrow> player_host_IsBound (mPlayerReceiverHost g') p)"
    using g by (simp add: bindings_kept_def players_inv_def player_host_IsBound_def)
qed

lemma string_sends_kept:
  assumes "quiet_for H string_url" and "bindings_kept g0 t"
  shows "bindings_kept g0 (snd (SendToReceiver (game_messenger N W H self g1) a (StringValue enc v) t))"
    and "bindings_kept g0 (snd (SendToProcess (game_messenger N W H self g1) p (StringValue enc v) t))"
    and "bindings_kept g0 (snd (BroadcastToService (game_messenger N W H self g1) ty scope (StringValue enc v) t))"
proof -
  have url: "payload_type_url (outgoing M a (StringValue enc v)) = string_url" for M a
    by (simp add: outgoing_def string_url_def TypeUrlFor_def StringValue_def)
  show "bindings_kept g0 (snd (SendToReceiver (game_messenger N W H self g1) a (StringValue enc v) t))"
    "bindings_kept g0 (snd (SendToProcess (game_messenger N W H self g1) p (StringValue enc v) t))"
    unfolding SendToReceiver_def SendToProcess_def by (rule SendEnvelope_kept; simp add: assms url)+
  show "bindings_kept g0 (snd (BroadcastToService (game_messenger N W H self g1) ty scope (StringValue enc v) t))"
    unfolding BroadcastToService_def BroadcastToReceiver_def Let_def
    using assms(2) by (auto intro!: SendEnvelope_kept simp: url assms(1))
qed

lemma sends_ready:
  assumes "quiet_for H string_url" and "players_ready s"
  shows "players_ready (snd (on_ipc (SendLocalServiceMessage N W H enc v) s))"
    and "players_ready (snd (on_ipc (SendProcessMessage N W H enc inst v) s))"
    and "players_ready (snd (on_ipc (SendPlayerMessage N W H enc pid v) s))"
    and "players_ready (snd (on_ipc (BroadcastServiceMessage N W H enc v incl) s))"
  by (rule guarded_send_ready [OF assms(2)], simp add: SendLocalServiceMessage_def SendProcessMessage_def SendPlayerMessage_def
      BroadcastServiceMessage_def Let_def, erule string_sends_kept [OF assms(1)])+

lemma keeps_ipc_binding_commands:
  "body_keeps players_ready (game_ipc_connect E)" "body_keeps players_ready game_ipc_bind_player_local"
  "body_keeps players_ready game_ipc_bind_player_remote"
proof (goal_cases)
  case 1
  show ?case unfolding game_ipc_connect_def
    by (intro keeps_ipc_guard keeps_bare_player) (auto simp: Let_def case_prod_beta intro: ConnectToProcess_ready)
next
  case 2
  show ?case unfolding game_ipc_bind_player_local_def
    by (intro keeps_ipc_guard keeps_bare_player) (use BindLocal_ready in \<open>auto simp: Let_def case_prod_beta\<close>)
next
  case 3
  show ?case unfolding game_ipc_bind_player_remote_def
    by (intro keeps_ipc_guard body_keepsI)
      (use BindRemote_ready in \<open>auto simp: Let_def case_prod_beta with_number_def split: list.split sum.split\<close>)
qed

lemma keeps_send_commands:
  assumes "quiet_for (ge_handler (pe_game E)) string_url"
  shows "body_keeps players_ready (game_ipc_send_process E)" "body_keeps players_ready (game_ipc_send_local E)"
    "body_keeps players_ready (game_ipc_send_player E)" "body_keeps players_ready (game_ipc_broadcast_service E)"
  unfolding game_ipc_send_process_def game_ipc_send_local_def game_ipc_send_player_def game_ipc_broadcast_service_def
  by (intro keeps_ipc_guard body_keepsI; auto simp: Let_def case_prod_beta with_number_def sending_def split: list.split sum.split
      intro!: sends_ready [OF assms])+

section \<open>Every line\<close>

lemma game_commands_keep:
  assumes "c \<in> set (game_RegisterRuntimeCommands E)" and "\<forall>url \<in> {unbind_url, push_url, string_url}. quiet_for (ge_handler (pe_game E)) url"
  shows "handler_keeps players_ready (snd (snd c))"
  using assms
  by (auto simp: game_RegisterRuntimeCommands_def intro!: handler_keeps_command keeps_lease_commands keeps_persistence_commands
      keeps_directory_commands keeps_storage_commands keeps_target_commands keeps_data_commands keeps_session_commands
      keeps_push_commands keeps_ipc_reports keeps_ipc_node_commands keeps_ipc_binding_commands keeps_send_commands)

text \<open>
  C18. A line typed at the console of a game, whatever its words, leaves every online or detached player whose lease is held loaded,
  running and bound to this process, as long as the handlers of the process change no binding for the messages that the commands
  send.
\<close>

theorem console_line_keeps_players_ready:
  assumes "session_inv (gp_game P)" and "\<forall>url \<in> {unbind_url, push_url, string_url}. quiet_for (ge_handler (pe_game E)) url"
    and "registry_Execute input (loader_commands id @ game_RegisterRuntimeCommands E) ((P, w), out) = (r, (P', w'), out')"
  shows "session_inv (gp_game P')"
  using line_keeps [of "game_RegisterRuntimeCommands E" players_ready "(P, w)" input out] game_commands_keep assms
  by (auto simp: players_ready_def)

text \<open>The registration of the commands succeeds, so a line runs in the registry of the loader with the commands added.\<close>

lemma game_commands_registered: "register_commands (game_RegisterRuntimeCommands E) (loader_commands id) =
    (None, loader_commands id @ game_RegisterRuntimeCommands E)"
  by (rule register_commands_ok)
    (simp_all add: game_RegisterRuntimeCommands_def loader_commands_def registry_RegisterCommand_def registry_ClearCommands_def)

section \<open>Words that end the process\<close>

text \<open>The commands that read their first word outside any handler, by the number of words they take.\<close>

definition bare_commands :: "(string \<times> nat set) list" where
  "bare_commands = [(''player_lease_status'', {1}), (''player_persistence_player_status'', {1}), (''player_runtime_status'', {1}),
     (''player_push_profile'', {1}), (''player_push'', {2, 3}), (''ipc_connect'', {1}), (''ipc_send_process'', {1, 2}),
     (''ipc_bind_player_local'', {1}), (''ipc_bind_player_remote'', {2}), (''ipc_send_player'', {1, 2})]"

definition all_registered :: "game_process \<Rightarrow> bool" where
  "all_registered P \<longleftrightarrow> has_lease (gp_game P) \<and> has_runtime (gp_game P) \<and> has_ipc (gp_game P) \<and> has_persistence P \<and> gp_has_messages P"

lemma constructed_game_registered: "all_registered (fst (game_RegisterServices c resolved))"
  by (simp add: game_RegisterServices_def Let_def all_registered_def has_persistence_def)

text \<open>Their handlers.\<close>

definition bare_bodies :: "'w process_env \<Rightarrow> (string \<times> nat set \<times> 'w process_command) list" where
  "bare_bodies E = [(''player_lease_status'', {1}, player_lease_status E),
     (''player_persistence_player_status'', {1}, player_persistence_player_status), (''player_runtime_status'', {1}, player_runtime_status),
     (''player_push_profile'', {1}, player_push_profile E), (''player_push'', {2, 3}, player_push E),
     (''ipc_connect'', {1}, game_ipc_connect E), (''ipc_send_process'', {1, 2}, game_ipc_send_process E),
     (''ipc_bind_player_local'', {1}, game_ipc_bind_player_local), (''ipc_bind_player_remote'', {2}, game_ipc_bind_player_remote),
     (''ipc_send_player'', {1, 2}, game_ipc_send_player E)]"

lemma bare_bodies_names: "bare_commands = map (\<lambda>(name, counts, body). (name, counts)) (bare_bodies E)"
  by (simp add: bare_commands_def bare_bodies_def)

lemma bare_bodies_throw:
  assumes "stoull word = Inl e" and "all_registered (fst s)"
  shows "player_lease_status E [word] s = (threw e, s)" and "player_persistence_player_status [word] s = (threw e, s)"
    and "player_runtime_status [word] s = (threw e, s)" and "player_push_profile E [word] s = (threw e, s)"
    and "player_push E [word, b] s = (threw e, s)" and "player_push E [word, b, c] s = (threw e, s)"
    and "game_ipc_connect E [word] s = (threw e, s)" and "game_ipc_send_process E [word] s = (threw e, s)"
    and "game_ipc_send_process E [word, b] s = (threw e, s)" and "game_ipc_bind_player_local [word] s = (threw e, s)"
    and "game_ipc_bind_player_remote [word, b] s = (threw e, s)" and "game_ipc_send_player E [word] s = (threw e, s)"
    and "game_ipc_send_player E [word, b] s = (threw e, s)"
proof -
  obtain Q where r: "has_lease (gp_game (fst s))" "has_runtime (gp_game (fst s))" "has_ipc (gp_game (fst s))" "gp_has_messages (fst s)"
    "gp_persistence (fst s) = Some Q" using assms(2) by (auto simp: all_registered_def has_persistence_def)
  note eval = game_guard_def ipc_guard_def bare_player_def with_number_throws [OF assms(1)] r list.case option.case not_True_eq_False if_False Let_def
  show "player_lease_status E [word] s = (threw e, s)" by (simp only: player_lease_status_def eval)
  show "player_persistence_player_status [word] s = (threw e, s)" by (simp only: player_persistence_player_status_def eval)
  show "player_runtime_status [word] s = (threw e, s)" by (simp only: player_runtime_status_def eval)
  show "player_push_profile E [word] s = (threw e, s)" by (simp only: player_push_profile_def eval)
  show "player_push E [word, b] s = (threw e, s)" "player_push E [word, b, c] s = (threw e, s)" by (simp_all only: player_push_def eval)
  show "game_ipc_connect E [word] s = (threw e, s)" by (simp only: game_ipc_connect_def eval)
  show "game_ipc_send_process E [word] s = (threw e, s)" "game_ipc_send_process E [word, b] s = (threw e, s)"
    by (simp_all only: game_ipc_send_process_def eval)
  show "game_ipc_bind_player_local [word] s = (threw e, s)" by (simp only: game_ipc_bind_player_local_def eval)
  show "game_ipc_bind_player_remote [word, b] s = (threw e, s)" by (simp only: game_ipc_bind_player_remote_def eval)
  show "game_ipc_send_player E [word] s = (threw e, s)" "game_ipc_send_player E [word, b] s = (threw e, s)"
    by (simp_all only: game_ipc_send_player_def eval)
qed

lemma bare_bodies_all_throw:
  assumes "(name, counts, body) \<in> set (bare_bodies E)" and "length (word # words) \<in> counts" and "stoull word = Inl e"
    and "all_registered (fst s)"
  shows "body (word # words) s = (threw e, s)"
  using assms(1,2) bare_bodies_throw [OF assms(3,4)]
  by (cases words; cases "tl words") (auto simp: bare_bodies_def)

text \<open>No two commands of the game share a name, so each is the one its name runs.\<close>

lemma game_command_names: "distinct (map fst (loader_commands id @ game_RegisterRuntimeCommands E))"
  by (simp add: game_RegisterRuntimeCommands_def loader_commands_def registry_RegisterCommand_def registry_ClearCommands_def)

lemma bare_bodies_registered:
  assumes "(name, counts, body) \<in> set (bare_bodies E)"
  shows "\<exists>description. (name, description, command body) \<in> set (game_RegisterRuntimeCommands E)"
  using assms unfolding bare_bodies_def list.set by (elim insertE emptyE; simp add: game_RegisterRuntimeCommands_def)

text \<open>
  C39. A word that is not a number where a command of the game expects a player or an instance is an exception that no handler
  catches: it leaves the command, the registry and with it the loop of the main thread, which ends the process with its players,
  while the commands that read their number inside a handler only print a warning.
\<close>

theorem bare_number_ends_the_game:
  assumes "all_registered P" and "(name, counts) \<in> set bare_commands" and "stream_words input = name # word # words"
    and "length (word # words) \<in> counts" and "stoull word = Inl e"
  shows "registry_Execute input (loader_commands id @ game_RegisterRuntimeCommands E) ((P, w), out) = (threw e, (P, w), out)"
proof -
  obtain body where b: "(name, counts, body) \<in> set (bare_bodies E)" using assms(2) unfolding bare_bodies_names [of E] by auto
  obtain d where "(name, d, command body) \<in> set (game_RegisterRuntimeCommands E)" using bare_bodies_registered [OF b] by blast
  then have "map_of (loader_commands id @ game_RegisterRuntimeCommands E) name = Some (d, command body)"
    by (intro map_of_is_SomeI game_command_names) simp
  from Execute_command [OF this assms(3) bare_bodies_all_throw [OF b assms(4,5)]] show ?thesis using assms(1) by simp
qed

end
