(* ===== verification/Console_Examples.thy ===== *)
theory Console_Examples
  imports Relay_Application Gate_Application Game_Console Gate_Examples Player_Examples Ipc_Examples
begin

text \<open>
  Lines typed at the consoles of concrete processes: a relay that has just been constructed and an etcd that knows a game, a gate
  with one client, and the game of \<^verbatim>\<open>Player_Examples\<close> with an online player.
\<close>

section \<open>The lines\<close>

lemma typed_words:
  "stream_words ''connection_status 1'' = [''connection_status'', ''1'']"
  "stream_words ''player_detach 7'' = [''player_detach'', ''7'']"
  "stream_words ''player_push_profile nobody'' = [''player_push_profile'', ''nobody'']"
  by code_simp+

section \<open>A relay\<close>

definition sample_relay :: "relay_app" where
  "sample_relay = fst (relay_RegisterServices \<lparr>relay_instance_id = 1, relay_discovery = sample_options\<rparr>)"

definition knowing_env :: "unit node_env" where
  "knowing_env = sample_node_env\<lparr>ne_json := one_member_json\<rparr>"

lemma one_member_parse: "ParseSnapshot one_member_json out [] = (Success, [(key_of sample_self, sample_self)])"
  by (simp add: ParseSnapshot_def one_member_json_def one_member_kvs_def encode_kv_def DeserializeDescriptor_def)

lemma one_member_refresh:
  "\<exists>N w. RefreshDiscovery knowing_env (ra_node sample_relay, ()) = (Success, N, w) \<and>
     ed_mEvents (nd_discovery N) = [\<lparr>me_type = me_added, me_process = sample_self\<rparr>]"
proof -
  let ?d = "EtcdDiscovery_new sample_options"
  have "RefreshSnapshot (ne_backend knowing_env) (ne_json knowing_env) (?d, ()) =
      (Success, ApplySnapshot [(key_of sample_self, sample_self)] ?d, ())"
    by (simp add: RefreshSnapshot_def knowing_env_def sample_node_env_def sample_backend_def one_member_parse)
  moreover have "nd_discovery (ra_node sample_relay) = ?d"
    by (simp add: sample_relay_def relay_RegisterServices_def new_node_def)
  moreover have "ed_mEvents (ApplySnapshot [(key_of sample_self, sample_self)] ?d) = [\<lparr>me_type = me_added, me_process = sample_self\<rparr>]"
    by (simp add: ApplySnapshot_def QueueDiffEvents_def diff_current_def member_event_def EtcdDiscovery_new_def)
  ultimately show ?thesis by (simp add: RefreshDiscovery_def note_result_def with_discovery_def)
qed

theorem console_refresh_starves_auto_connect_witness:
  "\<exists>lines A w. relay_ipc_refresh knowing_env [] (sample_relay, ()) = (returned lines, A, w) \<and>
     event_line ''relay'' \<lparr>me_type = me_added, me_process = sample_self\<rparr> \<in> set lines \<and>
     AutoConnect_round knowing_env relay_should_connect relay_ShouldRefresh (ra_node A, w) = (ra_node A, w)"
proof -
  obtain N w where r: "RefreshDiscovery knowing_env (ra_node sample_relay, ()) = (Success, N, w)"
    and e: "ed_mEvents (nd_discovery N) = [\<lparr>me_type = me_added, me_process = sample_self\<rparr>]" using one_member_refresh by blast
  obtain out A w' where c: "relay_ipc_refresh knowing_env [] (sample_relay, ()) = (out, A, w')" by (metis prod_cases3)
  have "ra_registered sample_relay" by (simp add: sample_relay_def relay_RegisterServices_def)
  from console_refresh_starves_auto_connect [OF this r _ c] c e show ?thesis by auto
qed

section \<open>A gate\<close>

definition sample_gate_configuration :: GateConfiguration where
  "sample_gate_configuration = \<lparr>gcf_instance_id = 1, gcf_client_host = ''h'', gcf_client_port = 5, gcf_discovery = sample_options\<rparr>"

text \<open>An operating system on which listening works and a client waits.\<close>

definition serving_env :: "u8 list gate_env" where
  "serving_env = sample_gate_env\<lparr>gte_os := (gte_os sample_gate_env)
     \<lparr>os_sockets := loop_sockets\<lparr>sk_socket := (\<lambda>w. (10, w)), sk_reuseaddr := (\<lambda>fd w. (0, w)), sk_inet_pton := (\<lambda>h. True),
        sk_bind := (\<lambda>fd a w. (0, w)), sk_listen := (\<lambda>fd w. (0, w)), sk_accept := (\<lambda>fd w. (11, w))\<rparr>,
      os_select := (\<lambda>fds w. ([10], w))\<rparr>\<rparr>"

theorem gate_tables_with_a_console_witness:
  "\<exists>g w. (gate_console_step serving_env (\<lambda>_. False))\<^sup>*\<^sup>* (fst (gate_RegisterServices sample_gate_configuration), []) (g, w) \<and>
     map_of (mConnectionIdBySocket (gt_connections g)) 11 = Some 1 \<and> open_state (connection_state (gt_connections g) 1)"
proof -
  let ?g0 = "fst (gate_RegisterServices sample_gate_configuration)"
  obtain C w1 where start: "gate_connection_Start (gte_os serving_env) (gt_connections ?g0, []) = (C, w1)" by fastforce
  have C: "C = (gt_connections ?g0)\<lparr>mListenSocketFd := 10, mStopping := False, gc_worker := True\<rparr>" "w1 = []"
    using start by (simp_all add: gate_connection_Start_def serving_env_def gate_RegisterServices_def)
  let ?g1 = "?g0\<lparr>gt_connections := C\<rparr>"
  obtain b g w where run: "WorkerRound serving_env (?g1, w1) = (b, g, w)" by (metis prod_cases3)
  have "accept_is_fresh serving_env (?g1, w1)"
    by (simp add: accept_is_fresh_def serving_env_def C gate_RegisterServices_def)
  from step_worker [OF run this] have worker: "gate_console_step serving_env (\<lambda>_. False) (?g1, w1) (g, w)" by (rule gate_console_step.outside)
  obtain r s' out' where typed: "registry_Execute ''connection_status 1''
      (loader_commands id @ gate_RegisterRuntimeCommands serving_env (\<lambda>_. False)) ((g, w), []) = (r, s', out')" by (rule prod_cases3)
  have "\<not> names_apart ''connection_status 1''" by (simp add: names_apart_def typed_words)
  from gate_console_step.typed [OF typed this] have line: "gate_console_step serving_env (\<lambda>_. False) (g, w) s'" .
  obtain g' w' where s': "s' = (g', w')" by fastforce
  have "(gate_console_step serving_env (\<lambda>_. False))\<^sup>*\<^sup>* (?g0, []) (g', w')"
    using gate_console_step.started [OF start] worker line s' by (meson converse_rtranclp_into_rtranclp rtranclp.rtrancl_refl)
  moreover have "g' = g"
    using typed s' by (auto simp: registry_Execute_def typed_words gate_RegisterRuntimeCommands_def loader_commands_def
        registry_RegisterCommand_def registry_ClearCommands_def command_def gate_connection_status_def gate_guard_def
        guarded_number_def refuse_def inform_def Let_def split: if_splits sum.splits outcome.splits prod.splits)
  moreover have "socket_of (gt_connections g) 1 = Some 11"
    using run by (auto simp: WorkerRound_def serving_env_def C gate_RegisterServices_def AcceptReadySocket_def Let_def socket_of_def)
  ultimately show ?thesis using gate_tables_with_a_console [of serving_env "\<lambda>_. False" sample_gate_configuration "[]" g' w' 1 11] by blast
qed

definition empty_gate_of :: gate where
  "empty_gate_of = fst (gate_RegisterServices sample_gate_configuration)"

theorem console_session_outlives_its_client_witness:
  "\<exists>out g w. gate_session_open sample_gate_env [to_string (5 :: u64), to_string (7 :: u64)] (empty_gate_of, []) = (out, g, w) \<and>
     gate_Snapshot 5 (gt_sessions g) \<noteq> None \<and> DisconnectHandler sample_gate_env 5 (g, w) = (g, w)"
proof -
  obtain out g w where o: "gate_session_open sample_gate_env [to_string (5 :: u64), to_string (7 :: u64)] (empty_gate_of, []) = (out, g, w)"
    by (metis prod_cases3)
  have "wr_sessions (gt_wiring empty_gate_of)" "gt_sessions empty_gate_of = []" by (simp_all add: empty_gate_of_def gate_RegisterServices_def)
  with console_session_outlives_its_client [OF _ _ _ _ _ _ o, of 5 7] o show ?thesis
    using stoull_to_string [of "5 :: u64"] stoull_to_string [of "7 :: u64"] by (auto simp: gate_Snapshot_def)
qed

section \<open>A game\<close>

definition no_datasets :: StorageConfiguration where
  "no_datasets = \<lparr>defaults = \<lparr>alive_time_seconds = 1, landing_time_seconds = 1, landing_min_time_seconds = 1\<rparr>, datasets = []\<rparr>"

definition sample_process :: game_process where
  "sample_process = (fst (game_RegisterServices \<lparr>gmc_instance_id = 1, gmc_discovery = sample_options, gmc_storage = no_datasets\<rparr> []))
     \<lparr>gp_game := active_game\<rparr>"

definition sample_process_env :: "memory_world process_env" where
  "sample_process_env = \<lparr>pe_game = sample_env, pe_codec = echo_codec, pe_string = (\<lambda>_. []), pe_watching = (\<lambda>_. False)\<rparr>"

theorem console_line_keeps_players_ready_witness:
  "\<exists>r P w out. registry_Execute ''player_detach 7'' (loader_commands id @ game_RegisterRuntimeCommands sample_process_env)
     ((sample_process, active_world), []) = (r, (P, w), out) \<and> session_inv (gp_game P)"
proof -
  obtain r s out where "registry_Execute ''player_detach 7'' (loader_commands id @ game_RegisterRuntimeCommands sample_process_env)
     ((sample_process, active_world), []) = (r, s, out)" by (rule prod_cases3)
  moreover obtain P w where "s = (P, w)" by fastforce
  ultimately have e: "registry_Execute ''player_detach 7'' (loader_commands id @ game_RegisterRuntimeCommands sample_process_env)
     ((sample_process, active_world), []) = (r, (P, w), out)" by blast
  have "session_inv (gp_game sample_process)" using active_inv by (simp add: sample_process_def)
  then show ?thesis
    using console_line_keeps_players_ready [OF _ _ e] sample_quiet e by (auto simp: sample_process_env_def)
qed

theorem bare_number_ends_the_game_witness:
  "registry_Execute ''player_push_profile nobody'' (loader_commands id @ game_RegisterRuntimeCommands sample_process_env)
     ((sample_process, active_world), []) = (threw invalid_argument, (sample_process, active_world), [])"
proof (rule bare_number_ends_the_game [where word = "''nobody''" and words = "[]"])
  show "all_registered sample_process"
    by (simp add: all_registered_def sample_process_def game_RegisterServices_def Let_def has_persistence_def active_deps [unfolded dependencies_def])
  show "(''player_push_profile'', {1}) \<in> set bare_commands" by (simp add: bare_commands_def)
  show "stream_words ''player_push_profile nobody'' = [''player_push_profile'', ''nobody'']" by (rule typed_words)
  show "stoull ''nobody'' = Inl invalid_argument" by code_simp
qed simp

end
