(* ===== verification/Spec2Isabelle.thy ===== *)
theory Spec2Isabelle
  imports Ipc_Examples Player_Examples Sim_Examples Console_Examples
begin

text \<open>
  A verification development for some-server, a small cluster of game-server processes written in C++ (src/src):
  \<^item> game processes own players: they take a lease per player in Redis, load the player's record through a cache
    in front of MariaDB, run it, and write it back in the background;
  \<^item> gate processes hold the client connections and forward client messages to the game process of the player;
  \<^item> relay processes pass messages between processes that have no direct link;
  \<^item> all of them share an IPC framework: TCP transport, links with a handshake, discovery through etcd, receiver
    addresses, routing and messaging.

  \<^bold>\<open>How the model is built.\<close> Every C++ class is a record of its fields, every method a function of the same name that takes
  the record (and the state of the outside world, \<open>'w\<close>) and returns the changed ones; \<^verbatim>\<open>ipc::Result\<close> is the record
  \<open>result\<close>; integers keep their width as words; hash maps are association lists with distinct keys. What is not under
  src/src, the socket calls, the gRPC stubs of etcd, hiredis, the MariaDB client, the JSON library and the generated
  protobuf codecs, is a record of functions that the operations take as an argument, and what a property needs of them is
  a named predicate (\<open>set_nx_documented\<close>, \<open>recv_documented\<close>, \<open>wire_roundtrip\<close> and the like) that an in-memory
  instance satisfies. A method that holds its lock throughout is one step; one that leaves it, and whose interleaving with
  the other threads matters, is also cut into the steps between those points; a background thread is one function per loop
  iteration; histories are inductive reachability relations over these steps.

  \<^bold>\<open>The theories, in the order of the code.\<close>
  \<^item> \<^verbatim>\<open>Prelude\<close>: integer types, results, association lists, \<^verbatim>\<open>std::to_string\<close>, \<^verbatim>\<open>std::stoull\<close>, \<^verbatim>\<open>std::getline\<close>.
  \<^item> \<^verbatim>\<open>Ipc_Base\<close> (framework/ipc/base), \<^verbatim>\<open>Tcp_Transport\<close> (framework/ipc/transport): identities, envelopes, the frame
    header as bytes, the connection table. Lemmas: header round trip, what a send writes and a reader reads, connection ids.
  \<^item> \<^verbatim>\<open>Receiver\<close> (framework/ipc/receiver and the hosts of a process): the receiver directory as an implementation of
    the locale \<open>receiver_directory\<close>, the host registry.
  \<^item> \<^verbatim>\<open>Membership\<close>, \<^verbatim>\<open>Base64\<close>, \<^verbatim>\<open>Etcd_Backend\<close>, \<^verbatim>\<open>Etcd_Discovery\<close> (framework/ipc/discovery): the membership view (locale
    \<open>membership_view\<close>), the text encoding of snapshots, the etcd client with its watch thread as a step relation, the
    discovery class on top. Lemmas: diffs replay, the path of a record from one process to another, ranges, the watch.
  \<^item> \<^verbatim>\<open>Link_Manager\<close>, \<^verbatim>\<open>Routing\<close>, \<^verbatim>\<open>Messenger\<close> (framework/ipc/link, routing, messaging; common/ipc for the auto-connect
    rules): the handshake (locale \<open>link_view\<close>), the relay-first policy, the data codec and the recursive fan-out.
  \<^item> \<^verbatim>\<open>Ipc_Node\<close> (common/ipc/ipc_node_service_base.cpp) and \<^verbatim>\<open>Relay_Process\<close> (relay/services): the runtime every process
    shares with its invariant \<open>node_inv\<close> and its recovery after an outage of etcd; the relay as a state machine, whose data
    frames go through the messenger of \<^verbatim>\<open>Messenger\<close> over its own transport and links.
  \<^item> \<^verbatim>\<open>Environment\<close>, \<^verbatim>\<open>Connectivity\<close>, \<^verbatim>\<open>Storage\<close> (framework/storage): Redis and MariaDB as parameters, connections, the
    two-level store with its configuration.
  \<^item> \<^verbatim>\<open>Player_Lease\<close>, \<^verbatim>\<open>Player_Repository\<close>, \<^verbatim>\<open>Game_Ipc\<close>, \<^verbatim>\<open>Player_Session\<close>, \<^verbatim>\<open>Player_Persistence\<close>, \<^verbatim>\<open>Player_Directory\<close>,
    \<^verbatim>\<open>Player_Handlers\<close> (game/services): leases, records, bindings, the session state machine with the invariant
    \<open>session_inv\<close> that every call keeps, the background writer, account ids, the message handlers.
  \<^item> \<^verbatim>\<open>Session_Threads\<close> (game/services/player_session_service.cpp again): activation, release and reconciliation cut at the
    points at which the code leaves its lock, proved equal to the calls when they run alone; several of them in progress at
    once as the step relation \<open>thread_step\<close>; the invariant \<open>threads_inv\<close> of the histories in which the activation of a player
    runs beside no other call on that player, and the history without that condition in which a login is lost.
  \<^item> \<^verbatim>\<open>Gate_Tables\<close>, \<^verbatim>\<open>Gate_Accounts\<close>, \<^verbatim>\<open>Gate_Ipc\<close>, \<^verbatim>\<open>Gate_Services\<close> (gate/services, wired as gate/application.cpp does): the tables
    of connections, sessions and routes, the owners of accounts in Redis, the IPC node of a gate, and on top of them login,
    kick, disconnect, forwarding and pushes. A frame of a client is read by \<open>HandleReadable\<close>, dispatched by \<open>MessageHandler\<close> to
    a handler, which sends to a game through \<open>send_to_process\<close>; the answer of the game comes back through
    \<open>HandleLoginResponse\<close> or \<open>HandleForwardPlayerMessageResponse\<close>. \<^verbatim>\<open>Gate_Invariants\<close> holds the invariant of the tables and
    that every operation keeps it; \<^verbatim>\<open>Gate_Protocol\<close> what clients can rely on and where the code lets them down.
  \<^item> \<^verbatim>\<open>Lifecycle\<close> (framework/application) and \<^verbatim>\<open>Loader\<close> (loader): services in batches with their rollback; command line,
    configuration, log set-up, and the two threads of a run as the step relation \<open>loader_step\<close>.
  \<^item> \<^verbatim>\<open>Console\<close>, \<^verbatim>\<open>Sim_Client\<close>, \<^verbatim>\<open>Sim_Scenarios\<close>, \<^verbatim>\<open>Sim_Gate\<close> (sim_client): what runtime commands share, the simulated client with its
    reader thread as a step function, its scenarios and commands, and the client and a gate together: what a scenario writes
    is what the gate handles, what the gate answers is what the client shows.
  \<^item> \<^verbatim>\<open>Ipc_Status\<close>, \<^verbatim>\<open>Relay_Application\<close>, \<^verbatim>\<open>Gate_Application\<close>, \<^verbatim>\<open>Game_Process\<close>, \<^verbatim>\<open>Game_Commands\<close>, \<^verbatim>\<open>Game_Application\<close>
    (the snapshots of the IPC services and {relay,gate,game}/application.cpp): each application as it constructs its services,
    and every runtime command as a function from the words of a line to the lines logged, the exception that leaves it and the
    new state, registered by name as the loader does. A line of the console is one call of \<open>registry_Execute\<close>; the collection of
    facts \<open>body_keeps\<close> carries an invariant from commands to lines. \<^verbatim>\<open>Game_Console\<close>: what a line can do to the players of a game.
  \<^item> \<^verbatim>\<open>Sample_World\<close>, \<^verbatim>\<open>Ipc_Examples\<close>, \<^verbatim>\<open>Player_Examples\<close>, \<^verbatim>\<open>Gate_Examples\<close>, \<^verbatim>\<open>Sim_Examples\<close>, \<^verbatim>\<open>Console_Examples\<close>: concrete processes and servers on which the properties are
    applied.

  \<^bold>\<open>Loops and bounds.\<close> The loops of \<^verbatim>\<open>ReadExact\<close>, \<^verbatim>\<open>WriteExact\<close> and the backoff are total functions with a measure, and the
  fan-out of \<^verbatim>\<open>SendEnvelope\<close> is at most one level deep, which its termination proof shows. The only loop that may run for
  ever, the id allocation of \<^verbatim>\<open>PlayerDirectoryService\<close>, is a \<open>partial_function\<close>; \<open>ResolveOrCreate_returns\<close> shows that it returns
  while the server answers. No fuel is used.

  \<^bold>\<open>Not modelled.\<close> Generated protobuf code (src/src/protocol), the four main functions, tests and third-party code. Log lines
  have no counterpart outside the runtime commands, so the hooks of the applications, which only log, are the empty ones. The
  fields of a status line that are equal for all roles are listed once, in the order in which the code prints them. Preemption inside a method is modelled where the code leaves its lock and
  that matters: activation, release and reconciliation of players, the two critical sections of the etcd watch thread, the
  two halves of a login request, of a player message and of a removal from the account directory, the two threads of the
  loader. Elsewhere a method that leaves its lock between independent tables is one step.

  \<^bold>\<open>What the theorems show.\<close> The properties are numbered C1, C2, ... in the text before them; most hold for every input
  and every behaviour of the outside world. Those of kind error state how the code departs from what it means to do: a
  release that cannot be completed, a login that is lost between the two halves of a reconcile pass, a stale cache after a
  put that reports success, an id handed out twice, a watch that
  ends for good, a connection that is never opened again, a login answer that comes too late, a command that takes the
  events of another loop, a word that ends a process.
\<close>

section \<open>A player in a game process\<close>



text \<open>
  C2. While one game process holds the lease of a player, a second one that shares the Redis server is refused.
\<close>

theorem second_game_is_refused:
  assumes "set_nx_documented E h kv" and "clock_documented E kv" and "lease_mRedis A = Some h" and "lease_mRedis B = Some h"
    and "BuildKey A pid = BuildKey B pid" and "\<not> IsHeldLocally A pid" and "\<not> IsHeldLocally B pid"
    and "lease_Acquire E pid (A, w) = (ra, A', w1)" and "ok ra"
    and "kv w2 = kv w1" and "lease_Acquire E pid (B, w2) = (rb, B', w3)"
  shows "\<not> ok rb \<and> \<not> IsHeldLocally B' pid \<and> IsHeldLocally A' pid"
proof -
  have key: "BuildKey A' pid = BuildKey A pid"
    using assms(8) by (auto simp: lease_Acquire_def BuildKey_def set_tracked_def Let_def split: option.splits prod.splits if_splits)
  have "holds kv A' pid w1" using Acquire_new [OF assms(1-3,6,8,9)] by blast
  then obtain owner where o1: "map_of (mLeases A') pid = Some owner" "kv w1 (BuildKey A' pid) = Some (BuildValue owner)"
    unfolding holds_def by blast
  have "kv w2 (BuildKey B pid) = Some (BuildValue owner)" using o1(2) unfolding assms(10) key assms(5) .
  then have "kv w2 (BuildKey B pid) \<noteq> None" by simp
  moreover have "kv w2 (BuildKey B pid) = None" if "ok rb" using Acquire_new [OF assms(1,2,4,7,11) that] by (rule conjunct1)
  ultimately have refused: "\<not> ok rb" by (metis (no_types))
  have "B' = B" by (rule Acquire_refused [OF assms(11) refused])
  then show ?thesis using assms(7) refused o1(1) by (simp add: IsHeldLocally_def)
qed

theorem second_game_is_refused_witness:
  "\<exists>A' w1 rb B' w2. lease_Acquire (memory_env [] []) 7 (sample_lease, memory_world0) = (Success, A', w1) \<and>
     lease_Acquire (memory_env [] []) 7 (other_lease, w1) = (rb, B', w2) \<and> \<not> ok rb"
proof -
  obtain A' w1 where a: "lease_Acquire (memory_env [] []) 7 (sample_lease, memory_world0) = (Success, A', w1)"
    using sample_acquire [of "[]" "[]"] by (metis prod.collapse)
  obtain rb B' w2 where b: "lease_Acquire (memory_env [] []) 7 (other_lease, w1) = (rb, B', w2)" by (metis prod_cases3)
  have "\<not> ok rb"
    using second_game_is_refused [OF memory_set_nx memory_clock _ _ _ _ _ a _ _ b, where h = 1]
    by (simp add: sample_lease_def other_lease_def BuildKey_def IsHeldLocally_def)
  then show ?thesis using a b by blast
qed

text \<open>
  C3. After a renew pass of two different game processes against the same server at most one of them still believes that it
  holds the lease of a player, and the value under the key in Redis names the one that does.
\<close>

theorem renewed_leases_are_exclusive:
  assumes "refresh_documented E h kRefreshScript kv" and "clock_documented E kv"
    and "lease_mRedis A = Some h" and "lease_mRedis B = Some h" and "mRedisKeyPrefix A = mRedisKeyPrefix B"
    and "mLeaseTtlSeconds A \<noteq> 0" and "mLeaseTtlSeconds B \<noteq> 0"
    and "leases_own A" and "leases_own B"
    and "(mGameServiceType A, mGameInstanceId A) \<noteq> (mGameServiceType B, mGameInstanceId B)"
    and "RenewPass E (A, w) = (A', w1)" and "RenewPass E (B, w1) = (B', w2)"
  shows "\<not> (IsHeldLocally A' pid \<and> IsHeldLocally B' pid) \<and>
     (IsHeldLocally A' pid \<longrightarrow> (\<exists>owner. kv w2 (BuildKey A pid) = Some (BuildValue owner) \<and>
        game_service_type owner = mGameServiceType A \<and> game_instance_id owner = mGameInstanceId A)) \<and>
     (IsHeldLocally B' pid \<longrightarrow> (\<exists>owner. kv w2 (BuildKey B pid) = Some (BuildValue owner) \<and>
        game_service_type owner = mGameServiceType B \<and> game_instance_id owner = mGameInstanceId B))"
proof -
  have a: "kv w1 = kv w" "IsHeldLocally A' pid \<longrightarrow> holds kv A' pid w1" using RenewPass_holds [OF assms(1-3,6,11)] by blast+
  have b: "kv w2 = kv w1" "IsHeldLocally B' pid \<longrightarrow> holds kv B' pid w2" using RenewPass_holds [OF assms(1,2,4,7,12)] by blast+
  note keepA = RenewPass_same [OF assms(11)] and keepB = RenewPass_same [OF assms(12)]
  have own: "leases_own A'" "leases_own B'" using assms(8,9) keepA keepB unfolding leases_own_def by metis+
  have heldA: "IsHeldLocally A' pid \<longrightarrow> holds kv A' pid w2" using a(2) b(1) by (simp add: holds_def)
  have "\<not> (IsHeldLocally A' pid \<and> IsHeldLocally B' pid)"
    using holds_exclusive [of kv A' pid w2 B'] heldA b(2) own assms(5,10) keepA keepB by auto
  moreover have "BuildKey A' = BuildKey A" "BuildKey B' = BuildKey B" using keepA keepB by (auto simp: BuildKey_def)
  ultimately show ?thesis using heldA b(2) own keepA keepB unfolding holds_def leases_own_def by metis
qed

theorem renewed_leases_are_exclusive_witness:
  "\<exists>A w1 B w2. RenewPass (memory_env kRefreshScript kReleaseScript) (held_lease, held_world) = (A, w1) \<and>
     RenewPass (memory_env kRefreshScript kReleaseScript) (stale_lease, w1) = (B, w2) \<and>
     IsHeldLocally stale_lease 7 \<and> IsHeldLocally A 7 \<and> \<not> IsHeldLocally B 7"
proof -
  obtain A w1 where a: "RenewPass (memory_env kRefreshScript kReleaseScript) (held_lease, held_world) = (A, w1)" by fastforce
  obtain B w2 where b: "RenewPass (memory_env kRefreshScript kReleaseScript) (stale_lease, w1) = (B, w2)" by fastforce
  have h: "IsHeldLocally A 7" using held_renews [OF refl held_world_up] a by simp
  have ttl: "mLeaseTtlSeconds held_lease \<noteq> 0" "mGameInstanceId held_lease = 1" "mGameServiceType held_lease = 10"
    by (simp_all add: held_lease_def lease_Acquire_def memory_env_def mem_command_def sample_lease_def memory_world0_def NowMs_def Let_def
        set_tracked_def)
  have "leases_own stale_lease" "lease_mRedis stale_lease = Some 1" "mLeaseTtlSeconds stale_lease \<noteq> 0"
    "mRedisKeyPrefix held_lease = mRedisKeyPrefix stale_lease"
    "(mGameServiceType held_lease, mGameInstanceId held_lease) \<noteq> (mGameServiceType stale_lease, mGameInstanceId stale_lease)"
    using ttl held_handle(1) by (simp_all add: stale_lease_def leases_own_def)
  note s = this
  have "\<not> IsHeldLocally B 7"
    using renewed_leases_are_exclusive [OF memory_refresh memory_clock held_handle(1) s(2,4) ttl(1) s(3) held_handle(3) s(1,5) a b, of 7] h by blast
  moreover have "IsHeldLocally stale_lease 7" by (simp add: stale_lease_def IsHeldLocally_def)
  ultimately show ?thesis using a b h by blast
qed

text \<open>
  C16. A reconcile pass leaves no player online whose lease is lost: such a player is unbound and no longer
  online, and every player whose lease is held keeps its session, lease, data, runtime and binding.
\<close>

theorem reconcile_takes_lost_players_offline:
  assumes "quiet_for (ge_handler E) unbind_url" and "session_inv G"
    and "ReconcileLeaseLosses E (G, w) = (m, G', w')"
  shows "(\<forall>pid rec. session_of G' pid = Some rec \<longrightarrow> ss_state rec = st_online \<longrightarrow> IsHeldLocally (g_lease G') pid) \<and>
     (\<forall>ps \<in> set (sessions G). lost_player G ps \<longrightarrow> offline_here G' (fst ps)) \<and>
     (\<forall>pid. IsHeldLocally (g_lease G) pid \<longrightarrow> view G' pid = view G pid)"
  using ReconcileLeaseLosses_spec [OF assms] by blast

theorem reconcile_takes_lost_players_offline_witness:
  "\<exists>m G' w'. ReconcileLeaseLosses sample_env (lost_game, active_world) = (m, G', w') \<and> offline_here lost_game 7 \<noteq> offline_here G' 7"
proof -
  obtain m G' w' where r: "ReconcileLeaseLosses sample_env (lost_game, active_world) = (m, G', w')" by (metis prod_cases3)
  obtain rec where s: "session_of active_game 7 = Some rec" "ss_state rec = st_online" "bound_here active_game 7"
    using active_online by (auto simp: online_with_def view_def split: option.splits)
  have "(7, rec) \<in> set (sessions lost_game)" using s(1) by (auto simp: lost_game_def session_of_def dest: map_of_SomeD)
  moreover have "lost_player lost_game (7, rec)" using s by (simp add: lost_player_def lost_game_def IsHeldLocally_def sample_lease_def)
  ultimately have "offline_here G' 7"
    using reconcile_takes_lost_players_offline [OF sample_quiet lost_game_inv r] by fastforce
  moreover have "\<not> offline_here lost_game 7" using s by (simp add: offline_here_def lost_game_def bound_here_def)
  ultimately show ?thesis using r by blast
qed

text \<open>
  C6. A message to a receiver that lives in another process, without a direct link to it, goes to the first
  visible relay; the relay, which has a link to the owner, forwards the same envelope; and the owner dispatches it
  to the receiver host of that type with target and payload unchanged.
\<close>

theorem message_crosses_a_relay:
  fixes MA :: "('a, 's) messenger" and MR :: "('b, 't) messenger" and MB :: "('c, 'u) messenger"
    and target :: ReceiverAddress and m :: proto_message
  defines "e \<equiv> set_resolved (mSelf MB) (outgoing MA target m)"
  assumes "envelope_wire_documented W (envelope_ToProto e)" and "rtype target \<noteq> RT_process"
    and "loc_kind (Resolve (mReceiverDirectory MA) target) = loc_single_process"
    and "loc_processes (Resolve (mReceiverDirectory MA) target) = [mSelf MB]" and "mSelf MB \<noteq> mSelf MA"
    and "case messenger_links MA of None \<Rightarrow> True | Some l \<Rightarrow> \<not> HasHealthyDirectLink l (mSelf MB)"
    and "first_relay (mRelayServiceType MA) (routing_context MA e None) = Some d" and "process d = mSelf MR"
    and "mSelf MB \<noteq> mSelf MR" and "messenger_links MR = Some l" and "HasHealthyDirectLink l (mSelf MB)"
  shows "SendToReceiver MA target m s = send_remote MA (mSelf MR) e s \<and>
     HandleIncomingFrame W MR (data_frame W c e) t = send_remote MR (mSelf MB) e t \<and>
     HandleIncomingFrame W MB (data_frame W c' e) u = DispatchLocal MB e u \<and>
     target_receiver (header e) = target \<and> payload_bytes e = serialized m"
proof -
  let ?o = "outgoing MA target m"
  let ?loc = "Resolve (mReceiverDirectory MA) target"
  have sem: "semantic (header e) = direct_delivery" and ty: "rtype (target_receiver (header e)) \<noteq> RT_process"
    and res: "resolved_target_process (header e) = Some (mSelf MB)"
    and sc: "e\<lparr>broadcast_scope := default_BroadcastScope\<rparr> = e" and pl: "target_receiver (header e) = target" "payload_bytes e = serialized m"
    using assms(3) by (simp_all add: e_def set_resolved_def outgoing_def default_Envelope_def default_EnvelopeHeader_def)
  have ann: "annotate_owner (Some ?loc) ?o = e"
    using assms(3-5) by (simp add: annotate_owner_def e_def outgoing_def default_Envelope_def default_EnvelopeHeader_def)
  have f: "first_relay (mRelayServiceType MA) (routing_context MA e (Some ?loc)) = Some d"
    using assms(8) by (cases "mMembership MA") (simp_all add: first_relay_def routing_context_def)
  have "route MA ?o (Some ?loc) = plan single_next_hop [hop (mSelf MR) False]"
    using assms(4-7,9) sem f
    by (cases "messenger_links MA") (simp_all add: route_def policy_Resolve_def ann ResolveSingleTarget_def)
  then have "SendToReceiver MA target m s = send_remote MA (mSelf MR) e s"
    by (simp add: SendToReceiver_def SendEnvelope.simps [of MA ?o] ann Let_def)
  moreover have "HandleIncomingFrame W MR (data_frame W c e) t = send_remote MR (mSelf MB) e t"
    using relay_forwards [OF assms(2) sem ty res assms(10-12), of c t] sc by simp
  moreover have "HandleIncomingFrame W MB (data_frame W c' e) u = DispatchLocal MB e u"
    using incoming_for_self [OF assms(2) sem ty res, of c' u] sc by simp
  ultimately show ?thesis using pl by blast
qed

theorem message_crosses_a_relay_witness:
  "\<exists>e. SendToReceiver (sample_messenger p_gate None) player_seven sample_message [] = (Success, [(p_relay, e)]) \<and>
     HandleIncomingFrame (wire_of e) (sample_messenger p_relay (Some (links_to p_game))) (data_frame (wire_of e) 1 e) [] = (Success, [(p_game, e)]) \<and>
     payload_bytes e = [1]"
proof -
  let ?e = "set_resolved (mSelf (sample_messenger p_game None)) (outgoing (sample_messenger p_gate None) player_seven sample_message)"
  have f: "first_relay (mRelayServiceType (sample_messenger p_gate None)) (routing_context (sample_messenger p_gate None) ?e None) = Some relay_member"
    by (simp add: first_relay_def sample_messenger_def FindByService_def three_members_def relay_member_def gate_member_def places)
  have res: "Resolve (mReceiverDirectory (sample_messenger p_gate None)) player_seven =
     \<lparr>loc_kind = loc_single_process, loc_processes = [p_game], loc_version = 1\<rparr>"
    using bound_seven(2) by (simp add: local_dir.resolve_owner sample_messenger_def)
  show ?thesis
    using message_crosses_a_relay [where W = "wire_of ?e" and MA = "sample_messenger p_gate None" and MR = "sample_messenger p_relay (Some (links_to p_game))"
        and MB = "sample_messenger p_game None" and target = player_seven and m = sample_message and d = relay_member and s = "[]" and t = "[]" and c = 1,
        OF wire_of _ _ _ _ _ f] res
    by (intro exI [of _ ?e])
      (simp add: sample_messenger_def player_seven_def PlayerReceiverAddress_def places relay_member_def send_remote_def sample_message_def)
qed

text \<open>
  C19. A frame written by one transport is the frame the reader of the peer hands on.
\<close>

theorem frame_survives_the_wire:
  assumes "send_documented K sent" and "recv_documented K' pending"
    and "Send K f (t, w) = (r, ev, t', w')" and "ok r"
    and "map_of (mConnections t) (connection_id f) = Some c" and "sent w (socket_fd c) = []"
    and "magic (frame_header f) = kFrameMagic" and "unat (frame_length (frame_header f)) = length (payload f)"
    and "map_of (mConnections u) i = Some d" and "\<not> closed d"
    and "pending v (socket_fd d) = sent w' (socket_fd c) @ rest"
  shows "\<exists>v'. ReaderIteration K' i (u, v) = (reader_frame (f\<lparr>connection_id := i\<rparr>), [], u, v') \<and>
     pending v' (socket_fd d) = rest"
proof -
  have "sent w' (socket_fd c) = SerializeFrameHeader (frame_header f) @ payload f"
    using Send_writes_frame [OF assms(1,3,4)] assms(5,6) by auto
  then have "pending v (socket_fd d) = SerializeFrameHeader (frame_header f) @ payload f @ rest"
    using assms(11) by simp
  from ReaderIteration_reads_frame [OF assms(2,9,10,7,8) this] show ?thesis by (cases f) simp
qed

theorem frame_survives_the_wire_witness:
  "\<exists>r w v. Send loop_sockets sample_frame (sample_transport, []) = (r, [], sample_transport, w) \<and> ok r \<and>
     ReaderIteration loop_sockets 1 (sample_transport, w) = (reader_frame sample_frame, [], sample_transport, v) \<and> v = []"
proof -
  obtain r where s: "Send loop_sockets sample_frame (sample_transport, []) =
     (r, [], sample_transport, SerializeFrameHeader (frame_header sample_frame) @ [7, 8])" "ok r"
    using sample_send by blast
  show ?thesis
    using frame_survives_the_wire [OF loop_send loop_recv s, of _ sample_transport 1 _ "SerializeFrameHeader (frame_header sample_frame) @ [7, 8]" "[]"] s
    by (auto simp: sample_transport_def sample_frame_def default_FrameHeader_def)
qed

text \<open>
  C27. Two managers see a connection come up, drain the frames this queues, and each handles what the other one sent: the Hello
  frames, and then the answers that handling them has queued. After that each holds a link to the other that is active when the
  protocol versions agree and closed when they do not.
\<close>

theorem handshake_agrees:
  assumes "mOutboundFrames a = []" and "mOutboundFrames b = []" and "wire_roundtrip W (hello_of a)" and "wire_roundtrip W (hello_of b)"
    and "wire_roundtrip W (answer_of b a)" and "wire_roundtrip W (answer_of a b)" and "handshake W c d (a, b) = (a', b')"
  defines "st \<equiv> (if lm_mProtocolVersion a \<noteq> 0 \<and> lm_mProtocolVersion a = lm_mProtocolVersion b then link_active else link_closed)"
  shows "map_of (mLinks a') c = Some \<lparr>link_connection_id = c, remote_process = lm_mSelf b, link_state = st\<rparr> \<and>
    map_of (mLinks b') d = Some \<lparr>link_connection_id = d, remote_process = lm_mSelf a, link_state = st\<rparr>"
  using handshake_links [OF assms(1-7)] by (simp add: st_def agreed_def)

theorem handshake_agrees_witness:
  "\<exists>a b. handshake tag_wire 3 4 (LinkManager_new default_ProcessRef 1, LinkManager_new default_ProcessRef 1) = (a, b) \<and>
     map_of (mLinks a) 3 = Some \<lparr>link_connection_id = 3, remote_process = default_ProcessRef, link_state = link_active\<rparr> \<and>
     map_of (mLinks b) 4 = Some \<lparr>link_connection_id = 4, remote_process = default_ProcessRef, link_state = link_active\<rparr>"
proof -
  let ?m = "LinkManager_new default_ProcessRef 1"
  obtain a b where h: "handshake tag_wire 3 4 (?m, ?m) = (a, b)" by fastforce
  show ?thesis using handshake_agrees [OF _ _ tag_hello tag_hello tag_answer tag_answer h] h by (simp add: LinkManager_new_def)
qed

text \<open>
  C28. Once a receiver has moved to another process, the old owner can no longer unbind it with the version it
  knew, and the receiver keeps resolving to the new owner.
\<close>

theorem stale_owner_cannot_unbind:
  assumes "directory_valid d" and "Receiver.owner_of d r = Some (p, v)" and "v + 1 \<noteq> 0"
    and "Rebind d r p q = (res, d')" and "Invalidate d' r p v = (res2, d'')"
  shows "\<not> ok res2 \<and> Resolve d'' r = \<lparr>loc_kind = loc_single_process, loc_processes = [q], loc_version = v + 1\<rparr>"
proof -
  have "\<not> ok res2 \<and> d'' = d'" by (rule local_dir.stale_invalidate_refused [OF assms])
  moreover have "Receiver.owner_of d' r = Some (q, v + 1)" using local_dir.rebind_owner [OF assms(1-4)] by simp
  ultimately show ?thesis by (simp add: local_dir.resolve_owner)
qed

theorem stale_owner_cannot_unbind_witness:
  "\<exists>res d' res2 d''. Rebind bound_seven player_seven p_game p_gate = (res, d') \<and> ok res \<and>
     Invalidate d' player_seven p_game 1 = (res2, d'') \<and> \<not> ok res2 \<and> loc_processes (Resolve d'' player_seven) = [p_gate]"
proof -
  obtain res d' where r: "Rebind bound_seven player_seven p_game p_gate = (res, d')" by (cases "Rebind bound_seven player_seven p_game p_gate")
  obtain res2 d'' where i: "Invalidate d' player_seven p_game 1 = (res2, d'')" by (cases "Invalidate d' player_seven p_game 1")
  have "ok res" using local_dir.rebind_owner [OF bound_seven(1,2) _ r] by simp
  then show ?thesis using stale_owner_cannot_unbind [OF bound_seven(1,2) _ r i] r i by auto
qed

text \<open>
  C29. A broadcast reaches each of these visible processes once and no other: those of the service that the scope names, or else
  the target of the message; not the sending process itself unless the scope includes it; and with every label the scope
  requires, under the same key and with the same value.
\<close>

theorem broadcast_reaches_the_service:
  fixes ctx :: RoutingContext
  defines "scope \<equiv> broadcast_scope (ctx_envelope ctx)" and "target \<equiv> target_receiver (header (ctx_envelope ctx))"
  assumes "semantic (header (ctx_envelope ctx)) = broadcast_delivery" and "ctx_membership ctx = Some t" and "table_valid t"
    and "rtype target = RT_service"
    and "scope_service_type scope = Some ty \<or> scope_service_type scope = None \<and> ty = ucast (key_hi target)"
  shows "next_hop ` set (hops (policy_Resolve relay ctx)) =
     {process p | p. Find t (process_id (process p)) = Some p \<and> service_type (process_id (process p)) = ty \<and>
        (process p = ctx_self ctx \<longrightarrow> include_local scope) \<and>
        (\<forall>key value. (key, value) \<in> set (required_labels scope) \<longrightarrow> (key, value) \<in> set (labels p))} \<and>
     distinct (map next_hop (hops (policy_Resolve relay ctx)))"
proof -
  have ty: "broadcast_service (ctx_envelope ctx) = ty" using assms(7) by (auto simp: broadcast_service_def scope_def target_def)
  have scope: "in_scope ctx p \<longleftrightarrow> (process p = ctx_self ctx \<longrightarrow> include_local scope) \<and>
      (\<forall>key value. (key, value) \<in> set (required_labels scope) \<longrightarrow> (key, value) \<in> set (labels p))" for p
    by (auto simp: in_scope_def MatchesLabels_def list_all_iff list_ex_iff scope_def)
  show ?thesis using broadcast_hops [OF assms(3-5)] assms(6) unfolding target_def ty scope by blast
qed

theorem broadcast_reaches_the_service_witness:
  "p_gate \<in> next_hop ` set (hops (policy_Resolve 30 service_ctx)) \<and> p_game \<notin> next_hop ` set (hops (policy_Resolve 30 service_ctx))"
proof -
  have v: "table_valid three_members"
    by (simp add: three_members_def table_valid_def key_of_def places relay_member_def gate_member_def sample_self_def game_BuildSelfDescriptor_def)
  have ctx: "semantic (header (ctx_envelope service_ctx)) = broadcast_delivery" "ctx_membership service_ctx = Some three_members"
    "rtype (target_receiver (header (ctx_envelope service_ctx))) = RT_service"
    "scope_service_type (broadcast_scope (ctx_envelope service_ctx)) = Some 20 \<or>
     scope_service_type (broadcast_scope (ctx_envelope service_ctx)) = None \<and> (20 :: u32) = ucast (key_hi (target_receiver (header (ctx_envelope service_ctx))))"
    by (simp_all add: service_ctx_def service_envelope_def default_BroadcastScope_def)
  note reach = broadcast_reaches_the_service [OF ctx(1,2) v ctx(3,4), of 30]
  have "Find three_members (process_id (process gate_member)) = Some gate_member"
    by (simp add: Find_def three_members_def key_of_def relay_member_def gate_member_def places)
  moreover have "service_type (process_id (process gate_member)) = 20" "service_type (process_id p_game) \<noteq> 20"
    "process gate_member \<noteq> ctx_self service_ctx" "required_labels (broadcast_scope (ctx_envelope service_ctx)) = []"
    by (simp_all add: gate_member_def places service_ctx_def default_BroadcastScope_def)
  ultimately have "process gate_member \<in> next_hop ` set (hops (policy_Resolve 30 service_ctx)) \<and>
      p_game \<notin> next_hop ` set (hops (policy_Resolve 30 service_ctx))"
    unfolding reach [THEN conjunct1] by auto
  moreover have "process gate_member = p_gate" by (simp add: gate_member_def)
  ultimately show ?thesis by simp
qed

text \<open>
  C32. Whenever a poll of the watch would block, a watch thread is alive that has not been asked to stop and will
  still push a result: the reader never waits for nobody.
\<close>

theorem watch_never_waits_for_nobody:
  assumes "watch_reachable s" and "WaitForWatchEvent s = None"
  shows "mWatchThread s \<and> \<not> mWatchStopRequested s \<and> watch_pc s \<noteq> wp_done \<and> (\<forall>k. watch_pc s \<noteq> wp_push k)"
  using watch_reachable_inv [OF assms(1)] assms(2)
  by (auto simp: watch_inv_def WaitForWatchEvent_def split: list.splits if_splits)

theorem watch_never_waits_for_nobody_witness:
  "WaitForWatchEvent (snd (StartWatchPrefix watch_init)) = None \<and> mWatchThread (snd (StartWatchPrefix watch_init))"
proof -
  have "watch_reachable (snd (StartWatchPrefix watch_init))"
    by (rule watch_reachable.step [OF watch_reachable.init]) (rule watch_step.start, simp_all add: watch_init_def)
  moreover have "WaitForWatchEvent (snd (StartWatchPrefix watch_init)) = None"
    by (simp add: StartWatchPrefix_def watch_init_def WaitForWatchEvent_def)
  ultimately show ?thesis using watch_never_waits_for_nobody by blast
qed

end
